(* ===== verification/JS_Prelude.thy ===== *)
theory JS_Prelude
  imports
    Complex_Main
    "HOL-Library.AList"
    "HOL-Library.Multiset"
    "HOL-Library.Sublist"
    "HOL-Library.Char_ord"
    "HOL-Library.List_Lexorder"
begin

text \<open>
  The values and the parts of the JavaScript language and its standard library that the
  server uses: truthiness, strict equality, object spread, string tests, \<open>parseInt\<close>,
  \<open>Number\<close>, array \<open>filter\<close>, \<open>slice\<close> and the stable \<open>sort\<close>.  Strings are the UTF-8
  bytes of the source's strings (one \<open>char\<close> per byte); numbers are exact rationals together with
  NaN and the infinities, so the rounding of doubles beyond 53 bits is not represented.
\<close>

section \<open>Fact collections\<close>

named_theorems js_simps \<open>evaluation rules of the language layer\<close>
named_theorems fs_defs \<open>definitions of the file store operations\<close>
named_theorems repo_defs \<open>definitions of the repository operations\<close>
named_theorems http_defs \<open>definitions of the request handlers\<close>
named_theorems msg_defs \<open>the texts of the messages\<close>

section \<open>Values\<close>

datatype val =
    VUndef
  | VNull
  | VBool bool
  | VNum rat
  | VNaN
  | VInf bool \<comment> \<open>\<open>True\<close> is positive\<close>
  | VStr string
  | VArr "val list"
  | VObj "(string \<times> val) list"

type_synonym row = "(string \<times> val) list"

abbreviation VInt :: "int \<Rightarrow> val" where
  "VInt n \<equiv> VNum (rat_of_int n)"

abbreviation VNat :: "nat \<Rightarrow> val" where
  "VNat n \<equiv> VNum (rat_of_nat n)"

text \<open>Errors a handler can see: a \<open>TypeError\<close> of the engine, the application's own errors, and
  \<open>Error\<close> with a message.\<close>

datatype js_error =
    TypeError
  | AppErr nat string string
  | ZodErr string string
  | PlainError string

fun truthy :: "val \<Rightarrow> bool" where
  "truthy VUndef = False"
| "truthy VNull = False"
| "truthy (VBool b) = b"
| "truthy (VNum x) = (x \<noteq> 0)"
| "truthy VNaN = False"
| "truthy (VInf _) = True"
| "truthy (VStr s) = (s \<noteq> [])"
| "truthy (VArr _) = True"
| "truthy (VObj _) = True"

fun nullish :: "val \<Rightarrow> bool" where
  "nullish VUndef = True"
| "nullish VNull = True"
| "nullish _ = False"

definition js_or :: "val \<Rightarrow> val \<Rightarrow> val" where
  "js_or a b = (if truthy a then a else b)"

definition js_coalesce :: "val \<Rightarrow> val \<Rightarrow> val" where
  "js_coalesce a b = (if nullish a then b else a)"

text \<open>The operator \<open>===\<close>.  Two objects or arrays read from different places are never the same
  reference, and the source never compares an object with itself, so they are unequal.\<close>

fun strict_eq :: "val \<Rightarrow> val \<Rightarrow> bool" where
  "strict_eq VUndef VUndef = True"
| "strict_eq VNull VNull = True"
| "strict_eq (VBool a) (VBool b) = (a = b)"
| "strict_eq (VNum a) (VNum b) = (a = b)"
| "strict_eq (VInf a) (VInf b) = (a = b)"
| "strict_eq (VStr a) (VStr b) = (a = b)"
| "strict_eq _ _ = False"

lemma truthy_VInt [simp]: "truthy (VInt n) = (n \<noteq> 0)"
  by simp

lemma strict_eqD: "strict_eq a b \<Longrightarrow> a = b"
  by (induction a b rule: strict_eq.induct) auto

lemma strict_eq_refl_iff:
  "strict_eq a a \<longleftrightarrow> (case a of VNaN \<Rightarrow> False | VArr _ \<Rightarrow> False | VObj _ \<Rightarrow> False | _ \<Rightarrow> True)"
  by (cases a) auto

lemma strict_eq_VNum [simp]:
  "strict_eq v (VNum x) \<longleftrightarrow> v = VNum x" "strict_eq (VNum x) v \<longleftrightarrow> v = VNum x"
  by (cases v; auto)+

lemma strict_eq_VStr [simp]:
  "strict_eq v (VStr x) \<longleftrightarrow> v = VStr x" "strict_eq (VStr x) v \<longleftrightarrow> v = VStr x"
  by (cases v; auto)+

lemma strict_eq_sym: "strict_eq a b = strict_eq b a"
  by (induction a b rule: strict_eq.induct) auto

section \<open>Objects\<close>

text \<open>Reading a property of an object: a missing key reads as \<open>undefined\<close>.\<close>

definition fld :: "row \<Rightarrow> string \<Rightarrow> val" where
  "fld r k = (case map_of r k of None \<Rightarrow> VUndef | Some v \<Rightarrow> v)"

text \<open>Reading a property of any value: on \<open>undefined\<close> and \<open>null\<close> the read throws.\<close>

fun prop_of :: "val \<Rightarrow> string \<Rightarrow> js_error + val" where
  "prop_of VUndef k = Inl TypeError"
| "prop_of VNull k = Inl TypeError"
| "prop_of (VObj r) k = Inr (fld r k)"
| "prop_of _ k = Inr VUndef"

text \<open>The object literal \<open>{...r, ...u}\<close>: a key of \<open>r\<close> keeps its place, a new key comes last.\<close>

fun spread :: "row \<Rightarrow> row \<Rightarrow> row" where
  "spread r [] = r"
| "spread r ((k, v) # u) = spread (AList.update k v r) u"

lemma map_of_spread: "map_of (spread r u) = map_of r ++ map_of (rev u)"
proof (induction r u rule: spread.induct)
  case (2 r k v u)
  then show ?case
    by (simp add: update_conv' map_add_def fun_eq_iff split: option.splits)
qed simp

lemma fld_Nil [simp]: "fld [] k = VUndef"
  by (simp add: fld_def)

lemma fld_Cons [simp]: "fld ((k, v) # r) k' = (if k = k' then v else fld r k')"
  by (simp add: fld_def)

lemma fld_update [simp]: "fld (AList.update k v r) k' = (if k = k' then v else fld r k')"
  by (simp add: fld_def update_conv')

lemma fld_spread_None: "k \<notin> fst ` set u \<Longrightarrow> fld (spread r u) k = fld r k"
  by (induction r u rule: spread.induct) auto

lemma fld_spread_keep: "k \<notin> fst ` set u \<Longrightarrow> fld (spread (AList.update k v r) u) k = v"
  by (simp add: fld_spread_None)

lemma fld_spread:
  assumes "distinct (map fst u)"
  shows "fld (spread r u) k = (if k \<in> fst ` set u then fld u k else fld r k)"
  using assms
proof (induction r u rule: spread.induct)
  case (2 r k' v u)
  then have "k' \<notin> fst ` set u"
    by simp
  with 2 show ?case
    by (auto simp: fld_spread_None)
qed simp

lemma keys_update: "set (map fst (AList.update k v r)) = insert k (set (map fst r))"
  by (auto simp: update_keys)

lemma keys_update_image [simp]: "fst ` set (AList.update k v r) = insert k (fst ` set r)"
  using keys_update [of k v r] by simp

lemma keys_spread: "fst ` set (spread r u) = fst ` set r \<union> fst ` set u"
proof (induction r u rule: spread.induct)
  case (2 r k v u)
  then show ?case
    using keys_update [of k v r] by auto
qed simp

lemma distinct_keys_spread:
  "distinct (map fst r) \<Longrightarrow> distinct (map fst (spread r u))"
  by (induction r u rule: spread.induct) (simp_all add: distinct_update)

section \<open>Strings\<close>

definition is_digit :: "char \<Rightarrow> bool" where
  "is_digit c \<longleftrightarrow> of_char c \<ge> (48::nat) \<and> of_char c \<le> (57::nat)"

definition digit_val :: "char \<Rightarrow> nat" where
  "digit_val c = of_char c - 48"

definition digit_char :: "nat \<Rightarrow> char" where
  "digit_char d = char_of (48 + d)"

text \<open>Value of a string of decimal digits, most significant first.\<close>

definition digits_val :: "string \<Rightarrow> nat" where
  "digits_val s = foldl (\<lambda>n c. 10 * n + digit_val c) 0 s"

text \<open>\<open>s.includes(t)\<close>, \<open>s.startsWith(t)\<close> and \<open>s.endsWith(t)\<close>.\<close>

fun str_includes :: "string \<Rightarrow> string \<Rightarrow> bool" where
  "str_includes [] t = (t = [])"
| "str_includes (c # s) t = (prefix t (c # s) \<or> str_includes s t)"

lemma str_includes_iff: "str_includes s t \<longleftrightarrow> (\<exists>p q. s = p @ t @ q)"
proof (induction s)
  case Nil
  then show ?case by auto
next
  case (Cons c s)
  have "(\<exists>p q. c # s = p @ t @ q) \<longleftrightarrow> prefix t (c # s) \<or> (\<exists>p q. s = p @ t @ q)"
    by (metis append_eq_Cons_conv append_Nil append_Cons prefix_def)
  with Cons show ?case by simp
qed

text \<open>\<open>s.toLowerCase()\<close> on the letters of ASCII; other letters are left as they are.\<close>

definition to_lower_char :: "char \<Rightarrow> char" where
  "to_lower_char c =
     (let n = of_char c :: nat in if 65 \<le> n \<and> n \<le> 90 then char_of (n + 32) else c)"

definition to_lower :: "string \<Rightarrow> string" where
  "to_lower s = map to_lower_char s"

text \<open>\<open>s.trim()\<close>: the white space and line terminators of the language, as UTF-8.\<close>

definition js_ws :: "string list" where
  "js_ws =
    [[CHR 0x09], [CHR 0x0A], [CHR 0x0B], [CHR 0x0C], [CHR 0x0D], [CHR 0x20],
     [CHR 0xC2, CHR 0xA0], [CHR 0xEF, CHR 0xBB, CHR 0xBF],
     [CHR 0xE1, CHR 0x9A, CHR 0x80],
     [CHR 0xE2, CHR 0x80, CHR 0x80], [CHR 0xE2, CHR 0x80, CHR 0x81],
     [CHR 0xE2, CHR 0x80, CHR 0x82], [CHR 0xE2, CHR 0x80, CHR 0x83],
     [CHR 0xE2, CHR 0x80, CHR 0x84], [CHR 0xE2, CHR 0x80, CHR 0x85],
     [CHR 0xE2, CHR 0x80, CHR 0x86], [CHR 0xE2, CHR 0x80, CHR 0x87],
     [CHR 0xE2, CHR 0x80, CHR 0x88], [CHR 0xE2, CHR 0x80, CHR 0x89],
     [CHR 0xE2, CHR 0x80, CHR 0x8A], [CHR 0xE2, CHR 0x80, CHR 0xA8],
     [CHR 0xE2, CHR 0x80, CHR 0xA9], [CHR 0xE2, CHR 0x80, CHR 0xAF],
     [CHR 0xE2, CHR 0x81, CHR 0x9F], [CHR 0xE3, CHR 0x80, CHR 0x80]]"

fun drop_ws :: "string list \<Rightarrow> nat \<Rightarrow> string \<Rightarrow> string" where
  "drop_ws ws 0 s = s"
| "drop_ws ws (Suc n) s =
     (case find (\<lambda>w. prefix w s) ws of
        None \<Rightarrow> s
      | Some w \<Rightarrow> drop_ws ws n (drop (length w) s))"

lemma drop_ws_id: "\<forall>w\<in>set ws. \<not> prefix w s \<Longrightarrow> drop_ws ws n s = s"
  by (cases n) (auto simp: find_None_iff split: option.split dest: find_Some_iff [THEN iffD1])

definition trim_start :: "string \<Rightarrow> string" where
  "trim_start s = drop_ws js_ws (length s) s"

definition trim_end :: "string \<Rightarrow> string" where
  "trim_end s = rev (drop_ws (map rev js_ws) (length s) (rev s))"

definition trim :: "string \<Rightarrow> string" where
  "trim s = trim_end (trim_start s)"

section \<open>Numbers\<close>

text \<open>\<open>parseInt(s, 10)\<close>: leading white space, an optional sign, the longest run of digits;
  \<open>None\<close> is NaN.\<close>

definition parse_int :: "string \<Rightarrow> int option" where
  "parse_int s =
     (let t = trim_start s;
          (neg, u) = (case t of [] \<Rightarrow> (False, [])
                      | c # t' \<Rightarrow> if c = CHR ''-'' then (True, t')
                                else if c = CHR ''+'' then (False, t') else (False, t));
          ds = takeWhile is_digit u
      in if ds = [] then None
         else Some (if neg then - int (digits_val ds) else int (digits_val ds)))"

definition num_of_parse :: "int option \<Rightarrow> val" where
  "num_of_parse p = (case p of None \<Rightarrow> VNaN | Some n \<Rightarrow> VInt n)"

text \<open>The decimal literals that \<open>Number\<close> reads: digits, fraction and exponent, no sign.\<close>

definition dec_value :: "string \<Rightarrow> string \<Rightarrow> int \<Rightarrow> rat" where
  "dec_value ip fp e =
     (let k = e - int (length fp); n = rat_of_nat (digits_val (ip @ fp))
      in if k \<ge> 0 then n * 10 ^ nat k else n / 10 ^ nat (- k))"

definition parse_exponent :: "string \<Rightarrow> int option" where
  "parse_exponent s =
     (case s of
        [] \<Rightarrow> Some 0
      | c # t \<Rightarrow>
          if c = CHR ''e'' \<or> c = CHR ''E'' then
            (let (neg, u) = (case t of [] \<Rightarrow> (False, [])
                             | d # t' \<Rightarrow> if d = CHR ''-'' then (True, t')
                                       else if d = CHR ''+'' then (False, t') else (False, t))
             in if u \<noteq> [] \<and> list_all is_digit u
                then Some (if neg then - int (digits_val u) else int (digits_val u)) else None)
          else None)"

definition parse_decimal :: "string \<Rightarrow> rat option" where
  "parse_decimal s =
     (let ip = takeWhile is_digit s; r = dropWhile is_digit s;
          (fp, r') = (case r of [] \<Rightarrow> ([], [])
                      | c # t \<Rightarrow> if c = CHR ''.'' then (takeWhile is_digit t, dropWhile is_digit t)
                                else ([], r))
      in if ip = [] \<and> fp = [] then None
         else map_option (dec_value ip fp) (parse_exponent r'))"

text \<open>The digits of \<open>0x\<close>, \<open>0o\<close> and \<open>0b\<close> literals.\<close>

definition radix_digit :: "char \<Rightarrow> nat" where
  "radix_digit c =
     (let n = of_char c :: nat in
      if is_digit c then n - 48
      else if 97 \<le> n \<and> n \<le> 122 then n - 87
      else if 65 \<le> n \<and> n \<le> 90 then n - 55 else 99)"

definition parse_radix :: "nat \<Rightarrow> string \<Rightarrow> rat option" where
  "parse_radix b s =
     (if s \<noteq> [] \<and> list_all (\<lambda>c. radix_digit c < b) s
      then Some (rat_of_nat (foldl (\<lambda>n c. b * n + radix_digit c) 0 s)) else None)"

definition num_opt :: "rat option \<Rightarrow> val" where
  "num_opt q = (case q of None \<Rightarrow> VNaN | Some x \<Rightarrow> VNum x)"

definition str_to_num :: "string \<Rightarrow> val" where
  "str_to_num s0 =
     (let s = trim s0; b = take 2 (to_lower s) in
      if s = [] then VNum 0
      else if b = ''0x'' then num_opt (parse_radix 16 (drop 2 s))
      else if b = ''0o'' then num_opt (parse_radix 8 (drop 2 s))
      else if b = ''0b'' then num_opt (parse_radix 2 (drop 2 s))
      else let (neg, u) = (if hd s = CHR ''-'' then (True, tl s)
                           else if hd s = CHR ''+'' then (False, tl s) else (False, s))
           in if u = ''Infinity'' then VInf (\<not> neg)
              else num_opt (map_option (\<lambda>x. if neg then - x else x) (parse_decimal u)))"

text \<open>\<open>Number(v)\<close>.  An array of one element converts as that element's text does; longer arrays
  and objects have no numeric text.\<close>

fun to_num :: "val \<Rightarrow> val" where
  "to_num VUndef = VNaN"
| "to_num VNull = VNum 0"
| "to_num (VBool b) = VNum (if b then 1 else 0)"
| "to_num (VNum x) = VNum x"
| "to_num VNaN = VNaN"
| "to_num (VInf p) = VInf p"
| "to_num (VStr s) = str_to_num s"
| "to_num (VArr []) = VNum 0"
| "to_num (VArr [v]) = (case v of VUndef \<Rightarrow> VNum 0 | VNull \<Rightarrow> VNum 0 | VBool _ \<Rightarrow> VNaN | _ \<Rightarrow> to_num v)"
| "to_num (VArr _) = VNaN"
| "to_num (VObj _) = VNaN"

text \<open>Sign of \<open>a - b\<close> for two numbers, as a sort comparator sees it (NaN counts as 0).\<close>

fun num_diff :: "val \<Rightarrow> val \<Rightarrow> rat" where
  "num_diff (VNum x) (VNum y) = x - y"
| "num_diff (VInf p) (VNum _) = (if p then 1 else - 1)"
| "num_diff (VNum _) (VInf p) = (if p then - 1 else 1)"
| "num_diff (VInf p) (VInf q) = (if p = q then 0 else if p then 1 else - 1)"
| "num_diff _ _ = 0"

text \<open>The relation \<open><\<close>: two strings compare by code points, anything else as numbers; a NaN
  makes every comparison false.\<close>

fun num_less :: "val \<Rightarrow> val \<Rightarrow> bool" where
  "num_less (VNum x) (VNum y) = (x < y)"
| "num_less (VInf p) (VNum _) = (\<not> p)"
| "num_less (VNum _) (VInf p) = p"
| "num_less (VInf p) (VInf q) = (\<not> p \<and> q)"
| "num_less _ _ = False"

fun js_less :: "val \<Rightarrow> val \<Rightarrow> bool" where
  "js_less (VStr s) (VStr t) = (s < t)"
| "js_less a b = num_less (to_num a) (to_num b)"

text \<open>The relation \<open><=\<close> is not the negation of \<open>>\<close> when a NaN is compared.\<close>

fun num_leq :: "val \<Rightarrow> val \<Rightarrow> bool" where
  "num_leq (VNum x) (VNum y) = (x \<le> y)"
| "num_leq (VInf p) (VNum _) = (\<not> p)"
| "num_leq (VNum _) (VInf p) = p"
| "num_leq (VInf p) (VInf q) = (\<not> p \<or> q)"
| "num_leq _ _ = False"

fun js_leq :: "val \<Rightarrow> val \<Rightarrow> bool" where
  "js_leq (VStr s) (VStr t) = (s \<le> t)"
| "js_leq a b = num_leq (to_num a) (to_num b)"

text \<open>\<open>a - b\<close> and, for operands that are numbers, \<open>a + b\<close>.\<close>

fun num_add :: "val \<Rightarrow> val \<Rightarrow> val" where
  "num_add (VNum x) (VNum y) = VNum (x + y)"
| "num_add (VInf p) (VNum _) = VInf p"
| "num_add (VNum _) (VInf p) = VInf p"
| "num_add (VInf p) (VInf q) = (if p = q then VInf p else VNaN)"
| "num_add _ _ = VNaN"

fun num_neg :: "val \<Rightarrow> val" where
  "num_neg (VNum x) = VNum (- x)"
| "num_neg (VInf p) = VInf (\<not> p)"
| "num_neg _ = VNaN"

definition js_sub :: "val \<Rightarrow> val \<Rightarrow> val" where
  "js_sub a b = num_add (to_num a) (num_neg (to_num b))"

lemma js_less_VNum [simp]: "js_less (VNum x) (VNum y) = (x < y)"
  by simp

lemma js_sub_VNum [simp]: "js_sub (VNum x) (VNum y) = VNum (x - y)"
  by (simp add: js_sub_def)

section \<open>Decimal text of numbers\<close>

function nat_to_string :: "nat \<Rightarrow> string" where
  "nat_to_string n =
     (if n < 10 then [digit_char n] else nat_to_string (n div 10) @ [digit_char (n mod 10)])"
  by pat_completeness auto
termination
  by (relation "measure id") auto

declare nat_to_string.simps [simp del]

definition int_to_string :: "int \<Rightarrow> string" where
  "int_to_string n = (if n < 0 then CHR ''-'' # nat_to_string (nat (- n)) else nat_to_string (nat n))"

text \<open>\<open>s.padStart(n, '0')\<close>.\<close>

definition pad0 :: "nat \<Rightarrow> string \<Rightarrow> string" where
  "pad0 n s = replicate (n - length s) (CHR ''0'') @ s"

lemma is_digit_digit_char [simp]: "d < 10 \<Longrightarrow> is_digit (digit_char d)"
  by (simp add: is_digit_def digit_char_def)

lemma digit_val_digit_char [simp]: "d < 10 \<Longrightarrow> digit_val (digit_char d) = d"
  by (simp add: digit_val_def digit_char_def)

lemma digits_val_snoc: "digits_val (s @ [c]) = 10 * digits_val s + digit_val c"
  by (simp add: digits_val_def)

lemma digits_val_nat_to_string [simp]: "digits_val (nat_to_string n) = n"
proof (induction n rule: nat_to_string.induct)
  case (1 n)
  show ?case
  proof (cases "n < 10")
    case True
    then show ?thesis
      by (simp add: nat_to_string.simps [of n] digits_val_def)
  next
    case False
    with "1.IH" show ?thesis
      by (simp add: nat_to_string.simps [of n] digits_val_snoc)
  qed
qed

lemma nat_to_string_digits: "list_all is_digit (nat_to_string n)"
proof (induction n rule: nat_to_string.induct)
  case (1 n)
  then show ?case
    by (subst nat_to_string.simps) (simp add: list_all_iff)
qed

lemma nat_to_string_nonempty [simp]: "nat_to_string n \<noteq> []"
  by (subst nat_to_string.simps) simp

lemma nat_to_string_inj: "nat_to_string m = nat_to_string n \<longleftrightarrow> m = n"
  by (metis digits_val_nat_to_string)

end
