(* ===== verification/JS_Lists.thy ===== *)
theory JS_Lists
  imports JS_Prelude
begin

text \<open>
  Array methods as the repositories use them: a \<open>filter\<close> and a \<open>map\<close> whose callback may throw,
  \<open>slice\<close> with its negative indices, the stable \<open>sort\<close> with a comparator, and the paging
  arithmetic that all listings share.  The locale \<open>js_comparator\<close> is the contract a comparator
  must meet for \<open>sort\<close> to be meaningful; every listing's comparator is shown to meet it.
\<close>

section \<open>Callbacks that may throw\<close>

fun filterE :: "('a \<Rightarrow> js_error + bool) \<Rightarrow> 'a list \<Rightarrow> js_error + 'a list" where
  "filterE p [] = Inr []"
| "filterE p (x # xs) =
     (case p x of
        Inl e \<Rightarrow> Inl e
      | Inr b \<Rightarrow> (case filterE p xs of
                  Inl e \<Rightarrow> Inl e
                | Inr ys \<Rightarrow> Inr (if b then x # ys else ys)))"

fun mapE :: "('a \<Rightarrow> js_error + 'b) \<Rightarrow> 'a list \<Rightarrow> js_error + 'b list" where
  "mapE f [] = Inr []"
| "mapE f (x # xs) =
     (case f x of
        Inl e \<Rightarrow> Inl e
      | Inr y \<Rightarrow> (case mapE f xs of Inl e \<Rightarrow> Inl e | Inr ys \<Rightarrow> Inr (y # ys)))"

text \<open>\<open>if (cond) rows = rows.filter(p)\<close>\<close>

definition filter_if :: "bool \<Rightarrow> ('a \<Rightarrow> js_error + bool) \<Rightarrow> 'a list \<Rightarrow> js_error + 'a list" where
  "filter_if c p xs = (if c then filterE p xs else Inr xs)"

definition bindE :: "js_error + 'a \<Rightarrow> ('a \<Rightarrow> js_error + 'b) \<Rightarrow> js_error + 'b" where
  "bindE m f = (case m of Inl e \<Rightarrow> Inl e | Inr x \<Rightarrow> f x)"

lemma bindE_simps [simp]: "bindE (Inl e) f = Inl e" "bindE (Inr x) f = f x"
  by (simp_all add: bindE_def)

lemma bindE_Inr_iff: "bindE m f = Inr y \<longleftrightarrow> (\<exists>x. m = Inr x \<and> f x = Inr y)"
  by (cases m) auto

lemma filterE_Inr: "filterE (\<lambda>x. Inr (p x)) xs = Inr (filter p xs)"
  by (induction xs) auto

lemma filterE_cong_Inr:
  "(\<And>x. x \<in> set xs \<Longrightarrow> f x = Inr (p x)) \<Longrightarrow> filterE f xs = Inr (filter p xs)"
  by (induction xs) auto

lemma filter_if_Inr [simp]: "filter_if c (\<lambda>x. Inr (p x)) xs = Inr (filter (\<lambda>x. c \<longrightarrow> p x) xs)"
  by (simp add: filter_if_def filterE_Inr)

lemma filter_if_cong_Inr:
  "(\<And>x. x \<in> set xs \<Longrightarrow> f x = Inr (p x)) \<Longrightarrow> filter_if c f xs = Inr (filter (\<lambda>x. c \<longrightarrow> p x) xs)"
  by (simp add: filter_if_def filterE_cong_Inr)

lemma filterE_sub: "filterE p xs = Inr ys \<Longrightarrow> ys = filter (\<lambda>x. p x = Inr True) xs"
  by (induction xs arbitrary: ys) (auto split: sum.splits if_splits)

lemma filterE_set: "filterE p xs = Inr ys \<Longrightarrow> set ys \<subseteq> set xs"
  by (auto dest: filterE_sub)

lemma filter_if_set: "filter_if c p xs = Inr ys \<Longrightarrow> set ys \<subseteq> set xs"
  by (auto simp: filter_if_def dest: filterE_set split: if_splits)

lemma filter_if_length: "filter_if c p xs = Inr ys \<Longrightarrow> length ys \<le> length xs"
  by (auto simp: filter_if_def dest!: filterE_sub split: if_splits)

lemma mapE_Inr: "mapE (\<lambda>x. Inr (f x)) xs = Inr (map f xs)"
  by (induction xs) auto

lemma mapE_length: "mapE f xs = Inr ys \<Longrightarrow> length ys = length xs"
  by (induction xs arbitrary: ys) (auto split: sum.splits)

section \<open>\<open>slice\<close> and paging\<close>

definition slice_index :: "int \<Rightarrow> nat \<Rightarrow> nat" where
  "slice_index i n = (if i < 0 then nat (max 0 (int n + i)) else min (nat i) n)"

definition js_slice :: "int \<Rightarrow> int \<Rightarrow> 'a list \<Rightarrow> 'a list" where
  "js_slice a b xs =
     (let i = slice_index a (length xs); j = slice_index b (length xs)
      in take (j - i) (drop i xs))"

text \<open>
  The paging of every \<open>list\<close>:
  \<^verbatim>\<open>
  const page = query.page || 1;
  const pageSize = Math.min(query.pageSize || 20, 100);
  const offset = (page - 1) * pageSize;
  const paginated = rows.slice(offset, offset + pageSize);
  \<close>
  \<open>None\<close> is a missing or NaN argument.
\<close>

definition int_or :: "int option \<Rightarrow> int \<Rightarrow> int" where
  "int_or p d = (case p of None \<Rightarrow> d | Some n \<Rightarrow> if n = 0 then d else n)"

definition page_size_of :: "int option \<Rightarrow> int" where
  "page_size_of ps = min (int_or ps 20) 100"

definition paginate :: "int option \<Rightarrow> int option \<Rightarrow> 'a list \<Rightarrow> 'a list" where
  "paginate p ps xs =
     (let offset = (int_or p 1 - 1) * page_size_of ps
      in js_slice offset (offset + page_size_of ps) xs)"

lemma js_slice_nonneg:
  "0 \<le> a \<Longrightarrow> a \<le> b \<Longrightarrow> js_slice a b xs = take (nat (b - a)) (drop (nat a) xs)"
  by (auto simp: js_slice_def slice_index_def Let_def min_def nat_diff_distrib)

lemma length_js_slice_le: "0 \<le> a \<Longrightarrow> a \<le> b \<Longrightarrow> length (js_slice a b xs) \<le> nat (b - a)"
  by (simp add: js_slice_nonneg)

lemma set_js_slice: "set (js_slice a b xs) \<subseteq> set xs"
  unfolding js_slice_def Let_def by (meson set_drop_subset set_take_subset subset_trans)

lemma set_paginate: "set (paginate p ps xs) \<subseteq> set xs"
  by (simp add: paginate_def Let_def set_js_slice)

lemma page_size_of_pos: "0 < s \<Longrightarrow> page_size_of (Some s) = min s 100"
  by (simp add: page_size_of_def int_or_def)

lemma paginate_window:
  assumes "1 \<le> p" "1 \<le> s"
  shows "paginate (Some p) (Some s) xs
       = take (nat (min s 100)) (drop (nat ((p - 1) * min s 100)) xs)"
proof -
  have ps: "page_size_of (Some s) = min s 100"
    using assms by (simp add: page_size_of_pos)
  have "int_or (Some p) 1 = p"
    using assms by (simp add: int_or_def)
  with ps assms show ?thesis
    by (simp add: paginate_def Let_def js_slice_nonneg)
qed

lemma length_paginate_le:
  assumes "int_or p 1 \<ge> 1" "int_or ps 20 \<ge> 1"
  shows "length (paginate p ps xs) \<le> 100"
proof -
  have s: "1 \<le> page_size_of ps" "page_size_of ps \<le> 100"
    using assms by (auto simp: page_size_of_def)
  let ?o = "(int_or p 1 - 1) * page_size_of ps"
  have "0 \<le> ?o"
    using assms s by simp
  then have "length (paginate p ps xs) \<le> nat (page_size_of ps)"
    using s length_js_slice_le [of ?o "?o + page_size_of ps" xs] by (simp add: paginate_def Let_def)
  with s show ?thesis by simp
qed

lemma take_drop_chunks:
  "concat (map (\<lambda>k. take s (drop (k * s) xs)) [0..<n]) = take (n * s) xs"
proof (induction n)
  case (Suc n)
  have "take (Suc n * s) xs = take (n * s) xs @ take s (drop (n * s) xs)"
    by (metis add.commute mult_Suc take_add)
  with Suc show ?case by simp
qed simp

text \<open>Pages 1 to \<open>n\<close> are the first \<open>n * size\<close> rows, in order: no row is repeated or skipped.\<close>

lemma pages_concat:
  assumes "1 \<le> s"
  shows "concat (map (\<lambda>k. paginate (Some (int (Suc k))) (Some s) xs) [0..<n])
       = take (n * nat (min s 100)) xs"
proof -
  have *: "paginate (Some (int (Suc k))) (Some s) xs
      = take (nat (min s 100)) (drop (k * nat (min s 100)) xs)" for k
  proof -
    have "nat ((int (Suc k) - 1) * min s 100) = k * nat (min s 100)"
      by (simp add: nat_mult_distrib)
    with paginate_window [of "int (Suc k)" s xs] assms show ?thesis
      by simp
  qed
  have "concat (map (\<lambda>k. paginate (Some (int (Suc k))) (Some s) xs) [0..<n])
      = concat (map (\<lambda>k. take (nat (min s 100)) (drop (k * nat (min s 100)) xs)) [0..<n])"
    by (simp only: *)
  then show ?thesis
    by (simp add: take_drop_chunks)
qed

section \<open>The stable sort\<close>

text \<open>
  \<open>rows.sort(cmp)\<close>.  For a consistent comparator the language fixes the result: the only
  sorted arrangement in which equal elements keep their order, which insertion computes.
\<close>

fun ins_by :: "('a \<Rightarrow> 'a \<Rightarrow> rat) \<Rightarrow> 'a \<Rightarrow> 'a list \<Rightarrow> 'a list" where
  "ins_by cmp x [] = [x]"
| "ins_by cmp x (y # ys) = (if cmp x y \<le> 0 then x # y # ys else y # ins_by cmp x ys)"

fun js_sort :: "('a \<Rightarrow> 'a \<Rightarrow> rat) \<Rightarrow> 'a list \<Rightarrow> 'a list" where
  "js_sort cmp [] = []"
| "js_sort cmp (x # xs) = ins_by cmp x (js_sort cmp xs)"

lemma mset_ins_by [simp]: "mset (ins_by cmp x xs) = add_mset x (mset xs)"
  by (induction xs) auto

lemma mset_js_sort [simp]: "mset (js_sort cmp xs) = mset xs"
  by (induction xs) auto

lemma set_js_sort [simp]: "set (js_sort cmp xs) = set xs"
  by (metis mset_js_sort set_mset_mset)

lemma length_js_sort [simp]: "length (js_sort cmp xs) = length xs"
  by (metis mset_js_sort size_mset)

lemma set_ins_by [simp]: "set (ins_by cmp x xs) = insert x (set xs)"
  by (metis mset_ins_by set_mset_add_mset_insert set_mset_mset)

lemma distinct_js_sort_map:
  "distinct (map f (js_sort cmp xs)) \<longleftrightarrow> distinct (map f xs)"
  by (metis mset_js_sort mset_map mset_eq_imp_distinct_iff)

locale js_comparator =
  fixes cmp :: "'a \<Rightarrow> 'a \<Rightarrow> rat"
    and ok :: "'a \<Rightarrow> bool"
  assumes cmp_total: "ok a \<Longrightarrow> ok b \<Longrightarrow> cmp a b \<le> 0 \<or> cmp b a \<le> 0"
    and cmp_trans:
      "ok a \<Longrightarrow> ok b \<Longrightarrow> ok c \<Longrightarrow> cmp a b \<le> 0 \<Longrightarrow> cmp b c \<le> 0 \<Longrightarrow> cmp a c \<le> 0"
begin

abbreviation in_order :: "'a list \<Rightarrow> bool" where
  "in_order \<equiv> sorted_wrt (\<lambda>a b. cmp a b \<le> 0)"

lemma ins_by_in_order:
  assumes "in_order xs" "ok x" "\<forall>y\<in>set xs. ok y"
  shows "in_order (ins_by cmp x xs)"
  using assms
proof (induction xs)
  case (Cons y ys)
  show ?case
  proof (cases "cmp x y \<le> 0")
    case True
    with Cons.prems show ?thesis
      using cmp_trans [of x y] by auto
  next
    case False
    then have "cmp y x \<le> 0"
      using cmp_total [of x y] Cons.prems by auto
    with Cons False show ?thesis by auto
  qed
qed simp

lemma sort_in_order: "\<forall>x\<in>set xs. ok x \<Longrightarrow> in_order (js_sort cmp xs)"
  by (induction xs) (auto intro: ins_by_in_order)

lemma sort_of_ordered: "in_order xs \<Longrightarrow> js_sort cmp xs = xs"
proof (induction xs)
  case (Cons x xs)
  then show ?case by (cases xs) auto
qed simp

lemma sort_idem: "\<forall>x\<in>set xs. ok x \<Longrightarrow> js_sort cmp (js_sort cmp xs) = js_sort cmp xs"
  by (simp add: sort_in_order sort_of_ordered)

text \<open>Elements that compare equal keep their relative order.\<close>

abbreviation same :: "'a \<Rightarrow> 'a \<Rightarrow> bool" where
  "same a b \<equiv> cmp a b \<le> 0 \<and> cmp b a \<le> 0"

lemma ins_by_stable:
  assumes "ok x" "ok a" "\<forall>y\<in>set xs. ok y"
  shows "filter (same a) (ins_by cmp x xs) = filter (same a) (x # xs)"
  using assms
proof (induction xs)
  case (Cons y ys)
  show ?case
  proof (cases "cmp x y \<le> 0")
    case False
    then have "\<not> (same a x \<and> same a y)"
      using cmp_trans [of x a y] Cons.prems by auto
    with Cons False show ?thesis by auto
  qed simp
qed simp

lemma sort_stable:
  "ok a \<Longrightarrow> \<forall>x\<in>set xs. ok x \<Longrightarrow> filter (same a) (js_sort cmp xs) = filter (same a) xs"
  by (induction xs) (auto simp: ins_by_stable)

lemma in_order_slice: "in_order xs \<Longrightarrow> in_order (js_slice a b xs)"
  by (simp add: js_slice_def Let_def sorted_wrt_drop sorted_wrt_take)

lemma page_in_order:
  "\<forall>x\<in>set xs. ok x \<Longrightarrow> in_order (paginate p ps (js_sort cmp xs))"
  by (simp add: paginate_def Let_def in_order_slice sort_in_order)

end

section \<open>Comparators\<close>

text \<open>\<open>s.localeCompare(t)\<close> on the ISO time stamps the store writes, whose characters collate as
  their codes do.\<close>

definition locale_compare :: "string \<Rightarrow> string \<Rightarrow> rat" where
  "locale_compare s t = (if s < t then - 1 else if s = t then 0 else 1)"

text \<open>The expression \<open>row.created_at || ''\<close>.  The interfaces give every time stamp the type
  \<open>string\<close>; a value of another type has no text here.\<close>

fun time_key :: "val \<Rightarrow> string" where
  "time_key (VStr s) = s"
| "time_key _ = []"

definition cmp_created_desc :: "row \<Rightarrow> row \<Rightarrow> rat" where
  "cmp_created_desc a b = locale_compare (time_key (fld b ''created_at'')) (time_key (fld a ''created_at''))"

lemma locale_compare_le: "locale_compare s t \<le> 0 \<longleftrightarrow> s \<le> t"
  by (auto simp: locale_compare_def)

lemma cmp_created_desc_le:
  "cmp_created_desc a b \<le> 0 \<longleftrightarrow> time_key (fld b ''created_at'') \<le> time_key (fld a ''created_at'')"
  by (simp add: cmp_created_desc_def locale_compare_le)

interpretation created: js_comparator cmp_created_desc "\<lambda>_. True"
  by unfold_locales (auto simp: cmp_created_desc_le)

end
