(* ===== verification/Messages.thy ===== *)
theory Messages
  imports JS_Prelude
begin

text \<open>
  The texts the source writes in Chinese, as the UTF-8 bytes of its string literals.
  The English gloss stands above each one.
\<close>

text \<open>residence\<close>

definition cat_residence :: string where
  "cat_residence =
     [CHR 0xE4, CHR 0xBD, CHR 0x8F, CHR 0xE5, CHR 0xAE, CHR 0x85]"

text \<open>apartment\<close>

definition cat_apartment :: string where
  "cat_apartment =
     [CHR 0xE5, CHR 0x85, CHR 0xAC, CHR 0xE5, CHR 0xAF, CHR 0x93]"

text \<open>villa\<close>

definition cat_villa :: string where
  "cat_villa =
     [CHR 0xE5, CHR 0x88, CHR 0xAB, CHR 0xE5, CHR 0xA2, CHR 0x85]"

text \<open>shop\<close>

definition cat_shop :: string where
  "cat_shop =
     [CHR 0xE5, CHR 0x95, CHR 0x86, CHR 0xE9, CHR 0x93, CHR 0xBA]"

text \<open>office building\<close>

definition cat_office :: string where
  "cat_office =
     [CHR 0xE5, CHR 0x86, CHR 0x99, CHR 0xE5, CHR 0xAD, CHR 0x97, CHR 0xE6, CHR 0xA5,
      CHR 0xBC]"

text \<open>bad parameters\<close>

definition msg_bad_params :: string where
  "msg_bad_params =
     [CHR 0xE5, CHR 0x8F, CHR 0x82, CHR 0xE6, CHR 0x95, CHR 0xB0, CHR 0xE9, CHR 0x94,
      CHR 0x99, CHR 0xE8, CHR 0xAF, CHR 0xAF]"

text \<open>welfare code does not exist\<close>

definition msg_code_missing :: string where
  "msg_code_missing =
     [CHR 0xE7, CHR 0xA6, CHR 0x8F, CHR 0xE5, CHR 0x88, CHR 0xA9, CHR 0xE7, CHR 0xA0,
      CHR 0x81, CHR 0xE4, CHR 0xB8, CHR 0x8D, CHR 0xE5, CHR 0xAD, CHR 0x98, CHR 0xE5,
      CHR 0x9C, CHR 0xA8]"

text \<open>welfare code is disabled\<close>

definition msg_code_disabled :: string where
  "msg_code_disabled =
     [CHR 0xE7, CHR 0xA6, CHR 0x8F, CHR 0xE5, CHR 0x88, CHR 0xA9, CHR 0xE7, CHR 0xA0,
      CHR 0x81, CHR 0xE5, CHR 0xB7, CHR 0xB2, CHR 0xE7, CHR 0xA6, CHR 0x81, CHR 0xE7,
      CHR 0x94, CHR 0xA8]"

text \<open>welfare code is used up\<close>

definition msg_code_used_up :: string where
  "msg_code_used_up =
     [CHR 0xE7, CHR 0xA6, CHR 0x8F, CHR 0xE5, CHR 0x88, CHR 0xA9, CHR 0xE7, CHR 0xA0,
      CHR 0x81, CHR 0xE5, CHR 0xB7, CHR 0xB2, CHR 0xE7, CHR 0x94, CHR 0xA8, CHR 0xE5,
      CHR 0xAE, CHR 0x8C]"

text \<open>welfare code is not yet valid\<close>

definition msg_code_not_started :: string where
  "msg_code_not_started =
     [CHR 0xE7, CHR 0xA6, CHR 0x8F, CHR 0xE5, CHR 0x88, CHR 0xA9, CHR 0xE7, CHR 0xA0,
      CHR 0x81, CHR 0xE5, CHR 0xB0, CHR 0x9A, CHR 0xE6, CHR 0x9C, CHR 0xAA, CHR 0xE7,
      CHR 0x94, CHR 0x9F, CHR 0xE6, CHR 0x95, CHR 0x88]"

text \<open>welfare code has expired\<close>

definition msg_code_expired :: string where
  "msg_code_expired =
     [CHR 0xE7, CHR 0xA6, CHR 0x8F, CHR 0xE5, CHR 0x88, CHR 0xA9, CHR 0xE7, CHR 0xA0,
      CHR 0x81, CHR 0xE5, CHR 0xB7, CHR 0xB2, CHR 0xE8, CHR 0xBF, CHR 0x87, CHR 0xE6,
      CHR 0x9C, CHR 0x9F]"

text \<open>welfare code used\<close>

definition msg_code_used :: string where
  "msg_code_used =
     [CHR 0xE7, CHR 0xA6, CHR 0x8F, CHR 0xE5, CHR 0x88, CHR 0xA9, CHR 0xE7, CHR 0xA0,
      CHR 0x81, CHR 0xE4, CHR 0xBD, CHR 0xBF, CHR 0xE7, CHR 0x94, CHR 0xA8, CHR 0xE6,
      CHR 0x88, CHR 0x90, CHR 0xE5, CHR 0x8A, CHR 0x9F]"

text \<open>using the welfare code failed\<close>

definition msg_code_use_failed :: string where
  "msg_code_use_failed =
     [CHR 0xE7, CHR 0xA6, CHR 0x8F, CHR 0xE5, CHR 0x88, CHR 0xA9, CHR 0xE7, CHR 0xA0,
      CHR 0x81, CHR 0xE4, CHR 0xBD, CHR 0xBF, CHR 0xE7, CHR 0x94, CHR 0xA8, CHR 0xE5,
      CHR 0xA4, CHR 0xB1, CHR 0xE8, CHR 0xB4, CHR 0xA5]"

text \<open>order does not exist\<close>

definition msg_order_missing :: string where
  "msg_order_missing =
     [CHR 0xE8, CHR 0xAE, CHR 0xA2, CHR 0xE5, CHR 0x8D, CHR 0x95, CHR 0xE4, CHR 0xB8,
      CHR 0x8D, CHR 0xE5, CHR 0xAD, CHR 0x98, CHR 0xE5, CHR 0x9C, CHR 0xA8]"

text \<open>no access to this order\<close>

definition msg_order_no_access :: string where
  "msg_order_no_access =
     [CHR 0xE6, CHR 0x97, CHR 0xA0, CHR 0xE6, CHR 0x9D, CHR 0x83, CHR 0xE8, CHR 0xAE,
      CHR 0xBF, CHR 0xE9, CHR 0x97, CHR 0xAE, CHR 0xE6, CHR 0xAD, CHR 0xA4, CHR 0xE8,
      CHR 0xAE, CHR 0xA2, CHR 0xE5, CHR 0x8D, CHR 0x95]"

text \<open>may not operate on this order\<close>

definition msg_order_no_operate :: string where
  "msg_order_no_operate =
     [CHR 0xE6, CHR 0x97, CHR 0xA0, CHR 0xE6, CHR 0x9D, CHR 0x83, CHR 0xE6, CHR 0x93,
      CHR 0x8D, CHR 0xE4, CHR 0xBD, CHR 0x9C, CHR 0xE6, CHR 0xAD, CHR 0xA4, CHR 0xE8,
      CHR 0xAE, CHR 0xA2, CHR 0xE5, CHR 0x8D, CHR 0x95]"

text \<open>no access\<close>

definition msg_no_access :: string where
  "msg_no_access =
     [CHR 0xE6, CHR 0x97, CHR 0xA0, CHR 0xE6, CHR 0x9D, CHR 0x83, CHR 0xE8, CHR 0xAE,
      CHR 0xBF, CHR 0xE9, CHR 0x97, CHR 0xAE]"

text \<open>may not operate\<close>

definition msg_no_operate :: string where
  "msg_no_operate =
     [CHR 0xE6, CHR 0x97, CHR 0xA0, CHR 0xE6, CHR 0x9D, CHR 0x83, CHR 0xE6, CHR 0x93,
      CHR 0x8D, CHR 0xE4, CHR 0xBD, CHR 0x9C]"

text \<open>cannot be cancelled in its current state\<close>

definition msg_cannot_cancel :: string where
  "msg_cannot_cancel =
     [CHR 0xE5, CHR 0xBD, CHR 0x93, CHR 0xE5, CHR 0x89, CHR 0x8D, CHR 0xE7, CHR 0x8A,
      CHR 0xB6, CHR 0xE6, CHR 0x80, CHR 0x81, CHR 0xE4, CHR 0xB8, CHR 0x8D, CHR 0xE5,
      CHR 0x8F, CHR 0xAF, CHR 0xE5, CHR 0x8F, CHR 0x96, CHR 0xE6, CHR 0xB6, CHR 0x88]"

text \<open>order cancelled\<close>

definition msg_order_cancelled :: string where
  "msg_order_cancelled =
     [CHR 0xE8, CHR 0xAE, CHR 0xA2, CHR 0xE5, CHR 0x8D, CHR 0x95, CHR 0xE5, CHR 0xB7,
      CHR 0xB2, CHR 0xE5, CHR 0x8F, CHR 0x96, CHR 0xE6, CHR 0xB6, CHR 0x88]"

text \<open>order status updated\<close>

definition msg_status_updated :: string where
  "msg_status_updated =
     [CHR 0xE8, CHR 0xAE, CHR 0xA2, CHR 0xE5, CHR 0x8D, CHR 0x95, CHR 0xE7, CHR 0x8A,
      CHR 0xB6, CHR 0xE6, CHR 0x80, CHR 0x81, CHR 0xE6, CHR 0x9B, CHR 0xB4, CHR 0xE6,
      CHR 0x96, CHR 0xB0, CHR 0xE6, CHR 0x88, CHR 0x90, CHR 0xE5, CHR 0x8A, CHR 0x9F]"

text \<open>remark updated\<close>

definition msg_remark_updated :: string where
  "msg_remark_updated =
     [CHR 0xE5, CHR 0xA4, CHR 0x87, CHR 0xE6, CHR 0xB3, CHR 0xA8, CHR 0xE6, CHR 0x9B,
      CHR 0xB4, CHR 0xE6, CHR 0x96, CHR 0xB0, CHR 0xE6, CHR 0x88, CHR 0x90, CHR 0xE5,
      CHR 0x8A, CHR 0x9F]"

text \<open>order deleted\<close>

definition msg_order_deleted :: string where
  "msg_order_deleted =
     [CHR 0xE8, CHR 0xAE, CHR 0xA2, CHR 0xE5, CHR 0x8D, CHR 0x95, CHR 0xE5, CHR 0x88,
      CHR 0xA0, CHR 0xE9, CHR 0x99, CHR 0xA4, CHR 0xE6, CHR 0x88, CHR 0x90, CHR 0xE5,
      CHR 0x8A, CHR 0x9F]"

text \<open>pending\<close>

definition cn_pending :: string where
  "cn_pending =
     [CHR 0xE5, CHR 0xBE, CHR 0x85, CHR 0xE5, CHR 0xA4, CHR 0x84, CHR 0xE7, CHR 0x90,
      CHR 0x86]"

text \<open>shipped\<close>

definition cn_shipped :: string where
  "cn_shipped =
     [CHR 0xE5, CHR 0xB7, CHR 0xB2, CHR 0xE5, CHR 0x8F, CHR 0x91, CHR 0xE8, CHR 0xB4,
      CHR 0xA7]"

text \<open>delivered\<close>

definition cn_delivered :: string where
  "cn_delivered =
     [CHR 0xE5, CHR 0xB7, CHR 0xB2, CHR 0xE9, CHR 0x80, CHR 0x81, CHR 0xE8, CHR 0xBE,
      CHR 0xBE]"

text \<open>completed\<close>

definition cn_completed :: string where
  "cn_completed =
     [CHR 0xE5, CHR 0xB7, CHR 0xB2, CHR 0xE5, CHR 0xAE, CHR 0x8C, CHR 0xE6, CHR 0x88,
      CHR 0x90]"

text \<open>closed\<close>

definition cn_closed :: string where
  "cn_closed =
     [CHR 0xE5, CHR 0xB7, CHR 0xB2, CHR 0xE5, CHR 0x85, CHR 0xB3, CHR 0xE9, CHR 0x97,
      CHR 0xAD]"

text \<open>cancelled\<close>

definition cn_cancelled :: string where
  "cn_cancelled =
     [CHR 0xE5, CHR 0xB7, CHR 0xB2, CHR 0xE5, CHR 0x8F, CHR 0x96, CHR 0xE6, CHR 0xB6,
      CHR 0x88]"

text \<open>log in within WeChat first\<close>

definition msg_need_oauth :: string where
  "msg_need_oauth =
     [CHR 0xE8, CHR 0xAF, CHR 0xB7, CHR 0xE5, CHR 0x85, CHR 0x88, CHR 0xE5, CHR 0x9C,
      CHR 0xA8, CHR 0xE5, CHR 0xBE, CHR 0xAE, CHR 0xE4, CHR 0xBF, CHR 0xA1, CHR 0xE5,
      CHR 0x86, CHR 0x85, CHR 0xE5, CHR 0xAE, CHR 0x8C, CHR 0xE6, CHR 0x88, CHR 0x90,
      CHR 0xE7, CHR 0x99, CHR 0xBB, CHR 0xE5, CHR 0xBD, CHR 0x95, CHR 0xE6, CHR 0x8E,
      CHR 0x88, CHR 0xE6, CHR 0x9D, CHR 0x83]"

text \<open>product does not exist\<close>

definition msg_product_missing :: string where
  "msg_product_missing =
     [CHR 0xE5, CHR 0x95, CHR 0x86, CHR 0xE5, CHR 0x93, CHR 0x81, CHR 0xE4, CHR 0xB8,
      CHR 0x8D, CHR 0xE5, CHR 0xAD, CHR 0x98, CHR 0xE5, CHR 0x9C, CHR 0xA8]"

text \<open>property does not exist or is not listed\<close>

definition msg_property_hidden :: string where
  "msg_property_hidden =
     [CHR 0xE6, CHR 0x88, CHR 0xBF, CHR 0xE6, CHR 0xBA, CHR 0x90, CHR 0xE4, CHR 0xB8,
      CHR 0x8D, CHR 0xE5, CHR 0xAD, CHR 0x98, CHR 0xE5, CHR 0x9C, CHR 0xA8, CHR 0xE6,
      CHR 0x88, CHR 0x96, CHR 0xE5, CHR 0xB7, CHR 0xB2, CHR 0xE4, CHR 0xB8, CHR 0x8B,
      CHR 0xE6, CHR 0x9E, CHR 0xB6]"

text \<open>property does not exist\<close>

definition msg_property_missing :: string where
  "msg_property_missing =
     [CHR 0xE6, CHR 0x88, CHR 0xBF, CHR 0xE6, CHR 0xBA, CHR 0x90, CHR 0xE4, CHR 0xB8,
      CHR 0x8D, CHR 0xE5, CHR 0xAD, CHR 0x98, CHR 0xE5, CHR 0x9C, CHR 0xA8]"

text \<open>category name must not be empty\<close>

definition msg_cat_name_required :: string where
  "msg_cat_name_required =
     [CHR 0xE5, CHR 0x88, CHR 0x86, CHR 0xE7, CHR 0xB1, CHR 0xBB, CHR 0xE5, CHR 0x90,
      CHR 0x8D, CHR 0xE7, CHR 0xA7, CHR 0xB0, CHR 0xE4, CHR 0xB8, CHR 0x8D, CHR 0xE8,
      CHR 0x83, CHR 0xBD, CHR 0xE4, CHR 0xB8, CHR 0xBA, CHR 0xE7, CHR 0xA9, CHR 0xBA]"

text \<open>category created\<close>

definition msg_cat_created :: string where
  "msg_cat_created =
     [CHR 0xE5, CHR 0x88, CHR 0x86, CHR 0xE7, CHR 0xB1, CHR 0xBB, CHR 0xE5, CHR 0x88,
      CHR 0x9B, CHR 0xE5, CHR 0xBB, CHR 0xBA, CHR 0xE6, CHR 0x88, CHR 0x90, CHR 0xE5,
      CHR 0x8A, CHR 0x9F]"

text \<open>category does not exist\<close>

definition msg_cat_missing :: string where
  "msg_cat_missing =
     [CHR 0xE5, CHR 0x88, CHR 0x86, CHR 0xE7, CHR 0xB1, CHR 0xBB, CHR 0xE4, CHR 0xB8,
      CHR 0x8D, CHR 0xE5, CHR 0xAD, CHR 0x98, CHR 0xE5, CHR 0x9C, CHR 0xA8]"

text \<open>category updated\<close>

definition msg_cat_updated :: string where
  "msg_cat_updated =
     [CHR 0xE5, CHR 0x88, CHR 0x86, CHR 0xE7, CHR 0xB1, CHR 0xBB, CHR 0xE6, CHR 0x9B,
      CHR 0xB4, CHR 0xE6, CHR 0x96, CHR 0xB0, CHR 0xE6, CHR 0x88, CHR 0x90, CHR 0xE5,
      CHR 0x8A, CHR 0x9F]"

text \<open>the category has properties and cannot be deleted\<close>

definition msg_cat_in_use :: string where
  "msg_cat_in_use =
     [CHR 0xE8, CHR 0xAF, CHR 0xA5, CHR 0xE5, CHR 0x88, CHR 0x86, CHR 0xE7, CHR 0xB1,
      CHR 0xBB, CHR 0xE4, CHR 0xB8, CHR 0x8B, CHR 0xE5, CHR 0xB7, CHR 0xB2, CHR 0xE6,
      CHR 0x9C, CHR 0x89, CHR 0xE6, CHR 0x88, CHR 0xBF, CHR 0xE6, CHR 0xBA, CHR 0x90,
      CHR 0xEF, CHR 0xBC, CHR 0x8C, CHR 0xE6, CHR 0x97, CHR 0xA0, CHR 0xE6, CHR 0xB3,
      CHR 0x95, CHR 0xE5, CHR 0x88, CHR 0xA0, CHR 0xE9, CHR 0x99, CHR 0xA4]"

text \<open>category deleted\<close>

definition msg_cat_deleted :: string where
  "msg_cat_deleted =
     [CHR 0xE5, CHR 0x88, CHR 0x86, CHR 0xE7, CHR 0xB1, CHR 0xBB, CHR 0xE5, CHR 0x88,
      CHR 0xA0, CHR 0xE9, CHR 0x99, CHR 0xA4, CHR 0xE6, CHR 0x88, CHR 0x90, CHR 0xE5,
      CHR 0x8A, CHR 0x9F]"

text \<open>SKU does not exist\<close>

definition msg_sku_missing :: string where
  "msg_sku_missing =
     ''SKU '' @
     [CHR 0xE4, CHR 0xB8, CHR 0x8D, CHR 0xE5, CHR 0xAD, CHR 0x98, CHR 0xE5, CHR 0x9C,
      CHR 0xA8]"

text \<open>community name is required\<close>

definition msg_community_required :: string where
  "msg_community_required =
     [CHR 0xE5, CHR 0xB0, CHR 0x8F, CHR 0xE5, CHR 0x8C, CHR 0xBA, CHR 0xE5, CHR 0x90,
      CHR 0x8D, CHR 0xE7, CHR 0xA7, CHR 0xB0, CHR 0xE4, CHR 0xB8, CHR 0xBA, CHR 0xE5,
      CHR 0xBF, CHR 0x85, CHR 0xE5, CHR 0xA1, CHR 0xAB, CHR 0xE9, CHR 0xA1, CHR 0xB9]"

text \<open>property created\<close>

definition msg_property_created :: string where
  "msg_property_created =
     [CHR 0xE6, CHR 0x88, CHR 0xBF, CHR 0xE6, CHR 0xBA, CHR 0x90, CHR 0xE5, CHR 0x88,
      CHR 0x9B, CHR 0xE5, CHR 0xBB, CHR 0xBA, CHR 0xE6, CHR 0x88, CHR 0x90, CHR 0xE5,
      CHR 0x8A, CHR 0x9F]"

text \<open>property updated\<close>

definition msg_property_updated :: string where
  "msg_property_updated =
     [CHR 0xE6, CHR 0x88, CHR 0xBF, CHR 0xE6, CHR 0xBA, CHR 0x90, CHR 0xE6, CHR 0x9B,
      CHR 0xB4, CHR 0xE6, CHR 0x96, CHR 0xB0, CHR 0xE6, CHR 0x88, CHR 0x90, CHR 0xE5,
      CHR 0x8A, CHR 0x9F]"

text \<open>property deleted\<close>

definition msg_property_deleted :: string where
  "msg_property_deleted =
     [CHR 0xE6, CHR 0x88, CHR 0xBF, CHR 0xE6, CHR 0xBA, CHR 0x90, CHR 0xE5, CHR 0x88,
      CHR 0xA0, CHR 0xE9, CHR 0x99, CHR 0xA4, CHR 0xE6, CHR 0x88, CHR 0x90, CHR 0xE5,
      CHR 0x8A, CHR 0x9F]"

text \<open>payment is disabled\<close>

definition msg_pay_disabled :: string where
  "msg_pay_disabled =
     [CHR 0xE6, CHR 0x94, CHR 0xAF, CHR 0xE4, CHR 0xBB, CHR 0x98, CHR 0xE5, CHR 0x8A,
      CHR 0x9F, CHR 0xE8, CHR 0x83, CHR 0xBD, CHR 0xE5, CHR 0xB7, CHR 0xB2, CHR 0xE7,
      CHR 0xA6, CHR 0x81, CHR 0xE7, CHR 0x94, CHR 0xA8]"

text \<open>mini program is not configured\<close>

definition msg_mini_unconfigured :: string where
  "msg_mini_unconfigured =
     [CHR 0xE5, CHR 0xB0, CHR 0x8F, CHR 0xE7, CHR 0xA8, CHR 0x8B, CHR 0xE5, CHR 0xBA,
      CHR 0x8F, CHR 0xE6, CHR 0x9C, CHR 0xAA, CHR 0xE9, CHR 0x85, CHR 0x8D, CHR 0xE7,
      CHR 0xBD, CHR 0xAE]"

text \<open>property\<close>

definition title_property :: string where
  "title_property =
     [CHR 0xE6, CHR 0x88, CHR 0xBF, CHR 0xE6, CHR 0xBA, CHR 0x90]"

text \<open>auction\<close>

definition title_auction :: string where
  "title_auction =
     [CHR 0xE6, CHR 0x8B, CHR 0x8D, CHR 0xE5, CHR 0x8D, CHR 0x96]"

text \<open>finance\<close>

definition title_loan :: string where
  "title_loan =
     [CHR 0xE9, CHR 0x87, CHR 0x91, CHR 0xE8, CHR 0x9E, CHR 0x8D]"

text \<open>taxes\<close>

definition title_tax :: string where
  "title_tax =
     [CHR 0xE7, CHR 0xA8, CHR 0x8E, CHR 0xE8, CHR 0xB4, CHR 0xB9]"

text \<open>listed\<close>

definition msg_listed :: string where
  "msg_listed =
     [CHR 0xE4, CHR 0xB8, CHR 0x8A, CHR 0xE6, CHR 0x9E, CHR 0xB6]"

text \<open>not listed\<close>

definition msg_unlisted :: string where
  "msg_unlisted =
     [CHR 0xE4, CHR 0xB8, CHR 0x8B, CHR 0xE6, CHR 0x9E, CHR 0xB6]"

text \<open>upload a file\<close>

definition msg_no_file :: string where
  "msg_no_file =
     [CHR 0xE8, CHR 0xAF, CHR 0xB7, CHR 0xE4, CHR 0xB8, CHR 0x8A, CHR 0xE4, CHR 0xBC,
      CHR 0xA0, CHR 0xE6, CHR 0x96, CHR 0x87, CHR 0xE4, CHR 0xBB, CHR 0xB6]"

text \<open>the Excel file is empty\<close>

definition msg_empty_excel :: string where
  "msg_empty_excel =
     ''Excel'' @
     [CHR 0xE6, CHR 0x96, CHR 0x87, CHR 0xE4, CHR 0xBB, CHR 0xB6, CHR 0xE5, CHR 0x86,
      CHR 0x85, CHR 0xE5, CHR 0xAE, CHR 0xB9, CHR 0xE4, CHR 0xB8, CHR 0xBA, CHR 0xE7,
      CHR 0xA9, CHR 0xBA]"

text \<open>no valid rows (the community name must not be empty)\<close>

definition msg_no_rows :: string where
  "msg_no_rows =
     [CHR 0xE6, CHR 0x9C, CHR 0xAA, CHR 0xE6, CHR 0x89, CHR 0xBE, CHR 0xE5, CHR 0x88,
      CHR 0xB0, CHR 0xE6, CHR 0x9C, CHR 0x89, CHR 0xE6, CHR 0x95, CHR 0x88, CHR 0xE6,
      CHR 0x95, CHR 0xB0, CHR 0xE6, CHR 0x8D, CHR 0xAE, CHR 0xEF, CHR 0xBC, CHR 0x88,
      CHR 0xE5, CHR 0xB0, CHR 0x8F, CHR 0xE5, CHR 0x8C, CHR 0xBA, CHR 0xE5, CHR 0x90,
      CHR 0x8D, CHR 0xE7, CHR 0xA7, CHR 0xB0, CHR 0xE4, CHR 0xB8, CHR 0x8D, CHR 0xE8,
      CHR 0x83, CHR 0xBD, CHR 0xE4, CHR 0xB8, CHR 0xBA, CHR 0xE7, CHR 0xA9, CHR 0xBA,
      CHR 0xEF, CHR 0xBC, CHR 0x89]"

text \<open>imported \<close>

definition msg_imported_pre :: string where
  "msg_imported_pre =
     [CHR 0xE6, CHR 0x88, CHR 0x90, CHR 0xE5, CHR 0x8A, CHR 0x9F, CHR 0xE5, CHR 0xAF,
      CHR 0xBC, CHR 0xE5, CHR 0x85, CHR 0xA5] @
     '' ''"

text \<open> property rows\<close>

definition msg_imported_post :: string where
  "msg_imported_post =
     '' '' @
     [CHR 0xE6, CHR 0x9D, CHR 0xA1, CHR 0xE6, CHR 0x88, CHR 0xBF, CHR 0xE6, CHR 0xBA,
      CHR 0x90, CHR 0xE6, CHR 0x95, CHR 0xB0, CHR 0xE6, CHR 0x8D, CHR 0xAE]"

text \<open>congratulations, claimed\<close>

definition fl_success_msg :: string where
  "fl_success_msg =
     [CHR 0xE6, CHR 0x81, CHR 0xAD, CHR 0xE5, CHR 0x96, CHR 0x9C, CHR 0xE6, CHR 0x82,
      CHR 0xA8, CHR 0xEF, CHR 0xBC, CHR 0x8C, CHR 0xE9, CHR 0xA2, CHR 0x86, CHR 0xE5,
      CHR 0x8F, CHR 0x96, CHR 0xE6, CHR 0x88, CHR 0x90, CHR 0xE5, CHR 0x8A, CHR 0x9F,
      CHR 0xEF, CHR 0xBC, CHR 0x81]"

text \<open>sorry, no code was found, check the phone number\<close>

definition fl_fail_msg :: string where
  "fl_fail_msg =
     [CHR 0xE6, CHR 0x8A, CHR 0xB1, CHR 0xE6, CHR 0xAD, CHR 0x89, CHR 0xEF, CHR 0xBC,
      CHR 0x8C, CHR 0xE6, CHR 0x9C, CHR 0xAA, CHR 0xE6, CHR 0x89, CHR 0xBE, CHR 0xE5,
      CHR 0x88, CHR 0xB0, CHR 0xE6, CHR 0x82, CHR 0xA8, CHR 0xE7, CHR 0x9A, CHR 0x84,
      CHR 0xE7, CHR 0xA6, CHR 0x8F, CHR 0xE5, CHR 0x88, CHR 0xA9, CHR 0xE7, CHR 0xA0,
      CHR 0x81, CHR 0xEF, CHR 0xBC, CHR 0x8C, CHR 0xE8, CHR 0xAF, CHR 0xB7, CHR 0xE7,
      CHR 0xA1, CHR 0xAE, CHR 0xE8, CHR 0xAE, CHR 0xA4, CHR 0xE6, CHR 0x89, CHR 0x8B,
      CHR 0xE6, CHR 0x9C, CHR 0xBA, CHR 0xE5, CHR 0x8F, CHR 0xB7, CHR 0xE6, CHR 0x98,
      CHR 0xAF, CHR 0xE5, CHR 0x90, CHR 0xA6, CHR 0xE6, CHR 0xAD, CHR 0xA3, CHR 0xE7,
      CHR 0xA1, CHR 0xAE, CHR 0xE3, CHR 0x80, CHR 0x82]"

text \<open>sorry, no code was found\<close>

definition fl_fail_short :: string where
  "fl_fail_short =
     [CHR 0xE6, CHR 0x8A, CHR 0xB1, CHR 0xE6, CHR 0xAD, CHR 0x89, CHR 0xEF, CHR 0xBC,
      CHR 0x8C, CHR 0xE6, CHR 0x9C, CHR 0xAA, CHR 0xE6, CHR 0x89, CHR 0xBE, CHR 0xE5,
      CHR 0x88, CHR 0xB0, CHR 0xE6, CHR 0x82, CHR 0xA8, CHR 0xE7, CHR 0x9A, CHR 0x84,
      CHR 0xE7, CHR 0xA6, CHR 0x8F, CHR 0xE5, CHR 0x88, CHR 0xA9, CHR 0xE7, CHR 0xA0,
      CHR 0x81, CHR 0xE3, CHR 0x80, CHR 0x82]"

text \<open>use the code while it is valid, copy it to the redemption page\<close>

definition fl_usage_tip :: string where
  "fl_usage_tip =
     [CHR 0xE8, CHR 0xAF, CHR 0xB7, CHR 0xE5, CHR 0x9C, CHR 0xA8, CHR 0xE6, CHR 0x9C,
      CHR 0x89, CHR 0xE6, CHR 0x95, CHR 0x88, CHR 0xE6, CHR 0x9C, CHR 0x9F, CHR 0xE5,
      CHR 0x86, CHR 0x85, CHR 0xE4, CHR 0xBD, CHR 0xBF, CHR 0xE7, CHR 0x94, CHR 0xA8,
      CHR 0xE6, CHR 0xAD, CHR 0xA4, CHR 0xE7, CHR 0xA0, CHR 0x81, CHR 0xEF, CHR 0xBC,
      CHR 0x8C, CHR 0xE5, CHR 0xA4, CHR 0x8D, CHR 0xE5, CHR 0x88, CHR 0xB6, CHR 0xE7,
      CHR 0xA0, CHR 0x81, CHR 0xE5, CHR 0x88, CHR 0xB0, CHR 0xE6, CHR 0x8C, CHR 0x87,
      CHR 0xE5, CHR 0xAE, CHR 0x9A, CHR 0xE9, CHR 0xA1, CHR 0xB5, CHR 0xE9, CHR 0x9D,
      CHR 0xA2, CHR 0xE5, CHR 0x85, CHR 0x91, CHR 0xE6, CHR 0x8D, CHR 0xA2, CHR 0xE5,
      CHR 0x8D, CHR 0xB3, CHR 0xE5, CHR 0x8F, CHR 0xAF, CHR 0xE3, CHR 0x80, CHR 0x82]"

text \<open>use the code while it is valid\<close>

definition fl_usage_short :: string where
  "fl_usage_short =
     [CHR 0xE8, CHR 0xAF, CHR 0xB7, CHR 0xE5, CHR 0x9C, CHR 0xA8, CHR 0xE6, CHR 0x9C,
      CHR 0x89, CHR 0xE6, CHR 0x95, CHR 0x88, CHR 0xE6, CHR 0x9C, CHR 0x9F, CHR 0xE5,
      CHR 0x86, CHR 0x85, CHR 0xE4, CHR 0xBD, CHR 0xBF, CHR 0xE7, CHR 0x94, CHR 0xA8,
      CHR 0xE6, CHR 0xAD, CHR 0xA4, CHR 0xE7, CHR 0xA0, CHR 0x81, CHR 0xE3, CHR 0x80,
      CHR 0x82]"

text \<open>claim your welfare code\<close>

definition fl_page_title :: string where
  "fl_page_title =
     [CHR 0xE7, CHR 0xA6, CHR 0x8F, CHR 0xE5, CHR 0x88, CHR 0xA9, CHR 0xE7, CHR 0xA0,
      CHR 0x81, CHR 0xE9, CHR 0xA2, CHR 0x86, CHR 0xE5, CHR 0x8F, CHR 0x96]"

text \<open>added\<close>

definition fl_added :: string where
  "fl_added =
     [CHR 0xE6, CHR 0xB7, CHR 0xBB, CHR 0xE5, CHR 0x8A, CHR 0xA0, CHR 0xE6, CHR 0x88,
      CHR 0x90, CHR 0xE5, CHR 0x8A, CHR 0x9F]"

text \<open>the phone number exists already\<close>

definition fl_phone_exists :: string where
  "fl_phone_exists =
     [CHR 0xE8, CHR 0xAF, CHR 0xA5, CHR 0xE6, CHR 0x89, CHR 0x8B, CHR 0xE6, CHR 0x9C,
      CHR 0xBA, CHR 0xE5, CHR 0x8F, CHR 0xB7, CHR 0xE5, CHR 0xB7, CHR 0xB2, CHR 0xE5,
      CHR 0xAD, CHR 0x98, CHR 0xE5, CHR 0x9C, CHR 0xA8]"

text \<open>adding failed\<close>

definition fl_add_failed :: string where
  "fl_add_failed =
     [CHR 0xE6, CHR 0xB7, CHR 0xBB, CHR 0xE5, CHR 0x8A, CHR 0xA0, CHR 0xE5, CHR 0xA4,
      CHR 0xB1, CHR 0xE8, CHR 0xB4, CHR 0xA5]"

text \<open>phone number \<close>

definition fl_phone_pre :: string where
  "fl_phone_pre =
     [CHR 0xE6, CHR 0x89, CHR 0x8B, CHR 0xE6, CHR 0x9C, CHR 0xBA, CHR 0xE5, CHR 0x8F,
      CHR 0xB7] @
     '' ''"

text \<open> exists already\<close>

definition fl_exists_post :: string where
  "fl_exists_post =
     '' '' @
     [CHR 0xE5, CHR 0xB7, CHR 0xB2, CHR 0xE5, CHR 0xAD, CHR 0x98, CHR 0xE5, CHR 0x9C,
      CHR 0xA8]"

text \<open>no such record\<close>

definition fl_no_record :: string where
  "fl_no_record =
     [CHR 0xE8, CHR 0xAE, CHR 0xB0, CHR 0xE5, CHR 0xBD, CHR 0x95, CHR 0xE4, CHR 0xB8,
      CHR 0x8D, CHR 0xE5, CHR 0xAD, CHR 0x98, CHR 0xE5, CHR 0x9C, CHR 0xA8]"

text \<open>updated\<close>

definition fl_updated :: string where
  "fl_updated =
     [CHR 0xE6, CHR 0x9B, CHR 0xB4, CHR 0xE6, CHR 0x96, CHR 0xB0, CHR 0xE6, CHR 0x88,
      CHR 0x90, CHR 0xE5, CHR 0x8A, CHR 0x9F]"

text \<open>deleted\<close>

definition fl_deleted :: string where
  "fl_deleted =
     [CHR 0xE5, CHR 0x88, CHR 0xA0, CHR 0xE9, CHR 0x99, CHR 0xA4, CHR 0xE6, CHR 0x88,
      CHR 0x90, CHR 0xE5, CHR 0x8A, CHR 0x9F]"

text \<open>all data cleared\<close>

definition fl_cleared :: string where
  "fl_cleared =
     [CHR 0xE5, CHR 0xB7, CHR 0xB2, CHR 0xE6, CHR 0xB8, CHR 0x85, CHR 0xE7, CHR 0xA9,
      CHR 0xBA, CHR 0xE6, CHR 0x89, CHR 0x80, CHR 0xE6, CHR 0x9C, CHR 0x89, CHR 0xE6,
      CHR 0x95, CHR 0xB0, CHR 0xE6, CHR 0x8D, CHR 0xAE]"

text \<open>log in first\<close>

definition fl_login_first :: string where
  "fl_login_first =
     [CHR 0xE8, CHR 0xAF, CHR 0xB7, CHR 0xE5, CHR 0x85, CHR 0x88, CHR 0xE7, CHR 0x99,
      CHR 0xBB, CHR 0xE5, CHR 0xBD, CHR 0x95]"

text \<open>the login has expired, log in again\<close>

definition fl_expired :: string where
  "fl_expired =
     [CHR 0xE7, CHR 0x99, CHR 0xBB, CHR 0xE5, CHR 0xBD, CHR 0x95, CHR 0xE5, CHR 0xB7,
      CHR 0xB2, CHR 0xE8, CHR 0xBF, CHR 0x87, CHR 0xE6, CHR 0x9C, CHR 0x9F, CHR 0xEF,
      CHR 0xBC, CHR 0x8C, CHR 0xE8, CHR 0xAF, CHR 0xB7, CHR 0xE9, CHR 0x87, CHR 0x8D,
      CHR 0xE6, CHR 0x96, CHR 0xB0, CHR 0xE7, CHR 0x99, CHR 0xBB, CHR 0xE5, CHR 0xBD,
      CHR 0x95]"

text \<open>enter the password\<close>

definition fl_need_password :: string where
  "fl_need_password =
     [CHR 0xE8, CHR 0xAF, CHR 0xB7, CHR 0xE8, CHR 0xBE, CHR 0x93, CHR 0xE5, CHR 0x85,
      CHR 0xA5, CHR 0xE5, CHR 0xAF, CHR 0x86, CHR 0xE7, CHR 0xA0, CHR 0x81]"

text \<open>wrong password\<close>

definition fl_bad_password :: string where
  "fl_bad_password =
     [CHR 0xE5, CHR 0xAF, CHR 0x86, CHR 0xE7, CHR 0xA0, CHR 0x81, CHR 0xE9, CHR 0x94,
      CHR 0x99, CHR 0xE8, CHR 0xAF, CHR 0xAF]"

text \<open>logged in\<close>

definition fl_logged_in :: string where
  "fl_logged_in =
     [CHR 0xE7, CHR 0x99, CHR 0xBB, CHR 0xE5, CHR 0xBD, CHR 0x95, CHR 0xE6, CHR 0x88,
      CHR 0x90, CHR 0xE5, CHR 0x8A, CHR 0x9F]"

text \<open>logged out\<close>

definition fl_logged_out :: string where
  "fl_logged_out =
     [CHR 0xE5, CHR 0xB7, CHR 0xB2, CHR 0xE7, CHR 0x99, CHR 0xBB, CHR 0xE5, CHR 0x87,
      CHR 0xBA]"

text \<open>the token is valid\<close>

definition fl_token_ok :: string where
  "fl_token_ok =
     ''Token '' @
     [CHR 0xE6, CHR 0x9C, CHR 0x89, CHR 0xE6, CHR 0x95, CHR 0x88]"

text \<open>configuration updated\<close>

definition fl_config_saved :: string where
  "fl_config_saved =
     [CHR 0xE9, CHR 0x85, CHR 0x8D, CHR 0xE7, CHR 0xBD, CHR 0xAE, CHR 0xE5, CHR 0xB7,
      CHR 0xB2, CHR 0xE6, CHR 0x9B, CHR 0xB4, CHR 0xE6, CHR 0x96, CHR 0xB0]"

text \<open>enter a valid mainland China mobile number\<close>

definition fl_bad_phone :: string where
  "fl_bad_phone =
     [CHR 0xE8, CHR 0xAF, CHR 0xB7, CHR 0xE8, CHR 0xBE, CHR 0x93, CHR 0xE5, CHR 0x85,
      CHR 0xA5, CHR 0xE6, CHR 0x9C, CHR 0x89, CHR 0xE6, CHR 0x95, CHR 0x88, CHR 0xE7,
      CHR 0x9A, CHR 0x84, CHR 0xE4, CHR 0xB8, CHR 0xAD, CHR 0xE5, CHR 0x9B, CHR 0xBD,
      CHR 0xE5, CHR 0xA4, CHR 0xA7, CHR 0xE9, CHR 0x99, CHR 0x86, CHR 0xE6, CHR 0x89,
      CHR 0x8B, CHR 0xE6, CHR 0x9C, CHR 0xBA, CHR 0xE5, CHR 0x8F, CHR 0xB7]"

text \<open>the code must be 6 digits\<close>

definition fl_bad_code :: string where
  "fl_bad_code =
     [CHR 0xE7, CHR 0xA0, CHR 0x81, CHR 0xE5, CHR 0xBF, CHR 0x85, CHR 0xE9, CHR 0xA1,
      CHR 0xBB, CHR 0xE6, CHR 0x98, CHR 0xAF] @
     ''6'' @
     [CHR 0xE4, CHR 0xBD, CHR 0x8D, CHR 0xE6, CHR 0x95, CHR 0xB0, CHR 0xE5, CHR 0xAD,
      CHR 0x97]"

text \<open>invalid ID\<close>

definition fl_bad_id :: string where
  "fl_bad_id =
     [CHR 0xE6, CHR 0x97, CHR 0xA0, CHR 0xE6, CHR 0x95, CHR 0x88, CHR 0xE7, CHR 0x9A,
      CHR 0x84] @
     '' ID''"

text \<open>updating failed\<close>

definition fl_update_failed :: string where
  "fl_update_failed =
     [CHR 0xE6, CHR 0x9B, CHR 0xB4, CHR 0xE6, CHR 0x96, CHR 0xB0, CHR 0xE5, CHR 0xA4,
      CHR 0xB1, CHR 0xE8, CHR 0xB4, CHR 0xA5]"

text \<open>choose a file\<close>

definition fl_choose_file :: string where
  "fl_choose_file =
     [CHR 0xE8, CHR 0xAF, CHR 0xB7, CHR 0xE9, CHR 0x80, CHR 0x89, CHR 0xE6, CHR 0x8B,
      CHR 0xA9, CHR 0xE6, CHR 0x96, CHR 0x87, CHR 0xE4, CHR 0xBB, CHR 0xB6]"

text \<open>the Excel file is empty\<close>

definition fl_empty_excel :: string where
  "fl_empty_excel =
     ''Excel '' @
     [CHR 0xE6, CHR 0x96, CHR 0x87, CHR 0xE4, CHR 0xBB, CHR 0xB6, CHR 0xE4, CHR 0xB8,
      CHR 0xBA, CHR 0xE7, CHR 0xA9, CHR 0xBA]"

text \<open>no valid data found\<close>

definition fl_no_rows :: string where
  "fl_no_rows =
     [CHR 0xE6, CHR 0x9C, CHR 0xAA, CHR 0xE6, CHR 0x89, CHR 0xBE, CHR 0xE5, CHR 0x88,
      CHR 0xB0, CHR 0xE6, CHR 0x9C, CHR 0x89, CHR 0xE6, CHR 0x95, CHR 0x88, CHR 0xE6,
      CHR 0x95, CHR 0xB0, CHR 0xE6, CHR 0x8D, CHR 0xAE]"

text \<open>processing the file failed\<close>

definition fl_file_failed :: string where
  "fl_file_failed =
     [CHR 0xE6, CHR 0x96, CHR 0x87, CHR 0xE4, CHR 0xBB, CHR 0xB6, CHR 0xE5, CHR 0xA4,
      CHR 0x84, CHR 0xE7, CHR 0x90, CHR 0x86, CHR 0xE5, CHR 0xA4, CHR 0xB1, CHR 0xE8,
      CHR 0xB4, CHR 0xA5]"

text \<open>import finished: succeeded \<close>

definition fl_done_pre :: string where
  "fl_done_pre =
     [CHR 0xE5, CHR 0xAF, CHR 0xBC, CHR 0xE5, CHR 0x85, CHR 0xA5, CHR 0xE5, CHR 0xAE,
      CHR 0x8C, CHR 0xE6, CHR 0x88, CHR 0x90, CHR 0xEF, CHR 0xBC, CHR 0x9A, CHR 0xE6,
      CHR 0x88, CHR 0x90, CHR 0xE5, CHR 0x8A, CHR 0x9F] @
     '' ''"

text \<open> rows, failed \<close>

definition fl_done_mid :: string where
  "fl_done_mid =
     '' '' @
     [CHR 0xE6, CHR 0x9D, CHR 0xA1, CHR 0xEF, CHR 0xBC, CHR 0x8C, CHR 0xE5, CHR 0xA4,
      CHR 0xB1, CHR 0xE8, CHR 0xB4, CHR 0xA5] @
     '' ''"

text \<open> rows\<close>

definition fl_done_post :: string where
  "fl_done_post =
     '' '' @
     [CHR 0xE6, CHR 0x9D, CHR 0xA1]"

text \<open>row number \<close>

definition fl_row_pre :: string where
  "fl_row_pre =
     [CHR 0xE7, CHR 0xAC, CHR 0xAC] @
     '' ''"

text \<open> row: invalid phone number (\<close>

definition fl_row_phone :: string where
  "fl_row_phone =
     '' '' @
     [CHR 0xE8, CHR 0xA1, CHR 0x8C, CHR 0xEF, CHR 0xBC, CHR 0x9A, CHR 0xE6, CHR 0x89,
      CHR 0x8B, CHR 0xE6, CHR 0x9C, CHR 0xBA, CHR 0xE5, CHR 0x8F, CHR 0xB7, CHR 0xE6,
      CHR 0xA0, CHR 0xBC, CHR 0xE5, CHR 0xBC, CHR 0x8F, CHR 0xE6, CHR 0x97, CHR 0xA0,
      CHR 0xE6, CHR 0x95, CHR 0x88] @
     '' (''"

text \<open> row: invalid code, 6 digits needed (\<close>

definition fl_row_code :: string where
  "fl_row_code =
     '' '' @
     [CHR 0xE8, CHR 0xA1, CHR 0x8C, CHR 0xEF, CHR 0xBC, CHR 0x9A, CHR 0xE7, CHR 0xA0,
      CHR 0x81, CHR 0xE6, CHR 0xA0, CHR 0xBC, CHR 0xE5, CHR 0xBC, CHR 0x8F, CHR 0xE6,
      CHR 0x97, CHR 0xA0, CHR 0xE6, CHR 0x95, CHR 0x88, CHR 0xEF, CHR 0xBC, CHR 0x8C,
      CHR 0xE9, CHR 0x9C, CHR 0x80, CHR 0xE8, CHR 0xA6, CHR 0x81] @
     ''6'' @
     [CHR 0xE4, CHR 0xBD, CHR 0x8D, CHR 0xE6, CHR 0x95, CHR 0xB0, CHR 0xE5, CHR 0xAD,
      CHR 0x97] @
     '' (''"

text \<open>only Excel files are supported\<close>

definition fl_only_excel :: string where
  "fl_only_excel =
     [CHR 0xE5, CHR 0x8F, CHR 0xAA, CHR 0xE6, CHR 0x94, CHR 0xAF, CHR 0xE6, CHR 0x8C,
      CHR 0x81] @
     '' Excel '' @
     [CHR 0xE6, CHR 0x96, CHR 0x87, CHR 0xE4, CHR 0xBB, CHR 0xB6, CHR 0xE6, CHR 0xA0,
      CHR 0xBC, CHR 0xE5, CHR 0xBC, CHR 0x8F] @
     '' (.xlsx, .xls)''"

text \<open>server error\<close>

definition fl_server_error :: string where
  "fl_server_error =
     [CHR 0xE6, CHR 0x9C, CHR 0x8D, CHR 0xE5, CHR 0x8A, CHR 0xA1, CHR 0xE5, CHR 0x99,
      CHR 0xA8, CHR 0xE9, CHR 0x94, CHR 0x99, CHR 0xE8, CHR 0xAF, CHR 0xAF]"

lemmas msg_text_defs =
  cat_residence_def cat_apartment_def cat_villa_def cat_shop_def
  cat_office_def msg_bad_params_def msg_code_missing_def msg_code_disabled_def
  msg_code_used_up_def msg_code_not_started_def msg_code_expired_def msg_code_used_def
  msg_code_use_failed_def msg_order_missing_def msg_order_no_access_def msg_order_no_operate_def
  msg_no_access_def msg_no_operate_def msg_cannot_cancel_def msg_order_cancelled_def
  msg_status_updated_def msg_remark_updated_def msg_order_deleted_def cn_pending_def
  cn_shipped_def cn_delivered_def cn_completed_def cn_closed_def
  cn_cancelled_def msg_need_oauth_def msg_product_missing_def msg_property_hidden_def
  msg_property_missing_def msg_cat_name_required_def msg_cat_created_def msg_cat_missing_def
  msg_cat_updated_def msg_cat_in_use_def msg_cat_deleted_def msg_sku_missing_def
  msg_community_required_def msg_property_created_def msg_property_updated_def msg_property_deleted_def
  msg_pay_disabled_def msg_mini_unconfigured_def title_property_def title_auction_def
  title_loan_def title_tax_def msg_listed_def msg_unlisted_def
  msg_no_file_def msg_empty_excel_def msg_no_rows_def msg_imported_pre_def
  msg_imported_post_def fl_success_msg_def fl_fail_msg_def fl_fail_short_def
  fl_usage_tip_def fl_usage_short_def fl_page_title_def fl_added_def
  fl_phone_exists_def fl_add_failed_def fl_phone_pre_def fl_exists_post_def
  fl_no_record_def fl_updated_def fl_deleted_def fl_cleared_def
  fl_login_first_def fl_expired_def fl_need_password_def fl_bad_password_def
  fl_logged_in_def fl_logged_out_def fl_token_ok_def fl_config_saved_def
  fl_bad_phone_def fl_bad_code_def fl_bad_id_def fl_update_failed_def
  fl_choose_file_def fl_empty_excel_def fl_no_rows_def fl_file_failed_def
  fl_done_pre_def fl_done_mid_def fl_done_post_def fl_row_pre_def
  fl_row_phone_def fl_row_code_def fl_only_excel_def fl_server_error_def

end
