(* ===== verification/File_Store.thy ===== *)
theory File_Store
  imports JS_Lists Messages
begin

text \<open>
  The store of \<^verbatim>\<open>src/src/storage/file_store.ts\<close>: one JSON file holding thirteen tables, cached in
  memory and written back with a delay.  The state has the module's variables (\<open>_cache\<close>, \<open>_dirty\<close>,
  whether a flush timer is armed), the files on disk, and \<open>DEFAULT_DATA\<close>, whose arrays the cache
  shares when a loaded file lacks a table.  Every operation takes the clock reading
  \<open>new Date().toISOString()\<close> as its argument \<open>now\<close>.
\<close>

section \<open>Tables and stored data\<close>

datatype table =
    Properties | Categories | Users | User_identities | Orders | Order_items
  | Order_change_logs | Products | Product_skus | Reviews | Welfare_codes
  | Welfare_code_items | Admins

instantiation table :: enum
begin

definition enum_table :: "table list" where
  "enum_table =
    [Properties, Categories, Users, User_identities, Orders, Order_items, Order_change_logs,
     Products, Product_skus, Reviews, Welfare_codes, Welfare_code_items, Admins]"

definition enum_all_table :: "(table \<Rightarrow> bool) \<Rightarrow> bool" where
  "enum_all_table P = list_all P (Enum.enum :: table list)"

definition enum_ex_table :: "(table \<Rightarrow> bool) \<Rightarrow> bool" where
  "enum_ex_table P = list_ex P (Enum.enum :: table list)"

instance
proof
  have all: "t \<in> set Enum.enum" for t :: table
    by (cases t) (simp_all add: enum_table_def)
  then show "(UNIV :: table set) = set Enum.enum"
    by auto
  show "distinct (Enum.enum :: table list)"
    by (simp add: enum_table_def)
  show "Enum.enum_all P = Ball UNIV P" for P :: "table \<Rightarrow> bool"
    using all by (auto simp: enum_all_table_def list_all_iff)
  show "Enum.enum_ex P = Bex UNIV P" for P :: "table \<Rightarrow> bool"
    using all by (auto simp: enum_ex_table_def list_ex_iff)
qed

end

record store_data =
  nextIds :: "table \<Rightarrow> nat option"
  createdAt :: string
  updatedAt :: string
  tbl :: "table \<Rightarrow> row list"

text \<open>The content of the data file: text that does not parse, or an object that may lack \<open>_meta\<close>
  or some tables.\<close>

datatype file_content =
    Garbage
  | Parsed "((table \<Rightarrow> nat option) \<times> string \<times> string) option" "table \<Rightarrow> row list option"

record fs_state =
  cache :: "store_data option"
  dirty :: bool
  timer :: bool
  disk :: "file_content option"
  tmp :: "file_content option"
  defaults :: store_data
  shared :: "table \<Rightarrow> bool"
  shared_meta :: bool

text \<open>\<open>DEFAULT_DATA\<close> as the module creates it when it is loaded at time \<open>now\<close>.\<close>

definition default_data :: "string \<Rightarrow> store_data" where
  "default_data now =
     \<lparr>nextIds = (\<lambda>_. None), createdAt = now, updatedAt = now, tbl = (\<lambda>_. [])\<rparr>"

text \<open>The process when the module has just been loaded: only the disk survives a restart.\<close>

definition boot :: "string \<Rightarrow> file_content option \<Rightarrow> file_content option \<Rightarrow> fs_state" where
  "boot now d tm =
     \<lparr>cache = None, dirty = False, timer = False, disk = d, tmp = tm,
      defaults = default_data now, shared = (\<lambda>_. False), shared_meta = False\<rparr>"

section \<open>The copy that a JSON round trip makes\<close>

text \<open>\<open>JSON.parse(JSON.stringify(v))\<close>: a property that is \<open>undefined\<close> disappears, an \<open>undefined\<close>
  array element and a number that is not finite become \<open>null\<close>.\<close>

fun json_copy :: "val \<Rightarrow> val" where
  "json_copy VUndef = VNull"
| "json_copy VNaN = VNull"
| "json_copy (VInf p) = VNull"
| "json_copy (VArr vs) = VArr (map json_copy vs)"
| "json_copy (VObj kvs) =
     VObj (map (\<lambda>(k, v). (k, json_copy v)) (filter (\<lambda>(k, v). v \<noteq> VUndef) kvs))"
| "json_copy v = v"

definition json_row :: "row \<Rightarrow> row" where
  "json_row r = map (\<lambda>(k, v). (k, json_copy v)) (filter (\<lambda>(k, v). v \<noteq> VUndef) r)"

definition json_data :: "store_data \<Rightarrow> store_data" where
  "json_data d = d\<lparr>tbl := (\<lambda>t. map json_row (tbl d t))\<rparr>"

definition to_file :: "store_data \<Rightarrow> file_content" where
  "to_file d =
     Parsed (Some (nextIds d, createdAt d, updatedAt d)) (\<lambda>t. Some (map json_row (tbl d t)))"

section \<open>Writes to the cached object\<close>

text \<open>A write into an array or into \<open>_meta\<close> is also seen by \<open>DEFAULT_DATA\<close> where the two share
  that object; assigning a new array to \<open>data[table]\<close> ends the sharing.\<close>

definition map_tbl :: "table \<Rightarrow> (row list \<Rightarrow> row list) \<Rightarrow> store_data \<Rightarrow> store_data" where
  "map_tbl t f d = d\<lparr>tbl := (tbl d)(t := f (tbl d t))\<rparr>"

definition on_meta :: "(store_data \<Rightarrow> store_data) \<Rightarrow> fs_state \<Rightarrow> fs_state" where
  "on_meta f st = st\<lparr>cache := map_option f (cache st),
                    defaults := (if shared_meta st then f (defaults st) else defaults st)\<rparr>"

definition on_rows :: "table \<Rightarrow> (row list \<Rightarrow> row list) \<Rightarrow> fs_state \<Rightarrow> fs_state" where
  "on_rows t f st =
     st\<lparr>cache := map_option (map_tbl t f) (cache st),
        defaults := (if shared st t then map_tbl t f (defaults st) else defaults st)\<rparr>"

definition replace_rows :: "table \<Rightarrow> row list \<Rightarrow> fs_state \<Rightarrow> fs_state" where
  "replace_rows t rs st =
     st\<lparr>cache := map_option (map_tbl t (\<lambda>_. rs)) (cache st), shared := (shared st)(t := False)\<rparr>"

definition set_cache_copy :: "store_data \<Rightarrow> fs_state \<Rightarrow> fs_state" where
  "set_cache_copy d st =
     st\<lparr>cache := Some (json_data d), shared := (\<lambda>_. False), shared_meta := False\<rparr>"

section \<open>Loading and saving\<close>

definition save_data_sync :: "string \<Rightarrow> fs_state \<Rightarrow> fs_state" where
  "save_data_sync now st =
     (case cache st of
        None \<Rightarrow> st
      | Some _ \<Rightarrow>
          (let st1 = on_meta (\<lambda>d. d\<lparr>updatedAt := now\<rparr>) st
           in st1\<lparr>disk := map_option to_file (cache st1), tmp := None, dirty := False\<rparr>))"

definition load_data :: "string \<Rightarrow> fs_state \<Rightarrow> fs_state" where
  "load_data now st =
     (case cache st of
        Some _ \<Rightarrow> st
      | None \<Rightarrow>
          (case disk st of
             None \<Rightarrow> save_data_sync now (set_cache_copy (defaults st) st)
           | Some Garbage \<Rightarrow> set_cache_copy (defaults st) st
           | Some (Parsed m ts) \<Rightarrow>
               (let (ni, cr, up) = (case m of Some x \<Rightarrow> x
                   | None \<Rightarrow> (nextIds (defaults st), createdAt (defaults st), updatedAt (defaults st)))
                in st\<lparr>cache := Some \<lparr>nextIds = ni, createdAt = cr, updatedAt = up,
                        tbl = (\<lambda>t. case ts t of Some rs \<Rightarrow> rs | None \<Rightarrow> tbl (defaults st) t)\<rparr>,
                      shared := (\<lambda>t. ts t = None), shared_meta := (m = None)\<rparr>)))"

definition mark_dirty :: "fs_state \<Rightarrow> fs_state" where
  "mark_dirty st = st\<lparr>dirty := True, timer := True\<rparr>"

text \<open>The callback of the timer, when it fires.\<close>

definition timer_fire :: "string \<Rightarrow> fs_state \<Rightarrow> fs_state" where
  "timer_fire now st =
     (let st1 = st\<lparr>timer := False\<rparr> in if dirty st1 then save_data_sync now st1 else st1)"

definition flush_now :: "string \<Rightarrow> fs_state \<Rightarrow> fs_state" where
  "flush_now now st =
     (let st1 = st\<lparr>timer := False\<rparr> in if dirty st1 then save_data_sync now st1 else st1)"

section \<open>Reading\<close>

definition data_of :: "fs_state \<Rightarrow> store_data" where
  "data_of st = (case cache st of Some d \<Rightarrow> d | None \<Rightarrow> defaults st)"

definition rows_in :: "fs_state \<Rightarrow> table \<Rightarrow> row list" where
  "rows_in st t = tbl (data_of st) t"

definition get_table :: "string \<Rightarrow> table \<Rightarrow> fs_state \<Rightarrow> row list \<times> fs_state" where
  "get_table now t st = (let st1 = load_data now st in (rows_in st1 t, st1))"

definition has_id :: "val \<Rightarrow> row \<Rightarrow> bool" where
  "has_id i r = strict_eq (fld r ''id'') i"

definition store_find_one ::
  "string \<Rightarrow> table \<Rightarrow> (row \<Rightarrow> bool) \<Rightarrow> fs_state \<Rightarrow> row option \<times> fs_state" where
  "store_find_one now t p st = (let (rs, st1) = get_table now t st in (find p rs, st1))"

definition store_find_by_id :: "string \<Rightarrow> table \<Rightarrow> val \<Rightarrow> fs_state \<Rightarrow> row option \<times> fs_state" where
  "store_find_by_id now t i st = (let (rs, st1) = get_table now t st in (find (has_id i) rs, st1))"

definition store_find_all ::
  "string \<Rightarrow> table \<Rightarrow> (row \<Rightarrow> bool) option \<Rightarrow> fs_state \<Rightarrow> row list \<times> fs_state" where
  "store_find_all now t p st =
     (let (rs, st1) = get_table now t st
      in (case p of Some q \<Rightarrow> filter q rs | None \<Rightarrow> rs, st1))"

definition store_count ::
  "string \<Rightarrow> table \<Rightarrow> (row \<Rightarrow> bool) option \<Rightarrow> fs_state \<Rightarrow> nat \<times> fs_state" where
  "store_count now t p st =
     (let (rs, st1) = get_table now t st
      in (case p of Some q \<Rightarrow> length (filter q rs) | None \<Rightarrow> length rs, st1))"

section \<open>Writing\<close>

definition set_table :: "string \<Rightarrow> table \<Rightarrow> row list \<Rightarrow> fs_state \<Rightarrow> fs_state" where
  "set_table now t rs st = mark_dirty (replace_rows t rs (load_data now st))"

definition next_id_of :: "fs_state \<Rightarrow> table \<Rightarrow> nat" where
  "next_id_of st t =
     (case nextIds (data_of st) t of None \<Rightarrow> 1 | Some n \<Rightarrow> if n = 0 then 1 else n)"

definition next_id :: "string \<Rightarrow> table \<Rightarrow> fs_state \<Rightarrow> nat \<times> fs_state" where
  "next_id now t st =
     (let st1 = load_data now st; current = next_id_of st1 t
      in (current,
          mark_dirty (on_meta (\<lambda>d. d\<lparr>nextIds := (nextIds d)(t \<mapsto> current + 1)\<rparr>) st1)))"

definition new_row :: "string \<Rightarrow> nat \<Rightarrow> row \<Rightarrow> row" where
  "new_row now i r =
     spread r [(''id'', VNat i),
               (''created_at'', js_or (fld r ''created_at'') (VStr now)),
               (''updated_at'', js_or (fld r ''updated_at'') (VStr now))]"

definition store_insert :: "string \<Rightarrow> table \<Rightarrow> row \<Rightarrow> fs_state \<Rightarrow> row \<times> fs_state" where
  "store_insert now t r st =
     (let st1 = load_data now st; (i, st2) = next_id now t st1; nr = new_row now i r
      in (nr, mark_dirty (on_rows t (\<lambda>rs. rs @ [nr]) st2)))"

fun find_index :: "('a \<Rightarrow> bool) \<Rightarrow> 'a list \<Rightarrow> nat option" where
  "find_index p [] = None"
| "find_index p (x # xs) = (if p x then Some 0 else map_option Suc (find_index p xs))"

definition touched :: "string \<Rightarrow> row \<Rightarrow> row \<Rightarrow> row" where
  "touched now u r = spread (spread r u) [(''updated_at'', VStr now)]"

definition store_update :: "string \<Rightarrow> table \<Rightarrow> val \<Rightarrow> row \<Rightarrow> fs_state \<Rightarrow> bool \<times> fs_state" where
  "store_update now t i u st =
     (let st1 = load_data now st
      in case find_index (has_id i) (rows_in st1 t) of
           None \<Rightarrow> (False, st1)
         | Some k \<Rightarrow> (True, mark_dirty (on_rows t (\<lambda>rs. rs[k := touched now u (rs ! k)]) st1)))"

definition update_where ::
  "string \<Rightarrow> table \<Rightarrow> (row \<Rightarrow> bool) \<Rightarrow> row \<Rightarrow> fs_state \<Rightarrow> nat \<times> fs_state" where
  "update_where now t p u st =
     (let st1 = load_data now st; c = length (filter p (rows_in st1 t));
          st2 = on_rows t (map (\<lambda>r. if p r then touched now u r else r)) st1
      in (c, if c > 0 then mark_dirty st2 else st2))"

definition store_remove :: "string \<Rightarrow> table \<Rightarrow> val \<Rightarrow> fs_state \<Rightarrow> bool \<times> fs_state" where
  "store_remove now t i st =
     (let st1 = load_data now st
      in case find_index (has_id i) (rows_in st1 t) of
           None \<Rightarrow> (False, st1)
         | Some k \<Rightarrow> (True, mark_dirty (on_rows t (\<lambda>rs. take k rs @ drop (Suc k) rs) st1)))"

definition remove_where ::
  "string \<Rightarrow> table \<Rightarrow> (row \<Rightarrow> bool) \<Rightarrow> fs_state \<Rightarrow> nat \<times> fs_state" where
  "remove_where now t p st =
     (let st1 = load_data now st; rs = rows_in st1 t; rs' = filter (\<lambda>r. \<not> p r) rs;
          st2 = replace_rows t rs' st1; removed = length rs - length rs'
      in (removed, if removed > 0 then mark_dirty st2 else st2))"

text \<open>\<open>rows.sort(cmp)\<close> on the array that \<open>getTable\<close> returned: the stored table itself is
  rearranged, and nothing is marked as changed.\<close>

definition sort_table :: "table \<Rightarrow> (row \<Rightarrow> row \<Rightarrow> rat) \<Rightarrow> fs_state \<Rightarrow> fs_state" where
  "sort_table t c st = on_rows t (js_sort c) st"

section \<open>Transactions and initial data\<close>

definition with_transaction ::
  "string \<Rightarrow> (fs_state \<Rightarrow> (js_error + 'a) \<times> fs_state) \<Rightarrow> fs_state \<Rightarrow> (js_error + 'a) \<times> fs_state" where
  "with_transaction now fn st =
     (let st0 = load_data now st; snapshot = data_of st0
      in case fn st0 of
           (Inr x, st1) \<Rightarrow> (Inr x, flush_now now st1)
         | (Inl e, st1) \<Rightarrow> (Inl e, (set_cache_copy snapshot st1)\<lparr>dirty := False\<rparr>))"

definition clear_all :: "string \<Rightarrow> fs_state \<Rightarrow> fs_state" where
  "clear_all now st = save_data_sync now (set_cache_copy (defaults st) st)"

text \<open>\<open>initDefaultData\<close>: five categories and one administrator, each only where its table is empty.\<close>

definition category_seed :: "string \<Rightarrow> int \<Rightarrow> row" where
  "category_seed name order =
     [(''name'', VStr name), (''sort_order'', VInt order), (''status'', VInt 1)]"

definition default_categories :: "row list" where
  "default_categories =
     [category_seed cat_residence 100, category_seed cat_apartment 90, category_seed cat_villa 80,
      category_seed cat_shop 70, category_seed cat_office 60]"

definition default_admin :: row where
  "default_admin =
     [(''username'', VStr ''admin''), (''password'', VStr ''admin123''),
      (''token'', VStr ''jintai_admin_2026'')]"

definition insert_all :: "string \<Rightarrow> table \<Rightarrow> row list \<Rightarrow> fs_state \<Rightarrow> fs_state" where
  "insert_all now t rs st = foldl (\<lambda>s r. snd (store_insert now t r s)) st rs"

definition init_default_data :: "string \<Rightarrow> fs_state \<Rightarrow> fs_state" where
  "init_default_data now st =
     (let st0 = load_data now st;
          st1 = (if rows_in st0 Categories = [] then insert_all now Categories default_categories st0
                 else st0);
          st2 = (if rows_in st1 Admins = [] then snd (store_insert now Admins default_admin st1)
                 else st1)
      in flush_now now st2)"

end
