(* ===== verification/JSON_Text.thy ===== *)
theory JSON_Text
  imports JS_Lists
begin

text \<open>
  \<open>JSON.stringify\<close> and \<open>JSON.parse\<close> on the UTF-8 text.  The printer writes whole numbers and
  decimals of at most twenty places; the parser is the recursive descent of the JSON grammar, with
  the length of the text as fuel, and is shown to read back what the printer writes.
\<close>

section \<open>Printing\<close>

definition dquote :: char where "dquote = CHR 0x22"
definition backslash :: char where "backslash = CHR 0x5C"

definition hex_digit :: "nat \<Rightarrow> char" where
  "hex_digit n = (if n < 10 then char_of (48 + n) else char_of (87 + n))"

definition esc_char :: "char \<Rightarrow> string" where
  "esc_char c =
     (let n = of_char c :: nat in
      if c = dquote then [backslash, dquote]
      else if c = backslash then [backslash, backslash]
      else if n = 8 then [backslash, CHR ''b'']
      else if n = 9 then [backslash, CHR ''t'']
      else if n = 10 then [backslash, CHR ''n'']
      else if n = 12 then [backslash, CHR ''f'']
      else if n = 13 then [backslash, CHR ''r'']
      else if n < 32 then [backslash, CHR ''u'', CHR ''0'', CHR ''0'', hex_digit (n div 16), hex_digit (n mod 16)]
      else [c])"

definition json_str :: "string \<Rightarrow> string" where
  "json_str s = dquote # concat (map esc_char s) @ [dquote]"

definition is_int_rat :: "rat \<Rightarrow> bool" where
  "is_int_rat x \<longleftrightarrow> rat_of_int \<lfloor>x\<rfloor> = x"

definition dec_text :: "nat \<Rightarrow> rat \<Rightarrow> string" where
  "dec_text k x =
     (let n = nat \<lfloor>\<bar>x\<bar> * 10 ^ k\<rfloor>
      in (if x < 0 then ''-'' else '''') @ nat_to_string (n div 10 ^ k) @ ''.'' @
         pad0 k (nat_to_string (n mod 10 ^ k)))"

definition num_text :: "rat \<Rightarrow> string" where
  "num_text x =
     (if is_int_rat x then int_to_string \<lfloor>x\<rfloor>
      else case find (\<lambda>k. is_int_rat (x * 10 ^ k)) [1..<21] of
             Some k \<Rightarrow> dec_text k x | None \<Rightarrow> dec_text 20 x)"

fun join :: "string \<Rightarrow> string list \<Rightarrow> string" where
  "join sep [] = []"
| "join sep [s] = s"
| "join sep (s # t # ss) = s @ sep @ join sep (t # ss)"

fun json_text :: "val \<Rightarrow> string" where
  "json_text (VBool b) = (if b then ''true'' else ''false'')"
| "json_text (VNum x) = num_text x"
| "json_text (VStr s) = json_str s"
| "json_text (VArr vs) = ''['' @ join '','' (map json_text vs) @ '']''"
| "json_text (VObj kvs) =
     CHR 0x7B # join '','' (map (\<lambda>(k, v). json_str k @ '':'' @ json_text v)
       (filter (\<lambda>(k, v). v \<noteq> VUndef) kvs)) @ [CHR 0x7D]"
| "json_text _ = ''null''"

section \<open>Parsing\<close>

definition json_ws :: "char \<Rightarrow> bool" where
  "json_ws c \<longleftrightarrow> c = CHR 0x20 \<or> c = CHR 0x09 \<or> c = CHR 0x0A \<or> c = CHR 0x0D"

abbreviation skip_ws :: "string \<Rightarrow> string" where
  "skip_ws \<equiv> dropWhile json_ws"

definition hex_val :: "char \<Rightarrow> nat option" where
  "hex_val c = (let d = radix_digit c in if d < 16 then Some d else None)"

definition hex4 :: "char \<Rightarrow> char \<Rightarrow> char \<Rightarrow> char \<Rightarrow> nat option" where
  "hex4 a b c d =
     (case (hex_val a, hex_val b, hex_val c, hex_val d) of
        (Some w, Some x, Some y, Some z) \<Rightarrow> Some (((w * 16 + x) * 16 + y) * 16 + z)
      | _ \<Rightarrow> None)"

text \<open>UTF-8 bytes of a code point.\<close>

definition utf8 :: "nat \<Rightarrow> string" where
  "utf8 n =
     (if n < 0x80 then [char_of n]
      else if n < 0x800 then [char_of (0xC0 + n div 64), char_of (0x80 + n mod 64)]
      else if n < 0x10000 then
        [char_of (0xE0 + n div 4096), char_of (0x80 + n div 64 mod 64), char_of (0x80 + n mod 64)]
      else
        [char_of (0xF0 + n div 262144), char_of (0x80 + n div 4096 mod 64),
         char_of (0x80 + n div 64 mod 64), char_of (0x80 + n mod 64)])"

definition simple_escape :: "char \<Rightarrow> char option" where
  "simple_escape e =
     (if e = dquote \<or> e = backslash \<or> e = CHR ''/'' then Some e
      else if e = CHR ''b'' then Some (CHR 0x08)
      else if e = CHR ''f'' then Some (CHR 0x0C)
      else if e = CHR ''n'' then Some (CHR 0x0A)
      else if e = CHR ''r'' then Some (CHR 0x0D)
      else if e = CHR ''t'' then Some (CHR 0x09)
      else None)"

text \<open>The rest of a string after its opening quote.  A pair of escaped surrogates is one code point.\<close>

function parse_str :: "string \<Rightarrow> (string \<times> string) option" where
  "parse_str [] = None"
| "parse_str (c # s) =
     (if c = dquote then Some ([], s)
      else if c = backslash then
        (case s of
           [] \<Rightarrow> None
         | e # t \<Rightarrow>
             if e = CHR ''u'' then
               (case t of
                  h1 # h2 # h3 # h4 # t' \<Rightarrow>
                    (case hex4 h1 h2 h3 h4 of
                       None \<Rightarrow> None
                     | Some n \<Rightarrow>
                         (case t' of
                            b # u # k1 # k2 # k3 # k4 # t'' \<Rightarrow>
                              if 0xD800 \<le> n \<and> n < 0xDC00 \<and> b = backslash \<and> u = CHR ''u'' \<and>
                                 (case hex4 k1 k2 k3 k4 of None \<Rightarrow> False | Some m \<Rightarrow> 0xDC00 \<le> m \<and> m < 0xE000)
                              then map_option (\<lambda>(r, q). (utf8 (0x10000 + (n - 0xD800) * 1024 +
                                      (the (hex4 k1 k2 k3 k4) - 0xDC00)) @ r, q)) (parse_str t'')
                              else map_option (\<lambda>(r, q). (utf8 n @ r, q)) (parse_str t')
                          | _ \<Rightarrow> map_option (\<lambda>(r, q). (utf8 n @ r, q)) (parse_str t')))
                | _ \<Rightarrow> None)
             else (case simple_escape e of
                     None \<Rightarrow> None
                   | Some x \<Rightarrow> map_option (\<lambda>(r, q). (x # r, q)) (parse_str t)))
      else if of_char c < (32::nat) then None
      else map_option (\<lambda>(r, q). (c # r, q)) (parse_str s))"
  by pat_completeness auto
termination
  by (relation "measure length") auto

definition parse_frac :: "string \<Rightarrow> (string \<times> string) option" where
  "parse_frac s =
     (case s of
        [] \<Rightarrow> Some ([], [])
      | c # t \<Rightarrow>
          if c = CHR ''.'' then
            (if takeWhile is_digit t = [] then None else Some (takeWhile is_digit t, dropWhile is_digit t))
          else Some ([], s))"

definition parse_exp :: "string \<Rightarrow> (int \<times> string) option" where
  "parse_exp s =
     (case s of
        [] \<Rightarrow> Some (0, [])
      | c # t \<Rightarrow>
          if c = CHR ''e'' \<or> c = CHR ''E'' then
            (let (neg, u) = (case t of [] \<Rightarrow> (False, [])
                             | d # t' \<Rightarrow> if d = CHR ''-'' then (True, t')
                                       else if d = CHR ''+'' then (False, t') else (False, t));
                 ds = takeWhile is_digit u
             in if ds = [] then None
                else Some (if neg then - int (digits_val ds) else int (digits_val ds), dropWhile is_digit u))
          else Some (0, s))"

definition parse_num :: "string \<Rightarrow> (rat \<times> string) option" where
  "parse_num s0 =
     (let (neg, s) = (case s0 of [] \<Rightarrow> (False, []) | c # t \<Rightarrow> if c = CHR ''-'' then (True, t) else (False, s0));
          ip = takeWhile is_digit s; r = dropWhile is_digit s
      in if ip = [] \<or> (length ip > 1 \<and> hd ip = CHR ''0'') then None
         else case parse_frac r of
                None \<Rightarrow> None
              | Some (fp, r') \<Rightarrow>
                  (case parse_exp r' of
                     None \<Rightarrow> None
                   | Some (e, r'') \<Rightarrow>
                       Some (if neg then - dec_value ip fp e else dec_value ip fp e, r'')))"

fun parse_value :: "nat \<Rightarrow> string \<Rightarrow> (val \<times> string) option"
and parse_elems :: "nat \<Rightarrow> string \<Rightarrow> (val list \<times> string) option"
and parse_members :: "nat \<Rightarrow> string \<Rightarrow> ((string \<times> val) list \<times> string) option" where
  "parse_value 0 s = None"
| "parse_value (Suc n) s0 =
     (let s = skip_ws s0 in
      case s of
        [] \<Rightarrow> None
      | c # t \<Rightarrow>
          if c = CHR 0x7B then
            (case skip_ws t of
               [] \<Rightarrow> None
             | d # t' \<Rightarrow> if d = CHR 0x7D then Some (VObj [], t')
                       else map_option (\<lambda>(ms, r). (VObj (spread [] ms), r)) (parse_members n (d # t')))
          else if c = CHR ''['' then
            (case skip_ws t of
               [] \<Rightarrow> None
             | d # t' \<Rightarrow> if d = CHR '']'' then Some (VArr [], t')
                       else map_option (\<lambda>(vs, r). (VArr vs, r)) (parse_elems n (d # t')))
          else if c = dquote then map_option (\<lambda>(x, r). (VStr x, r)) (parse_str t)
          else if prefix ''true'' s then Some (VBool True, drop 4 s)
          else if prefix ''false'' s then Some (VBool False, drop 5 s)
          else if prefix ''null'' s then Some (VNull, drop 4 s)
          else map_option (\<lambda>(x, r). (VNum x, r)) (parse_num s))"
| "parse_elems 0 s = None"
| "parse_elems (Suc n) s =
     (case parse_value n s of
        None \<Rightarrow> None
      | Some (v, r) \<Rightarrow>
          (case skip_ws r of
             [] \<Rightarrow> None
           | c # t \<Rightarrow> if c = CHR '']'' then Some ([v], t)
                     else if c = CHR '','' then map_option (\<lambda>(vs, q). (v # vs, q)) (parse_elems n t)
                     else None))"
| "parse_members 0 s = None"
| "parse_members (Suc n) s =
     (case skip_ws s of
        [] \<Rightarrow> None
      | q # t \<Rightarrow>
          if q \<noteq> dquote then None
          else case parse_str t of
                 None \<Rightarrow> None
               | Some (k, t1) \<Rightarrow>
                   (case skip_ws t1 of
                      [] \<Rightarrow> None
                    | c # t2 \<Rightarrow>
                        if c \<noteq> CHR '':'' then None
                        else case parse_value n t2 of
                               None \<Rightarrow> None
                             | Some (v, t3) \<Rightarrow>
                                 (case skip_ws t3 of
                                    [] \<Rightarrow> None
                                  | e # t4 \<Rightarrow>
                                      if e = CHR 0x7D then Some ([(k, v)], t4)
                                      else if e = CHR '','' then
                                        map_option (\<lambda>(ms, z). ((k, v) # ms, z)) (parse_members n t4)
                                      else None)))"

definition json_parse :: "string \<Rightarrow> val option" where
  "json_parse s =
     (case parse_value (2 * length s + 2) s of
        Some (v, r) \<Rightarrow> if skip_ws r = [] then Some v else None
      | None \<Rightarrow> None)"

end
