(* ===== verification/JSON_Roundtrip.thy ===== *)
theory JSON_Roundtrip
  imports JSON_Text
begin

text \<open>
  Parsing what \<open>JSON.stringify\<close> printed gives the value back, for values without \<open>undefined\<close>,
  NaN and infinities whose numbers are whole and whose objects have distinct keys: the values the
  program stringifies (token payloads, address snapshots, image lists).
\<close>

fun json_plain :: "val \<Rightarrow> bool" where
  "json_plain VNull = True"
| "json_plain (VBool _) = True"
| "json_plain (VNum x) = is_int_rat x"
| "json_plain (VStr _) = True"
| "json_plain (VArr vs) = (\<forall>v\<in>set vs. json_plain v)"
| "json_plain (VObj kvs) = (distinct (map fst kvs) \<and> (\<forall>p\<in>set kvs. json_plain (snd p)))"
| "json_plain _ = False"

section \<open>Strings\<close>

lemma hex_val_digit: "n < 16 \<Longrightarrow> hex_val (hex_digit n) = Some n"
  by (auto simp: hex_val_def hex_digit_def radix_digit_def is_digit_def Let_def)

lemma hex_val_0: "hex_val (CHR ''0'') = Some 0"
  by (simp add: hex_val_def radix_digit_def is_digit_def Let_def)

lemma utf8_ascii: "utf8 (of_char c) = [c]" if "of_char c < (32::nat)"
  using that by (simp add: utf8_def)

lemma parse_str_u00:
  assumes "n < 32"
  shows "parse_str (backslash # CHR ''u'' # CHR ''0'' # CHR ''0'' # hex_digit (n div 16) # hex_digit (n mod 16) # s)
       = map_option (\<lambda>(r, q). (utf8 n @ r, q)) (parse_str s)"
proof -
  have "hex4 (CHR ''0'') (CHR ''0'') (hex_digit (n div 16)) (hex_digit (n mod 16)) = Some n"
    using assms by (simp add: hex4_def hex_val_0 hex_val_digit)
  moreover have "\<not> 0xD800 \<le> n"
    using assms by simp
  ultimately show ?thesis
    by (subst parse_str.simps(2))
      (simp add: dquote_def backslash_def del: parse_str.simps split: list.splits)
qed

lemma of_char_ctrl:
  "of_char c = (8::nat) \<longleftrightarrow> c = CHR 0x08" "of_char c = (9::nat) \<longleftrightarrow> c = CHR 0x09"
  "of_char c = (10::nat) \<longleftrightarrow> c = CHR 0x0A" "of_char c = (12::nat) \<longleftrightarrow> c = CHR 0x0C"
  "of_char c = (13::nat) \<longleftrightarrow> c = CHR 0x0D"
proof -
  have n: "(8::nat) = of_char (CHR 0x08)" "(9::nat) = of_char (CHR 0x09)" "(10::nat) = of_char (CHR 0x0A)"
    "(12::nat) = of_char (CHR 0x0C)" "(13::nat) = of_char (CHR 0x0D)"
    by simp_all
  show "of_char c = (8::nat) \<longleftrightarrow> c = CHR 0x08" by (simp only: n(1) of_char_eq_iff)
  show "of_char c = (9::nat) \<longleftrightarrow> c = CHR 0x09" by (simp only: n(2) of_char_eq_iff)
  show "of_char c = (10::nat) \<longleftrightarrow> c = CHR 0x0A" by (simp only: n(3) of_char_eq_iff)
  show "of_char c = (12::nat) \<longleftrightarrow> c = CHR 0x0C" by (simp only: n(4) of_char_eq_iff)
  show "of_char c = (13::nat) \<longleftrightarrow> c = CHR 0x0D" by (simp only: n(5) of_char_eq_iff)
qed

lemma parse_str_plain:
  "c \<noteq> dquote \<Longrightarrow> c \<noteq> backslash \<Longrightarrow> \<not> of_char c < (32::nat) \<Longrightarrow>
   parse_str (c # s) = map_option (\<lambda>(r, q). (c # r, q)) (parse_str s)"
  by simp

lemma parse_str_simple:
  "simple_escape e = Some x \<Longrightarrow> e \<noteq> CHR ''u'' \<Longrightarrow>
   parse_str (backslash # e # s) = map_option (\<lambda>(r, q). (x # r, q)) (parse_str s)"
  by (subst parse_str.simps(2)) (simp add: dquote_def backslash_def del: parse_str.simps)

lemma parse_str_esc:
  "parse_str (esc_char c @ s) = map_option (\<lambda>(r, q). (c # r, q)) (parse_str s)"
proof -
  let ?n = "of_char c :: nat"
  consider "c = dquote" | "c = backslash" | "?n = 8" | "?n = 9" | "?n = 10" | "?n = 12" | "?n = 13"
    | "c \<noteq> dquote" "c \<noteq> backslash" "?n \<noteq> 8" "?n \<noteq> 9" "?n \<noteq> 10" "?n \<noteq> 12" "?n \<noteq> 13" "?n < 32"
    | "c \<noteq> dquote" "c \<noteq> backslash" "?n \<noteq> 8" "?n \<noteq> 9" "?n \<noteq> 10" "?n \<noteq> 12" "?n \<noteq> 13" "\<not> ?n < 32"
    by blast
  then show ?thesis
  proof cases
    case 8
    then have "esc_char c = [backslash, CHR ''u'', CHR ''0'', CHR ''0'', hex_digit (?n div 16), hex_digit (?n mod 16)]"
      by (simp add: esc_char_def Let_def)
    with parse_str_u00 [OF 8(8), of s] utf8_ascii [OF 8(8)] show ?thesis
      by (simp del: parse_str.simps)
  next
    case 9
    then have "esc_char c = [c]"
      by (simp add: esc_char_def Let_def)
    with 9 parse_str_plain show ?thesis by simp
  qed (auto simp: of_char_ctrl esc_char_def Let_def simple_escape_def dquote_def backslash_def
      simp del: parse_str.simps intro!: parse_str_simple [unfolded backslash_def])
qed

lemma parse_str_json:
  "parse_str (concat (map esc_char s) @ dquote # rest) = Some (s, rest)"
  by (induction s) (simp_all add: parse_str_esc del: parse_str.simps, simp)

section \<open>Numbers\<close>

definition delim :: "string \<Rightarrow> bool" where
  "delim rest \<longleftrightarrow> rest = [] \<or> hd rest = CHR '','' \<or> hd rest = CHR '']'' \<or> hd rest = CHR 0x7D"

lemma delim_cases:
  assumes "delim rest"
  obtains "rest = []" | t where "rest = CHR '','' # t" | t where "rest = CHR '']'' # t"
    | t where "rest = CHR 0x7D # t"
  using assms by (cases rest) (auto simp: delim_def)

lemma take_digits_delim:
  assumes "delim rest" "list_all is_digit ds"
  shows "takeWhile is_digit (ds @ rest) = ds" "dropWhile is_digit (ds @ rest) = rest"
  using assms by (auto simp: takeWhile_append2 dropWhile_append2 list_all_iff is_digit_def elim!: delim_cases)

lemma digit_char_nonzero: "0 < d \<Longrightarrow> d < 10 \<Longrightarrow> digit_char d \<noteq> CHR ''0''"
proof
  assume "0 < d" "d < 10" "digit_char d = CHR ''0''"
  then have "digit_val (digit_char d) = digit_val (CHR ''0'')"
    by simp
  with \<open>0 < d\<close> \<open>d < 10\<close> show False
    by (simp add: digit_val_def digit_char_def)
qed

lemma hd_nat_to_string: "0 < n \<Longrightarrow> hd (nat_to_string n) \<noteq> CHR ''0''"
proof (induction n rule: nat_to_string.induct)
  case (1 n)
  show ?case
  proof (cases "n < 10")
    case True
    with "1.prems" show ?thesis
      by (simp add: nat_to_string.simps [of n] digit_char_nonzero)
  next
    case False
    with "1.IH" show ?thesis
      by (simp add: nat_to_string.simps [of n])
  qed
qed

lemma no_leading_zero: "length (nat_to_string n) > 1 \<Longrightarrow> hd (nat_to_string n) \<noteq> CHR ''0''"
  using hd_nat_to_string [of n] by (cases "n = 0") (auto simp: nat_to_string.simps [of 0])

lemma nat_to_string_no_minus: "nat_to_string n = c # t \<Longrightarrow> c \<noteq> CHR ''-''"
  using nat_to_string_digits [of n] by (auto simp: is_digit_def)

lemma parse_frac_delim: "delim rest \<Longrightarrow> parse_frac rest = Some ([], rest)"
  by (auto simp: parse_frac_def elim!: delim_cases)

lemma parse_exp_delim: "delim rest \<Longrightarrow> parse_exp rest = Some (0, rest)"
  by (auto simp: parse_exp_def elim!: delim_cases)

lemma parse_num_nat:
  assumes "delim rest"
  shows "parse_num (nat_to_string n @ rest) = Some (rat_of_nat n, rest)"
proof -
  obtain c t where ct: "nat_to_string n = c # t"
    by (cases "nat_to_string n") auto
  then have "c \<noteq> CHR ''-''"
    by (rule nat_to_string_no_minus)
  with ct have "(case nat_to_string n @ rest of [] \<Rightarrow> (False, [])
      | c # t \<Rightarrow> if c = CHR ''-'' then (True, t) else (False, nat_to_string n @ rest))
      = (False, nat_to_string n @ rest)"
    by simp
  with assms no_leading_zero [of n] show ?thesis
    by (simp add: parse_num_def Let_def take_digits_delim nat_to_string_digits parse_frac_delim
        parse_exp_delim dec_value_def)
qed

lemma parse_num_int:
  assumes "delim rest"
  shows "parse_num (int_to_string n @ rest) = Some (rat_of_int n, rest)"
proof (cases "n < 0")
  case True
  with assms no_leading_zero [of "nat (- n)"] show ?thesis
    by (simp add: int_to_string_def parse_num_def Let_def take_digits_delim nat_to_string_digits
        parse_frac_delim parse_exp_delim dec_value_def)
next
  case False
  with parse_num_nat [OF assms, of "nat n"] show ?thesis
    by (simp add: int_to_string_def)
qed

lemma int_to_string_start:
  "\<exists>c t. int_to_string n = c # t \<and> (is_digit c \<or> c = CHR ''-'')"
proof -
  obtain c t where "nat_to_string (nat n) = c # t"
    by (cases "nat_to_string (nat n)") auto
  with nat_to_string_digits [of "nat n"] show ?thesis
    by (auto simp: int_to_string_def)
qed

lemma parse_value_num:
  assumes "is_digit c \<or> c = CHR ''-''"
  shows "parse_value (Suc n) (c # t) = map_option (\<lambda>(x, r). (VNum x, r)) (parse_num (c # t))"
proof -
  have "c \<noteq> CHR 0x7B" "c \<noteq> CHR ''[''" "c \<noteq> dquote" "c \<noteq> CHR ''t''" "c \<noteq> CHR ''f''" "c \<noteq> CHR ''n''"
    "\<not> json_ws c"
    using assms by (auto simp: is_digit_def dquote_def json_ws_def)
  then show ?thesis by (simp add: Let_def)
qed

section \<open>Values\<close>

lemma ws_simps [simp]:
  "\<not> json_ws CHR 0x7B" "\<not> json_ws CHR 0x7D" "\<not> json_ws CHR ''[''" "\<not> json_ws CHR '']''"
  "\<not> json_ws CHR '',''" "\<not> json_ws CHR '':''" "\<not> json_ws dquote" "\<not> json_ws CHR 0x22" "\<not> json_ws CHR ''n''"
  "\<not> json_ws CHR ''t''" "\<not> json_ws CHR ''f''"
  by (simp_all add: json_ws_def dquote_def)

text \<open>The first character of a printed value starts a value.\<close>

lemma json_text_start:
  assumes "json_plain v"
  shows "\<exists>c t. json_text v = c # t \<and> \<not> json_ws c \<and> c \<noteq> CHR '']''"
proof (cases v)
  case (VNum x)
  with assms int_to_string_start [of "\<lfloor>x\<rfloor>"] show ?thesis
    by (auto simp: num_text_def is_digit_def json_ws_def)
qed (use assms in \<open>auto simp: json_str_def dquote_def json_ws_def\<close>)

definition reads_back :: "val \<Rightarrow> bool" where
  "reads_back v \<longleftrightarrow> (\<forall>n rest. 2 * length (json_text v) \<le> n \<longrightarrow> delim rest \<longrightarrow>
     parse_value n (json_text v @ rest) = Some (v, rest))"

lemma reads_backD:
  "reads_back v \<Longrightarrow> 2 * length (json_text v) \<le> n \<Longrightarrow> delim rest \<Longrightarrow>
   parse_value n (json_text v @ rest) = Some (v, rest)"
  by (simp add: reads_back_def)

lemma reads_backI:
  assumes "json_text v \<noteq> []"
    and "\<And>m rest. delim rest \<Longrightarrow> parse_value (Suc m) (json_text v @ rest) = Some (v, rest)"
  shows "reads_back v"
  unfolding reads_back_def
proof (intro allI impI)
  fix n rest
  assume "2 * length (json_text v) \<le> n" "delim rest"
  with assms show "parse_value n (json_text v @ rest) = Some (v, rest)"
    by (cases n) auto
qed

lemma delim_chars [simp]: "delim (CHR '','' # t)" "delim (CHR '']'' # t)" "delim (CHR 0x7D # t)"
  by (simp_all add: delim_def)

lemma parse_elems_text:
  assumes "vs \<noteq> []" "\<forall>v\<in>set vs. reads_back v" "2 * length (join '','' (map json_text vs)) + 1 \<le> n"
  shows "parse_elems n (join '','' (map json_text vs) @ CHR '']'' # rest) = Some (vs, rest)"
  using assms
proof (induction vs arbitrary: n)
  case (Cons v vs)
  then obtain m where n: "n = Suc m"
    by (cases n) auto
  show ?case
  proof (cases vs)
    case Nil
    with Cons.prems n have "parse_value m (json_text v @ CHR '']'' # rest) = Some (v, CHR '']'' # rest)"
      by (intro reads_backD) auto
    with Nil n show ?thesis by simp
  next
    case (Cons w ws)
    let ?J = "join '','' (map json_text vs)"
    have J: "join '','' (json_text v # map json_text vs) = json_text v @ CHR '','' # ?J"
      using Cons by simp
    have "parse_value m (json_text v @ CHR '','' # ?J @ CHR '']'' # rest)
        = Some (v, CHR '','' # ?J @ CHR '']'' # rest)"
      using Cons.prems n J by (intro reads_backD) auto
    moreover have "parse_elems m (?J @ CHR '']'' # rest) = Some (vs, rest)"
      using Cons.prems n J Cons by (intro Cons.IH) auto
    ultimately show ?thesis
      by (simp add: n J)
  qed
qed simp

abbreviation member_text :: "string \<times> val \<Rightarrow> string" where
  "member_text \<equiv> (\<lambda>(k, v). json_str k @ CHR '':'' # json_text v)"

lemma parse_members_text:
  assumes "kvs \<noteq> []" "\<forall>p\<in>set kvs. reads_back (snd p)"
    and "2 * length (join '','' (map member_text kvs)) + 1 \<le> n"
  shows "parse_members n (join '','' (map member_text kvs) @ CHR 0x7D # rest) = Some (kvs, rest)"
  using assms
proof (induction kvs arbitrary: n)
  case (Cons p kvs)
  obtain k v where p: "p = (k, v)"
    by (cases p)
  from Cons obtain m where n: "n = Suc m"
    by (cases n) auto
  have key: "json_str k @ s = dquote # concat (map esc_char k) @ dquote # s" for s
    by (simp add: json_str_def)
  show ?case
  proof (cases kvs)
    case Nil
    with Cons.prems n p have "parse_value m (json_text v @ CHR 0x7D # rest) = Some (v, CHR 0x7D # rest)"
      by (intro reads_backD) auto
    with Nil n p show ?thesis
      by (simp add: key parse_str_json del: parse_str.simps)
  next
    case (Cons q qs)
    let ?J = "join '','' (map member_text kvs)"
    have J: "join '','' ((json_str k @ CHR '':'' # json_text v) # map member_text kvs)
        = json_str k @ CHR '':'' # json_text v @ CHR '','' # ?J"
      using Cons by simp
    have K: "join '','' ((dquote # concat (map esc_char k) @ dquote # CHR '':'' # json_text v) # map member_text kvs)
        = dquote # concat (map esc_char k) @ dquote # CHR '':'' # json_text v @ CHR '','' # ?J"
      using J by (simp add: key)
    have "parse_value m (json_text v @ CHR '','' # ?J @ CHR 0x7D # rest)
        = Some (v, CHR '','' # ?J @ CHR 0x7D # rest)"
      using Cons.prems n J p by (intro reads_backD) auto
    moreover have "parse_members m (?J @ CHR 0x7D # rest) = Some (kvs, rest)"
      using Cons.prems n J Cons by (intro Cons.IH) auto
    ultimately show ?thesis
      by (simp add: n K p key parse_str_json del: parse_str.simps)
  qed
qed simp

lemma update_fresh: "k \<notin> fst ` set r \<Longrightarrow> AList.update k v r = r @ [(k, v)]"
  by (induction r) auto

lemma spread_Nil_id: "distinct (map fst (r @ u)) \<Longrightarrow> spread r u = r @ u"
proof (induction r u rule: spread.induct)
  case (2 r k v u)
  then have "AList.update k v r = r @ [(k, v)]"
    by (intro update_fresh) auto
  with 2 show ?case by simp
qed simp

lemma reads_back_all: "json_plain v \<Longrightarrow> reads_back v"
proof (induction v rule: json_plain.induct)
  case (3 x)
  have "num_text x = int_to_string \<lfloor>x\<rfloor>" and x: "rat_of_int \<lfloor>x\<rfloor> = x"
    using 3 by (simp_all add: num_text_def is_int_rat_def)
  moreover obtain c t where ct: "int_to_string \<lfloor>x\<rfloor> = c # t" "is_digit c \<or> c = CHR ''-''"
    using int_to_string_start by blast
  moreover have "parse_value n (c # t @ rest) = Some (VNum x, rest)"
    if "2 * length (c # t) \<le> n" "delim rest" for n rest
  proof -
    from that obtain m where "n = Suc m"
      by (cases n) auto
    with parse_num_int [OF that(2), of "\<lfloor>x\<rfloor>"] ct x show ?thesis
      by (simp add: parse_value_num del: parse_value.simps)
  qed
  ultimately show ?case
    by (simp add: reads_back_def)
next
  case (5 vs)
  show ?case
    unfolding reads_back_def
  proof (intro allI impI)
    fix n rest
    assume n: "2 * length (json_text (VArr vs)) \<le> n" and "delim rest"
    then obtain m where m: "n = Suc m"
      by (cases n) auto
    show "parse_value n (json_text (VArr vs) @ rest) = Some (VArr vs, rest)"
    proof (cases "vs = []")
      case False
      then obtain v where v: "v \<in> set vs" "hd vs = v"
        by (cases vs) auto
      with 5 json_text_start [of v] obtain c t where ct: "json_text v = c # t" "\<not> json_ws c" "c \<noteq> CHR '']''"
        by auto
      have "\<exists>u. join '','' (map json_text vs) = c # u"
        using ct v False by (cases vs; cases "tl vs") auto
      moreover have "parse_elems m (join '','' (map json_text vs) @ CHR '']'' # rest) = Some (vs, rest)"
        using 5 n m False by (intro parse_elems_text) auto
      ultimately show ?thesis
        using ct by (auto simp: m)
    qed (simp add: m)
  qed
next
  case (6 kvs)
  have f: "filter (\<lambda>(k, v). v \<noteq> VUndef) kvs = kvs"
    using "6.prems" by (auto simp: filter_id_conv)
  show ?case
    unfolding reads_back_def
  proof (intro allI impI)
    fix n rest
    assume n: "2 * length (json_text (VObj kvs)) \<le> n" and "delim rest"
    then obtain m where m: "n = Suc m"
      by (cases n) auto
    show "parse_value n (json_text (VObj kvs) @ rest) = Some (VObj kvs, rest)"
    proof (cases "kvs = []")
      case False
      then have "\<exists>u. join '','' (map member_text kvs) = dquote # u"
        by (cases kvs; cases "tl kvs") (auto simp: json_str_def)
      moreover have "parse_members m (join '','' (map member_text kvs) @ CHR 0x7D # rest) = Some (kvs, rest)"
        using 6 n m False f by (intro parse_members_text) auto
      moreover have "spread [] kvs = kvs"
        using "6.prems" by (simp add: spread_Nil_id)
      ultimately show ?thesis
        using f by (auto simp: m dquote_def)
    qed (simp add: m)
  qed
qed (auto intro!: reads_backI simp: json_str_def parse_str_json Let_def dquote_def [symmetric]
    simp del: parse_str.simps split: if_splits, simp_all add: dquote_def)

lemma json_roundtrip: "json_plain v \<Longrightarrow> json_parse (json_text v) = Some v"
  using reads_backD [OF reads_back_all, of v "2 * length (json_text v) + 2" "[]"]
  by (simp add: json_parse_def delim_def)

end
