(* ===== verification/JSON_Copy.thy ===== *)
theory JSON_Copy
  imports File_Store JSON_Roundtrip
begin

text \<open>
  The structural copy \<open>json_copy\<close> that the store makes with \<open>JSON.parse(JSON.stringify(v))\<close> against the
  printer and the parser of the text.
\<close>

lemma json_copy_defined [simp]: "json_copy v \<noteq> VUndef"
  by (cases v) simp_all

lemma json_text_copy: "json_text (json_copy v) = json_text v"
proof (induction v rule: json_copy.induct)
  case (4 vs)
  then have "map json_text (map json_copy vs) = map json_text vs"
    by simp
  then show ?case by (simp only: json_copy.simps json_text.simps)
next
  case (5 kvs)
  have "filter (\<lambda>(k, v). v \<noteq> VUndef) (map (\<lambda>(k, v). (k, json_copy v)) xs) = map (\<lambda>(k, v). (k, json_copy v)) xs"
    for xs :: row
    by (induction xs) auto
  moreover have "map (\<lambda>(k, v). json_str k @ '':'' @ json_text v)
        (map (\<lambda>(k, v). (k, json_copy v)) (filter (\<lambda>(k, v). v \<noteq> VUndef) kvs)) =
      map (\<lambda>(k, v). json_str k @ '':'' @ json_text v) (filter (\<lambda>(k, v). v \<noteq> VUndef) kvs)"
    using 5 by auto
  ultimately show ?case
    by (simp only: json_copy.simps json_text.simps)
qed simp_all

text \<open>Printing a value as JSON and parsing the text gives exactly the store's copy of the value (undefined
  properties dropped, what is not a finite number turned to null), for values whose objects have
  distinct keys and whose finite numbers are whole.\<close>

theorem json_copy_is_the_text_round_trip:
  assumes "json_plain (json_copy v)"
  shows "json_parse (json_text v) = Some (json_copy v)"
  using json_roundtrip [OF assms] by (simp add: json_text_copy)

theorem json_copy_is_the_text_round_trip_witness:
  "json_parse (json_text (VObj [(''a'', VUndef), (''b'', VArr [VNaN, VNum 3]), (''c'', VStr [CHR 0x22])])) =
     Some (VObj [(''b'', VArr [VNull, VNum 3]), (''c'', VStr [CHR 0x22])])"
  using json_copy_is_the_text_round_trip
    [of "VObj [(''a'', VUndef), (''b'', VArr [VNaN, VNum 3]), (''c'', VStr [CHR 0x22])]"]
  by (simp add: is_int_rat_def)

end
