(* ===== verification/Row_Store.thy ===== *)
theory Row_Store
  imports File_Store
begin

text \<open>
  What the repositories rely on: the contract of a keyed row store as the locale \<open>row_store\<close>
  (inserting appends a row with a fresh id, updating rewrites the first row with an id, removing
  drops it, other tables are untouched), the facts that follow from the contract alone, and the
  proof that the file store meets it whatever its cache, timers and files are doing.
\<close>

section \<open>Lists changed at the first match\<close>

fun upd_first :: "('a \<Rightarrow> bool) \<Rightarrow> ('a \<Rightarrow> 'a) \<Rightarrow> 'a list \<Rightarrow> 'a list" where
  "upd_first p f [] = []"
| "upd_first p f (x # xs) = (if p x then f x # xs else x # upd_first p f xs)"

fun del_first :: "('a \<Rightarrow> bool) \<Rightarrow> 'a list \<Rightarrow> 'a list" where
  "del_first p [] = []"
| "del_first p (x # xs) = (if p x then xs else x # del_first p xs)"

lemma find_index_None: "find_index p xs = None \<longleftrightarrow> (\<forall>x\<in>set xs. \<not> p x)"
  by (induction xs) auto

lemma find_index_upd:
  "find_index p xs = Some k \<Longrightarrow> xs[k := f (xs ! k)] = upd_first p f xs"
  by (induction xs arbitrary: k) (auto split: if_splits)

lemma find_index_del:
  "find_index p xs = Some k \<Longrightarrow> take k xs @ drop (Suc k) xs = del_first p xs"
  by (induction xs arbitrary: k) (auto split: if_splits)

lemma upd_first_none: "\<forall>x\<in>set xs. \<not> p x \<Longrightarrow> upd_first p f xs = xs"
  by (induction xs) auto

lemma del_first_none: "\<forall>x\<in>set xs. \<not> p x \<Longrightarrow> del_first p xs = xs"
  by (induction xs) auto

lemma upd_first_id [simp]: "upd_first p (\<lambda>x. x) xs = xs"
  by (induction xs) auto

lemma map_upd_first_same:
  "(\<And>x. x \<in> set xs \<Longrightarrow> p x \<Longrightarrow> g (f x) = g x) \<Longrightarrow> map g (upd_first p f xs) = map g xs"
  by (induction xs) auto

lemma set_upd_first: "set (upd_first p f xs) \<subseteq> set xs \<union> f ` {x \<in> set xs. p x}"
  by (induction xs) auto

lemma length_upd_first [simp]: "length (upd_first p f xs) = length xs"
  by (induction xs) auto

lemma set_del_first: "set (del_first p xs) \<subseteq> set xs"
  by (induction xs) auto

lemma distinct_map_del_first: "distinct (map g xs) \<Longrightarrow> distinct (map g (del_first p xs))"
  using set_del_first [of p] by (induction xs) auto

lemma find_upd_first_same:
  "find p xs = Some x \<Longrightarrow> p (f x) \<Longrightarrow> find p (upd_first p f xs) = Some (f x)"
  by (induction xs) (auto split: if_splits)

lemma find_upd_first_other:
  "(\<And>x. x \<in> set xs \<Longrightarrow> p x \<Longrightarrow> q (f x) = q x) \<Longrightarrow> (\<And>x. x \<in> set xs \<Longrightarrow> p x \<Longrightarrow> \<not> q x) \<Longrightarrow>
   find q (upd_first p f xs) = find q xs"
  by (induction xs) auto

lemma find_del_first_other:
  "(\<And>x. x \<in> set xs \<Longrightarrow> p x \<Longrightarrow> \<not> q x) \<Longrightarrow> find q (del_first p xs) = find q xs"
  by (induction xs) auto

lemma find_SomeD: "find p xs = Some x \<Longrightarrow> x \<in> set xs \<and> p x"
  by (induction xs) (auto split: if_splits)

lemma find_None_iff: "find p xs = None \<longleftrightarrow> (\<forall>x\<in>set xs. \<not> p x)"
  by (induction xs) auto

lemma find_app: "find p (xs @ ys) = (case find p xs of Some x \<Rightarrow> Some x | None \<Rightarrow> find p ys)"
  by (induction xs) auto

section \<open>Rows with distinct ids below the next id\<close>

definition ids_ok :: "row list \<Rightarrow> nat \<Rightarrow> bool" where
  "ids_ok rs n \<longleftrightarrow> distinct (map (\<lambda>r. fld r ''id'') rs) \<and>
     (\<forall>r\<in>set rs. \<exists>k. fld r ''id'' = VNat k \<and> 1 \<le> k \<and> k < n)"

lemma fld_new_row:
  "fld (new_row now i r) k =
     (if k = ''id'' then VNat i
      else if k = ''created_at'' then js_or (fld r ''created_at'') (VStr now)
      else if k = ''updated_at'' then js_or (fld r ''updated_at'') (VStr now)
      else fld r k)"
  by (simp add: new_row_def)

lemma fld_touched:
  "fld (touched now u r) k = (if k = ''updated_at'' then VStr now else fld (spread r u) k)"
  by (simp add: touched_def)

lemma fld_touched_None:
  "k \<noteq> ''updated_at'' \<Longrightarrow> k \<notin> fst ` set u \<Longrightarrow> fld (touched now u r) k = fld r k"
  by (simp add: fld_touched fld_spread_None)

lemma has_id_VNat [simp]: "has_id (VNat i) r \<longleftrightarrow> fld r ''id'' = VNat i"
  by (simp add: has_id_def)

lemma has_id_eq: "has_id i r \<Longrightarrow> fld r ''id'' = i"
  by (simp add: has_id_def strict_eqD)

lemma has_id_touched: "''id'' \<notin> fst ` set u \<Longrightarrow> has_id i (touched now u r) = has_id i r"
  by (simp add: has_id_def fld_touched_None)

lemma ids_ok_snoc: "ids_ok rs n \<Longrightarrow> 0 < n \<Longrightarrow> ids_ok (rs @ [new_row now n r]) (Suc n)"
  by (fastforce simp: ids_ok_def fld_new_row)

lemma ids_ok_upd_first:
  assumes "ids_ok rs n" "\<And>r. fld (f r) ''id'' = fld r ''id''"
  shows "ids_ok (upd_first p f rs) n"
proof -
  have "map (\<lambda>r. fld r ''id'') (upd_first p f rs) = map (\<lambda>r. fld r ''id'') rs"
    by (rule map_upd_first_same) (simp add: assms)
  moreover have "\<forall>r\<in>set (upd_first p f rs). \<exists>r'\<in>set rs. fld r ''id'' = fld r' ''id''"
    using set_upd_first [of p f rs] assms by force
  ultimately show ?thesis
    using assms(1) by (fastforce simp: ids_ok_def)
qed

lemma ids_ok_subset:
  "ids_ok rs n \<Longrightarrow> set rs' \<subseteq> set rs \<Longrightarrow> distinct (map (\<lambda>r. fld r ''id'') rs') \<Longrightarrow> ids_ok rs' n"
  by (auto simp: ids_ok_def)

lemma ids_ok_del_first: "ids_ok rs n \<Longrightarrow> ids_ok (del_first p rs) n"
  by (meson distinct_map_del_first ids_ok_def ids_ok_subset set_del_first)

lemma ids_ok_filter: "ids_ok rs n \<Longrightarrow> ids_ok (filter p rs) n"
  by (rule ids_ok_subset) (auto simp: ids_ok_def distinct_map_filter)

lemma ids_ok_sort: "ids_ok rs n \<Longrightarrow> ids_ok (js_sort c rs) n"
  by (rule ids_ok_subset) (auto simp: ids_ok_def distinct_js_sort_map)

lemma ids_ok_mono: "ids_ok rs n \<Longrightarrow> n \<le> m \<Longrightarrow> ids_ok rs m"
  by (fastforce simp: ids_ok_def)

lemma ids_ok_unique:
  "ids_ok rs n \<Longrightarrow> r \<in> set rs \<Longrightarrow> r' \<in> set rs \<Longrightarrow> fld r ''id'' = fld r' ''id'' \<Longrightarrow> r = r'"
  by (auto simp: ids_ok_def distinct_map inj_on_def)

lemma ids_ok_find: "ids_ok rs n \<Longrightarrow> r \<in> set rs \<Longrightarrow> find (has_id (fld r ''id'')) rs = Some r"
proof -
  assume ok: "ids_ok rs n" and r: "r \<in> set rs"
  then obtain k where k: "fld r ''id'' = VNat k"
    by (auto simp: ids_ok_def)
  with r obtain r' where r': "find (has_id (fld r ''id'')) rs = Some r'"
    by (cases "find (has_id (fld r ''id'')) rs") (auto simp: find_None_iff)
  then have "r' \<in> set rs" "fld r' ''id'' = fld r ''id''"
    using k by (auto dest!: find_SomeD)
  with ok r r' show ?thesis
    using ids_ok_unique by fastforce
qed

lemma del_first_id_gone: "ids_ok rs n \<Longrightarrow> \<forall>r\<in>set (del_first (has_id i) rs). \<not> has_id i r"
proof (induction rs)
  case (Cons r rs)
  then have "ids_ok rs n" "fld r ''id'' \<notin> (\<lambda>r. fld r ''id'') ` set rs"
    by (simp_all add: ids_ok_def)
  then have "\<forall>r'\<in>set rs. has_id i r \<longrightarrow> \<not> has_id i r'"
    by (metis has_id_eq image_eqI)
  with Cons.IH \<open>ids_ok rs n\<close> show ?case
    by auto
qed simp

section \<open>The contract\<close>

locale row_store =
  fixes rows :: "'s \<Rightarrow> table \<Rightarrow> row list"
    and nxt :: "'s \<Rightarrow> table \<Rightarrow> nat"
    and ins :: "string \<Rightarrow> table \<Rightarrow> row \<Rightarrow> 's \<Rightarrow> row \<times> 's"
    and upd :: "string \<Rightarrow> table \<Rightarrow> val \<Rightarrow> row \<Rightarrow> 's \<Rightarrow> bool \<times> 's"
    and del :: "string \<Rightarrow> table \<Rightarrow> val \<Rightarrow> 's \<Rightarrow> bool \<times> 's"
  assumes nxt_pos: "0 < nxt s t"
    and ins_fst: "fst (ins now t r s) = new_row now (nxt s t) r"
    and ins_rows: "rows (snd (ins now t r s)) t' =
          (if t' = t then rows s t @ [new_row now (nxt s t) r] else rows s t')"
    and ins_nxt: "nxt (snd (ins now t r s)) t' = (if t' = t then Suc (nxt s t) else nxt s t')"
    and upd_fst: "fst (upd now t i u s) \<longleftrightarrow> (\<exists>r\<in>set (rows s t). has_id i r)"
    and upd_rows: "rows (snd (upd now t i u s)) t' =
          (if t' = t then upd_first (has_id i) (touched now u) (rows s t) else rows s t')"
    and upd_nxt: "nxt (snd (upd now t i u s)) t' = nxt s t'"
    and del_fst: "fst (del now t i s) \<longleftrightarrow> (\<exists>r\<in>set (rows s t). has_id i r)"
    and del_rows: "rows (snd (del now t i s)) t' =
          (if t' = t then del_first (has_id i) (rows s t) else rows s t')"
    and del_nxt: "nxt (snd (del now t i s)) t' = nxt s t'"
begin

definition good :: "'s \<Rightarrow> table \<Rightarrow> bool" where
  "good s t \<longleftrightarrow> ids_ok (rows s t) (nxt s t)"

lemma ins_good: "good s t' \<Longrightarrow> good (snd (ins now t r s)) t'"
  using nxt_pos [of s t] by (auto simp: good_def ins_rows ins_nxt ids_ok_snoc)

lemma upd_good: "good s t' \<Longrightarrow> ''id'' \<notin> fst ` set u \<Longrightarrow> good (snd (upd now t i u s)) t'"
  by (auto simp: good_def upd_rows upd_nxt fld_touched_None intro: ids_ok_upd_first)

lemma del_good: "good s t' \<Longrightarrow> good (snd (del now t i s)) t'"
  by (auto simp: good_def del_rows del_nxt ids_ok_del_first)

lemma find_after_ins:
  assumes "good s t"
  shows "find (has_id (VNat (nxt s t))) (rows (snd (ins now t r s)) t) = Some (new_row now (nxt s t) r)"
proof -
  have "find (has_id (VNat (nxt s t))) (rows s t) = None"
    using assms by (force simp: good_def ids_ok_def find_None_iff)
  then show ?thesis
    by (simp add: ins_rows find_app fld_new_row)
qed

lemma find_old_after_ins:
  "find p (rows s t) = Some x \<Longrightarrow> find p (rows (snd (ins now t r s)) t) = Some x"
  by (simp add: ins_rows find_app)

lemma find_after_upd:
  assumes "find (has_id i) (rows s t) = Some r" "''id'' \<notin> fst ` set u"
  shows "find (has_id i) (rows (snd (upd now t i u s)) t) = Some (touched now u r)"
proof -
  have "has_id i (touched now u r)"
    using find_SomeD [OF assms(1)] assms(2) by (simp add: has_id_touched)
  with assms(1) show ?thesis
    by (simp add: upd_rows find_upd_first_same)
qed

lemma find_other_after_upd:
  assumes "i \<noteq> j" "''id'' \<notin> fst ` set u"
  shows "find (has_id j) (rows (snd (upd now t i u s)) t) = find (has_id j) (rows s t)"
proof -
  have "find (has_id j) (upd_first (has_id i) (touched now u) (rows s t)) = find (has_id j) (rows s t)"
    using assms by (intro find_upd_first_other) (auto simp: has_id_touched dest: has_id_eq)
  then show ?thesis by (simp add: upd_rows)
qed

lemma find_after_del:
  "good s t \<Longrightarrow> find (has_id i) (rows (snd (del now t i s)) t) = None"
  by (auto simp: del_rows good_def find_None_iff dest!: del_first_id_gone)

lemma find_other_after_del:
  "i \<noteq> j \<Longrightarrow> find (has_id j) (rows (snd (del now t i s)) t) = find (has_id j) (rows s t)"
  by (auto simp: del_rows intro!: find_del_first_other dest: has_id_eq)

lemma ins_last: "rows (snd (ins now t r s)) t = rows s t @ [fst (ins now t r s)]"
  by (simp add: ins_rows ins_fst)

end

section \<open>The file store meets the contract\<close>

text \<open>The rows and the next id that the store answers with, loading the file if need be.\<close>

definition rows_of :: "fs_state \<Rightarrow> table \<Rightarrow> row list" where
  "rows_of st t = rows_in (load_data [] st) t"

definition next_of :: "fs_state \<Rightarrow> table \<Rightarrow> nat" where
  "next_of st t = next_id_of (load_data [] st) t"

lemmas fs_data_defs =
  on_meta_def on_rows_def replace_rows_def map_tbl_def set_cache_copy_def data_of_def
  rows_in_def next_id_of_def mark_dirty_def json_data_def save_data_sync_def

lemma load_data_loaded: "cache (load_data now st) \<noteq> None"
  by (auto simp: load_data_def fs_data_defs Let_def split: option.splits file_content.splits prod.splits)

lemma load_data_id: "cache st \<noteq> None \<Longrightarrow> load_data now st = st"
  by (auto simp: load_data_def split: option.splits)

lemma load_data_idem [simp]: "load_data now' (load_data now st) = load_data now st"
  by (simp add: load_data_id load_data_loaded)

lemma rows_in_load [simp]: "rows_in (load_data now st) t = rows_of st t"
  by (auto simp: rows_of_def load_data_def fs_data_defs Let_def
      split: option.splits file_content.splits prod.splits)

lemma next_id_of_load [simp]: "next_id_of (load_data now st) t = next_of st t"
  by (auto simp: next_of_def load_data_def fs_data_defs Let_def
      split: option.splits file_content.splits prod.splits)

lemma rows_of_loaded: "cache st = Some d \<Longrightarrow> rows_of st t = tbl d t"
  by (simp add: rows_of_def load_data_id rows_in_def data_of_def)

lemma next_of_loaded: "cache st \<noteq> None \<Longrightarrow> next_of st t = next_id_of st t"
  by (simp add: next_of_def load_data_id)

lemma rows_of_load [simp]: "rows_of (load_data now st) t = rows_of st t"
  by (simp add: rows_of_def [of "load_data now st"])

lemma next_of_load [simp]: "next_of (load_data now st) t = next_of st t"
  by (simp add: next_of_def [of "load_data now st"])

lemma rows_of_on_rows:
  "cache st \<noteq> None \<Longrightarrow> rows_of (on_rows t f st) t' = (if t' = t then f (rows_of st t) else rows_of st t')"
  by (auto simp: rows_of_loaded on_rows_def map_tbl_def)

lemma rows_of_replace_rows:
  "cache st \<noteq> None \<Longrightarrow> rows_of (replace_rows t rs st) t' = (if t' = t then rs else rows_of st t')"
  by (auto simp: rows_of_loaded replace_rows_def map_tbl_def)

lemma cache_mark_dirty [simp]: "cache (mark_dirty st) = cache st"
  by (simp add: mark_dirty_def)

lemma rows_of_cong: "cache st = cache st' \<Longrightarrow> cache st \<noteq> None \<Longrightarrow> rows_of st t = rows_of st' t"
  by (auto simp: rows_of_loaded)

lemma next_of_cong: "cache st = cache st' \<Longrightarrow> cache st \<noteq> None \<Longrightarrow> next_of st t = next_of st' t"
  by (auto simp: next_of_loaded next_id_of_def data_of_def)

lemma rows_of_mark_dirty: "cache st \<noteq> None \<Longrightarrow> rows_of (mark_dirty st) t = rows_of st t"
  by (rule rows_of_cong) auto

lemma next_of_mark_dirty: "cache st \<noteq> None \<Longrightarrow> next_of (mark_dirty st) t = next_of st t"
  by (rule next_of_cong) auto

lemma cache_on_rows: "cache (on_rows t f st) = map_option (map_tbl t f) (cache st)"
  by (simp add: on_rows_def)

lemma cache_on_rows_None [simp]: "cache (on_rows t f st) = None \<longleftrightarrow> cache st = None"
  by (simp add: on_rows_def)

lemma cache_replace_rows_None [simp]: "cache (replace_rows t rs st) = None \<longleftrightarrow> cache st = None"
  by (simp add: replace_rows_def)

lemma next_of_on_rows: "cache st \<noteq> None \<Longrightarrow> next_of (on_rows t f st) t' = next_of st t'"
  by (auto simp: next_of_loaded next_id_of_def data_of_def on_rows_def map_tbl_def split: option.splits)

lemma next_of_replace_rows: "cache st \<noteq> None \<Longrightarrow> next_of (replace_rows t rs st) t' = next_of st t'"
  by (auto simp: next_of_loaded next_id_of_def data_of_def replace_rows_def map_tbl_def split: option.splits)

lemma next_id_result:
  "fst (next_id now t st) = next_of st t"
  "rows_of (snd (next_id now t st)) t' = rows_of st t'"
  "next_of (snd (next_id now t st)) t' = (if t' = t then Suc (next_of st t) else next_of st t')"
  "cache (snd (next_id now t st)) \<noteq> None"
proof -
  obtain d where d: "cache (load_data now st) = Some d"
    using load_data_loaded by blast
  let ?s = "on_meta (\<lambda>d. d\<lparr>nextIds := (nextIds d)(t \<mapsto> Suc (next_of st t))\<rparr>) (load_data now st)"
  have c: "cache ?s = Some (d\<lparr>nextIds := (nextIds d)(t \<mapsto> Suc (next_of st t))\<rparr>)"
    by (simp add: on_meta_def d)
  have nid: "next_id now t st = (next_of st t, mark_dirty ?s)"
    by (simp add: next_id_def Let_def)
  have loaded: "cache ?s \<noteq> None"
    using c by simp
  show "fst (next_id now t st) = next_of st t" "cache (snd (next_id now t st)) \<noteq> None"
    using loaded by (simp_all add: nid)
  have "rows_of st t' = tbl d t'"
    using rows_of_load [of now st t'] d by (simp add: rows_of_loaded del: rows_of_load)
  then have "rows_of ?s t' = rows_of st t'"
    using rows_of_loaded [OF c] by simp
  with loaded show "rows_of (snd (next_id now t st)) t' = rows_of st t'"
    by (simp add: nid rows_of_mark_dirty)
  have old: "next_of st t' = (case nextIds d t' of None \<Rightarrow> 1 | Some n \<Rightarrow> if n = 0 then 1 else n)"
    using next_of_load [of now st t'] d
    by (simp add: next_of_loaded next_id_of_def data_of_def del: next_of_load)
  have "next_of ?s t' = next_id_of ?s t'"
    using loaded by (rule next_of_loaded)
  also have "\<dots> = (if t' = t then Suc (next_of st t) else next_of st t')"
    unfolding next_id_of_def data_of_def c old by simp
  finally show "next_of (snd (next_id now t st)) t' = (if t' = t then Suc (next_of st t) else next_of st t')"
    using loaded by (simp add: nid next_of_mark_dirty)
qed

lemma store_insert_result:
  "fst (store_insert now t r st) = new_row now (next_of st t) r"
  "rows_of (snd (store_insert now t r st)) t' =
     (if t' = t then rows_of st t @ [new_row now (next_of st t) r] else rows_of st t')"
  "next_of (snd (store_insert now t r st)) t' = (if t' = t then Suc (next_of st t) else next_of st t')"
  using next_id_result [of now t "load_data now st"]
  by (auto simp: store_insert_def Let_def case_prod_beta rows_of_mark_dirty next_of_mark_dirty
      rows_of_on_rows next_of_on_rows)

lemma store_update_result:
  "fst (store_update now t i u st) \<longleftrightarrow> (\<exists>r\<in>set (rows_of st t). has_id i r)"
  "rows_of (snd (store_update now t i u st)) t' =
     (if t' = t then upd_first (has_id i) (touched now u) (rows_of st t) else rows_of st t')"
  "next_of (snd (store_update now t i u st)) t' = next_of st t'"
  by (auto simp: store_update_def Let_def rows_of_mark_dirty next_of_mark_dirty rows_of_on_rows
      next_of_on_rows load_data_loaded find_index_None upd_first_none find_index_upd
      split: option.splits; metis find_index_None not_Some_eq)+

lemma store_remove_result:
  "fst (store_remove now t i st) \<longleftrightarrow> (\<exists>r\<in>set (rows_of st t). has_id i r)"
  "rows_of (snd (store_remove now t i st)) t' =
     (if t' = t then del_first (has_id i) (rows_of st t) else rows_of st t')"
  "next_of (snd (store_remove now t i st)) t' = next_of st t'"
  by (auto simp: store_remove_def Let_def rows_of_mark_dirty next_of_mark_dirty rows_of_on_rows
      next_of_on_rows load_data_loaded find_index_None del_first_none find_index_del
      split: option.splits; metis find_index_None not_Some_eq)+

lemma set_table_result:
  "rows_of (set_table now t rs st) t' = (if t' = t then rs else rows_of st t')"
  "next_of (set_table now t rs st) t' = next_of st t'"
  by (simp_all add: set_table_def rows_of_mark_dirty next_of_mark_dirty rows_of_replace_rows
      next_of_replace_rows load_data_loaded)

lemma update_where_result:
  "fst (update_where now t p u st) = length (filter p (rows_of st t))"
  "rows_of (snd (update_where now t p u st)) t' =
     (if t' = t then map (\<lambda>r. if p r then touched now u r else r) (rows_of st t) else rows_of st t')"
  "next_of (snd (update_where now t p u st)) t' = next_of st t'"
  by (simp_all add: update_where_def Let_def rows_of_mark_dirty next_of_mark_dirty rows_of_on_rows
      next_of_on_rows load_data_loaded)

lemma remove_where_result:
  "fst (remove_where now t p st) = length (filter p (rows_of st t))"
  "rows_of (snd (remove_where now t p st)) t' =
     (if t' = t then filter (\<lambda>r. \<not> p r) (rows_of st t) else rows_of st t')"
  "next_of (snd (remove_where now t p st)) t' = next_of st t'"
proof -
  have "length rs - length (filter (\<lambda>r. \<not> p r) rs) = length (filter p rs)" for rs :: "row list"
    using sum_length_filter_compl [of p rs] by simp
  then show "fst (remove_where now t p st) = length (filter p (rows_of st t))"
    by (simp add: remove_where_def Let_def)
qed (simp_all add: remove_where_def Let_def rows_of_mark_dirty next_of_mark_dirty
      rows_of_replace_rows next_of_replace_rows load_data_loaded)

lemma sort_table_result:
  "cache st \<noteq> None \<Longrightarrow> rows_of (sort_table t c st) t' = (if t' = t then js_sort c (rows_of st t) else rows_of st t')"
  by (simp add: sort_table_def rows_of_on_rows)

lemma sort_table_next: "cache st \<noteq> None \<Longrightarrow> next_of (sort_table t c st) t' = next_of st t'"
  by (simp add: sort_table_def next_of_on_rows)

lemma sort_table_loaded [simp]: "cache (sort_table t c st) = None \<longleftrightarrow> cache st = None"
  by (simp add: sort_table_def)

text \<open>What the reading operations answer; the state changes at most by loading the file.\<close>

lemma store_reads [simp]:
  "get_table now t st = (rows_of st t, load_data now st)"
  "store_find_one now t p st = (find p (rows_of st t), load_data now st)"
  "store_find_by_id now t i st = (find (has_id i) (rows_of st t), load_data now st)"
  "store_find_all now t (Some q) st = (filter q (rows_of st t), load_data now st)"
  "store_find_all now t None st = (rows_of st t, load_data now st)"
  "store_count now t (Some q) st = (length (filter q (rows_of st t)), load_data now st)"
  "store_count now t None st = (length (rows_of st t), load_data now st)"
  by (simp_all add: get_table_def store_find_one_def store_find_by_id_def store_find_all_def
      store_count_def Let_def)

lemma load_then_write [simp]:
  "store_insert now t r (load_data now st) = store_insert now t r st"
  "store_update now t i u (load_data now st) = store_update now t i u st"
  "store_remove now t i (load_data now st) = store_remove now t i st"
  "update_where now t p u (load_data now st) = update_where now t p u st"
  "remove_where now t p (load_data now st) = remove_where now t p st"
  by (simp_all add: store_insert_def store_update_def store_remove_def update_where_def
      remove_where_def Let_def)

lemmas store_writes =
  store_insert_result store_update_result store_remove_result set_table_result
  update_where_result remove_where_result

text \<open>With distinct ids, an update or a removal by the id of the row found by another predicate acts
  on exactly that row.\<close>

lemma found_id_first:
  assumes "find p (x # xs) = Some r" "ids_ok (x # xs) m"
  shows "(p x \<and> r = x \<and> has_id (fld r ''id'') x) \<or>
    (\<not> p x \<and> find p xs = Some r \<and> \<not> has_id (fld r ''id'') x)"
proof (cases "p x")
  case True
  with assms show ?thesis by (auto simp: ids_ok_def)
next
  case False
  with assms have "r \<in> set xs" "find p xs = Some r"
    by (auto dest: find_SomeD)
  with assms False show ?thesis
    by (auto simp: ids_ok_def dest: has_id_eq)
qed

lemma ids_ok_Cons: "ids_ok (x # xs) m \<Longrightarrow> ids_ok xs m"
  by (simp add: ids_ok_def)

lemma upd_first_found:
  "find p rs = Some r \<Longrightarrow> ids_ok rs m \<Longrightarrow>
   upd_first (has_id (fld r ''id'')) f rs = upd_first p f rs"
proof (induction rs)
  case (Cons x xs)
  show ?case
    using found_id_first [OF Cons.prems] Cons.IH ids_ok_Cons [OF Cons.prems(2)] by auto
qed simp

lemma del_first_found:
  "find p rs = Some r \<Longrightarrow> ids_ok rs m \<Longrightarrow>
   del_first (has_id (fld r ''id'')) rs = del_first p rs"
proof (induction rs)
  case (Cons x xs)
  show ?case
    using found_id_first [OF Cons.prems] Cons.IH ids_ok_Cons [OF Cons.prems(2)] by auto
qed simp

lemma found_has_id:
  "find p rs = Some r \<Longrightarrow> ids_ok rs m \<Longrightarrow> \<exists>r'\<in>set rs. has_id (fld r ''id'') r'"
  by (fastforce simp: ids_ok_def dest!: find_SomeD)

lemma find_in_set: "find p xs = Some x \<Longrightarrow> x \<in> set xs \<and> p x"
  by (auto dest: find_SomeD)

lemma next_of_pos: "0 < next_of st t"
  by (auto simp: next_of_def next_id_of_def split: option.splits)

interpretation fs: row_store rows_of next_of store_insert store_update store_remove
  by unfold_locales
    (simp_all add: next_of_pos store_insert_result store_update_result store_remove_result)

text \<open>A loaded store with given tables, whose rows are numbered from 1: for concrete examples.\<close>

definition store_with :: "(table \<Rightarrow> row list) \<Rightarrow> fs_state" where
  "store_with f = (boot ''t'' None None)\<lparr>cache := Some
     \<lparr>nextIds = (\<lambda>t. Some (Suc (length (f t)))), createdAt = ''t'', updatedAt = ''t'', tbl = f\<rparr>\<rparr>"

lemma store_with [simp]:
  "rows_of (store_with f) t = f t" "next_of (store_with f) t = Suc (length (f t))"
  "cache (store_with f) \<noteq> None" "load_data now (store_with f) = store_with f"
  by (simp_all add: store_with_def rows_of_loaded next_of_loaded next_id_of_def data_of_def load_data_id)

end
