(* ===== verification/Interfaces.thy ===== *)
theory Interfaces
  imports Row_Store
begin

text \<open>
  The TypeScript interfaces of the repositories as run-time predicates on rows: a list of field
  names with their type, whether the field is optional and whether it may be \<open>null\<close>.  A row
  conforms when every field has a value the interface allows.  Inserting and patching with values
  of the right types keeps rows conforming.
\<close>

datatype js_type = JString | JNumber | JOneOf "string list" | JStringOrObject

datatype presence = Required | Optional | Nullable | OptNullable

type_synonym iface = "(string \<times> js_type \<times> presence) list"

fun has_type :: "val \<Rightarrow> js_type \<Rightarrow> bool" where
  "has_type (VStr _) JString = True"
| "has_type (VNum _) JNumber = True"
| "has_type VNaN JNumber = True"
| "has_type (VInf _) JNumber = True"
| "has_type (VStr s) (JOneOf ss) = (s \<in> set ss)"
| "has_type (VStr _) JStringOrObject = True"
| "has_type (VObj _) JStringOrObject = True"
| "has_type (VArr _) JStringOrObject = True"
| "has_type _ _ = False"

definition field_ok :: "val \<Rightarrow> js_type \<Rightarrow> presence \<Rightarrow> bool" where
  "field_ok v ty p \<longleftrightarrow> has_type v ty \<or>
     (v = VUndef \<and> (p = Optional \<or> p = OptNullable)) \<or>
     (v = VNull \<and> (p = Nullable \<or> p = OptNullable))"

definition conforms :: "iface \<Rightarrow> row \<Rightarrow> bool" where
  "conforms I r \<longleftrightarrow> (\<forall>(k, ty, p) \<in> set I. field_ok (fld r k) ty p)"

text \<open>A value of type \<open>Partial<T>\<close>: each field it has is allowed in \<open>T\<close>.\<close>

definition patch_ok :: "iface \<Rightarrow> row \<Rightarrow> bool" where
  "patch_ok I u \<longleftrightarrow> distinct (map fst u) \<and>
     (\<forall>(k, ty, p) \<in> set I. k \<in> fst ` set u \<longrightarrow> field_ok (fld u k) ty p)"

lemma conforms_spread: "conforms I r \<Longrightarrow> patch_ok I u \<Longrightarrow> conforms I (spread r u)"
  by (fastforce simp: conforms_def patch_ok_def fld_spread)

lemma conforms_touched:
  assumes "conforms I r" "patch_ok I u"
    and "\<And>ty p. (''updated_at'', ty, p) \<in> set I \<Longrightarrow> ty = JString"
  shows "conforms I (touched now u r)"
proof -
  have "conforms I (spread r u)"
    using assms by (simp add: conforms_spread)
  moreover have "patch_ok I [(''updated_at'', VStr now)]"
    using assms(3) by (fastforce simp: patch_ok_def field_ok_def)
  ultimately show ?thesis
    unfolding touched_def by (rule conforms_spread)
qed

lemma patch_okD:
  "patch_ok I u \<Longrightarrow> (k, ty, p) \<in> set I \<Longrightarrow> k \<in> fst ` set u \<Longrightarrow> field_ok (fld u k) ty p"
  by (fastforce simp: patch_ok_def)

text \<open>A field of a patch is absent (reads \<open>undefined\<close>) or allowed.\<close>

lemma patch_field: "patch_ok I u \<Longrightarrow> (k, ty, p) \<in> set I \<Longrightarrow> fld u k = VUndef \<or> field_ok (fld u k) ty p"
proof -
  assume "patch_ok I u" "(k, ty, p) \<in> set I"
  moreover have "fld u k = VUndef" if "k \<notin> fst ` set u"
    using that map_of_eq_None_iff [of u k] by (simp add: fld_def)
  ultimately show ?thesis
    using patch_okD by blast
qed

lemma conformsD: "conforms I r \<Longrightarrow> (k, ty, p) \<in> set I \<Longrightarrow> field_ok (fld r k) ty p"
  by (fastforce simp: conforms_def)

lemma required_string: "field_ok v JString Required \<Longrightarrow> \<exists>s. v = VStr s"
  by (cases v) (auto simp: field_ok_def)

lemma field_ok_js_or_str:
  "v = VUndef \<or> field_ok v JString p \<Longrightarrow> field_ok (js_or v (VStr s)) JString q"
  by (cases v) (auto simp: js_or_def field_ok_def)

lemma field_ok_js_or_num:
  "v = VUndef \<or> field_ok v JNumber p \<Longrightarrow> field_ok (js_or v (VNum x)) JNumber q"
  by (cases v) (auto simp: js_or_def field_ok_def)

lemma field_ok_str [simp]: "field_ok (VStr s) JString p"
  by (simp add: field_ok_def)

lemma field_ok_num [simp]: "field_ok (VNum x) JNumber p"
  by (simp add: field_ok_def)

lemma patch_ok_spread: "patch_ok I r \<Longrightarrow> patch_ok I u \<Longrightarrow> patch_ok I (spread r u)"
  by (fastforce simp: patch_ok_def fld_spread keys_spread distinct_keys_spread)

text \<open>A new row conforms when its literal has every required field; \<open>id\<close> and the two time stamps
  are supplied by the store.\<close>

lemma conforms_new_row:
  assumes "patch_ok I r"
    and req: "\<And>k ty p. (k, ty, p) \<in> set I \<Longrightarrow> p = Required \<or> p = Nullable \<Longrightarrow> k \<noteq> ''id'' \<Longrightarrow> k \<in> fst ` set r"
    and ty: "\<And>k t p. (k, t, p) \<in> set I \<Longrightarrow>
          (k = ''id'' \<longrightarrow> t = JNumber) \<and> (k = ''created_at'' \<or> k = ''updated_at'' \<longrightarrow> t = JString)"
  shows "conforms I (new_row now i r)"
  unfolding conforms_def
proof (clarify)
  fix k t p assume m: "(k, t, p) \<in> set I"
  have old: "fld r k = VUndef \<or> field_ok (fld r k) t p"
    using assms(1) m by (rule patch_field)
  show "field_ok (fld (new_row now i r) k) t p"
  proof (cases "k \<in> {''id'', ''created_at'', ''updated_at''}")
    case True
    then consider "k = ''id''" "t = JNumber" | "k = ''created_at''" "t = JString"
      | "k = ''updated_at''" "t = JString"
      using ty [OF m] by blast
    then show ?thesis
      using old by cases (simp_all add: fld_new_row field_ok_js_or_str)
  next
    case False
    have "field_ok (fld r k) t p"
    proof (cases "k \<in> fst ` set r")
      case True
      with assms(1) m show ?thesis by (rule patch_okD)
    next
      case abs: False
      with req [OF m] False have "p = Optional \<or> p = OptNullable"
        by (cases p) auto
      with old show ?thesis by (auto simp: field_ok_def)
    qed
    with False show ?thesis by (simp add: fld_new_row)
  qed
qed

definition all_conform :: "iface \<Rightarrow> row list \<Rightarrow> bool" where
  "all_conform I rs \<longleftrightarrow> (\<forall>r\<in>set rs. conforms I r)"

lemma all_conform_upd_first:
  assumes "all_conform I rs" "\<And>r. conforms I r \<Longrightarrow> conforms I (f r)"
  shows "all_conform I (upd_first p f rs)"
  using assms set_upd_first [of p f rs] by (fastforce simp: all_conform_def)

end
