(* ===== verification/Listing.thy ===== *)
theory Listing
  imports Interfaces JSON_Text
begin

text \<open>
  What the listings of the repositories share: filtering a table, sorting it in place or as a copy,
  cutting out a page; the comparators, each shown to meet the contract \<open>js_comparator\<close> on well-typed
  rows; and the text forms of values that the keyword filters and the string templates use.
\<close>

section \<open>Text of values\<close>

fun js_to_string :: "val \<Rightarrow> string" where
  "js_to_string (VStr s) = s"
| "js_to_string (VNum x) = num_text x"
| "js_to_string VUndef = ''undefined''"
| "js_to_string VNull = ''null''"
| "js_to_string (VBool b) = (if b then ''true'' else ''false'')"
| "js_to_string VNaN = ''NaN''"
| "js_to_string (VInf p) = (if p then ''Infinity'' else ''-Infinity'')"
| "js_to_string (VArr vs) =
     join '','' (map (\<lambda>v. case v of VUndef \<Rightarrow> [] | VNull \<Rightarrow> [] | _ \<Rightarrow> js_to_string v) vs)"
| "js_to_string (VObj kvs) = ''[object Object]''"

text \<open>\<open>a + b\<close>: concatenation when an operand is a string or an object, else a sum.\<close>

fun is_textual :: "val \<Rightarrow> bool" where
  "is_textual (VStr _) = True"
| "is_textual (VArr _) = True"
| "is_textual (VObj _) = True"
| "is_textual _ = False"

definition js_plus :: "val \<Rightarrow> val \<Rightarrow> val" where
  "js_plus a b =
     (if is_textual a \<or> is_textual b then VStr (js_to_string a @ js_to_string b)
      else num_add (to_num a) (to_num b))"

lemma js_plus_num [simp]: "js_plus (VNum x) (VNum y) = VNum (x + y)"
  by (simp add: js_plus_def)

text \<open>\<open>v?.toLowerCase().includes(kw)\<close>: only strings have the method.\<close>

definition lower_includes :: "val \<Rightarrow> string \<Rightarrow> js_error + bool" where
  "lower_includes v kw =
     (if nullish v then Inr False
      else case v of VStr s \<Rightarrow> Inr (str_includes (to_lower s) kw) | _ \<Rightarrow> Inl TypeError)"

text \<open>\<open>a || b\<close> for two conditions that may throw.\<close>

definition orE :: "js_error + bool \<Rightarrow> js_error + bool \<Rightarrow> js_error + bool" where
  "orE a b = bindE a (\<lambda>x. if x then Inr True else b)"

lemma orE_simps [simp]: "orE (Inl e) b = Inl e" "orE (Inr True) b = Inr True" "orE (Inr False) b = b"
  by (simp_all add: orE_def)

definition str_truthy :: "string option \<Rightarrow> bool" where
  "str_truthy s = (case s of None \<Rightarrow> False | Some t \<Rightarrow> t \<noteq> [])"

definition str_of :: "string option \<Rightarrow> string" where
  "str_of s = (case s of None \<Rightarrow> [] | Some t \<Rightarrow> t)"

text \<open>\<open>v.includes(t)\<close> on a string or an array; any other value has no such method.\<close>

definition includes_call :: "val \<Rightarrow> string \<Rightarrow> js_error + bool" where
  "includes_call v t =
     (case v of
        VStr s \<Rightarrow> Inr (str_includes s t)
      | VArr vs \<Rightarrow> Inr (list_ex (\<lambda>x. strict_eq x (VStr t)) vs)
      | _ \<Rightarrow> Inl TypeError)"

text \<open>\<open>v?.includes(t)\<close> as a condition.\<close>

definition opt_includes :: "val \<Rightarrow> string \<Rightarrow> js_error + bool" where
  "opt_includes v t = (if nullish v then Inr False else includes_call v t)"

text \<open>\<open>s.split(c)\<close> for a separator of one character.\<close>

fun split_on :: "char \<Rightarrow> string \<Rightarrow> string list" where
  "split_on c [] = [[]]"
| "split_on c (x # xs) =
     (if x = c then [] # split_on c xs
      else case split_on c xs of [] \<Rightarrow> [[x]] | y # ys \<Rightarrow> (x # y) # ys)"

section \<open>Comparators\<close>

text \<open>\<open>if (b.k !== a.k) return b.k - a.k;\<close> followed by another comparison.\<close>

definition cmp_num_desc :: "string \<Rightarrow> (row \<Rightarrow> row \<Rightarrow> rat) \<Rightarrow> row \<Rightarrow> row \<Rightarrow> rat" where
  "cmp_num_desc k c a b =
     (if \<not> strict_eq (fld b k) (fld a k) then num_diff (to_num (fld b k)) (to_num (fld a k)) else c a b)"

text \<open>The same on \<open>b.k || 0\<close> and \<open>a.k || 0\<close>.\<close>

definition cmp_num0_desc :: "string \<Rightarrow> (row \<Rightarrow> row \<Rightarrow> rat) \<Rightarrow> row \<Rightarrow> row \<Rightarrow> rat" where
  "cmp_num0_desc k c a b =
     (let x = js_or (fld b k) (VNum 0); y = js_or (fld a k) (VNum 0)
      in if \<not> strict_eq x y then num_diff (to_num x) (to_num y) else c a b)"

definition num_field :: "string \<Rightarrow> row \<Rightarrow> bool" where
  "num_field k r \<longleftrightarrow> (\<exists>x. fld r k = VNum x)"

definition opt_num_field :: "string \<Rightarrow> row \<Rightarrow> bool" where
  "opt_num_field k r \<longleftrightarrow> num_field k r \<or> fld r k = VUndef"

lemma cmp_num_desc_le:
  "fld a k = VNum x \<Longrightarrow> fld b k = VNum y \<Longrightarrow>
   cmp_num_desc k c a b \<le> 0 \<longleftrightarrow> y < x \<or> (y = x \<and> c a b \<le> 0)"
  by (auto simp: cmp_num_desc_def)

lemma js_or_zero: "opt_num_field k r \<Longrightarrow> \<exists>x. js_or (fld r k) (VNum 0) = VNum x"
  by (auto simp: opt_num_field_def num_field_def js_or_def)

lemma cmp_num0_desc_le:
  "js_or (fld a k) (VNum 0) = VNum x \<Longrightarrow> js_or (fld b k) (VNum 0) = VNum y \<Longrightarrow>
   cmp_num0_desc k c a b \<le> 0 \<longleftrightarrow> y < x \<or> (y = x \<and> c a b \<le> 0)"
  by (auto simp: cmp_num0_desc_def Let_def)

lemma comparator_num_desc:
  assumes "js_comparator c ok"
  shows "js_comparator (cmp_num_desc k c) (\<lambda>r. num_field k r \<and> ok r)"
proof -
  note tot = js_comparator.cmp_total [OF assms] and tr = js_comparator.cmp_trans [OF assms]
  show ?thesis
  proof
    show "cmp_num_desc k c a b \<le> 0 \<or> cmp_num_desc k c b a \<le> 0"
      if "num_field k a \<and> ok a" "num_field k b \<and> ok b" for a b
      using that tot [of a b] by (auto simp: num_field_def cmp_num_desc_le)
    show "cmp_num_desc k c a d \<le> 0"
      if "num_field k a \<and> ok a" "num_field k b \<and> ok b" "num_field k d \<and> ok d"
        "cmp_num_desc k c a b \<le> 0" "cmp_num_desc k c b d \<le> 0" for a b d
      using that tr [of a b d] by (auto simp: num_field_def cmp_num_desc_le)
  qed
qed

lemma comparator_num0_desc:
  assumes "js_comparator c ok"
  shows "js_comparator (cmp_num0_desc k c) (\<lambda>r. opt_num_field k r \<and> ok r)"
proof -
  note tot = js_comparator.cmp_total [OF assms] and tr = js_comparator.cmp_trans [OF assms]
  show ?thesis
  proof
    show "cmp_num0_desc k c a b \<le> 0 \<or> cmp_num0_desc k c b a \<le> 0"
      if "opt_num_field k a \<and> ok a" "opt_num_field k b \<and> ok b" for a b
      using that tot [of a b] by (auto dest!: js_or_zero simp: cmp_num0_desc_le)
    show "cmp_num0_desc k c a d \<le> 0"
      if "opt_num_field k a \<and> ok a" "opt_num_field k b \<and> ok b" "opt_num_field k d \<and> ok d"
        "cmp_num0_desc k c a b \<le> 0" "cmp_num0_desc k c b d \<le> 0" for a b d
      using that tr [of a b d] by (auto dest!: js_or_zero simp: cmp_num0_desc_le)
  qed
qed

section \<open>A page of a table\<close>

text \<open>
  The body that the listings share: \<open>flt\<close> are the filters in order, \<open>filtered\<close> says whether one of
  them ran, so that \<open>rows\<close> is a new array; when none ran, \<open>rows.sort\<close> rearranges the stored table.
\<close>

definition list_page ::
  "string \<Rightarrow> table \<Rightarrow> bool \<Rightarrow> (row list \<Rightarrow> js_error + row list) \<Rightarrow> (row \<Rightarrow> row \<Rightarrow> rat) \<Rightarrow>
   int option \<Rightarrow> int option \<Rightarrow> fs_state \<Rightarrow> (js_error + nat \<times> row list) \<times> fs_state" where
  "list_page now t filtered flt c p ps st =
     (let (all, st1) = get_table now t st in
      case flt all of
        Inl e \<Rightarrow> (Inl e, st1)
      | Inr rs \<Rightarrow> (Inr (length rs, paginate p ps (js_sort c rs)),
                  if filtered then st1 else sort_table t c st1))"

lemma list_page_result:
  "fst (list_page now t filtered flt c p ps st) =
     (case flt (rows_of st t) of
        Inl e \<Rightarrow> Inl e | Inr rs \<Rightarrow> Inr (length rs, paginate p ps (js_sort c rs)))"
  "mset (rows_of (snd (list_page now t filtered flt c p ps st)) t') = mset (rows_of st t')"
  "next_of (snd (list_page now t filtered flt c p ps st)) t' = next_of st t'"
  by (auto simp: list_page_def Let_def sort_table_result sort_table_next load_data_loaded split: sum.splits)

lemma mset_rows_set: "mset (rows_of st t) = mset (rows_of st' t) \<Longrightarrow> set (rows_of st t) = set (rows_of st' t)"
  by (rule mset_eq_setD)

end
