(* ===== verification/Orders_Repo.thy ===== *)
theory Orders_Repo
  imports Listing
begin

text \<open>
  The order repository, \<^verbatim>\<open>src/src/storage/repositories/orders.ts\<close>: orders, their items and their
  change log.  An order number, a status or a logged value is a \<open>val\<close> where a caller may pass
  \<open>undefined\<close>.  The clock's local date and the random number of \<open>generateOrderNo\<close> are arguments.
\<close>

section \<open>Interfaces\<close>

definition order_iface :: iface where
  "order_iface =
     [(''id'', JNumber, Required), (''order_no'', JString, Required), (''user_id'', JNumber, Optional),
      (''property_id'', JNumber, Optional), (''type'', JString, Optional), (''status'', JString, Required),
      (''total_amount'', JNumber, Required), (''goods_amount'', JNumber, Optional),
      (''freight_amount'', JNumber, Optional), (''discount_amount'', JNumber, Optional),
      (''manual_adjust_amount'', JNumber, Optional), (''points_cost'', JNumber, Optional),
      (''address_snapshot'', JString, Optional), (''invite_code'', JString, Optional),
      (''buyer_note'', JString, Optional), (''payment_method'', JString, Optional),
      (''paid_at'', JString, Optional), (''contact_name'', JString, Optional),
      (''contact_phone'', JString, Optional), (''remark'', JString, Optional),
      (''version'', JNumber, Optional), (''created_at'', JString, Optional),
      (''updated_at'', JString, Optional)]"

definition order_item_iface :: iface where
  "order_item_iface =
     [(''id'', JNumber, Required), (''order_no'', JString, Required), (''sku_id'', JNumber, Optional),
      (''product_id'', JNumber, Optional), (''sku_code'', JString, Optional),
      (''sku_title'', JString, Optional), (''sku_cover'', JString, Optional),
      (''sku_spec'', JString, Optional), (''quantity'', JNumber, Required),
      (''unit_price'', JNumber, Required), (''total_price'', JNumber, Required),
      (''created_at'', JString, Optional)]"

definition order_log_iface :: iface where
  "order_log_iface =
     [(''id'', JNumber, Required), (''order_no'', JString, Required), (''field_name'', JString, Required),
      (''old_value'', JString, Optional), (''new_value'', JString, Optional),
      (''operator'', JString, Optional), (''created_at'', JString, Optional)]"

record order_query =
  oq_page :: "int option"
  oq_pageSize :: "int option"
  oq_status :: "string option"
  oq_orderNo :: "string option"
  oq_phone :: "string option"
  oq_startAt :: "string option"
  oq_endAt :: "string option"
  oq_userId :: val

definition no_order_query :: order_query where
  "no_order_query = \<lparr>oq_page = None, oq_pageSize = None, oq_status = None, oq_orderNo = None,
     oq_phone = None, oq_startAt = None, oq_endAt = None, oq_userId = VUndef\<rparr>"

section \<open>Order numbers\<close>

record order_env =
  iso :: string
  year :: nat
  month0 :: nat
  day :: nat
  hours :: nat
  minutes :: nat
  seconds :: nat
  rnd10000 :: nat

definition generate_order_no :: "order_env \<Rightarrow> string" where
  "generate_order_no e =
     nat_to_string (year e) @ pad0 2 (nat_to_string (month0 e + 1)) @ pad0 2 (nat_to_string (day e)) @
     pad0 2 (nat_to_string (hours e)) @ pad0 2 (nat_to_string (minutes e)) @
     pad0 2 (nat_to_string (seconds e)) @ pad0 4 (nat_to_string (rnd10000 e))"

section \<open>Listing\<close>

definition phone_matches :: "string \<Rightarrow> row \<Rightarrow> bool" where
  "phone_matches kw r =
     (case fld r ''address_snapshot'' of
        VStr s \<Rightarrow>
          (if s = [] then False
           else case json_parse s of
                  None \<Rightarrow> False
                | Some addr \<Rightarrow>
                    (case bindE (prop_of addr ''phone'') (\<lambda>p. opt_includes p kw) of
                       Inl _ \<Rightarrow> False | Inr b \<Rightarrow> b))
      | _ \<Rightarrow> False)"

definition at_or_after :: "string \<Rightarrow> row \<Rightarrow> bool" where
  "at_or_after s r = (let c = fld r ''created_at'' in truthy c \<and> js_leq (VStr s) c)"

definition at_or_before :: "string \<Rightarrow> row \<Rightarrow> bool" where
  "at_or_before s r = (let c = fld r ''created_at'' in truthy c \<and> js_leq c (VStr s))"

definition orders_filter :: "order_query \<Rightarrow> row list \<Rightarrow> js_error + row list" where
  "orders_filter q rs =
     bindE (filter_if (str_truthy (oq_status q))
        (\<lambda>r. Inr (strict_eq (fld r ''status'') (VStr (str_of (oq_status q))))) rs) (\<lambda>rs.
     bindE (filter_if (str_truthy (oq_orderNo q))
        (\<lambda>r. includes_call (fld r ''order_no'') (str_of (oq_orderNo q))) rs) (\<lambda>rs.
     bindE (filter_if (truthy (oq_userId q))
        (\<lambda>r. Inr (strict_eq (fld r ''user_id'') (oq_userId q))) rs) (\<lambda>rs.
     bindE (filter_if (str_truthy (oq_phone q)) (\<lambda>r. Inr (phone_matches (str_of (oq_phone q)) r)) rs) (\<lambda>rs.
     bindE (filter_if (str_truthy (oq_startAt q)) (\<lambda>r. Inr (at_or_after (str_of (oq_startAt q)) r)) rs) (\<lambda>rs.
     filter_if (str_truthy (oq_endAt q)) (\<lambda>r. Inr (at_or_before (str_of (oq_endAt q)) r)) rs)))))"

text \<open>Whether some filter ran, so that the rows are a fresh array and not the stored table.\<close>

definition orders_filtered :: "order_query \<Rightarrow> bool" where
  "orders_filtered q \<longleftrightarrow> str_truthy (oq_status q) \<or> str_truthy (oq_orderNo q) \<or> truthy (oq_userId q) \<or>
     str_truthy (oq_phone q) \<or> str_truthy (oq_startAt q) \<or> str_truthy (oq_endAt q)"

text \<open>\<open>userMap.get(order.user_id)\<close>: the map keeps the last user with an id.\<close>

definition order_user :: "row list \<Rightarrow> row \<Rightarrow> row option" where
  "order_user users r =
     (let uid = fld r ''user_id''
      in if truthy uid then find (\<lambda>u. strict_eq (fld u ''id'') uid) (rev users) else None)"

definition opt_fld :: "row option \<Rightarrow> string \<Rightarrow> val" where
  "opt_fld u k = (case u of None \<Rightarrow> VUndef | Some r \<Rightarrow> fld r k)"

definition address_data :: "row \<Rightarrow> val" where
  "address_data r =
     (case fld r ''address_snapshot'' of
        VStr s \<Rightarrow> (if s = [] then VObj [] else case json_parse s of None \<Rightarrow> VObj [] | Some v \<Rightarrow> v)
      | _ \<Rightarrow> VObj [])"

definition order_with_user :: "row list \<Rightarrow> row \<Rightarrow> js_error + row" where
  "order_with_user users r =
     (let user = order_user users r; addr = address_data r; up = opt_fld user ''phone'' in
      bindE (if truthy up then Inr up else prop_of addr ''phone'') (\<lambda>phone.
      bindE (prop_of addr ''name'') (\<lambda>aname.
      bindE (prop_of addr ''phone'') (\<lambda>aphone.
      bindE (prop_of addr ''detail'') (\<lambda>adetail.
      Inr (spread r
        [(''user_nickname'', js_or (opt_fld user ''nickname'') VNull),
         (''user_phone'', js_or phone VNull),
         (''address_name'', js_or aname VNull),
         (''address_phone'', js_or aphone VNull),
         (''address_detail'', js_or adetail VNull)]))))))"

definition orders_list ::
  "string \<Rightarrow> order_query \<Rightarrow> fs_state \<Rightarrow> (js_error + nat \<times> row list) \<times> fs_state" where
  "orders_list now q st =
     (let (all, st1) = get_table now Orders st in
      case orders_filter q all of
        Inl e \<Rightarrow> (Inl e, st1)
      | Inr rs \<Rightarrow>
          (let st2 = (if orders_filtered q then st1 else sort_table Orders cmp_created_desc st1);
               sorted = js_sort cmp_created_desc rs;
               paginated = paginate (oq_page q) (oq_pageSize q) sorted;
               (users, st3) = get_table now Users st2
           in case mapE (order_with_user users) paginated of
                Inl e \<Rightarrow> (Inl e, st3)
              | Inr os \<Rightarrow> (Inr (length rs, os), st3)))"

section \<open>Finding, creating, updating\<close>

definition has_order_no :: "val \<Rightarrow> row \<Rightarrow> bool" where
  "has_order_no n r = strict_eq (fld r ''order_no'') n"

definition find_by_order_no :: "string \<Rightarrow> val \<Rightarrow> fs_state \<Rightarrow> row option \<times> fs_state" where
  "find_by_order_no now n st = store_find_one now Orders (has_order_no n) st"

definition orders_find_by_id :: "string \<Rightarrow> val \<Rightarrow> fs_state \<Rightarrow> row option \<times> fs_state" where
  "orders_find_by_id now i st = store_find_by_id now Orders i st"

definition orders_create :: "order_env \<Rightarrow> row \<Rightarrow> fs_state \<Rightarrow> row \<times> fs_state" where
  "orders_create e data st =
     (let order_no = js_or (fld data ''order_no'') (VStr (generate_order_no e))
      in store_insert (iso e) Orders
           (spread data
             [(''order_no'', order_no),
              (''status'', js_or (fld data ''status'') (VStr ''pending'')),
              (''total_amount'', js_or (fld data ''total_amount'') (VNum 0)),
              (''version'', VNum 0)]) st)"

definition orders_update :: "string \<Rightarrow> val \<Rightarrow> row \<Rightarrow> fs_state \<Rightarrow> bool \<times> fs_state" where
  "orders_update now n data st =
     (case find_by_order_no now n st of
        (None, st1) \<Rightarrow> (False, st1)
      | (Some order, st1) \<Rightarrow> store_update now Orders (fld order ''id'') data st1)"

definition update_status :: "string \<Rightarrow> val \<Rightarrow> val \<Rightarrow> row \<Rightarrow> fs_state \<Rightarrow> bool \<times> fs_state" where
  "update_status now n status extra st =
     (case find_by_order_no now n st of
        (None, st1) \<Rightarrow> (False, st1)
      | (Some order, st1) \<Rightarrow>
          store_update now Orders (fld order ''id'') (spread [(''status'', status)] extra) st1)"

definition orders_remove :: "string \<Rightarrow> val \<Rightarrow> fs_state \<Rightarrow> bool \<times> fs_state" where
  "orders_remove now n st =
     (case find_by_order_no now n st of
        (None, st1) \<Rightarrow> (False, st1)
      | (Some order, st1) \<Rightarrow>
          (let (_, st2) = remove_where now Order_items (has_order_no n) st1
           in store_remove now Orders (fld order ''id'') st2))"

definition get_order_items :: "string \<Rightarrow> val \<Rightarrow> fs_state \<Rightarrow> row list \<times> fs_state" where
  "get_order_items now n st = store_find_all now Order_items (Some (has_order_no n)) st"

definition add_order_item :: "string \<Rightarrow> row \<Rightarrow> fs_state \<Rightarrow> row \<times> fs_state" where
  "add_order_item now item st = store_insert now Order_items item st"

definition log_change ::
  "string \<Rightarrow> val \<Rightarrow> string \<Rightarrow> val \<Rightarrow> val \<Rightarrow> string option \<Rightarrow> fs_state \<Rightarrow> fs_state" where
  "log_change now n field oldv newv op st =
     snd (store_insert now Order_change_logs
       [(''order_no'', n), (''field_name'', VStr field), (''old_value'', oldv), (''new_value'', newv),
        (''operator'', VStr (if str_truthy op then str_of op else ''system''))] st)"

definition get_change_logs :: "string \<Rightarrow> val \<Rightarrow> fs_state \<Rightarrow> row list \<times> fs_state" where
  "get_change_logs now n st =
     (let (rs, st1) = store_find_all now Order_change_logs (Some (has_order_no n)) st
      in (js_sort cmp_created_desc rs, st1))"

definition count_by_status :: "string \<Rightarrow> string option \<Rightarrow> fs_state \<Rightarrow> nat \<times> fs_state" where
  "count_by_status now s st =
     (if str_truthy s
      then store_count now Orders (Some (\<lambda>r. strict_eq (fld r ''status'') (VStr (str_of s)))) st
      else store_count now Orders None st)"

definition find_by_invite_code :: "string \<Rightarrow> val \<Rightarrow> fs_state \<Rightarrow> row option \<times> fs_state" where
  "find_by_invite_code now c st = store_find_one now Orders (\<lambda>r. strict_eq (fld r ''invite_code'') c) st"

lemmas orders_repo_defs [repo_defs] =
  find_by_order_no_def orders_find_by_id_def orders_create_def orders_update_def update_status_def
  orders_remove_def get_order_items_def add_order_item_def log_change_def get_change_logs_def
  count_by_status_def find_by_invite_code_def

section \<open>Listing: the reference definition\<close>

definition order_matches :: "order_query \<Rightarrow> row \<Rightarrow> bool" where
  "order_matches q r \<longleftrightarrow>
     (str_truthy (oq_status q) \<longrightarrow> fld r ''status'' = VStr (str_of (oq_status q))) \<and>
     (str_truthy (oq_orderNo q) \<longrightarrow>
        (\<exists>s. fld r ''order_no'' = VStr s \<and> sublist (str_of (oq_orderNo q)) s)) \<and>
     (truthy (oq_userId q) \<longrightarrow> strict_eq (fld r ''user_id'') (oq_userId q)) \<and>
     (str_truthy (oq_phone q) \<longrightarrow> phone_matches (str_of (oq_phone q)) r) \<and>
     (str_truthy (oq_startAt q) \<longrightarrow> at_or_after (str_of (oq_startAt q)) r) \<and>
     (str_truthy (oq_endAt q) \<longrightarrow> at_or_before (str_of (oq_endAt q)) r)"

lemma order_no_string: "conforms order_iface r \<Longrightarrow> \<exists>s. fld r ''order_no'' = VStr s"
  by (rule required_string, rule conformsD) (auto simp: order_iface_def)

lemma order_no_includes:
  assumes "conforms order_iface r"
  shows "includes_call (fld r ''order_no'') t
       = Inr (\<exists>s. fld r ''order_no'' = VStr s \<and> sublist t s)"
  using order_no_string [OF assms] by (auto simp: includes_call_def str_includes_iff sublist_def)

lemma orders_filter_matches:
  assumes "all_conform order_iface rs"
  shows "orders_filter q rs = Inr (filter (order_matches q) rs)"
proof -
  have inc: "filter_if c (\<lambda>r. includes_call (fld r ''order_no'') t) (filter p rs)
      = Inr (filter (\<lambda>r. c \<longrightarrow> (\<exists>s. fld r ''order_no'' = VStr s \<and> sublist t s)) (filter p rs))" for c t p
    using assms by (intro filter_if_cong_Inr order_no_includes) (simp add: all_conform_def)
  show ?thesis
    unfolding orders_filter_def
    by (simp add: inc) (rule filter_cong [OF refl], auto simp: order_matches_def)
qed

lemma not_filtered_matches:
  "\<not> orders_filtered q \<Longrightarrow> order_matches q r"
  by (auto simp: orders_filtered_def order_matches_def)

lemma orders_list_result:
  assumes "all_conform order_iface (rows_of st Orders)"
  shows "fst (orders_list now q st) =
     (let rs = filter (order_matches q) (rows_of st Orders)
      in case mapE (order_with_user (rows_of st Users))
                (paginate (oq_page q) (oq_pageSize q) (js_sort cmp_created_desc rs)) of
           Inl e \<Rightarrow> Inl e | Inr os \<Rightarrow> Inr (length rs, os))"
    and "mset (rows_of (snd (orders_list now q st)) t) = mset (rows_of st t)"
    and "next_of (snd (orders_list now q st)) t = next_of st t"
  using assms
  by (auto simp: orders_list_def orders_filter_matches Let_def sort_table_result load_data_loaded
      sort_table_next split: sum.splits)

definition shown_order :: "row list \<Rightarrow> row \<Rightarrow> row" where
  "shown_order users r =
     (let user = order_user users r;
          addr = (case address_data r of VObj kvs \<Rightarrow> kvs | _ \<Rightarrow> [])
      in spread r
        [(''user_nickname'', js_or (opt_fld user ''nickname'') VNull),
         (''user_phone'', js_or (js_or (opt_fld user ''phone'') (fld addr ''phone'')) VNull),
         (''address_name'', js_or (fld addr ''name'') VNull),
         (''address_phone'', js_or (fld addr ''phone'') VNull),
         (''address_detail'', js_or (fld addr ''detail'') VNull)])"

lemma shown_order_ok:
  assumes "\<not> nullish (address_data r)"
  shows "order_with_user users r = Inr (shown_order users r)"
proof -
  define kvs where "kvs = (case address_data r of VObj kvs \<Rightarrow> kvs | _ \<Rightarrow> [])"
  have "prop_of (address_data r) k = Inr (fld kvs k)" for k
    using assms by (cases "address_data r") (simp_all add: kvs_def fld_def)
  then show ?thesis
    unfolding order_with_user_def shown_order_def Let_def kvs_def [symmetric]
    by (simp add: js_or_def)
qed

lemma shown_order_null: "nullish (address_data r) \<Longrightarrow> order_with_user users r = Inl TypeError"
  by (cases "address_data r") (auto simp: order_with_user_def Let_def)

lemma mapE_shown:
  "mapE (order_with_user users) rs =
     (if \<exists>r\<in>set rs. nullish (address_data r) then Inl TypeError else Inr (map (shown_order users) rs))"
proof (induction rs)
  case (Cons r rs)
  then show ?case
    by (cases "nullish (address_data r)") (auto simp: shown_order_ok shown_order_null)
qed simp

lemma shown_order_created: "fld (shown_order users r) ''created_at'' = fld r ''created_at''"
  by (simp add: shown_order_def Let_def fld_spread_None)

lemma shown_page_in_order:
  "sorted_wrt (\<lambda>a b. cmp_created_desc a b \<le> 0)
     (map (shown_order users) (paginate p ps (js_sort cmp_created_desc rs)))"
  using created.page_in_order [of rs p ps]
  by (simp add: sorted_wrt_map cmp_created_desc_le shown_order_created)

definition sample_order :: "string \<Rightarrow> row" where
  "sample_order a = [(''id'', VNat 1), (''order_no'', VStr ''A1''), (''user_id'', VNat 1),
     (''status'', VStr ''pending''), (''total_amount'', VNum 5), (''address_snapshot'', VStr a),
     (''created_at'', VStr ''2026''), (''updated_at'', VStr ''2026'')]"

definition sample_shop :: "row list \<Rightarrow> row list \<Rightarrow> fs_state" where
  "sample_shop os items = store_with (\<lambda>t. if t = Orders then os else if t = Order_items then items else [])"

lemma sample_order_conforms: "conforms order_iface (sample_order a)"
  by (simp add: conforms_def order_iface_def sample_order_def field_ok_def)

text \<open>An order listing that answers gives the number of all matching orders and exactly the
  requested page of them, newest first, each joined with its user and its address; at most 100 with
  a sensible page; and no stored row is changed, lost or added by listing.\<close>

theorem orders_list_page:
  assumes "all_conform order_iface (rows_of st Orders)"
    and "fst (orders_list now q st) = Inr (tot, os)"
  shows "tot = length (filter (order_matches q) (rows_of st Orders)) \<and>
    os = map (shown_order (rows_of st Users)) (paginate (oq_page q) (oq_pageSize q)
           (js_sort cmp_created_desc (filter (order_matches q) (rows_of st Orders)))) \<and>
    sorted_wrt (\<lambda>a b. cmp_created_desc a b \<le> 0) os \<and>
    (int_or (oq_page q) 1 \<ge> 1 \<and> int_or (oq_pageSize q) 20 \<ge> 1 \<longrightarrow> length os \<le> 100) \<and>
    (\<forall>t. mset (rows_of (snd (orders_list now q st)) t) = mset (rows_of st t))"
  using assms(2) orders_list_result [OF assms(1)]
  by (auto simp: mapE_shown Let_def shown_page_in_order length_paginate_le split: if_splits)

theorem orders_list_page_witness:
  "let st = sample_shop [sample_order []] []
   in \<exists>os. fst (orders_list ''t'' no_order_query st) = Inr (1, os) \<and> length os \<le> 100"
proof -
  let ?st = "sample_shop [sample_order []] []"
  have c: "all_conform order_iface (rows_of ?st Orders)"
    by (simp add: all_conform_def conforms_def order_iface_def sample_order_def sample_shop_def field_ok_def)
  obtain os where os: "fst (orders_list ''t'' no_order_query ?st) = Inr (1, os)"
    using orders_list_result(1) [OF c, of "''t''" no_order_query]
    by (simp add: mapE_shown Let_def sample_shop_def sample_order_def no_order_query_def order_matches_def
        str_truthy_def paginate_def int_or_def page_size_of_def js_slice_def slice_index_def
        address_data_def)
  show ?thesis
    using orders_list_page [OF c os] os by (auto simp: Let_def no_order_query_def int_or_def)
qed

text \<open>A listing fails exactly when the requested page holds an order whose address snapshot is the
  JSON text \<open>null\<close>; the error is the \<open>TypeError\<close> of reading a property of null.\<close>

theorem orders_list_fails_iff:
  assumes "all_conform order_iface (rows_of st Orders)"
  shows "fst (orders_list now q st) = Inl e \<longleftrightarrow>
    e = TypeError \<and>
    (\<exists>r \<in> set (paginate (oq_page q) (oq_pageSize q)
        (js_sort cmp_created_desc (filter (order_matches q) (rows_of st Orders)))).
       nullish (address_data r))"
  using orders_list_result [OF assms] by (auto simp: mapE_shown Let_def)

theorem orders_list_fails_iff_witness:
  "fst (orders_list ''t'' no_order_query (sample_shop [sample_order ''null''] [])) = Inl TypeError"
proof -
  let ?st = "sample_shop [sample_order ''null''] []"
  have c: "all_conform order_iface (rows_of ?st Orders)"
    by (simp add: all_conform_def sample_order_conforms sample_shop_def)
  have n: "json_parse ''null'' = Some VNull"
    by code_simp
  show ?thesis
    using orders_list_fails_iff [OF c, of "''t''" no_order_query TypeError]
    by (simp add: sample_shop_def sample_order_def no_order_query_def order_matches_def
        str_truthy_def paginate_def int_or_def page_size_of_def js_slice_def slice_index_def
        address_data_def Let_def n)
qed

section \<open>Order numbers\<close>

definition clock_ok :: "order_env \<Rightarrow> bool" where
  "clock_ok e \<longleftrightarrow> 1000 \<le> year e \<and> year e < 10000 \<and> month0 e < 12 \<and> day e < 32 \<and> hours e < 24 \<and>
     minutes e < 60 \<and> seconds e < 60 \<and> rnd10000 e < 10000"

lemma length_pad0 [simp]: "length (pad0 n s) = max n (length s)"
  by (simp add: pad0_def)

lemma digits_val_app_zeros: "digits_val (replicate k (CHR ''0'') @ s) = digits_val s"
  by (induction k) (simp_all add: digits_val_def digit_val_def)

lemma digits_val_pad0 [simp]: "digits_val (pad0 n s) = digits_val s"
  by (simp add: pad0_def digits_val_app_zeros)

lemma pad0_digits: "list_all is_digit s \<Longrightarrow> list_all is_digit (pad0 n s)"
  by (auto simp: pad0_def list_all_iff is_digit_def)

lemma nat_to_string_length: "n < 10 ^ Suc k \<Longrightarrow> length (nat_to_string n) \<le> Suc k"
proof (induction k arbitrary: n)
  case (Suc k)
  then have "n div 10 < 10 ^ Suc k"
    by (simp add: less_mult_imp_div_less)
  with Suc.IH [of "n div 10"] show ?case
    by (subst nat_to_string.simps) auto
qed (simp add: nat_to_string.simps)

lemma nat_to_string_length_ge: "10 ^ k \<le> n \<Longrightarrow> Suc k \<le> length (nat_to_string n)"
proof (induction k arbitrary: n)
  case (Suc k)
  have "10 * 10 ^ k \<le> n"
    using Suc.prems by simp
  then have "10 ^ k \<le> n div 10" "10 \<le> n"
    using one_le_power [of "10::nat" k] by linarith+
  with Suc.IH [of "n div 10"] show ?case
    by (subst nat_to_string.simps) auto
qed (simp add: Suc_leI)

lemma clock_lengths:
  assumes "clock_ok e"
  shows "length (nat_to_string (year e)) = 4" "length (pad0 2 (nat_to_string (Suc (month0 e)))) = 2"
    "length (pad0 2 (nat_to_string (day e))) = 2" "length (pad0 2 (nat_to_string (hours e))) = 2"
    "length (pad0 2 (nat_to_string (minutes e))) = 2" "length (pad0 2 (nat_to_string (seconds e))) = 2"
    "length (pad0 4 (nat_to_string (rnd10000 e))) = 4"
proof -
  have "length (pad0 2 (nat_to_string n)) = 2" if "n < 100" for n
    using nat_to_string_length [of n 1] that by simp
  with assms show "length (pad0 2 (nat_to_string (Suc (month0 e)))) = 2"
    "length (pad0 2 (nat_to_string (day e))) = 2" "length (pad0 2 (nat_to_string (hours e))) = 2"
    "length (pad0 2 (nat_to_string (minutes e))) = 2" "length (pad0 2 (nat_to_string (seconds e))) = 2"
    by (simp_all add: clock_ok_def)
  show "length (pad0 4 (nat_to_string (rnd10000 e))) = 4"
    using nat_to_string_length [of "rnd10000 e" 3] assms by (simp add: clock_ok_def)
  show "length (nat_to_string (year e)) = 4"
    using nat_to_string_length [of "year e" 3] nat_to_string_length_ge [of 3 "year e"] assms
    by (simp add: clock_ok_def)
qed

lemma pad0_inj: "pad0 n (nat_to_string a) = pad0 n (nat_to_string b) \<longleftrightarrow> a = b"
  by (metis digits_val_nat_to_string digits_val_pad0)

text \<open>An order number has eighteen decimal digits, and two order numbers are equal only if they
  were made in the same second with the same random number: nothing but the random part can make
  two orders collide.\<close>

theorem order_number_unique_per_second:
  assumes "clock_ok e" "clock_ok e'"
  shows "length (generate_order_no e) = 18 \<and> list_all is_digit (generate_order_no e) \<and>
    (generate_order_no e = generate_order_no e' \<longleftrightarrow>
       (year e, month0 e, day e, hours e, minutes e, seconds e, rnd10000 e) =
       (year e', month0 e', day e', hours e', minutes e', seconds e', rnd10000 e'))"
  unfolding generate_order_no_def
  using clock_lengths [OF assms(1)] clock_lengths [OF assms(2)]
  by (auto simp: pad0_digits nat_to_string_digits pad0_inj nat_to_string_inj simp del: length_pad0)
lemma patch_ok_order_create:
  assumes "patch_ok order_iface data"
  shows "patch_ok order_iface
    [(''order_no'', js_or (fld data ''order_no'') (VStr (generate_order_no e))),
     (''status'', js_or (fld data ''status'') (VStr ''pending'')),
     (''total_amount'', js_or (fld data ''total_amount'') (VNum 0)),
     (''version'', VNum 0)]" (is "patch_ok _ ?u")
proof -
  have o: "field_ok (js_or (fld data ''order_no'') (VStr s)) JString Required"
    and st: "field_ok (js_or (fld data ''status'') (VStr s)) JString Required"
    and ta: "field_ok (js_or (fld data ''total_amount'') (VNum 0)) JNumber Required" for s
    using patch_field [OF assms, of "''order_no''" JString Required]
      patch_field [OF assms, of "''status''" JString Required]
      patch_field [OF assms, of "''total_amount''" JNumber Required]
    by (auto simp: order_iface_def intro: field_ok_js_or_str field_ok_js_or_num)
  have "fld ?u ''order_no'' = js_or (fld data ''order_no'') (VStr (generate_order_no e))"
    "fld ?u ''status'' = js_or (fld data ''status'') (VStr ''pending'')"
    "fld ?u ''total_amount'' = js_or (fld data ''total_amount'') (VNum 0)" "fld ?u ''version'' = VNum 0"
    by (simp_all add: fld_def)
  with o st ta show ?thesis
    unfolding patch_ok_def order_iface_def by auto
qed

lemma created_order_conforms:
  assumes "patch_ok order_iface data"
  shows "conforms order_iface (fst (orders_create e data st))"
  unfolding orders_create_def Let_def store_insert_result
proof (rule conforms_new_row)
  show "patch_ok order_iface (spread data
    [(''order_no'', js_or (fld data ''order_no'') (VStr (generate_order_no e))),
     (''status'', js_or (fld data ''status'') (VStr ''pending'')),
     (''total_amount'', js_or (fld data ''total_amount'') (VNum 0)),
     (''version'', VNum 0)])"
    using assms by (intro patch_ok_spread patch_ok_order_create)
qed (auto simp: order_iface_def keys_spread)

lemma orders_create_result:
  "rows_of (snd (orders_create e data st)) t =
     (if t = Orders then rows_of st Orders @ [fst (orders_create e data st)] else rows_of st t)"
  "fld (fst (orders_create e data st)) ''id'' = VNat (next_of st Orders)"
  "fld (fst (orders_create e data st)) ''order_no'' =
     js_or (fld data ''order_no'') (VStr (generate_order_no e))"
  "fld (fst (orders_create e data st)) ''status'' = js_or (fld data ''status'') (VStr ''pending'')"
  "fld (fst (orders_create e data st)) ''version'' = VNum 0"
  by (simp_all add: orders_create_def Let_def store_insert_result fld_new_row)

definition sample_clock :: "nat \<Rightarrow> order_env" where
  "sample_clock r = \<lparr>iso = ''2026-03-01T08:05:09Z'', year = 2026, month0 = 2, day = 1, hours = 8,
     minutes = 5, seconds = 9, rnd10000 = r\<rparr>"

theorem order_number_unique_per_second_witness:
  "length (generate_order_no (sample_clock 7)) = 18 \<and>
   generate_order_no (sample_clock 7) \<noteq> generate_order_no (sample_clock 8)"
  using order_number_unique_per_second [of "sample_clock 7" "sample_clock 8"]
  by (simp add: clock_ok_def sample_clock_def)

text \<open>Creating an order from well-typed data gives a row of type \<open>Order\<close>, appended to the table,
  with the caller's number or a generated one, the caller's status or \<open>pending\<close> and version 0; when
  no stored order has that number it is the order found by its number, and nothing else changes.\<close>

theorem created_order_is_found:
  assumes "patch_ok order_iface data"
    and "\<forall>r\<in>set (rows_of st Orders). \<not> has_order_no (fld (fst (orders_create e data st)) ''order_no'') r"
  shows "conforms order_iface (fst (orders_create e data st)) \<and>
    fld (fst (orders_create e data st)) ''order_no'' =
      js_or (fld data ''order_no'') (VStr (generate_order_no e)) \<and>
    fld (fst (orders_create e data st)) ''status'' = js_or (fld data ''status'') (VStr ''pending'') \<and>
    fld (fst (orders_create e data st)) ''version'' = VNum 0 \<and>
    fst (find_by_order_no now (fld (fst (orders_create e data st)) ''order_no'')
      (snd (orders_create e data st))) = Some (fst (orders_create e data st)) \<and>
    (\<forall>t. rows_of (snd (orders_create e data st)) t =
      (if t = Orders then rows_of st Orders @ [fst (orders_create e data st)] else rows_of st t))"
proof -
  have conf: "conforms order_iface (fst (orders_create e data st))"
    using assms(1) by (rule created_order_conforms)
  then obtain s where s: "fld (fst (orders_create e data st)) ''order_no'' = VStr s"
    using order_no_string by blast
  have "find (has_order_no (VStr s)) (rows_of st Orders) = None"
    using assms(2) s by (simp add: find_None_iff)
  then have "fst (find_by_order_no now (VStr s) (snd (orders_create e data st)))
      = Some (fst (orders_create e data st))"
    using s by (simp add: find_by_order_no_def orders_create_result(1) find_app has_order_no_def)
  with conf s show ?thesis
    by (simp add: orders_create_result)
qed

theorem created_order_is_found_witness:
  "let e = sample_clock 7; data = [(''order_no'', VStr ''A2'')]; st = sample_shop [sample_order ''null''] []
   in fst (find_by_order_no ''t'' (VStr ''A2'') (snd (orders_create e data st)))
        = Some (fst (orders_create e data st))"
proof -
  let ?e = "sample_clock 7" and ?data = "[(''order_no'', VStr ''A2'')]"
    and ?st = "sample_shop [sample_order ''null''] []"
  have no: "fld (fst (orders_create ?e ?data ?st)) ''order_no'' = VStr ''A2''"
    by (simp add: orders_create_result js_or_def)
  have "patch_ok order_iface ?data"
    by (simp add: patch_ok_def order_iface_def)
  moreover have "\<forall>r\<in>set (rows_of ?st Orders).
      \<not> has_order_no (fld (fst (orders_create ?e ?data ?st)) ''order_no'') r"
    by (simp only: no) (simp add: sample_shop_def sample_order_def has_order_no_def)
  ultimately show ?thesis
    using created_order_is_found [of ?data ?st ?e "''t''"] no by (simp add: Let_def)
qed

text \<open>An update by order number acts on the first order with the number, and on that row only.\<close>

lemma orders_update_result:
  assumes "ids_ok (rows_of st Orders) (next_of st Orders)"
  shows "rows_of (snd (orders_update now n data st)) t =
     (if t = Orders then upd_first (has_order_no n) (touched now data) (rows_of st Orders)
      else rows_of st t)"
    and "fst (orders_update now n data st) \<longleftrightarrow> (\<exists>r\<in>set (rows_of st Orders). has_order_no n r)"
proof -
  show "rows_of (snd (orders_update now n data st)) t =
     (if t = Orders then upd_first (has_order_no n) (touched now data) (rows_of st Orders)
      else rows_of st t)"
    using upd_first_found [OF _ assms, of "has_order_no n"]
    by (auto simp: orders_update_def find_by_order_no_def store_update_result find_None_iff
        upd_first_none split: option.splits)
  show "fst (orders_update now n data st) \<longleftrightarrow> (\<exists>r\<in>set (rows_of st Orders). has_order_no n r)"
    using found_has_id [OF _ assms, of "has_order_no n"]
    by (auto simp: orders_update_def find_by_order_no_def store_update_result find_None_iff
        split: option.splits dest!: find_in_set)
qed

text \<open>Deleting an order by its number removes exactly the first order with that number and all its
  items; the answer says whether there was one; other orders, other items and other tables stay.\<close>

theorem order_removal_cascades:
  assumes "ids_ok (rows_of st Orders) (next_of st Orders)"
  shows "fst (orders_remove now n st) = (\<exists>r\<in>set (rows_of st Orders). has_order_no n r) \<and>
    rows_of (snd (orders_remove now n st)) Orders = del_first (has_order_no n) (rows_of st Orders) \<and>
    rows_of (snd (orders_remove now n st)) Order_items =
      (if \<exists>r\<in>set (rows_of st Orders). has_order_no n r
       then filter (\<lambda>r. \<not> has_order_no n r) (rows_of st Order_items) else rows_of st Order_items) \<and>
    (\<forall>t. t \<noteq> Orders \<and> t \<noteq> Order_items \<longrightarrow>
       rows_of (snd (orders_remove now n st)) t = rows_of st t)"
  using del_first_found [OF _ assms, of "has_order_no n"] found_has_id [OF _ assms, of "has_order_no n"]
  by (auto simp: orders_remove_def find_by_order_no_def store_writes find_None_iff Let_def
      case_prod_beta del_first_none split: option.splits dest!: find_in_set)

theorem order_removal_cascades_witness:
  "let st = sample_shop [sample_order []] [[(''id'', VNat 1), (''order_no'', VStr ''A1'')]]
   in rows_of (snd (orders_remove ''t'' (VStr ''A1'') st)) Order_items = []"
proof -
  let ?st = "sample_shop [sample_order []] [[(''id'', VNat 1), (''order_no'', VStr ''A1'')]]"
  have "ids_ok (rows_of ?st Orders) (next_of ?st Orders)"
    by (simp add: ids_ok_def sample_shop_def sample_order_def)
  from order_removal_cascades [OF this, of "''t''" "VStr ''A1''"] show ?thesis
    by (simp add: Let_def sample_shop_def sample_order_def has_order_no_def)
qed

end
