(* ===== verification/Http.thy ===== *)
theory Http
  imports Orders_Repo
begin

text \<open>
  Requests, answers, the error middleware (\<^verbatim>\<open>src/src/utils/errors.ts\<close>), the administrator guard
  (\<^verbatim>\<open>middlewares/admin_auth.ts\<close>) and the WeChat guards (\<^verbatim>\<open>middlewares/wx_guard.ts\<close>).

  A header, query or path parameter is a single string, absent or present; a body is the parsed JSON
  value.  An answer holds the JSON value its client parses, so a number that is not finite is \<open>null\<close>
  and an undefined property is absent.  What the code takes from the language's run time or from
  packages is a field of \<open>call_env\<close>: the clock, the text of a \<open>TypeError\<close>, the messages of the schema
  library, the keyed hash.
\<close>

section \<open>Requests and answers\<close>

record request =
  headers :: "string \<Rightarrow> string option"
  query :: "string \<Rightarrow> string option"
  params :: "string \<Rightarrow> string"
  body :: val

record response =
  status :: nat
  answer :: val

record server_config =
  adminToken :: string
  jwtSecret :: string
  wechat_enabled :: bool
  payAuthDir :: string

record call_env = order_env +
  now_sec :: int
  now_ms :: int
  type_error_text :: string
  zod_text :: "string \<Rightarrow> val \<Rightarrow> string"
  hmac_base64 :: "string \<Rightarrow> string \<Rightarrow> string"

type_synonym 's action = "'s \<Rightarrow> (js_error + response) \<times> 's"

definition json_res :: "nat \<Rightarrow> row \<Rightarrow> response" where
  "json_res s kvs = \<lparr>status = s, answer = json_copy (VObj kvs)\<rparr>"

definition ok_res :: "row \<Rightarrow> js_error + response" where
  "ok_res kvs = Inr (json_res 200 kvs)"

definition res_status :: "nat \<Rightarrow> row \<Rightarrow> js_error + response" where
  "res_status s kvs = Inr (json_res s kvs)"

text \<open>\<open>req.query.k || d\<close>\<close>

definition query_or :: "request \<Rightarrow> string \<Rightarrow> string \<Rightarrow> string" where
  "query_or req k d = (if str_truthy (query req k) then str_of (query req k) else d)"

text \<open>A destructured field of the body, \<open>const { k } = req.body\<close>; a JSON body is an object or an array.\<close>

definition body_fld :: "request \<Rightarrow> string \<Rightarrow> val" where
  "body_fld req k = (case body req of VObj r \<Rightarrow> fld r k | _ \<Rightarrow> VUndef)"

text \<open>\<open>{ ...req.body }\<close>\<close>

definition body_row :: "request \<Rightarrow> row" where
  "body_row req =
     (case body req of
        VObj r \<Rightarrow> r
      | VArr vs \<Rightarrow> zip (map nat_to_string [0..<length vs]) vs
      | _ \<Rightarrow> [])"

text \<open>\<open>parseInt(req.query.page || '1', 10)\<close> and \<open>Math.min(parseInt(...), 100)\<close>; \<open>None\<close> is NaN.\<close>

definition page_arg :: "request \<Rightarrow> int option" where
  "page_arg req = parse_int (query_or req ''page'' ''1'')"

definition page_arg_min1 :: "request \<Rightarrow> int option" where
  "page_arg_min1 req = map_option (max 1) (page_arg req)"

definition page_size_arg :: "request \<Rightarrow> int option" where
  "page_size_arg req = map_option (min 100) (parse_int (query_or req ''pageSize'' ''20''))"

definition id_param :: "request \<Rightarrow> string \<Rightarrow> val" where
  "id_param req k = num_of_parse (parse_int (params req k))"

section \<open>Errors\<close>

text \<open>\<open>err.message\<close>\<close>

definition err_message :: "call_env \<Rightarrow> js_error \<Rightarrow> string" where
  "err_message e err =
     (case err of
        TypeError \<Rightarrow> type_error_text e
      | AppErr s c m \<Rightarrow> m
      | ZodErr p m \<Rightarrow> m
      | PlainError m \<Rightarrow> m)"

definition error_middleware :: "js_error \<Rightarrow> response" where
  "error_middleware err =
     (case err of
        ZodErr path m \<Rightarrow>
          json_res 400 [(''code'', VStr ''BAD_REQUEST''),
            (''message'', VStr (if m = [] then msg_bad_params
                               else (if path = [] then [] else path @ '': '') @ m)),
            (''requestId'', VStr [])]
      | AppErr s c m \<Rightarrow>
          json_res s [(''code'', VStr c), (''message'', VStr m), (''requestId'', VStr [])]
      | _ \<Rightarrow>
          json_res 500 [(''code'', VStr ''INTERNAL_ERROR''), (''message'', VStr ''Internal server error''),
            (''requestId'', VStr [])])"

text \<open>\<open>try { ... } catch (e) { next(e); }\<close> and \<open>catch (err) { res.status(500).json({ error: err.message }) }\<close>\<close>

definition with_next :: "'s action \<Rightarrow> 's \<Rightarrow> response \<times> 's" where
  "with_next h st = (case h st of (Inr r, st1) \<Rightarrow> (r, st1) | (Inl e, st1) \<Rightarrow> (error_middleware e, st1))"

definition with_500 :: "call_env \<Rightarrow> 's action \<Rightarrow> 's \<Rightarrow> response \<times> 's" where
  "with_500 env h st =
     (case h st of
        (Inr r, st1) \<Rightarrow> (r, st1)
      | (Inl e, st1) \<Rightarrow> (json_res 500 [(''error'', VStr (err_message env e))], st1))"

section \<open>Guards\<close>

text \<open>A guard answers itself or lets the request through.\<close>

definition bearer :: "string option \<Rightarrow> string option" where
  "bearer h =
     (case h of
        None \<Rightarrow> None
      | Some s \<Rightarrow> if prefix ''Bearer '' s then Some (drop 7 s) else None)"

definition require_admin_token :: "server_config \<Rightarrow> request \<Rightarrow> response option" where
  "require_admin_token cfg req =
     (let token = (case bearer (headers req ''authorization'') of None \<Rightarrow> [] | Some t \<Rightarrow> t)
      in if adminToken cfg = [] \<or> token \<noteq> adminToken cfg
         then Some (json_res 401 [(''error'', VStr ''Unauthorized'')]) else None)"

definition guarded :: "response option \<Rightarrow> ('s \<Rightarrow> response \<times> 's) \<Rightarrow> 's \<Rightarrow> response \<times> 's" where
  "guarded g h st = (case g of Some r \<Rightarrow> (r, st) | None \<Rightarrow> h st)"

definition admin_only ::
  "server_config \<Rightarrow> request \<Rightarrow> ('s \<Rightarrow> response \<times> 's) \<Rightarrow> 's \<Rightarrow> response \<times> 's" where
  "admin_only cfg req h = guarded (require_admin_token cfg req) h"

definition require_wechat_ua :: "server_config \<Rightarrow> request \<Rightarrow> response option" where
  "require_wechat_ua cfg req =
     (if \<not> wechat_enabled cfg
      then Some (json_res 403 [(''code'', VStr ''WECHAT_PAY_DISABLED''), (''message'', VStr ''WeChat Pay is disabled'')])
      else if \<not> str_includes (to_lower (str_of (headers req ''user-agent''))) ''micromessenger''
      then Some (json_res 400 [(''code'', VStr ''NOT_WECHAT_ENV''), (''message'', VStr ''Please open in WeChat'')])
      else None)"

text \<open>\<open>url_path\<close> is the path of a URL, or nothing for a text that is not one (the URL class).\<close>

definition require_pay_auth_dir ::
  "(string \<Rightarrow> string option) \<Rightarrow> server_config \<Rightarrow> request \<Rightarrow> response option" where
  "require_pay_auth_dir url_path cfg req =
     (let referer = (if str_truthy (headers req ''referer'') then str_of (headers req ''referer'')
                     else str_of (headers req ''referrer''))
      in if referer = [] then None
         else case url_path referer of
                None \<Rightarrow> None
              | Some p \<Rightarrow>
                  if \<not> prefix (payAuthDir cfg) p
                  then Some (json_res 400 [(''code'', VStr ''PAY_DIR_NOT_ALLOWED''),
                      (''message'', VStr ''Payment must be initiated from authorized directory'')])
                  else None)"

section \<open>The contract of a guarded handler\<close>

text \<open>
  A guard is a test on the request.  Behind it a handler runs only when the test lets the request
  through; a refused request is answered with the guard's status and leaves the state alone.
\<close>

locale guard =
  fixes test :: "'r \<Rightarrow> response option" and code :: nat
  assumes refusal_status: "test req = Some r \<Longrightarrow> status r = code"
begin

lemma refused_untouched:
  "test req \<noteq> None \<Longrightarrow>
   status (fst (guarded (test req) h st)) = code \<and> snd (guarded (test req) h st) = st"
  by (auto simp: guarded_def dest: refusal_status)

lemma admitted: "test req = None \<Longrightarrow> guarded (test req) h st = h st"
  by (simp add: guarded_def)

lemma effect_needs_admission: "snd (guarded (test req) h st) \<noteq> st \<Longrightarrow> test req = None"
  by (auto simp: guarded_def split: option.splits)

end

lemma status_json_res [simp]: "status (json_res s kvs) = s"
  by (simp add: json_res_def)

interpretation admin: guard "require_admin_token cfg" 401
  by unfold_locales (auto simp: require_admin_token_def Let_def split: if_splits)

lemma require_admin_token_None:
  "require_admin_token cfg req = None \<longleftrightarrow>
     adminToken cfg \<noteq> [] \<and> headers req ''authorization'' = Some (''Bearer '' @ adminToken cfg)"
proof -
  have "bearer h = Some t \<longleftrightarrow> h = Some (''Bearer '' @ t)" for h t
    by (auto simp: bearer_def prefix_def split: option.splits)
  then show ?thesis
    by (cases "bearer (headers req ''authorization'')")
      (auto simp: require_admin_token_def Let_def bearer_def split: option.splits)
qed

end
