(* ===== verification/Jwt.thy ===== *)
theory Jwt
  imports Http JSON_Roundtrip
begin

text \<open>
  Signed tokens (\<^verbatim>\<open>src/src/utils/jwt.ts\<close>), the extraction of a token from a request and the user
  guard (\<^verbatim>\<open>middlewares/user_auth.ts\<close>).  Base64, the JSON text and the signature layout are
  computed; the keyed hash is the argument \<open>hmac_base64\<close>.  A payload is decoded to its bytes, which
  for text the server signed are the UTF-8 bytes it encoded.
\<close>

section \<open>Base64\<close>

definition sextet_char :: "nat \<Rightarrow> char" where
  "sextet_char n =
     (if n < 26 then char_of (65 + n) else if n < 52 then char_of (71 + n)
      else if n < 62 then char_of (n - 4) else if n = 62 then CHR ''+'' else CHR ''/'')"

fun sextets :: "nat list \<Rightarrow> nat list" where
  "sextets (a # b # c # bs) =
     a div 4 # (a mod 4 * 16 + b div 16) # (b mod 16 * 4 + c div 64) # c mod 64 # sextets bs"
| "sextets [a, b] = [a div 4, a mod 4 * 16 + b div 16, b mod 16 * 4]"
| "sextets [a] = [a div 4, a mod 4 * 16]"
| "sextets [] = []"

definition bytes :: "string \<Rightarrow> nat list" where
  "bytes s = map of_char s"

definition base64 :: "string \<Rightarrow> string" where
  "base64 s = map sextet_char (sextets (bytes s)) @ replicate ((3 - length s mod 3) mod 3) (CHR ''='')"

text \<open>\<open>.replace(/=/g, '').replace(/\+/g, '-').replace(/\//g, '_')\<close>\<close>

definition url_safe :: "string \<Rightarrow> string" where
  "url_safe s = map (\<lambda>c. if c = CHR ''+'' then CHR ''-'' else if c = CHR ''/'' then CHR ''_'' else c)
     (filter (\<lambda>c. c \<noteq> CHR ''='') s)"

definition base64url :: "string \<Rightarrow> string" where
  "base64url s = url_safe (base64 s)"

text \<open>\<open>Buffer.from(s, 'base64')\<close> reads up to a padding sign, skips characters outside the alphabet
  and accepts the URL alphabet too.\<close>

definition sextet_of :: "char \<Rightarrow> nat option" where
  "sextet_of c =
     (let n = of_char c :: nat
      in if 65 \<le> n \<and> n \<le> 90 then Some (n - 65) else if 97 \<le> n \<and> n \<le> 122 then Some (n - 71)
         else if 48 \<le> n \<and> n \<le> 57 then Some (n + 4)
         else if n = 43 \<or> n = 45 then Some 62 else if n = 47 \<or> n = 95 then Some 63 else None)"

fun unsextets :: "nat list \<Rightarrow> nat list" where
  "unsextets (a # b # c # d # xs) =
     (a * 4 + b div 16) # (b mod 16 * 16 + c div 4) # (c mod 4 * 64 + d) # unsextets xs"
| "unsextets [a, b, c] = [a * 4 + b div 16, b mod 16 * 16 + c div 4]"
| "unsextets [a, b] = [a * 4 + b div 16]"
| "unsextets _ = []"

definition base64_decode :: "string \<Rightarrow> string" where
  "base64_decode s =
     map char_of (unsextets (List.map_filter sextet_of (takeWhile (\<lambda>c. c \<noteq> CHR ''='') s)))"

section \<open>Tokens\<close>

definition jwt_header :: row where
  "jwt_header = [(''alg'', VStr ''HS256''), (''typ'', VStr ''JWT'')]"

definition jwt_signature :: "server_config \<Rightarrow> call_env \<Rightarrow> string \<Rightarrow> string" where
  "jwt_signature cfg e data = url_safe (hmac_base64 e (jwtSecret cfg) data)"

definition jwt_body :: "call_env \<Rightarrow> row \<Rightarrow> int \<Rightarrow> row" where
  "jwt_body e payload ttl =
     spread [(''iat'', VInt (now_sec e)), (''exp'', VInt (now_sec e + ttl))] payload"

definition sign_jwt :: "server_config \<Rightarrow> call_env \<Rightarrow> row \<Rightarrow> int \<Rightarrow> string" where
  "sign_jwt cfg e payload ttl =
     (let data = base64url (json_text (VObj jwt_header)) @ ''.'' @
                 base64url (json_text (VObj (jwt_body e payload ttl)))
      in data @ ''.'' @ jwt_signature cfg e data)"

text \<open>The payload of a valid token; every exception makes the token invalid.\<close>

definition verify_jwt :: "server_config \<Rightarrow> call_env \<Rightarrow> string \<Rightarrow> val option" where
  "verify_jwt cfg e token =
     (case split_on (CHR ''.'') token of
        h # p # s # _ \<Rightarrow>
          if h = [] \<or> p = [] \<or> s = [] then None
          else if jwt_signature cfg e (h @ ''.'' @ p) \<noteq> s then None
          else (case json_parse (base64_decode p) of
                  None \<Rightarrow> None
                | Some payload \<Rightarrow>
                    (case prop_of payload ''exp'' of
                       Inl _ \<Rightarrow> None
                     | Inr ex \<Rightarrow>
                         if truthy ex \<and> js_less ex (VInt (now_sec e)) then None else Some payload))
      | _ \<Rightarrow> None)"

section \<open>The token of a request\<close>

text \<open>\<open>decodeURIComponent\<close> on UTF-8 text: an escape must be a complete UTF-8 sequence.\<close>

definition utf8_tail_len :: "nat \<Rightarrow> nat option" where
  "utf8_tail_len b =
     (if b < 128 then Some 0 else if 194 \<le> b \<and> b \<le> 223 then Some 1
      else if 224 \<le> b \<and> b \<le> 239 then Some 2 else if 240 \<le> b \<and> b \<le> 244 then Some 3 else None)"

definition utf8_second_ok :: "nat \<Rightarrow> nat \<Rightarrow> bool" where
  "utf8_second_ok b c \<longleftrightarrow> 128 \<le> c \<and> c \<le> 191 \<and> (b = 224 \<longrightarrow> 160 \<le> c) \<and> (b = 237 \<longrightarrow> c \<le> 159) \<and>
     (b = 240 \<longrightarrow> 144 \<le> c) \<and> (b = 244 \<longrightarrow> c \<le> 143)"

definition escape_byte :: "string \<Rightarrow> (nat \<times> string) option" where
  "escape_byte s =
     (case s of
        p # a # b # rest \<Rightarrow>
          if p = CHR ''%'' then
            (case (hex_val a, hex_val b) of (Some x, Some y) \<Rightarrow> Some (16 * x + y, rest) | _ \<Rightarrow> None)
          else None
      | _ \<Rightarrow> None)"

fun escape_tail :: "nat \<Rightarrow> string \<Rightarrow> (string \<times> string) option" where
  "escape_tail 0 s = Some ([], s)"
| "escape_tail (Suc n) s =
     (case escape_byte s of
        None \<Rightarrow> None
      | Some (c, rest) \<Rightarrow>
          if 128 \<le> c \<and> c \<le> 191
          then map_option (\<lambda>(t, r). (char_of c # t, r)) (escape_tail n rest) else None)"

definition escape_char :: "string \<Rightarrow> (string \<times> string) option" where
  "escape_char s =
     (case escape_byte s of
        None \<Rightarrow> None
      | Some (b, rest) \<Rightarrow>
          (case utf8_tail_len b of
             None \<Rightarrow> None
           | Some n \<Rightarrow>
               if n = 0 \<or> (case escape_byte rest of Some (c, _) \<Rightarrow> utf8_second_ok b c | None \<Rightarrow> False)
               then map_option (\<lambda>(t, r). (char_of b # t, r)) (escape_tail n rest) else None))"

fun uri_decode :: "nat \<Rightarrow> string \<Rightarrow> string option" where
  "uri_decode 0 s = (if s = [] then Some [] else None)"
| "uri_decode (Suc n) [] = Some []"
| "uri_decode (Suc n) (c # s) =
     (if c = CHR ''%''
      then (case escape_char (c # s) of
              None \<Rightarrow> None
            | Some (t, r) \<Rightarrow> map_option (\<lambda>u. t @ u) (uri_decode n r))
      else map_option (\<lambda>u. c # u) (uri_decode n s))"

text \<open>\<open>cookie.match(/(?:^|; )NAME=([^;]+)/)\<close>: the first place where the pattern fits.\<close>

definition cookie_at :: "string \<Rightarrow> string \<Rightarrow> string option" where
  "cookie_at k s =
     (if prefix (k @ ''='') s
      then (let v = takeWhile (\<lambda>c. c \<noteq> CHR '';'') (drop (length k + 1) s)
            in if v = [] then None else Some v)
      else None)"

fun cookie_scan :: "string \<Rightarrow> string \<Rightarrow> string option" where
  "cookie_scan k [] = None"
| "cookie_scan k (c # s) =
     (case (if prefix ''; '' (c # s) then cookie_at k (drop 2 (c # s)) else None) of
        Some v \<Rightarrow> Some v
      | None \<Rightarrow> cookie_scan k s)"

definition cookie_match :: "string \<Rightarrow> string \<Rightarrow> string option" where
  "cookie_match k s = (case cookie_at k s of Some v \<Rightarrow> Some v | None \<Rightarrow> cookie_scan k s)"

definition cookie_value :: "string \<Rightarrow> string \<Rightarrow> js_error + string option" where
  "cookie_value k s =
     (case cookie_match k s of
        None \<Rightarrow> Inr None
      | Some v \<Rightarrow> (case uri_decode (length v) v of
                    None \<Rightarrow> Inl (PlainError ''URI malformed'') | Some t \<Rightarrow> Inr (Some t)))"

definition extract_jwt :: "server_config \<Rightarrow> call_env \<Rightarrow> request \<Rightarrow> js_error + val option" where
  "extract_jwt cfg e req =
     bindE (case bearer (headers req ''authorization'') of
              Some (c # t) \<Rightarrow> Inr (Some (c # t))
            | _ \<Rightarrow> cookie_value ''jwt'' (str_of (headers req ''cookie'')))
       (\<lambda>tok. Inr (case tok of None \<Rightarrow> None | Some t \<Rightarrow> verify_jwt cfg e t))"

text \<open>\<open>requireUserAuth\<close>: the user id of the request, or the answer of the guard; a cookie that does
  not decode throws to the error middleware.\<close>

fun positive_number :: "val \<Rightarrow> bool" where
  "positive_number (VNum x) = (0 < x)"
| "positive_number _ = False"

definition need_oauth :: response where
  "need_oauth = json_res 401 [(''code'', VStr ''NEED_WECHAT_OAUTH''), (''message'', VStr msg_need_oauth)]"

definition require_user_auth :: "server_config \<Rightarrow> call_env \<Rightarrow> request \<Rightarrow> response + val" where
  "require_user_auth cfg e req =
     (case extract_jwt cfg e req of
        Inl err \<Rightarrow> Inl (error_middleware err)
      | Inr None \<Rightarrow> Inl need_oauth
      | Inr (Some payload) \<Rightarrow>
          (let uid = to_num (case payload of VObj r \<Rightarrow> fld r ''sub'' | _ \<Rightarrow> VUndef)
           in if \<not> truthy payload \<or> \<not> positive_number uid then Inl need_oauth else Inr uid))"

definition user_only ::
  "server_config \<Rightarrow> call_env \<Rightarrow> request \<Rightarrow> (val \<Rightarrow> 's \<Rightarrow> response \<times> 's) \<Rightarrow> 's \<Rightarrow> response \<times> 's" where
  "user_only cfg e req h st =
     (case require_user_auth cfg e req of Inl r \<Rightarrow> (r, st) | Inr uid \<Rightarrow> h uid st)"

section \<open>Base64 reads back\<close>

lemma sextet_arith:
  fixes x b c :: nat
  shows "b < 256 \<Longrightarrow> (x * 16 + b div 16) div 16 = x" "b < 256 \<Longrightarrow> (x * 16 + b div 16) mod 16 = b div 16"
    "c < 256 \<Longrightarrow> (x * 4 + c div 64) div 4 = x" "c < 256 \<Longrightarrow> (x * 4 + c div 64) mod 4 = c div 64"
    "b div 16 * 16 + b mod 16 = b" "c div 64 * 64 + c mod 64 = c" "b div 4 * 4 + b mod 4 = b"
proof -
  have "b < 256 \<Longrightarrow> b div 16 < 16" "c < 256 \<Longrightarrow> c div 64 < 4"
    by (simp_all add: less_mult_imp_div_less)
  then show "b < 256 \<Longrightarrow> (x * 16 + b div 16) div 16 = x" "b < 256 \<Longrightarrow> (x * 16 + b div 16) mod 16 = b div 16"
    "c < 256 \<Longrightarrow> (x * 4 + c div 64) div 4 = x" "c < 256 \<Longrightarrow> (x * 4 + c div 64) mod 4 = c div 64"
    by simp_all
qed simp_all

lemma unsextets_sextets: "\<forall>b\<in>set bs. b < 256 \<Longrightarrow> unsextets (sextets bs) = bs"
proof (induction bs rule: sextets.induct)
  case (1 a b c bs)
  then have h: "a < 256" "b < 256" "c < 256" "unsextets (sextets bs) = bs"
    by simp_all
  show ?case
    unfolding sextets.simps unsextets.simps by (simp only: sextet_arith h)
next
  case (2 a b)
  then have h: "a < 256" "b < 256" by simp_all
  show ?case
    unfolding sextets.simps unsextets.simps by (simp only: sextet_arith h) (simp add: sextet_arith)
qed (simp_all add: sextet_arith)

lemma sextet_bounds:
  fixes a b c :: nat
  shows "a < 256 \<Longrightarrow> a div 4 < 64" "b < 256 \<Longrightarrow> a mod 4 * 16 + b div 16 < 64"
    "c < 256 \<Longrightarrow> b mod 16 * 4 + c div 64 < 64" "c mod 64 < 64" "b mod 16 * 4 < 64" "a mod 4 * 16 < 64"
proof -
  have m: "a mod 4 \<le> 3" "b mod 16 \<le> 15" "c mod 64 < 64"
    using mod_less_divisor [of 4 a] mod_less_divisor [of 16 b] by simp_all
  have d: "a < 256 \<Longrightarrow> a div 4 < 64" "b < 256 \<Longrightarrow> b div 16 < 16" "c < 256 \<Longrightarrow> c div 64 < 4"
    by (simp_all add: less_mult_imp_div_less)
  show "a < 256 \<Longrightarrow> a div 4 < 64" by (rule d)
  show "b < 256 \<Longrightarrow> a mod 4 * 16 + b div 16 < 64" using m(1) d(2) by linarith
  show "c < 256 \<Longrightarrow> b mod 16 * 4 + c div 64 < 64" using m(2) d(3) by linarith
  show "c mod 64 < 64" "b mod 16 * 4 < 64" "a mod 4 * 16 < 64" using m by linarith+
qed

lemma sextets_less: "\<forall>b\<in>set bs. b < 256 \<Longrightarrow> \<forall>x\<in>set (sextets bs). x < 64"
  by (induction bs rule: sextets.induct) (simp_all add: sextet_bounds)

definition url_char :: "nat \<Rightarrow> char" where
  "url_char n = (if n = 62 then CHR ''-'' else if n = 63 then CHR ''_'' else sextet_char n)"

lemma sextet_char_code:
  "n < 64 \<Longrightarrow> of_char (sextet_char n) =
     (if n < 26 then 65 + n else if n < 52 then 71 + n else if n < 62 then n - 4 else if n = 62 then 43 else 47 :: nat)"
  by (simp add: sextet_char_def)

lemma url_char_code:
  "n < 64 \<Longrightarrow> of_char (url_char n) =
     (if n < 26 then 65 + n else if n < 52 then 71 + n else if n < 62 then n - 4 else if n = 62 then 45 else 95 :: nat)"
  by (simp add: url_char_def sextet_char_code)

lemma char_neq: "of_char c \<noteq> (of_char d :: nat) \<Longrightarrow> c \<noteq> d"
  by auto

lemma sextet_char_facts:
  assumes "n < 64"
  shows "sextet_of (url_char n) = Some n" "sextet_char n \<noteq> CHR ''=''" "url_char n \<noteq> CHR ''=''"
    "url_char n \<noteq> CHR ''.''"
    "(if sextet_char n = CHR ''+'' then CHR ''-'' else if sextet_char n = CHR ''/'' then CHR ''_''
      else sextet_char n) = url_char n"
proof -
  show "sextet_of (url_char n) = Some n"
    using assms unfolding sextet_of_def Let_def url_char_code [OF assms] by (auto split: if_splits)
  show "sextet_char n \<noteq> CHR ''=''"
    by (rule char_neq, subst sextet_char_code [OF assms], use assms in auto)
  show "url_char n \<noteq> CHR ''=''"
    by (rule char_neq, subst url_char_code [OF assms], use assms in auto)
  show "url_char n \<noteq> CHR ''.''"
    by (rule char_neq, subst url_char_code [OF assms], use assms in auto)
  have "sextet_char n \<noteq> CHR ''+'' \<and> sextet_char n \<noteq> CHR ''/''" if "n < 62"
    by (intro conjI char_neq; subst sextet_char_code; use that in auto)
  moreover have "n < 62 \<or> n = 62 \<or> n = 63"
    using assms by linarith
  ultimately show "(if sextet_char n = CHR ''+'' then CHR ''-'' else if sextet_char n = CHR ''/'' then CHR ''_''
      else sextet_char n) = url_char n"
    by (auto simp: url_char_def) (simp_all add: sextet_char_def)
qed

lemma bytes_less: "\<forall>b\<in>set (bytes s). b < 256"
  by (auto simp: bytes_def)

lemma base64url_chars: "base64url s = map url_char (sextets (bytes s))"
proof -
  have l: "\<forall>x\<in>set (sextets (bytes s)). x < 64"
    using bytes_less by (rule sextets_less)
  then have "filter (\<lambda>c. c \<noteq> CHR ''='') (map sextet_char (sextets (bytes s)))
      = map sextet_char (sextets (bytes s))"
    by (intro filter_True) (auto simp: sextet_char_facts)
  then show ?thesis
    using l by (simp add: base64url_def base64_def url_safe_def sextet_char_facts)
qed

lemma base64_decode_url: "base64_decode (base64url s) = s"
proof -
  have l: "\<forall>x\<in>set (sextets (bytes s)). x < 64"
    using bytes_less by (rule sextets_less)
  then have "takeWhile (\<lambda>c. c \<noteq> CHR ''='') (map url_char (sextets (bytes s)))
      = map url_char (sextets (bytes s))"
    by (intro takeWhile_eq_all_conv [THEN iffD2]) (auto simp: sextet_char_facts)
  moreover have "List.map_filter sextet_of (map url_char xs) = xs" if "\<forall>x\<in>set xs. x < 64" for xs
    using that by (induction xs) (simp_all add: sextet_char_facts)
  ultimately have "base64_decode (base64url s) = map char_of (unsextets (sextets (bytes s)))"
    using l by (simp only: base64_decode_def base64url_chars)
  also have "\<dots> = s"
    by (simp only: unsextets_sextets [OF bytes_less]) (simp add: bytes_def comp_def)
  finally show ?thesis .
qed

lemma base64url_no_dot: "CHR ''.'' \<notin> set (base64url s)"
  using sextets_less [OF bytes_less [of s]] by (auto simp: base64url_chars dest: sextet_char_facts(4) sym)

lemma base64url_nonempty: "s \<noteq> [] \<Longrightarrow> base64url s \<noteq> []"
  by (cases "bytes s" rule: sextets.cases) (auto simp: base64url_chars bytes_def)

section \<open>Tokens read back\<close>

lemma split_on_none: "c \<notin> set a \<Longrightarrow> split_on c a = [a]"
  by (induction a) auto

lemma split_on_app: "c \<notin> set a \<Longrightarrow> split_on c (a @ c # b) = a # split_on c b"
  by (induction a) auto

text \<open>What \<open>digest('base64')\<close> is documented to return: characters of the Base64 alphabet, not only padding.\<close>

definition digest_ok :: "call_env \<Rightarrow> bool" where
  "digest_ok e \<longleftrightarrow> (\<forall>k d. CHR ''.'' \<notin> set (hmac_base64 e k d) \<and>
     (\<exists>c\<in>set (hmac_base64 e k d). c \<noteq> CHR ''=''))"

lemma signature_text:
  assumes "digest_ok e"
  shows "CHR ''.'' \<notin> set (jwt_signature cfg e d)" "jwt_signature cfg e d \<noteq> []"
  using assms by (auto simp: jwt_signature_def url_safe_def digest_ok_def filter_empty_conv)

lemma json_text_obj_nonempty: "json_text (VObj kvs) \<noteq> []"
  by simp

lemma jwt_reads_back:
  assumes "digest_ok e" "json_plain (VObj (jwt_body e payload ttl))"
    and "hmac_base64 e' = hmac_base64 e"
  shows "verify_jwt cfg e' (sign_jwt cfg e payload ttl) =
    (let ex = fld (jwt_body e payload ttl) ''exp''
     in if truthy ex \<and> js_less ex (VInt (now_sec e')) then None else Some (VObj (jwt_body e payload ttl)))"
proof -
  define h where "h = base64url (json_text (VObj jwt_header))"
  define p where "p = base64url (json_text (VObj (jwt_body e payload ttl)))"
  define s where "s = jwt_signature cfg e (h @ ''.'' @ p)"
  have s': "jwt_signature cfg e' (h @ ''.'' @ p) = s"
    using assms(3) by (simp add: s_def jwt_signature_def)
  have dots: "CHR ''.'' \<notin> set h" "CHR ''.'' \<notin> set p" "CHR ''.'' \<notin> set s"
    using assms(1) by (simp_all add: h_def p_def s_def base64url_no_dot signature_text)
  have ne: "h \<noteq> []" "p \<noteq> []" "s \<noteq> []"
    unfolding h_def p_def s_def
    by (intro base64url_nonempty json_text_obj_nonempty signature_text(2) [OF assms(1)])+
  have "sign_jwt cfg e payload ttl = h @ CHR ''.'' # p @ CHR ''.'' # s"
    by (simp add: sign_jwt_def Let_def h_def p_def s_def)
  then have "split_on (CHR ''.'') (sign_jwt cfg e payload ttl) = [h, p, s]"
    using dots by (simp add: split_on_app split_on_none)
  moreover have "json_parse (base64_decode p) = Some (VObj (jwt_body e payload ttl))"
    unfolding p_def base64_decode_url by (rule json_roundtrip [OF assms(2)])
  ultimately show ?thesis
    using ne s' by (simp add: verify_jwt_def Let_def)
qed

text \<open>C10. A signed token reads back: with the same secret, verification returns the signed body (issue
  time, expiry and the caller's fields) until the expiry time and rejects the token afterwards.\<close>

theorem jwt_sign_verify:
  assumes "digest_ok e" "json_plain (VObj (jwt_body e payload ttl))"
    and "hmac_base64 e' = hmac_base64 e"
  shows "verify_jwt cfg e' (sign_jwt cfg e payload ttl) =
    (let ex = fld (jwt_body e payload ttl) ''exp''
     in if truthy ex \<and> js_less ex (VInt (now_sec e')) then None else Some (VObj (jwt_body e payload ttl)))"
  using jwt_reads_back [OF assms] .

definition sample_env :: "int \<Rightarrow> call_env" where
  "sample_env t = \<lparr>iso = ''2026-03-01T08:05:09Z'', year = 2026, month0 = 2, day = 1, hours = 8,
     minutes = 5, seconds = 9, rnd10000 = 7, now_sec = t, now_ms = t * 1000,
     type_error_text = ''not an object'', zod_text = (\<lambda>_ _. ''Required''),
     hmac_base64 = (\<lambda>k d. base64 (''s'' @ k))\<rparr>"

definition sample_config :: server_config where
  "sample_config = \<lparr>adminToken = ''tok'', jwtSecret = ''key'', wechat_enabled = True, payAuthDir = ''/h5/pay/''\<rparr>"

lemma base64_nonempty: "s \<noteq> [] \<Longrightarrow> \<exists>c\<in>set (base64 s). c \<noteq> CHR ''=''"
  using base64url_nonempty [of s] by (auto simp: base64url_def url_safe_def filter_empty_conv)

lemma base64_no_dot: "CHR ''.'' \<notin> set (base64 s)"
proof -
  have "\<forall>n<64. CHR ''.'' \<noteq> sextet_char n"
  proof (intro allI impI)
    fix n :: nat assume n: "n < 64"
    have "sextet_char n \<noteq> CHR ''.''"
      by (rule char_neq, subst sextet_char_code [OF n], use n in auto)
    then show "CHR ''.'' \<noteq> sextet_char n" by simp
  qed
  then show ?thesis
    using sextets_less [OF bytes_less [of s]] by (auto simp: base64_def)
qed

lemma sample_digest_ok: "digest_ok (sample_env t)"
  by (simp add: digest_ok_def sample_env_def base64_no_dot base64_nonempty)

theorem jwt_sign_verify_witness:
  "verify_jwt sample_config (sample_env 1500) (sign_jwt sample_config (sample_env 1000) [(''sub'', VStr ''7'')] 3600) =
     Some (VObj [(''iat'', VNum 1000), (''exp'', VNum 4600), (''sub'', VStr ''7'')]) \<and>
   verify_jwt sample_config (sample_env 4601) (sign_jwt sample_config (sample_env 1000) [(''sub'', VStr ''7'')] 3600) = None"
proof -
  have p: "json_plain (VObj (jwt_body (sample_env 1000) [(''sub'', VStr ''7'')] 3600))"
    by (simp add: jwt_body_def sample_env_def is_int_rat_def)
  have h: "hmac_base64 (sample_env t) = hmac_base64 (sample_env 1000)" for t
    by (simp add: sample_env_def)
  show ?thesis
    using jwt_sign_verify [OF sample_digest_ok p h, of sample_config 1500]
      jwt_sign_verify [OF sample_digest_ok p h, of sample_config 4601]
    by (simp add: jwt_body_def sample_env_def Let_def)
qed

text \<open>The token a request presents: the bearer of its \<open>Authorization\<close> header when that is not empty,
  and otherwise the decoded cookie \<open>jwt\<close>.\<close>

definition presented_token :: "request \<Rightarrow> string option" where
  "presented_token req =
     (let b = (case headers req ''authorization'' of
                 Some a \<Rightarrow> if take 7 a = ''Bearer '' then drop 7 a else [] | None \<Rightarrow> [])
      in if b \<noteq> [] then Some b
         else (case cookie_value ''jwt'' (str_of (headers req ''cookie'')) of Inr t \<Rightarrow> t | Inl _ \<Rightarrow> None))"

text \<open>A token signed with the server's secret over its first two parts, with the payload \<open>v\<close>, not expired.\<close>

definition signed_token :: "server_config \<Rightarrow> call_env \<Rightarrow> string \<Rightarrow> val \<Rightarrow> bool" where
  "signed_token cfg e tok v \<longleftrightarrow>
     (\<exists>h p rest. split_on (CHR ''.'') tok = h # p # jwt_signature cfg e (h @ ''.'' @ p) # rest \<and>
        h \<noteq> [] \<and> p \<noteq> [] \<and> jwt_signature cfg e (h @ ''.'' @ p) \<noteq> [] \<and>
        json_parse (base64_decode p) = Some v) \<and>
     (\<exists>ex. prop_of v ''exp'' = Inr ex \<and> \<not> (truthy ex \<and> js_less ex (VInt (now_sec e))))"

lemma verify_jwt_signed: "verify_jwt cfg e tok = Some v \<longleftrightarrow> signed_token cfg e tok v"
  by (auto simp: verify_jwt_def signed_token_def simp del: js_less.simps
      split: list.splits option.splits sum.splits if_splits)

lemma bearer_text: "bearer (Some a) = (if take 7 a = ''Bearer '' then Some (drop 7 a) else None)"
proof -
  have "prefix ''Bearer '' a \<longleftrightarrow> take 7 a = ''Bearer ''"
    using take_is_prefix [of 7 a] by (auto simp: prefix_def)
  then show ?thesis by (simp add: bearer_def)
qed

lemma verify_empty: "verify_jwt cfg e [] = None"
  by (simp add: verify_jwt_def)

lemma extract_jwt_token:
  "extract_jwt cfg e req = Inr q \<Longrightarrow>
   q = (case presented_token req of None \<Rightarrow> None | Some t \<Rightarrow> verify_jwt cfg e t)"
  by (cases "headers req ''authorization''")
    (auto simp: extract_jwt_def presented_token_def bearer_text bearer_def [of None] bindE_def
      split: list.splits option.splits sum.splits if_splits)

lemma extract_jwt_error:
  "extract_jwt cfg e req = Inl err \<Longrightarrow> presented_token req = None \<and> err = PlainError ''URI malformed''"
  by (cases "headers req ''authorization''")
    (auto simp: extract_jwt_def presented_token_def bearer_text bearer_def [of None] bindE_def cookie_value_def
      split: list.splits option.splits sum.splits if_splits)

text \<open>The user a request comes from: the positive number in \<open>sub\<close> of a signed token that it presents.\<close>

definition signed_user :: "server_config \<Rightarrow> call_env \<Rightarrow> request \<Rightarrow> rat \<Rightarrow> bool" where
  "signed_user cfg e req x \<longleftrightarrow>
     (\<exists>tok r. presented_token req = Some tok \<and> signed_token cfg e tok (VObj r) \<and>
        to_num (fld r ''sub'') = VNum x \<and> 0 < x)"

lemma positive_number_iff: "positive_number v \<longleftrightarrow> (\<exists>x. v = VNum x \<and> 0 < x)"
  by (cases v) auto

lemma user_guard_cases:
  "(\<exists>x. signed_user cfg e req x \<and> require_user_auth cfg e req = Inr (VNum x)) \<or>
   (\<nexists>x. signed_user cfg e req x) \<and> (\<exists>res. require_user_auth cfg e req = Inl res \<and> status res \<in> {401, 500})"
proof (cases "extract_jwt cfg e req")
  case (Inl err)
  then show ?thesis
    using extract_jwt_error [OF Inl]
    by (simp add: require_user_auth_def signed_user_def error_middleware_def)
next
  case (Inr q)
  note tok = extract_jwt_token [OF Inr]
  show ?thesis
  proof (cases q)
    case None
    then have "\<nexists>x. signed_user cfg e req x"
      using tok by (auto simp: signed_user_def simp flip: verify_jwt_signed)
    with Inr None show ?thesis by (simp add: require_user_auth_def need_oauth_def)
  next
    case (Some v)
    then obtain t where t: "presented_token req = Some t" "verify_jwt cfg e t = Some v"
      using tok by (auto split: option.splits)
    then have u: "signed_user cfg e req x \<longleftrightarrow> (\<exists>r. v = VObj r \<and> to_num (fld r ''sub'') = VNum x \<and> 0 < x)" for x
      by (auto simp: signed_user_def simp flip: verify_jwt_signed)
    show ?thesis
      by (cases v)
        (auto simp: u Inr Some require_user_auth_def need_oauth_def Let_def positive_number_iff)
  qed
qed

text \<open>C9. A route behind the user guard runs exactly when the request itself presents (as bearer, or as
  cookie when it has no bearer) a token signed with the server's secret that has not expired and whose
  \<open>sub\<close> is a positive number, and then it runs as that user; any other request is answered 401 (500 when
  its cookie does not decode) without running the route and without changing the state.\<close>

theorem user_routes_need_signed_token:
  "(\<exists>x. signed_user cfg e req x \<and> user_only cfg e req h st = h (VNum x) st) \<or>
   (\<nexists>x. signed_user cfg e req x) \<and> (\<exists>res. user_only cfg e req h st = (res, st) \<and> status res \<in> {401, 500})"
  using user_guard_cases [of cfg e req] by (auto simp: user_only_def)

definition token_request :: "string \<Rightarrow> request" where
  "token_request t = \<lparr>headers = (\<lambda>k. if k = ''authorization'' then Some (''Bearer '' @ t) else None),
     query = (\<lambda>_. None), params = (\<lambda>_. []), body = VObj []\<rparr>"

lemma sign_jwt_nonempty: "sign_jwt cfg e payload ttl \<noteq> []"
  by (simp add: sign_jwt_def Let_def)

lemma token_request_user:
  assumes "verify_jwt cfg e tok = Some (VObj r)" "to_num (fld r ''sub'') = VNum x" "0 < x" "tok \<noteq> []"
  shows "require_user_auth cfg e (token_request tok) = Inr (VNum x)"
proof -
  obtain c t where "tok = c # t"
    using assms(4) by (cases tok) auto
  with assms show ?thesis
    by (simp add: require_user_auth_def extract_jwt_def token_request_def bearer_def)
qed

text \<open>A counting route: run for user 7 with a token signed for him, not run once the token has
  expired, nor with a token whose signature is another text.\<close>

definition seven_token :: string where
  "seven_token = sign_jwt sample_config (sample_env 1000) [(''sub'', VNum 7)] 3600"

lemma seven_token_verifies:
  "verify_jwt sample_config (sample_env t) seven_token =
     (if 4600 < t then None else Some (VObj [(''iat'', VNum 1000), (''exp'', VNum 4600), (''sub'', VNum 7)]))"
proof -
  have p: "json_plain (VObj (jwt_body (sample_env 1000) [(''sub'', VNum 7)] 3600))"
    by (simp add: jwt_body_def sample_env_def is_int_rat_def)
  have h: "hmac_base64 (sample_env t) = hmac_base64 (sample_env 1000)"
    by (simp add: sample_env_def)
  show ?thesis
    using jwt_reads_back [OF sample_digest_ok p h, of sample_config]
    by (simp add: seven_token_def jwt_body_def sample_env_def Let_def)
qed

lemma presented_bearer [simp]: "tok \<noteq> [] \<Longrightarrow> presented_token (token_request tok) = Some tok"
  by (simp add: presented_token_def token_request_def)

definition counting_route :: "val \<Rightarrow> nat \<Rightarrow> response \<times> nat" where
  "counting_route uid n = (json_res 200 [(''user'', uid)], Suc n)"

theorem user_routes_need_signed_token_witness:
  "user_only sample_config (sample_env 1500) (token_request seven_token) counting_route 0
      = (json_res 200 [(''user'', VNum 7)], 1) \<and>
   snd (user_only sample_config (sample_env 4601) (token_request seven_token) counting_route 0) = 0 \<and>
   snd (user_only sample_config (sample_env 1500) (token_request ''h.eyJzdWIiOjd9.sig'') counting_route 0) = 0"
proof -
  have ne: "seven_token \<noteq> []"
    by (simp add: seven_token_def sign_jwt_nonempty)
  have yes: "signed_user sample_config (sample_env 1500) (token_request seven_token) x \<longleftrightarrow> x = 7" for x
    by (auto simp: signed_user_def ne seven_token_verifies simp flip: verify_jwt_signed)
  have late: "\<not> signed_user sample_config (sample_env 4601) (token_request seven_token) x" for x
    by (simp add: signed_user_def ne seven_token_verifies flip: verify_jwt_signed)
  have "verify_jwt sample_config (sample_env 1500) ''h.eyJzdWIiOjd9.sig'' = None"
    by code_simp
  then have forged: "\<not> signed_user sample_config (sample_env 1500) (token_request ''h.eyJzdWIiOjd9.sig'') x" for x
    by (simp add: signed_user_def flip: verify_jwt_signed)
  note both = user_routes_need_signed_token [where h = counting_route and st = "0" and cfg = sample_config]
  show ?thesis
    using both [of "sample_env 1500" "token_request seven_token"]
      both [of "sample_env 4601" "token_request seven_token"]
      both [of "sample_env 1500" "token_request ''h.eyJzdWIiOjd9.sig''"]
    by (auto simp: yes late forged counting_route_def)
qed

end
