(* ===== verification/Welfare_Repo.thy ===== *)
theory Welfare_Repo
  imports Listing
begin

text \<open>
  The welfare code repository, \<^verbatim>\<open>src/src/storage/repositories/welfare_codes.ts\<close>: redeemable codes
  with a total and a used count, the items a code gives, validation and use.
\<close>

section \<open>Interfaces\<close>

definition welfare_iface :: iface where
  "welfare_iface =
     [(''id'', JNumber, Required), (''code'', JString, Required), (''name'', JString, Required),
      (''description'', JString, Optional), (''type'', JString, Required),
      (''discount_type'', JString, Optional), (''discount_value'', JNumber, Optional),
      (''min_amount'', JNumber, Optional), (''max_discount'', JNumber, Optional),
      (''valid_from'', JString, Optional), (''valid_to'', JString, Optional),
      (''total_count'', JNumber, Required), (''used_count'', JNumber, Required),
      (''status'', JNumber, Required), (''created_at'', JString, Optional),
      (''updated_at'', JString, Optional)]"

definition welfare_item_iface :: iface where
  "welfare_item_iface =
     [(''id'', JNumber, Required), (''welfare_code_id'', JNumber, Required),
      (''sku_code'', JString, Optional), (''sku_title'', JString, Optional),
      (''quantity'', JNumber, Optional), (''created_at'', JString, Optional)]"

record welfare_query =
  wq_page :: "int option"
  wq_pageSize :: "int option"
  wq_keyword :: "string option"
  wq_status :: val
  wq_type :: "string option"

section \<open>Listing\<close>

definition welfare_filter :: "welfare_query \<Rightarrow> row list \<Rightarrow> js_error + row list" where
  "welfare_filter q rs =
     (let kw = to_lower (str_of (wq_keyword q)) in
      bindE (filter_if (str_truthy (wq_keyword q))
        (\<lambda>r. orE (lower_includes (fld r ''code'') kw) (lower_includes (fld r ''name'') kw)) rs) (\<lambda>rs.
      bindE (filter_if (wq_status q \<noteq> VUndef)
        (\<lambda>r. Inr (strict_eq (fld r ''status'') (wq_status q))) rs) (\<lambda>rs.
      filter_if (str_truthy (wq_type q))
        (\<lambda>r. Inr (strict_eq (fld r ''type'') (VStr (str_of (wq_type q))))) rs)))"

definition welfare_filtered :: "welfare_query \<Rightarrow> bool" where
  "welfare_filtered q \<longleftrightarrow> str_truthy (wq_keyword q) \<or> wq_status q \<noteq> VUndef \<or> str_truthy (wq_type q)"

text \<open>\<open>codeItems.map(i => i.k).filter(Boolean).join(', ')\<close>\<close>

definition joined_field :: "string \<Rightarrow> row list \<Rightarrow> string" where
  "joined_field k items =
     join '', '' (map js_to_string (filter truthy (map (\<lambda>i. fld i k) items)))"

definition code_with_items :: "row list \<Rightarrow> row \<Rightarrow> row" where
  "code_with_items items wc =
     (let codeItems = filter (\<lambda>i. strict_eq (fld i ''welfare_code_id'') (fld wc ''id'')) items
      in spread wc [(''sku_codes'', VStr (joined_field ''sku_code'' codeItems)),
                    (''sku_titles'', VStr (joined_field ''sku_title'' codeItems))])"

definition welfare_list ::
  "string \<Rightarrow> welfare_query \<Rightarrow> fs_state \<Rightarrow> (js_error + nat \<times> row list) \<times> fs_state" where
  "welfare_list now q st =
     (case list_page now Welfare_codes (welfare_filtered q) (welfare_filter q) cmp_created_desc
             (wq_page q) (wq_pageSize q) st of
        (Inl e, st1) \<Rightarrow> (Inl e, st1)
      | (Inr (n, paginated), st1) \<Rightarrow>
          (let (items, st2) = get_table now Welfare_code_items st1
           in (Inr (n, map (code_with_items items) paginated), st2)))"

section \<open>Finding, creating, updating\<close>

definition has_code :: "val \<Rightarrow> row \<Rightarrow> bool" where
  "has_code c r = strict_eq (fld r ''code'') c"

definition for_code :: "val \<Rightarrow> row \<Rightarrow> bool" where
  "for_code i r = strict_eq (fld r ''welfare_code_id'') i"

definition welfare_find_by_id :: "string \<Rightarrow> val \<Rightarrow> fs_state \<Rightarrow> row option \<times> fs_state" where
  "welfare_find_by_id now i st = store_find_by_id now Welfare_codes i st"

definition find_by_code :: "string \<Rightarrow> val \<Rightarrow> fs_state \<Rightarrow> row option \<times> fs_state" where
  "find_by_code now c st = store_find_one now Welfare_codes (has_code c) st"

definition welfare_create :: "string \<Rightarrow> row \<Rightarrow> fs_state \<Rightarrow> row \<times> fs_state" where
  "welfare_create now data st =
     store_insert now Welfare_codes
       (spread data [(''total_count'', js_coalesce (fld data ''total_count'') (VNum 0)),
                     (''used_count'', js_coalesce (fld data ''used_count'') (VNum 0)),
                     (''status'', js_coalesce (fld data ''status'') (VNum 1))]) st"

definition welfare_update :: "string \<Rightarrow> val \<Rightarrow> row \<Rightarrow> fs_state \<Rightarrow> bool \<times> fs_state" where
  "welfare_update now i data st = store_update now Welfare_codes i data st"

definition welfare_remove :: "string \<Rightarrow> val \<Rightarrow> fs_state \<Rightarrow> bool \<times> fs_state" where
  "welfare_remove now i st =
     (let (_, st1) = remove_where now Welfare_code_items (for_code i) st
      in store_remove now Welfare_codes i st1)"

text \<open>The counts are compared with \<open>>=\<close>.\<close>

definition used_up :: "row \<Rightarrow> bool" where
  "used_up wc = js_leq (fld wc ''total_count'') (fld wc ''used_count'')"

definition use_code :: "string \<Rightarrow> val \<Rightarrow> fs_state \<Rightarrow> bool \<times> fs_state" where
  "use_code now c st =
     (case find_by_code now c st of
        (None, st1) \<Rightarrow> (False, st1)
      | (Some wc, st1) \<Rightarrow>
          if used_up wc then (False, st1)
          else store_update now Welfare_codes (fld wc ''id'')
                 [(''used_count'', js_plus (fld wc ''used_count'') (VNum 1))] st1)"

definition get_items :: "string \<Rightarrow> val \<Rightarrow> fs_state \<Rightarrow> row list \<times> fs_state" where
  "get_items now i st = store_find_all now Welfare_code_items (Some (for_code i)) st"

definition add_item :: "string \<Rightarrow> row \<Rightarrow> fs_state \<Rightarrow> row \<times> fs_state" where
  "add_item now data st = store_insert now Welfare_code_items data st"

definition remove_item :: "string \<Rightarrow> val \<Rightarrow> fs_state \<Rightarrow> bool \<times> fs_state" where
  "remove_item now i st = store_remove now Welfare_code_items i st"

text \<open>\<open>validateCode\<close>: a message, or the valid code.\<close>

definition validity :: "string \<Rightarrow> row \<Rightarrow> string + row" where
  "validity now wc =
     (if \<not> strict_eq (fld wc ''status'') (VNum 1) then Inl msg_code_disabled
      else if used_up wc then Inl msg_code_used_up
      else if truthy (fld wc ''valid_from'') \<and> js_less (VStr now) (fld wc ''valid_from'')
      then Inl msg_code_not_started
      else if truthy (fld wc ''valid_to'') \<and> js_less (fld wc ''valid_to'') (VStr now)
      then Inl msg_code_expired
      else Inr wc)"

definition validate_code :: "string \<Rightarrow> val \<Rightarrow> fs_state \<Rightarrow> (string + row) \<times> fs_state" where
  "validate_code now c st =
     (case find_by_code now c st of
        (None, st1) \<Rightarrow> (Inl msg_code_missing, st1)
      | (Some wc, st1) \<Rightarrow> (validity now wc, st1))"

section \<open>Using a code\<close>

definition code_state :: "val \<Rightarrow> nat \<Rightarrow> nat \<Rightarrow> fs_state \<Rightarrow> bool" where
  "code_state c used total_n st \<longleftrightarrow>
     ids_ok (rows_of st Welfare_codes) (next_of st Welfare_codes) \<and>
     (\<exists>wc. find (has_code c) (rows_of st Welfare_codes) = Some wc \<and>
           fld wc ''used_count'' = VNat used \<and> fld wc ''total_count'' = VNat total_n)"

lemma used_up_iff:
  "fld wc ''used_count'' = VNat u \<Longrightarrow> fld wc ''total_count'' = VNat n \<Longrightarrow> used_up wc \<longleftrightarrow> n \<le> u"
  by (simp add: used_up_def)

text \<open>One use: refused when the code is used up, else counted on the found row only.\<close>

lemma use_code_result:
  assumes "ids_ok (rows_of st Welfare_codes) m" "find (has_code c) (rows_of st Welfare_codes) = Some wc"
    and "\<not> used_up wc"
  shows "fst (use_code now c st)"
    and "rows_of (snd (use_code now c st)) t =
      (if t = Welfare_codes
       then upd_first (has_code c) (touched now [(''used_count'', js_plus (fld wc ''used_count'') (VNum 1))])
              (rows_of st t)
       else rows_of st t)"
    and "next_of (snd (use_code now c st)) t = next_of st t"
  using assms upd_first_found [OF assms(2,1)] found_has_id [OF assms(2,1)]
  by (auto simp: use_code_def find_by_code_def store_update_result)

lemma use_code_refused:
  assumes "find (has_code c) (rows_of st Welfare_codes) = Some wc" "used_up wc"
  shows "use_code now c st = (False, load_data now st)"
  using assms by (simp add: use_code_def find_by_code_def)

lemma use_code_step:
  assumes "code_state c u n st"
  shows "fst (use_code now c st) \<longleftrightarrow> u < n"
    and "code_state c (if u < n then Suc u else u) n (snd (use_code now c st))"
proof -
  obtain wc where ok: "ids_ok (rows_of st Welfare_codes) (next_of st Welfare_codes)"
    and wc: "find (has_code c) (rows_of st Welfare_codes) = Some wc"
      "fld wc ''used_count'' = VNat u" "fld wc ''total_count'' = VNat n"
    using assms by (auto simp: code_state_def)
  let ?f = "touched now [(''used_count'', js_plus (fld wc ''used_count'') (VNum 1))]"
  have "has_code c (?f wc)"
    using find_in_set [OF wc(1)] by (simp add: has_code_def fld_touched_None)
  then have found: "find (has_code c) (upd_first (has_code c) ?f (rows_of st Welfare_codes)) = Some (?f wc)"
    using wc(1) by (intro find_upd_first_same)
  have ids: "ids_ok (upd_first (has_code c) ?f (rows_of st Welfare_codes)) (next_of st Welfare_codes)"
    using ok by (intro ids_ok_upd_first) (simp_all add: fld_touched_None)
  have "VNat (Suc u) = VNum (of_nat u + 1)"
    by simp
  then have vals: "fld (?f wc) ''used_count'' = VNat (Suc u)" "fld (?f wc) ''total_count'' = VNat n"
    using wc by (simp_all add: fld_touched)
  show "fst (use_code now c st) \<longleftrightarrow> u < n"
    using use_code_result(1) [OF ok wc(1)] use_code_refused [OF wc(1)] used_up_iff [OF wc(2,3)]
    by (cases "u < n") auto
  show "code_state c (if u < n then Suc u else u) n (snd (use_code now c st))"
    using use_code_result(2,3) [OF ok wc(1)] use_code_refused [OF wc(1)] used_up_iff [OF wc(2,3)]
      found ids vals wc ok
    by (cases "u < n") (auto simp: code_state_def)
qed

fun uses :: "string list \<Rightarrow> val \<Rightarrow> fs_state \<Rightarrow> bool list \<times> fs_state" where
  "uses [] c st = ([], st)"
| "uses (now # nows) c st =
     (let (b, st1) = use_code now c st; (bs, st2) = uses nows c st1 in (b # bs, st2))"

text \<open>C34. A code with \<open>total_count\<close> n of which u are used can be used exactly n - u more times: of any
  number of attempts the first n - u succeed, every later one is refused, and the used count never
  passes the total.\<close>

theorem code_uses_are_limited:
  assumes "code_state c u n st" "u \<le> n"
  shows "fst (uses nows c st) =
      replicate (min (length nows) (n - u)) True @ replicate (length nows - (n - u)) False \<and>
    code_state c (min (u + length nows) n) n (snd (uses nows c st))"
  using assms
proof (induction nows arbitrary: u st)
  case (Cons now nows)
  note step = use_code_step [OF Cons.prems(1), of now]
  show ?case
  proof (cases "u < n")
    case True
    with Cons.IH [of "Suc u" "snd (use_code now c st)"] step have
      "fst (uses nows c (snd (use_code now c st))) =
        replicate (min (length nows) (n - Suc u)) True @ replicate (length nows - (n - Suc u)) False"
      "code_state c (min (Suc u + length nows) n) n (snd (uses nows c (snd (use_code now c st))))"
      by simp_all
    moreover obtain m where "n - u = Suc m" "n - Suc u = m"
      using True by (metis Suc_diff_Suc)
    ultimately show ?thesis
      using True step(1) by (simp add: case_prod_beta Let_def)
  next
    case False
    with Cons.IH [of u "snd (use_code now c st)"] Cons.prems step show ?thesis
      by (simp add: case_prod_beta Let_def)
  qed
qed simp

text \<open>Whether a code is currently good, as a condition on its row.\<close>

definition code_good :: "string \<Rightarrow> row \<Rightarrow> bool" where
  "code_good now wc \<longleftrightarrow> fld wc ''status'' = VNum 1 \<and> \<not> used_up wc \<and>
     (truthy (fld wc ''valid_from'') \<longrightarrow> \<not> js_less (VStr now) (fld wc ''valid_from'')) \<and>
     (truthy (fld wc ''valid_to'') \<longrightarrow> \<not> js_less (fld wc ''valid_to'') (VStr now))"

lemma validity_good: "validity now wc = (if code_good now wc then Inr wc else validity now wc)"
  by (auto simp: validity_def code_good_def)

text \<open>\<open>validateCode\<close> accepts a code exactly when it exists, is enabled, is not used up and the time
  is inside its period, and then returns its row; an accepted code can be used at once, and that use
  raises its used count by one and changes no other row and no other table.\<close>

theorem valid_code_can_be_used:
  assumes "ids_ok (rows_of st Welfare_codes) m"
  shows "(fst (validate_code now c st) = Inr wc \<longleftrightarrow>
      find (has_code c) (rows_of st Welfare_codes) = Some wc \<and> code_good now wc) \<and>
    (fst (validate_code now c st) = Inr wc \<longrightarrow>
      fst (use_code now' c st) \<and>
      rows_of (snd (use_code now' c st)) t =
        (if t = Welfare_codes
         then upd_first (has_code c)
                (touched now' [(''used_count'', js_plus (fld wc ''used_count'') (VNum 1))]) (rows_of st t)
         else rows_of st t))"
proof (intro conjI impI)
  show iff: "fst (validate_code now c st) = Inr wc \<longleftrightarrow>
      find (has_code c) (rows_of st Welfare_codes) = Some wc \<and> code_good now wc"
    by (auto simp: validate_code_def find_by_code_def validity_def code_good_def
        split: option.splits if_splits dest: strict_eqD)
  assume "fst (validate_code now c st) = Inr wc"
  with iff have "find (has_code c) (rows_of st Welfare_codes) = Some wc" "\<not> used_up wc"
    by (simp_all add: code_good_def)
  from use_code_result [OF assms this, of now'] show "fst (use_code now' c st)"
    "rows_of (snd (use_code now' c st)) t =
        (if t = Welfare_codes
         then upd_first (has_code c)
                (touched now' [(''used_count'', js_plus (fld wc ''used_count'') (VNum 1))]) (rows_of st t)
         else rows_of st t)" by auto
qed

definition sample_code :: "nat \<Rightarrow> nat \<Rightarrow> row" where
  "sample_code u n = [(''id'', VNat 1), (''code'', VStr ''FREE''), (''name'', VStr ''n''),
     (''type'', VStr ''x''), (''total_count'', VNat n), (''used_count'', VNat u), (''status'', VNum 1)]"

definition sample_codes :: "nat \<Rightarrow> nat \<Rightarrow> fs_state" where
  "sample_codes u n = store_with (\<lambda>t. if t = Welfare_codes then [sample_code u n] else [])"

theorem code_uses_are_limited_witness:
  "fst (uses [''a'', ''b'', ''c''] (VStr ''FREE'') (sample_codes 0 2)) = [True, True, False]"
proof -
  have "code_state (VStr ''FREE'') 0 2 (sample_codes 0 2)"
    by (simp add: code_state_def sample_codes_def sample_code_def ids_ok_def has_code_def)
  from code_uses_are_limited [OF this, of "[''a'', ''b'', ''c'']"] show ?thesis
    by (simp add: numeral_2_eq_2 del: uses.simps)
qed

theorem valid_code_can_be_used_witness:
  "fst (use_code ''t'' (VStr ''FREE'') (sample_codes 0 2))"
proof -
  have "ids_ok (rows_of (sample_codes 0 2) Welfare_codes) 2"
    by (simp add: sample_codes_def sample_code_def ids_ok_def)
  note ok = valid_code_can_be_used [OF this, of "''t''" "VStr ''FREE''" "sample_code 0 2"]
  have "find (has_code (VStr ''FREE'')) (rows_of (sample_codes 0 2) Welfare_codes) = Some (sample_code 0 2)
      \<and> code_good ''t'' (sample_code 0 2)"
    by (simp add: sample_codes_def sample_code_def has_code_def code_good_def used_up_def)
  with ok show ?thesis by blast
qed

end
