(* ===== verification/Products_Repo.thy ===== *)
theory Products_Repo
  imports Listing
begin

text \<open>
  The product repository, \<^verbatim>\<open>src/src/storage/repositories/products.ts\<close>: products, their SKUs and the
  stock of a SKU.
\<close>

section \<open>Interfaces\<close>

definition product_iface :: iface where
  "product_iface =
     [(''id'', JNumber, Required), (''title'', JString, Required), (''subtitle'', JString, Optional),
      (''cover_url'', JString, Optional), (''images'', JString, Optional),
      (''description'', JString, Optional), (''price_cent'', JNumber, Required),
      (''original_price_cent'', JNumber, Optional), (''status'', JNumber, Required),
      (''is_featured'', JNumber, Required), (''sort_order'', JNumber, Required),
      (''stock'', JNumber, Required), (''sales'', JNumber, Required),
      (''category_id'', JNumber, Optional), (''created_at'', JString, Optional),
      (''updated_at'', JString, Optional)]"

definition sku_iface :: iface where
  "sku_iface =
     [(''id'', JNumber, Required), (''product_id'', JNumber, Required), (''sku_code'', JString, Required),
      (''title'', JString, Required), (''cover_url'', JString, Optional), (''spec'', JString, Optional),
      (''price_cent'', JNumber, Required), (''original_price_cent'', JNumber, Optional),
      (''stock'', JNumber, Required), (''status'', JNumber, Required),
      (''sort_order'', JNumber, Required), (''created_at'', JString, Optional),
      (''updated_at'', JString, Optional)]"

record product_query =
  pq_page :: "int option"
  pq_pageSize :: "int option"
  pq_keyword :: "string option"
  pq_categoryId :: val
  pq_status :: val

section \<open>Listing\<close>

definition product_cmp :: "row \<Rightarrow> row \<Rightarrow> rat" where
  "product_cmp = cmp_num_desc ''is_featured'' (cmp_num_desc ''sort_order'' cmp_created_desc)"

text \<open>\<open>query.categoryId && query.categoryId > 0\<close>\<close>

definition positive_id :: "val \<Rightarrow> bool" where
  "positive_id v \<longleftrightarrow> truthy v \<and> js_less (VNum 0) v"

definition product_filter :: "product_query \<Rightarrow> row list \<Rightarrow> js_error + row list" where
  "product_filter q rs =
     bindE (filter_if (str_truthy (pq_keyword q))
       (\<lambda>r. lower_includes (fld r ''title'') (to_lower (str_of (pq_keyword q)))) rs) (\<lambda>rs.
     bindE (filter_if (positive_id (pq_categoryId q))
       (\<lambda>r. Inr (strict_eq (fld r ''category_id'') (pq_categoryId q))) rs) (\<lambda>rs.
     filter_if (pq_status q \<noteq> VUndef) (\<lambda>r. Inr (strict_eq (fld r ''status'') (pq_status q))) rs))"

definition product_filtered :: "product_query \<Rightarrow> bool" where
  "product_filtered q \<longleftrightarrow>
     str_truthy (pq_keyword q) \<or> positive_id (pq_categoryId q) \<or> pq_status q \<noteq> VUndef"

definition products_list ::
  "string \<Rightarrow> product_query \<Rightarrow> fs_state \<Rightarrow> (js_error + nat \<times> row list) \<times> fs_state" where
  "products_list now q st =
     list_page now Products (product_filtered q) (product_filter q) product_cmp
       (pq_page q) (pq_pageSize q) st"

definition products_list_enabled ::
  "string \<Rightarrow> product_query \<Rightarrow> fs_state \<Rightarrow> (js_error + nat \<times> row list) \<times> fs_state" where
  "products_list_enabled now q st = products_list now (q\<lparr>pq_status := VNum 1\<rparr>) st"

section \<open>Products\<close>

definition products_find_by_id :: "string \<Rightarrow> val \<Rightarrow> fs_state \<Rightarrow> row option \<times> fs_state" where
  "products_find_by_id now i st = store_find_by_id now Products i st"

definition products_create :: "string \<Rightarrow> row \<Rightarrow> fs_state \<Rightarrow> row \<times> fs_state" where
  "products_create now data st =
     store_insert now Products
       (spread data [(''status'', js_coalesce (fld data ''status'') (VNum 0)),
                     (''is_featured'', js_coalesce (fld data ''is_featured'') (VNum 0)),
                     (''sort_order'', js_coalesce (fld data ''sort_order'') (VNum 0)),
                     (''stock'', js_coalesce (fld data ''stock'') (VNum 0)),
                     (''sales'', js_coalesce (fld data ''sales'') (VNum 0)),
                     (''price_cent'', js_coalesce (fld data ''price_cent'') (VNum 0))]) st"

definition products_update :: "string \<Rightarrow> val \<Rightarrow> row \<Rightarrow> fs_state \<Rightarrow> bool \<times> fs_state" where
  "products_update now i data st = store_update now Products i data st"

definition of_product :: "val \<Rightarrow> row \<Rightarrow> bool" where
  "of_product i r = strict_eq (fld r ''product_id'') i"

definition products_remove :: "string \<Rightarrow> val \<Rightarrow> fs_state \<Rightarrow> bool \<times> fs_state" where
  "products_remove now i st =
     (let (_, st1) = remove_where now Product_skus (of_product i) st
      in store_remove now Products i st1)"

section \<open>SKUs and stock\<close>

text \<open>The comparator \<open>b.sort_order - a.sort_order\<close>.\<close>

definition sku_cmp :: "row \<Rightarrow> row \<Rightarrow> rat" where
  "sku_cmp a b = num_diff (to_num (fld b ''sort_order'')) (to_num (fld a ''sort_order''))"

definition get_skus :: "string \<Rightarrow> val \<Rightarrow> fs_state \<Rightarrow> row list \<times> fs_state" where
  "get_skus now i st =
     (let (rs, st1) = store_find_all now Product_skus (Some (of_product i)) st
      in (js_sort sku_cmp rs, st1))"

definition find_sku_by_id :: "string \<Rightarrow> val \<Rightarrow> fs_state \<Rightarrow> row option \<times> fs_state" where
  "find_sku_by_id now i st = store_find_by_id now Product_skus i st"

definition find_sku_by_code :: "string \<Rightarrow> val \<Rightarrow> fs_state \<Rightarrow> row option \<times> fs_state" where
  "find_sku_by_code now c st = store_find_one now Product_skus (\<lambda>r. strict_eq (fld r ''sku_code'') c) st"

definition add_sku :: "string \<Rightarrow> row \<Rightarrow> fs_state \<Rightarrow> row \<times> fs_state" where
  "add_sku now data st =
     store_insert now Product_skus
       (spread data [(''status'', js_coalesce (fld data ''status'') (VNum 1)),
                     (''sort_order'', js_coalesce (fld data ''sort_order'') (VNum 0)),
                     (''stock'', js_coalesce (fld data ''stock'') (VNum 0)),
                     (''price_cent'', js_coalesce (fld data ''price_cent'') (VNum 0))]) st"

definition update_sku :: "string \<Rightarrow> val \<Rightarrow> row \<Rightarrow> fs_state \<Rightarrow> bool \<times> fs_state" where
  "update_sku now i data st = store_update now Product_skus i data st"

definition remove_sku :: "string \<Rightarrow> val \<Rightarrow> fs_state \<Rightarrow> bool \<times> fs_state" where
  "remove_sku now i st = store_remove now Product_skus i st"

definition decrease_stock :: "string \<Rightarrow> val \<Rightarrow> val \<Rightarrow> fs_state \<Rightarrow> bool \<times> fs_state" where
  "decrease_stock now i qty st =
     (case find_sku_by_id now i st of
        (None, st1) \<Rightarrow> (False, st1)
      | (Some sku, st1) \<Rightarrow>
          if js_less (fld sku ''stock'') qty then (False, st1)
          else store_update now Product_skus i [(''stock'', js_sub (fld sku ''stock'') qty)] st1)"

definition increase_stock :: "string \<Rightarrow> val \<Rightarrow> val \<Rightarrow> fs_state \<Rightarrow> bool \<times> fs_state" where
  "increase_stock now i qty st =
     (case find_sku_by_id now i st of
        (None, st1) \<Rightarrow> (False, st1)
      | (Some sku, st1) \<Rightarrow>
          store_update now Product_skus i [(''stock'', js_plus (fld sku ''stock'') qty)] st1)"

section \<open>Listing\<close>

lemma product_cmp_contract:
  "js_comparator product_cmp (\<lambda>r. num_field ''is_featured'' r \<and> num_field ''sort_order'' r \<and> True)"
  unfolding product_cmp_def
  by (intro comparator_num_desc) (rule created.js_comparator_axioms)

interpretation prod_order: js_comparator product_cmp
  "\<lambda>r. num_field ''is_featured'' r \<and> num_field ''sort_order'' r \<and> True"
  by (rule product_cmp_contract)

definition product_matches :: "product_query \<Rightarrow> row \<Rightarrow> bool" where
  "product_matches q r \<longleftrightarrow>
     (str_truthy (pq_keyword q) \<longrightarrow>
        (\<exists>s. fld r ''title'' = VStr s \<and> sublist (to_lower (str_of (pq_keyword q))) (to_lower s))) \<and>
     (positive_id (pq_categoryId q) \<longrightarrow> strict_eq (fld r ''category_id'') (pq_categoryId q)) \<and>
     (pq_status q \<noteq> VUndef \<longrightarrow> strict_eq (fld r ''status'') (pq_status q))"

lemma product_filter_matches:
  assumes "all_conform product_iface rs"
  shows "product_filter q rs = Inr (filter (product_matches q) rs)"
proof -
  have "lower_includes (fld r ''title'') t = Inr (\<exists>s. fld r ''title'' = VStr s \<and> sublist t (to_lower s))"
    if "r \<in> set rs" for r t
  proof -
    have "\<exists>s. fld r ''title'' = VStr s"
      using assms that by (intro required_string conformsD [of product_iface])
        (auto simp: all_conform_def product_iface_def)
    then show ?thesis
      by (auto simp: lower_includes_def str_includes_iff sublist_def)
  qed
  then have "filter_if c (\<lambda>r. lower_includes (fld r ''title'') t) rs
      = Inr (filter (\<lambda>r. c \<longrightarrow> (\<exists>s. fld r ''title'' = VStr s \<and> sublist t (to_lower s))) rs)" for c t
    by (intro filter_if_cong_Inr)
  then show ?thesis
    unfolding product_filter_def
    by simp (rule filter_cong [OF refl], auto simp: product_matches_def)
qed

lemma conforms_num_fields:
  "all_conform product_iface rs \<Longrightarrow> r \<in> set rs \<Longrightarrow> field_ok (fld r ''is_featured'') JNumber Required \<and>
   field_ok (fld r ''sort_order'') JNumber Required"
  by (auto simp: all_conform_def product_iface_def conforms_def)

text \<open>The shop's listing shows only products on sale that match the query: the answered total counts
  all of them, the page is cut from them in the order featured first, then by sort order, then
  newest first, and the listing never fails on well-typed products with finite numbers.\<close>

theorem enabled_products_listed:
  assumes "all_conform product_iface (rows_of st Products)"
    and "\<forall>r\<in>set (rows_of st Products). num_field ''is_featured'' r \<and> num_field ''sort_order'' r"
  shows "\<exists>ps. fst (products_list_enabled now q st) =
      Inr (length (filter (product_matches (q\<lparr>pq_status := VNum 1\<rparr>)) (rows_of st Products)), ps) \<and>
    ps = paginate (pq_page q) (pq_pageSize q) (js_sort product_cmp
           (filter (product_matches (q\<lparr>pq_status := VNum 1\<rparr>)) (rows_of st Products))) \<and>
    sorted_wrt (\<lambda>a b. product_cmp a b \<le> 0) ps \<and>
    (\<forall>r\<in>set ps. r \<in> set (rows_of st Products) \<and> fld r ''status'' = VNum 1)"
proof -
  let ?q = "q\<lparr>pq_status := VNum 1\<rparr>"
  let ?rs = "filter (product_matches ?q) (rows_of st Products)"
  let ?ps = "paginate (pq_page q) (pq_pageSize q) (js_sort product_cmp ?rs)"
  have "fst (products_list_enabled now q st) = Inr (length ?rs, ?ps)"
    by (simp add: products_list_enabled_def products_list_def list_page_result product_filter_matches
        assms(1))
  moreover have "sorted_wrt (\<lambda>a b. product_cmp a b \<le> 0) ?ps"
    using assms(2) by (intro prod_order.page_in_order) auto
  moreover have "\<forall>r\<in>set ?ps. r \<in> set (rows_of st Products) \<and> fld r ''status'' = VNum 1"
    using set_paginate [of "pq_page q" "pq_pageSize q" "js_sort product_cmp ?rs"]
    by (auto simp: product_matches_def dest: strict_eqD)
  ultimately show ?thesis by blast
qed

theorem enabled_products_listed_witness:
  "\<exists>ps. fst (products_list_enabled ''t'' \<lparr>pq_page = None, pq_pageSize = None, pq_keyword = None,
       pq_categoryId = VUndef, pq_status = VUndef\<rparr> (store_with (\<lambda>_. []))) = Inr (0, ps)"
proof -
  have "all_conform product_iface (rows_of (store_with (\<lambda>_. [])) Products)"
    by (simp add: all_conform_def)
  from enabled_products_listed [OF this, of "''t''" "\<lparr>pq_page = None, pq_pageSize = None,
      pq_keyword = None, pq_categoryId = VUndef, pq_status = VUndef\<rparr>"]
  show ?thesis by auto
qed

section \<open>Stock\<close>

text \<open>The stock of a SKU, with the sequence of changes made to it.\<close>

definition sku_stock :: "val \<Rightarrow> rat \<Rightarrow> fs_state \<Rightarrow> bool" where
  "sku_stock i s st \<longleftrightarrow>
     (\<exists>sku. find (has_id i) (rows_of st Product_skus) = Some sku \<and> fld sku ''stock'' = VNum s)"

lemma stock_update:
  assumes "find (has_id i) (rows_of st Product_skus) = Some sku"
  shows "fst (store_update now Product_skus i [(''stock'', VNum x)] st)"
    and "sku_stock i x (snd (store_update now Product_skus i [(''stock'', VNum x)] st))"
proof -
  show "fst (store_update now Product_skus i [(''stock'', VNum x)] st)"
    using find_in_set [OF assms] by (auto simp: store_update_result)
  show "sku_stock i x (snd (store_update now Product_skus i [(''stock'', VNum x)] st))"
    using fs.find_after_upd [OF assms, of "[(''stock'', VNum x)]" now]
    by (simp add: sku_stock_def fld_touched)
qed

lemma decrease_step:
  assumes "sku_stock i s st"
  shows "fst (decrease_stock now i (VNum q) st) \<longleftrightarrow> q \<le> s"
    and "sku_stock i (if q \<le> s then s - q else s) (snd (decrease_stock now i (VNum q) st))"
proof -
  obtain sku where sku: "find (has_id i) (rows_of st Product_skus) = Some sku" "fld sku ''stock'' = VNum s"
    using assms by (auto simp: sku_stock_def)
  have "js_less (VNum s) (VNum q) \<longleftrightarrow> \<not> q \<le> s"
    by auto
  then show "fst (decrease_stock now i (VNum q) st) \<longleftrightarrow> q \<le> s"
    "sku_stock i (if q \<le> s then s - q else s) (snd (decrease_stock now i (VNum q) st))"
    using sku assms stock_update [OF sku(1), where x = "s - q" and now = now]
    by (auto simp: decrease_stock_def find_sku_by_id_def sku_stock_def simp del: js_less.simps)
qed

lemma increase_step:
  assumes "sku_stock i s st"
  shows "fst (increase_stock now i (VNum q) st)"
    and "sku_stock i (s + q) (snd (increase_stock now i (VNum q) st))"
proof -
  obtain sku where sku: "find (has_id i) (rows_of st Product_skus) = Some sku" "fld sku ''stock'' = VNum s"
    using assms by (auto simp: sku_stock_def)
  then show "fst (increase_stock now i (VNum q) st)"
    "sku_stock i (s + q) (snd (increase_stock now i (VNum q) st))"
    using stock_update [OF sku(1), where x = "s + q" and now = now]
    by (auto simp: increase_stock_def find_sku_by_id_def)
qed

datatype stock_op = Take rat | Put rat

fun run_stock :: "string \<Rightarrow> val \<Rightarrow> stock_op list \<Rightarrow> fs_state \<Rightarrow> bool list \<times> fs_state" where
  "run_stock now i [] st = ([], st)"
| "run_stock now i (op # ops) st =
     (let (b, st1) = (case op of Take q \<Rightarrow> decrease_stock now i (VNum q) st
                               | Put q \<Rightarrow> increase_stock now i (VNum q) st);
          (bs, st2) = run_stock now i ops st1 in (b # bs, st2))"

text \<open>What the accepted changes add up to.\<close>

fun balance :: "stock_op list \<Rightarrow> bool list \<Rightarrow> rat" where
  "balance (Take q # ops) (b # bs) = (if b then - q else 0) + balance ops bs"
| "balance (Put q # ops) (b # bs) = (if b then q else 0) + balance ops bs"
| "balance _ _ = 0"

text \<open>C35. The stock of a SKU is a ledger that never goes below zero: after any sequence of deductions
  and restorations by amounts that are not negative, it is the first stock plus the restored and
  minus the accepted deducted amounts, and it is not negative.\<close>

theorem stock_ledger:
  assumes "sku_stock i s st" "0 \<le> s" "\<forall>op\<in>set ops. case op of Take q \<Rightarrow> 0 \<le> q | Put q \<Rightarrow> 0 \<le> q"
  shows "sku_stock i (s + balance ops (fst (run_stock now i ops st))) (snd (run_stock now i ops st)) \<and>
    0 \<le> s + balance ops (fst (run_stock now i ops st))"
  using assms
proof (induction ops arbitrary: s st)
  case (Cons op ops)
  show ?case
  proof (cases op)
    case (Take q)
    have "sku_stock i (if q \<le> s then s - q else s) (snd (decrease_stock now i (VNum q) st))"
      by (rule decrease_step(2) [OF Cons.prems(1)])
    with Cons.IH [of "if q \<le> s then s - q else s" "snd (decrease_stock now i (VNum q) st)"]
      decrease_step(1) [OF Cons.prems(1)] Cons.prems Take
    show ?thesis by (auto simp: Let_def case_prod_beta algebra_simps split: if_splits)
  next
    case (Put q)
    have "sku_stock i (s + q) (snd (increase_stock now i (VNum q) st))"
      by (rule increase_step(2) [OF Cons.prems(1)])
    with Cons.IH [of "s + q" "snd (increase_stock now i (VNum q) st)"]
      increase_step(1) [OF Cons.prems(1)] Cons.prems Put
    show ?thesis by (auto simp: Let_def case_prod_beta algebra_simps)
  qed
qed simp

theorem stock_ledger_witness:
  "let st = store_with (\<lambda>t. if t = Product_skus then [[(''id'', VNat 1), (''stock'', VNum 3)]] else [])
   in sku_stock (VNat 1) 2 (snd (run_stock ''t'' (VNat 1) [Take 2, Take 2, Put 1] st))"
proof -
  let ?st = "store_with (\<lambda>t. if t = Product_skus then [[(''id'', VNat 1), (''stock'', VNum 3)]] else [])"
  have s: "sku_stock (VNat 1) 3 ?st"
    by (simp add: sku_stock_def has_id_def)
  let ?s1 = "snd (decrease_stock ''t'' (VNat 1) (VNum 2) ?st)"
  let ?s2 = "snd (decrease_stock ''t'' (VNat 1) (VNum 2) ?s1)"
  have s1: "fst (decrease_stock ''t'' (VNat 1) (VNum 2) ?st)" "sku_stock (VNat 1) 1 ?s1"
    using decrease_step [OF s, where q = 2 and now = "''t''"] by simp_all
  have s2: "\<not> fst (decrease_stock ''t'' (VNat 1) (VNum 2) ?s1)" "sku_stock (VNat 1) 1 ?s2"
    using decrease_step [OF s1(2), where q = 2 and now = "''t''"] by simp_all
  have "fst (increase_stock ''t'' (VNat 1) (VNum 1) ?s2)"
    by (rule increase_step(1) [OF s2(2)])
  with s1 s2 have "fst (run_stock ''t'' (VNat 1) [Take 2, Take 2, Put 1] ?st) = [True, False, True]"
    by (simp add: Let_def case_prod_beta)
  with stock_ledger [OF s, of "[Take 2, Take 2, Put 1]" "''t''"] show ?thesis
    by (simp add: Let_def)
qed

end
