(* ===== verification/Catalog_Repo.thy ===== *)
theory Catalog_Repo
  imports Listing
begin

text \<open>
  Three small repositories: categories (\<^verbatim>\<open>categories.ts\<close>), reviews (\<^verbatim>\<open>reviews.ts\<close>) and administrators
  (\<^verbatim>\<open>admins.ts\<close>) of \<^verbatim>\<open>src/src/storage/repositories\<close>.
\<close>

section \<open>Categories\<close>

definition category_iface :: iface where
  "category_iface =
     [(''id'', JNumber, Required), (''name'', JString, Required), (''icon'', JString, OptNullable),
      (''sort_order'', JNumber, Required), (''status'', JNumber, Required),
      (''created_at'', JString, Optional), (''updated_at'', JString, Optional)]"

definition cmp_id :: "row \<Rightarrow> row \<Rightarrow> rat" where
  "cmp_id a b = num_diff (to_num (fld a ''id'')) (to_num (fld b ''id''))"

definition category_cmp :: "row \<Rightarrow> row \<Rightarrow> rat" where
  "category_cmp = cmp_num_desc ''sort_order'' cmp_id"

text \<open>\<open>list\<close> sorts the stored table itself and returns it.\<close>

definition categories_list :: "string \<Rightarrow> fs_state \<Rightarrow> row list \<times> fs_state" where
  "categories_list now st =
     (let (rs, st1) = get_table now Categories st
      in (js_sort category_cmp rs, sort_table Categories category_cmp st1))"

definition category_card :: "row \<Rightarrow> row" where
  "category_card r =
     [(''id'', fld r ''id''), (''name'', fld r ''name''), (''icon'', fld r ''icon'')]"

definition categories_list_enabled :: "string \<Rightarrow> fs_state \<Rightarrow> row list \<times> fs_state" where
  "categories_list_enabled now st =
     (let (rs, st1) = store_find_all now Categories (Some (\<lambda>r. strict_eq (fld r ''status'') (VNum 1))) st
      in (map category_card (js_sort category_cmp rs), st1))"

definition categories_find_by_id :: "string \<Rightarrow> val \<Rightarrow> fs_state \<Rightarrow> row option \<times> fs_state" where
  "categories_find_by_id now i st = store_find_by_id now Categories i st"

definition categories_create :: "string \<Rightarrow> row \<Rightarrow> fs_state \<Rightarrow> row \<times> fs_state" where
  "categories_create now data st =
     store_insert now Categories
       [(''name'', fld data ''name''), (''icon'', js_or (fld data ''icon'') VNull),
        (''sort_order'', js_or (fld data ''sort_order'') (VNum 0)),
        (''status'', js_coalesce (fld data ''status'') (VNum 1))] st"

definition clean_category :: "row \<Rightarrow> row" where
  "clean_category data =
     (if fld data ''icon'' = VNull then spread data [(''icon'', VUndef)] else data)"

definition categories_update :: "string \<Rightarrow> val \<Rightarrow> row \<Rightarrow> fs_state \<Rightarrow> bool \<times> fs_state" where
  "categories_update now i data st = store_update now Categories i (clean_category data) st"

definition categories_remove :: "string \<Rightarrow> val \<Rightarrow> fs_state \<Rightarrow> bool \<times> fs_state" where
  "categories_remove now i st = store_remove now Categories i st"

section \<open>Reviews\<close>

definition review_iface :: iface where
  "review_iface =
     [(''id'', JNumber, Required), (''product_id'', JNumber, Optional), (''order_no'', JString, Optional),
      (''user_id'', JNumber, Optional), (''rating'', JNumber, Required), (''content'', JString, Optional),
      (''images'', JString, Optional), (''status'', JNumber, Required),
      (''created_at'', JString, Optional), (''updated_at'', JString, Optional)]"

record review_query =
  rq_page :: "int option"
  rq_pageSize :: "int option"
  rq_productId :: val
  rq_userId :: val
  rq_status :: val

definition review_filter :: "review_query \<Rightarrow> row list \<Rightarrow> js_error + row list" where
  "review_filter q rs =
     bindE (filter_if (truthy (rq_productId q))
       (\<lambda>r. Inr (strict_eq (fld r ''product_id'') (rq_productId q))) rs) (\<lambda>rs.
     bindE (filter_if (truthy (rq_userId q))
       (\<lambda>r. Inr (strict_eq (fld r ''user_id'') (rq_userId q))) rs) (\<lambda>rs.
     filter_if (rq_status q \<noteq> VUndef) (\<lambda>r. Inr (strict_eq (fld r ''status'') (rq_status q))) rs))"

definition review_filtered :: "review_query \<Rightarrow> bool" where
  "review_filtered q \<longleftrightarrow> truthy (rq_productId q) \<or> truthy (rq_userId q) \<or> rq_status q \<noteq> VUndef"

definition reviews_list ::
  "string \<Rightarrow> review_query \<Rightarrow> fs_state \<Rightarrow> (js_error + nat \<times> row list) \<times> fs_state" where
  "reviews_list now q st =
     list_page now Reviews (review_filtered q) (review_filter q) cmp_created_desc
       (rq_page q) (rq_pageSize q) st"

definition reviews_find_by_id :: "string \<Rightarrow> val \<Rightarrow> fs_state \<Rightarrow> row option \<times> fs_state" where
  "reviews_find_by_id now i st = store_find_by_id now Reviews i st"

definition reviews_create :: "string \<Rightarrow> row \<Rightarrow> fs_state \<Rightarrow> row \<times> fs_state" where
  "reviews_create now data st =
     store_insert now Reviews
       (spread data [(''rating'', js_coalesce (fld data ''rating'') (VNum 5)),
                     (''status'', js_coalesce (fld data ''status'') (VNum 1))]) st"

definition reviews_update :: "string \<Rightarrow> val \<Rightarrow> row \<Rightarrow> fs_state \<Rightarrow> bool \<times> fs_state" where
  "reviews_update now i data st = store_update now Reviews i data st"

definition reviews_remove :: "string \<Rightarrow> val \<Rightarrow> fs_state \<Rightarrow> bool \<times> fs_state" where
  "reviews_remove now i st = store_remove now Reviews i st"

definition visible_review :: "val \<Rightarrow> row \<Rightarrow> bool" where
  "visible_review i r \<longleftrightarrow>
     strict_eq (fld r ''product_id'') i \<and> strict_eq (fld r ''status'') (VNum 1)"

text \<open>\<open>Math.round(x)\<close>: the nearest integer, a half upwards.\<close>

definition round_half_up :: "rat \<Rightarrow> int" where
  "round_half_up x = \<lfloor>x + 1 / 2\<rfloor>"

fun round_to_tenth :: "val \<Rightarrow> nat \<Rightarrow> val" where
  "round_to_tenth (VNum s) n = VNum (of_int (round_half_up (s / of_nat n * 10)) / 10)"
| "round_to_tenth (VInf p) n = VInf p"
| "round_to_tenth _ n = VNaN"

definition get_average_rating :: "string \<Rightarrow> val \<Rightarrow> fs_state \<Rightarrow> val \<times> fs_state" where
  "get_average_rating now i st =
     (let (rs, st1) = store_find_all now Reviews (Some (visible_review i)) st
      in (if rs = [] then VNum 0
          else round_to_tenth (to_num (foldl (\<lambda>acc r. js_plus acc (fld r ''rating'')) (VNum 0) rs))
                 (length rs), st1))"

definition get_review_count :: "string \<Rightarrow> val \<Rightarrow> fs_state \<Rightarrow> nat \<times> fs_state" where
  "get_review_count now i st = store_count now Reviews (Some (visible_review i)) st"

section \<open>Administrators\<close>

definition admin_iface :: iface where
  "admin_iface =
     [(''id'', JNumber, Required), (''username'', JString, Required), (''password'', JString, Required),
      (''token'', JString, Optional), (''created_at'', JString, Optional),
      (''updated_at'', JString, Optional)]"

definition find_by_username :: "string \<Rightarrow> val \<Rightarrow> fs_state \<Rightarrow> row option \<times> fs_state" where
  "find_by_username now u st = store_find_one now Admins (\<lambda>r. strict_eq (fld r ''username'') u) st"

definition find_by_token :: "string \<Rightarrow> val \<Rightarrow> fs_state \<Rightarrow> row option \<times> fs_state" where
  "find_by_token now tk st = store_find_one now Admins (\<lambda>r. strict_eq (fld r ''token'') tk) st"

definition validate_login :: "string \<Rightarrow> val \<Rightarrow> val \<Rightarrow> fs_state \<Rightarrow> row option \<times> fs_state" where
  "validate_login now u pw st =
     (case find_by_username now u st of
        (None, st1) \<Rightarrow> (None, st1)
      | (Some admin, st1) \<Rightarrow>
          if \<not> strict_eq (fld admin ''password'') pw then (None, st1) else (Some admin, st1))"

definition update_token :: "string \<Rightarrow> val \<Rightarrow> val \<Rightarrow> fs_state \<Rightarrow> bool \<times> fs_state" where
  "update_token now i tk st = store_update now Admins i [(''token'', tk)] st"

definition admins_create :: "string \<Rightarrow> row \<Rightarrow> fs_state \<Rightarrow> row \<times> fs_state" where
  "admins_create now data st = store_insert now Admins data st"

definition update_password :: "string \<Rightarrow> val \<Rightarrow> val \<Rightarrow> fs_state \<Rightarrow> bool \<times> fs_state" where
  "update_password now i pw st = store_update now Admins i [(''password'', pw)] st"

section \<open>Properties of the categories\<close>

lemma cmp_id_contract: "js_comparator cmp_id (num_field ''id'')"
  by unfold_locales (auto simp: cmp_id_def num_field_def)

lemma category_cmp_contract:
  "js_comparator category_cmp (\<lambda>r. num_field ''sort_order'' r \<and> num_field ''id'' r)"
  unfolding category_cmp_def by (intro comparator_num_desc cmp_id_contract)

interpretation cat_order: js_comparator category_cmp
  "\<lambda>r. num_field ''sort_order'' r \<and> num_field ''id'' r"
  by (rule category_cmp_contract)

text \<open>The category list answers all stored categories, each once, by descending sort order and then
  ascending id; it rearranges the stored table in the same way but changes no row.\<close>

theorem categories_listed_in_order:
  assumes "\<forall>r\<in>set (rows_of st Categories). num_field ''sort_order'' r \<and> num_field ''id'' r"
  shows "mset (fst (categories_list now st)) = mset (rows_of st Categories) \<and>
    sorted_wrt (\<lambda>a b. category_cmp a b \<le> 0) (fst (categories_list now st)) \<and>
    rows_of (snd (categories_list now st)) Categories = fst (categories_list now st) \<and>
    (\<forall>t. t \<noteq> Categories \<longrightarrow> rows_of (snd (categories_list now st)) t = rows_of st t) \<and>
    fst (categories_list now (snd (categories_list now st))) = fst (categories_list now st)"
proof -
  have idem: "js_sort category_cmp (js_sort category_cmp (rows_of st Categories))
      = js_sort category_cmp (rows_of st Categories)"
    using assms by (intro cat_order.sort_idem)
  have "sorted_wrt (\<lambda>a b. category_cmp a b \<le> 0) (js_sort category_cmp (rows_of st Categories))"
    using assms by (intro cat_order.sort_in_order)
  with idem show ?thesis
    by (simp add: categories_list_def Let_def sort_table_result load_data_loaded)
qed

theorem categories_listed_in_order_witness:
  "let a = [(''id'', VNat 1), (''sort_order'', VNum 5)]; b = [(''id'', VNat 2), (''sort_order'', VNum 9)];
       st = store_with (\<lambda>t. if t = Categories then [a, b] else [])
   in mset (fst (categories_list ''t'' st)) = {#a, b#} \<and> fst (categories_list ''t'' st) = [b, a]"
proof -
  let ?a = "[(''id'', VNat 1), (''sort_order'', VNum 5)]"
  let ?b = "[(''id'', VNat 2), (''sort_order'', VNum 9)]"
  let ?st = "store_with (\<lambda>t. if t = Categories then [?a, ?b] else [])"
  have "\<forall>r\<in>set (rows_of ?st Categories). num_field ''sort_order'' r \<and> num_field ''id'' r"
    by (simp add: num_field_def)
  from categories_listed_in_order [OF this, of "''t''"] show ?thesis
    by (simp add: Let_def categories_list_def category_cmp_def cmp_num_desc_def)
qed

section \<open>Properties of the reviews\<close>

lemma foldl_js_plus:
  assumes "\<forall>r\<in>set rs. fld r k = VNum (f r)"
  shows "foldl (\<lambda>acc r. js_plus acc (fld r k)) (VNum x) rs = VNum (x + sum_list (map f rs))"
  using assms by (induction rs arbitrary: x) (auto simp: add_ac)

lemma sum_list_bounds:
  fixes f :: "'a \<Rightarrow> rat"
  assumes "\<forall>r\<in>set rs. lo \<le> f r \<and> f r \<le> hi"
  shows "of_nat (length rs) * lo \<le> sum_list (map f rs) \<and> sum_list (map f rs) \<le> of_nat (length rs) * hi"
  using assms by (induction rs) (auto simp: algebra_simps add_mono)

lemma round_half_up_near: "\<bar>of_int (round_half_up x) - x\<bar> \<le> 1 / 2"
  unfolding round_half_up_def by linarith

lemma round_half_up_bounds:
  "of_int a \<le> x \<Longrightarrow> x \<le> of_int b \<Longrightarrow> a \<le> round_half_up x \<and> round_half_up x \<le> b"
  unfolding round_half_up_def by linarith

lemma average_value:
  assumes "filter (visible_review i) (rows_of st Reviews) = rs" "rs \<noteq> []"
    and "\<forall>r\<in>set rs. fld r ''rating'' = VNum (f r)"
  shows "fst (get_average_rating now i st) =
     VNum (of_int (round_half_up (sum_list (map f rs) / of_nat (length rs) * 10)) / 10)"
  using assms foldl_js_plus [OF assms(3), of 0] by (simp add: get_average_rating_def Let_def)

text \<open>The average rating of a product is the mean of its visible reviews to the nearest tenth: it is
  within a twentieth of the mean, lies between the smallest and the largest allowed rating, and is 0
  when there is no visible review.\<close>

theorem average_rating_is_rounded_mean:
  assumes "filter (visible_review i) (rows_of st Reviews) = rs"
    and "\<forall>r\<in>set rs. fld r ''rating'' = VNum (f r) \<and> of_int lo \<le> f r \<and> f r \<le> of_int hi"
  shows "\<exists>x. fst (get_average_rating now i st) = VNum x \<and>
    (rs = [] \<longrightarrow> x = 0) \<and>
    (rs \<noteq> [] \<longrightarrow> \<bar>x - sum_list (map f rs) / of_nat (length rs)\<bar> \<le> 1 / 20 \<and> of_int lo \<le> x \<and> x \<le> of_int hi)"
proof (cases "rs = []")
  case True
  with assms(1) show ?thesis by (simp add: get_average_rating_def Let_def)
next
  case False
  let ?n = "of_nat (length rs) :: rat"
  define m where "m = sum_list (map f rs) / ?n"
  let ?y = "round_half_up (m * 10)"
  have n: "?n > 0"
    using False by simp
  have "?n * of_int lo \<le> sum_list (map f rs)" "sum_list (map f rs) \<le> ?n * of_int hi"
    using sum_list_bounds [of rs "of_int lo" f "of_int hi"] assms(2) by auto
  then have "of_int lo \<le> m" "m \<le> of_int hi"
    using n by (simp_all add: m_def field_simps)
  then have "of_int (10 * lo) \<le> m * 10" "m * 10 \<le> of_int (10 * hi)"
    by simp_all
  from round_half_up_bounds [OF this] have "10 * lo \<le> ?y" "?y \<le> 10 * hi"
    by auto
  then have "of_int (10 * lo) \<le> (of_int ?y :: rat)" "(of_int ?y :: rat) \<le> of_int (10 * hi)"
    by (simp_all only: of_int_le_iff)
  then have b: "of_int lo \<le> of_int ?y / (10::rat)" "of_int ?y / (10::rat) \<le> of_int hi"
    by simp_all
  have "\<bar>of_int ?y / 10 - m\<bar> \<le> 1 / 20"
    using round_half_up_near [of "m * 10"] by linarith
  moreover have "fst (get_average_rating now i st) = VNum (of_int ?y / 10)"
    using average_value [OF assms(1) False, of f] assms(2) by (simp add: m_def)
  ultimately show ?thesis
    using b False unfolding m_def by blast
qed

theorem average_rating_is_rounded_mean_witness:
  "let r = (\<lambda>x. [(''product_id'', VNum 7), (''status'', VNum 1), (''rating'', VNum x)]);
       st = store_with (\<lambda>t. if t = Reviews then [r 4, r 5, r 5] else [])
   in \<exists>x. fst (get_average_rating ''t'' (VNum 7) st) = VNum x \<and> \<bar>x - 14 / 3\<bar> \<le> 1 / 20 \<and> 4 \<le> x \<and> x \<le> 5"
proof -
  let ?r = "\<lambda>x. [(''product_id'', VNum 7), (''status'', VNum 1), (''rating'', VNum x)]"
  let ?st = "store_with (\<lambda>t. if t = Reviews then [?r 4, ?r 5, ?r 5] else [])"
  let ?f = "\<lambda>r. case fld r ''rating'' of VNum x \<Rightarrow> x | _ \<Rightarrow> 0"
  have "filter (visible_review (VNum 7)) (rows_of ?st Reviews) = [?r 4, ?r 5, ?r 5]"
    by (simp add: visible_review_def)
  from average_rating_is_rounded_mean [OF this, of ?f 4 5 "''t''"] show ?thesis
    by (simp add: Let_def)
qed

end
