(* ===== verification/Store_Durability.thy ===== *)
theory Store_Durability
  imports Row_Store
begin

text \<open>
  What the file store promises about memory and disk: its delayed writes are invisible to readers
  (a refinement to plain tables), as long as no transaction fails over unsaved changes a change
  that a restart would lose has a timer armed and a flush makes the data survive a restart, a save
  interrupted anywhere leaves the old or the new data file, a failed transaction puts the tables
  back, and row ids stay distinct through every sequence of operations, timers, transactions and
  restarts.
\<close>

section \<open>The store as plain tables\<close>

type_synonym tables = "table \<Rightarrow> row list \<times> nat"

definition view :: "fs_state \<Rightarrow> tables" where
  "view st = (\<lambda>t. (rows_of st t, next_of st t))"

datatype store_op =
    Op_insert string table row
  | Op_update string table val row
  | Op_remove string table val
  | Op_set string table "row list"
  | Op_next_id string table
  | Op_update_where string table "row \<Rightarrow> bool" row
  | Op_remove_where string table "row \<Rightarrow> bool"
  | Op_timer string
  | Op_flush string

fun run_op :: "store_op \<Rightarrow> fs_state \<Rightarrow> fs_state" where
  "run_op (Op_insert now t r) st = snd (store_insert now t r st)"
| "run_op (Op_update now t i u) st = snd (store_update now t i u st)"
| "run_op (Op_remove now t i) st = snd (store_remove now t i st)"
| "run_op (Op_set now t rs) st = set_table now t rs st"
| "run_op (Op_next_id now t) st = snd (next_id now t st)"
| "run_op (Op_update_where now t p u) st = snd (update_where now t p u st)"
| "run_op (Op_remove_where now t p) st = snd (remove_where now t p st)"
| "run_op (Op_timer now) st = timer_fire now st"
| "run_op (Op_flush now) st = flush_now now st"

text \<open>The same operations on plain tables: no cache, no file, no timer.\<close>

fun abs_op :: "store_op \<Rightarrow> tables \<Rightarrow> tables" where
  "abs_op (Op_insert now t r) v = (case v t of (rs, n) \<Rightarrow> v(t := (rs @ [new_row now n r], Suc n)))"
| "abs_op (Op_update now t i u) v =
     (case v t of (rs, n) \<Rightarrow> v(t := (upd_first (has_id i) (touched now u) rs, n)))"
| "abs_op (Op_remove now t i) v = (case v t of (rs, n) \<Rightarrow> v(t := (del_first (has_id i) rs, n)))"
| "abs_op (Op_set now t rs') v = (case v t of (rs, n) \<Rightarrow> v(t := (rs', n)))"
| "abs_op (Op_next_id now t) v = (case v t of (rs, n) \<Rightarrow> v(t := (rs, Suc n)))"
| "abs_op (Op_update_where now t p u) v =
     (case v t of (rs, n) \<Rightarrow> v(t := (map (\<lambda>r. if p r then touched now u r else r) rs, n)))"
| "abs_op (Op_remove_where now t p) v = (case v t of (rs, n) \<Rightarrow> v(t := (filter (\<lambda>r. \<not> p r) rs, n)))"
| "abs_op (Op_timer now) v = v"
| "abs_op (Op_flush now) v = v"

lemma cache_save: "cache (save_data_sync now st) = map_option (\<lambda>d. d\<lparr>updatedAt := now\<rparr>) (cache st)"
  by (auto simp: save_data_sync_def on_meta_def Let_def split: option.splits)

lemma cache_None_rows:
  "cache st = None \<Longrightarrow> cache st' = None \<Longrightarrow> disk st = disk st' \<Longrightarrow> defaults st = defaults st' \<Longrightarrow>
   rows_of st t = rows_of st' t \<and> next_of st t = next_of st' t"
  by (auto simp: rows_of_def next_of_def load_data_def fs_data_defs Let_def
      split: option.splits file_content.splits prod.splits)

lemma save_keeps_view:
  "rows_of (save_data_sync now (st\<lparr>timer := b\<rparr>)) t = rows_of st t"
  "next_of (save_data_sync now (st\<lparr>timer := b\<rparr>)) t = next_of st t"
proof (atomize (full), cases "cache st")
  case None
  then have "save_data_sync now (st\<lparr>timer := b\<rparr>) = st\<lparr>timer := b\<rparr>"
    by (simp add: save_data_sync_def)
  then show "rows_of (save_data_sync now (st\<lparr>timer := b\<rparr>)) t = rows_of st t \<and>
      next_of (save_data_sync now (st\<lparr>timer := b\<rparr>)) t = next_of st t"
    using cache_None_rows [of "st\<lparr>timer := b\<rparr>" st] None by simp
next
  case (Some d)
  then show "rows_of (save_data_sync now (st\<lparr>timer := b\<rparr>)) t = rows_of st t \<and>
      next_of (save_data_sync now (st\<lparr>timer := b\<rparr>)) t = next_of st t"
    by (simp add: rows_of_loaded next_of_loaded next_id_of_def data_of_def cache_save)
qed

lemma timer_irrelevant:
  "rows_of (st\<lparr>timer := b\<rparr>) t = rows_of st t" "next_of (st\<lparr>timer := b\<rparr>) t = next_of st t"
  by (auto simp: rows_of_def next_of_def load_data_def fs_data_defs Let_def
      split: option.splits file_content.splits prod.splits)

lemma flush_result:
  "rows_of (flush_now now st) t = rows_of st t" "next_of (flush_now now st) t = next_of st t"
  "rows_of (timer_fire now st) t = rows_of st t" "next_of (timer_fire now st) t = next_of st t"
  by (simp_all add: flush_now_def timer_fire_def Let_def save_keeps_view timer_irrelevant)

lemma run_op_view: "view (run_op opn st) = abs_op opn (view st)"
  by (cases opn)
    (simp_all add: view_def fun_eq_iff store_insert_result store_update_result store_remove_result
      set_table_result next_id_result update_where_result remove_where_result flush_result)

section \<open>Pending changes and the timer\<close>

definition pending_has_timer :: "fs_state \<Rightarrow> bool" where
  "pending_has_timer st \<longleftrightarrow> (dirty st \<longrightarrow> timer st)"

lemma dirty_simps [simp]:
  "dirty (on_rows t f st) = dirty st" "timer (on_rows t f st) = timer st"
  "dirty (on_meta g st) = dirty st" "timer (on_meta g st) = timer st"
  "dirty (replace_rows t rs st) = dirty st" "timer (replace_rows t rs st) = timer st"
  "dirty (set_cache_copy d st) = dirty st" "timer (set_cache_copy d st) = timer st"
  "dirty (mark_dirty st)" "timer (mark_dirty st)"
  by (simp_all add: on_rows_def on_meta_def replace_rows_def set_cache_copy_def mark_dirty_def)

lemma save_dirty: "dirty (save_data_sync now st) \<longrightarrow> dirty st" "timer (save_data_sync now st) = timer st"
  by (auto simp: save_data_sync_def Let_def split: option.splits)

lemma save_clean: "cache st \<noteq> None \<Longrightarrow> \<not> dirty (save_data_sync now st)"
  by (auto simp: save_data_sync_def Let_def)

lemma load_dirty: "dirty (load_data now st) \<longrightarrow> dirty st" "timer (load_data now st) = timer st"
  using save_dirty [of now "set_cache_copy (defaults st) st"]
  by (auto simp: load_data_def Let_def split: option.splits file_content.splits prod.splits)

lemma load_pending: "pending_has_timer st \<Longrightarrow> pending_has_timer (load_data now st)"
  using load_dirty [of now st] by (auto simp: pending_has_timer_def)

lemma pending_mark [simp]: "pending_has_timer (mark_dirty st)"
  by (simp add: pending_has_timer_def)

lemma pending_on_rows [simp]: "pending_has_timer (on_rows t f st) = pending_has_timer st"
  by (simp add: pending_has_timer_def)

lemma pending_replace [simp]: "pending_has_timer (replace_rows t rs st) = pending_has_timer st"
  by (simp add: pending_has_timer_def)

lemma not_loaded_not_dirty: "dirty st \<Longrightarrow> cache st \<noteq> None \<Longrightarrow> \<not> dirty (flush_now now st)"
  by (simp add: flush_now_def Let_def save_clean)

section \<open>The file operations of a save\<close>

text \<open>
  The data file and its temporary neighbour as texts.  Writing a file opens it, which empties it,
  and then appends the text in pieces: a crash can come between any two of these operations, so a
  file can be left empty or cut short.  Only the rename replaces a file in one step.
\<close>

datatype store_file = Data_file | Tmp_file

datatype file_op = Open_file store_file | Append_file store_file string | Rename_file store_file store_file

type_synonym files = "store_file \<Rightarrow> string option"

fun do_file_op :: "files \<Rightarrow> file_op \<Rightarrow> files" where
  "do_file_op fs (Open_file f) = fs(f := Some [])"
| "do_file_op fs (Append_file f s) = fs(f := map_option (\<lambda>x. x @ s) (fs f))"
| "do_file_op fs (Rename_file f g) = fs(g := fs f, f := None)"

definition write_file_sync :: "store_file \<Rightarrow> string list \<Rightarrow> file_op list" where
  "write_file_sync f pieces = Open_file f # map (Append_file f) pieces"

definition save_file_ops :: "string list \<Rightarrow> file_op list" where
  "save_file_ops pieces = write_file_sync Tmp_file pieces @ [Rename_file Tmp_file Data_file]"

abbreviation run_file_ops :: "files \<Rightarrow> file_op list \<Rightarrow> files" where
  "run_file_ops fs ops \<equiv> foldl do_file_op fs ops"

lemma append_pieces:
  "foldl do_file_op fs (map (Append_file f) pieces) = fs(f := map_option (\<lambda>x. x @ concat pieces) (fs f))"
  by (induction pieces arbitrary: fs) (auto simp: fun_eq_iff option.map_comp o_def option.map_ident)

lemma write_file_sync_result: "run_file_ops fs (write_file_sync f pieces) = fs(f := Some (concat pieces))"
  by (simp add: write_file_sync_def append_pieces)

lemma other_file_untouched:
  "\<forall>op \<in> set ops. op = Open_file f \<or> (\<exists>s. op = Append_file f s) \<Longrightarrow> g \<noteq> f \<Longrightarrow> run_file_ops fs ops g = fs g"
  by (induction ops arbitrary: fs) auto

lemma write_file_ops_only:
  "op \<in> set (write_file_sync f pieces) \<Longrightarrow> op = Open_file f \<or> (\<exists>s. op = Append_file f s)"
  by (auto simp: write_file_sync_def)

lemma length_write_file_sync [simp]: "length (write_file_sync f pieces) = Suc (length pieces)"
  by (simp add: write_file_sync_def)

lemma save_file_ops_prefix:
  "run_file_ops fs (take n (save_file_ops pieces)) Data_file
     = (if n \<le> Suc (length pieces) then fs Data_file else Some (concat pieces))"
proof (cases "n \<le> Suc (length pieces)")
  case True
  then have "take n (save_file_ops pieces) = take n (write_file_sync Tmp_file pieces)"
    by (simp add: save_file_ops_def)
  then show ?thesis
    using True other_file_untouched [of "take n (write_file_sync Tmp_file pieces)" Tmp_file Data_file fs]
    by (auto dest!: in_set_takeD write_file_ops_only)
next
  case False
  then have "take n (save_file_ops pieces) = save_file_ops pieces"
    by (simp add: save_file_ops_def)
  then show ?thesis
    using False by (simp add: save_file_ops_def write_file_sync_result)
qed

section \<open>Durability\<close>

lemma disk_save:
  "cache st = Some d \<Longrightarrow> disk (save_data_sync now st) = Some (to_file (d\<lparr>updatedAt := now\<rparr>))"
  by (simp add: save_data_sync_def on_meta_def Let_def)

lemma reboot_rows:
  "rows_of (boot now (Some (to_file d)) tm) t = map json_row (tbl d t)"
  by (simp add: boot_def rows_of_def load_data_def to_file_def rows_in_def data_of_def)

lemma reboot_next:
  "next_of (boot now (Some (to_file d)) tm) t =
   (case nextIds d t of None \<Rightarrow> 1 | Some n \<Rightarrow> if n = 0 then 1 else n)"
  by (simp add: boot_def next_of_def load_data_def to_file_def next_id_of_def data_of_def)

section \<open>The JSON copy of rows\<close>

lemma json_copy_idem: "json_copy (json_copy v) = json_copy v"
proof (induction v rule: json_copy.induct)
  case (5 kvs)
  have ne: "json_copy v \<noteq> VUndef" for v
    by (cases v rule: json_copy.cases) auto
  have f: "filter (\<lambda>(k, v). v \<noteq> VUndef) (map (\<lambda>(k, v). (k, json_copy v)) kvs')
      = map (\<lambda>(k, v). (k, json_copy v)) kvs'" for kvs'
    by (induction kvs') (auto simp: ne)
  show ?case
    using 5 by (auto simp: f)
qed (auto intro: map_idI)

lemma json_copy_neq_undef: "json_copy v \<noteq> VUndef"
  by (cases v rule: json_copy.cases) auto

definition keys_ok :: "row \<Rightarrow> bool" where
  "keys_ok r \<longleftrightarrow> distinct (map fst r)"

lemma json_row_Cons:
  "json_row ((k, v) # r) = (if v = VUndef then json_row r else (k, json_copy v) # json_row r)"
  by (simp add: json_row_def)

lemma json_row_keys: "fst ` set (json_row r) \<subseteq> fst ` set r"
  by (induction r) (auto simp: json_row_Cons json_row_def)

lemma keys_ok_json_row: "keys_ok r \<Longrightarrow> keys_ok (json_row r)"
proof (induction r)
  case (Cons x r)
  then show ?case
    using json_row_keys [of r] by (cases x) (auto simp: keys_ok_def json_row_Cons)
qed (simp add: keys_ok_def json_row_def)

lemma fld_absent: "k \<notin> fst ` set r \<Longrightarrow> fld r k = VUndef"
  using map_of_eq_None_iff [of r k] by (simp add: fld_def)

lemma fld_json_row:
  "keys_ok r \<Longrightarrow> fld (json_row r) k = (if fld r k = VUndef then VUndef else json_copy (fld r k))"
proof (induction r)
  case (Cons x r)
  obtain k' v where x: "x = (k', v)"
    by (cases x)
  with Cons.prems have "k' \<notin> fst ` set r" "keys_ok r"
    by (auto simp: keys_ok_def)
  then have "fld (json_row r) k' = VUndef"
    using json_row_keys [of r] by (intro fld_absent) auto
  with Cons.IH \<open>keys_ok r\<close> show ?case
    by (auto simp: x json_row_Cons)
qed (simp add: json_row_def)

lemma fld_json_row_num: "keys_ok r \<Longrightarrow> fld r k = VNum x \<Longrightarrow> fld (json_row r) k = VNum x"
  by (simp add: fld_json_row)

lemma keys_ok_spread: "keys_ok r \<Longrightarrow> keys_ok (spread r u)"
  by (simp add: keys_ok_def distinct_keys_spread)

lemma keys_ok_new_row: "keys_ok r \<Longrightarrow> keys_ok (new_row now i r)"
  by (simp add: new_row_def keys_ok_spread del: spread.simps)

lemma keys_ok_touched: "keys_ok r \<Longrightarrow> keys_ok (touched now u r)"
  by (simp add: touched_def keys_ok_spread del: spread.simps)

lemma ids_ok_json:
  assumes "ids_ok rs n" "\<forall>r\<in>set rs. keys_ok r"
  shows "ids_ok (map json_row rs) n"
proof -
  have *: "fld (json_row r) ''id'' = fld r ''id''" if "r \<in> set rs" for r
    using assms that by (fastforce simp: ids_ok_def fld_json_row)
  then have m: "map (\<lambda>r. fld r ''id'') (map json_row rs) = map (\<lambda>r. fld r ''id'') rs"
    by simp
  show ?thesis
    unfolding ids_ok_def m using assms(1) * by (simp add: ids_ok_def)
qed

section \<open>Everything that can happen to the store\<close>

text \<open>
  One step of a running process: an operation of the store (a row literal has distinct keys and an
  update does not name \<open>id\<close>), the in-place sort of a listing, the timer, a flush, the loading of the
  file, a restart.  Callbacks of transactions make any number of such steps.
\<close>

inductive fs_step :: "fs_state \<Rightarrow> fs_state \<Rightarrow> bool" where
  step_load: "fs_step st (load_data now st)"
| step_insert: "keys_ok r \<Longrightarrow> fs_step st (snd (store_insert now t r st))"
| step_update: "''id'' \<notin> fst ` set u \<Longrightarrow> fs_step st (snd (store_update now t i u st))"
| step_update_where: "''id'' \<notin> fst ` set u \<Longrightarrow> fs_step st (snd (update_where now t p u st))"
| step_remove: "fs_step st (snd (store_remove now t i st))"
| step_remove_where: "fs_step st (snd (remove_where now t p st))"
| step_next_id: "fs_step st (snd (next_id now t st))"
| step_sort: "fs_step st (sort_table t c (load_data now st))"
| step_timer: "timer st \<Longrightarrow> fs_step st (timer_fire now st)"
| step_flush: "fs_step st (flush_now now st)"
| step_restart: "fs_step st (boot now (disk st) (tmp st))"

inductive txn_step :: "fs_state \<Rightarrow> fs_state \<Rightarrow> bool" where
  txn_base: "fs_step st st' \<Longrightarrow> txn_step st st'"
| txn_commit: "fs_step\<^sup>*\<^sup>* (load_data now st) st1 \<Longrightarrow>
     txn_step st (snd (with_transaction now (\<lambda>_. (Inr (), st1)) st))"
| txn_abort: "fs_step\<^sup>*\<^sup>* (load_data now st) st1 \<Longrightarrow>
     txn_step st (snd (with_transaction now (\<lambda>_. (Inl e :: js_error + unit, st1)) st))"

inductive reachable :: "fs_state \<Rightarrow> bool" where
  reach_fresh: "reachable (boot now None None)"
| reach_step: "reachable st \<Longrightarrow> txn_step st st' \<Longrightarrow> reachable st'"

section \<open>The invariant of the running store\<close>

definition rows_ok :: "row list \<Rightarrow> nat \<Rightarrow> bool" where
  "rows_ok rs n \<longleftrightarrow> ids_ok rs n \<and> (\<forall>r\<in>set rs. keys_ok r)"

definition data_ok :: "(table \<Rightarrow> nat option) \<Rightarrow> (table \<Rightarrow> row list) \<Rightarrow> bool" where
  "data_ok ni ts \<longleftrightarrow> 
     (\<forall>t. rows_ok (ts t) (case ni t of None \<Rightarrow> 1 | Some n \<Rightarrow> if n = 0 then 1 else n))"

definition disk_ok :: "file_content option \<Rightarrow> bool" where
  "disk_ok f \<longleftrightarrow> f = None \<or>
     (\<exists>ni c u ts. f = Some (Parsed (Some (ni, c, u)) (\<lambda>t. Some (ts t))) \<and> data_ok ni ts)"

definition store_inv :: "fs_state \<Rightarrow> bool" where
  "store_inv st \<longleftrightarrow>
     shared st = (\<lambda>_. False) \<and> \<not> shared_meta st \<and>
     tbl (defaults st) = (\<lambda>_. []) \<and> nextIds (defaults st) = (\<lambda>_. None) \<and>
     disk_ok (disk st) \<and> pending_has_timer st \<and> (dirty st \<longrightarrow> cache st \<noteq> None) \<and>
     (\<forall>d. cache st = Some d \<longrightarrow> data_ok (nextIds d) (tbl d))"

lemma data_ok_json: "data_ok ni ts \<Longrightarrow> data_ok ni (\<lambda>t. map json_row (ts t))"
  by (auto simp: data_ok_def rows_ok_def intro: ids_ok_json keys_ok_json_row)

lemma disk_ok_to_file: "data_ok (nextIds d) (tbl d) \<Longrightarrow> disk_ok (Some (to_file d))"
proof -
  assume "data_ok (nextIds d) (tbl d)"
  then have "data_ok (nextIds d) (\<lambda>t. map json_row (tbl d t))"
    by (rule data_ok_json)
  then show ?thesis
    unfolding disk_ok_def to_file_def by (intro disjI2 exI conjI) auto
qed

lemma data_ok_empty: "data_ok (\<lambda>_. None) (\<lambda>_. [])"
  by (simp add: data_ok_def rows_ok_def ids_ok_def)

lemma inv_save: "store_inv st \<Longrightarrow> store_inv (save_data_sync now st)"
  by (cases "cache st")
    (auto simp: store_inv_def save_data_sync_def on_meta_def Let_def pending_has_timer_def
      intro!: disk_ok_to_file)

lemma inv_copy:
  assumes "store_inv st" "data_ok (nextIds d) (tbl d)"
  shows "store_inv (set_cache_copy d st)"
  using assms data_ok_json [OF assms(2)]
  by (auto simp: store_inv_def set_cache_copy_def json_data_def pending_has_timer_def)

lemma inv_load: "store_inv st \<Longrightarrow> store_inv (load_data now st)"
proof (cases "cache st")
  case None
  assume inv: "store_inv st"
  show ?thesis
  proof (cases "disk st")
    case None
    have "store_inv (set_cache_copy (defaults st) st)"
      using inv by (intro inv_copy) (auto simp: store_inv_def data_ok_empty)
    then show ?thesis
      using \<open>cache st = None\<close> None by (simp add: load_data_def inv_save)
  next
    case (Some f)
    with inv obtain ni c u ts where
      "f = Parsed (Some (ni, c, u)) (\<lambda>t. Some (ts t))" "data_ok ni ts"
      by (auto simp: store_inv_def disk_ok_def)
    with inv Some \<open>cache st = None\<close> show ?thesis
      by (simp add: load_data_def store_inv_def pending_has_timer_def)
  qed
qed (simp add: load_data_id)

lemma inv_mark: "store_inv st \<Longrightarrow> cache st \<noteq> None \<Longrightarrow> store_inv (mark_dirty st)"
  by (simp add: store_inv_def mark_dirty_def pending_has_timer_def)

text \<open>Rewriting one table of the cache keeps the invariant when the new rows are well formed.\<close>

lemma inv_on_rows:
  assumes "store_inv st"
    and "\<And>rs n. rows_ok rs n \<Longrightarrow> rows_ok (f rs) n"
  shows "store_inv (on_rows t f st)"
  using assms
  by (auto simp: store_inv_def on_rows_def map_tbl_def data_ok_def pending_has_timer_def
      split: if_splits)

lemma inv_replace_rows:
  assumes "store_inv st" "cache st = Some d"
    and "\<And>n. rows_ok (tbl d t) n \<Longrightarrow> rows_ok rs n"
  shows "store_inv (replace_rows t rs st)"
  using assms
  by (auto simp: store_inv_def replace_rows_def map_tbl_def data_ok_def pending_has_timer_def
      split: if_splits)

lemma inv_flush: "store_inv st \<Longrightarrow> store_inv (flush_now now st) \<and> store_inv (timer_fire now st)"
  by (cases "cache st")
    (auto simp: store_inv_def flush_now_def timer_fire_def save_data_sync_def on_meta_def Let_def
      pending_has_timer_def intro!: disk_ok_to_file)

text \<open>Each kind of rewriting keeps a table well formed.\<close>

lemma rows_ok_upd_first: "''id'' \<notin> fst ` set u \<Longrightarrow> rows_ok rs n \<Longrightarrow> rows_ok (upd_first p (touched now u) rs) n"
  using set_upd_first [of p "touched now u" rs]
  by (auto simp: rows_ok_def fld_touched_None intro!: ids_ok_upd_first dest: keys_ok_touched)

lemma rows_ok_map_touched:
  assumes "''id'' \<notin> fst ` set u" "rows_ok rs n"
  shows "rows_ok (map (\<lambda>r. if p r then touched now u r else r) rs) n"
proof -
  let ?f = "\<lambda>r. if p r then touched now u r else r"
  have m: "map (\<lambda>r. fld r ''id'') (map ?f rs) = map (\<lambda>r. fld r ''id'') rs"
    using assms(1) by (simp add: fld_touched_None)
  show ?thesis
    unfolding rows_ok_def ids_ok_def m
    using assms by (auto simp: rows_ok_def ids_ok_def fld_touched_None keys_ok_touched)
qed

lemma rows_ok_subset:
  "rows_ok rs n \<Longrightarrow> ids_ok rs' n \<Longrightarrow> set rs' \<subseteq> set rs \<Longrightarrow> rows_ok rs' n"
  by (auto simp: rows_ok_def)

lemma rows_ok_del_first: "rows_ok rs n \<Longrightarrow> rows_ok (del_first p rs) n"
  by (rule rows_ok_subset) (auto simp: rows_ok_def ids_ok_del_first dest: subsetD [OF set_del_first])

lemma rows_ok_filter: "rows_ok rs n \<Longrightarrow> rows_ok (filter p rs) n"
  by (rule rows_ok_subset) (auto simp: rows_ok_def ids_ok_filter)

lemma rows_ok_sort: "rows_ok rs n \<Longrightarrow> rows_ok (js_sort c rs) n"
  by (rule rows_ok_subset) (auto simp: rows_ok_def ids_ok_sort)

lemma rows_ok_snoc: "rows_ok rs n \<Longrightarrow> 0 < n \<Longrightarrow> keys_ok r \<Longrightarrow> rows_ok (rs @ [new_row now n r]) (Suc n)"
  by (auto simp: rows_ok_def ids_ok_snoc keys_ok_new_row)

lemma rows_ok_mono: "rows_ok rs n \<Longrightarrow> n \<le> m \<Longrightarrow> rows_ok rs m"
  by (auto simp: rows_ok_def intro: ids_ok_mono)

text \<open>With the cache loaded, the invariant is a statement about the visible tables.\<close>

lemma inv_loaded_iff:
  assumes "cache st \<noteq> None"
  shows "(\<forall>d. cache st = Some d \<longrightarrow> data_ok (nextIds d) (tbl d)) \<longleftrightarrow> (\<forall>t. rows_ok (rows_of st t) (next_of st t))"
proof -
  obtain d where d: "cache st = Some d"
    using assms by blast
  then have "next_of st t = (case nextIds d t of None \<Rightarrow> 1 | Some n \<Rightarrow> if n = 0 then 1 else n)" for t
    using next_of_loaded [OF assms, of t] by (simp add: next_id_of_def data_of_def)
  with d show ?thesis
    by (simp add: rows_of_loaded data_ok_def)
qed

text \<open>The part of the state that operations on a loaded store leave alone.\<close>

definition same_base :: "fs_state \<Rightarrow> fs_state \<Rightarrow> bool" where
  "same_base st st' \<longleftrightarrow>
     (shared st = (\<lambda>_. False) \<and> \<not> shared_meta st \<longrightarrow>
        disk st' = disk st \<and> shared st' = shared st \<and> \<not> shared_meta st' \<and> defaults st' = defaults st)"

lemma same_base_refl [simp]: "same_base st st"
  by (simp add: same_base_def)

lemma same_base_steps:
  "same_base st st1 \<Longrightarrow> same_base st (on_rows t f st1)"
  "same_base st st1 \<Longrightarrow> same_base st (on_meta g st1)"
  "same_base st st1 \<Longrightarrow> same_base st (replace_rows t rs st1)"
  "same_base st st1 \<Longrightarrow> same_base st (mark_dirty st1)"
  by (auto simp: same_base_def on_rows_def on_meta_def replace_rows_def mark_dirty_def)

lemma inv_by_view:
  assumes "store_inv st" "cache st \<noteq> None" "cache st' \<noteq> None" "same_base st st'"
    and "pending_has_timer st'"
    and "\<And>t. rows_ok (rows_of st t) (next_of st t) \<Longrightarrow> rows_ok (rows_of st' t) (next_of st' t)"
  shows "store_inv st'"
proof -
  have "\<forall>t. rows_ok (rows_of st t) (next_of st t)"
    using assms(1) inv_loaded_iff [OF assms(2)] by (simp add: store_inv_def)
  then have "\<forall>d. cache st' = Some d \<longrightarrow> data_ok (nextIds d) (tbl d)"
    using inv_loaded_iff [OF assms(3)] assms(6) by blast
  with assms show ?thesis
    by (auto simp: store_inv_def same_base_def)
qed

text \<open>Each operation, once the file is loaded, keeps the cache, the base and the timer rule.\<close>

definition op_frame :: "string \<Rightarrow> fs_state \<Rightarrow> fs_state \<Rightarrow> bool" where
  "op_frame now st st' \<longleftrightarrow> cache st' \<noteq> None \<and> same_base (load_data now st) st' \<and>
     (pending_has_timer (load_data now st) \<longrightarrow> pending_has_timer st')"

lemma cache_on_meta_None [simp]: "cache (on_meta g st) = None \<longleftrightarrow> cache st = None"
  by (simp add: on_meta_def)

lemma frame_next_id: "op_frame now st (snd (next_id now t st))"
  by (simp add: op_frame_def next_id_def Let_def load_data_loaded same_base_steps del: not_None_eq)

lemma frame_insert: "op_frame now st (snd (store_insert now t r st))"
  by (simp add: op_frame_def store_insert_def next_id_def Let_def case_prod_beta load_data_loaded
      same_base_steps del: not_None_eq)

lemma frame_update: "op_frame now st (snd (store_update now t i u st))"
  by (simp add: op_frame_def store_update_def Let_def load_data_loaded same_base_steps
      del: not_None_eq split: option.splits)

lemma frame_remove: "op_frame now st (snd (store_remove now t i st))"
  by (simp add: op_frame_def store_remove_def Let_def load_data_loaded same_base_steps
      del: not_None_eq split: option.splits)

lemma frame_update_where: "op_frame now st (snd (update_where now t p u st))"
  by (simp add: op_frame_def update_where_def Let_def load_data_loaded same_base_steps del: not_None_eq)

lemma frame_remove_where: "op_frame now st (snd (remove_where now t p st))"
  by (simp add: op_frame_def remove_where_def Let_def load_data_loaded same_base_steps del: not_None_eq)

lemma frame_sort: "op_frame now st (sort_table t c (load_data now st))"
  by (simp add: op_frame_def sort_table_def load_data_loaded same_base_steps del: not_None_eq)

lemma inv_op:
  assumes "store_inv st" "op_frame now st st'"
    and "\<And>t. rows_ok (rows_of st t) (next_of st t) \<Longrightarrow> rows_ok (rows_of st' t) (next_of st' t)"
  shows "store_inv st'"
proof (rule inv_by_view)
  show "store_inv (load_data now st)"
    using assms(1) by (rule inv_load)
  then show "pending_has_timer st'"
    using assms(2) by (simp add: op_frame_def store_inv_def)
qed (use assms in \<open>auto simp: op_frame_def load_data_loaded\<close>)

lemma boot_inv: "disk_ok d \<Longrightarrow> store_inv (boot now d tm)"
  by (simp add: store_inv_def boot_def default_data_def pending_has_timer_def)

lemma fs_step_inv: "fs_step st st' \<Longrightarrow> store_inv st \<Longrightarrow> store_inv st'"
proof (induction rule: fs_step.induct)
  case (step_load st now)
  then show ?case by (rule inv_load)
next
  case (step_insert r st now t)
  show ?case
    by (rule inv_op [OF step_insert.prems frame_insert])
      (use step_insert.hyps in \<open>auto simp: store_insert_result rows_ok_snoc next_of_pos\<close>)
next
  case (step_update u st now t i)
  show ?case
    by (rule inv_op [OF step_update.prems frame_update])
      (use step_update.hyps in \<open>auto simp: store_update_result rows_ok_upd_first\<close>)
next
  case (step_update_where u st now t p)
  show ?case
    by (rule inv_op [OF step_update_where.prems frame_update_where])
      (use step_update_where.hyps in \<open>auto simp: update_where_result rows_ok_map_touched\<close>)
next
  case (step_remove st now t i)
  show ?case
    by (rule inv_op [OF step_remove.prems frame_remove]) (auto simp: store_remove_result rows_ok_del_first)
next
  case (step_remove_where st now t p)
  show ?case
    by (rule inv_op [OF step_remove_where.prems frame_remove_where])
      (auto simp: remove_where_result rows_ok_filter)
next
  case (step_next_id st now t)
  show ?case
    by (rule inv_op [OF step_next_id.prems frame_next_id]) (auto simp: next_id_result intro: rows_ok_mono)
next
  case (step_sort st t c now)
  show ?case
    by (rule inv_op [OF step_sort.prems frame_sort])
      (auto simp: sort_table_def rows_of_on_rows next_of_on_rows load_data_loaded rows_ok_sort
        simp del: not_None_eq)
next
  case (step_timer st now)
  then show ?case by (simp add: inv_flush)
next
  case (step_flush st now)
  then show ?case by (simp add: inv_flush)
next
  case (step_restart st now)
  then have "disk_ok (disk st)"
    by (simp add: store_inv_def)
  then show ?case by (rule boot_inv)
qed

lemma fs_steps_inv: "fs_step\<^sup>*\<^sup>* st st' \<Longrightarrow> store_inv st \<Longrightarrow> store_inv st'"
  by (induction rule: rtranclp_induct) (auto dest: fs_step_inv)

lemma data_of_ok: "store_inv st \<Longrightarrow> cache st \<noteq> None \<Longrightarrow> data_ok (nextIds (data_of st)) (tbl (data_of st))"
  by (auto simp: store_inv_def data_of_def)

lemma txn_step_inv: "txn_step st st' \<Longrightarrow> store_inv st \<Longrightarrow> store_inv st'"
proof (induction rule: txn_step.induct)
  case (txn_base st st')
  then show ?case by (simp add: fs_step_inv)
next
  case (txn_commit now st st1)
  then have "store_inv st1"
    using fs_steps_inv inv_load by blast
  then show ?case
    by (simp add: with_transaction_def Let_def inv_flush)
next
  case (txn_abort now st st1 e)
  then have "store_inv st1"
    using fs_steps_inv inv_load by blast
  moreover have "data_ok (nextIds (data_of (load_data now st))) (tbl (data_of (load_data now st)))"
    using txn_abort by (intro data_of_ok inv_load load_data_loaded)
  ultimately have "store_inv (set_cache_copy (data_of (load_data now st)) st1)"
    by (rule inv_copy)
  then show ?case
    by (simp add: with_transaction_def Let_def store_inv_def pending_has_timer_def)
qed

lemma reachable_inv: "reachable st \<Longrightarrow> store_inv st"
proof (induction rule: reachable.induct)
  case (reach_fresh now)
  show ?case by (rule boot_inv) (simp add: disk_ok_def)
next
  case (reach_step st st')
  then show ?case by (simp add: txn_step_inv)
qed

lemma insert_loaded: "cache (snd (store_insert now t r st)) \<noteq> None"
  using frame_insert [of now st t r] unfolding op_frame_def by blast

lemma insert_dirty: "dirty (snd (store_insert now t r st))"
  by (simp add: store_insert_def Let_def case_prod_beta)

lemma boot_tables [simp]:
  "rows_of (boot now None tm) t = []" "next_of (boot now None tm) t = 1"
  by (simp_all add: rows_of_def next_of_def load_data_def boot_def fs_data_defs default_data_def Let_def)

lemma rollback_view:
  assumes "fn (load_data now st) = (Inl e, st1)"
  shows "rows_of (snd (with_transaction now fn st)) t = map json_row (rows_of st t)"
    "next_of (snd (with_transaction now fn st)) t = next_of st t"
proof -
  let ?st' = "(set_cache_copy (data_of (load_data now st)) st1)\<lparr>dirty := False\<rparr>"
  have w: "with_transaction now fn st = (Inl e, ?st')"
    by (simp add: with_transaction_def Let_def assms)
  have c: "cache ?st' = Some (json_data (data_of (load_data now st)))"
    by (simp add: set_cache_copy_def)
  show "rows_of (snd (with_transaction now fn st)) t = map json_row (rows_of st t)"
    unfolding w snd_conv rows_of_loaded [OF c] by (simp add: json_data_def flip: rows_in_def)
  have "next_of ?st' t = next_id_of (load_data now st) t"
    using c next_of_loaded [of ?st' t] by (simp add: next_id_of_def data_of_def json_data_def)
  then show "next_of (snd (with_transaction now fn st)) t = next_of st t"
    by (simp add: w)
qed

section \<open>Runs in which no transaction fails over unsaved changes\<close>

text \<open>
  A transaction that fails clears the dirty flag for changes made before it as well, so what the
  store promises about writing holds for the runs in which a failing transaction finds nothing
  unsaved and its callback has written nothing to the data file.
\<close>

inductive clean :: "fs_state \<Rightarrow> bool" where
  clean_fresh: "clean (boot now None None)"
| clean_step: "clean st \<Longrightarrow> fs_step st st' \<Longrightarrow> clean st'"
| clean_commit: "clean st \<Longrightarrow> fs_step\<^sup>*\<^sup>* (load_data now st) st1 \<Longrightarrow>
     clean (snd (with_transaction now (\<lambda>_. (Inr (), st1)) st))"
| clean_abort: "clean st \<Longrightarrow> \<not> dirty (load_data now st) \<Longrightarrow> fs_step\<^sup>*\<^sup>* (load_data now st) st1 \<Longrightarrow>
     disk st1 = disk (load_data now st) \<Longrightarrow>
     clean (snd (with_transaction now (\<lambda>_. (Inl e :: js_error + unit, st1)) st))"

text \<open>Nothing would be lost: a process started on the data file reads the rows and counters that are
  in memory (the order of the rows aside, which the in-place sorts of listings change unrecorded).\<close>

definition same_tables :: "fs_state \<Rightarrow> fs_state \<Rightarrow> bool" where
  "same_tables s st \<longleftrightarrow>
     (\<forall>t. mset (rows_of s t) = mset (map json_row (rows_of st t)) \<and> next_of s t = next_of st t)"

definition saved :: "fs_state \<Rightarrow> bool" where
  "saved st \<longleftrightarrow> (\<forall>now tm. same_tables (boot now (disk st) tm) st)"

definition disk_plain :: "file_content option \<Rightarrow> bool" where
  "disk_plain f \<longleftrightarrow> (\<forall>m ts t rs. f = Some (Parsed m ts) \<longrightarrow> ts t = Some rs \<longrightarrow> map json_row rs = rs)"

definition clean_inv :: "fs_state \<Rightarrow> bool" where
  "clean_inv st \<longleftrightarrow> store_inv st \<and> disk_plain (disk st) \<and> (\<not> dirty st \<longrightarrow> saved st)"

lemma json_row_idem [simp]: "json_row (json_row r) = json_row r"
  by (induction r) (auto simp: json_row_Cons json_copy_idem json_copy_neq_undef, simp add: json_row_def)

lemma disk_plain_to_file: "disk_plain (Some (to_file d))"
  by (simp add: disk_plain_def to_file_def)

lemma boot_rows_of_file:
  assumes "disk_ok f"
  shows "rows_of (boot now f tm) t = (case f of Some (Parsed m ts) \<Rightarrow> the (ts t) | _ \<Rightarrow> [])"
    "next_of (boot now f tm) t = (case f of Some (Parsed (Some (ni, _)) ts) \<Rightarrow>
       (case ni t of None \<Rightarrow> 1 | Some n \<Rightarrow> if n = 0 then 1 else n) | _ \<Rightarrow> 1)"
  using assms
  by (auto simp: disk_ok_def boot_def rows_of_def next_of_def load_data_def rows_in_def data_of_def
      next_id_of_def save_data_sync_def set_cache_copy_def on_meta_def json_data_def default_data_def Let_def)

lemma saved_boot:
  assumes "disk_ok f" "disk_plain f"
  shows "saved (boot now f tm)"
proof -
  have "map json_row (rows_of (boot now f tm) t) = rows_of (boot now f tm) t" for t
    using assms by (auto simp: boot_rows_of_file disk_ok_def disk_plain_def)
  moreover have "disk (boot now f tm) = f"
    by (simp add: boot_def)
  ultimately show ?thesis
    using assms(1) by (simp add: saved_def same_tables_def boot_rows_of_file)
qed

lemma saved_cong:
  assumes "saved st" "disk st' = disk st"
    and "\<And>t. mset (map json_row (rows_of st' t)) = mset (map json_row (rows_of st t)) \<and> next_of st' t = next_of st t"
  shows "saved st'"
  using assms by (simp add: saved_def same_tables_def)

lemma saved_written:
  "disk st = Some (to_file d) \<Longrightarrow> cache st = Some d' \<Longrightarrow> tbl d' = tbl d \<Longrightarrow> nextIds d' = nextIds d \<Longrightarrow> saved st"
  using next_of_loaded [of st]
  by (simp add: saved_def same_tables_def reboot_rows reboot_next rows_of_loaded next_id_of_def data_of_def)

lemma clean_load:
  assumes "clean_inv st"
  shows "clean_inv (load_data now st)"
proof (cases "cache st")
  case None
  have inv: "store_inv st" and plain: "disk_plain (disk st)"
    using assms by (simp_all add: clean_inv_def)
  with None assms have sv: "saved st"
    by (auto simp: clean_inv_def store_inv_def)
  show ?thesis
  proof (cases "disk st")
    case None
    with \<open>cache st = None\<close> have l: "load_data now st = save_data_sync now (set_cache_copy (defaults st) st)"
      by (simp add: load_data_def)
    obtain d where c: "cache (load_data now st) = Some d" and w: "disk (load_data now st) = Some (to_file d)"
      unfolding l by (simp add: save_data_sync_def on_meta_def set_cache_copy_def Let_def)
    show ?thesis
      using inv_load [OF inv] saved_written [OF w c]
      by (simp add: clean_inv_def w disk_plain_to_file)
  next
    case (Some f)
    then have d: "disk (load_data now st) = disk st"
      using \<open>cache st = None\<close>
      by (auto simp: load_data_def set_cache_copy_def Let_def split: file_content.splits prod.splits)
    show ?thesis
      using inv_load [OF inv] plain saved_cong [OF sv d] by (simp add: clean_inv_def d)
  qed
qed (use assms in \<open>simp add: load_data_id\<close>)

lemma clean_op:
  assumes "clean_inv st" "store_inv st'" "op_frame now st st'"
    and "\<not> dirty st' \<Longrightarrow> \<not> dirty (load_data now st) \<and>
       (\<forall>t. mset (rows_of st' t) = mset (rows_of st t) \<and> next_of st' t = next_of st t)"
  shows "clean_inv st'"
proof -
  have l: "clean_inv (load_data now st)"
    using assms(1) by (rule clean_load)
  then have d: "disk st' = disk (load_data now st)"
    using assms(3) by (auto simp: clean_inv_def store_inv_def op_frame_def same_base_def)
  have "saved st'" if "\<not> dirty st'"
  proof (rule saved_cong [OF _ d])
    show "saved (load_data now st)"
      using l assms(4) [OF that] by (simp add: clean_inv_def)
    show "mset (map json_row (rows_of st' t)) = mset (map json_row (rows_of (load_data now st) t)) \<and>
        next_of st' t = next_of (load_data now st) t" for t
      using assms(4) [OF that] by simp
  qed
  with l d assms(2) show ?thesis
    by (simp add: clean_inv_def)
qed

lemma clean_flush:
  assumes "clean_inv st"
  shows "clean_inv (flush_now now st) \<and> clean_inv (timer_fire now st) \<and>
    saved (flush_now now st) \<and> saved (timer_fire now st)"
proof -
  have eq: "timer_fire now st = flush_now now st"
    by (simp add: timer_fire_def flush_now_def)
  have inv: "store_inv (flush_now now st)"
    using assms inv_flush by (simp add: clean_inv_def)
  show ?thesis
  proof (cases "dirty st")
    case True
    then obtain d where d: "cache st = Some d"
      using assms by (auto simp: clean_inv_def store_inv_def)
    let ?d = "d\<lparr>updatedAt := now\<rparr>"
    from d True have w: "disk (flush_now now st) = Some (to_file ?d)" "cache (flush_now now st) = Some ?d"
      by (simp_all add: flush_now_def save_data_sync_def on_meta_def Let_def)
    with inv saved_written [OF w] show ?thesis
      by (simp add: eq clean_inv_def disk_plain_to_file)
  next
    case False
    then have d: "disk (flush_now now st) = disk st"
      by (simp add: flush_now_def)
    have "saved (flush_now now st)"
      by (rule saved_cong [OF _ d]) (use False assms in \<open>simp_all add: clean_inv_def flush_result\<close>)
    with inv assms d show ?thesis
      by (simp add: eq clean_inv_def)
  qed
qed

lemma clean_step_inv:
  assumes "fs_step st st'" "clean_inv st"
  shows "clean_inv st'"
proof -
  have inv: "store_inv st'"
    using assms fs_step_inv by (simp add: clean_inv_def)
  note op = clean_op [OF assms(2)]
  from assms(1) show ?thesis
  proof cases
    case (step_load now)
    then show ?thesis using assms(2) by (simp add: clean_load)
  next
    case (step_insert r now t)
    with inv show ?thesis using op [OF _ frame_insert] insert_dirty by blast
  next
    case (step_update u now t i)
    show ?thesis
      using inv unfolding step_update(1)
      by (rule op [OF _ frame_update]) (simp add: store_update_def Let_def split: option.splits)
  next
    case (step_update_where u now t p)
    show ?thesis
      using inv unfolding step_update_where(1)
    proof (rule op [OF _ frame_update_where])
      assume nd: "\<not> dirty (snd (update_where now t p u st))"
      then have "filter p (rows_of st t) = []"
        by (simp add: update_where_def Let_def split: if_splits)
      then have "map (\<lambda>r. if p r then touched now u r else r) (rows_of st t) = rows_of st t"
        by (intro map_idI) (auto simp: filter_empty_conv)
      then show "\<not> dirty (load_data now st) \<and> (\<forall>t'. mset (rows_of (snd (update_where now t p u st)) t') =
          mset (rows_of st t') \<and> next_of (snd (update_where now t p u st)) t' = next_of st t')"
        using nd by (simp add: update_where_result) (simp add: update_where_def Let_def split: if_splits)
    qed
  next
    case (step_remove now t i)
    show ?thesis
      using inv unfolding step_remove
      by (rule op [OF _ frame_remove]) (simp add: store_remove_def Let_def split: option.splits)
  next
    case (step_remove_where now t p)
    show ?thesis
      using inv unfolding step_remove_where
    proof (rule op [OF _ frame_remove_where])
      assume nd: "\<not> dirty (snd (remove_where now t p st))"
      then have "\<not> length (filter (\<lambda>r. \<not> p r) (rows_of st t)) < length (rows_of st t)"
        by (simp add: remove_where_def Let_def split: if_splits)
      then have "filter (\<lambda>r. \<not> p r) (rows_of st t) = rows_of st t"
        by (metis filter_id_conv length_filter_less linorder_neqE_nat not_less)
      then show "\<not> dirty (load_data now st) \<and> (\<forall>t'. mset (rows_of (snd (remove_where now t p st)) t') =
          mset (rows_of st t') \<and> next_of (snd (remove_where now t p st)) t' = next_of st t')"
        using nd by (simp add: remove_where_result) (simp add: remove_where_def Let_def split: if_splits)
    qed
  next
    case (step_next_id now t)
    with inv show ?thesis
      using op [OF _ frame_next_id] by (auto simp: next_id_def Let_def)
  next
    case (step_sort t c now)
    show ?thesis
      using inv unfolding step_sort
      by (rule op [OF _ frame_sort])
        (auto simp: sort_table_def rows_of_on_rows next_of_on_rows load_data_loaded mset_js_sort)
  next
    case (step_restart now)
    have "store_inv st" "disk_plain (disk st)"
      using assms(2) by (simp_all add: clean_inv_def)
    then show ?thesis
      using inv saved_boot unfolding step_restart
      by (auto simp: clean_inv_def store_inv_def boot_def)
  qed (use assms(2) clean_flush in auto)
qed

lemma clean_steps_inv: "fs_step\<^sup>*\<^sup>* st st' \<Longrightarrow> clean_inv st \<Longrightarrow> clean_inv st'"
  by (induction rule: rtranclp_induct) (auto dest: clean_step_inv)

lemma clean_runs: "clean st \<Longrightarrow> clean_inv st"
proof (induction rule: clean.induct)
  case (clean_fresh now)
  have "saved (boot now None None)"
    by (rule saved_boot) (simp_all add: disk_ok_def disk_plain_def)
  moreover have "store_inv (boot now None None)"
    by (rule boot_inv) (simp add: disk_ok_def)
  ultimately show ?case
    by (simp add: clean_inv_def disk_plain_def boot_def)
next
  case (clean_step st st')
  then show ?case by (simp add: clean_step_inv)
next
  case (clean_commit st now st1)
  then have "clean_inv (flush_now now st1)"
    using clean_flush clean_steps_inv clean_load by blast
  then show ?case
    by (simp add: with_transaction_def Let_def)
next
  case (clean_abort st now st1 e)
  let ?fn = "\<lambda>_. (Inl e :: js_error + unit, st1)"
  let ?st' = "snd (with_transaction now ?fn st)"
  have l: "clean_inv (load_data now st)"
    using clean_abort.IH by (rule clean_load)
  have "txn_step st ?st'"
    using clean_abort.hyps by (intro txn_abort)
  then have "store_inv ?st'"
    using clean_abort.IH txn_step_inv by (simp add: clean_inv_def)
  moreover have d: "disk ?st' = disk (load_data now st)"
    using clean_abort.hyps by (simp add: with_transaction_def Let_def set_cache_copy_def)
  moreover have "saved ?st'"
  proof (rule saved_cong [OF _ d])
    show "saved (load_data now st)"
      using l clean_abort.hyps by (simp add: clean_inv_def)
    show "mset (map json_row (rows_of ?st' t)) = mset (map json_row (rows_of (load_data now st) t)) \<and>
        next_of ?st' t = next_of (load_data now st) t" for t
      using rollback_view [of ?fn now st e st1 t] by (simp add: o_def)
  qed
  ultimately show ?case
    using l by (simp add: clean_inv_def)
qed

section \<open>Properties\<close>

text \<open>C1. For every sequence of store operations, timer callbacks and flushes, reading the tables
  afterwards gives what the same operations give on plain tables: caching and delayed writing are
  invisible to readers.\<close>

theorem store_refines_tables:
  "view (foldl (\<lambda>s opn. run_op opn s) st ops) = foldl (\<lambda>v opn. abs_op opn v) (view st) ops"
  by (induction ops arbitrary: st) (simp_all add: run_op_view)

text \<open>In every reachable state two rows of a table with the same id are the same row, and every
  id is below the id the next insert will take, through inserts, updates, removals, sorts, timers,
  transactions that commit or fail, and restarts.\<close>

theorem row_ids_unique:
  assumes "reachable st" "r \<in> set (rows_of st t)"
  shows "(\<exists>k. fld r ''id'' = VNat k \<and> 1 \<le> k \<and> k < next_of st t) \<and>
    (\<forall>r' \<in> set (rows_of st t). fld r' ''id'' = fld r ''id'' \<longrightarrow> r' = r)"
proof -
  have "store_inv (load_data [] st)"
    using assms(1) by (intro inv_load reachable_inv)
  then have "ids_ok (rows_of st t) (next_of st t)"
    using inv_loaded_iff [OF load_data_loaded [of "[]" st]] by (simp add: store_inv_def rows_ok_def)
  with assms(2) show ?thesis
    using ids_ok_unique [of "rows_of st t" "next_of st t"] by (auto simp: ids_ok_def)
qed

theorem row_ids_unique_witness:
  "let st = snd (store_insert ''t'' Orders [] (boot ''t'' None None))
   in \<exists>k. fld (hd (rows_of st Orders)) ''id'' = VNat k \<and> 1 \<le> k \<and> k < next_of st Orders"
proof -
  let ?s0 = "boot ''t'' None None"
  let ?st = "snd (store_insert ''t'' Orders [] ?s0)"
  have r: "reachable ?st"
    by (rule reach_step [OF reach_fresh txn_base [OF step_insert]]) (simp add: keys_ok_def)
  have m: "hd (rows_of ?st Orders) \<in> set (rows_of ?st Orders)"
    by (rule hd_in_set) (simp add: store_insert_result)
  show ?thesis
    using row_ids_unique [OF r m] by (simp add: Let_def)
qed


definition one_order_unsaved :: fs_state where
  "one_order_unsaved = snd (store_insert ''t'' Orders [] (boot ''t'' None None))"

lemma one_order_clean: "clean one_order_unsaved"
  unfolding one_order_unsaved_def
  by (rule clean_step [OF clean_fresh step_insert]) (simp add: keys_ok_def)

lemma one_order_disk: "disk one_order_unsaved = Some (to_file (default_data ''t''))"
  by (simp add: one_order_unsaved_def store_insert_def next_id_def load_data_def boot_def fs_data_defs
      default_data_def Let_def to_file_def)

lemma one_order_not_saved: "\<not> saved one_order_unsaved"
proof -
  have "length (rows_of one_order_unsaved Orders) = 1"
    by (simp add: one_order_unsaved_def store_insert_result)
  moreover have "rows_of (boot ''w'' (disk one_order_unsaved) None) Orders = []"
    by (simp add: one_order_disk reboot_rows default_data_def)
  ultimately have "\<not> same_tables (boot ''w'' (disk one_order_unsaved) None) one_order_unsaved"
    unfolding same_tables_def by (metis One_nat_def Zero_not_Suc length_map list.size(3) size_mset)
  then show ?thesis
    by (auto simp: saved_def)
qed


text \<open>C3. A save is atomic: wherever a crash stops its file operations, and in whatever pieces the
  text was being written, the data file holds the old text or the complete new one, so a process
  started after the crash reads the old tables or the saved ones, never the empty defaults that
  \<open>loadData\<close> puts in place of a torn file; when all operations ran, the data file reads as
  \<open>saveDataSync\<close> leaves it and the temporary file is gone.  \<open>json\<close> is the JSON text of a store and
  \<open>parse\<close> what a text reads as; they are used only through the assumption that the text being saved
  reads back as the stored data.\<close>

theorem save_is_atomic:
  assumes "cache st = Some d" "disk st = map_option parse (fs Data_file)"
    and "concat pieces = json (d\<lparr>updatedAt := now\<rparr>)"
    and reads_back: "parse (json (d\<lparr>updatedAt := now\<rparr>)) = to_file (d\<lparr>updatedAt := now\<rparr>)"
  shows "run_file_ops fs (take n (save_file_ops pieces)) Data_file \<in> {fs Data_file, Some (concat pieces)} \<and>
    rows_of (boot now' (map_option parse (run_file_ops fs (take n (save_file_ops pieces)) Data_file)) tm) t
      \<in> {rows_of (boot now' (disk st) tm) t, map json_row (rows_of st t)} \<and>
    map_option parse (run_file_ops fs (save_file_ops pieces) Data_file) = disk (save_data_sync now st) \<and>
    run_file_ops fs (save_file_ops pieces) Tmp_file = None"
proof -
  have new: "map_option parse (Some (concat pieces)) = Some (to_file (d\<lparr>updatedAt := now\<rparr>))"
    using assms(3) reads_back by simp
  have all: "run_file_ops fs (save_file_ops pieces) Data_file = Some (concat pieces)"
    "run_file_ops fs (save_file_ops pieces) Tmp_file = None"
    by (simp_all add: save_file_ops_def write_file_sync_result)
  have "rows_of (boot now' (map_option parse (Some (concat pieces))) tm) t = map json_row (rows_of st t)"
    using assms(1) unfolding new by (simp add: reboot_rows rows_of_loaded)
  then show ?thesis
    using assms(2) all new disk_save [OF assms(1), of now] by (auto simp: save_file_ops_prefix)
qed

definition sample_text :: "store_data \<Rightarrow> string" where
  "sample_text d = (if tbl d Orders = [] then ''{}'' else ''{orders}'')"

definition sample_parse :: "store_data \<Rightarrow> string \<Rightarrow> file_content" where
  "sample_parse d s = (if s = ''{orders}'' then to_file d
     else if s = ''{}'' then to_file (default_data ''t'') else Garbage)"

text \<open>The witness saves one order over an empty file and is cut off after half of the text.\<close>

theorem save_is_atomic_witness:
  "let d = the (cache one_order_unsaved); d' = d\<lparr>updatedAt := ''u''\<rparr>;
       fs = (\<lambda>f. if f = Data_file then Some ''{}'' else None);
       fs' = run_file_ops fs (take 2 (save_file_ops [''{ord'', ''ers}'']))
   in fs' Tmp_file = Some ''{ord'' \<and> sample_parse d' ''{ord'' = Garbage \<and> fs' Data_file = Some ''{}'' \<and>
      map_option (sample_parse d') (run_file_ops fs (save_file_ops [''{ord'', ''ers}'']) Data_file)
        = disk (save_data_sync ''u'' one_order_unsaved)"
proof -
  obtain d where d: "cache one_order_unsaved = Some d"
    using insert_loaded by (fastforce simp: one_order_unsaved_def)
  let ?d = "d\<lparr>updatedAt := ''u''\<rparr>"
  have "length (tbl d Orders) = 1"
    using rows_of_loaded [OF d, of Orders, symmetric] by (simp add: one_order_unsaved_def store_insert_result)
  then have t: "sample_text ?d = ''{orders}''"
    by (auto simp: sample_text_def)
  let ?fs = "\<lambda>f. if f = Data_file then Some ''{}'' else None"
  have "disk one_order_unsaved = map_option (sample_parse ?d) (?fs Data_file)"
    by (simp add: one_order_disk sample_parse_def)
  note atomic = save_is_atomic [where json = sample_text and parse = "sample_parse ?d" and
      pieces = "[''{ord'', ''ers}'']" and n = 2 and fs = ?fs, OF d this]
  show ?thesis
    using atomic by (simp add: t d Let_def sample_parse_def)
      (simp add: save_file_ops_def write_file_sync_def)
qed


text \<open>The witness flushes an order after a transaction that failed with nothing unsaved.\<close>

definition failed_then_order :: fs_state where
  "failed_then_order = snd (store_insert ''t'' Orders []
     (snd (with_transaction ''t'' (\<lambda>_. (Inl TypeError :: js_error + unit,
        load_data ''t'' (boot ''t'' None None))) (boot ''t'' None None))))"


text \<open>C5. A transaction whose callback throws leaves every table as the JSON copy of what it was
  before, gives back its id counters, reports the error and stops the pending flush.\<close>

theorem failed_transaction_rolls_back:
  assumes "fst (fn (load_data now st)) = Inl e"
  shows "fst (with_transaction now fn st) = Inl e \<and>
    rows_of (snd (with_transaction now fn st)) t = map json_row (rows_of st t) \<and>
    next_of (snd (with_transaction now fn st)) t = next_of st t"
proof -
  obtain st1 where f: "fn (load_data now st) = (Inl e, st1)"
    using assms by (metis prod.collapse)
  then show ?thesis
    by (simp add: rollback_view) (simp add: with_transaction_def Let_def)
qed

theorem failed_transaction_rolls_back_witness:
  "rows_of (snd (with_transaction ''t'' (\<lambda>s. (Inl TypeError :: js_error + unit,
     snd (store_insert ''t'' Orders [] s))) (boot ''t'' None None))) Orders = []"
  using failed_transaction_rolls_back [of "\<lambda>s. (Inl TypeError :: js_error + unit,
      snd (store_insert ''t'' Orders [] s))" "''t''" "boot ''t'' None None" TypeError Orders]
  by simp

text \<open>A successful transaction leaves nothing pending: its result is returned, the tables are
  those its callback left, and, when it changed something, the data file holds them.\<close>

theorem committed_transaction_is_written:
  assumes "fn (load_data now st) = (Inr x, st1)" "cache st1 = Some d"
  shows "fst (with_transaction now fn st) = Inr x \<and>
    rows_of (snd (with_transaction now fn st)) t = rows_of st1 t \<and>
    \<not> dirty (snd (with_transaction now fn st)) \<and>
    (dirty st1 \<longrightarrow> disk (snd (with_transaction now fn st)) = Some (to_file (d\<lparr>updatedAt := now\<rparr>)))"
proof -
  have w: "with_transaction now fn st = (Inr x, flush_now now st1)"
    using assms(1) by (simp add: with_transaction_def Let_def)
  show ?thesis
    using assms(2)
    by (simp add: w flush_result) (simp add: flush_now_def Let_def save_data_sync_def on_meta_def)
qed

theorem committed_transaction_is_written_witness:
  "fst (with_transaction ''t'' (\<lambda>s. (Inr (5::nat), s))
     ((boot ''t'' None None)\<lparr>cache := Some (default_data ''t'')\<rparr>)) = Inr 5"
  using committed_transaction_is_written [of "\<lambda>s. (Inr (5::nat), s)" "''t''"
      "(boot ''t'' None None)\<lparr>cache := Some (default_data ''t'')\<rparr>" 5
      "(boot ''t'' None None)\<lparr>cache := Some (default_data ''t'')\<rparr>" "default_data ''t''"]
  by (simp add: load_data_id boot_def)

text \<open>The rollback also clears the dirty flag of changes made before the transaction began: they
  stay in memory, but neither the timer nor a flush writes them, so the data file keeps what the
  callback left there and a restart loses them.\<close>

theorem rollback_strands_earlier_changes:
  assumes "fst (fn (load_data now st)) = Inl e"
  shows "disk (timer_fire now' (snd (with_transaction now fn st))) = disk (snd (fn (load_data now st))) \<and>
    disk (flush_now now' (snd (with_transaction now fn st))) = disk (snd (fn (load_data now st)))"
proof -
  obtain st1 where "fn (load_data now st) = (Inl e, st1)"
    using assms by (metis prod.collapse)
  then show ?thesis
    by (simp add: with_transaction_def Let_def timer_fire_def flush_now_def set_cache_copy_def)
qed

definition stranded_example :: fs_state where
  "stranded_example = snd (with_transaction ''t'' (\<lambda>s. (Inl TypeError :: js_error + unit, s))
     (snd (store_insert ''t'' Orders [] (load_data ''t'' (boot ''t'' None None)))))"

theorem rollback_strands_earlier_changes_witness:
  "length (rows_of stranded_example Orders) = 1 \<and>
   rows_of (boot ''w'' (disk (timer_fire ''v'' stranded_example)) None) Orders = []"
proof -
  let ?s = "snd (store_insert ''t'' Orders [] (load_data ''t'' (boot ''t'' None None)))"
  have d: "disk (timer_fire ''v'' stranded_example) = disk ?s"
    using rollback_strands_earlier_changes [of "\<lambda>s. (Inl TypeError :: js_error + unit, s)" "''t''" ?s
        TypeError "''v''"]
    by (simp add: stranded_example_def load_data_id [OF insert_loaded])
  have k: "disk ?s = Some (to_file (default_data ''t''))"
    by (simp add: store_insert_def next_id_def load_data_def boot_def fs_data_defs default_data_def
        Let_def to_file_def)
  have "length (rows_of stranded_example Orders) = 1"
    unfolding stranded_example_def
    by (subst rollback_view(1)) (simp_all add: store_insert_result)
  with d k show ?thesis
    by (simp add: reboot_rows default_data_def)
qed

end
