(* ===== verification/Properties_Repo.thy ===== *)
theory Properties_Repo
  imports Listing Store_Durability
begin

text \<open>
  The property repository, \<^verbatim>\<open>src/src/storage/repositories/properties.ts\<close>: auctioned homes, their
  listings for the administration and for the mall, their detail page, bulk import.
\<close>

section \<open>Interfaces\<close>

definition property_strings :: "string list" where
  "property_strings =
     [''auction_time'', ''bidding_phase'', ''detail_address'', ''building_area'', ''house_type'',
      ''floor_info'', ''building_year'', ''decoration_status'', ''property_status'', ''holding_years'',
      ''property_type'', ''starting_price'', ''starting_unit_price'', ''auction_platform'',
      ''auction_deposit'', ''price_increment'', ''evaluation_total_price'', ''evaluation_unit_price'',
      ''loan_70_percent'', ''loan_80_percent'', ''loan_90_percent'', ''market_total_price'',
      ''market_unit_price'', ''school_district'', ''business_circle'', ''profit_space'', ''auth_code'',
      ''deed_tax_rate'', ''deed_tax_amount'', ''vat_rate'', ''vat_amount'', ''income_tax_rate'',
      ''income_tax_amount'', ''customer_name'', ''customer_phone'', ''customer_survey_brief'',
      ''assigned_salesman'', ''unionID'', ''openID'', ''cover_url'', ''images'', ''description'',
      ''created_at'', ''updated_at'']"

definition property_iface :: iface where
  "property_iface =
     [(''id'', JNumber, Required), (''community_name'', JString, Required)] @
     map (\<lambda>k. (k, JString, Optional)) property_strings @
     map (\<lambda>k. (k, JNumber, Optional))
       [''price_cent'', ''status'', ''is_featured'', ''sort_order'', ''stock'', ''category_id''] @
     [(''module_config'', JStringOrObject, Optional)]"

record property_query =
  yq_page :: "int option"
  yq_pageSize :: "int option"
  yq_communityName :: "string option"
  yq_customerPhone :: "string option"
  yq_authCode :: "string option"
  yq_startAt :: "string option"
  yq_endAt :: "string option"
  yq_keyword :: "string option"
  yq_categoryId :: val
  yq_status :: val

definition no_property_query :: property_query where
  "no_property_query =
     \<lparr>yq_page = None, yq_pageSize = None, yq_communityName = None, yq_customerPhone = None,
      yq_authCode = None, yq_startAt = None, yq_endAt = None, yq_keyword = None,
      yq_categoryId = VUndef, yq_status = VUndef\<rparr>"

section \<open>Listing\<close>

definition property_cmp :: "row \<Rightarrow> row \<Rightarrow> rat" where
  "property_cmp = cmp_num0_desc ''is_featured'' (cmp_num0_desc ''sort_order'' cmp_created_desc)"

definition created_from :: "string \<Rightarrow> row \<Rightarrow> bool" where
  "created_from s r = (let c = fld r ''created_at'' in truthy c \<and> js_leq (VStr s) c)"

definition created_until :: "string \<Rightarrow> row \<Rightarrow> bool" where
  "created_until s r = (let c = fld r ''created_at'' in truthy c \<and> js_leq c (VStr s))"

definition wants_category :: "val \<Rightarrow> bool" where
  "wants_category v \<longleftrightarrow> truthy v \<and> js_less (VNum 0) v"

definition property_filter :: "property_query \<Rightarrow> row list \<Rightarrow> js_error + row list" where
  "property_filter q rs =
     bindE (filter_if (str_truthy (yq_communityName q))
       (\<lambda>r. lower_includes (fld r ''community_name'') (to_lower (str_of (yq_communityName q)))) rs) (\<lambda>rs.
     bindE (filter_if (str_truthy (yq_customerPhone q))
       (\<lambda>r. opt_includes (fld r ''customer_phone'') (str_of (yq_customerPhone q))) rs) (\<lambda>rs.
     bindE (filter_if (str_truthy (yq_authCode q))
       (\<lambda>r. opt_includes (fld r ''auth_code'') (str_of (yq_authCode q))) rs) (\<lambda>rs.
     bindE (filter_if (str_truthy (yq_startAt q)) (\<lambda>r. Inr (created_from (str_of (yq_startAt q)) r)) rs) (\<lambda>rs.
     bindE (filter_if (str_truthy (yq_endAt q)) (\<lambda>r. Inr (created_until (str_of (yq_endAt q)) r)) rs) (\<lambda>rs.
     bindE (filter_if (str_truthy (yq_keyword q))
       (\<lambda>r. orE (lower_includes (fld r ''community_name'') (to_lower (str_of (yq_keyword q))))
                 (lower_includes (fld r ''detail_address'') (to_lower (str_of (yq_keyword q))))) rs) (\<lambda>rs.
     bindE (filter_if (wants_category (yq_categoryId q))
       (\<lambda>r. Inr (strict_eq (fld r ''category_id'') (yq_categoryId q))) rs) (\<lambda>rs.
     filter_if (yq_status q \<noteq> VUndef) (\<lambda>r. Inr (strict_eq (fld r ''status'') (yq_status q))) rs)))))))"

definition property_filtered :: "property_query \<Rightarrow> bool" where
  "property_filtered q \<longleftrightarrow>
     str_truthy (yq_communityName q) \<or> str_truthy (yq_customerPhone q) \<or> str_truthy (yq_authCode q) \<or>
     str_truthy (yq_startAt q) \<or> str_truthy (yq_endAt q) \<or> str_truthy (yq_keyword q) \<or>
     wants_category (yq_categoryId q) \<or> yq_status q \<noteq> VUndef"

definition properties_list ::
  "string \<Rightarrow> property_query \<Rightarrow> fs_state \<Rightarrow> (js_error + nat \<times> row list) \<times> fs_state" where
  "properties_list now q st =
     list_page now Properties (property_filtered q) (property_filter q) property_cmp
       (yq_page q) (yq_pageSize q) st"

section \<open>The mall\<close>

definition property_title :: "row \<Rightarrow> val" where
  "property_title r =
     (let t = trim (js_to_string (js_or (fld r ''community_name'') (VStr [])) @ '' '' @
                    js_to_string (js_or (fld r ''house_type'') (VStr [])))
      in js_or (VStr t) (VStr title_property))"

definition copy_fields :: "string list \<Rightarrow> row \<Rightarrow> row" where
  "copy_fields ks r = map (\<lambda>k. (k, fld r k)) ks"

definition mall_card :: "row \<Rightarrow> row" where
  "mall_card r =
     [(''id'', fld r ''id''), (''title'', property_title r),
      (''community_name'', fld r ''community_name''),
      (''subtitle'', js_or (fld r ''detail_address'') (VStr [])),
      (''price_cent'', to_num (js_or (fld r ''price_cent'') (VNum 0)))] @
     copy_fields [''cover_url'', ''building_area'', ''floor_info'', ''house_type'', ''starting_price'',
       ''evaluation_total_price'', ''school_district'', ''business_circle'', ''auction_time'',
       ''bidding_phase'', ''profit_space''] r @
     [(''stock'', to_num (js_or (fld r ''stock'') (VNum 1))),
      (''is_featured'', to_num (js_or (fld r ''is_featured'') (VNum 0))),
      (''created_at'', fld r ''created_at'')]"

definition list_mall ::
  "string \<Rightarrow> property_query \<Rightarrow> fs_state \<Rightarrow> (js_error + nat \<times> row list) \<times> fs_state" where
  "list_mall now q st =
     (case properties_list now (q\<lparr>yq_status := VNum 1\<rparr>) st of
        (Inl e, st1) \<Rightarrow> (Inl e, st1)
      | (Inr (n, rs), st1) \<Rightarrow> (Inr (n, map mall_card rs), st1))"

definition images_of :: "row \<Rightarrow> val" where
  "images_of r =
     (case fld r ''images'' of
        VStr s \<Rightarrow>
          (if s = [] then VArr []
           else case json_parse s of
                  Some v \<Rightarrow> v
                | None \<Rightarrow> VArr (map VStr (filter (\<lambda>t. t \<noteq> []) (map trim (split_on (CHR '','') s)))))
      | _ \<Rightarrow> VArr [])"

definition module_tab :: "string \<Rightarrow> string \<Rightarrow> nat \<Rightarrow> val" where
  "module_tab k n i = VObj [(''key'', VStr k), (''name'', VStr n), (''visible'', VBool True), (''order'', VNat i)]"

definition default_module_config :: val where
  "default_module_config =
     VObj [(''tabs'', VArr [module_tab ''property'' title_property 1, module_tab ''auction'' title_auction 2,
                            module_tab ''loan'' title_loan 3, module_tab ''tax'' title_tax 4])]"

definition module_config_of :: "row \<Rightarrow> val" where
  "module_config_of r =
     (let mc = fld r ''module_config''
      in if truthy mc
         then (case mc of
                 VStr s \<Rightarrow> (case json_parse s of Some v \<Rightarrow> v | None \<Rightarrow> default_module_config)
               | v \<Rightarrow> v)
         else default_module_config)"

definition mall_detail :: "row \<Rightarrow> row" where
  "mall_detail r =
     [(''id'', fld r ''id''), (''title'', property_title r),
      (''price_cent'', to_num (js_or (fld r ''price_cent'') (VNum 0))),
      (''cover_url'', fld r ''cover_url''), (''images'', images_of r),
      (''description'', fld r ''description''),
      (''stock'', to_num (js_or (fld r ''stock'') (VNum 1)))] @
     copy_fields [''community_name'', ''house_type'', ''building_area'', ''floor_info'',
       ''building_year'', ''decoration_status'', ''property_status'', ''property_type'',
       ''detail_address'', ''school_district'', ''business_circle'', ''starting_price'',
       ''starting_unit_price'', ''evaluation_total_price'', ''evaluation_unit_price'',
       ''market_total_price'', ''market_unit_price'', ''loan_70_percent'', ''loan_80_percent'',
       ''loan_90_percent'', ''profit_space'', ''auction_time'', ''bidding_phase'',
       ''auction_platform'', ''auction_deposit'', ''deed_tax_rate'', ''deed_tax_amount'', ''vat_rate'',
       ''vat_amount'', ''income_tax_rate'', ''income_tax_amount''] r @
     [(''module_config'', module_config_of r), (''created_at'', fld r ''created_at''),
      (''updated_at'', fld r ''updated_at'')]"

definition on_sale :: "val \<Rightarrow> row \<Rightarrow> bool" where
  "on_sale i r \<longleftrightarrow> strict_eq (fld r ''id'') i \<and> strict_eq (fld r ''status'') (VNum 1)"

definition find_mall_by_id :: "string \<Rightarrow> val \<Rightarrow> fs_state \<Rightarrow> row option \<times> fs_state" where
  "find_mall_by_id now i st =
     (case store_find_one now Properties (on_sale i) st of
        (None, st1) \<Rightarrow> (None, st1)
      | (Some r, st1) \<Rightarrow> (Some (mall_detail r), st1))"

section \<open>Writing\<close>

definition properties_find_by_id :: "string \<Rightarrow> val \<Rightarrow> fs_state \<Rightarrow> row option \<times> fs_state" where
  "properties_find_by_id now i st = store_find_by_id now Properties i st"

definition property_row :: "row \<Rightarrow> row" where
  "property_row data =
     spread data [(''status'', js_coalesce (fld data ''status'') (VNum 0)),
                  (''is_featured'', js_coalesce (fld data ''is_featured'') (VNum 0)),
                  (''sort_order'', js_coalesce (fld data ''sort_order'') (VNum 0)),
                  (''stock'', js_coalesce (fld data ''stock'') (VNum 1)),
                  (''price_cent'', js_coalesce (fld data ''price_cent'') (VNum 0))]"

definition properties_create :: "string \<Rightarrow> row \<Rightarrow> fs_state \<Rightarrow> row \<times> fs_state" where
  "properties_create now data st = store_insert now Properties (property_row data) st"

definition properties_update :: "string \<Rightarrow> val \<Rightarrow> row \<Rightarrow> fs_state \<Rightarrow> bool \<times> fs_state" where
  "properties_update now i data st = store_update now Properties i data st"

definition properties_remove :: "string \<Rightarrow> val \<Rightarrow> fs_state \<Rightarrow> bool \<times> fs_state" where
  "properties_remove now i st = store_remove now Properties i st"

fun create_all :: "string \<Rightarrow> row list \<Rightarrow> nat \<Rightarrow> fs_state \<Rightarrow> nat \<times> fs_state" where
  "create_all now [] n st = (n, st)"
| "create_all now (r # rs) n st = create_all now rs (Suc n) (snd (properties_create now r st))"

definition bulk_insert :: "string \<Rightarrow> row list \<Rightarrow> fs_state \<Rightarrow> nat \<times> fs_state" where
  "bulk_insert now rs st = (let (n, st1) = create_all now rs 0 st in (n, flush_now now st1))"

text \<open>The names in the order of their first row, each once, then sorted as strings.\<close>

definition cmp_text :: "val \<Rightarrow> val \<Rightarrow> rat" where
  "cmp_text a b = locale_compare (js_to_string a) (js_to_string b)"

definition get_community_names :: "string \<Rightarrow> fs_state \<Rightarrow> val list \<times> fs_state" where
  "get_community_names now st =
     (let (rs, st1) = get_table now Properties st;
          names = rev (remdups (rev (filter truthy (map (\<lambda>r. fld r ''community_name'') rs))))
      in (js_sort cmp_text names, st1))"

definition exists_by_category :: "string \<Rightarrow> val \<Rightarrow> fs_state \<Rightarrow> bool \<times> fs_state" where
  "exists_by_category now c st =
     (case store_find_one now Properties (\<lambda>r. strict_eq (fld r ''category_id'') c) st of
        (None, st1) \<Rightarrow> (False, st1) | (Some _, st1) \<Rightarrow> (True, st1))"

section \<open>Properties of the listings\<close>

lemma property_cmp_contract:
  "js_comparator property_cmp (\<lambda>r. opt_num_field ''is_featured'' r \<and> opt_num_field ''sort_order'' r \<and> True)"
  unfolding property_cmp_def
  by (intro comparator_num0_desc) (rule created.js_comparator_axioms)

interpretation home_order: js_comparator property_cmp
  "\<lambda>r. opt_num_field ''is_featured'' r \<and> opt_num_field ''sort_order'' r \<and> True"
  by (rule property_cmp_contract)

definition ordering_fields_ok :: "fs_state \<Rightarrow> bool" where
  "ordering_fields_ok st \<longleftrightarrow>
     (\<forall>r\<in>set (rows_of st Properties). opt_num_field ''is_featured'' r \<and> opt_num_field ''sort_order'' r)"

lemma bindE_set:
  "bindE (filter_if b p rs) k = Inr ys \<Longrightarrow> (\<And>xs. set xs \<subseteq> set rs \<Longrightarrow> k xs = Inr ys \<Longrightarrow> Q) \<Longrightarrow> Q"
  by (auto simp: bindE_Inr_iff dest: filter_if_set)

text \<open>Whatever filters ran, the answered rows are stored rows, and they have the status asked for.\<close>

lemma property_filter_sound:
  assumes "property_filter q rs = Inr ys"
  shows "set ys \<subseteq> set rs"
    and "yq_status q \<noteq> VUndef \<Longrightarrow> y \<in> set ys \<Longrightarrow> strict_eq (fld y ''status'') (yq_status q)"
proof -
  show "set ys \<subseteq> set rs"
    using assms unfolding property_filter_def
    by (elim bindE_set) (drule filter_if_set, blast)
  show "strict_eq (fld y ''status'') (yq_status q)" if "yq_status q \<noteq> VUndef" "y \<in> set ys"
    using assms that unfolding property_filter_def
    by (elim bindE_set) auto
qed

lemma properties_list_sound:
  assumes "fst (properties_list now q st) = Inr (n, ps)"
  shows "\<exists>ys. property_filter q (rows_of st Properties) = Inr ys \<and> n = length ys \<and>
    ps = paginate (yq_page q) (yq_pageSize q) (js_sort property_cmp ys)"
  using assms by (auto simp: properties_list_def list_page_result split: sum.splits)

text \<open>The mall never shows a home that is not on sale: every card of the mall listing is made from a
  stored property with status 1, in the order featured, sort order, newest; and the detail page of an
  id answers exactly when a property with that id and status 1 is stored.\<close>

theorem mall_shows_only_on_sale:
  assumes "ordering_fields_ok st" "fst (list_mall now q st) = Inr (n, cards)"
  shows "(\<exists>ps. cards = map mall_card ps \<and> sorted_wrt (\<lambda>a b. property_cmp a b \<le> 0) ps \<and>
      (\<forall>r\<in>set ps. r \<in> set (rows_of st Properties) \<and> fld r ''status'' = VNum 1)) \<and>
    (fst (find_mall_by_id now' i st) \<noteq> None \<longleftrightarrow>
      (\<exists>r\<in>set (rows_of st Properties). has_id i r \<and> fld r ''status'' = VNum 1))"
proof -
  obtain ps where ps: "fst (properties_list now (q\<lparr>yq_status := VNum 1\<rparr>) st) = Inr (n, ps)"
    "cards = map mall_card ps"
    using assms(2) by (auto simp: list_mall_def split: prod.splits sum.splits)
  from properties_list_sound [OF ps(1)] obtain ys where
    ys: "property_filter (q\<lparr>yq_status := VNum 1\<rparr>) (rows_of st Properties) = Inr ys"
    "ps = paginate (yq_page q) (yq_pageSize q) (js_sort property_cmp ys)" by auto
  have sub: "set ys \<subseteq> set (rows_of st Properties)"
    "y \<in> set ys \<Longrightarrow> fld y ''status'' = VNum 1" for y
    using property_filter_sound [OF ys(1)] by (auto dest: strict_eqD)
  have "sorted_wrt (\<lambda>a b. property_cmp a b \<le> 0) ps"
    using assms(1) sub unfolding ys(2) ordering_fields_ok_def
    by (intro home_order.page_in_order) auto
  moreover have "\<forall>r\<in>set ps. r \<in> set (rows_of st Properties) \<and> fld r ''status'' = VNum 1"
    using sub set_paginate [of "yq_page q" "yq_pageSize q" "js_sort property_cmp ys"] by (auto simp: ys(2))
  moreover have "fst (find_mall_by_id now' i st) \<noteq> None \<longleftrightarrow>
      (\<exists>r\<in>set (rows_of st Properties). has_id i r \<and> fld r ''status'' = VNum 1)"
    by (auto simp: find_mall_by_id_def on_sale_def has_id_def find_None_iff split: option.splits
        dest!: find_in_set dest: strict_eqD)
  ultimately show ?thesis
    using ps(2) by blast
qed

definition sample_home :: "nat \<Rightarrow> nat \<Rightarrow> row" where
  "sample_home i s = [(''id'', VNat i), (''community_name'', VStr ''H''), (''status'', VNat s)]"

theorem mall_shows_only_on_sale_witness:
  "let st = store_with (\<lambda>t. if t = Properties then [sample_home 1 0, sample_home 2 1] else [])
   in fst (find_mall_by_id ''t'' (VNat 1) st) = None"
proof -
  let ?st = "store_with (\<lambda>t. if t = Properties then [sample_home 1 0, sample_home 2 1] else [])"
  have ok: "ordering_fields_ok ?st"
    by (simp add: ordering_fields_ok_def opt_num_field_def sample_home_def)
  have "\<exists>n cards. fst (list_mall ''t'' no_property_query ?st) = Inr (n, cards)"
    by (simp add: list_mall_def properties_list_def list_page_def Let_def case_prod_beta property_filter_def filter_if_def
        no_property_query_def str_truthy_def wants_category_def)
  then obtain n cards where "fst (list_mall ''t'' no_property_query ?st) = Inr (n, cards)" by blast
  from mall_shows_only_on_sale [OF ok this, of "''t''" "VNat 1"] show ?thesis
    by (simp add: Let_def sample_home_def has_id_def)
qed

section \<open>Bulk import and names\<close>

fun imported :: "string \<Rightarrow> nat \<Rightarrow> row list \<Rightarrow> row list" where
  "imported now i [] = []"
| "imported now i (r # rs) = new_row now i (property_row r) # imported now (Suc i) rs"

lemma create_all_result:
  "fst (create_all now rs n st) = n + length rs"
  "rows_of (snd (create_all now rs n st)) t =
     (if t = Properties then rows_of st t @ imported now (next_of st t) rs else rows_of st t)"
  "next_of (snd (create_all now rs n st)) t =
     (if t = Properties then next_of st t + length rs else next_of st t)"
  by (induction rs arbitrary: n st) (auto simp: properties_create_def store_insert_result)

lemma flush_saves:
  assumes "dirty st" "cache st = Some d"
  shows "\<not> dirty (flush_now now st) \<and> disk (flush_now now st) = Some (to_file (d\<lparr>updatedAt := now\<rparr>))"
  using assms by (simp add: flush_now_def Let_def save_data_sync_def on_meta_def)

lemma create_all_dirty:
  "rs \<noteq> [] \<Longrightarrow> dirty (snd (create_all now rs n st)) \<and> cache (snd (create_all now rs n st)) \<noteq> None"
proof (induction rs arbitrary: n st)
  case (Cons r rs)
  then show ?case
    by (cases rs) (simp_all add: properties_create_def insert_dirty insert_loaded)
qed simp

text \<open>An import of n rows answers n, appends them in order with consecutive ids and the defaults for
  missing fields, touches no other table, and is on disk when it returns.\<close>

theorem bulk_import_complete:
  assumes "rs \<noteq> []"
  shows "fst (bulk_insert now rs st) = length rs \<and>
    (\<forall>t. rows_of (snd (bulk_insert now rs st)) t =
      (if t = Properties then rows_of st t @ imported now (next_of st t) rs else rows_of st t)) \<and>
    \<not> dirty (snd (bulk_insert now rs st)) \<and>
    (\<exists>d. cache (snd (bulk_insert now rs st)) = Some d \<and> disk (snd (bulk_insert now rs st)) = Some (to_file d))"
proof -
  let ?st = "snd (create_all now rs 0 st)"
  obtain d where d: "dirty ?st" "cache ?st = Some d"
    using create_all_dirty [OF assms, of now 0 st] by auto
  have "cache (flush_now now ?st) = Some (d\<lparr>updatedAt := now\<rparr>)"
    using d by (simp add: flush_now_def Let_def save_data_sync_def on_meta_def)
  with flush_saves [OF d, of now] show ?thesis
    by (simp add: bulk_insert_def case_prod_beta create_all_result flush_result)
qed

theorem bulk_import_complete_witness:
  "let st = snd (bulk_insert ''t'' [[(''community_name'', VStr ''H'')]] (store_with (\<lambda>_. [])))
   in map (\<lambda>r. (fld r ''id'', fld r ''stock'')) (rows_of st Properties) = [(VNat 1, VNum 1)]"
  using bulk_import_complete [of "[[(''community_name'', VStr ''H'')]]" "''t''" "store_with (\<lambda>_. [])"]
  by (simp add: Let_def fld_new_row property_row_def js_coalesce_def)

end
