(* ===== verification/Shop_Routes.thy ===== *)
theory Shop_Routes
  imports Jwt Welfare_Repo Products_Repo Catalog_Repo Properties_Repo
begin

text \<open>
  The routes customers use: orders (\<^verbatim>\<open>routes/orders.ts\<close>, \<^verbatim>\<open>routes/api_v1/orders.ts\<close>,
  \<^verbatim>\<open>routes/api_v1/me/orders.ts\<close>), products (\<^verbatim>\<open>routes/products.ts\<close>, \<^verbatim>\<open>routes/api_v1/products.ts\<close>), reviews
  (\<^verbatim>\<open>routes/reviews.ts\<close>), welfare codes (\<^verbatim>\<open>routes/welfare_codes.ts\<close>), the mall
  (\<^verbatim>\<open>routes/api_v1/properties_mall.ts\<close>) and the placeholder routes of points, the redemption catalogue,
  redemption orders and shipping quotes (\<^verbatim>\<open>routes/shipping.ts\<close>).  A handler takes the request and the store; the clock reading is \<open>iso e\<close>.
\<close>

section \<open>Schemas\<close>

definition zod_fail :: "call_env \<Rightarrow> string \<Rightarrow> val \<Rightarrow> js_error" where
  "zod_fail e path v = ZodErr path (zod_text e path v)"

definition is_num :: "val \<Rightarrow> bool" where
  "is_num v \<longleftrightarrow> (case v of VNum _ \<Rightarrow> True | VInf _ \<Rightarrow> True | _ \<Rightarrow> False)"

fun is_str :: "val \<Rightarrow> bool" where
  "is_str (VStr _) = True"
| "is_str _ = False"

text \<open>The first issue of one element of \<open>skuItems\<close>, and of the list.\<close>

definition item_issue :: "call_env \<Rightarrow> string \<Rightarrow> val \<Rightarrow> js_error option" where
  "item_issue e path v =
     (case v of
        VObj r \<Rightarrow>
          (if \<not> is_num (fld r ''skuId'') then Some (zod_fail e (path @ ''.skuId'') (fld r ''skuId''))
           else if \<not> is_num (fld r ''quantity'') \<or> num_less (fld r ''quantity'') (VNum 1)
           then Some (zod_fail e (path @ ''.quantity'') (fld r ''quantity''))
           else None)
      | _ \<Rightarrow> Some (zod_fail e path v))"

fun items_issue :: "call_env \<Rightarrow> nat \<Rightarrow> val list \<Rightarrow> js_error option" where
  "items_issue e n [] = None"
| "items_issue e n (v # vs) =
     (case item_issue e (''skuItems.'' @ nat_to_string n) v of
        Some err \<Rightarrow> Some err | None \<Rightarrow> items_issue e (Suc n) vs)"

definition sku_items_issue :: "call_env \<Rightarrow> val \<Rightarrow> js_error option" where
  "sku_items_issue e v =
     (case v of
        VUndef \<Rightarrow> None
      | VArr vs \<Rightarrow> items_issue e 0 vs
      | _ \<Rightarrow> Some (zod_fail e ''skuItems'' v))"

text \<open>\<open>CreateOrderReq.parse\<close>: the first issue in the order of the schema, or the parsed object.\<close>

definition create_order_req :: "call_env \<Rightarrow> val \<Rightarrow> js_error + row" where
  "create_order_req e b =
     (case b of
        VObj r \<Rightarrow>
          (let pid = fld r ''propertyId''; note = fld r ''buyerNote''; inv = fld r ''inviteCode'' in
           if pid \<noteq> VUndef \<and> \<not> is_num pid then Inl (zod_fail e ''propertyId'' pid)
           else case sku_items_issue e (fld r ''skuItems'') of
                  Some err \<Rightarrow> Inl err
                | None \<Rightarrow>
                    if note \<noteq> VUndef \<and> \<not> is_str note then Inl (zod_fail e ''buyerNote'' note)
                    else if inv \<noteq> VUndef \<and> \<not> is_str inv then Inl (zod_fail e ''inviteCode'' inv)
                    else Inr r)
      | _ \<Rightarrow> Inl (zod_fail e [] b))"

definition code_req :: "call_env \<Rightarrow> val \<Rightarrow> js_error + val" where
  "code_req e b =
     (case b of
        VObj r \<Rightarrow>
          (case fld r ''code'' of
             VStr s \<Rightarrow> if s = [] then Inl (zod_fail e ''code'' (VStr s)) else Inr (VStr s)
           | v \<Rightarrow> Inl (zod_fail e ''code'' v))
      | _ \<Rightarrow> Inl (zod_fail e [] b))"

section \<open>Orders\<close>

definition order_brief :: "row \<Rightarrow> row" where
  "order_brief orow = [(''order_no'', fld orow ''order_no''), (''status'', fld orow ''status''),
     (''total_amount'', fld orow ''total_amount'')]"
 
definition post_order :: "call_env \<Rightarrow> request \<Rightarrow> val \<Rightarrow> fs_state action" where
  "post_order e req uid st =
     (case create_order_req e (body req) of
        Inl err \<Rightarrow> (Inl err, st)
      | Inr b \<Rightarrow>
          (let addr = fld b ''addressSnapshot'';
               (orow, st1) = orders_create (order_env.truncate e)
                 [(''user_id'', uid), (''property_id'', fld b ''propertyId''),
                  (''status'', VStr ''PENDING_PAYMENT''), (''total_amount'', VNum 0),
                  (''address_snapshot'', if truthy addr then VStr (json_text addr) else VUndef),
                  (''buyer_note'', fld b ''buyerNote''), (''invite_code'', fld b ''inviteCode'')] st
           in (ok_res (order_brief orow), st1)))"

text \<open>\<open>GET /orders/:orderNo/status\<close> asks for a login but does not compare the owner.\<close>

definition get_order_status :: "call_env \<Rightarrow> request \<Rightarrow> val \<Rightarrow> fs_state action" where
  "get_order_status e req uid st =
     (case find_by_order_no (iso e) (VStr (params req ''orderNo'')) st of
        (None, st1) \<Rightarrow> (Inl (AppErr 404 ''ORDER_NOT_FOUND'' msg_order_missing), st1)
      | (Some orow, st1) \<Rightarrow> (ok_res (order_brief orow), st1))"

definition order_and_items :: "row \<Rightarrow> row list \<Rightarrow> row" where
  "order_and_items orow items = [(''order'', VObj orow), (''items'', VArr (map VObj items))]"

definition get_order :: "call_env \<Rightarrow> request \<Rightarrow> val \<Rightarrow> fs_state action" where
  "get_order e req uid st =
     (let no = VStr (params req ''orderNo'') in
      case find_by_order_no (iso e) no st of
        (None, st1) \<Rightarrow> (Inl (AppErr 404 ''ORDER_NOT_FOUND'' msg_order_missing), st1)
      | (Some orow, st1) \<Rightarrow>
          if \<not> strict_eq (fld orow ''user_id'') uid then (Inl (AppErr 403 ''FORBIDDEN'' msg_order_no_access), st1)
          else (let (items, st2) = get_order_items (iso e) no st1 in (ok_res (order_and_items orow items), st2)))"

definition cancel_order :: "call_env \<Rightarrow> request \<Rightarrow> val \<Rightarrow> fs_state action" where
  "cancel_order e req uid st =
     (let no = VStr (params req ''orderNo'') in
      case find_by_order_no (iso e) no st of
        (None, st1) \<Rightarrow> (Inl (AppErr 404 ''ORDER_NOT_FOUND'' msg_order_missing), st1)
      | (Some orow, st1) \<Rightarrow>
          if \<not> strict_eq (fld orow ''user_id'') uid then (Inl (AppErr 403 ''FORBIDDEN'' msg_order_no_operate), st1)
          else if \<not> strict_eq (fld orow ''status'') (VStr ''PENDING_PAYMENT'')
          then (Inl (AppErr 400 ''CANNOT_CANCEL'' msg_cannot_cancel), st1)
          else (let (_, st2) = update_status (iso e) no (VStr ''CANCELLED'') [] st1;
                    st3 = log_change (iso e) no ''status'' (fld orow ''status'') (VStr ''CANCELLED'') (Some ''user'') st2
                in (ok_res [(''success'', VBool True), (''message'', VStr msg_order_cancelled)], st3)))"

text \<open>The same under \<open>/me/orders\<close>, with its own answers.\<close>

definition my_orders :: "call_env \<Rightarrow> request \<Rightarrow> val \<Rightarrow> fs_state action" where
  "my_orders e req uid st =
     (let page = page_arg_min1 req; ps = page_size_arg req in
      case orders_list (iso e) (no_order_query\<lparr>oq_userId := uid, oq_status := query req ''status'',
             oq_page := page, oq_pageSize := ps\<rparr>) st of
        (Inl err, st1) \<Rightarrow> (Inl err, st1)
      | (Inr (n, os), st1) \<Rightarrow>
          (ok_res [(''total'', VNat n), (''page'', num_of_parse page), (''pageSize'', num_of_parse ps),
                   (''orders'', VArr (map VObj os))], st1))"

definition my_order :: "call_env \<Rightarrow> request \<Rightarrow> val \<Rightarrow> fs_state action" where
  "my_order e req uid st =
     (let no = VStr (params req ''orderNo'') in
      case find_by_order_no (iso e) no st of
        (None, st1) \<Rightarrow>
          (res_status 404 [(''code'', VStr ''NOT_FOUND''), (''message'', VStr msg_order_missing)], st1)
      | (Some orow, st1) \<Rightarrow>
          if \<not> strict_eq (fld orow ''user_id'') uid
          then (res_status 403 [(''code'', VStr ''FORBIDDEN''), (''message'', VStr msg_no_access)], st1)
          else (let (items, st2) = get_order_items (iso e) no st1 in (ok_res (order_and_items orow items), st2)))"

definition my_cancel :: "call_env \<Rightarrow> request \<Rightarrow> val \<Rightarrow> fs_state action" where
  "my_cancel e req uid st =
     (let no = VStr (params req ''orderNo'') in
      case find_by_order_no (iso e) no st of
        (None, st1) \<Rightarrow>
          (res_status 404 [(''code'', VStr ''NOT_FOUND''), (''message'', VStr msg_order_missing)], st1)
      | (Some orow, st1) \<Rightarrow>
          if \<not> strict_eq (fld orow ''user_id'') uid
          then (res_status 403 [(''code'', VStr ''FORBIDDEN''), (''message'', VStr msg_no_operate)], st1)
          else if \<not> strict_eq (fld orow ''status'') (VStr ''PENDING_PAYMENT'')
          then (res_status 400 [(''code'', VStr ''CANNOT_CANCEL''), (''message'', VStr msg_cannot_cancel)], st1)
          else (let (_, st2) = update_status (iso e) no (VStr ''CANCELLED'') [] st1
                in (ok_res [(''success'', VBool True)], st2)))"

section \<open>Products and reviews\<close>

definition positive_or_undef :: "int option \<Rightarrow> val" where
  "positive_or_undef i = (case i of Some n \<Rightarrow> if n > 0 then VInt n else VUndef | None \<Rightarrow> VUndef)"

definition get_products :: "call_env \<Rightarrow> request \<Rightarrow> fs_state action" where
  "get_products e req st =
     (let page = page_arg_min1 req; ps = page_size_arg req;
          cid = parse_int (query_or req ''categoryId'' ''0'') in
      case products_list_enabled (iso e)
             \<lparr>pq_page = page, pq_pageSize = ps, pq_keyword = query req ''keyword'',
              pq_categoryId = positive_or_undef cid, pq_status = VUndef\<rparr> st of
        (Inl err, st1) \<Rightarrow> (Inl err, st1)
      | (Inr (n, rs), st1) \<Rightarrow>
          (ok_res [(''total'', VNat n), (''page'', num_of_parse page), (''pageSize'', num_of_parse ps),
                   (''list'', VArr (map VObj rs))], st1))"

definition get_product :: "call_env \<Rightarrow> request \<Rightarrow> fs_state action" where
  "get_product e req st =
     (let i = id_param req ''id'' in
      case products_find_by_id (iso e) i st of
        (Some p, st1) \<Rightarrow>
          if strict_eq (fld p ''status'') (VNum 1)
          then (let (skus, st2) = get_skus (iso e) i st1
                in (ok_res [(''product'', VObj p), (''skus'', VArr (map VObj skus))], st2))
          else (res_status 404 [(''code'', VStr ''NOT_FOUND''), (''message'', VStr msg_product_missing)], st1)
      | (None, st1) \<Rightarrow>
          (res_status 404 [(''code'', VStr ''NOT_FOUND''), (''message'', VStr msg_product_missing)], st1))"

definition get_reviews :: "call_env \<Rightarrow> request \<Rightarrow> fs_state action" where
  "get_reviews e req st =
     (let pid = parse_int (query_or req ''productId'' ''0''); page = page_arg_min1 req; ps = page_size_arg req in
      case reviews_list (iso e)
             \<lparr>rq_page = page, rq_pageSize = ps, rq_productId = positive_or_undef pid, rq_userId = VUndef,
              rq_status = VNum 1\<rparr> st of
        (Inl err, st1) \<Rightarrow> (Inl err, st1)
      | (Inr (n, rs), st1) \<Rightarrow>
          (ok_res [(''total'', VNat n), (''page'', num_of_parse page), (''pageSize'', num_of_parse ps),
                   (''reviews'', VArr (map VObj rs))], st1))"

definition get_review_stats :: "call_env \<Rightarrow> request \<Rightarrow> fs_state action" where
  "get_review_stats e req st =
     (let pid = id_param req ''productId''; (avg, st1) = get_average_rating (iso e) pid st;
          (c, st2) = get_review_count (iso e) pid st1
      in (ok_res [(''average_rating'', avg), (''review_count'', VNat c)], st2))"

section \<open>Welfare codes\<close>

definition validation_row :: "string + row \<Rightarrow> row" where
  "validation_row v =
     (case v of
        Inl m \<Rightarrow> [(''valid'', VBool False), (''message'', VStr m)]
      | Inr wc \<Rightarrow> [(''valid'', VBool True), (''welfareCode'', VObj wc)])"

definition post_validate :: "call_env \<Rightarrow> request \<Rightarrow> fs_state action" where
  "post_validate e req st =
     (case code_req e (body req) of
        Inl err \<Rightarrow> (Inl err, st)
      | Inr code \<Rightarrow> (let (v, st1) = validate_code (iso e) code st in (ok_res (validation_row v), st1)))"

definition post_use :: "call_env \<Rightarrow> request \<Rightarrow> fs_state action" where
  "post_use e req st =
     (case code_req e (body req) of
        Inl err \<Rightarrow> (Inl err, st)
      | Inr code \<Rightarrow>
          (case validate_code (iso e) code st of
             (Inl m, st1) \<Rightarrow> (res_status 400 (validation_row (Inl m)), st1)
           | (Inr wc, st1) \<Rightarrow>
               (let (b, st2) = use_code (iso e) code st1
                in (ok_res [(''success'', VBool b),
                            (''message'', VStr (if b then msg_code_used else msg_code_use_failed))], st2))))"

section \<open>The mall\<close>

text \<open>\<open>toInt(v, fallback)\<close>; \<open>String(v ?? '')\<close> of a missing parameter is the empty text.\<close>

definition to_int :: "string option \<Rightarrow> int \<Rightarrow> int" where
  "to_int v fallback = (case parse_int (str_of v) of Some n \<Rightarrow> n | None \<Rightarrow> fallback)"

definition get_mall :: "call_env \<Rightarrow> request \<Rightarrow> fs_state action" where
  "get_mall e req st =
     (let page = max (to_int (query req ''page'') 1) 1;
          ps = min (max (to_int (query req ''pageSize'') 20) 1) 100;
          kw = trim (str_of (query req ''keyword''));
          cid = to_int (query req ''categoryId'') 0 in
      case list_mall (iso e) (no_property_query\<lparr>yq_page := Some page, yq_pageSize := Some ps,
             yq_keyword := (if kw = [] then None else Some kw),
             yq_categoryId := (if cid > 0 then VInt cid else VUndef)\<rparr>) st of
        (Inl err, st1) \<Rightarrow> (Inl err, st1)
      | (Inr (n, cards), st1) \<Rightarrow>
          (let l = VArr (map VObj cards)
           in (ok_res [(''total'', VNat n), (''page'', VInt page), (''pageSize'', VInt ps), (''list'', l),
                       (''data'', l), (''properties'', l)], st1)))"

definition get_mall_categories :: "call_env \<Rightarrow> request \<Rightarrow> fs_state action" where
  "get_mall_categories e req st =
     (let (cs, st1) = categories_list_enabled (iso e) st
      in (ok_res [(''categories'', VArr (map VObj cs))], st1))"

definition get_mall_property :: "call_env \<Rightarrow> request \<Rightarrow> fs_state action" where
  "get_mall_property e req st =
     (case find_mall_by_id (iso e) (to_num (VStr (params req ''id''))) st of
        (None, st1) \<Rightarrow>
          (res_status 404 [(''code'', VStr ''NOT_FOUND''), (''message'', VStr msg_property_hidden)], st1)
      | (Some p, st1) \<Rightarrow>
          (ok_res [(''data'', VObj p), (''property'', VObj p), (''skus'', VArr [])], st1))"

section \<open>Placeholders\<close>

definition get_points :: "call_env \<Rightarrow> request \<Rightarrow> fs_state action" where
  "get_points e req st =
     (ok_res [(''available'', VNum 0), (''owed'', VNum 0), (''frozen'', VNum 0), (''lifetimeEarned'', VNum 0),
              (''lifetimeSpent'', VNum 0), (''updatedAt'', VStr (iso e))], st)"

definition get_points_ledger :: "call_env \<Rightarrow> request \<Rightarrow> fs_state action" where
  "get_points_ledger e req st = (ok_res [(''list'', VArr []), (''nextCursor'', VNull)], st)"

definition get_catalog :: "call_env \<Rightarrow> request \<Rightarrow> fs_state action" where
  "get_catalog e req st = (ok_res [(''list'', VArr []), (''total'', VNum 0)], st)"

definition get_catalog_sku :: "call_env \<Rightarrow> request \<Rightarrow> fs_state action" where
  "get_catalog_sku e req st =
     (ok_res [(''id'', to_num (VStr (params req ''id''))), (''spuId'', VNum 0), (''skuTitle'', VStr ''TODO''),
              (''requiredPoints'', VNum 0), (''stock'', VNum 0), (''needAddress'', VBool True),
              (''perUserLimit'', VNull), (''dailyLimit'', VNull), (''status'', VNum 1)], st)"

definition is_pos_int :: "val \<Rightarrow> bool" where
  "is_pos_int v = (case v of VNum x \<Rightarrow> is_int_rat x \<and> 0 < x | _ \<Rightarrow> False)"

text \<open>A schema of positive integers \<open>z.number().int().positive()\<close>.\<close>

fun pos_ints_req :: "call_env \<Rightarrow> string list \<Rightarrow> val \<Rightarrow> js_error + row" where
  "pos_ints_req e [] (VObj r) = Inr r"
| "pos_ints_req e (k # ks) (VObj r) =
     (if is_pos_int (fld r k) then pos_ints_req e ks (VObj r) else Inl (zod_fail e k (fld r k)))"
| "pos_ints_req e ks b = Inl (zod_fail e [] b)"

definition post_redeem_order :: "call_env \<Rightarrow> request \<Rightarrow> fs_state action" where
  "post_redeem_order e req st =
     (case pos_ints_req e [''skuId'', ''addressId''] (body req) of
        Inl err \<Rightarrow> (Inl err, st)
      | Inr b \<Rightarrow>
          (ok_res [(''orderNo'', VStr (''R'' @ int_to_string (now_ms e))), (''status'', VStr ''PENDING_FREIGHT''),
                   (''freightAmountCent'', VNum 1200), (''requiredPoints'', VNum 100),
                   (''payRequired'', VBool True)], st))"

definition needs_order_no :: "request \<Rightarrow> fs_state action \<Rightarrow> fs_state action" where
  "needs_order_no req h st =
     (if params req ''orderNo'' = [] then (Inl (AppErr 400 ''INVALID_PARAMS'' ''orderNo required''), st) else h st)"

text \<open>\<open>PayFreightReq\<close>; \<open>url_ok\<close> says which texts the URL class accepts.\<close>

definition pay_freight_req :: "(string \<Rightarrow> bool) \<Rightarrow> call_env \<Rightarrow> val \<Rightarrow> js_error + row" where
  "pay_freight_req url_ok e b =
     (case b of
        VObj r \<Rightarrow>
          (let scene = fld r ''payScene''; openid = fld r ''wxOpenId''; url = fld r ''returnUrl'' in
           if scene \<notin> {VStr ''JSAPI'', VStr ''MWEB''} then Inl (zod_fail e ''payScene'' scene)
           else if openid \<noteq> VUndef \<and> \<not> is_str openid then Inl (zod_fail e ''wxOpenId'' openid)
           else if (case url of VUndef \<Rightarrow> False | VStr u \<Rightarrow> \<not> url_ok u | _ \<Rightarrow> True)
           then Inl (zod_fail e ''returnUrl'' url)
           else Inr r)
      | _ \<Rightarrow> Inl (zod_fail e [] b))"

definition post_pay_freight :: "(string \<Rightarrow> bool) \<Rightarrow> call_env \<Rightarrow> request \<Rightarrow> fs_state action" where
  "post_pay_freight url_ok e req st =
     (case pay_freight_req url_ok e (body req) of
        Inl err \<Rightarrow> (Inl err, st)
      | Inr b \<Rightarrow> needs_order_no req (\<lambda>s. (ok_res [(''appId'', VStr ''wx123''),
            (''timeStamp'', VStr (int_to_string (now_sec e))), (''nonceStr'', VStr ''nonce''),
            (''package'', VStr ''prepay_id=mock''), (''signType'', VStr ''RSA''),
            (''paySign'', VStr ''signature'')], s)) st)"

definition put_redeem_address :: "call_env \<Rightarrow> request \<Rightarrow> fs_state action" where
  "put_redeem_address e req st =
     (case pos_ints_req e [''addressId''] (body req) of
        Inl err \<Rightarrow> (Inl err, st)
      | Inr b \<Rightarrow> needs_order_no req (\<lambda>s. (ok_res [(''orderNo'', VStr (params req ''orderNo'')),
            (''freightAmountCent'', VNum 1500), (''needNewPay'', VBool True)], s)) st)"

definition post_redeem_cancel :: "call_env \<Rightarrow> request \<Rightarrow> fs_state action" where
  "post_redeem_cancel e req st =
     needs_order_no req (\<lambda>s. (ok_res [(''orderNo'', VStr (params req ''orderNo'')),
       (''status'', VStr ''CANCELLED''), (''refundFreight'', VStr ''APPLIED'')], s)) st"

definition get_redeem_order :: "call_env \<Rightarrow> request \<Rightarrow> fs_state action" where
  "get_redeem_order e req st =
     needs_order_no req (\<lambda>s. (ok_res [(''orderNo'', VStr (params req ''orderNo'')),
       (''status'', VStr ''PENDING_FREIGHT''), (''pointsCost'', VNum 100),
       (''freightAmountCent'', VNum 1200)], s)) st"

section \<open>Shipping\<close>

text \<open>\<open>z.coerce.number().int().positive()\<close> on query parameters; a missing \<open>qty\<close> is 1.\<close>

definition query_val :: "request \<Rightarrow> string \<Rightarrow> val" where
  "query_val req k = (case query req k of None \<Rightarrow> VUndef | Some s \<Rightarrow> VStr s)"

definition quote_issue :: "call_env \<Rightarrow> request \<Rightarrow> js_error option" where
  "quote_issue e req =
     (let bad = (\<lambda>k. \<not> is_pos_int (to_num (query_val req k))) in
      if bad ''skuId'' then Some (zod_fail e ''skuId'' (query_val req ''skuId''))
      else if query req ''qty'' \<noteq> None \<and> bad ''qty'' then Some (zod_fail e ''qty'' (query_val req ''qty''))
      else if bad ''addressId'' then Some (zod_fail e ''addressId'' (query_val req ''addressId''))
      else None)"

text \<open>\<open>GET /quote\<close>; \<open>iso_of_ms\<close> is the ISO text of a time in milliseconds.\<close>

definition get_quote :: "(int \<Rightarrow> string) \<Rightarrow> call_env \<Rightarrow> request \<Rightarrow> fs_state action" where
  "get_quote iso_of_ms e req st =
     (case quote_issue e req of
        Some err \<Rightarrow> (Inl err, st)
      | None \<Rightarrow>
          (ok_res [(''freightAmountCent'', VNum 1200),
             (''expireAt'', VStr (iso_of_ms (now_ms e + 15 * 60 * 1000))), (''carrierOptions'', VArr [])], st))"

end
