(* ===== verification/Users_Repo.thy ===== *)
theory Users_Repo
  imports Interfaces Store_Durability
begin

text \<open>
  The user repository, \<^verbatim>\<open>src/src/storage/repositories/users.ts\<close>: users by WeChat openid, login
  identities per provider, and the merging of identities that carry the same UnionID.  The argument
  objects \<open>params\<close> are rows.
\<close>

section \<open>Interfaces\<close>

definition user_iface :: iface where
  "user_iface =
     [(''id'', JNumber, Required), (''openid'', JString, Required), (''unionid'', JString, Nullable),
      (''phone'', JString, Nullable), (''nickname'', JString, Nullable),
      (''avatar_url'', JString, Nullable), (''created_at'', JString, Required),
      (''updated_at'', JString, Required)]"

definition identity_iface :: iface where
  "identity_iface =
     [(''id'', JNumber, Required), (''user_id'', JNumber, Required),
      (''provider'', JOneOf [''wechat_mp'', ''wechat_mini'', ''wechat_app'', ''phone''], Required),
      (''openid'', JString, Required), (''unionid'', JString, OptNullable),
      (''session_key'', JString, OptNullable), (''created_at'', JString, Optional),
      (''updated_at'', JString, Optional)]"

section \<open>Users by openid\<close>

definition has_openid :: "val \<Rightarrow> row \<Rightarrow> bool" where
  "has_openid v r = strict_eq (fld r ''openid'') v"

text \<open>One of the three conditional assignments \<open>if (params.k && params.k !== user.k) updates.k = params.k\<close>.\<close>

definition changed_field :: "row \<Rightarrow> row \<Rightarrow> string \<Rightarrow> row" where
  "changed_field params user k =
     (if truthy (fld params k) \<and> \<not> strict_eq (fld params k) (fld user k) then [(k, fld params k)] else [])"

definition profile_updates :: "row \<Rightarrow> row \<Rightarrow> row" where
  "profile_updates params user =
     changed_field params user ''unionid'' @ changed_field params user ''nickname'' @
     changed_field params user ''avatar_url''"

definition new_user_row :: "row \<Rightarrow> row" where
  "new_user_row params =
     [(''openid'', fld params ''openid''), (''unionid'', js_or (fld params ''unionid'') VNull),
      (''nickname'', js_or (fld params ''nickname'') VNull),
      (''avatar_url'', js_or (fld params ''avatar_url'') VNull), (''phone'', VNull)]"

definition find_or_create_user :: "string \<Rightarrow> row \<Rightarrow> fs_state \<Rightarrow> row \<times> fs_state" where
  "find_or_create_user now params st =
     (case store_find_one now Users (has_openid (fld params ''openid'')) st of
        (Some user, st1) \<Rightarrow>
          (let updates = profile_updates params user
           in if updates \<noteq> []
              then (spread user updates, snd (store_update now Users (fld user ''id'') updates st1))
              else (user, st1))
      | (None, st1) \<Rightarrow> store_insert now Users (new_user_row params) st1)"

section \<open>Users by identity\<close>

definition is_identity :: "row \<Rightarrow> row \<Rightarrow> bool" where
  "is_identity params r \<longleftrightarrow> strict_eq (fld r ''provider'') (fld params ''provider'') \<and>
     strict_eq (fld r ''openid'') (fld params ''openid'')"

definition has_unionid :: "val \<Rightarrow> row \<Rightarrow> bool" where
  "has_unionid v r = strict_eq (fld r ''unionid'') v"

text \<open>Step 1: a known identity, whose session key is refreshed, with its user when that exists.\<close>

definition known_identity_user :: "string \<Rightarrow> row \<Rightarrow> fs_state \<Rightarrow> row option \<times> fs_state" where
  "known_identity_user now params st =
     (case store_find_one now User_identities (is_identity params) st of
        (None, st1) \<Rightarrow> (None, st1)
      | (Some identity, st1) \<Rightarrow>
          (let sk = fld params ''session_key'';
               st2 = (if truthy sk
                      then snd (store_update now User_identities (fld identity ''id'')
                                  [(''session_key'', sk)] st1)
                      else st1)
           in store_find_by_id now Users (fld identity ''user_id'') st2))"

text \<open>Step 2: the user id of an identity with the same UnionID.\<close>

definition union_user_id :: "string \<Rightarrow> row \<Rightarrow> fs_state \<Rightarrow> val \<times> fs_state" where
  "union_user_id now params st =
     (if truthy (fld params ''unionid'') then
        (case store_find_one now User_identities (has_unionid (fld params ''unionid'')) st of
           (Some i, st1) \<Rightarrow> (fld i ''user_id'', st1)
         | (None, st1) \<Rightarrow> (VNull, st1))
      else (VNull, st))"

text \<open>Step 3: a new user when none was found.\<close>

definition user_id_or_new :: "string \<Rightarrow> row \<Rightarrow> val \<Rightarrow> fs_state \<Rightarrow> val \<times> fs_state" where
  "user_id_or_new now params uid st =
     (if truthy uid then (uid, st)
      else (let (u, st1) = store_insert now Users (new_user_row params) st in (fld u ''id'', st1)))"

text \<open>Step 4: the identity record is updated or inserted.\<close>

definition record_identity :: "string \<Rightarrow> row \<Rightarrow> val \<Rightarrow> fs_state \<Rightarrow> fs_state" where
  "record_identity now params uid st =
     (case store_find_one now User_identities (is_identity params) st of
        (Some i, st1) \<Rightarrow>
          snd (store_update now User_identities (fld i ''id'')
            [(''session_key'', js_or (fld params ''session_key'') (fld i ''session_key'')),
             (''unionid'', js_or (fld params ''unionid'') (fld i ''unionid''))] st1)
      | (None, st1) \<Rightarrow>
          snd (store_insert now User_identities
            [(''user_id'', uid), (''provider'', fld params ''provider''),
             (''openid'', fld params ''openid''),
             (''unionid'', js_or (fld params ''unionid'') VNull),
             (''session_key'', js_or (fld params ''session_key'') VNull)] st1))"

definition find_or_create_by_identity ::
  "string \<Rightarrow> row \<Rightarrow> fs_state \<Rightarrow> (js_error + row) \<times> fs_state" where
  "find_or_create_by_identity now params st =
     (case known_identity_user now params st of
        (Some user, st1) \<Rightarrow> (Inr user, st1)
      | (None, st1) \<Rightarrow>
          (let (uid0, st2) = union_user_id now params st1;
               (uid, st3) = user_id_or_new now params uid0 st2;
               st4 = flush_now now (record_identity now params uid st3)
           in case store_find_by_id now Users uid st4 of
                (None, st5) \<Rightarrow> (Inl (PlainError ''Failed to create user''), st5)
              | (Some user, st5) \<Rightarrow> (Inr user, st5)))"

section \<open>The other operations\<close>

definition get_user_by_id :: "string \<Rightarrow> val \<Rightarrow> fs_state \<Rightarrow> row option \<times> fs_state" where
  "get_user_by_id now i st = store_find_by_id now Users i st"

definition get_user_by_openid :: "string \<Rightarrow> val \<Rightarrow> fs_state \<Rightarrow> row option \<times> fs_state" where
  "get_user_by_openid now v st = store_find_one now Users (has_openid v) st"

definition get_mini_identity :: "string \<Rightarrow> val \<Rightarrow> fs_state \<Rightarrow> row option \<times> fs_state" where
  "get_mini_identity now uid st =
     (case store_find_one now User_identities
        (\<lambda>r. strict_eq (fld r ''user_id'') uid \<and> strict_eq (fld r ''provider'') (VStr ''wechat_mini'')) st of
        (None, st1) \<Rightarrow> (None, st1)
      | (Some i, st1) \<Rightarrow>
          (Some [(''openid'', fld i ''openid''), (''session_key'', js_or (fld i ''session_key'') VNull)], st1))"

definition update_user :: "string \<Rightarrow> val \<Rightarrow> row \<Rightarrow> fs_state \<Rightarrow> bool \<times> fs_state" where
  "update_user now uid data st = store_update now Users uid data st"

section \<open>The invariant of the user tables\<close>

definition users_inv :: "fs_state \<Rightarrow> bool" where
  "users_inv st \<longleftrightarrow>
     ids_ok (rows_of st Users) (next_of st Users) \<and>
     ids_ok (rows_of st User_identities) (next_of st User_identities) \<and>
     distinct (map (\<lambda>r. (fld r ''provider'', fld r ''openid'')) (rows_of st User_identities)) \<and>
     (\<forall>i\<in>set (rows_of st User_identities). \<exists>u\<in>set (rows_of st Users). fld i ''user_id'' = fld u ''id'')"

text \<open>The parameters a provider's login gives: strings, and a missing one is \<open>undefined\<close> or null.\<close>

definition login_params :: "row \<Rightarrow> bool" where
  "login_params p \<longleftrightarrow> (\<exists>s. fld p ''provider'' = VStr s) \<and> (\<exists>s. fld p ''openid'' = VStr s)"

lemma is_identity_iff:
  "login_params p \<Longrightarrow> is_identity p r \<longleftrightarrow>
     fld r ''provider'' = fld p ''provider'' \<and> fld r ''openid'' = fld p ''openid''"
  by (auto simp: is_identity_def login_params_def dest: strict_eqD)

lemma users_inv_user:
  assumes "users_inv st" "i \<in> set (rows_of st User_identities)"
  shows "\<exists>u n. find (has_id (fld i ''user_id'')) (rows_of st Users) = Some u \<and>
    u \<in> set (rows_of st Users) \<and> fld u ''id'' = fld i ''user_id'' \<and> fld i ''user_id'' = VNat (Suc n)"
proof -
  obtain u where u: "u \<in> set (rows_of st Users)" "fld i ''user_id'' = fld u ''id''"
    using assms by (auto simp: users_inv_def)
  moreover obtain k where "fld u ''id'' = VNat k" "1 \<le> k"
    using assms(1) u(1) by (auto simp: users_inv_def ids_ok_def)
  ultimately show ?thesis
    using assms(1) ids_ok_find [OF _ u(1)]
    by (auto simp: users_inv_def intro!: exI [of _ u] exI [of _ "k - 1"])
qed

lemma known_identity_result:
  assumes "users_inv st" "find (is_identity p) (rows_of st User_identities) = Some i"
  shows "find_or_create_by_identity now p st =
      (Inr (the (find (has_id (fld i ''user_id'')) (rows_of st Users))),
       snd (known_identity_user now p st))"
    and "rows_of (snd (known_identity_user now p st)) t =
      (if t = User_identities \<and> truthy (fld p ''session_key'')
       then upd_first (has_id (fld i ''id''))
              (touched now [(''session_key'', fld p ''session_key'')]) (rows_of st User_identities)
       else rows_of st t)"
    and "next_of (snd (known_identity_user now p st)) t = next_of st t"
proof -
  have "i \<in> set (rows_of st User_identities)"
    using find_in_set [OF assms(2)] by simp
  from users_inv_user [OF assms(1) this] obtain u where
    u: "find (has_id (fld i ''user_id'')) (rows_of st Users) = Some u" by auto
  show "find_or_create_by_identity now p st =
      (Inr (the (find (has_id (fld i ''user_id'')) (rows_of st Users))),
       snd (known_identity_user now p st))"
    using assms(2) u
    by (simp add: find_or_create_by_identity_def known_identity_user_def Let_def store_update_result)
  show "rows_of (snd (known_identity_user now p st)) t =
      (if t = User_identities \<and> truthy (fld p ''session_key'')
       then upd_first (has_id (fld i ''id''))
              (touched now [(''session_key'', fld p ''session_key'')]) (rows_of st User_identities)
       else rows_of st t)"
    "next_of (snd (known_identity_user now p st)) t = next_of st t"
    using assms(2) by (auto simp: known_identity_user_def Let_def store_update_result)
qed

definition union_owner :: "row \<Rightarrow> row list \<Rightarrow> row option" where
  "union_owner p is =
     (if truthy (fld p ''unionid'') then find (has_unionid (fld p ''unionid'')) is else None)"

definition new_identity :: "row \<Rightarrow> val \<Rightarrow> row" where
  "new_identity p uid =
     [(''user_id'', uid), (''provider'', fld p ''provider''), (''openid'', fld p ''openid''),
      (''unionid'', js_or (fld p ''unionid'') VNull), (''session_key'', js_or (fld p ''session_key'') VNull)]"

lemma new_identity_result:
  assumes inv: "users_inv st" and no: "find (is_identity p) (rows_of st User_identities) = None"
    and owner: "union_owner p (rows_of st User_identities) = Some i"
  shows "fst (find_or_create_by_identity now p st) =
      Inr (the (find (has_id (fld i ''user_id'')) (rows_of st Users)))"
    and "rows_of (snd (find_or_create_by_identity now p st)) t =
      (if t = User_identities
       then rows_of st t @ [new_row now (next_of st t) (new_identity p (fld i ''user_id''))]
       else rows_of st t)"
    and "next_of (snd (find_or_create_by_identity now p st)) t =
      (if t = User_identities then Suc (next_of st t) else next_of st t)"
proof -
  have i: "i \<in> set (rows_of st User_identities)"
    using owner by (auto simp: union_owner_def split: if_splits dest!: find_in_set)
  from users_inv_user [OF inv i] obtain u n where
    u: "find (has_id (fld i ''user_id'')) (rows_of st Users) = Some u" "fld i ''user_id'' = VNat (Suc n)"
    by auto
  then have "truthy (fld i ''user_id'')" by simp
  with no owner u show "fst (find_or_create_by_identity now p st) =
      Inr (the (find (has_id (fld i ''user_id'')) (rows_of st Users)))"
    "rows_of (snd (find_or_create_by_identity now p st)) t =
      (if t = User_identities
       then rows_of st t @ [new_row now (next_of st t) (new_identity p (fld i ''user_id''))]
       else rows_of st t)"
    "next_of (snd (find_or_create_by_identity now p st)) t =
      (if t = User_identities then Suc (next_of st t) else next_of st t)"
    by (simp_all add: find_or_create_by_identity_def known_identity_user_def union_user_id_def
        user_id_or_new_def record_identity_def union_owner_def new_identity_def Let_def
        store_insert_result flush_result split: if_splits)
qed

lemma new_user_result:
  assumes inv: "users_inv st" and no: "find (is_identity p) (rows_of st User_identities) = None"
    and owner: "union_owner p (rows_of st User_identities) = None"
  shows "fst (find_or_create_by_identity now p st) =
      Inr (new_row now (next_of st Users) (new_user_row p))"
    and "rows_of (snd (find_or_create_by_identity now p st)) t =
      (if t = User_identities
       then rows_of st t @ [new_row now (next_of st t) (new_identity p (VNat (next_of st Users)))]
       else if t = Users then rows_of st t @ [new_row now (next_of st t) (new_user_row p)]
       else rows_of st t)"
    and "next_of (snd (find_or_create_by_identity now p st)) t =
      (if t = User_identities \<or> t = Users then Suc (next_of st t) else next_of st t)"
proof -
  have "find (has_id (VNat (next_of st Users))) (rows_of st Users) = None"
    using inv by (force simp: users_inv_def ids_ok_def find_None_iff)
  with no owner show "fst (find_or_create_by_identity now p st) =
      Inr (new_row now (next_of st Users) (new_user_row p))"
    "rows_of (snd (find_or_create_by_identity now p st)) t =
      (if t = User_identities
       then rows_of st t @ [new_row now (next_of st t) (new_identity p (VNat (next_of st Users)))]
       else if t = Users then rows_of st t @ [new_row now (next_of st t) (new_user_row p)]
       else rows_of st t)"
    "next_of (snd (find_or_create_by_identity now p st)) t =
      (if t = User_identities \<or> t = Users then Suc (next_of st t) else next_of st t)"
    by (auto simp: find_or_create_by_identity_def known_identity_user_def union_user_id_def
        user_id_or_new_def record_identity_def union_owner_def new_identity_def Let_def case_prod_beta
        store_insert_result flush_result find_app fld_new_row split: if_splits option.splits)
qed

text \<open>After a login: the invariant holds, and the user it returned is the owner of the identity.\<close>

definition logged_in :: "row \<Rightarrow> row \<Rightarrow> fs_state \<Rightarrow> bool" where
  "logged_in p u st \<longleftrightarrow> users_inv st \<and> u \<in> set (rows_of st Users) \<and>
     (\<exists>i\<in>set (rows_of st User_identities). is_identity p i \<and> fld i ''user_id'' = fld u ''id'')"

lemma login_post_known:
  assumes inv: "users_inv st" and p: "login_params p"
    and i: "find (is_identity p) (rows_of st User_identities) = Some i"
  shows "\<exists>u. fst (find_or_create_by_identity now p st) = Inr u \<and>
    logged_in p u (snd (find_or_create_by_identity now p st))"
proof -
  let ?st' = "snd (find_or_create_by_identity now p st)"
  let ?f = "\<lambda>r. if truthy (fld p ''session_key'')
      then touched now [(''session_key'', fld p ''session_key'')] r else r"
  note res = known_identity_result [OF inv i]
  have f: "fld (?f r) k = fld r k" if "k \<in> {''id'', ''provider'', ''openid'', ''user_id''}" for r k
    using that by (auto simp: fld_touched_None)
  have im: "i \<in> set (rows_of st User_identities)" "is_identity p i"
    using find_in_set [OF i] by auto
  from users_inv_user [OF inv im(1)] obtain u where
    u: "find (has_id (fld i ''user_id'')) (rows_of st Users) = Some u"
    "u \<in> set (rows_of st Users)" "fld u ''id'' = fld i ''user_id''" by auto
  have rows: "rows_of ?st' User_identities = upd_first (has_id (fld i ''id'')) ?f (rows_of st User_identities)"
    "rows_of ?st' Users = rows_of st Users" "next_of ?st' t = next_of st t" for t
    by (cases "truthy (fld p ''session_key'')"; simp add: res)+
  let ?g = "\<lambda>r. (fld r ''provider'', fld r ''openid'', fld r ''user_id'')"
  have keep: "map ?g (rows_of ?st' User_identities) = map ?g (rows_of st User_identities)"
    unfolding rows by (rule map_upd_first_same) (simp add: f)
  then have "map (\<lambda>r. (fld r ''provider'', fld r ''openid'')) (rows_of ?st' User_identities)
      = map (\<lambda>r. (fld r ''provider'', fld r ''openid'')) (rows_of st User_identities)"
    by (auto dest!: arg_cong [of _ _ "map (\<lambda>(a, b, c). (a, b))"] simp: comp_def)
  moreover have "ids_ok (rows_of ?st' User_identities) (next_of ?st' User_identities)"
    using inv by (auto simp: users_inv_def rows f intro!: ids_ok_upd_first)
  moreover have set_keep: "?g ` set (rows_of ?st' User_identities) = ?g ` set (rows_of st User_identities)"
    using arg_cong [OF keep, of set] by simp
  have "\<forall>j\<in>set (rows_of ?st' User_identities). \<exists>v\<in>set (rows_of st Users). fld j ''user_id'' = fld v ''id''"
  proof
    fix j assume "j \<in> set (rows_of ?st' User_identities)"
    then have "?g j \<in> ?g ` set (rows_of st User_identities)"
      using set_keep by blast
    with inv show "\<exists>v\<in>set (rows_of st Users). fld j ''user_id'' = fld v ''id''"
      by (auto simp: users_inv_def)
  qed
  ultimately have "users_inv ?st'"
    using inv by (simp add: users_inv_def rows(2,3))
  moreover have "\<exists>j\<in>set (rows_of ?st' User_identities). ?g j = ?g i"
    using im(1) set_keep by (metis (no_types, lifting) image_iff)
  ultimately have "logged_in p u ?st'"
    using u im(2) rows(2) p by (auto simp: logged_in_def is_identity_iff)
  moreover have "fst (find_or_create_by_identity now p st) = Inr u"
    using res(1) u by simp
  ultimately show ?thesis by blast
qed

lemma users_inv_new_identity:
  assumes inv: "users_inv st" and p: "login_params p"
    and no: "find (is_identity p) (rows_of st User_identities) = None"
    and rows: "rows_of st' User_identities = rows_of st User_identities @
        [new_row now (next_of st User_identities) (new_identity p uid)]"
      "next_of st' User_identities = Suc (next_of st User_identities)"
    and users: "ids_ok (rows_of st' Users) (next_of st' Users)"
      "set (rows_of st Users) \<subseteq> set (rows_of st' Users)" "\<exists>u\<in>set (rows_of st' Users). fld u ''id'' = uid"
  shows "users_inv st'"
proof -
  have "\<forall>j\<in>set (rows_of st User_identities).
      (fld j ''provider'', fld j ''openid'') \<noteq> (fld p ''provider'', fld p ''openid'')"
    using no p by (auto simp: find_None_iff is_identity_iff)
  then have "distinct (map (\<lambda>r. (fld r ''provider'', fld r ''openid'')) (rows_of st' User_identities))"
    using inv by (auto simp: users_inv_def rows fld_new_row new_identity_def)
  moreover have "ids_ok (rows_of st' User_identities) (next_of st' User_identities)"
    using inv next_of_pos [of st User_identities] by (simp add: users_inv_def rows ids_ok_snoc)
  moreover have "\<exists>u\<in>set (rows_of st' Users). fld j ''user_id'' = fld u ''id''"
    if "j \<in> set (rows_of st' User_identities)" for j
  proof (cases "j \<in> set (rows_of st User_identities)")
    case True
    with inv users(2) show ?thesis
      by (fastforce simp: users_inv_def)
  next
    case False
    with that users(3) show ?thesis
      by (auto simp: rows fld_new_row new_identity_def)
  qed
  ultimately show ?thesis
    using users(1) by (simp add: users_inv_def)
qed

lemma login_post_new:
  assumes inv: "users_inv st" and p: "login_params p"
    and no: "find (is_identity p) (rows_of st User_identities) = None"
  shows "\<exists>u. fst (find_or_create_by_identity now p st) = Inr u \<and>
    logged_in p u (snd (find_or_create_by_identity now p st))"
proof (cases "union_owner p (rows_of st User_identities)")
  case (Some i)
  note res = new_identity_result [OF inv no Some, of now]
  have "i \<in> set (rows_of st User_identities)"
    using Some by (auto simp: union_owner_def split: if_splits dest!: find_in_set)
  from users_inv_user [OF inv this] obtain u where
    u: "find (has_id (fld i ''user_id'')) (rows_of st Users) = Some u"
    "u \<in> set (rows_of st Users)" "fld u ''id'' = fld i ''user_id''" by auto
  have "users_inv (snd (find_or_create_by_identity now p st))"
    using inv u by (intro users_inv_new_identity [OF inv p no]) (auto simp: res users_inv_def)
  then have "logged_in p u (snd (find_or_create_by_identity now p st))"
    using u p by (auto simp: logged_in_def res is_identity_iff fld_new_row new_identity_def)
  with res(1) u show ?thesis by auto
next
  case None
  note res = new_user_result [OF inv no None, of now]
  have "ids_ok (rows_of st Users @ [new_row now (next_of st Users) (new_user_row p)]) (Suc (next_of st Users))"
    using inv next_of_pos [of st Users] by (simp add: users_inv_def ids_ok_snoc)
  then have "users_inv (snd (find_or_create_by_identity now p st))"
    by (intro users_inv_new_identity [OF inv p no]) (auto simp: res fld_new_row)
  then have "logged_in p (new_row now (next_of st Users) (new_user_row p))
      (snd (find_or_create_by_identity now p st))"
    using p by (auto simp: logged_in_def res is_identity_iff fld_new_row new_identity_def)
  with res(1) show ?thesis by auto
qed

lemma login_post:
  assumes "users_inv st" "login_params p"
  shows "\<exists>u. fst (find_or_create_by_identity now p st) = Inr u \<and>
    logged_in p u (snd (find_or_create_by_identity now p st))"
  using login_post_known [OF assms] login_post_new [OF assms]
  by (cases "find (is_identity p) (rows_of st User_identities)") blast+

text \<open>A login of an identity that is already recorded returns its owner.\<close>

lemma logged_in_again:
  assumes "logged_in p u st" "login_params p" "login_params p'"
    and "fld p' ''provider'' = fld p ''provider''" "fld p' ''openid'' = fld p ''openid''"
  shows "fst (find_or_create_by_identity now p' st) = Inr u"
proof -
  obtain i where inv: "users_inv st" and u: "u \<in> set (rows_of st Users)"
    and i: "i \<in> set (rows_of st User_identities)" "is_identity p i" "fld i ''user_id'' = fld u ''id''"
    using assms(1) by (auto simp: logged_in_def)
  then obtain j where j: "find (is_identity p') (rows_of st User_identities) = Some j"
    using assms by (cases "find (is_identity p') (rows_of st User_identities)")
      (auto simp: find_None_iff is_identity_iff)
  then have "j \<in> set (rows_of st User_identities)" "is_identity p' j"
    using find_in_set [OF j] by auto
  then have "j = i"
    using inv i assms by (auto simp: users_inv_def is_identity_iff distinct_map inj_on_def)
  with i(3) u inv have "find (has_id (fld j ''user_id'')) (rows_of st Users) = Some u"
    using ids_ok_find by (auto simp: users_inv_def)
  then show ?thesis
    by (simp add: known_identity_result(1) [OF inv j])
qed


section \<open>Properties\<close>

text \<open>C33. Logging in by provider identity never fails on consistent tables, keeps them consistent (one
  record per provider and openid, every record with its user), and every later login with the same
  provider and openid returns the same user and creates none.\<close>

theorem identity_login_stable:
  assumes "users_inv st" "login_params p"
    and "fld q ''provider'' = fld p ''provider''" "fld q ''openid'' = fld p ''openid''"
  shows "\<exists>u. fst (find_or_create_by_identity now p st) = Inr u \<and>
    users_inv (snd (find_or_create_by_identity now p st)) \<and>
    u \<in> set (rows_of (snd (find_or_create_by_identity now p st)) Users) \<and>
    fst (find_or_create_by_identity now' q (snd (find_or_create_by_identity now p st))) = Inr u \<and>
    rows_of (snd (find_or_create_by_identity now' q (snd (find_or_create_by_identity now p st)))) Users
      = rows_of (snd (find_or_create_by_identity now p st)) Users"
proof -
  let ?st' = "snd (find_or_create_by_identity now p st)"
  have q: "login_params q"
    using assms by (simp add: login_params_def)
  obtain u where u: "fst (find_or_create_by_identity now p st) = Inr u" "logged_in p u ?st'"
    using login_post [OF assms(1,2)] by blast
  then obtain i where inv: "users_inv ?st'"
    and i: "i \<in> set (rows_of ?st' User_identities)" "is_identity p i"
    by (auto simp: logged_in_def)
  then obtain j where j: "find (is_identity q) (rows_of ?st' User_identities) = Some j"
    using assms q by (cases "find (is_identity q) (rows_of ?st' User_identities)")
      (auto simp: find_None_iff is_identity_iff)
  have "rows_of (snd (find_or_create_by_identity now' q ?st')) Users = rows_of ?st' Users"
    by (simp add: known_identity_result [OF inv j])
  moreover have "fst (find_or_create_by_identity now' q ?st') = Inr u"
    by (rule logged_in_again [OF u(2) assms(2) q assms(3,4)])
  ultimately show ?thesis
    using u inv by (simp add: logged_in_def)
qed

definition sample_login :: "string \<Rightarrow> string \<Rightarrow> row" where
  "sample_login prov oid =
     [(''provider'', VStr prov), (''openid'', VStr oid), (''unionid'', VStr ''U''),
      (''session_key'', VStr ''K'')]"

theorem identity_login_stable_witness:
  "let p = sample_login ''wechat_mini'' ''O''; st = store_with (\<lambda>_. [])
   in \<exists>u. fst (find_or_create_by_identity ''t'' p st) = Inr u \<and>
        fst (find_or_create_by_identity ''u'' p (snd (find_or_create_by_identity ''t'' p st))) = Inr u"
proof -
  have "users_inv (store_with (\<lambda>_. []))" "login_params (sample_login ''wechat_mini'' ''O'')"
    by (simp_all add: users_inv_def ids_ok_def login_params_def sample_login_def)
  from identity_login_stable [OF this refl refl, of "''t''" "''u''"] show ?thesis
    by (auto simp: Let_def)
qed

text \<open>Two providers that report the same UnionID reach one user: a first login of an account that
  has no record yet, followed by the first login from another provider, returns the same user.\<close>

theorem unionid_merges_accounts:
  assumes inv: "users_inv st" and p: "login_params p" "login_params q"
    and new: "\<forall>i\<in>set (rows_of st User_identities). \<not> is_identity p i \<and> \<not> is_identity q i"
    and diff: "fld p ''provider'' \<noteq> fld q ''provider''"
    and union: "fld p ''unionid'' = VStr s" "fld q ''unionid'' = VStr s" "s \<noteq> []"
  shows "fst (find_or_create_by_identity now' q (snd (find_or_create_by_identity now p st)))
       = fst (find_or_create_by_identity now p st)"
proof -
  let ?st' = "snd (find_or_create_by_identity now p st)"
  have no: "find (is_identity p) (rows_of st User_identities) = None"
    using new by (simp add: find_None_iff)
  obtain u where u: "fst (find_or_create_by_identity now p st) = Inr u" "logged_in p u ?st'"
    using login_post [OF inv p(1)] by blast
  have inv': "users_inv ?st'"
    using u by (simp add: logged_in_def)
  have noq: "find (is_identity q) (rows_of ?st' User_identities) = None"
    using new diff p new_identity_result(2) [OF inv no] new_user_result(2) [OF inv no]
    by (cases "union_owner p (rows_of st User_identities)")
      (auto simp: find_None_iff is_identity_iff fld_new_row new_identity_def)
  have own: "union_owner q (rows_of ?st' User_identities) =
      (case union_owner p (rows_of st User_identities) of
         Some i \<Rightarrow> Some i
       | None \<Rightarrow> Some (new_row now (next_of st User_identities) (new_identity p (VNat (next_of st Users)))))"
    using union new_identity_result(2) [OF inv no] new_user_result(2) [OF inv no]
    by (cases "union_owner p (rows_of st User_identities)")
      (auto simp: union_owner_def find_app has_unionid_def fld_new_row new_identity_def js_or_def
        split: if_splits option.splits)
  show ?thesis
  proof (cases "union_owner p (rows_of st User_identities)")
    case (Some i)
    then show ?thesis
      using own new_identity_result(1) [OF inv' noq, of i now'] new_identity_result(1,2) [OF inv no Some]
      by simp
  next
    case None
    have "find (has_id (VNat (next_of st Users))) (rows_of st Users) = None"
      using inv by (force simp: users_inv_def ids_ok_def find_None_iff)
    with None show ?thesis
      using own new_identity_result(1) [OF inv' noq, of _ now'] new_user_result(1,2) [OF inv no None]
      by (simp add: fld_new_row new_identity_def find_app)
  qed
qed

theorem unionid_merges_accounts_witness:
  "let p = sample_login ''wechat_mini'' ''O1''; q = sample_login ''wechat_mp'' ''O2'';
       st = store_with (\<lambda>_. [])
   in fst (find_or_create_by_identity ''u'' q (snd (find_or_create_by_identity ''t'' p st)))
        = fst (find_or_create_by_identity ''t'' p st)"
proof -
  have "users_inv (store_with (\<lambda>_. []))" "login_params (sample_login ''wechat_mini'' ''O1'')"
    "login_params (sample_login ''wechat_mp'' ''O2'')"
    by (simp_all add: users_inv_def ids_ok_def login_params_def sample_login_def)
  from unionid_merges_accounts [OF this, of "''U''" "''u''" "''t''"] show ?thesis
    by (simp add: Let_def sample_login_def)
qed

text \<open>An identity whose user has been deleted.\<close>

definition dangling :: "row \<Rightarrow> nat \<Rightarrow> fs_state \<Rightarrow> bool" where
  "dangling p k st \<longleftrightarrow>
     ids_ok (rows_of st Users) (next_of st Users) \<and>
     ids_ok (rows_of st User_identities) (next_of st User_identities) \<and>
     (\<exists>i. find (is_identity p) (rows_of st User_identities) = Some i \<and> fld i ''user_id'' = VNat k) \<and>
     k < next_of st Users \<and> find (has_id (VNat k)) (rows_of st Users) = None"

lemma find_upd_first_found:
  "find p rs = Some r \<Longrightarrow> p (f r) \<Longrightarrow> find p (upd_first p f rs) = Some (f r)"
  by (rule find_upd_first_same)

lemma identity_update:
  fixes now :: string
  assumes f: "find (is_identity p) (rows_of st User_identities) = Some i"
    and ok: "ids_ok (rows_of st User_identities) (next_of st User_identities)"
    and u: "fst ` set upd \<subseteq> {''session_key'', ''unionid''}"
  defines "st' \<equiv> snd (store_update now User_identities (fld i ''id'') upd st)"
  shows "find (is_identity p) (rows_of st' User_identities) = Some (touched now upd i)"
    and "ids_ok (rows_of st' User_identities) (next_of st' User_identities)"
    and "fld (touched now upd i) ''user_id'' = fld i ''user_id''"
    and "fld (touched now upd i) ''id'' = fld i ''id''"
proof -
  have keep: "fld (touched now upd r) k = fld r k"
    if "k \<in> {''id'', ''user_id'', ''provider'', ''openid''}" for r k
    using that u by (intro fld_touched_None) auto
  have rows: "rows_of st' User_identities
      = upd_first (is_identity p) (touched now upd) (rows_of st User_identities)"
    using upd_first_found [OF f ok] by (simp add: st'_def store_update_result)
  have "is_identity p (touched now upd i)"
    using find_in_set [OF f] by (simp add: is_identity_def keep)
  with f show "find (is_identity p) (rows_of st' User_identities) = Some (touched now upd i)"
    by (simp add: rows find_upd_first_found)
  show "ids_ok (rows_of st' User_identities) (next_of st' User_identities)"
    using ok by (auto simp: st'_def store_update_result keep intro!: ids_ok_upd_first)
qed (use u in \<open>auto intro!: fld_touched_None\<close>)

lemma dangling_known:
  assumes "dangling p k st"
  shows "fst (known_identity_user now p st) = None"
    and "dangling p k (snd (known_identity_user now p st))"
    and "rows_of (snd (known_identity_user now p st)) Users = rows_of st Users"
    and "next_of (snd (known_identity_user now p st)) Users = next_of st Users"
proof -
  from assms obtain i where i: "find (is_identity p) (rows_of st User_identities) = Some i"
    "fld i ''user_id'' = VNat k" and ok: "ids_ok (rows_of st User_identities) (next_of st User_identities)"
    by (auto simp: dangling_def)
  let ?s2 = "if truthy (fld p ''session_key'')
      then snd (store_update now User_identities (fld i ''id'') [(''session_key'', fld p ''session_key'')]
          (load_data now st))
      else load_data now st"
  have i': "find (is_identity p) (rows_of (load_data now st) User_identities) = Some i"
    and ok': "ids_ok (rows_of (load_data now st) User_identities) (next_of (load_data now st) User_identities)"
    using i ok by simp_all
  have "find (is_identity p) (rows_of ?s2 User_identities) \<noteq> None \<and>
      fld (the (find (is_identity p) (rows_of ?s2 User_identities))) ''user_id'' = VNat k \<and>
      ids_ok (rows_of ?s2 User_identities) (next_of ?s2 User_identities)"
    using identity_update [OF i' ok', of "[(''session_key'', fld p ''session_key'')]" now] i ok by simp
  moreover have "rows_of ?s2 Users = rows_of st Users" "next_of ?s2 Users = next_of st Users"
    by (simp_all add: store_update_result)
  moreover have "known_identity_user now p st =
      (find (has_id (VNat k)) (rows_of ?s2 Users), load_data now ?s2)"
    using i by (simp add: known_identity_user_def Let_def)
  ultimately show "fst (known_identity_user now p st) = None"
    "dangling p k (snd (known_identity_user now p st))"
    "rows_of (snd (known_identity_user now p st)) Users = rows_of st Users"
    "next_of (snd (known_identity_user now p st)) Users = next_of st Users"
    using assms by (auto simp: dangling_def)
qed

lemma dangling_login:
  assumes "dangling p k st" "\<not> truthy (fld p ''unionid'')"
  shows "fst (find_or_create_by_identity now p st) = Inr (new_row now (next_of st Users) (new_user_row p))"
    and "rows_of (snd (find_or_create_by_identity now p st)) Users =
      rows_of st Users @ [new_row now (next_of st Users) (new_user_row p)]"
    and "dangling p k (snd (find_or_create_by_identity now p st))"
proof -
  define st2 where "st2 = snd (known_identity_user now p st)"
  define st3 where "st3 = snd (store_insert now Users (new_user_row p) st2)"
  have d2: "dangling p k st2" and users: "rows_of st2 Users = rows_of st Users"
    "next_of st2 Users = next_of st Users"
    using dangling_known [OF assms(1), of now] by (simp_all add: st2_def)
  then obtain i where i: "find (is_identity p) (rows_of st3 User_identities) = Some i"
    "fld i ''user_id'' = VNat k" "ids_ok (rows_of st3 User_identities) (next_of st3 User_identities)"
    by (auto simp: dangling_def st3_def store_insert_result)
  define st4 where "st4 = snd (store_update now User_identities (fld i ''id'')
      [(''session_key'', js_or (fld p ''session_key'') (fld i ''session_key'')),
       (''unionid'', js_or (fld p ''unionid'') (fld i ''unionid''))] st3)"
  have rows4: "rows_of st4 Users = rows_of st Users @ [new_row now (next_of st Users) (new_user_row p)]"
    "next_of st4 Users = Suc (next_of st Users)"
    by (simp_all add: st4_def st3_def store_update_result store_insert_result users)
  have "ids_ok (rows_of st4 Users) (next_of st4 Users)"
    using d2 users next_of_pos [of st Users] by (simp add: rows4 dangling_def ids_ok_snoc)
  moreover have "find (has_id (VNat k)) (rows_of st4 Users) = None"
    using assms(1) by (simp add: rows4 dangling_def fld_new_row find_None_iff)
  ultimately have d4: "dangling p k st4"
    using identity_update [OF i(1,3), of "[(''session_key'', js_or (fld p ''session_key'') (fld i ''session_key'')),
       (''unionid'', js_or (fld p ''unionid'') (fld i ''unionid''))]" now] i assms(1)
    by (simp add: dangling_def st4_def [symmetric] rows4)
  have none: "find (has_id (VNat (next_of st Users))) (rows_of st Users) = None"
    using assms(1) by (force simp: dangling_def ids_ok_def find_None_iff)
  have "known_identity_user now p st = (None, st2)"
    using dangling_known(1) [OF assms(1), of now] by (simp add: st2_def prod_eq_iff)
  moreover have "union_user_id now p st2 = (VNull, st2)"
    using assms(2) by (simp add: union_user_id_def)
  moreover have "user_id_or_new now p VNull st2 = (VNat (next_of st Users), st3)"
    by (simp add: user_id_or_new_def Let_def case_prod_beta store_insert_result fld_new_row st3_def users)
  moreover have "record_identity now p uid st3 = st4" for uid
    using i(1) by (simp add: record_identity_def st4_def)
  ultimately have run: "find_or_create_by_identity now p st =
      (Inr (new_row now (next_of st Users) (new_user_row p)), load_data now (flush_now now st4))"
    using none by (simp add: find_or_create_by_identity_def flush_result rows4 find_app fld_new_row)
  then show "fst (find_or_create_by_identity now p st) = Inr (new_row now (next_of st Users) (new_user_row p))"
    "rows_of (snd (find_or_create_by_identity now p st)) Users =
      rows_of st Users @ [new_row now (next_of st Users) (new_user_row p)]"
    "dangling p k (snd (find_or_create_by_identity now p st))"
    using d4 by (simp_all add: rows4 flush_result dangling_def)
qed

definition logins :: "string list \<Rightarrow> row \<Rightarrow> fs_state \<Rightarrow> fs_state" where
  "logins nows p st = foldl (\<lambda>s now. snd (find_or_create_by_identity now p s)) st nows"

text \<open>When the user of a recorded identity has been deleted, the record keeps pointing to it, and
  every login without a UnionID creates one more user: after n logins the table has n more rows.\<close>

theorem dangling_identity_multiplies_users:
  assumes "dangling p k st" "\<not> truthy (fld p ''unionid'')"
  shows "length (rows_of (logins nows p st) Users) = length (rows_of st Users) + length nows"
  using assms
proof (induction nows arbitrary: st)
  case (Cons now nows)
  have "length (rows_of (logins nows p (snd (find_or_create_by_identity now p st))) Users)
      = length (rows_of (snd (find_or_create_by_identity now p st)) Users) + length nows"
    using Cons.prems dangling_login(3) by (intro Cons.IH)
  then show ?case
    using dangling_login(2) [OF Cons.prems, of now] by (simp add: logins_def)
qed (simp add: logins_def)

theorem dangling_identity_multiplies_users_witness:
  "let p = [(''provider'', VStr ''phone''), (''openid'', VStr ''O'')];
       st = store_with (\<lambda>t. if t = User_identities
              then [[(''id'', VNat 1), (''user_id'', VNat 0), (''provider'', VStr ''phone''), (''openid'', VStr ''O'')]]
              else [])
   in length (rows_of (logins [''a'', ''b'', ''c''] p st) Users) = 3"
proof -
  let ?p = "[(''provider'', VStr ''phone''), (''openid'', VStr ''O'')]"
  let ?st = "store_with (\<lambda>t. if t = User_identities
              then [[(''id'', VNat 1), (''user_id'', VNat 0), (''provider'', VStr ''phone''), (''openid'', VStr ''O'')]]
              else [])"
  have "dangling ?p 0 ?st"
    by (simp add: dangling_def ids_ok_def is_identity_def)
  from dangling_identity_multiplies_users [OF this, of "[''a'', ''b'', ''c'']"] show ?thesis
    by (simp add: Let_def)
qed

lemma profile_keys: "fst ` set (profile_updates r u) \<subseteq> {''unionid'', ''nickname'', ''avatar_url''}"
  by (auto simp: profile_updates_def changed_field_def)

lemma profile_keeps:
  assumes "k = ''id'' \<or> k = ''openid''"
  shows "fld (spread r (profile_updates p u)) k = fld r k"
    and "fld (touched now (profile_updates p u) r) k = fld r k"
  using assms profile_keys [of p u] by (auto intro!: fld_spread_None fld_touched_None)

definition refreshed :: "string \<Rightarrow> row \<Rightarrow> row \<Rightarrow> row \<Rightarrow> row" where
  "refreshed now p u r = (if profile_updates p u = [] then r else touched now (profile_updates p u) r)"

lemma refreshed_keeps: "k = ''id'' \<or> k = ''openid'' \<Longrightarrow> fld (refreshed now p u r) k = fld r k"
  by (simp add: refreshed_def profile_keeps)

lemma refreshed_fun: "refreshed now p u =
     (if profile_updates p u = [] then (\<lambda>r. r) else touched now (profile_updates p u))"
  by (simp add: refreshed_def fun_eq_iff)

lemma openid_known:
  assumes "find (has_openid (VStr s)) (rows_of st Users) = Some u" "fld p ''openid'' = VStr s"
    and "ids_ok (rows_of st Users) m"
  shows "rows_of (snd (find_or_create_user now p st)) Users =
      upd_first (has_openid (VStr s)) (refreshed now p u) (rows_of st Users)"
    and "k = ''id'' \<or> k = ''openid'' \<Longrightarrow> fld (fst (find_or_create_user now p st)) k = fld u k"
  using upd_first_found [OF assms(1,3)] assms(1,2)
  by (auto simp: find_or_create_user_def Let_def store_update_result refreshed_fun profile_keeps)

lemma openid_unknown:
  assumes "find (has_openid (VStr s)) (rows_of st Users) = None" "fld p ''openid'' = VStr s"
  shows "find_or_create_user now p st = store_insert now Users (new_user_row p) (load_data now st)"
  using assms by (simp add: find_or_create_user_def)

text \<open>The user found or created, its table and its id.\<close>

lemma openid_post:
  assumes ids: "ids_ok (rows_of st Users) (next_of st Users)"
    and dist: "distinct (map (\<lambda>r. fld r ''openid'') (rows_of st Users))"
    and p: "fld p ''openid'' = VStr s"
  shows "\<exists>u m. find (has_openid (VStr s)) (rows_of (snd (find_or_create_user now p st)) Users) = Some u \<and>
    ids_ok (rows_of (snd (find_or_create_user now p st)) Users) m \<and>
    distinct (map (\<lambda>r. fld r ''openid'') (rows_of (snd (find_or_create_user now p st)) Users)) \<and>
    fld (fst (find_or_create_user now p st)) ''openid'' = VStr s \<and>
    fld (fst (find_or_create_user now p st)) ''id'' = fld u ''id''"
proof (cases "find (has_openid (VStr s)) (rows_of st Users)")
  case None
  let ?u = "new_row now (next_of st Users) (new_user_row p)"
  have "fld ?u ''openid'' = VStr s"
    using p by (simp add: fld_new_row new_user_row_def)
  moreover have "\<forall>r\<in>set (rows_of st Users). fld r ''openid'' \<noteq> VStr s"
    using None by (auto simp: find_None_iff has_openid_def)
  ultimately show ?thesis
    using ids dist None next_of_pos [of st Users]
    by (auto simp: openid_unknown [OF None p] store_insert_result find_app has_openid_def
        intro!: exI [of _ ?u] exI [of _ "Suc (next_of st Users)"] ids_ok_snoc)
next
  case (Some u)
  let ?f = "refreshed now p u"
  have "fld u ''openid'' = VStr s"
    using find_in_set [OF Some] by (simp add: has_openid_def)
  then have "find (has_openid (VStr s)) (upd_first (has_openid (VStr s)) ?f (rows_of st Users)) = Some (?f u)"
    using Some by (intro find_upd_first_same) (auto simp: has_openid_def refreshed_keeps)
  moreover have "ids_ok (upd_first (has_openid (VStr s)) ?f (rows_of st Users)) (next_of st Users)"
    using ids by (intro ids_ok_upd_first) (auto simp: refreshed_keeps)
  moreover have "map (\<lambda>r. fld r ''openid'') (upd_first (has_openid (VStr s)) ?f (rows_of st Users))
      = map (\<lambda>r. fld r ''openid'') (rows_of st Users)"
    by (rule map_upd_first_same) (simp add: refreshed_keeps)
  ultimately show ?thesis
    using dist \<open>fld u ''openid'' = VStr s\<close>
    by (intro exI [of _ "?f u"] exI [of _ "next_of st Users"])
      (simp add: openid_known [OF Some p ids] refreshed_keeps)
qed

text \<open>Looking a user up by openid creates it at most once: when openids are distinct they stay
  distinct, the answer carries the openid and sits in the table under its id, and asking again for the
  same openid answers with the same id and inserts nothing.\<close>

theorem openid_has_one_user:
  assumes ids: "ids_ok (rows_of st Users) (next_of st Users)"
    and dist: "distinct (map (\<lambda>r. fld r ''openid'') (rows_of st Users))"
    and p: "fld p ''openid'' = VStr s" "fld q ''openid'' = VStr s"
  shows "distinct (map (\<lambda>r. fld r ''openid'') (rows_of (snd (find_or_create_user now p st)) Users)) \<and>
    fld (fst (find_or_create_user now p st)) ''openid'' = VStr s \<and>
    fld (fst (find_or_create_user now' q (snd (find_or_create_user now p st)))) ''id''
      = fld (fst (find_or_create_user now p st)) ''id'' \<and>
    length (rows_of (snd (find_or_create_user now' q (snd (find_or_create_user now p st)))) Users)
      = length (rows_of (snd (find_or_create_user now p st)) Users)"
proof -
  obtain u m where u: "find (has_openid (VStr s)) (rows_of (snd (find_or_create_user now p st)) Users) = Some u"
    "ids_ok (rows_of (snd (find_or_create_user now p st)) Users) m"
    and rest: "distinct (map (\<lambda>r. fld r ''openid'') (rows_of (snd (find_or_create_user now p st)) Users))"
    "fld (fst (find_or_create_user now p st)) ''openid'' = VStr s"
    "fld (fst (find_or_create_user now p st)) ''id'' = fld u ''id''"
    using openid_post [OF ids dist p(1), of now] by blast
  show ?thesis
    using rest by (simp add: openid_known [OF u(1) p(2) u(2)])
qed

theorem openid_has_one_user_witness:
  "let p = [(''openid'', VStr ''O''), (''nickname'', VStr ''N'')]; q = [(''openid'', VStr ''O'')];
       st = store_with (\<lambda>_. [])
   in fld (fst (find_or_create_user ''u'' p (snd (find_or_create_user ''t'' q st)))) ''id''
        = fld (fst (find_or_create_user ''t'' q st)) ''id''"
proof -
  have "ids_ok (rows_of (store_with (\<lambda>_. [])) Users) (next_of (store_with (\<lambda>_. [])) Users)"
    "distinct (map (\<lambda>r. fld r ''openid'') (rows_of (store_with (\<lambda>_. [])) Users))"
    by (simp_all add: ids_ok_def)
  from openid_has_one_user [OF this, of "[(''openid'', VStr ''O'')]" "''O''"
      "[(''openid'', VStr ''O''), (''nickname'', VStr ''N'')]" "''t''" "''u''"] show ?thesis
    by (simp add: Let_def)
qed

end
