(* ===== verification/Admin_Routes.thy ===== *)
theory Admin_Routes
  imports Shop_Routes
begin

text \<open>
  The routes behind the administrator token (\<^verbatim>\<open>src/src/routes/api_v1/admin\<close>): orders, categories,
  products, welfare codes and the SKU library.  Every handler catches its exceptions and answers 500
  with the message.
\<close>

section \<open>Orders\<close>

text \<open>\<open>statusMapCn[s] || s\<close>\<close>

definition status_map_cn :: "(string \<times> string) list" where
  "status_map_cn =
     [(''PENDING_FREIGHT'', cn_pending), (''WAIT_SHIP'', cn_pending), (''SHIPPED'', cn_shipped),
      (''DELIVERED'', cn_delivered), (''COMPLETED'', cn_completed), (''CLOSED_UNPAID'', cn_closed),
      (''CANCELLED'', cn_cancelled)]"

definition status_cn :: "val \<Rightarrow> val" where
  "status_cn v = (case map_of status_map_cn (js_to_string v) of Some t \<Rightarrow> VStr t | None \<Rightarrow> v)"

definition safe_json_parse :: "val \<Rightarrow> val" where
  "safe_json_parse v =
     (case v of
        VObj r \<Rightarrow> VObj r
      | VArr vs \<Rightarrow> VArr vs
      | VStr s \<Rightarrow> (case json_parse s of Some x \<Rightarrow> x | None \<Rightarrow> VNull)
      | _ \<Rightarrow> VNull)"

definition normalize_range :: "request \<Rightarrow> string option \<times> string option" where
  "normalize_range req =
     (case query req ''startAt'' of
        Some s \<Rightarrow> Some s
      | None \<Rightarrow> if str_truthy (query req ''startDate'')
                then Some (str_of (query req ''startDate'') @ '' 00:00:00'') else None,
      case query req ''endAt'' of
        Some s \<Rightarrow> Some s
      | None \<Rightarrow> if str_truthy (query req ''endDate'')
                then Some (str_of (query req ''endDate'') @ '' 23:59:59'') else None)"

text \<open>A property of \<open>safeJsonParse(v) || {}\<close>, which is never null.\<close>

definition addr_fld :: "val \<Rightarrow> string \<Rightarrow> val" where
  "addr_fld v k = (case v of VObj r \<Rightarrow> fld r k | _ \<Rightarrow> VUndef)"

definition admin_order_row :: "row \<Rightarrow> row" where
  "admin_order_row r =
     (let addr = safe_json_parse (fld r ''address_snapshot'') in
      spread r
        [(''status_cn'', status_cn (fld r ''status'')),
         (''receiver_name'', js_or (js_or (addr_fld addr ''name'') (fld r ''address_name'')) (VStr [])),
         (''receiver_phone'', js_or (js_or (addr_fld addr ''phone'') (fld r ''address_phone'')) (VStr [])),
         (''receiver_address'', js_or (js_or (js_or (addr_fld addr ''detail'') (addr_fld addr ''address''))
            (fld r ''address_detail'')) (VStr []))])"

definition admin_list_orders :: "call_env \<Rightarrow> request \<Rightarrow> fs_state action" where
  "admin_list_orders e req st =
     (let page = page_arg req; ps = page_size_arg req; (s, t) = normalize_range req in
      case orders_list (iso e) \<lparr>oq_page = page, oq_pageSize = ps, oq_status = query req ''status'',
             oq_orderNo = query req ''orderNo'', oq_phone = query req ''phone'', oq_startAt = s, oq_endAt = t,
             oq_userId = VUndef\<rparr> st of
        (Inl err, st1) \<Rightarrow> (Inl err, st1)
      | (Inr (n, os), st1) \<Rightarrow>
          (ok_res [(''total'', VNat n), (''page'', num_of_parse page), (''pageSize'', num_of_parse ps),
                   (''orders'', VArr (map (\<lambda>r. VObj (admin_order_row r)) os))], st1))"

definition not_found :: "string \<Rightarrow> js_error + response" where
  "not_found m = res_status 404 [(''error'', VStr m)]"

definition admin_order_detail :: "row \<Rightarrow> row" where
  "admin_order_detail r =
     (let addr = safe_json_parse (fld r ''address_snapshot'') in
      spread r
        [(''status_cn'', status_cn (fld r ''status'')),
         (''receiver_name'', js_or (addr_fld addr ''name'') (VStr [])),
         (''receiver_phone'', js_or (addr_fld addr ''phone'') (VStr [])),
         (''receiver_address'', js_or (js_or (addr_fld addr ''detail'') (addr_fld addr ''address'')) (VStr []))])"

definition admin_get_order :: "call_env \<Rightarrow> request \<Rightarrow> fs_state action" where
  "admin_get_order e req st =
     (let no = VStr (params req ''orderNo'') in
      case find_by_order_no (iso e) no st of
        (None, st1) \<Rightarrow> (not_found msg_order_missing, st1)
      | (Some r, st1) \<Rightarrow>
          (let (items, st2) = get_order_items (iso e) no st1; (logs, st3) = get_change_logs (iso e) no st2
           in (ok_res [(''order'', VObj (admin_order_detail r)), (''items'', VArr (map VObj items)),
                       (''logs'', VArr (map VObj logs))], st3)))"

definition admin_put_status :: "call_env \<Rightarrow> request \<Rightarrow> fs_state action" where
  "admin_put_status e req st =
     (let no = VStr (params req ''orderNo''); s = body_fld req ''status'' in
      case find_by_order_no (iso e) no st of
        (None, st1) \<Rightarrow> (not_found msg_order_missing, st1)
      | (Some r, st1) \<Rightarrow>
          (let (_, st2) = update_status (iso e) no s [] st1;
               st3 = log_change (iso e) no ''status'' (fld r ''status'') s (Some ''admin'') st2
           in (ok_res [(''success'', VBool True), (''message'', VStr msg_status_updated)], st3)))"

definition admin_put_remark :: "call_env \<Rightarrow> request \<Rightarrow> fs_state action" where
  "admin_put_remark e req st =
     (let no = VStr (params req ''orderNo''); m = body_fld req ''remark'' in
      case find_by_order_no (iso e) no st of
        (None, st1) \<Rightarrow> (not_found msg_order_missing, st1)
      | (Some r, st1) \<Rightarrow>
          (let old = js_or (fld r ''remark'') (VStr []);
               (_, st2) = orders_update (iso e) no [(''remark'', m)] st1;
               st3 = log_change (iso e) no ''remark'' old (js_or m (VStr [])) (Some ''admin'') st2
           in (ok_res [(''success'', VBool True), (''message'', VStr msg_remark_updated)], st3)))"

definition admin_delete_order :: "call_env \<Rightarrow> request \<Rightarrow> fs_state action" where
  "admin_delete_order e req st =
     (let no = VStr (params req ''orderNo'') in
      case find_by_order_no (iso e) no st of
        (None, st1) \<Rightarrow> (not_found msg_order_missing, st1)
      | (Some r, st1) \<Rightarrow>
          (let (_, st2) = orders_remove (iso e) no st1
           in (ok_res [(''success'', VBool True), (''message'', VStr msg_order_deleted)], st2)))"

definition admin_order_stats :: "call_env \<Rightarrow> request \<Rightarrow> fs_state action" where
  "admin_order_stats e req st =
     (let (n, st1) = count_by_status (iso e) None st;
          (a, st2) = count_by_status (iso e) (Some ''PENDING_PAYMENT'') st1;
          (b, st3) = count_by_status (iso e) (Some ''PENDING_FREIGHT'') st2;
          (c, st4) = count_by_status (iso e) (Some ''WAIT_SHIP'') st3;
          (s, st5) = count_by_status (iso e) (Some ''SHIPPED'') st4;
          (d, st6) = count_by_status (iso e) (Some ''COMPLETED'') st5
      in (ok_res [(''total'', VNat n), (''pending'', VNat (a + b + c)), (''shipped'', VNat s),
                  (''completed'', VNat d)], st6))"

section \<open>Categories\<close>

definition number_param :: "request \<Rightarrow> string \<Rightarrow> val" where
  "number_param req k = to_num (VStr (params req k))"

definition admin_list_categories :: "call_env \<Rightarrow> request \<Rightarrow> fs_state action" where
  "admin_list_categories e req st =
     (let (cs, st1) = categories_list (iso e) st in (ok_res [(''categories'', VArr (map VObj cs))], st1))"

definition admin_create_category :: "call_env \<Rightarrow> request \<Rightarrow> fs_state action" where
  "admin_create_category e req st =
     (let name = body_fld req ''name'' in
      if \<not> truthy name then (res_status 400 [(''error'', VStr msg_cat_name_required)], st)
      else (let (c, st1) = categories_create (iso e)
                  [(''name'', name), (''icon'', js_or (body_fld req ''icon'') VUndef),
                   (''sort_order'', js_or (body_fld req ''sort_order'') (VNum 0)),
                   (''status'', js_coalesce (body_fld req ''status'') (VNum 1))] st
            in (ok_res [(''success'', VBool True), (''id'', fld c ''id''), (''message'', VStr msg_cat_created)], st1)))"

definition admin_update_category :: "call_env \<Rightarrow> request \<Rightarrow> fs_state action" where
  "admin_update_category e req st =
     (let i = number_param req ''id'' in
      case categories_find_by_id (iso e) i st of
        (None, st1) \<Rightarrow> (not_found msg_cat_missing, st1)
      | (Some _, st1) \<Rightarrow>
          (let (_, st2) = categories_update (iso e) i
                 [(''name'', body_fld req ''name''), (''icon'', js_or (body_fld req ''icon'') VNull),
                  (''sort_order'', js_or (body_fld req ''sort_order'') (VNum 0)),
                  (''status'', js_coalesce (body_fld req ''status'') (VNum 1))] st1
           in (ok_res [(''success'', VBool True), (''message'', VStr msg_cat_updated)], st2)))"

definition admin_delete_category :: "call_env \<Rightarrow> request \<Rightarrow> fs_state action" where
  "admin_delete_category e req st =
     (let i = number_param req ''id'' in
      case exists_by_category (iso e) i st of
        (True, st1) \<Rightarrow> (res_status 400 [(''error'', VStr msg_cat_in_use)], st1)
      | (False, st1) \<Rightarrow>
          (let (_, st2) = categories_remove (iso e) i st1
           in (ok_res [(''success'', VBool True), (''message'', VStr msg_cat_deleted)], st2)))"

section \<open>Products and the SKU library\<close>

definition admin_list_products :: "call_env \<Rightarrow> request \<Rightarrow> fs_state action" where
  "admin_list_products e req st =
     (let page = page_arg req; ps = page_size_arg req in
      case products_list (iso e) \<lparr>pq_page = page, pq_pageSize = ps, pq_keyword = query req ''keyword'',
             pq_categoryId = VUndef, pq_status = VUndef\<rparr> st of
        (Inl err, st1) \<Rightarrow> (Inl err, st1)
      | (Inr (n, rs), st1) \<Rightarrow>
          (ok_res [(''total'', VNat n), (''page'', num_of_parse page), (''pageSize'', num_of_parse ps),
                   (''products'', VArr (map VObj rs))], st1))"

definition admin_get_product :: "call_env \<Rightarrow> request \<Rightarrow> fs_state action" where
  "admin_get_product e req st =
     (let i = id_param req ''id'' in
      case products_find_by_id (iso e) i st of
        (None, st1) \<Rightarrow> (not_found msg_product_missing, st1)
      | (Some p, st1) \<Rightarrow>
          (let (skus, st2) = get_skus (iso e) i st1
           in (ok_res [(''product'', VObj p), (''skus'', VArr (map VObj skus))], st2)))"

definition admin_create_product :: "call_env \<Rightarrow> request \<Rightarrow> fs_state action" where
  "admin_create_product e req st =
     (let (p, st1) = products_create (iso e) (body_row req) st
      in (ok_res [(''success'', VBool True), (''id'', fld p ''id'')], st1))"

definition admin_update_product :: "call_env \<Rightarrow> request \<Rightarrow> fs_state action" where
  "admin_update_product e req st =
     (let i = id_param req ''id'' in
      case products_find_by_id (iso e) i st of
        (None, st1) \<Rightarrow> (not_found msg_product_missing, st1)
      | (Some _, st1) \<Rightarrow>
          (let (_, st2) = products_update (iso e) i (body_row req) st1
           in (ok_res [(''success'', VBool True)], st2)))"

definition admin_delete_product :: "call_env \<Rightarrow> request \<Rightarrow> fs_state action" where
  "admin_delete_product e req st =
     (let (_, st1) = products_remove (iso e) (id_param req ''id'') st
      in (ok_res [(''success'', VBool True)], st1))"

text \<open>The library lists the products with \<open>pageSize: 10000\<close>, which the repository cuts to 100, and
  then the SKUs of those.\<close>

fun collect_skus :: "string \<Rightarrow> row list \<Rightarrow> fs_state \<Rightarrow> row list \<times> fs_state" where
  "collect_skus now [] st = ([], st)"
| "collect_skus now (p # ps) st =
     (let (skus, st1) = get_skus now (fld p ''id'') st; (rest, st2) = collect_skus now ps st1
      in (map (\<lambda>s. spread s [(''product_title'', fld p ''title'')]) skus @ rest, st2))"

text \<open>\<open>allSkus.slice(offset, offset + pageSize)\<close>, where a NaN bound reads as 0.\<close>

definition raw_page :: "int option \<Rightarrow> int option \<Rightarrow> 'a list \<Rightarrow> 'a list" where
  "raw_page p ps xs =
     (case (p, ps) of
        (Some a, Some s) \<Rightarrow> (let offset = (a - 1) * s in js_slice offset (offset + s) xs)
      | _ \<Rightarrow> [])"

definition admin_list_skus :: "call_env \<Rightarrow> request \<Rightarrow> fs_state action" where
  "admin_list_skus e req st =
     (let page = page_arg req; ps = page_size_arg req in
      case products_list (iso e) \<lparr>pq_page = None, pq_pageSize = Some 10000, pq_keyword = None,
             pq_categoryId = VUndef, pq_status = VUndef\<rparr> st of
        (Inl err, st1) \<Rightarrow> (Inl err, st1)
      | (Inr (n, products), st1) \<Rightarrow>
          (let (skus, st2) = collect_skus (iso e) products st1
           in (ok_res [(''total'', VNat (length skus)), (''page'', num_of_parse page),
                       (''pageSize'', num_of_parse ps), (''skus'', VArr (map VObj (raw_page page ps skus)))], st2)))"

definition admin_get_sku :: "call_env \<Rightarrow> request \<Rightarrow> fs_state action" where
  "admin_get_sku e req st =
     (case find_sku_by_code (iso e) (VStr (params req ''code'')) st of
        (None, st1) \<Rightarrow> (not_found msg_sku_missing, st1)
      | (Some sku, st1) \<Rightarrow>
          (let (p, st2) = products_find_by_id (iso e) (fld sku ''product_id'') st1
           in (ok_res [(''sku'', VObj sku), (''product'', case p of Some r \<Rightarrow> VObj r | None \<Rightarrow> VNull)], st2)))"

section \<open>Welfare codes\<close>

definition admin_list_codes :: "call_env \<Rightarrow> request \<Rightarrow> fs_state action" where
  "admin_list_codes e req st =
     (let page = page_arg req; ps = page_size_arg req in
      case welfare_list (iso e) \<lparr>wq_page = page, wq_pageSize = ps, wq_keyword = query req ''keyword'',
             wq_status = VUndef, wq_type = None\<rparr> st of
        (Inl err, st1) \<Rightarrow> (Inl err, st1)
      | (Inr (n, rs), st1) \<Rightarrow>
          (ok_res [(''total'', VNat n), (''page'', num_of_parse page), (''pageSize'', num_of_parse ps),
                   (''codes'', VArr (map VObj rs))], st1))"

definition admin_get_code :: "call_env \<Rightarrow> request \<Rightarrow> fs_state action" where
  "admin_get_code e req st =
     (let i = id_param req ''id'' in
      case welfare_find_by_id (iso e) i st of
        (None, st1) \<Rightarrow> (not_found msg_code_missing, st1)
      | (Some c, st1) \<Rightarrow>
          (let (items, st2) = get_items (iso e) i st1
           in (ok_res [(''code'', VObj c), (''items'', VArr (map VObj items))], st2)))"

definition admin_create_code :: "call_env \<Rightarrow> request \<Rightarrow> fs_state action" where
  "admin_create_code e req st =
     (let (c, st1) = welfare_create (iso e) (body_row req) st
      in (ok_res [(''success'', VBool True), (''id'', fld c ''id'')], st1))"

definition admin_update_code :: "call_env \<Rightarrow> request \<Rightarrow> fs_state action" where
  "admin_update_code e req st =
     (let i = id_param req ''id'' in
      case welfare_find_by_id (iso e) i st of
        (None, st1) \<Rightarrow> (not_found msg_code_missing, st1)
      | (Some _, st1) \<Rightarrow>
          (let (_, st2) = welfare_update (iso e) i (body_row req) st1
           in (ok_res [(''success'', VBool True)], st2)))"

definition admin_delete_code :: "call_env \<Rightarrow> request \<Rightarrow> fs_state action" where
  "admin_delete_code e req st =
     (let (_, st1) = welfare_remove (iso e) (id_param req ''id'') st
      in (ok_res [(''success'', VBool True)], st1))"

definition admin_validate_code :: "call_env \<Rightarrow> request \<Rightarrow> fs_state action" where
  "admin_validate_code e req st =
     (let (v, st1) = validate_code (iso e) (body_fld req ''code'') st in (ok_res (validation_row v), st1))"

end
