(* ===== verification/Import_Headers.thy ===== *)
theory Import_Headers
  imports JS_Prelude
begin

text \<open>
  The column headers of the import sheet (\<^verbatim>\<open>HEADER_MAP\<close> of
  \<^verbatim>\<open>src/src/routes/api_v1/admin/properties.ts\<close>), as UTF-8 bytes, with the fields they stand for.
\<close>

definition header_map :: "(string \<times> string) list" where
  "header_map =
    [([CHR 0xE5, CHR 0xBC, CHR 0x80, CHR 0xE6, CHR 0x8B, CHR 0x8D, CHR 0xE6, CHR 0x97,
         CHR 0xB6, CHR 0xE9, CHR 0x97, CHR 0xB4],
      ''auction_time''),
     ([CHR 0xE7, CHR 0xAB, CHR 0x9E, CHR 0xE4, CHR 0xBB, CHR 0xB7, CHR 0xE9, CHR 0x98,
         CHR 0xB6, CHR 0xE6, CHR 0xAE, CHR 0xB5],
      ''bidding_phase''),
     ([CHR 0xE5, CHR 0xB0, CHR 0x8F, CHR 0xE5, CHR 0x8C, CHR 0xBA, CHR 0xE5, CHR 0x90,
         CHR 0x8D, CHR 0xE7, CHR 0xA7, CHR 0xB0],
      ''community_name''),
     ([CHR 0xE8, CHR 0xAF, CHR 0xA6, CHR 0xE7, CHR 0xBB, CHR 0x86, CHR 0xE5, CHR 0x9C,
         CHR 0xB0, CHR 0xE5, CHR 0x9D, CHR 0x80],
      ''detail_address''),
     ([CHR 0xE5, CHR 0xBB, CHR 0xBA, CHR 0xE7, CHR 0xAD, CHR 0x91, CHR 0xE9, CHR 0x9D,
         CHR 0xA2, CHR 0xE7, CHR 0xA7, CHR 0xAF] @
        ''/'' @
        [CHR 0xE3, CHR 0x8E, CHR 0xA1],
      ''building_area''),
     ([CHR 0xE6, CHR 0x88, CHR 0xBF, CHR 0xE5, CHR 0xB1, CHR 0x8B, CHR 0xE6, CHR 0x88,
         CHR 0xB7, CHR 0xE5, CHR 0x9E, CHR 0x8B],
      ''house_type''),
     ([CHR 0xE6, CHR 0xA5, CHR 0xBC, CHR 0xE5, CHR 0xB1, CHR 0x82],
      ''floor_info''),
     ([CHR 0xE5, CHR 0xBB, CHR 0xBA, CHR 0xE7, CHR 0xAD, CHR 0x91, CHR 0xE5, CHR 0xB9,
         CHR 0xB4, CHR 0xE4, CHR 0xBB, CHR 0xBD],
      ''building_year''),
     ([CHR 0xE8, CHR 0xA3, CHR 0x85, CHR 0xE4, CHR 0xBF, CHR 0xAE, CHR 0xE6, CHR 0x83,
         CHR 0x85, CHR 0xE5, CHR 0x86, CHR 0xB5],
      ''decoration_status''),
     ([CHR 0xE7, CHR 0x89, CHR 0xA9, CHR 0xE4, CHR 0xB8, CHR 0x9A, CHR 0xE7, CHR 0x8E,
         CHR 0xB0, CHR 0xE7, CHR 0x8A, CHR 0xB6],
      ''property_status''),
     ([CHR 0xE6, CHR 0x8C, CHR 0x81, CHR 0xE6, CHR 0x9C, CHR 0x89, CHR 0xE5, CHR 0xB9,
         CHR 0xB4, CHR 0xE6, CHR 0x95, CHR 0xB0],
      ''holding_years''),
     ([CHR 0xE7, CHR 0x89, CHR 0xA9, CHR 0xE4, CHR 0xB8, CHR 0x9A, CHR 0xE7, CHR 0xB1,
         CHR 0xBB, CHR 0xE5, CHR 0x9E, CHR 0x8B],
      ''property_type''),
     ([CHR 0xE8, CHR 0xB5, CHR 0xB7, CHR 0xE6, CHR 0x8B, CHR 0x8D, CHR 0xE4, CHR 0xBB,
         CHR 0xB7],
      ''starting_price''),
     ([CHR 0xE8, CHR 0xB5, CHR 0xB7, CHR 0xE6, CHR 0x8B, CHR 0x8D, CHR 0xE5, CHR 0x8D,
         CHR 0x95, CHR 0xE4, CHR 0xBB, CHR 0xB7],
      ''starting_unit_price''),
     ([CHR 0xE7, CHR 0xAB, CHR 0x9E, CHR 0xE6, CHR 0x8B, CHR 0x8D, CHR 0xE5, CHR 0xB9,
         CHR 0xB3, CHR 0xE5, CHR 0x8F, CHR 0xB0],
      ''auction_platform''),
     ([CHR 0xE7, CHR 0xAB, CHR 0x9E, CHR 0xE6, CHR 0x8B, CHR 0x8D, CHR 0xE4, CHR 0xBF,
         CHR 0x9D, CHR 0xE8, CHR 0xAF, CHR 0x81, CHR 0xE9, CHR 0x87, CHR 0x91],
      ''auction_deposit''),
     ([CHR 0xE5, CHR 0x8A, CHR 0xA0, CHR 0xE4, CHR 0xBB, CHR 0xB7, CHR 0xE5, CHR 0xB9,
         CHR 0x85, CHR 0xE5, CHR 0xBA, CHR 0xA6],
      ''price_increment''),
     ([CHR 0xE8, CHR 0xAF, CHR 0x84, CHR 0xE4, CHR 0xBC, CHR 0xB0, CHR 0xE6, CHR 0x80,
         CHR 0xBB, CHR 0xE4, CHR 0xBB, CHR 0xB7],
      ''evaluation_total_price''),
     ([CHR 0xE8, CHR 0xAF, CHR 0x84, CHR 0xE4, CHR 0xBC, CHR 0xB0, CHR 0xE5, CHR 0x8D,
         CHR 0x95, CHR 0xE4, CHR 0xBB, CHR 0xB7],
      ''evaluation_unit_price''),
     (''7'' @
        [CHR 0xE6, CHR 0x88, CHR 0x90, CHR 0xE5, CHR 0x8F, CHR 0xAF, CHR 0xE8, CHR 0xB4,
         CHR 0xB7, CHR 0xE9, CHR 0x87, CHR 0x91, CHR 0xE9, CHR 0xA2, CHR 0x9D],
      ''loan_70_percent''),
     (''8'' @
        [CHR 0xE6, CHR 0x88, CHR 0x90, CHR 0xE5, CHR 0x8F, CHR 0xAF, CHR 0xE8, CHR 0xB4,
         CHR 0xB7, CHR 0xE9, CHR 0x87, CHR 0x91, CHR 0xE9, CHR 0xA2, CHR 0x9D],
      ''loan_80_percent''),
     (''9'' @
        [CHR 0xE6, CHR 0x88, CHR 0x90, CHR 0xE5, CHR 0x8F, CHR 0xAF, CHR 0xE8, CHR 0xB4,
         CHR 0xB7, CHR 0xE9, CHR 0x87, CHR 0x91, CHR 0xE9, CHR 0xA2, CHR 0x9D],
      ''loan_90_percent''),
     ([CHR 0xE5, CHR 0xB8, CHR 0x82, CHR 0xE5, CHR 0x9C, CHR 0xBA, CHR 0xE5, CHR 0x8F,
         CHR 0x82, CHR 0xE8, CHR 0x80, CHR 0x83, CHR 0xE6, CHR 0x80, CHR 0xBB, CHR 0xE4,
         CHR 0xBB, CHR 0xB7],
      ''market_total_price''),
     ([CHR 0xE5, CHR 0xB8, CHR 0x82, CHR 0xE5, CHR 0x9C, CHR 0xBA, CHR 0xE5, CHR 0x8F,
         CHR 0x82, CHR 0xE8, CHR 0x80, CHR 0x83, CHR 0xE5, CHR 0x8D, CHR 0x95, CHR 0xE4,
         CHR 0xBB, CHR 0xB7],
      ''market_unit_price''),
     ([CHR 0xE5, CHR 0xAD, CHR 0xA6, CHR 0xE5, CHR 0x8C, CHR 0xBA],
      ''school_district''),
     ([CHR 0xE5, CHR 0x95, CHR 0x86, CHR 0xE5, CHR 0x9C, CHR 0x88],
      ''business_circle''),
     ([CHR 0xE6, CHR 0x8D, CHR 0xA1, CHR 0xE6, CHR 0xBC, CHR 0x8F, CHR 0xE7, CHR 0xA9,
         CHR 0xBA, CHR 0xE9, CHR 0x97, CHR 0xB4],
      ''profit_space''),
     ([CHR 0xE6, CHR 0x8E, CHR 0x88, CHR 0xE6, CHR 0x9D, CHR 0x83, CHR 0xE7, CHR 0xA0,
         CHR 0x81],
      ''auth_code''),
     ([CHR 0xE5, CHR 0xA5, CHR 0x91, CHR 0xE7, CHR 0xA8, CHR 0x8E, CHR 0xE7, CHR 0x8E,
         CHR 0x87],
      ''deed_tax_rate''),
     ([CHR 0xE5, CHR 0xA5, CHR 0x91, CHR 0xE7, CHR 0xA8, CHR 0x8E, CHR 0xE9, CHR 0x87,
         CHR 0x91, CHR 0xE9, CHR 0xA2, CHR 0x9D],
      ''deed_tax_amount''),
     ([CHR 0xE5, CHR 0xA2, CHR 0x9E, CHR 0xE5, CHR 0x80, CHR 0xBC, CHR 0xE7, CHR 0xA8,
         CHR 0x8E, CHR 0xE7, CHR 0x8E, CHR 0x87],
      ''vat_rate''),
     ([CHR 0xE5, CHR 0xA2, CHR 0x9E, CHR 0xE5, CHR 0x80, CHR 0xBC, CHR 0xE7, CHR 0xA8,
         CHR 0x8E, CHR 0xE9, CHR 0x87, CHR 0x91, CHR 0xE9, CHR 0xA2, CHR 0x9D],
      ''vat_amount''),
     ([CHR 0xE4, CHR 0xB8, CHR 0xAA, CHR 0xE7, CHR 0xA8, CHR 0x8E, CHR 0xE7, CHR 0x8E,
         CHR 0x87],
      ''income_tax_rate''),
     ([CHR 0xE4, CHR 0xB8, CHR 0xAA, CHR 0xE7, CHR 0xA8, CHR 0x8E, CHR 0xE9, CHR 0x87,
         CHR 0x91, CHR 0xE9, CHR 0xA2, CHR 0x9D],
      ''income_tax_amount''),
     ([CHR 0xE5, CHR 0xAE, CHR 0xA2, CHR 0xE6, CHR 0x88, CHR 0xB7, CHR 0xE5, CHR 0xA7,
         CHR 0x93, CHR 0xE5, CHR 0x90, CHR 0x8D],
      ''customer_name''),
     ([CHR 0xE5, CHR 0xAE, CHR 0xA2, CHR 0xE6, CHR 0x88, CHR 0xB7, CHR 0xE8, CHR 0x81,
         CHR 0x94, CHR 0xE7, CHR 0xB3, CHR 0xBB, CHR 0xE5, CHR 0x8F, CHR 0xB7, CHR 0xE7,
         CHR 0xA0, CHR 0x81],
      ''customer_phone''),
     ([CHR 0xE5, CHR 0xAE, CHR 0xA2, CHR 0xE6, CHR 0x88, CHR 0xB7, CHR 0xE5, CHR 0xB0,
         CHR 0xBD, CHR 0xE8, CHR 0xB0, CHR 0x83, CHR 0xE7, CHR 0xAE, CHR 0x80, CHR 0xE4,
         CHR 0xBB, CHR 0x8B],
      ''customer_survey_brief''),
     ([CHR 0xE5, CHR 0xBD, CHR 0x92, CHR 0xE5, CHR 0xB1, CHR 0x9E, CHR 0xE4, CHR 0xB8,
         CHR 0x9A, CHR 0xE5, CHR 0x8A, CHR 0xA1, CHR 0xE5, CHR 0x91, CHR 0x98],
      ''assigned_salesman''),
     (''unionID'',
      ''unionID''),
     (''OpenID'',
      ''openID'')]"

end
