(* ===== verification/Admin_Properties.thy ===== *)
theory Admin_Properties
  imports Admin_Routes Import_Headers
begin

text \<open>
  The property administration (\<^verbatim>\<open>routes/api_v1/admin/properties.ts\<close>), the import of a spreadsheet, the
  exports (\<^verbatim>\<open>routes/api_v1/admin/export.ts\<close>) and the image upload (\<^verbatim>\<open>routes/api_v1/admin/upload.ts\<close>).
  The spreadsheet package is not modelled: an uploaded workbook is its cells, an exported one the
  rows that were added to it.
\<close>

section \<open>Listing and single properties\<close>

definition admin_list_properties :: "call_env \<Rightarrow> request \<Rightarrow> fs_state action" where
  "admin_list_properties e req st =
     (let page = page_arg req; ps = page_size_arg req in
      case properties_list (iso e) (no_property_query\<lparr>yq_page := page, yq_pageSize := ps,
             yq_communityName := query req ''communityName'', yq_customerPhone := query req ''customerPhone'',
             yq_authCode := query req ''authCode'', yq_startAt := query req ''startAt'',
             yq_endAt := query req ''endAt''\<rparr>) st of
        (Inl err, st1) \<Rightarrow> (Inl err, st1)
      | (Inr (n, rs), st1) \<Rightarrow>
          (ok_res [(''total'', VNat n), (''page'', num_of_parse page), (''pageSize'', num_of_parse ps),
                   (''properties'', VArr (map VObj rs))], st1))"

definition admin_communities :: "call_env \<Rightarrow> request \<Rightarrow> fs_state action" where
  "admin_communities e req st =
     (let (ns, st1) = get_community_names (iso e) st in (ok_res [(''communities'', VArr ns)], st1))"

definition admin_get_property :: "call_env \<Rightarrow> request \<Rightarrow> fs_state action" where
  "admin_get_property e req st =
     (case properties_find_by_id (iso e) (number_param req ''id'') st of
        (None, st1) \<Rightarrow> (not_found msg_property_missing, st1)
      | (Some p, st1) \<Rightarrow> (ok_res [(''property'', VObj p)], st1))"

text \<open>\<open>Math.round(Number(v) * 100)\<close>\<close>

fun cents :: "val \<Rightarrow> val" where
  "cents (VNum x) = VInt (round_half_up (x * 100))"
| "cents (VInf p) = VInf p"
| "cents _ = VNaN"

text \<open>\<open>if (data.k !== undefined) d.j = f(data.k)\<close>\<close>

definition set_if :: "val \<Rightarrow> string \<Rightarrow> val \<Rightarrow> row \<Rightarrow> row" where
  "set_if v j x r = (if v \<noteq> VUndef then spread r [(j, x)] else r)"

definition text_or_json :: "val \<Rightarrow> val" where
  "text_or_json v = (case v of VStr s \<Rightarrow> VStr s | _ \<Rightarrow> VStr (json_text v))"

definition property_form :: "request \<Rightarrow> row" where
  "property_form req =
     (let b = body_fld req in
      set_if (b ''module_config'') ''module_config'' (text_or_json (b ''module_config''))
      (set_if (b ''sortOrder'') ''sort_order'' (js_or (to_num (b ''sortOrder'')) (VNum 0))
      (set_if (b ''isFeatured'') ''is_featured'' (VNum (if truthy (b ''isFeatured'') then 1 else 0))
      (set_if (b ''images'') ''images'' (text_or_json (b ''images''))
      (set_if (b ''coverUrl'') ''cover_url'' (b ''coverUrl'')
      (set_if (b ''priceYuan'') ''price_cent'' (js_or (cents (to_num (b ''priceYuan''))) (VNum 0))
      (body_row req)))))))"

definition admin_create_property :: "call_env \<Rightarrow> request \<Rightarrow> fs_state action" where
  "admin_create_property e req st =
     (if \<not> truthy (body_fld req ''community_name'')
      then (res_status 400 [(''error'', VStr msg_community_required)], st)
      else (let (p, st1) = properties_create (iso e) (property_form req) st
            in (ok_res [(''success'', VBool True), (''message'', VStr msg_property_created),
                        (''id'', fld p ''id'')], st1)))"

definition admin_update_property :: "call_env \<Rightarrow> request \<Rightarrow> fs_state action" where
  "admin_update_property e req st =
     (let i = number_param req ''id'' in
      case properties_find_by_id (iso e) i st of
        (None, st1) \<Rightarrow> (not_found msg_property_missing, st1)
      | (Some _, st1) \<Rightarrow>
          (let (_, st2) = properties_update (iso e) i (property_form req) st1
           in (ok_res [(''success'', VBool True), (''message'', VStr msg_property_updated)], st2)))"

definition admin_delete_property :: "call_env \<Rightarrow> request \<Rightarrow> fs_state action" where
  "admin_delete_property e req st =
     (let i = number_param req ''id'' in
      case properties_find_by_id (iso e) i st of
        (None, st1) \<Rightarrow> (not_found msg_property_missing, st1)
      | (Some _, st1) \<Rightarrow>
          (let (_, st2) = properties_remove (iso e) i st1
           in (ok_res [(''success'', VBool True), (''message'', VStr msg_property_deleted)], st2)))"

section \<open>Import\<close>

text \<open>
  The value of a cell: a plain value, a date with its UTC parts and its own text, rich text, a
  formula with its result, any other object.
\<close>

record date_parts =
  dy :: nat
  dm0 :: nat
  dd :: nat
  dh :: nat
  dmin :: nat
  ds :: nat

datatype cell_value =
    Plain val
  | Date date_parts string
  | Rich "string list"
  | Formula cell_value
  | Other

record cell =
  cv :: cell_value
  numFmt :: string

datatype upload =
    No_file
  | Bad_file js_error
  | No_sheet
  | Sheet "(nat \<times> cell) list" "(nat \<times> cell) list list"

text \<open>\<open>v.toString()\<close>, and none for null and undefined.\<close>

fun cell_text :: "cell_value \<Rightarrow> string option" where
  "cell_text (Plain v) = (if nullish v then None else Some (js_to_string v))"
| "cell_text (Date d t) = Some t"
| "cell_text _ = Some ''[object Object]''"

fun cell_truthy :: "cell_value \<Rightarrow> bool" where
  "cell_truthy (Plain v) = truthy v"
| "cell_truthy _ = True"

definition header_text :: "cell \<Rightarrow> string" where
  "header_text c = (case cell_text (cv c) of None \<Rightarrow> [] | Some t \<Rightarrow> trim t)"

definition date_text :: "date_parts \<Rightarrow> string \<Rightarrow> string" where
  "date_text d fmt =
     (let day = nat_to_string (dy d) @ ''/'' @ nat_to_string (dm0 d + 1) @ ''/'' @ nat_to_string (dd d);
          hm = day @ '' '' @ nat_to_string (dh d) @ '':'' @ pad0 2 (nat_to_string (dmin d)) in
      if str_includes fmt ''h:mm:ss'' \<or> str_includes fmt ''hh:mm:ss''
      then hm @ '':'' @ pad0 2 (nat_to_string (ds d))
      else if str_includes fmt ''h:mm'' \<or> str_includes fmt ''hh:mm'' then hm @ '':00''
      else day)"

text \<open>The auction time keeps its written form.\<close>

definition auction_time_value :: "cell \<Rightarrow> val" where
  "auction_time_value c =
     (let fin = (case cv c of
                   Date d t \<Rightarrow> Plain (VStr (date_text d (numFmt c)))
                 | Plain (VStr s) \<Rightarrow> Plain (VStr s)
                 | Rich ts \<Rightarrow> Plain (VStr (concat ts))
                 | Formula r \<Rightarrow> r
                 | v \<Rightarrow> if cell_truthy v then v else Plain VNull)
      in case cell_text fin of
           Some t \<Rightarrow> VStr (trim t)
         | None \<Rightarrow> (case fin of Plain v \<Rightarrow> v | _ \<Rightarrow> VNull))"

definition field_value :: "cell \<Rightarrow> val" where
  "field_value c =
     (let v = (case cv c of Formula r \<Rightarrow> r | w \<Rightarrow> w)
      in case cell_text v of
           None \<Rightarrow> VNull
         | Some t \<Rightarrow> js_or (VStr (trim t)) VNull)"

definition import_cell :: "(nat \<times> string) list \<Rightarrow> nat \<times> cell \<Rightarrow> row \<Rightarrow> row" where
  "import_cell headers_at kc r =
     (case map_of headers_at (fst kc) of
        None \<Rightarrow> r
      | Some h \<Rightarrow>
          (case (if h = [] then None else map_of header_map h) of
             None \<Rightarrow> r
           | Some f \<Rightarrow>
               spread r [(f, if f = ''auction_time'' then auction_time_value (snd kc) else field_value (snd kc))]))"

definition import_row :: "(nat \<times> string) list \<Rightarrow> (nat \<times> cell) list \<Rightarrow> row" where
  "import_row headers_at cells = foldl (\<lambda>r kc. import_cell headers_at kc r) [] cells"

definition import_rows :: "(nat \<times> cell) list \<Rightarrow> (nat \<times> cell) list list \<Rightarrow> row list" where
  "import_rows hd_cells sheet_rows =
     (let headers_at = map (\<lambda>(k, c). (k, header_text c)) hd_cells
      in filter (\<lambda>r. truthy (fld r ''community_name'')) (map (import_row headers_at) sheet_rows))"

definition admin_import :: "call_env \<Rightarrow> upload \<Rightarrow> fs_state action" where
  "admin_import e u st =
     (case u of
        No_file \<Rightarrow> (res_status 400 [(''error'', VStr msg_no_file)], st)
      | Bad_file err \<Rightarrow> (Inl err, st)
      | No_sheet \<Rightarrow> (res_status 400 [(''error'', VStr msg_empty_excel)], st)
      | Sheet hd_cells sheet_rows \<Rightarrow>
          (let rs = import_rows hd_cells sheet_rows in
           if rs = [] then (res_status 400 [(''error'', VStr msg_no_rows)], st)
           else (let (n, st1) = bulk_insert (iso e) rs st
                 in (ok_res [(''success'', VBool True),
                      (''message'', VStr (msg_imported_pre @ nat_to_string n @ msg_imported_post)),
                      (''count'', VNat n)], st1))))"

section \<open>Export\<close>

fun div100 :: "val \<Rightarrow> val" where
  "div100 (VNum x) = VNum (x / 100)"
| "div100 v = v"

definition export_order_row :: "row \<Rightarrow> row" where
  "export_order_row r =
     [(''order_no'', fld r ''order_no''), (''status'', fld r ''status''),
      (''total_amount'', div100 (to_num (fld r ''total_amount''))),
      (''receiver_name'', js_or (fld r ''address_name'') (VStr [])),
      (''receiver_phone'', js_or (fld r ''address_phone'') (VStr [])),
      (''receiver_address'', js_or (fld r ''address_detail'') (VStr [])),
      (''created_at'', fld r ''created_at'')]"

text \<open>A body field used as a filter: a string, or absent.\<close>

definition body_text :: "request \<Rightarrow> string \<Rightarrow> string option" where
  "body_text req k = (case body_fld req k of VStr s \<Rightarrow> Some s | _ \<Rightarrow> None)"

definition export_orders :: "call_env \<Rightarrow> request \<Rightarrow> fs_state \<Rightarrow> (js_error + row list) \<times> fs_state" where
  "export_orders e req st =
     (case orders_list (iso e) (no_order_query\<lparr>oq_status := body_text req ''status'',
             oq_startAt := body_text req ''startAt'', oq_endAt := body_text req ''endAt'',
             oq_pageSize := Some 10000\<rparr>) st of
        (Inl err, st1) \<Rightarrow> (Inl err, st1)
      | (Inr (n, os), st1) \<Rightarrow> (Inr (map export_order_row os), st1))"

definition export_property_row :: "row \<Rightarrow> row" where
  "export_property_row p =
     copy_fields [''id'', ''community_name'', ''detail_address'', ''house_type'', ''building_area'',
       ''starting_price''] p @
     [(''status'', VStr (if strict_eq (fld p ''status'') (VNum 1) then msg_listed else msg_unlisted)),
      (''created_at'', fld p ''created_at'')]"

definition export_properties :: "call_env \<Rightarrow> fs_state \<Rightarrow> (js_error + row list) \<times> fs_state" where
  "export_properties e st =
     (case properties_list (iso e) (no_property_query\<lparr>yq_pageSize := Some 10000\<rparr>) st of
        (Inl err, st1) \<Rightarrow> (Inl err, st1)
      | (Inr (n, ps), st1) \<Rightarrow> (Inr (map export_property_row ps), st1))"

section \<open>Upload of images\<close>

definition suffix_drop :: "string \<Rightarrow> string" where
  "suffix_drop s = (if s \<noteq> [] \<and> last s = CHR ''/'' then butlast s else s)"

definition normalize_prefix :: "string \<Rightarrow> string" where
  "normalize_prefix p =
     (let s = trim p in
      if s = [] then []
      else (let s1 = (if hd s = CHR ''/'' then s else CHR ''/'' # s); s2 = suffix_drop s1
            in if s2 = ''/'' then [] else s2))"

definition image_types :: "string list" where
  "image_types = [''image/png'', ''image/jpg'', ''image/jpeg'', ''image/gif'', ''image/webp'']"

definition image_allowed :: "string \<Rightarrow> bool" where
  "image_allowed mimetype \<longleftrightarrow> to_lower mimetype \<in> set image_types"

definition safe_ext :: "string \<Rightarrow> string" where
  "safe_ext ext =
     (let x = to_lower ext
      in if x \<in> set [''.jpg'', ''.jpeg'', ''.png'', ''.gif'', ''.webp''] then x else ''.png'')"

text \<open>The stored name: the clock, six random bytes in hexadecimal, the safe extension.\<close>

definition upload_name :: "call_env \<Rightarrow> string \<Rightarrow> string \<Rightarrow> string" where
  "upload_name e hex ext = ''u_'' @ int_to_string (now_ms e) @ ''_'' @ hex @ safe_ext ext"

definition uri_plain :: "char \<Rightarrow> bool" where
  "uri_plain c \<longleftrightarrow> is_digit c \<or> (let n = of_char c :: nat in 65 \<le> n \<and> n \<le> 90 \<or> 97 \<le> n \<and> n \<le> 122) \<or>
     c \<in> set ''-_.!~*()'' \<or> c = CHR 0x27"

definition upper_hex :: "nat \<Rightarrow> char" where
  "upper_hex n = (if n < 10 then char_of (48 + n) else char_of (55 + n))"

definition uri_encode :: "string \<Rightarrow> string" where
  "uri_encode s = concat (map (\<lambda>c. if uri_plain c then [c]
     else [CHR ''%'', upper_hex (of_char c div 16), upper_hex (of_char c mod 16)]) s)"

definition upload_image :: "string \<Rightarrow> string option \<Rightarrow> js_error + response" where
  "upload_image pub_prefix file =
     (case file of
        None \<Rightarrow> res_status 400 [(''error'', VStr ''No file uploaded'')]
      | Some name \<Rightarrow>
          ok_res [(''success'', VBool True),
                  (''url'', VStr (normalize_prefix pub_prefix @ ''/h5/images/uploads/'' @ uri_encode name))])"

end
