(* ===== verification/Wechat.thy ===== *)
theory Wechat
  imports Shop_Routes Users_Repo Admin_Properties
begin

text \<open>
  What talks to WeChat: login by OAuth (\<^verbatim>\<open>routes/api_v1/auth.ts\<close>) and by mini program
  (\<^verbatim>\<open>routes/api_v1/auth_mini.ts\<close>, \<^verbatim>\<open>services/wechat_mini.ts\<close>), the cached access token
  and the signature for the JS SDK (\<^verbatim>\<open>services/wechat_mp.ts\<close>, \<^verbatim>\<open>routes/api_v1/wechat.ts\<close>), payment notifications (\<^verbatim>\<open>routes/payment.ts\<close>, \<^verbatim>\<open>routes/api_v1/pay.ts\<close>,
  \<^verbatim>\<open>services/wxpay_notify.ts\<close>, \<^verbatim>\<open>services/wxpay_verify.ts\<close>).  The HTTP client is the argument
  \<open>http_get\<close> (an URL to the parsed body or an exception); signature check and authenticated
  decryption are arguments too.
\<close>

record wechat_config =
  appId :: string
  mpSecret :: string
  miniAppId :: string
  miniAppSecret :: string
  baseUrl :: string
  node_env :: string
  apiV3Key :: string

type_synonym http_client = "string \<Rightarrow> js_error + val"

section \<open>Mini program login\<close>

definition code2session :: "wechat_config \<Rightarrow> http_client \<Rightarrow> string \<Rightarrow> js_error + val" where
  "code2session w http_get code =
     (if miniAppId w = [] \<or> miniAppSecret w = []
      then Inl (PlainError ''WECHAT_MINI_APPID or WECHAT_MINI_SECRET not configured'')
      else bindE (http_get (''https://api.weixin.qq.com/sns/jscode2session?appid='' @ uri_encode (miniAppId w) @
              ''&secret='' @ uri_encode (miniAppSecret w) @ ''&js_code='' @ uri_encode code @
              ''&grant_type=authorization_code'')) (\<lambda>data.
           bindE (prop_of data ''errcode'') (\<lambda>ec.
           if truthy ec \<and> \<not> strict_eq ec (VNum 0)
           then Inl (PlainError (''code2session failed: '' @ js_to_string ec @ '' '' @
                  js_to_string (case prop_of data ''errmsg'' of Inr m \<Rightarrow> m | Inl _ \<Rightarrow> VUndef)))
           else Inr data)))"

definition mini_error :: "call_env \<Rightarrow> js_error \<Rightarrow> response" where
  "mini_error e err =
     (if str_includes (err_message e err) ''code2session failed''
      then json_res 400 [(''code'', VStr ''WECHAT_LOGIN_FAILED''), (''message'', VStr (err_message e err))]
      else if str_includes (err_message e err) ''not configured''
      then json_res 500 [(''code'', VStr ''MINI_NOT_CONFIGURED''), (''message'', VStr msg_mini_unconfigured)]
      else error_middleware err)"

text \<open>The service wraps the repository and turns the two time stamps into dates.\<close>

definition login_fields :: "val \<Rightarrow> js_error + row" where
  "login_fields data =
     bindE (prop_of data ''openid'') (\<lambda>openid.
     bindE (prop_of data ''session_key'') (\<lambda>sk.
     bindE (prop_of data ''unionid'') (\<lambda>unionid.
     Inr [(''provider'', VStr ''wechat_mini''), (''openid'', openid), (''unionid'', unionid),
          (''session_key'', sk)])))"

definition mini_login_action ::
  "server_config \<Rightarrow> wechat_config \<Rightarrow> http_client \<Rightarrow> call_env \<Rightarrow> request \<Rightarrow> fs_state action" where
  "mini_login_action cfg w http_get e req st =
     (case bindE (code_req e (body req)) (\<lambda>code.
             bindE (code2session w http_get (js_to_string code)) login_fields) of
        Inl err \<Rightarrow> (Inl err, st)
      | Inr p \<Rightarrow>
          (case find_or_create_by_identity (iso e) p st of
             (Inl err, st1) \<Rightarrow> (Inl err, st1)
           | (Inr user, st1) \<Rightarrow>
               (ok_res [(''token'', VStr (sign_jwt cfg e
                    [(''sub'', VStr (js_to_string (fld user ''id''))), (''openid'', fld p ''openid''),
                     (''provider'', VStr ''wechat_mini'')] (7 * 24 * 3600))),
                  (''user'', VObj (copy_fields [''id'', ''nickname'', ''avatar_url'', ''phone''] user))], st1)))"

definition mini_login ::
  "server_config \<Rightarrow> wechat_config \<Rightarrow> http_client \<Rightarrow> call_env \<Rightarrow> request \<Rightarrow> fs_state \<Rightarrow> response \<times> fs_state" where
  "mini_login cfg w http_get e req st =
     (case mini_login_action cfg w http_get e req st of
        (Inr r, st1) \<Rightarrow> (r, st1)
      | (Inl err, st1) \<Rightarrow>
          (case err of ZodErr _ _ \<Rightarrow> (error_middleware err, st1) | _ \<Rightarrow> (mini_error e err, st1)))"

section \<open>OAuth login\<close>

datatype reply = Send nat string | Redirect string

definition cookie_text :: "wechat_config \<Rightarrow> string \<Rightarrow> string \<Rightarrow> int \<Rightarrow> string" where
  "cookie_text w k v max_age =
     join ''; '' ([k @ ''='' @ uri_encode v, ''Path=/'', ''HttpOnly'', ''SameSite=Lax''] @
       (if node_env w \<noteq> ''development'' then [''Secure''] else []) @
       (if max_age > 0 then [''Max-Age='' @ int_to_string max_age] else []))"

text \<open>The answer and the cookies it sets.\<close>

definition oauth_start :: "wechat_config \<Rightarrow> request \<Rightarrow> reply \<times> string list" where
  "oauth_start w req =
     (Redirect (''https://open.weixin.qq.com/connect/oauth2/authorize?appid='' @ uri_encode (appId w) @
        ''&redirect_uri='' @ uri_encode (baseUrl w @ ''/api/v1/auth/wechat/oauth-callback'') @
        ''&response_type=code&scope=snsapi_base#wechat_redirect''),
      [cookie_text w ''oauth_redirect'' (query_or req ''redirect'' ''/'') 600])"

definition oauth_callback ::
  "server_config \<Rightarrow> wechat_config \<Rightarrow> http_client \<Rightarrow> call_env \<Rightarrow> request \<Rightarrow> fs_state \<Rightarrow>
   (reply \<times> string list) \<times> fs_state" where
  "oauth_callback cfg w http_get e req st =
     (if \<not> str_truthy (query req ''code'') then ((Send 400 ''missing code'', []), st)
      else
        (case bindE (http_get (''https://api.weixin.qq.com/sns/oauth2/access_token?appid='' @ uri_encode (appId w) @
                ''&secret='' @ uri_encode (mpSecret w) @ ''&code='' @ uri_encode (str_of (query req ''code'')) @
                ''&grant_type=authorization_code'')) (\<lambda>data.
              bindE (prop_of data ''openid'') (\<lambda>openid. bindE (prop_of data ''unionid'') (\<lambda>unionid.
              Inr (openid, unionid)))) of
           Inl _ \<Rightarrow> ((Send 500 ''oauth error'', []), st)
         | Inr (openid, unionid) \<Rightarrow>
             if \<not> truthy openid then ((Send 400 ''oauth failed'', []), st)
             else
               (let (user, st1) = find_or_create_user (iso e) [(''openid'', openid), (''unionid'', unionid)] st;
                    jwt = sign_jwt cfg e [(''sub'', VStr (js_to_string (fld user ''id''))), (''openid'', openid)] 3600;
                    jwt_cookie = cookie_text w ''jwt'' jwt (7 * 24 * 3600)
                in case cookie_value ''oauth_redirect'' (str_of (headers req ''cookie'')) of
                     Inl _ \<Rightarrow> ((Send 500 ''oauth error'', [jwt_cookie]), st1)
                   | Inr r \<Rightarrow>
                       ((Redirect (if str_truthy r then str_of r else ''/''),
                         [jwt_cookie, cookie_text w ''oauth_redirect'' [] (- 1)]), st1))))"

text \<open>The answer as it leaves the server: the status, the location of a redirect or the text sent, and
  the \<open>Set-Cookie\<close> headers.\<close>

definition reply_res :: "reply \<times> string list \<Rightarrow> response" where
  "reply_res x = (case x of
     (Send n s, cookies) \<Rightarrow>
       \<lparr>status = n, answer = VObj [(''text'', VStr s), (''set-cookie'', VArr (map VStr cookies))]\<rparr>
   | (Redirect url, cookies) \<Rightarrow>
       \<lparr>status = 302, answer = VObj [(''location'', VStr url), (''set-cookie'', VArr (map VStr cookies))]\<rparr>)"

section \<open>The access token\<close>

record token_cache =
  access_token :: "(string \<times> val) option"
  jsapi_ticket :: "(string \<times> val) option"

fun times1000 :: "val \<Rightarrow> val" where
  "times1000 (VNum x) = VNum (x * 1000)"
| "times1000 (VInf p) = VInf p"
| "times1000 _ = VNaN"

text \<open>\<open>Date.now() + (Number(data.expires_in || 7200) - 120) * 1000\<close>, and \<open>exp > Date.now()\<close>.\<close>

definition expiry_of :: "call_env \<Rightarrow> val \<Rightarrow> val" where
  "expiry_of e v = num_add (VInt (now_ms e)) (times1000 (js_sub (to_num (js_or v (VNum 7200))) (VNum 120)))"

definition fresh_entry :: "call_env \<Rightarrow> (string \<times> val) option \<Rightarrow> string option" where
  "fresh_entry e c =
     (case c of Some (t, x) \<Rightarrow> if js_less (VInt (now_ms e)) x then Some t else None | None \<Rightarrow> None)"

definition fetch_access_token ::
  "wechat_config \<Rightarrow> http_client \<Rightarrow> call_env \<Rightarrow> token_cache \<Rightarrow> (js_error + string) \<times> token_cache" where
  "fetch_access_token w http_get e c =
     (if appId w = [] \<or> mpSecret w = [] then (Inl (PlainError ''WX_MP appId/secret not configured''), c)
      else
        (case bindE (http_get (''https://api.weixin.qq.com/cgi-bin/token?grant_type=client_credential&appid='' @
                uri_encode (appId w) @ ''&secret='' @ uri_encode (mpSecret w))) (\<lambda>data.
              bindE (prop_of data ''access_token'') (\<lambda>t. bindE (prop_of data ''expires_in'') (\<lambda>x.
              Inr (data, t, x)))) of
           Inl err \<Rightarrow> (Inl err, c)
         | Inr (data, t, x) \<Rightarrow>
             if \<not> truthy t then (Inl (PlainError (''get access_token failed: '' @ json_text data)), c)
             else (Inr (js_to_string t),
                   c\<lparr>access_token := Some (js_to_string t, expiry_of e x)\<rparr>)))"

definition get_access_token ::
  "wechat_config \<Rightarrow> http_client \<Rightarrow> call_env \<Rightarrow> token_cache \<Rightarrow> (js_error + string) \<times> token_cache" where
  "get_access_token w http_get e c =
     (case fresh_entry e (access_token c) of
        Some t \<Rightarrow> (Inr t, c) | None \<Rightarrow> fetch_access_token w http_get e c)"

definition fetch_jsapi_ticket ::
  "wechat_config \<Rightarrow> http_client \<Rightarrow> call_env \<Rightarrow> token_cache \<Rightarrow> (js_error + string) \<times> token_cache" where
  "fetch_jsapi_ticket w http_get e c =
     (case get_access_token w http_get e c of
        (Inl err, c1) \<Rightarrow> (Inl err, c1)
      | (Inr tok, c1) \<Rightarrow>
          (case bindE (http_get (''https://api.weixin.qq.com/cgi-bin/ticket/getticket?access_token='' @
                  uri_encode tok @ ''&type=jsapi'')) (\<lambda>data.
                bindE (prop_of data ''ticket'') (\<lambda>t. bindE (prop_of data ''expires_in'') (\<lambda>x.
                Inr (data, t, x)))) of
             Inl err \<Rightarrow> (Inl err, c1)
           | Inr (data, t, x) \<Rightarrow>
               if \<not> truthy t then (Inl (PlainError (''get jsapi_ticket failed: '' @ json_text data)), c1)
               else (Inr (js_to_string t),
                     c1\<lparr>jsapi_ticket := Some (js_to_string t, expiry_of e x)\<rparr>)))"

definition get_jsapi_ticket ::
  "wechat_config \<Rightarrow> http_client \<Rightarrow> call_env \<Rightarrow> token_cache \<Rightarrow> (js_error + string) \<times> token_cache" where
  "get_jsapi_ticket w http_get e c =
     (case fresh_entry e (jsapi_ticket c) of
        Some t \<Rightarrow> (Inr t, c) | None \<Rightarrow> fetch_jsapi_ticket w http_get e c)"

section \<open>The signature for the JS SDK\<close>

text \<open>\<open>sha1\<close> is the hash in hexadecimal, \<open>nonce\<close> the hexadecimal text of eight random bytes.\<close>

definition sign_js_sdk ::
  "wechat_config \<Rightarrow> http_client \<Rightarrow> (string \<Rightarrow> string) \<Rightarrow> string \<Rightarrow> call_env \<Rightarrow> string \<Rightarrow> token_cache \<Rightarrow>
   (js_error + row) \<times> token_cache" where
  "sign_js_sdk w http_get sha1 nonce e url c =
     (case get_jsapi_ticket w http_get e c of
        (Inl err, c1) \<Rightarrow> (Inl err, c1)
      | (Inr ticket, c1) \<Rightarrow>
          (let ts = int_to_string (now_sec e)
           in (Inr [(''appId'', VStr (appId w)), (''timestamp'', VStr ts), (''nonceStr'', VStr nonce),
                 (''signature'', VStr (sha1 (''jsapi_ticket='' @ ticket @ ''&noncestr='' @ nonce @
                    ''&timestamp='' @ ts @ ''&url='' @ url)))], c1)))"

definition js_sdk_route ::
  "wechat_config \<Rightarrow> http_client \<Rightarrow> (string \<Rightarrow> string) \<Rightarrow> string \<Rightarrow> call_env \<Rightarrow> request \<Rightarrow> token_cache \<Rightarrow>
   response \<times> token_cache" where
  "js_sdk_route w http_get sha1 nonce e req c =
     (if \<not> str_truthy (query req ''url'')
      then (json_res 400 [(''code'', VStr ''INVALID_PARAMS''), (''message'', VStr ''url required'')], c)
      else case sign_js_sdk w http_get sha1 nonce e (str_of (query req ''url'')) c of
             (Inr r, c1) \<Rightarrow> (json_res 200 r, c1)
           | (Inl err, c1) \<Rightarrow>
               (json_res 500 [(''code'', VStr ''SIGN_ERROR''),
                  (''message'', VStr (if err_message e err = [] then ''sign error'' else err_message e err))], c1))"

section \<open>Payment notifications\<close>

text \<open>\<open>decryptResource\<close>: \<open>gcm_open key nonce aad data tag\<close> is the authenticated decryption.\<close>

definition decrypt_resource ::
  "(string \<Rightarrow> string \<Rightarrow> string option \<Rightarrow> string \<Rightarrow> string \<Rightarrow> js_error + string) \<Rightarrow> val \<Rightarrow> string \<Rightarrow> js_error + val" where
  "decrypt_resource gcm_open resource key =
     bindE (prop_of resource ''ciphertext'') (\<lambda>ct.
     bindE (prop_of resource ''nonce'') (\<lambda>nonce.
     bindE (prop_of resource ''associated_data'') (\<lambda>ad.
     case (ct, nonce) of
       (VStr c, VStr n) \<Rightarrow>
         (let buf = base64_decode c; data_len = length buf - 16 in
          bindE (gcm_open key n (if truthy ad then Some (js_to_string ad) else None)
                   (take data_len buf) (drop data_len buf)) (\<lambda>text.
          case json_parse text of Some v \<Rightarrow> Inr v | None \<Rightarrow> Inl (PlainError ''JSON'')))
     | _ \<Rightarrow> Inl TypeError)))"

text \<open>The handler of \<open>/wechat/notify\<close>; \<open>sign_ok\<close> is the signature check with the platform key, or
  \<open>None\<close> when there is no key file, and \<open>decrypt\<close> is \<open>decryptResource\<close> with the configured key.\<close>

definition wx_notify ::
  "call_env \<Rightarrow> (string \<Rightarrow> string \<Rightarrow> string \<Rightarrow> string \<Rightarrow> bool) option \<Rightarrow> (val \<Rightarrow> js_error + val) \<Rightarrow>
   request \<Rightarrow> string \<Rightarrow> fs_state action" where
  "wx_notify e sign_ok decrypt req raw st =
     (let h = (\<lambda>k. str_of (headers req k)) in
      if (case sign_ok of None \<Rightarrow> False
          | Some f \<Rightarrow> \<not> f (h ''wechatpay-timestamp'') (h ''wechatpay-nonce'') raw (h ''wechatpay-signature''))
      then (res_status 401 [(''code'', VStr ''SIGN_VERIFY_FAIL''), (''message'', VStr ''invalid signature'')], st)
      else case json_parse raw of
             None \<Rightarrow> (Inl (PlainError ''JSON''), st)
           | Some bodyJson \<Rightarrow>
               let ev = (case bodyJson of VObj r \<Rightarrow> fld r ''event_type'' | _ \<Rightarrow> VUndef) in
               if \<not> strict_eq ev (VStr ''TRANSACTION.SUCCESS'')
               then (ok_res [(''code'', VStr ''SUCCESS''), (''message'', VStr ''ignored'')], st)
               else
                 let resource = (case bodyJson of VObj r \<Rightarrow> fld r ''resource'' | _ \<Rightarrow> VUndef) in
                 if \<not> truthy resource
                 then (res_status 400 [(''code'', VStr ''BAD_REQUEST''), (''message'', VStr ''missing resource'')], st)
                 else case decrypt resource of
                        Inl err \<Rightarrow> (Inl err, st)
                      | Inr pay \<Rightarrow>
                          let p = (\<lambda>k. case pay of VObj r \<Rightarrow> fld r k | _ \<Rightarrow> VUndef) in
                          if \<not> truthy pay \<or> \<not> strict_eq (p ''trade_state'') (VStr ''SUCCESS'')
                          then (ok_res [(''code'', VStr ''SUCCESS''), (''message'', VStr ''not success state'')], st)
                          else
                            (case find_by_order_no (iso e) (p ''out_trade_no'') st of
                               (None, st1) \<Rightarrow> (ok_res [(''code'', VStr ''SUCCESS''), (''message'', VStr ''ok'')], st1)
                             | (Some order, st1) \<Rightarrow>
                                 (let (_, st2) = update_status (iso e) (p ''order_no'') (VStr ''PENDING_FREIGHT'')
                                        [(''paid_at'', VStr (iso e)), (''payment_method'', VStr ''WECHAT'')] st1;
                                      st3 = log_change (iso e) (p ''order_no'') ''status'' (fld order ''status'')
                                        (VStr ''PENDING_FREIGHT'') (Some ''wechat_notify'') st2
                                  in (ok_res [(''code'', VStr ''SUCCESS''), (''message'', VStr ''ok'')], st3))))"

definition notify_route ::
  "call_env \<Rightarrow> (string \<Rightarrow> string \<Rightarrow> string \<Rightarrow> string \<Rightarrow> bool) option \<Rightarrow> (val \<Rightarrow> js_error + val) \<Rightarrow>
   request \<Rightarrow> string \<Rightarrow> fs_state \<Rightarrow> response \<times> fs_state" where
  "notify_route e sign_ok decrypt req raw st =
     (case wx_notify e sign_ok decrypt req raw st of
        (Inr r, st1) \<Rightarrow> (r, st1)
      | (Inl err, st1) \<Rightarrow>
          (json_res 500 [(''code'', VStr ''INTERNAL_ERROR''), (''message'', VStr (err_message e err))], st1))"

end
