(* ===== verification/Server.thy ===== *)
theory Server
  imports Wechat
begin

text \<open>
  The application of \<^verbatim>\<open>src/src/server.ts\<close>: routers, their guards, and the order in which they are
  mounted.  A path is the list of its decoded segments; like Express's default router it is matched
  without regard to case.  The server is the one started without \<open>DIAG_ENABLED=true\<close>, which would add
  the diagnostics of WeChat and of the payment.  Outside the table are the health and debug endpoints
  and the static files, which do not touch the store, and the payment routers, which the source has
  commented out.
\<close>

datatype http_method = GET | POST | PUT | DELETE

text \<open>
  What a request finds around it: the configuration, the HTTP client, the file an upload left, the
  WeChat tokens cached by earlier requests, the hash in hexadecimal and the random bytes drawn.
\<close>

record world =
  cfg :: server_config
  wx :: wechat_config
  http :: http_client
  uploaded :: upload
  image_name :: "string option"
  public_prefix :: string
  url_valid :: "string \<Rightarrow> bool"
  iso_of_ms :: "int \<Rightarrow> string"
  tickets :: token_cache
  sha1_hex :: "string \<Rightarrow> string"
  nonce_hex :: string

type_synonym handler = "world \<Rightarrow> call_env \<Rightarrow> request \<Rightarrow> fs_state \<Rightarrow> response \<times> fs_state"

record router =
  router_guard :: "world \<Rightarrow> call_env \<Rightarrow> request \<Rightarrow> response option"
  routes :: "(http_method \<times> string list \<times> handler) list"

definition no_guard :: "world \<Rightarrow> call_env \<Rightarrow> request \<Rightarrow> response option" where
  "no_guard w e req = None"

definition admin_guard :: "world \<Rightarrow> call_env \<Rightarrow> request \<Rightarrow> response option" where
  "admin_guard w e req = require_admin_token (cfg w) req"

definition user_guard :: "world \<Rightarrow> call_env \<Rightarrow> request \<Rightarrow> response option" where
  "user_guard w e req = (case require_user_auth (cfg w) e req of Inl r \<Rightarrow> Some r | Inr _ \<Rightarrow> None)"

section \<open>Kinds of handlers\<close>

text \<open>A handler that passes its exceptions on, one behind the user guard, one that answers 500 itself.\<close>

definition nexts :: "(call_env \<Rightarrow> request \<Rightarrow> fs_state action) \<Rightarrow> handler" where
  "nexts h w e req = with_next (h e req)"

definition users :: "(call_env \<Rightarrow> request \<Rightarrow> val \<Rightarrow> fs_state action) \<Rightarrow> handler" where
  "users h w e req = user_only (cfg w) e req (\<lambda>uid. with_next (h e req uid))"

definition catches :: "(call_env \<Rightarrow> request \<Rightarrow> fs_state action) \<Rightarrow> handler" where
  "catches h w e req = with_500 e (h e req)"

text \<open>A spreadsheet answer is the rows of its sheet.\<close>

definition sheet_res :: "(js_error + row list) \<times> fs_state \<Rightarrow> (js_error + response) \<times> fs_state" where
  "sheet_res x = (case x of
     (Inl err, st) \<Rightarrow> (Inl err, st)
   | (Inr rs, st) \<Rightarrow> (Inr \<lparr>status = 200, answer = json_copy (VArr (map VObj rs))\<rparr>, st))"

section \<open>Routers\<close>

definition orders_router :: router where
  "orders_router = \<lparr>router_guard = no_guard, routes =
     [(POST, [], users post_order),
      (GET, ['':orderNo'', ''status''], users get_order_status)]\<rparr>"

definition api_orders_router :: router where
  "api_orders_router = \<lparr>router_guard = no_guard, routes =
     [(POST, [], users post_order),
      (GET, ['':orderNo''], users get_order),
      (POST, ['':orderNo'', ''cancel''], users cancel_order)]\<rparr>"

text \<open>\<open>router.use(requireUserAuth)\<close> puts every route behind the user guard, also a path that matches none.\<close>

definition me_orders_router :: router where
  "me_orders_router = \<lparr>router_guard = user_guard, routes =
     [(GET, [], users my_orders),
      (GET, ['':orderNo''], users my_order),
      (POST, ['':orderNo'', ''cancel''], users my_cancel)]\<rparr>"

definition products_router :: router where
  "products_router = \<lparr>router_guard = no_guard, routes =
     [(GET, [], nexts get_products), (GET, ['':id''], nexts get_product)]\<rparr>"

definition api_products_router :: router where
  "api_products_router = \<lparr>router_guard = no_guard, routes =
     [(GET, [], nexts get_products), (GET, ['':id''], nexts get_product)]\<rparr>"

definition reviews_router :: router where
  "reviews_router = \<lparr>router_guard = no_guard, routes =
     [(GET, [], nexts get_reviews), (GET, [''stats'', '':productId''], nexts get_review_stats)]\<rparr>"

definition welfare_router :: router where
  "welfare_router = \<lparr>router_guard = no_guard, routes =
     [(POST, [''validate''], nexts post_validate), (POST, [''use''], nexts post_use)]\<rparr>"

definition mall_router :: router where
  "mall_router = \<lparr>router_guard = no_guard, routes =
     [(GET, [], nexts get_mall), (GET, [''categories''], nexts get_mall_categories),
      (GET, ['':id''], nexts get_mall_property)]\<rparr>"

definition points_router :: router where
  "points_router = \<lparr>router_guard = no_guard, routes =
     [(GET, [''points''], nexts get_points), (GET, [''points'', ''ledger''], nexts get_points_ledger)]\<rparr>"

definition redeem_router :: router where
  "redeem_router = \<lparr>router_guard = no_guard, routes =
     [(POST, [''orders''], nexts post_redeem_order),
      (POST, [''orders'', '':orderNo'', ''pay-freight''], \<lambda>w. nexts (post_pay_freight (url_valid w)) w),
      (PUT, [''orders'', '':orderNo'', ''address''], nexts put_redeem_address),
      (POST, [''orders'', '':orderNo'', ''cancel''], nexts post_redeem_cancel),
      (GET, [''orders'', '':orderNo''], nexts get_redeem_order)]\<rparr>"

definition shipping_router :: router where
  "shipping_router = \<lparr>router_guard = no_guard, routes =
     [(GET, [''quote''], \<lambda>w. nexts (get_quote (iso_of_ms w)) w)]\<rparr>"

definition catalog_router :: router where
  "catalog_router = \<lparr>router_guard = no_guard, routes =
     [(GET, [''catalog''], nexts get_catalog), (GET, [''sku'', '':id''], nexts get_catalog_sku)]\<rparr>"

text \<open>The login by OAuth answers with redirects and texts, and sets cookies.\<close>

definition auth_router :: router where
  "auth_router = \<lparr>router_guard = no_guard, routes =
     [(GET, [''wechat'', ''oauth-start''], \<lambda>w e req st. (reply_res (oauth_start (wx w) req), st)),
      (GET, [''wechat'', ''oauth-callback''], \<lambda>w e req st.
         (case oauth_callback (cfg w) (wx w) (http w) e req st of (x, st1) \<Rightarrow> (reply_res x, st1)))]\<rparr>"

definition wechat_router :: router where
  "wechat_router = \<lparr>router_guard = no_guard, routes =
     [(GET, [''js-sdk'', ''sign''], \<lambda>w e req st.
         (fst (js_sdk_route (wx w) (http w) (sha1_hex w) (nonce_hex w) e req (tickets w)), st))]\<rparr>"

definition auth_mini_router :: router where
  "auth_mini_router = \<lparr>router_guard = no_guard, routes =
     [(POST, [''login''], \<lambda>w e req. mini_login (cfg w) (wx w) (http w) e req)]\<rparr>"

definition admin_orders_router :: router where
  "admin_orders_router = \<lparr>router_guard = admin_guard, routes =
     [(GET, [], catches admin_list_orders),
      (GET, ['':orderNo''], catches admin_get_order),
      (PUT, ['':orderNo'', ''status''], catches admin_put_status),
      (PUT, ['':orderNo'', ''remark''], catches admin_put_remark),
      (DELETE, ['':orderNo''], catches admin_delete_order),
      (GET, [''stats'', ''summary''], catches admin_order_stats)]\<rparr>"

definition admin_products_router :: router where
  "admin_products_router = \<lparr>router_guard = admin_guard, routes =
     [(GET, [], catches admin_list_products),
      (GET, ['':id''], catches admin_get_product),
      (POST, [], catches admin_create_product),
      (PUT, ['':id''], catches admin_update_product),
      (DELETE, ['':id''], catches admin_delete_product)]\<rparr>"

definition admin_export_router :: router where
  "admin_export_router = \<lparr>router_guard = admin_guard, routes =
     [(POST, [''orders''], catches (\<lambda>e req st. sheet_res (export_orders e req st))),
      (POST, [''properties''], catches (\<lambda>e req st. sheet_res (export_properties e st)))]\<rparr>"

definition admin_upload_router :: router where
  "admin_upload_router = \<lparr>router_guard = admin_guard, routes =
     [(POST, [''image''], \<lambda>w e req. with_next (\<lambda>st. (upload_image (public_prefix w) (image_name w), st)))]\<rparr>"

definition admin_welfare_router :: router where
  "admin_welfare_router = \<lparr>router_guard = admin_guard, routes =
     [(GET, [], catches admin_list_codes),
      (GET, ['':id''], catches admin_get_code),
      (POST, [], catches admin_create_code),
      (PUT, ['':id''], catches admin_update_code),
      (DELETE, ['':id''], catches admin_delete_code),
      (POST, [''validate''], catches admin_validate_code)]\<rparr>"

definition admin_sku_router :: router where
  "admin_sku_router = \<lparr>router_guard = admin_guard, routes =
     [(GET, [], catches admin_list_skus), (GET, [''by-code'', '':code''], catches admin_get_sku)]\<rparr>"

definition admin_properties_router :: router where
  "admin_properties_router = \<lparr>router_guard = admin_guard, routes =
     [(GET, [], catches admin_list_properties),
      (GET, [''communities''], catches admin_communities),
      (POST, [''import''], \<lambda>w e req. with_500 e (admin_import e (uploaded w))),
      (GET, ['':id''], catches admin_get_property),
      (POST, [], catches admin_create_property),
      (PUT, ['':id''], catches admin_update_property),
      (DELETE, ['':id''], catches admin_delete_property)]\<rparr>"

definition admin_categories_router :: router where
  "admin_categories_router = \<lparr>router_guard = admin_guard, routes =
     [(GET, [], catches admin_list_categories),
      (POST, [], catches admin_create_category),
      (PUT, ['':id''], catches admin_update_category),
      (DELETE, ['':id''], catches admin_delete_category)]\<rparr>"

section \<open>Mounting\<close>

definition admin_mounts :: "string list \<Rightarrow> (string list \<times> router) list" where
  "admin_mounts base =
     map (\<lambda>(p, r). (base @ [''v1'', ''admin'', p], r))
       [(''orders'', admin_orders_router), (''inventory'', admin_products_router),
        (''products'', admin_products_router), (''export'', admin_export_router),
        (''upload'', admin_upload_router), (''welfare-codes'', admin_welfare_router),
        (''sku-library'', admin_sku_router), (''properties'', admin_properties_router),
        (''categories'', admin_categories_router)]"

definition api_mounts :: "string list \<Rightarrow> (string list \<times> router) list" where
  "api_mounts base =
     [(base @ [''v1'', ''auth''], auth_router),
      (base @ [''v1'', ''auth'', ''mini''], auth_mini_router),
      (base @ [''v1'', ''wechat''], wechat_router),
      (base @ [''v1'', ''products''], api_products_router),
      (base @ [''v1'', ''properties'', ''mall''], mall_router),
      (base @ [''v1'', ''orders''], api_orders_router),
      (base @ [''v1'', ''me'', ''orders''], me_orders_router),
      (base @ [''v1'', ''welfare''], welfare_router)] @ admin_mounts base"

definition mounts :: "(string list \<times> router) list" where
  "mounts =
     [([''shipping''], shipping_router), ([''redeem''], redeem_router), ([''me''], points_router), ([''redeem''], catalog_router),
      ([''products''], products_router), ([''orders''], orders_router), ([''reviews''], reviews_router),
      ([''welfare''], welfare_router)] @
     api_mounts [''api''] @ admin_mounts [''h5'', ''api''] @ api_mounts [''h5'', ''api'', ''api'']"

text \<open>A pattern segment that starts with a colon names a parameter.\<close>

fun match_path :: "string list \<Rightarrow> string list \<Rightarrow> (string \<times> string) list option" where
  "match_path [] [] = Some []"
| "match_path (p # ps) (s # ss) =
     (if p \<noteq> [] \<and> hd p = CHR '':'' then map_option (\<lambda>m. (tl p, s) # m) (match_path ps ss)
      else if to_lower p = to_lower s then match_path ps ss else None)"
| "match_path _ _ = None"

fun match_prefix :: "string list \<Rightarrow> string list \<Rightarrow> string list option" where
  "match_prefix [] ss = Some ss"
| "match_prefix (p # ps) (s # ss) = (if to_lower p = to_lower s then match_prefix ps ss else None)"
| "match_prefix (p # ps) [] = None"

definition with_params :: "(string \<times> string) list \<Rightarrow> request \<Rightarrow> request" where
  "with_params m req = req\<lparr>params := (\<lambda>k. case map_of m k of Some s \<Rightarrow> s | None \<Rightarrow> [])\<rparr>"

fun first_route ::
  "(http_method \<times> string list \<times> 'h) list \<Rightarrow> http_method \<Rightarrow> string list \<Rightarrow>
   ((string \<times> string) list \<times> 'h) option" where
  "first_route [] m ss = None"
| "first_route ((m', p, h) # rs) m ss =
     (case (if m = m' then match_path p ss else None) of
        Some ps \<Rightarrow> Some (ps, h) | None \<Rightarrow> first_route rs m ss)"

definition run_router ::
  "router \<Rightarrow> world \<Rightarrow> call_env \<Rightarrow> http_method \<Rightarrow> string list \<Rightarrow> request \<Rightarrow> fs_state \<Rightarrow> (response \<times> fs_state) option" where
  "run_router r w e m ss req st =
     (case router_guard r w e req of
        Some res \<Rightarrow> Some (res, st)
      | None \<Rightarrow> (case first_route (routes r) m ss of
                  None \<Rightarrow> None
                | Some (ps, h) \<Rightarrow> Some (h w e (with_params ps req) st)))"

fun serve_mounts ::
  "(string list \<times> router) list \<Rightarrow> world \<Rightarrow> call_env \<Rightarrow> http_method \<Rightarrow> string list \<Rightarrow> request \<Rightarrow>
   fs_state \<Rightarrow> response \<times> fs_state" where
  "serve_mounts [] w e m ss req st = (\<lparr>status = 404, answer = VUndef\<rparr>, st)"
| "serve_mounts ((p, r) # ms) w e m ss req st =
     (case (case match_prefix p ss of
              Some rest \<Rightarrow> run_router r w e m rest req st | None \<Rightarrow> None) of
        Some x \<Rightarrow> x
      | None \<Rightarrow> serve_mounts ms w e m ss req st)"

definition serve ::
  "world \<Rightarrow> call_env \<Rightarrow> http_method \<Rightarrow> string list \<Rightarrow> request \<Rightarrow> fs_state \<Rightarrow> response \<times> fs_state" where
  "serve = serve_mounts mounts"

end
