(* ===== verification/Route_Effects.thy ===== *)
theory Route_Effects
  imports Server
begin

text \<open>
  What serving a request may do to the stored rows.  A class of effects is a reflexive and transitive
  relation on states; the locale \<open>request_effect\<close> shows once that a handler stays in a class when its
  body does, whatever wraps it, and that the whole server does when every mounted handler does.  It
  is used twice: for requests that only read, and for the numbering of the rows.
\<close>

section \<open>Classes of effects\<close>

definition handler_within :: "(fs_state \<Rightarrow> fs_state \<Rightarrow> bool) \<Rightarrow> (request \<Rightarrow> bool) \<Rightarrow> handler \<Rightarrow> bool" where
  "handler_within R P h \<longleftrightarrow> (\<forall>w e req st. P req \<longrightarrow> R st (snd (h w e req st)))"

definition router_within ::
  "(fs_state \<Rightarrow> fs_state \<Rightarrow> bool) \<Rightarrow> (request \<Rightarrow> bool) \<Rightarrow> http_method set \<Rightarrow> router \<Rightarrow> bool" where
  "router_within R P M r \<longleftrightarrow> (\<forall>(m, q, h) \<in> set (routes r). m \<in> M \<longrightarrow> handler_within R P h)"

lemma first_route_in: "first_route rs m ss = Some (ps, h) \<Longrightarrow> \<exists>q. (m, q, h) \<in> set rs"
  by (induction rs m ss rule: first_route.induct) (auto split: option.splits if_splits)

locale request_effect =
  fixes R :: "fs_state \<Rightarrow> fs_state \<Rightarrow> bool" and P :: "request \<Rightarrow> bool"
  assumes eff_refl: "R st st"
    and eff_trans: "R a b \<Longrightarrow> R b c \<Longrightarrow> R a c"
    and allowed_params: "P req \<Longrightarrow> P (with_params ps req)"
begin

lemma with_next_eff: "R st (snd (h st)) \<Longrightarrow> R st (snd (with_next h st))"
  by (auto simp: with_next_def split: prod.splits sum.splits)

lemma with_500_eff: "R st (snd (h st)) \<Longrightarrow> R st (snd (with_500 e h st))"
  by (auto simp: with_500_def split: prod.splits sum.splits)

lemma user_only_eff: "(\<And>uid. R st (snd (h uid st))) \<Longrightarrow> R st (snd (user_only c e req h st))"
  by (auto simp: user_only_def eff_refl split: sum.splits)

lemma sheet_eff: "R st (snd x) \<Longrightarrow> R st (snd (sheet_res x))"
  by (auto simp: sheet_res_def split: prod.splits sum.splits)

lemma nexts_within: "(\<And>e req st. P req \<Longrightarrow> R st (snd (h e req st))) \<Longrightarrow> handler_within R P (nexts h)"
  by (simp add: handler_within_def nexts_def with_next_eff)

lemma world_nexts_within:
  "(\<And>w e req st. P req \<Longrightarrow> R st (snd (h w e req st))) \<Longrightarrow> handler_within R P (\<lambda>w. nexts (h w) w)"
  by (simp add: handler_within_def nexts_def with_next_eff)

lemma catches_within: "(\<And>e req st. P req \<Longrightarrow> R st (snd (h e req st))) \<Longrightarrow> handler_within R P (catches h)"
  by (simp add: handler_within_def catches_def with_500_eff)

lemma users_within:
  "(\<And>e req uid st. P req \<Longrightarrow> R st (snd (h e req uid st))) \<Longrightarrow> handler_within R P (users h)"
  by (simp add: handler_within_def users_def user_only_eff with_next_eff)

lemma answer_within: "handler_within R P (\<lambda>w e req. Pair (f w e req))"
  by (simp add: handler_within_def eff_refl)

lemma run_router_within:
  assumes "\<And>ps h. first_route (routes r) m ss = Some (ps, h) \<Longrightarrow> handler_within R P h" "P req"
    and run: "run_router r w e m ss req st = Some (res, st1)"
  shows "R st st1"
proof (cases "router_guard r w e req")
  case (Some x)
  with run show ?thesis by (simp add: run_router_def eff_refl)
next
  case None
  with run obtain ps h where h: "first_route (routes r) m ss = Some (ps, h)"
    and res: "h w e (with_params ps req) st = (res, st1)"
    by (auto simp: run_router_def split: option.splits)
  from assms(1) [OF h] have "R st (snd (h w e (with_params ps req) st))"
    using allowed_params [OF \<open>P req\<close>] by (simp add: handler_within_def)
  with res show ?thesis by simp
qed

text \<open>A mount stays in the class when the handler it reaches for this path does.\<close>

lemma serve_mounts_within:
  "\<forall>(p, r) \<in> set ms. \<forall>rest ps h. match_prefix p ss = Some rest \<longrightarrow>
     first_route (routes r) m rest = Some (ps, h) \<longrightarrow> handler_within R P h \<Longrightarrow> P req \<Longrightarrow>
   R st (snd (serve_mounts ms w e m ss req st))"
proof (induction ms)
  case (Cons a ms)
  obtain p r where a: "a = (p, r)" by (cases a) auto
  have "R st (snd x)" if "match_prefix p ss = Some rest" "run_router r w e m rest req st = Some x" for rest x
    using run_router_within [of r m rest req w e st "fst x" "snd x"] that Cons.prems a by auto
  with Cons a show ?case
    by (auto split: option.splits)
qed (simp add: eff_refl)

lemma router_within_route:
  "router_within R P M r \<Longrightarrow> m \<in> M \<Longrightarrow> first_route (routes r) m ss = Some (ps, h) \<Longrightarrow> handler_within R P h"
  using first_route_in by (fastforce simp: router_within_def)

lemma serve_all_within:
  "\<forall>(p, r) \<in> set ms. router_within R P M r \<Longrightarrow> m \<in> M \<Longrightarrow> P req \<Longrightarrow>
   R st (snd (serve_mounts ms w e m ss req st))"
  by (rule serve_mounts_within) (auto dest: router_within_route)

end

section \<open>The routers of the server\<close>

text \<open>The routers of the shop but for the login by OAuth, and those of the administration.\<close>

definition shop_routers :: "router list" where
  "shop_routers =
     [shipping_router, redeem_router, points_router, catalog_router, products_router, orders_router, reviews_router,
      welfare_router, auth_mini_router, wechat_router, api_products_router, mall_router, api_orders_router, me_orders_router]"

definition admin_routers :: "router list" where
  "admin_routers =
     [admin_orders_router, admin_products_router, admin_export_router, admin_upload_router,
      admin_welfare_router, admin_sku_router, admin_properties_router, admin_categories_router]"

lemma mounted_routers: "snd ` set mounts = insert auth_router (set (shop_routers @ admin_routers))"
  by (simp add: mounts_def api_mounts_def admin_mounts_def shop_routers_def admin_routers_def) blast

lemma mounts_all:
  "(\<forall>(p, r) \<in> set mounts. Q r) \<longleftrightarrow> Q auth_router \<and> list_all Q (shop_routers @ admin_routers)"
proof -
  have "(\<forall>(p, r) \<in> set mounts. Q r) \<longleftrightarrow> (\<forall>r \<in> snd ` set mounts. Q r)"
    by auto
  then show ?thesis
    unfolding mounted_routers list_all_iff by simp
qed

definition auth_paths :: "string list list" where
  "auth_paths = [[''api'', ''v1'', ''auth''], [''h5'', ''api'', ''api'', ''v1'', ''auth'']]"

lemma mount_is_auth:
  "(p, r) \<in> set mounts \<Longrightarrow>
   p \<in> set auth_paths \<and> r = auth_router \<or> r \<in> set (shop_routers @ admin_routers)"
  by (auto simp: mounts_def api_mounts_def admin_mounts_def shop_routers_def admin_routers_def auth_paths_def)

lemmas shop_router_defs =
  shipping_router_def redeem_router_def points_router_def catalog_router_def products_router_def orders_router_def
  reviews_router_def welfare_router_def auth_mini_router_def wechat_router_def api_products_router_def mall_router_def
  api_orders_router_def me_orders_router_def

lemmas admin_router_defs =
  admin_orders_router_def admin_products_router_def admin_export_router_def admin_upload_router_def
  admin_welfare_router_def admin_sku_router_def admin_properties_router_def admin_categories_router_def

section \<open>Requests that only read\<close>

text \<open>The rows of every table up to their order, and the next ids.\<close>

definition same_rows :: "fs_state \<Rightarrow> fs_state \<Rightarrow> bool" where
  "same_rows st st' \<longleftrightarrow> (\<forall>t. mset (rows_of st' t) = mset (rows_of st t) \<and> next_of st' t = next_of st t)"

lemma same_rows_refl [simp]: "same_rows st st"
  by (simp add: same_rows_def)

lemma same_rows_trans: "same_rows a b \<Longrightarrow> same_rows b c \<Longrightarrow> same_rows a c"
  by (simp add: same_rows_def)

lemma same_rows_load [simp]: "same_rows st (load_data now st)" "same_rows (load_data now st) st"
  by (simp_all add: same_rows_def)

lemma same_rows_from_load [simp]: "same_rows (load_data now st) st' = same_rows st st'"
  "same_rows st (load_data now st') = same_rows st st'"
  by (simp_all add: same_rows_def)

interpretation reading: request_effect same_rows "\<lambda>_. True"
  by unfold_locales (auto intro: same_rows_trans)

lemma list_page_same: "same_rows st (snd (list_page now t b f c p ps st))"
  by (simp add: same_rows_def list_page_result)

lemma sort_same: "cache st \<noteq> None \<Longrightarrow> same_rows st (sort_table t c st)"
  by (simp add: same_rows_def sort_table_result sort_table_next)

lemma orders_list_same: "same_rows st (snd (orders_list now q st))"
  using sort_same [OF load_data_loaded, of now st Orders cmp_created_desc]
  by (auto simp: orders_list_def Let_def split: sum.splits)

lemma listings_same:
  "same_rows st (snd (products_list now pq st))" "same_rows st (snd (products_list_enabled now pq st))"
  "same_rows st (snd (reviews_list now rq st))" "same_rows st (snd (properties_list now yq st))"
  by (simp_all add: products_list_enabled_def products_list_def reviews_list_def properties_list_def
      list_page_same)

lemma list_mall_same: "same_rows st (snd (list_mall now yq st))"
  using listings_same(4) [of st now "yq\<lparr>yq_status := VNum 1\<rparr>"]
  by (auto simp: list_mall_def split: prod.splits sum.splits)

lemma welfare_list_same: "same_rows st (snd (welfare_list now wq st))"
  using list_page_same [of st now Welfare_codes "welfare_filtered wq" "welfare_filter wq" cmp_created_desc
      "wq_page wq" "wq_pageSize wq"]
  by (auto simp: welfare_list_def split: prod.splits sum.splits)

lemma categories_list_same: "same_rows st (snd (categories_list now st))"
  using sort_same [OF load_data_loaded, of now st Categories category_cmp]
  by (simp add: categories_list_def)

lemma get_skus_load [simp]: "snd (get_skus now i st) = load_data now st"
  by (simp add: get_skus_def)

lemma get_skus_same: "same_rows st (snd (get_skus now i st))"
  by simp

lemma collect_skus_same: "same_rows st (snd (collect_skus now ps st))"
proof (induction ps arbitrary: st)
  case (Cons p ps)
  from Cons [of "load_data now st"] show ?case
    by (simp add: Let_def case_prod_beta)
qed simp

lemma same_after: "same_rows st (snd x) \<Longrightarrow> x = (r, s) \<Longrightarrow> same_rows st s"
  by simp

lemmas listing_effects =
  orders_list_same [THEN same_after] listings_same [THEN same_after] list_mall_same [THEN same_after]
  get_skus_same [THEN same_after]
  welfare_list_same [THEN same_after] categories_list_same [THEN same_after]

lemmas read_repo_defs =
  find_by_order_no_def get_order_items_def get_change_logs_def count_by_status_def
  products_find_by_id_def find_sku_by_code_def reviews_find_by_id_def get_average_rating_def
  get_review_count_def categories_list_enabled_def categories_find_by_id_def find_mall_by_id_def
  properties_find_by_id_def get_community_names_def welfare_find_by_id_def get_items_def

lemma shop_order_reads:
  "same_rows st (snd (get_order_status e req uid st))" "same_rows st (snd (get_order e req uid st))"
  "same_rows st (snd (my_orders e req uid st))" "same_rows st (snd (my_order e req uid st))"
  by (auto simp: get_order_status_def get_order_def my_orders_def my_order_def read_repo_defs Let_def
      split: option.splits prod.splits sum.splits dest: listing_effects)

lemma shop_listing_reads:
  "same_rows st (snd (get_products e req st))" "same_rows st (snd (get_product e req st))"
  "same_rows st (snd (get_reviews e req st))" "same_rows st (snd (get_review_stats e req st))"
  by (auto simp: get_products_def get_product_def get_reviews_def get_review_stats_def read_repo_defs Let_def
      split: option.splits prod.splits sum.splits dest: listing_effects)

lemma mall_reads:
  "same_rows st (snd (get_mall e req st))" "same_rows st (snd (get_mall_categories e req st))"
  "same_rows st (snd (get_mall_property e req st))"
  by (auto simp: get_mall_def get_mall_categories_def get_mall_property_def read_repo_defs Let_def
      split: option.splits prod.splits sum.splits dest: listing_effects)

lemma placeholder_reads:
  "same_rows st (snd (get_points e req st))" "same_rows st (snd (get_points_ledger e req st))"
  "same_rows st (snd (get_catalog e req st))" "same_rows st (snd (get_catalog_sku e req st))"
  "same_rows st (snd (get_redeem_order e req st))" "same_rows st (snd (get_quote f e req st))"
  by (auto simp: get_points_def get_points_ledger_def get_catalog_def get_catalog_sku_def get_quote_def
      get_redeem_order_def needs_order_no_def Let_def split: option.splits prod.splits sum.splits)

lemmas shop_reads = shop_order_reads shop_listing_reads mall_reads placeholder_reads

lemma admin_reads:
  "same_rows st (snd (admin_list_orders e req st))" "same_rows st (snd (admin_get_order e req st))"
  "same_rows st (snd (admin_order_stats e req st))" "same_rows st (snd (admin_list_categories e req st))"
  "same_rows st (snd (admin_list_products e req st))" "same_rows st (snd (admin_get_product e req st))"
  "same_rows st (snd (admin_list_codes e req st))" "same_rows st (snd (admin_get_code e req st))"
  "same_rows st (snd (admin_get_sku e req st))" "same_rows st (snd (admin_list_properties e req st))"
  "same_rows st (snd (admin_communities e req st))" "same_rows st (snd (admin_get_property e req st))"
  by (auto simp: admin_list_orders_def admin_get_order_def admin_order_stats_def
      admin_list_categories_def admin_list_products_def admin_get_product_def admin_list_codes_def
      admin_get_code_def admin_get_sku_def admin_list_properties_def admin_communities_def
      admin_get_property_def read_repo_defs Let_def str_truthy_def
      split: option.splits prod.splits sum.splits dest: listing_effects)

lemma admin_list_skus_same: "same_rows st (snd (admin_list_skus e req st))"
proof -
  let ?q = "\<lparr>pq_page = None, pq_pageSize = Some 10000, pq_keyword = None, pq_categoryId = VUndef,
             pq_status = VUndef\<rparr>"
  have l: "same_rows st (snd (products_list (iso e) ?q st))"
    by (rule listings_same)
  show ?thesis
  proof (cases "products_list (iso e) ?q st")
    case (Pair a b)
    with l have "same_rows st b" by simp
    then have "same_rows st (snd (collect_skus (iso e) ps b))" for ps
      by (rule same_rows_trans) (rule collect_skus_same)
    with Pair \<open>same_rows st b\<close> show ?thesis
      by (auto simp: admin_list_skus_def Let_def case_prod_beta split: sum.splits)
  qed
qed

lemmas read_handlers = shop_reads admin_reads admin_list_skus_same

lemmas read_within = reading.world_nexts_within reading.nexts_within reading.catches_within reading.users_within
  reading.answer_within

lemma shop_routers_read: "list_all (router_within same_rows (\<lambda>_. True) {GET}) shop_routers"
  by (simp add: shop_routers_def router_within_def shop_router_defs read_within read_handlers)

lemma admin_routers_read: "list_all (router_within same_rows (\<lambda>_. True) {GET}) admin_routers"
  by (simp add: admin_routers_def router_within_def admin_router_defs read_within read_handlers)

end
