(* ===== verification/Route_Numbering.thy ===== *)
theory Route_Numbering
  imports Route_Effects
begin

text \<open>
  The numbering of the stored rows under every handler of the server: distinct positive ids below the
  next id.  The class of effects of \<open>Route_Effects\<close> is instantiated with the preservation of this
  invariant, for requests whose body does not carry a field \<open>id\<close> of its own: the administration
  passes the body of an update to the repository as it is.
\<close>

section \<open>The numbering of the rows\<close>

text \<open>In every table the ids are distinct positive numbers below the next id.\<close>

definition numbered :: "fs_state \<Rightarrow> bool" where
  "numbered st \<longleftrightarrow> (\<forall>t. ids_ok (rows_of st t) (next_of st t))"

definition keeps_numbering :: "fs_state \<Rightarrow> fs_state \<Rightarrow> bool" where
  "keeps_numbering st st' \<longleftrightarrow> (numbered st \<longrightarrow> numbered st')"

text \<open>A request whose body does not set a field \<open>id\<close>.\<close>

definition body_without_id :: "request \<Rightarrow> bool" where
  "body_without_id req \<longleftrightarrow> ''id'' \<notin> fst ` set (body_row req)"

interpretation numbering: request_effect keeps_numbering body_without_id
  by unfold_locales
    (auto simp: keeps_numbering_def body_without_id_def body_row_def with_params_def)

lemma numbered_fs: "numbered st \<longleftrightarrow> (\<forall>t. fs.good st t)"
  by (simp add: numbered_def fs.good_def)

lemma ids_ok_mset: "mset rs = mset rs' \<Longrightarrow> ids_ok rs n \<Longrightarrow> ids_ok rs' n"
proof -
  assume m: "mset rs = mset rs'" and ok: "ids_ok rs n"
  have "mset (map (\<lambda>r. fld r ''id'') rs) = mset (map (\<lambda>r. fld r ''id'') rs')"
    using m by simp
  then have "distinct (map (\<lambda>r. fld r ''id'') rs')"
    using ok unfolding ids_ok_def by (metis mset_eq_imp_distinct_iff)
  with mset_eq_setD [OF m] ok show ?thesis
    by (simp add: ids_ok_def)
qed

lemma numbered_same: "same_rows st st' \<Longrightarrow> numbered st \<Longrightarrow> numbered st'"
  unfolding numbered_def same_rows_def by (metis ids_ok_mset)

lemma numbered_load [simp]: "numbered (load_data now st) = numbered st"
  by (simp add: numbered_def)

lemma numbered_flush [simp]: "numbered (flush_now now st) = numbered st"
  by (simp add: numbered_def flush_result)

lemma numbered_insert: "numbered st \<Longrightarrow> numbered (snd (store_insert now t r st))"
  by (simp add: numbered_fs fs.ins_good)

lemma numbered_update:
  "numbered st \<Longrightarrow> ''id'' \<notin> fst ` set u \<Longrightarrow> numbered (snd (store_update now t i u st))"
  by (simp add: numbered_fs fs.upd_good)

lemma numbered_remove: "numbered st \<Longrightarrow> numbered (snd (store_remove now t i st))"
  by (simp add: numbered_fs fs.del_good)

lemma numbered_remove_where: "numbered st \<Longrightarrow> numbered (snd (remove_where now t p st))"
  by (simp add: numbered_def remove_where_result ids_ok_filter)

lemma numbered_after: "numbered (snd x) \<Longrightarrow> x = (r, s) \<Longrightarrow> numbered s"
  by simp

text \<open>The operations of the repositories.\<close>

lemma numbered_orders:
  "numbered st \<Longrightarrow> numbered (snd (orders_create oe data st))"
  "numbered st \<Longrightarrow> ''id'' \<notin> fst ` set data \<Longrightarrow> numbered (snd (orders_update now n data st))"
  "numbered st \<Longrightarrow> ''id'' \<notin> fst ` set extra \<Longrightarrow> numbered (snd (update_status now n v extra st))"
  "numbered st \<Longrightarrow> numbered (snd (orders_remove now n st))"
  "numbered st \<Longrightarrow> numbered (log_change now n f a b opr st)"
  by (auto simp: orders_create_def orders_update_def update_status_def orders_remove_def log_change_def
      find_by_order_no_def keys_spread case_prod_beta numbered_insert numbered_update numbered_remove
      numbered_remove_where split: option.splits)

lemma numbered_catalog:
  "numbered st \<Longrightarrow> numbered (snd (products_create now data st))"
  "numbered st \<Longrightarrow> ''id'' \<notin> fst ` set data \<Longrightarrow> numbered (snd (products_update now i data st))"
  "numbered st \<Longrightarrow> numbered (snd (products_remove now i st))"
  "numbered st \<Longrightarrow> numbered (snd (categories_create now data st))"
  "numbered st \<Longrightarrow> ''id'' \<notin> fst ` set data \<Longrightarrow> numbered (snd (categories_update now i data st))"
  "numbered st \<Longrightarrow> numbered (snd (categories_remove now i st))"
  by (auto simp: products_create_def products_update_def products_remove_def categories_create_def
      categories_update_def categories_remove_def clean_category_def keys_spread case_prod_beta
      numbered_insert numbered_update numbered_remove numbered_remove_where)

lemma numbered_welfare:
  "numbered st \<Longrightarrow> numbered (snd (welfare_create now data st))"
  "numbered st \<Longrightarrow> ''id'' \<notin> fst ` set data \<Longrightarrow> numbered (snd (welfare_update now i data st))"
  "numbered st \<Longrightarrow> numbered (snd (welfare_remove now i st))"
  "numbered st \<Longrightarrow> numbered (snd (use_code now c st))"
  by (auto simp: welfare_create_def welfare_update_def welfare_remove_def use_code_def find_by_code_def
      case_prod_beta numbered_insert numbered_update numbered_remove numbered_remove_where
      split: option.splits)

lemma numbered_create_all: "numbered st \<Longrightarrow> numbered (snd (create_all now rs n st))"
  by (induction rs arbitrary: n st) (auto simp: properties_create_def numbered_insert)

lemma numbered_properties:
  "numbered st \<Longrightarrow> numbered (snd (properties_create now data st))"
  "numbered st \<Longrightarrow> ''id'' \<notin> fst ` set data \<Longrightarrow> numbered (snd (properties_update now i data st))"
  "numbered st \<Longrightarrow> numbered (snd (properties_remove now i st))"
  "numbered st \<Longrightarrow> numbered (snd (bulk_insert now rs st))"
  by (auto simp: properties_create_def properties_update_def properties_remove_def bulk_insert_def
      case_prod_beta numbered_insert numbered_update numbered_remove numbered_create_all)

lemma numbered_identity_steps:
  "numbered st \<Longrightarrow> numbered (snd (known_identity_user now p st))"
  "numbered st \<Longrightarrow> numbered (snd (union_user_id now p st))"
  "numbered st \<Longrightarrow> numbered (snd (user_id_or_new now p uid st))"
  "numbered st \<Longrightarrow> numbered (record_identity now p uid st)"
  by (auto simp: known_identity_user_def union_user_id_def user_id_or_new_def record_identity_def
      case_prod_beta Let_def numbered_insert numbered_update split: option.splits)

lemma numbered_identity:
  assumes "numbered st"
  shows "numbered (snd (find_or_create_by_identity now p st))"
proof -
  let ?s1 = "snd (known_identity_user now p st)"
  let ?s3 = "snd (user_id_or_new now p (fst (union_user_id now p ?s1)) (snd (union_user_id now p ?s1)))"
  have "numbered ?s1"
    using assms by (rule numbered_identity_steps)
  then have "numbered ?s3"
    by (rule numbered_identity_steps(3) [OF numbered_identity_steps(2)])
  then have "numbered (record_identity now p uid ?s3)" for uid
    by (rule numbered_identity_steps)
  with \<open>numbered ?s1\<close> show ?thesis
    unfolding find_or_create_by_identity_def
    by (auto simp: case_prod_beta Let_def split: option.split)
qed

lemma profile_updates_id: "''id'' \<notin> fst ` set (profile_updates p u)"
  by (auto simp: profile_updates_def changed_field_def split: if_splits)

lemma numbered_user: "numbered st \<Longrightarrow> numbered (snd (find_or_create_user now p st))"
  by (auto simp: find_or_create_user_def Let_def numbered_insert numbered_update profile_updates_id
      split: option.split)

text \<open>The handlers that write.\<close>

lemma num_handler:
  "(\<And>e req st. body_without_id req \<Longrightarrow> numbered st \<Longrightarrow> numbered (snd (h e req st))) \<Longrightarrow>
   handler_within keeps_numbering body_without_id (nexts h) \<and>
   handler_within keeps_numbering body_without_id (catches h)"
  by (simp add: numbering.nexts_within numbering.catches_within keeps_numbering_def)

lemma num_user_handler:
  "(\<And>e req uid st. numbered st \<Longrightarrow> numbered (snd (h e req uid st))) \<Longrightarrow>
   handler_within keeps_numbering body_without_id (users h)"
  by (simp add: numbering.users_within keeps_numbering_def)

lemma numbered_case:
  "numbered (snd x) \<Longrightarrow> (\<And>r s. numbered s \<Longrightarrow> numbered (snd (f r s))) \<Longrightarrow> numbered (snd (case x of (r, s) \<Rightarrow> f r s))"
  by (cases x) simp

lemma numbered_post_order: "numbered st \<Longrightarrow> numbered (snd (post_order e req uid st))"
  by (auto simp: post_order_def Let_def case_prod_beta numbered_orders split: sum.split)

lemma numbered_cancels:
  "numbered st \<Longrightarrow> numbered (snd (cancel_order e req uid st))"
  "numbered st \<Longrightarrow> numbered (snd (my_cancel e req uid st))"
  by (auto simp: cancel_order_def my_cancel_def find_by_order_no_def Let_def case_prod_beta numbered_orders
      split: option.splits)

lemma numbered_post_use:
  "numbered st \<Longrightarrow> numbered (snd (post_use e req st))" "numbered st \<Longrightarrow> numbered (snd (post_validate e req st))"
  by (auto simp: post_use_def post_validate_def validate_code_def find_by_code_def Let_def case_prod_beta
      numbered_welfare split: sum.split option.split prod.split)

lemma numbered_admin_orders:
  "numbered st \<Longrightarrow> numbered (snd (admin_put_status e req st))"
  "numbered st \<Longrightarrow> numbered (snd (admin_put_remark e req st))"
  "numbered st \<Longrightarrow> numbered (snd (admin_delete_order e req st))"
  by (auto simp: admin_put_status_def admin_put_remark_def admin_delete_order_def find_by_order_no_def
      Let_def case_prod_beta numbered_orders split: option.splits)

lemma numbered_admin_catalog:
  "numbered st \<Longrightarrow> numbered (snd (admin_create_product e req st))"
  "body_without_id req \<Longrightarrow> numbered st \<Longrightarrow> numbered (snd (admin_update_product e req st))"
  "numbered st \<Longrightarrow> numbered (snd (admin_delete_product e req st))"
  "numbered st \<Longrightarrow> numbered (snd (admin_create_category e req st))"
  "numbered st \<Longrightarrow> numbered (snd (admin_update_category e req st))"
  "numbered st \<Longrightarrow> numbered (snd (admin_delete_category e req st))"
  by (auto simp: admin_create_product_def admin_update_product_def admin_delete_product_def
      admin_create_category_def admin_update_category_def admin_delete_category_def
      products_find_by_id_def categories_find_by_id_def exists_by_category_def body_without_id_def
      Let_def case_prod_beta numbered_catalog split: option.splits bool.split)

lemma numbered_admin_welfare:
  "numbered st \<Longrightarrow> numbered (snd (admin_create_code e req st))"
  "body_without_id req \<Longrightarrow> numbered st \<Longrightarrow> numbered (snd (admin_update_code e req st))"
  "numbered st \<Longrightarrow> numbered (snd (admin_delete_code e req st))"
  "numbered st \<Longrightarrow> numbered (snd (admin_validate_code e req st))"
  by (auto simp: admin_create_code_def admin_update_code_def admin_delete_code_def admin_validate_code_def
      validate_code_def find_by_code_def welfare_find_by_id_def body_without_id_def
      Let_def case_prod_beta numbered_welfare split: option.splits)

lemma set_if_id: "''id'' \<notin> fst ` set r \<Longrightarrow> j \<noteq> ''id'' \<Longrightarrow> ''id'' \<notin> fst ` set (set_if v j x r)"
  by (simp add: set_if_def keys_spread)

lemma property_form_id: "body_without_id req \<Longrightarrow> ''id'' \<notin> fst ` set (property_form req)"
  unfolding property_form_def Let_def body_without_id_def by (intro set_if_id) simp_all

lemma numbered_admin_properties:
  "numbered st \<Longrightarrow> numbered (snd (admin_create_property e req st))"
  "body_without_id req \<Longrightarrow> numbered st \<Longrightarrow> numbered (snd (admin_update_property e req st))"
  "numbered st \<Longrightarrow> numbered (snd (admin_delete_property e req st))"
  "numbered st \<Longrightarrow> numbered (snd (admin_import e u st))"
  by (auto simp: admin_create_property_def admin_update_property_def admin_delete_property_def
      admin_import_def properties_find_by_id_def property_form_id Let_def case_prod_beta
      numbered_properties split: option.splits upload.split)

lemma numbered_exports:
  "numbered st \<Longrightarrow> numbered (snd (sheet_res (export_orders e req st)))"
  "numbered st \<Longrightarrow> numbered (snd (sheet_res (export_properties e st)))"
proof -
  assume n: "numbered st"
  have "same_rows st (snd (sheet_res (export_orders e req st)))"
    by (rule reading.sheet_eff)
      (auto simp: export_orders_def split: prod.splits sum.splits dest: listing_effects)
  then show "numbered (snd (sheet_res (export_orders e req st)))"
    using n by (rule numbered_same)
  have "same_rows st (snd (sheet_res (export_properties e st)))"
    by (rule reading.sheet_eff)
      (auto simp: export_properties_def split: prod.splits sum.splits dest: listing_effects)
  then show "numbered (snd (sheet_res (export_properties e st)))"
    using n by (rule numbered_same)
qed

lemma numbered_redeem:
  "snd (post_redeem_order e req st) = st" "snd (put_redeem_address e req st) = st"
  "snd (post_redeem_cancel e req st) = st" "snd (post_pay_freight f e req st) = st"
  by (simp_all add: post_pay_freight_def post_redeem_order_def put_redeem_address_def post_redeem_cancel_def needs_order_no_def
      split: sum.split)

lemma numbered_mini_login: "numbered st \<Longrightarrow> numbered (snd (mini_login c w g e req st))"
proof -
  assume "numbered st"
  then have "numbered (snd (mini_login_action c w g e req st))"
    by (auto simp: mini_login_action_def split: sum.split prod.splits
        dest: numbered_after [OF numbered_identity])
  then show ?thesis
    by (auto simp: mini_login_def split: sum.splits prod.splits js_error.split)
qed

lemma numbered_callback: "numbered st \<Longrightarrow> numbered (snd (oauth_callback c w g e req st))"
  by (auto simp: oauth_callback_def Let_def case_prod_beta numbered_user split: sum.split)

lemma read_keeps: "same_rows st st' \<Longrightarrow> keeps_numbering st st'"
  by (simp add: keeps_numbering_def numbered_same)

lemmas write_handlers =
  numbered_post_order numbered_cancels numbered_post_use numbered_admin_orders numbered_admin_catalog
  numbered_admin_welfare numbered_admin_properties numbered_exports numbered_redeem numbered_mini_login
  numbered_callback

lemmas numbering_within = numbering.world_nexts_within numbering.nexts_within numbering.catches_within numbering.users_within
  numbering.answer_within

lemma shop_routers_number:
  "list_all (router_within keeps_numbering body_without_id UNIV) shop_routers"
  by (simp add: shop_routers_def router_within_def shop_router_defs numbering_within read_handlers
      read_keeps)
    (intro conjI; (rule numbering_within)?; simp add: keeps_numbering_def handler_within_def write_handlers)

lemma auth_router_numbers: "router_within keeps_numbering body_without_id UNIV auth_router"
  by (simp add: router_within_def auth_router_def numbering_within)
    (simp add: handler_within_def keeps_numbering_def case_prod_beta write_handlers)

lemma admin_import_keeps: "keeps_numbering st (snd (admin_import e u st))"
  by (simp add: keeps_numbering_def numbered_admin_properties)

lemma upload_import_within:
  "handler_within keeps_numbering body_without_id
     (\<lambda>w e req. with_next (Pair (upload_image (public_prefix w) (image_name w))))"
  "handler_within keeps_numbering body_without_id (\<lambda>w e req. with_500 e (admin_import e (uploaded w)))"
  by (simp_all add: handler_within_def numbering.with_next_eff numbering.with_500_eff numbering.eff_refl
      admin_import_keeps)

lemma admin_routers_number:
  "list_all (router_within keeps_numbering body_without_id UNIV) admin_routers"
  by (simp add: admin_routers_def router_within_def admin_router_defs numbering_within read_handlers
      read_keeps)
    (intro conjI; ((rule numbering_within | rule upload_import_within);
      simp add: keeps_numbering_def write_handlers)?)

end
