(* ===== verification/Server_Safety.thy ===== *)
theory Server_Safety
  imports Route_Numbering
begin

text \<open>
  Safety of the whole server: which requests reach a handler at all, what a reading request may
  change, and that no sequence of requests makes two rows of a table share an id.
\<close>

section \<open>The administration needs the token\<close>

text \<open>The paths below which the administration is mounted, and those of the other routers.\<close>

definition admin_paths :: "string list list" where
  "admin_paths = map fst (admin_mounts [''api''] @ admin_mounts [''h5'', ''api''] @
     admin_mounts [''h5'', ''api'', ''api''])"

definition shop_paths :: "string list list" where
  "shop_paths =
     [[''shipping''], [''redeem''], [''me''], [''products''], [''orders''], [''reviews''], [''welfare'']] @
     concat (map (\<lambda>base. map (\<lambda>p. base @ ''v1'' # p)
       [[''auth''], [''auth'', ''mini''], [''wechat''], [''products''], [''properties'', ''mall''], [''orders''],
        [''me'', ''orders''], [''welfare'']]) [[''api''], [''h5'', ''api'', ''api'']])"

lemma mount_kinds:
  "\<forall>(p, r) \<in> set mounts. map to_lower p = p \<and>
     (p \<in> set shop_paths \<or> p \<in> set admin_paths \<and> router_guard r = admin_guard)"
proof -
  have p: "\<forall>p \<in> set (map fst mounts). map to_lower p = p"
    by code_simp
  have "\<forall>(p, r) \<in> set mounts. p \<in> set shop_paths \<or> p \<in> set admin_paths \<and> router_guard r = admin_guard"
    by (simp add: mounts_def api_mounts_def admin_mounts_def shop_paths_def admin_paths_def admin_router_defs)
  with p show ?thesis by auto
qed

lemma admin_paths_mounted: "a \<in> set admin_paths \<Longrightarrow> \<exists>r. (a, r) \<in> set mounts"
  by (auto simp: mounts_def api_mounts_def admin_paths_def)

lemma paths_apart: "list_all (\<lambda>a. list_all (\<lambda>p. \<not> prefix p a \<and> \<not> prefix a p) shop_paths) admin_paths"
  by code_simp

lemma match_prefix_iff: "match_prefix p ss \<noteq> None \<longleftrightarrow> prefix (map to_lower p) (map to_lower ss)"
  by (induction p ss rule: match_prefix.induct) (auto split: if_splits)

lemma serve_mounts_refused:
  assumes "\<forall>(p, r) \<in> set ms. match_prefix p ss \<noteq> None \<longrightarrow> router_guard r w e req = Some res"
    and "\<exists>(p, r) \<in> set ms. match_prefix p ss \<noteq> None"
  shows "serve_mounts ms w e m ss req st = (res, st)"
  using assms
proof (induction ms)
  case (Cons a ms)
  obtain p r where a: "a = (p, r)"
    by (cases a) auto
  show ?case
  proof (cases "match_prefix p ss")
    case None
    with Cons a show ?thesis by auto
  next
    case (Some rest)
    then have "router_guard r w e req = Some res"
      using Cons.prems(1) a by auto
    with Some a show ?thesis by (simp add: run_router_def)
  qed
qed simp

lemma admin_path_refused:
  assumes "a \<in> set admin_paths" "prefix a (map to_lower ss)"
    and "adminToken (cfg w) = [] \<or> headers req ''authorization'' \<noteq> Some (''Bearer '' @ adminToken (cfg w))"
  shows "\<exists>r. serve w e m ss req st = (r, st) \<and> status r = 401"
proof -
  obtain res where res: "require_admin_token (cfg w) req = Some res"
    using assms(3) require_admin_token_None [of "cfg w" req] by (cases "require_admin_token (cfg w) req") auto
  have "router_guard r w e req = Some res" if "(p, r) \<in> set mounts" "match_prefix p ss \<noteq> None" for p r
  proof -
    have "prefix p (map to_lower ss)"
      using that mount_kinds match_prefix_iff [of p ss] by auto
    then have "prefix p a \<or> prefix a p"
      using assms(2) prefix_same_cases by blast
    then have "p \<notin> set shop_paths"
      using paths_apart assms(1) by (auto simp: list_all_iff)
    then have "router_guard r = admin_guard"
      using mount_kinds that(1) by auto
    with res show ?thesis by (simp add: admin_guard_def)
  qed
  moreover have "\<exists>(p, r) \<in> set mounts. match_prefix p ss \<noteq> None"
  proof -
    obtain r where r: "(a, r) \<in> set mounts"
      using admin_paths_mounted [OF assms(1)] by blast
    then have "map to_lower a = a"
      using mount_kinds by auto
    then have "match_prefix a ss \<noteq> None"
      using match_prefix_iff [of a ss] assms(2) by simp
    with r show ?thesis by blast
  qed
  ultimately have "serve w e m ss req st = (res, st)"
    unfolding serve_def by (intro serve_mounts_refused) auto
  with admin.refusal_status [OF res] show ?thesis by simp
qed

text \<open>C7. A request to any path below a mount point of the administration, in any letter case and with any
  method, that does not carry exactly the bearer token of the configuration (or when no token is
  configured) is answered 401 and leaves the state as it was: nothing is read, written or loaded.\<close>

theorem admin_paths_need_token:
  assumes "a \<in> set admin_paths" "prefix a (map to_lower ss)"
    and "adminToken (cfg w) = [] \<or> headers req ''authorization'' \<noteq> Some (''Bearer '' @ adminToken (cfg w))"
  shows "\<exists>r. serve w e m ss req st = (r, st) \<and> status r = 401"
  using assms by (rule admin_path_refused)

definition sample_request :: "string option \<Rightarrow> val \<Rightarrow> request" where
  "sample_request auth b = \<lparr>headers = (\<lambda>k. if k = ''authorization'' then auth else None),
     query = (\<lambda>_. None), params = (\<lambda>_. []), body = b\<rparr>"

definition sample_world :: world where
  "sample_world = \<lparr>cfg = sample_config, wx = \<lparr>appId = [], mpSecret = [], miniAppId = [], miniAppSecret = [],
       baseUrl = [], node_env = [], apiV3Key = []\<rparr>, http = (\<lambda>_. Inl TypeError), uploaded = No_file,
     image_name = None, public_prefix = [],
     url_valid = (\<lambda>_. True), iso_of_ms = (\<lambda>_. []),
     tickets = \<lparr>access_token = None, jsapi_ticket = None\<rparr>, sha1_hex = (\<lambda>_. []), nonce_hex = []\<rparr>"

theorem admin_paths_need_token_witness:
  "\<exists>r. serve sample_world (sample_env 0) DELETE [''API'', ''v1'', ''admin'', ''Orders'', ''A1'']
        (sample_request (Some ''Bearer x'') VUndef) (store_with (\<lambda>_. [])) =
      (r, store_with (\<lambda>_. [])) \<and> status r = 401"
proof (rule admin_paths_need_token)
  show "[''api'', ''v1'', ''admin'', ''orders''] \<in> set admin_paths"
    by code_simp
  show "prefix [''api'', ''v1'', ''admin'', ''orders'']
      (map to_lower [''API'', ''v1'', ''admin'', ''Orders'', ''A1''])"
    by code_simp
  show "adminToken (cfg sample_world) = [] \<or> headers (sample_request (Some ''Bearer x'') VUndef) ''authorization''
      \<noteq> Some (''Bearer '' @ adminToken (cfg sample_world))"
    by (simp add: sample_world_def sample_config_def sample_request_def)
qed

section \<open>Paths written out\<close>

text \<open>The words of the paths, which are all in lower case, and mounts that a path passes by.\<close>

lemma lower_words:
  "to_lower ''h5'' = ''h5''" "to_lower ''api'' = ''api''" "to_lower ''v1'' = ''v1''"
  "to_lower ''shipping'' = ''shipping''" "to_lower ''redeem'' = ''redeem''" "to_lower ''me'' = ''me''"
  "to_lower ''products'' = ''products''" "to_lower ''orders'' = ''orders''" "to_lower ''reviews'' = ''reviews''"
  "to_lower ''welfare'' = ''welfare''" "to_lower ''auth'' = ''auth''" "to_lower ''mini'' = ''mini''"
  "to_lower ''login'' = ''login''" "to_lower ''properties'' = ''properties''" "to_lower ''mall'' = ''mall''"
  "to_lower ''quote'' = ''quote''" "to_lower ''pay'' = ''pay''" "to_lower ''wechat'' = ''wechat''"
  "to_lower ''prepay'' = ''prepay''" "to_lower ''admin'' = ''admin''"
  by code_simp+

lemma serve_skips:
  "list_all (\<lambda>(p, r). match_prefix p ss = None) ms \<Longrightarrow>
   serve_mounts (ms @ ms') w e m ss req st = serve_mounts ms' w e m ss req st"
  by (induction ms) auto

lemma admin_words:
  "to_lower ''export'' = ''export''" "to_lower ''upload'' = ''upload''" "to_lower ''images'' = ''images''"
  "to_lower ''image'' = ''image''" "to_lower ''batch-delete'' = ''batch-delete''" "to_lower ''inventory'' = ''inventory''"
  "to_lower ''welfare-codes'' = ''welfare-codes''" "to_lower ''sku-library'' = ''sku-library''"
  "to_lower ''categories'' = ''categories''" "to_lower ''import'' = ''import''" "to_lower ''communities'' = ''communities''"
  by code_simp+

section \<open>Reading changes no row\<close>

text \<open>The one route that writes on a GET request is the return from WeChat's login page.\<close>

definition oauth_callback_paths :: "string list list" where
  "oauth_callback_paths = map (\<lambda>p. p @ [''wechat'', ''oauth-callback'']) auth_paths"

text \<open>Everything but the rows of the users is as before.\<close>

definition same_rows_but_users :: "fs_state \<Rightarrow> fs_state \<Rightarrow> bool" where
  "same_rows_but_users st st' \<longleftrightarrow>
     (\<forall>t. t \<noteq> Users \<longrightarrow> mset (rows_of st' t) = mset (rows_of st t) \<and> next_of st' t = next_of st t)"

interpretation login_reading: request_effect same_rows_but_users "\<lambda>_. True"
  by unfold_locales (auto simp: same_rows_but_users_def)

lemma same_rows_weaker: "same_rows st st' \<Longrightarrow> same_rows_but_users st st'"
  by (simp add: same_rows_def same_rows_but_users_def)

lemma router_within_weaker:
  "router_within same_rows P M r \<Longrightarrow> router_within same_rows_but_users P M r"
  by (auto simp: router_within_def handler_within_def same_rows_weaker split: prod.splits)

lemma callback_writes_users: "same_rows_but_users st (snd (oauth_callback c w g e req st))"
  by (auto simp: same_rows_but_users_def oauth_callback_def find_or_create_user_def Let_def case_prod_beta
      store_insert_result store_update_result split: sum.split option.split)

lemma auth_router_reads_but_users: "router_within same_rows_but_users (\<lambda>_. True) {GET} auth_router"
  by (simp add: router_within_def auth_router_def login_reading.answer_within)
    (simp add: handler_within_def case_prod_beta callback_writes_users)

lemma match_two:
  assumes "p \<noteq> []" "q \<noteq> []" "hd p \<noteq> CHR '':''" "hd q \<noteq> CHR '':''"
  shows "match_path [p, q] ss = (if map to_lower ss = [to_lower p, to_lower q] then Some [] else None)"
  using assms by (cases ss; cases "tl ss"; cases "tl (tl ss)") auto

lemma match_prefix_lower:
  "match_prefix p ss = Some rest \<Longrightarrow> map to_lower ss = map to_lower p @ map to_lower rest"
  by (induction p ss rule: match_prefix.induct) (auto split: if_splits)

lemma oauth_words:
  "to_lower ''oauth-start'' = ''oauth-start''" "to_lower ''oauth-callback'' = ''oauth-callback''"
  "\<forall>p \<in> set auth_paths. map to_lower p = p"
  by code_simp+

lemma auth_route_reads:
  assumes "p \<in> set auth_paths" "match_prefix p ss = Some rest"
    and "map to_lower ss \<notin> set oauth_callback_paths"
    and "first_route (routes auth_router) GET rest = Some (ps, h)"
  shows "handler_within same_rows (\<lambda>_. True) h"
proof -
  have "map to_lower rest \<noteq> [''wechat'', ''oauth-callback'']"
    using assms(1-3) match_prefix_lower [OF assms(2)] oauth_words(3) by (auto simp: oauth_callback_paths_def)
  with assms(4) show ?thesis
    by (auto simp: auth_router_def match_two oauth_words lower_words reading.answer_within split: if_splits)
qed

text \<open>C8. Whatever GET request is served, by whichever route and whoever sends it, every table holds the same
  rows afterwards (the order of a table may change, since the listings sort in place) and the next
  ids are the same, with one exception: the return from WeChat's login page, which may add or
  refresh a user and changes no other table.\<close>

theorem get_requests_change_no_row:
  assumes "t \<noteq> Users \<or> map to_lower ss \<notin> set oauth_callback_paths"
  shows "mset (rows_of (snd (serve w e GET ss req st)) t) = mset (rows_of st t) \<and>
    next_of (snd (serve w e GET ss req st)) t = next_of st t"
  using assms
proof
  assume "t \<noteq> Users"
  have "\<forall>(p, r) \<in> set mounts. router_within same_rows_but_users (\<lambda>_. True) {GET} r"
    unfolding mounts_all using auth_router_reads_but_users shop_routers_read admin_routers_read
    by (auto simp: list_all_iff router_within_weaker)
  then have "same_rows_but_users st (snd (serve w e GET ss req st))"
    unfolding serve_def by (rule login_reading.serve_all_within) simp_all
  with \<open>t \<noteq> Users\<close> show ?thesis by (simp add: same_rows_but_users_def)
next
  assume no: "map to_lower ss \<notin> set oauth_callback_paths"
  have rest: "\<forall>r \<in> set (shop_routers @ admin_routers). router_within same_rows (\<lambda>_. True) {GET} r"
    using shop_routers_read admin_routers_read by (auto simp: list_all_iff)
  have "handler_within same_rows (\<lambda>_. True) h"
    if "(p, r) \<in> set mounts" "match_prefix p ss = Some rest" "first_route (routes r) GET rest = Some (ps, h)"
    for p r rest ps h
    using mount_is_auth [OF that(1)]
  proof
    assume "p \<in> set auth_paths \<and> r = auth_router"
    then show ?thesis using auth_route_reads [OF _ that(2) no] that(3) by blast
  next
    assume "r \<in> set (shop_routers @ admin_routers)"
    then show ?thesis using rest reading.router_within_route that(3) by blast
  qed
  then have "same_rows st (snd (serve w e GET ss req st))"
    unfolding serve_def by (intro reading.serve_mounts_within) auto
  then show ?thesis by (simp add: same_rows_def)
qed

text \<open>The witness logs a customer in over an empty store: a user is there, no order is.\<close>

definition callback_request :: request where
  "callback_request = \<lparr>headers = (\<lambda>_. None), query = [''code'' \<mapsto> ''c1''], params = (\<lambda>_. []), body = VUndef\<rparr>"

definition wechat_answers :: world where
  "wechat_answers = sample_world\<lparr>http := (\<lambda>_. Inr (VObj [(''openid'', VStr ''o1'')]))\<rparr>"

lemma serve_callback:
  "serve w e GET [''api'', ''v1'', ''auth'', ''wechat'', ''oauth-callback''] req st =
     (case oauth_callback (cfg w) (wx w) (http w) e (with_params [] req) st of (x, st1) \<Rightarrow> (reply_res x, st1))"
  by (simp add: serve_def mounts_def api_mounts_def run_router_def auth_router_def no_guard_def lower_words
      oauth_words)

lemma callback_adds_user:
  "snd (serve wechat_answers e GET [''api'', ''v1'', ''auth'', ''wechat'', ''oauth-callback'']
       callback_request (boot ''t'' None None)) =
     snd (store_insert (iso e) Users (new_user_row [(''openid'', VStr ''o1''), (''unionid'', VUndef)])
       (load_data (iso e) (boot ''t'' None None)))"
  by (simp add: serve_callback oauth_callback_def with_params_def callback_request_def wechat_answers_def
      str_truthy_def find_or_create_user_def Let_def case_prod_beta split: sum.split)

theorem get_requests_change_no_row_witness:
  "let st1 = snd (serve wechat_answers (sample_env 0) GET [''api'', ''v1'', ''auth'', ''wechat'', ''oauth-callback'']
         callback_request (boot ''t'' None None));
       st2 = snd (serve sample_world (sample_env 0) GET [''Products''] callback_request st1)
   in mset (rows_of st1 Orders) = mset [] \<and> length (rows_of st1 Users) = 1 \<and>
      mset (rows_of st2 Users) = mset (rows_of st1 Users)"
proof -
  let ?st = "boot ''t'' None None"
  have "map to_lower [''Products''] \<notin> set oauth_callback_paths"
    by code_simp
  then show ?thesis
    using get_requests_change_no_row [of Orders "[''api'', ''v1'', ''auth'', ''wechat'', ''oauth-callback'']"
        wechat_answers "sample_env 0" callback_request ?st]
      get_requests_change_no_row [of Users "[''Products'']" sample_world "sample_env 0" callback_request]
    by (simp add: Let_def) (simp add: callback_adds_user store_insert_result)
qed

section \<open>Ids stay distinct\<close>

text \<open>A sequence of requests, each with its own environment.\<close>

fun serve_all ::
  "(world \<times> call_env \<times> http_method \<times> string list \<times> request) list \<Rightarrow> fs_state \<Rightarrow> fs_state" where
  "serve_all [] st = st"
| "serve_all ((w, e, m, ss, req) # qs) st = serve_all qs (snd (serve w e m ss req st))"

lemma serve_numbered:
  assumes "body_without_id req" "numbered st"
  shows "numbered (snd (serve w e m ss req st))"
proof -
  have "\<forall>(p, r) \<in> set mounts. router_within keeps_numbering body_without_id UNIV r"
    unfolding mounts_all using auth_router_numbers shop_routers_number admin_routers_number by simp
  then have "keeps_numbering st (snd (serve w e m ss req st))"
    unfolding serve_def by (rule numbering.serve_all_within) (simp_all add: assms(1))
  with assms(2) show ?thesis by (simp add: keeps_numbering_def)
qed

lemma numbered_boot: "numbered (boot now None tm)"
  by (simp add: numbered_def ids_ok_def)

text \<open>C6. After any sequence of requests to a server that started with an empty disk, the rows of each table
  have distinct positive ids below the table's next id, provided no request body carries a field
  \<open>id\<close>; the administration's updates would store it.  The requests may be any, the logins by OAuth
  and by mini program among them.\<close>

theorem served_rows_have_distinct_ids:
  assumes "\<forall>(w, e, m, ss, req) \<in> set qs. body_without_id req"
  shows "ids_ok (rows_of (serve_all qs (boot now None tm)) t) (next_of (serve_all qs (boot now None tm)) t)"
proof -
  have "numbered (serve_all qs st)" if "numbered st" for st
    using assms that
    by (induction qs arbitrary: st) (auto simp: serve_numbered)
  with numbered_boot [of now tm] show ?thesis
    by (auto simp: numbered_def)
qed

text \<open>The witness logs a customer in and lets the administration create two categories.\<close>

definition category_request :: "string \<Rightarrow> request" where
  "category_request name = sample_request (Some ''Bearer tok'') (VObj [(''name'', VStr name)])"

definition witness_requests :: "(world \<times> call_env \<times> http_method \<times> string list \<times> request) list" where
  "witness_requests =
     [(wechat_answers, sample_env 0, GET, [''api'', ''v1'', ''auth'', ''wechat'', ''oauth-callback''], callback_request),
      (sample_world, sample_env 1, POST, [''api'', ''v1'', ''admin'', ''categories''], category_request ''a''),
      (sample_world, sample_env 2, POST, [''api'', ''v1'', ''admin'', ''categories''], category_request ''b'')]"

lemma serve_create_category:
  assumes "require_admin_token (cfg w) req = None"
  shows "serve w e POST [''api'', ''v1'', ''admin'', ''categories''] req st =
    with_500 e (admin_create_category e (with_params [] req)) st"
  using assms
  by (simp add: serve_def mounts_def api_mounts_def admin_mounts_def run_router_def admin_categories_router_def
      admin_guard_def catches_def lower_words admin_words)

lemma category_inserted:
  assumes "name \<noteq> []"
  shows "snd (serve sample_world e POST [''api'', ''v1'', ''admin'', ''categories''] (category_request name) st) =
    snd (store_insert (iso e) Categories
      [(''name'', VStr name), (''icon'', VNull), (''sort_order'', VNum 0), (''status'', VNum 1)] st)"
proof -
  have "require_admin_token (cfg sample_world) (category_request name) = None"
    by (simp add: require_admin_token_None category_request_def sample_request_def sample_world_def
        sample_config_def)
  then show ?thesis
    using assms
    by (simp add: serve_create_category with_500_def admin_create_category_def categories_create_def
        category_request_def sample_request_def with_params_def body_fld_def body_row_def js_or_def
        js_coalesce_def Let_def case_prod_beta split: sum.split)
qed

theorem served_rows_have_distinct_ids_witness:
  "let st = serve_all witness_requests (boot ''t'' None None)
   in length (rows_of st Users) = 1 \<and> length (rows_of st Categories) = 2 \<and>
      ids_ok (rows_of st Categories) (next_of st Categories)"
proof -
  have "\<forall>(w, e, m, ss, req) \<in> set witness_requests. body_without_id req"
    by (simp add: witness_requests_def category_request_def callback_request_def body_without_id_def
        body_row_def sample_request_def)
  from served_rows_have_distinct_ids [OF this, of "''t''" None Categories] show ?thesis
    by (simp add: Let_def)
      (simp add: witness_requests_def callback_adds_user category_inserted store_insert_result)
qed

end
