(* ===== verification/Admin_Rules.thy ===== *)
theory Admin_Rules
  imports Route_Numbering
begin

text \<open>
  Rules of the administration: what an update may do to the ids, when a category may be deleted, what
  an import stores and how much an export holds.
\<close>

section \<open>Updates take the body as it is\<close>

lemma upd_first_split:
  assumes "find p rs = Some r"
  shows "\<exists>xs ys. rs = xs @ r # ys \<and> upd_first p f rs = xs @ f r # ys"
  using assms
proof (induction rs)
  case (Cons x rs)
  show ?case
  proof (cases "p x")
    case True
    with Cons.prems have "x = r" by simp
    then show ?thesis using True by (intro exI [of _ "[]"] exI [of _ rs]) simp
  next
    case False
    with Cons obtain xs ys where "rs = xs @ r # ys" "upd_first p f rs = xs @ f r # ys" by auto
    with False show ?thesis by (intro exI [of _ "x # xs"] exI [of _ ys]) simp
  qed
qed simp

text \<open>A product update stores a field \<open>id\<close> of the body: giving a product the id of another product
  succeeds, and then two products share an id and the first can no longer be told from the second.\<close>

theorem product_update_can_duplicate_ids:
  assumes "find (has_id (id_param req ''id'')) (rows_of st Products) = Some p"
    and "q \<in> set (rows_of st Products)" "fld q ''id'' \<noteq> fld p ''id''"
    and "body req = VObj [(''id'', fld q ''id'')]"
  shows "fst (admin_update_product e req st) = ok_res [(''success'', VBool True)] \<and>
    \<not> distinct (map (\<lambda>r. fld r ''id'') (rows_of (snd (admin_update_product e req st)) Products))"
proof -
  let ?f = "touched (iso e) [(''id'', fld q ''id'')]"
  have rows: "rows_of (snd (admin_update_product e req st)) Products =
      upd_first (has_id (id_param req ''id'')) ?f (rows_of st Products)"
    and ok: "fst (admin_update_product e req st) = ok_res [(''success'', VBool True)]"
    using assms(1,4)
    by (simp_all add: admin_update_product_def products_find_by_id_def products_update_def
        store_update_result body_row_def Let_def case_prod_beta)
  obtain xs ys where split: "rows_of st Products = xs @ p # ys"
    "upd_first (has_id (id_param req ''id'')) ?f (rows_of st Products) = xs @ ?f p # ys"
    using upd_first_split [OF assms(1)] by blast
  then have "q \<in> set (xs @ ys)"
    using assms(2,3) by auto
  moreover have "fld (?f p) ''id'' = fld q ''id''"
    by (simp add: fld_touched)
  ultimately have "\<not> distinct (map (\<lambda>r. fld r ''id'') (xs @ ?f p # ys))"
    by (auto simp: image_iff)
  with rows ok split show ?thesis by simp
qed

section \<open>Deleting a category\<close>

text \<open>A category is deleted only when no property refers to it; otherwise the answer is 400 and the
  category stays.  No other table changes either way.\<close>

theorem used_categories_stay:
  "rows_of (snd (admin_delete_category e req st)) t =
     (if t = Categories \<and> \<not> (\<exists>r\<in>set (rows_of st Properties). strict_eq (fld r ''category_id'') (number_param req ''id''))
      then del_first (has_id (number_param req ''id'')) (rows_of st t) else rows_of st t) \<and>
   fst (admin_delete_category e req st) =
     (if \<exists>r\<in>set (rows_of st Properties). strict_eq (fld r ''category_id'') (number_param req ''id'')
      then res_status 400 [(''error'', VStr msg_cat_in_use)]
      else ok_res [(''success'', VBool True), (''message'', VStr msg_cat_deleted)])"
  by (auto simp: admin_delete_category_def exists_by_category_def categories_remove_def Let_def case_prod_beta
      store_remove_result find_None_iff split: option.splits dest!: find_in_set)

section \<open>Exports\<close>

text \<open>An export of orders that succeeds holds the newest hundred of the matching orders at most, whatever
  their number: the page size of 10000 that the route asks for is cut by the repository.\<close>

theorem export_holds_hundred_orders:
  assumes "all_conform order_iface (rows_of st Orders)"
    and "fst (export_orders e req st) = Inr rs"
  shows "length rs = min 100 (length (filter (order_matches
      (no_order_query\<lparr>oq_status := body_text req ''status'', oq_startAt := body_text req ''startAt'',
         oq_endAt := body_text req ''endAt'', oq_pageSize := Some 10000\<rparr>)) (rows_of st Orders)))"
proof -
  let ?q = "no_order_query\<lparr>oq_status := body_text req ''status'', oq_startAt := body_text req ''startAt'',
         oq_endAt := body_text req ''endAt'', oq_pageSize := Some 10000\<rparr>"
  have "paginate None (Some 10000) xs = take 100 xs" for xs :: "row list"
    by (simp add: paginate_def int_or_def page_size_of_def js_slice_nonneg)
  then show ?thesis
    using assms(2) orders_list_result(1) [OF assms(1), of "iso e" ?q]
    by (auto simp: export_orders_def no_order_query_def mapE_shown Let_def length_js_sort
        split: prod.splits sum.splits if_splits)
qed

section \<open>Imports\<close>

lemma import_row_keys: "fst ` set (import_row hs cells) \<subseteq> snd ` set header_map"
proof -
  have "fst ` set (foldl (\<lambda>r kc. import_cell hs kc r) r cells) \<subseteq> fst ` set r \<union> snd ` set header_map" for r
  proof (induction cells arbitrary: r)
    case (Cons kc cells)
    have "fst ` set (import_cell hs kc r) \<subseteq> fst ` set r \<union> snd ` set header_map"
      by (auto simp: import_cell_def keys_spread split: option.splits if_splits dest!: map_of_SomeD
          intro: rev_image_eqI)
    with Cons.IH [of "import_cell hs kc r"] show ?case by auto
  qed simp
  from this [of "[]"] show ?thesis by (simp add: import_row_def)
qed

text \<open>An import answers 400 and stores nothing when no row has a community name; otherwise it appends one
  property for each row that has one, in the order of the sheet, numbered from the next id, and the
  columns it takes over are those of the header table only.\<close>

theorem import_stores_named_rows:
  "(if import_rows hs cells = [] then admin_import e (Sheet hs cells) st = (res_status 400 [(''error'', VStr msg_no_rows)], st)
    else rows_of (snd (admin_import e (Sheet hs cells) st)) Properties =
           rows_of st Properties @ imported (iso e) (next_of st Properties) (import_rows hs cells)) \<and>
   list_all (\<lambda>r. truthy (fld r ''community_name'') \<and> fst ` set r \<subseteq> snd ` set header_map) (import_rows hs cells)"
proof
  show "list_all (\<lambda>r. truthy (fld r ''community_name'') \<and> fst ` set r \<subseteq> snd ` set header_map) (import_rows hs cells)"
    unfolding list_all_iff
  proof (intro ballI conjI)
    fix r assume r: "r \<in> set (import_rows hs cells)"
    then obtain hs' c where "r = import_row hs' c"
      by (auto simp: import_rows_def Let_def)
    then show "fst ` set r \<subseteq> snd ` set header_map"
      by (simp only: import_row_keys)
    show "truthy (fld r ''community_name'')"
      using r by (auto simp: import_rows_def Let_def)
  qed
qed (simp add: admin_import_def Let_def case_prod_beta bulk_insert_def flush_result create_all_result)

section \<open>Examples\<close>

definition two_products :: fs_state where
  "two_products = store_with (\<lambda>t. if t = Products then [[(''id'', VNum 1)], [(''id'', VNum 2)]] else [])"

definition id_request :: "string \<Rightarrow> val \<Rightarrow> request" where
  "id_request i b = \<lparr>headers = (\<lambda>_. None), query = (\<lambda>_. None), params = (\<lambda>_. i), body = b\<rparr>"

theorem product_update_can_duplicate_ids_witness:
  "\<not> distinct (map (\<lambda>r. fld r ''id'') (rows_of (snd (admin_update_product (sample_env 0)
      (id_request ''1'' (VObj [(''id'', VNum 2)])) two_products)) Products))"
proof -
  have i: "id_param (id_request ''1'' b) ''id'' = VNum 1" for b
    by (simp add: id_param_def id_request_def) code_simp
  show ?thesis
    using product_update_can_duplicate_ids [of "id_request ''1'' (VObj [(''id'', VNum 2)])" two_products
        "[(''id'', VNum 1)]" "[(''id'', VNum 2)]" "sample_env 0"]
    by (simp add: i two_products_def has_id_def) (simp add: id_request_def)
qed

definition many_orders :: fs_state where
  "many_orders = store_with (\<lambda>t. if t = Orders then map (\<lambda>i. [(''id'', VNat i), (''order_no'', VStr ''A''),
     (''status'', VStr ''PAID''), (''total_amount'', VNum 0)]) [1..<102] else [])"

theorem export_holds_hundred_orders_witness:
  "\<exists>rs. fst (export_orders (sample_env 0) (id_request [] VUndef) many_orders) = Inr rs \<and> length rs = 100"
proof -
  let ?q = "no_order_query\<lparr>oq_status := None, oq_startAt := None, oq_endAt := None, oq_pageSize := Some 10000\<rparr>"
  have b: "body_text (id_request [] VUndef) k = None" for k
    by (simp add: body_text_def body_fld_def id_request_def)
  have c: "all_conform order_iface (rows_of many_orders Orders)"
    by (auto simp: many_orders_def all_conform_def conforms_def order_iface_def field_ok_def)
  have all: "filter (order_matches ?q) (rows_of many_orders Orders) = rows_of many_orders Orders"
    by (simp add: order_matches_def no_order_query_def str_truthy_def)
  have "\<not> nullish (address_data r)" if "r \<in> set (rows_of many_orders Orders)" for r
    using that by (auto simp: many_orders_def address_data_def)
  then have "\<not> (\<exists>r\<in>set (paginate p ps (js_sort cmp_created_desc (rows_of many_orders Orders))). nullish (address_data r))"
    for p ps
    using set_paginate [of p ps "js_sort cmp_created_desc (rows_of many_orders Orders)"] by auto
  then obtain n os where "fst (orders_list (iso (sample_env 0)) ?q many_orders) = Inr (n, os)"
    using orders_list_result(1) [OF c, of "iso (sample_env 0)" ?q] by (simp only: all mapE_shown Let_def) simp
  then have ex: "fst (export_orders (sample_env 0) (id_request [] VUndef) many_orders) = Inr (map export_order_row os)"
    by (auto simp: export_orders_def b split: prod.split sum.split)
  have "length (filter (order_matches ?q) (rows_of many_orders Orders)) = 101"
    unfolding all by (simp add: many_orders_def)
  with export_holds_hundred_orders [OF c ex, unfolded b] ex show ?thesis
    by simp
qed

end
