(* ===== verification/Order_Flow.thy ===== *)
theory Order_Flow
  imports Wechat
begin

text \<open>
  The life of an order across the routes: who may see and cancel it, what a customer can set when it is
  created, what cancelling writes through each of the two routes, and what a payment notification
  changes.
\<close>

section \<open>Creating an order\<close>

lemma create_order_req_obj: "create_order_req e b = Inr r \<Longrightarrow> b = VObj r"
  by (auto simp: create_order_req_def Let_def split: val.splits option.splits if_splits)

text \<open>C13. Whatever the body of \<open>POST /orders\<close> says, the order that is stored belongs to the logged-in
  user, waits for payment and amounts to 0 in version 0 with a generated number: the customer
  chooses the property, the address and the notes only.  A body that the schema refuses stores
  nothing.\<close>

theorem customer_cannot_price_an_order:
  "(case create_order_req e (body req) of
      Inl err \<Rightarrow> post_order e req uid st = (Inl err, st)
    | Inr b \<Rightarrow> \<exists>orow.
        (\<forall>t. rows_of (snd (post_order e req uid st)) t =
           (if t = Orders then rows_of st t @ [orow] else rows_of st t)) \<and>
        fld orow ''user_id'' = uid \<and> fld orow ''status'' = VStr ''PENDING_PAYMENT'' \<and>
        fld orow ''total_amount'' = VNum 0 \<and> fld orow ''version'' = VNum 0 \<and>
        fld orow ''order_no'' = VStr (generate_order_no (order_env.truncate e)) \<and>
        fld orow ''property_id'' = fld b ''propertyId'' \<and>
        fld orow ''buyer_note'' = fld b ''buyerNote'')"
  by (auto simp: post_order_def Let_def orders_create_def store_insert_result case_prod_beta fld_new_row
      js_or_def split: sum.split)

section \<open>Orders of other users\<close>

text \<open>C12. A user who asks for, or tries to cancel, an order of somebody else gets 403 from all four routes,
  and the stored rows stay as they are.\<close>

theorem others_orders_are_refused:
  assumes "find (has_order_no (VStr (params req ''orderNo''))) (rows_of st Orders) = Some orow"
    and "fld orow ''user_id'' \<noteq> uid"
    and "h \<in> {get_order, cancel_order, my_order, my_cancel}"
  shows "status (fst (with_next (h e req uid) st)) = 403 \<and> snd (with_next (h e req uid) st) = load_data (iso e) st"
proof -
  have "\<not> strict_eq (fld orow ''user_id'') uid"
    using assms(2) strict_eqD by blast
  with assms(1,3) show ?thesis
    by (auto simp: with_next_def get_order_def cancel_order_def my_order_def my_cancel_def
        find_by_order_no_def Let_def error_middleware_def res_status_def)
qed


text \<open>A status change acts on the first order with the number, and on that row only.\<close>

lemma update_status_result:
  assumes "ids_ok (rows_of st Orders) (next_of st Orders)"
  shows "rows_of (snd (update_status now n v extra st)) t =
     (if t = Orders then upd_first (has_order_no n) (touched now (spread [(''status'', v)] extra)) (rows_of st Orders)
      else rows_of st t)"
  using upd_first_found [OF _ assms, of "has_order_no n"]
  by (auto simp: update_status_def find_by_order_no_def store_update_result find_None_iff
      upd_first_none split: option.splits)

lemma update_status_load [simp]: "update_status now n v extra (load_data now st) = update_status now n v extra st"
  by (simp add: update_status_def find_by_order_no_def)

lemma log_change_rows:
  "rows_of (log_change now n f a b opr st) t =
     (if t = Order_change_logs then rows_of st t @ [new_row now (next_of st t)
        [(''order_no'', n), (''field_name'', VStr f), (''old_value'', a), (''new_value'', b),
         (''operator'', VStr (if str_truthy opr then str_of opr else ''system''))]]
      else rows_of st t)"
  by (simp add: log_change_def store_insert_result)

definition may_cancel :: "val \<Rightarrow> row \<Rightarrow> bool" where
  "may_cancel uid r \<longleftrightarrow> strict_eq (fld r ''user_id'') uid \<and> fld r ''status'' = VStr ''PENDING_PAYMENT''"

text \<open>C11. Cancelling through \<open>/api/v1/orders\<close> sets exactly the named order to \<open>CANCELLED\<close> when the user owns it
  and it waits for payment, and appends one log entry from \<open>PENDING_PAYMENT\<close> to \<open>CANCELLED\<close>; in every
  other case, an unknown number included, no row of any table changes.\<close>

theorem cancel_only_own_unpaid_orders:
  assumes "ids_ok (rows_of st Orders) (next_of st Orders)"
  shows "let no = VStr (params req ''orderNo''); st' = snd (cancel_order e req uid st) in
    (case find (has_order_no no) (rows_of st Orders) of
       Some orow \<Rightarrow>
         (if may_cancel uid orow
          then rows_of st' Orders = upd_first (has_order_no no)
                 (touched (iso e) [(''status'', VStr ''CANCELLED'')]) (rows_of st Orders) \<and>
               (\<exists>l. rows_of st' Order_change_logs = rows_of st Order_change_logs @ [l] \<and>
                  fld l ''order_no'' = no \<and> fld l ''old_value'' = VStr ''PENDING_PAYMENT'' \<and>
                  fld l ''new_value'' = VStr ''CANCELLED'' \<and> fld l ''operator'' = VStr ''user'') \<and>
               (\<forall>t. t \<noteq> Orders \<and> t \<noteq> Order_change_logs \<longrightarrow> rows_of st' t = rows_of st t)
          else \<forall>t. rows_of st' t = rows_of st t)
     | None \<Rightarrow> \<forall>t. rows_of st' t = rows_of st t)"
  using update_status_result [OF assms(1)]
  by (auto simp: cancel_order_def find_by_order_no_def Let_def case_prod_beta may_cancel_def log_change_rows
      str_truthy_def str_of_def fld_new_row split: option.split)

text \<open>The two cancelling routes answer with the same status and leave the same rows in every table but
  the change log: the route under \<open>/me/orders\<close> never writes a log entry.\<close>

theorem cancel_routes_differ_in_the_log:
  "status (fst (with_next (my_cancel e req uid) st)) = status (fst (with_next (cancel_order e req uid) st)) \<and>
   (\<forall>t. rows_of (snd (my_cancel e req uid st)) t =
      (if t = Order_change_logs then rows_of st t else rows_of (snd (cancel_order e req uid st)) t))"
  by (auto simp: with_next_def my_cancel_def cancel_order_def find_by_order_no_def Let_def case_prod_beta
      log_change_rows error_middleware_def res_status_def ok_res_def update_status_def store_update_result
      split: option.splits)

text \<open>\<open>GET /orders/:orderNo/status\<close> shows number, status and amount of an order to every logged-in
  user: the answer does not depend on who asks.\<close>

theorem order_status_ignores_the_owner:
  "get_order_status e req uid st = get_order_status e req uid' st \<and>
   (case find (has_order_no (VStr (params req ''orderNo''))) (rows_of st Orders) of
      Some orow \<Rightarrow> fst (get_order_status e req uid st) = ok_res (order_brief orow)
    | None \<Rightarrow> fst (get_order_status e req uid st) = Inl (AppErr 404 ''ORDER_NOT_FOUND'' msg_order_missing))"
  by (auto simp: get_order_status_def find_by_order_no_def split: option.split)

section \<open>Payment notifications\<close>

text \<open>What a notification must be to change anything.\<close>

definition paid_notice ::
  "(string \<Rightarrow> string \<Rightarrow> string \<Rightarrow> string \<Rightarrow> bool) option \<Rightarrow> (val \<Rightarrow> js_error + val) \<Rightarrow> request \<Rightarrow> string \<Rightarrow>
   row \<Rightarrow> bool" where
  "paid_notice sign_ok decrypt req raw pay \<longleftrightarrow>
     (\<forall>f. sign_ok = Some f \<longrightarrow> f (str_of (headers req ''wechatpay-timestamp'')) (str_of (headers req ''wechatpay-nonce''))
        raw (str_of (headers req ''wechatpay-signature''))) \<and>
     (\<exists>bj. json_parse raw = Some (VObj bj) \<and> fld bj ''event_type'' = VStr ''TRANSACTION.SUCCESS'' \<and>
        truthy (fld bj ''resource'') \<and> decrypt (fld bj ''resource'') = Inr (VObj pay)) \<and>
     fld pay ''trade_state'' = VStr ''SUCCESS''"

lemma wx_notify_paid:
  assumes "paid_notice sign_ok decrypt req raw pay"
    and "find (has_order_no (fld pay ''out_trade_no'')) (rows_of st Orders) = Some orow"
  shows "wx_notify e sign_ok decrypt req raw st =
    (ok_res [(''code'', VStr ''SUCCESS''), (''message'', VStr ''ok'')],
     log_change (iso e) (fld pay ''order_no'') ''status'' (fld orow ''status'') (VStr ''PENDING_FREIGHT'')
       (Some ''wechat_notify'')
       (snd (update_status (iso e) (fld pay ''order_no'') (VStr ''PENDING_FREIGHT'')
          [(''paid_at'', VStr (iso e)), (''payment_method'', VStr ''WECHAT'')] st)))"
  using assms unfolding paid_notice_def wx_notify_def
  by (auto simp: Let_def find_by_order_no_def case_prod_beta split: option.split)

lemma wx_notify_changed:
  assumes "rows_of (snd (wx_notify e sign_ok decrypt req raw st)) t \<noteq> rows_of st t"
  shows "\<exists>pay. paid_notice sign_ok decrypt req raw pay \<and>
    find (has_order_no (fld pay ''out_trade_no'')) (rows_of st Orders) \<noteq> None"
  using assms unfolding wx_notify_def paid_notice_def
  by (auto simp: Let_def find_by_order_no_def split: if_splits option.splits sum.splits val.splits)


text \<open>C14. When the platform's key can be read (\<open>sign_ok = Some f\<close>), a notification changes a stored row
  only if its signature verifies; without a readable key the code checks no signature.  In both cases
  it changes a row only if it announces a success, decrypts to a successful payment, and an order has
  the payment's \<open>out_trade_no\<close>.\<close>

theorem only_verified_payments_change_rows:
  assumes "rows_of (snd (notify_route e sign_ok decrypt req raw st)) t \<noteq> rows_of st t"
  shows "(\<forall>f. sign_ok = Some f \<longrightarrow>
      f (str_of (headers req ''wechatpay-timestamp'')) (str_of (headers req ''wechatpay-nonce'')) raw
        (str_of (headers req ''wechatpay-signature''))) \<and>
    (\<exists>bj pay orow. json_parse raw = Some (VObj bj) \<and> fld bj ''event_type'' = VStr ''TRANSACTION.SUCCESS'' \<and>
      decrypt (fld bj ''resource'') = Inr (VObj pay) \<and> fld pay ''trade_state'' = VStr ''SUCCESS'' \<and>
      find (has_order_no (fld pay ''out_trade_no'')) (rows_of st Orders) = Some orow)"
proof -
  have "snd (notify_route e sign_ok decrypt req raw st) = snd (wx_notify e sign_ok decrypt req raw st)"
    by (simp add: notify_route_def split: prod.split sum.split)
  with assms wx_notify_changed obtain pay
    where p: "paid_notice sign_ok decrypt req raw pay"
      "find (has_order_no (fld pay ''out_trade_no'')) (rows_of st Orders) \<noteq> None"
    by metis
  then obtain orow where "find (has_order_no (fld pay ''out_trade_no'')) (rows_of st Orders) = Some orow"
    by blast
  with p(1) show ?thesis
    unfolding paid_notice_def by blast
qed

lemma no_order_without_number:
  assumes "all_conform order_iface rs" "r \<in> set rs"
  shows "\<not> has_order_no VUndef r"
proof -
  obtain s where "fld r ''order_no'' = VStr s"
    using assms order_no_string by (auto simp: all_conform_def)
  then show ?thesis by (simp add: has_order_no_def)
qed

text \<open>C15. The handler looks the order up by \<open>out_trade_no\<close>, the field the payment service sends, but updates
  and logs by \<open>order_no\<close>, which it does not send: such a notification is acknowledged with
  \<open>SUCCESS\<close>, so the service does not repeat it, while every order stays as it was and the change log
  gains an entry without an order number.\<close>

theorem acknowledged_payment_leaves_order_unpaid:
  assumes "paid_notice sign_ok decrypt req raw pay" "fld pay ''order_no'' = VUndef"
    and "find (has_order_no (fld pay ''out_trade_no'')) (rows_of st Orders) = Some orow"
    and "all_conform order_iface (rows_of st Orders)"
  shows "notify_route e sign_ok decrypt req raw st =
      (json_res 200 [(''code'', VStr ''SUCCESS''), (''message'', VStr ''ok'')],
       snd (notify_route e sign_ok decrypt req raw st)) \<and>
    rows_of (snd (notify_route e sign_ok decrypt req raw st)) Orders = rows_of st Orders \<and>
    (\<exists>l. rows_of (snd (notify_route e sign_ok decrypt req raw st)) Order_change_logs =
        rows_of st Order_change_logs @ [l] \<and>
      fld l ''order_no'' = VUndef \<and> fld l ''new_value'' = VStr ''PENDING_FREIGHT'')"
proof -
  have "find (has_order_no VUndef) (rows_of st Orders) = None"
    using no_order_without_number [OF assms(4)] by (auto simp: find_None_iff)
  then have "snd (update_status (iso e) VUndef v x st) = load_data (iso e) st" for v x
    by (simp add: update_status_def find_by_order_no_def)
  with wx_notify_paid [OF assms(1,3), of e] assms(2) show ?thesis
    by (simp add: notify_route_def ok_res_def log_change_rows fld_new_row)
qed

section \<open>Examples\<close>

definition shop_order :: row where
  "shop_order = [(''id'', VNat 1), (''order_no'', VStr ''A1''), (''user_id'', VNum 7),
     (''status'', VStr ''PENDING_PAYMENT''), (''total_amount'', VNum 0)]"

definition one_order :: fs_state where
  "one_order = store_with (\<lambda>t. if t = Orders then [shop_order] else [])"

definition order_request :: request where
  "order_request = \<lparr>headers = (\<lambda>_. None), query = (\<lambda>_. None), params = (\<lambda>_. ''A1''), body = VUndef\<rparr>"

lemma one_order:
  "rows_of one_order Orders = [shop_order]" "rows_of one_order Order_change_logs = []"
  "ids_ok [shop_order] (next_of one_order Orders)" "all_conform order_iface [shop_order]"
  "find (has_order_no (VStr ''A1'')) [shop_order] = Some shop_order"
  by (simp_all add: one_order_def shop_order_def ids_ok_def all_conform_def conforms_def order_iface_def
      field_ok_def has_order_no_def)

lemma shop_order [simp]:
  "params order_request k = ''A1''" "has_order_no (VStr ''A1'') shop_order"
  "fld shop_order ''user_id'' = VNum 7" "fld shop_order ''status'' = VStr ''PENDING_PAYMENT''"
  by (simp_all add: order_request_def shop_order_def has_order_no_def)

theorem others_orders_are_refused_witness:
  "status (fst (with_next (cancel_order (sample_env 0) order_request (VNum 8)) one_order)) = 403"
  using others_orders_are_refused [where req = order_request and st = one_order and orow = shop_order
      and uid = "VNum 8" and h = cancel_order and e = "sample_env 0"]
  by (simp add: one_order)

theorem cancel_only_own_unpaid_orders_witness:
  "map (\<lambda>r. fld r ''status'') (rows_of (snd (cancel_order (sample_env 0) order_request (VNum 7) one_order)) Orders)
     = [VStr ''CANCELLED'']"
proof -
  have m: "may_cancel (VNum 7) shop_order"
    by (simp add: may_cancel_def)
  have "rows_of (snd (cancel_order (sample_env 0) order_request (VNum 7) one_order)) Orders =
      upd_first (has_order_no (VStr ''A1'')) (touched (iso (sample_env 0)) [(''status'', VStr ''CANCELLED'')])
        (rows_of one_order Orders)"
    using cancel_only_own_unpaid_orders [where st = one_order and req = order_request and e = "sample_env 0"
        and uid = "VNum 7"] m
    by (simp add: one_order Let_def)
  then show ?thesis
    by (simp add: one_order m fld_touched)
qed

definition notice_text :: string where
  "notice_text = json_text (VObj [(''event_type'', VStr ''TRANSACTION.SUCCESS''), (''resource'', VObj [])])"

definition notice_pay :: row where
  "notice_pay = [(''trade_state'', VStr ''SUCCESS''), (''out_trade_no'', VStr ''A1'')]"

lemma sample_notice: "paid_notice None (\<lambda>_. Inr (VObj notice_pay)) order_request notice_text notice_pay"
proof -
  have "json_parse notice_text =
      Some (VObj [(''event_type'', VStr ''TRANSACTION.SUCCESS''), (''resource'', VObj [])])"
    by code_simp
  then show ?thesis
    by (simp add: paid_notice_def notice_pay_def)
qed

theorem acknowledged_payment_leaves_order_unpaid_witness:
  "map (\<lambda>r. fld r ''status'') (rows_of (snd (notify_route (sample_env 0) None (\<lambda>_. Inr (VObj notice_pay))
     order_request notice_text one_order)) Orders) = [VStr ''PENDING_PAYMENT'']"
  using acknowledged_payment_leaves_order_unpaid [OF sample_notice, of one_order shop_order "sample_env 0"]
  by (simp add: notice_pay_def one_order)

text \<open>With a readable key, the genuine notification writes a log entry and a forged one changes no order.\<close>

definition signed_notice :: "string \<Rightarrow> request" where
  "signed_notice sig = order_request\<lparr>headers := [''wechatpay-signature'' \<mapsto> sig]\<rparr>"

definition sample_check :: "string \<Rightarrow> string \<Rightarrow> string \<Rightarrow> string \<Rightarrow> bool" where
  "sample_check ts nonce raw sig \<longleftrightarrow> sig = ''good''"

lemma genuine_notice:
  "paid_notice (Some sample_check) (\<lambda>_. Inr (VObj notice_pay)) (signed_notice ''good'') notice_text notice_pay"
  using sample_notice by (simp add: paid_notice_def sample_check_def signed_notice_def str_of_def)

lemma genuine_notice_logged:
  "rows_of (snd (notify_route (sample_env 0) (Some sample_check) (\<lambda>_. Inr (VObj notice_pay)) (signed_notice ''good'')
     notice_text one_order)) Order_change_logs \<noteq> rows_of one_order Order_change_logs"
  using wx_notify_paid [OF genuine_notice, of one_order shop_order "sample_env 0"]
  by (simp add: notice_pay_def one_order notify_route_def ok_res_def log_change_rows)

theorem only_verified_payments_change_rows_witness:
  "sample_check [] [] notice_text ''good'' \<and>
   rows_of (snd (notify_route (sample_env 0) (Some sample_check) (\<lambda>_. Inr (VObj notice_pay)) (signed_notice ''good'')
     notice_text one_order)) Order_change_logs \<noteq> [] \<and>
   rows_of (snd (notify_route (sample_env 0) (Some sample_check) (\<lambda>_. Inr (VObj notice_pay)) (signed_notice ''bad'')
     notice_text one_order)) Orders = [shop_order]"
proof -
  note verified = only_verified_payments_change_rows [where e = "sample_env 0" and sign_ok = "Some sample_check"
      and decrypt = "\<lambda>_. Inr (VObj notice_pay)" and raw = notice_text and st = one_order]
  have "sample_check [] [] notice_text ''good''"
    using verified [OF genuine_notice_logged] by (simp add: signed_notice_def str_of_def)
  moreover have "rows_of (snd (notify_route (sample_env 0) (Some sample_check) (\<lambda>_. Inr (VObj notice_pay))
      (signed_notice ''bad'') notice_text one_order)) Orders = rows_of one_order Orders"
    using verified [where req = "signed_notice ''bad''" and t = Orders]
    by (auto simp: sample_check_def signed_notice_def str_of_def)
  ultimately show ?thesis
    using genuine_notice_logged by (simp add: one_order)
qed

end
