(* ===== verification/Login_Flow.thy ===== *)
theory Login_Flow
  imports Order_Flow
begin

text \<open>
  Logins: the token a login answers with opens the user routes for the user it logged in, the access
  token of the WeChat service is fetched again only when it runs out, and the page a login started
  from survives its cookie.
\<close>

section \<open>Digits read as numbers\<close>

lemma find_ws_None: "\<forall>w\<in>set ws. w \<noteq> [] \<and> hd w \<noteq> c \<Longrightarrow> \<forall>w\<in>set ws. \<not> prefix w (c # s)"
  by (metis hd_Cons_tl hd_append2 list.sel(1) prefix_def append_is_Nil_conv)

lemma ws_not_digit:
  assumes "is_digit c"
  shows "\<forall>w\<in>set js_ws. w \<noteq> [] \<and> hd w \<noteq> c" "\<forall>w\<in>set (map rev js_ws). w \<noteq> [] \<and> hd w \<noteq> c"
  using assms by (auto simp: js_ws_def is_digit_def)

lemma trim_digits:
  assumes "s \<noteq> []" "list_all is_digit s"
  shows "trim s = s"
proof -
  obtain c t where s: "s = c # t" using assms(1) by (cases s) auto
  obtain t' d where r: "rev s = d # t'" using assms(1) by (cases "rev s") auto
  have "is_digit c" using assms(2) s by simp
  then have 1: "trim_start s = s"
    unfolding trim_start_def s by (intro drop_ws_id find_ws_None ws_not_digit)
  have "d \<in> set s" using r by (metis list.set_intros(1) set_rev)
  then have "is_digit d" using assms(2) by (simp add: list_all_iff)
  then have "drop_ws (map rev js_ws) (length s) (rev s) = rev s"
    unfolding r by (intro drop_ws_id find_ws_None ws_not_digit)
  with 1 show ?thesis by (simp add: trim_def trim_end_def)
qed

lemma to_lower_digit: "is_digit c \<Longrightarrow> to_lower_char c = c"
  by (auto simp: to_lower_char_def is_digit_def Let_def)

lemma to_lower_digits: "list_all is_digit s \<Longrightarrow> to_lower s = s"
  by (induction s) (simp_all add: to_lower_def to_lower_digit)

lemma str_to_num_digits:
  assumes "s \<noteq> []" "list_all is_digit s"
  shows "str_to_num s = VNum (of_nat (digits_val s))"
proof -
  have d: "\<forall>c\<in>set s. is_digit c" using assms(2) by (simp add: list_all_iff)
  have low: "to_lower s = s" using assms(2) by (rule to_lower_digits)
  have b: "take 2 s \<noteq> ''0x''" "take 2 s \<noteq> ''0o''" "take 2 s \<noteq> ''0b''"
  proof -
    have "\<forall>c\<in>set (take 2 s). is_digit c" using d by (auto dest: in_set_takeD)
    moreover have "\<not> is_digit CHR ''x''" "\<not> is_digit CHR ''o''" "\<not> is_digit CHR ''b''"
      by (simp_all add: is_digit_def)
    ultimately show "take 2 s \<noteq> ''0x''" "take 2 s \<noteq> ''0o''" "take 2 s \<noteq> ''0b''" by force+
  qed
  have hd: "is_digit (hd s)" using assms(1) d by simp
  then have h: "hd s \<noteq> CHR ''-''" "hd s \<noteq> CHR ''+''" "s \<noteq> ''Infinity''"
    by (auto simp: is_digit_def)
  have tw: "takeWhile is_digit s = s" "dropWhile is_digit s = []"
    using d by (simp_all add: takeWhile_eq_all_conv dropWhile_eq_Nil_conv)
  have "parse_decimal s = Some (of_nat (digits_val s))"
    using assms(1) by (simp add: tw parse_decimal_def parse_exponent_def dec_value_def Let_def)
  with assms(1) trim_digits [OF assms] low b h show ?thesis
    by (simp add: str_to_num_def num_opt_def Let_def)
qed

lemma number_of_id_text: "to_num (VStr (js_to_string (VNat n))) = VNat n"
proof -
  have "js_to_string (VNat n) = nat_to_string n"
    by (simp add: num_text_def is_int_rat_def int_to_string_def)
  moreover have "nat_to_string n \<noteq> []"
    by (subst nat_to_string.simps) simp
  ultimately show ?thesis
    using str_to_num_digits [of "nat_to_string n"] nat_to_string_digits [of n] by simp
qed


section \<open>The token of a login opens the user routes\<close>

lemma mini_login_ok:
  assumes inv: "users_inv st"
    and code: "code_req e (body req) = Inr code"
    and wx: "code2session w g (js_to_string code) = Inr (VObj d)" "fld d ''openid'' = VStr oid"
  shows "\<exists>u n tok. fst (mini_login c w g e req st) = json_res 200 [(''token'', VStr tok),
        (''user'', VObj (copy_fields [''id'', ''nickname'', ''avatar_url'', ''phone''] u))] \<and>
      tok = sign_jwt c e [(''sub'', VStr (js_to_string (VNat n))), (''openid'', VStr oid),
        (''provider'', VStr ''wechat_mini'')] (7 * 24 * 3600) \<and>
      u \<in> set (rows_of (snd (mini_login c w g e req st)) Users) \<and> fld u ''id'' = VNat n \<and> 0 < n"
proof -
  define p where "p = [(''provider'', VStr ''wechat_mini''), (''openid'', VStr oid),
    (''unionid'', fld d ''unionid''), (''session_key'', fld d ''session_key'')]"
  have p: "login_params p" "fld p ''openid'' = VStr oid"
    by (simp_all add: login_params_def p_def)
  have args: "bindE (code_req e (body req)) (\<lambda>code.
      bindE (code2session w g (js_to_string code)) login_fields) = Inr p"
    using wx by (simp add: code login_fields_def p_def)
  obtain u st1 where u: "find_or_create_by_identity (iso e) p st = (Inr u, st1)" "logged_in p u st1"
    using login_post [OF inv p(1), of "iso e"] by (metis prod.collapse)
  then obtain n where n: "u \<in> set (rows_of st1 Users)" "fld u ''id'' = VNat n" "0 < n"
    by (auto simp: logged_in_def users_inv_def ids_ok_def)
  show ?thesis
    using n by (intro exI [of _ u] exI [of _ n])
      (simp add: mini_login_def mini_login_action_def args u(1) p(2) ok_res_def)
qed

lemma token_opens_routes:
  assumes "digest_ok e" "hmac_base64 e' = hmac_base64 e" "0 < n" "to_num (VStr t) = VNat n"
    and "now_sec e' \<le> now_sec e + ttl" "0 < now_sec e + ttl"
    and "\<forall>(k, v) \<in> set extra. json_plain v" "distinct (map fst extra)"
      "set (map fst extra) \<inter> {''iat'', ''exp'', ''sub''} = {}"
  shows "require_user_auth c e' (token_request (sign_jwt c e ((''sub'', VStr t) # extra) ttl))
    = Inr (VNat n)"
proof -
  let ?p = "(''sub'', VStr t) # extra"
  have body: "jwt_body e ?p ttl = [(''iat'', VInt (now_sec e)), (''exp'', VInt (now_sec e + ttl))] @ ?p"
    unfolding jwt_body_def using assms(8,9) by (intro spread_Nil_id) auto
  then have plain: "json_plain (VObj (jwt_body e ?p ttl))"
    using assms(7,8,9) by (auto simp: is_int_rat_def)
  have "verify_jwt c e' (sign_jwt c e ?p ttl) = Some (VObj (jwt_body e ?p ttl))"
    using jwt_reads_back [OF assms(1) plain assms(2), of c] assms(5,6) by (simp add: body Let_def)
  then show ?thesis
    by (rule token_request_user) (use assms(3,4) in \<open>simp_all add: body sign_jwt_nonempty\<close>)
qed

text \<open>A mini program login whose code the service accepts answers 200 with a token and a stored user; until
  seven days later a request with that token passes the user guard, and the guard hands exactly that
  user's id to the routes.\<close>

theorem login_token_identifies_its_user:
  assumes "users_inv st" "code_req e (body req) = Inr code"
    and "code2session w g (js_to_string code) = Inr (VObj d)" "fld d ''openid'' = VStr oid"
    and "digest_ok e" "hmac_base64 e' = hmac_base64 e"
    and "now_sec e' \<le> now_sec e + 604800" "0 < now_sec e"
  shows "\<exists>u tok. fst (mini_login c w g e req st) = json_res 200 [(''token'', VStr tok),
        (''user'', VObj (copy_fields [''id'', ''nickname'', ''avatar_url'', ''phone''] u))] \<and>
      u \<in> set (rows_of (snd (mini_login c w g e req st)) Users) \<and>
      require_user_auth c e' (token_request tok) = Inr (fld u ''id'')"
proof -
  obtain u n tok where r: "fst (mini_login c w g e req st) = json_res 200 [(''token'', VStr tok),
        (''user'', VObj (copy_fields [''id'', ''nickname'', ''avatar_url'', ''phone''] u))]"
    "tok = sign_jwt c e [(''sub'', VStr (js_to_string (VNat n))), (''openid'', VStr oid),
        (''provider'', VStr ''wechat_mini'')] (7 * 24 * 3600)"
    "u \<in> set (rows_of (snd (mini_login c w g e req st)) Users)" "fld u ''id'' = VNat n" "0 < n"
    using mini_login_ok [OF assms(1-4)] by blast
  have "require_user_auth c e' (token_request tok) = Inr (VNat n)"
    unfolding r(2) using assms(5-8) r(5) by (intro token_opens_routes number_of_id_text) auto
  with r show ?thesis by metis
qed


definition sample_wx :: wechat_config where
  "sample_wx = \<lparr>appId = ''a'', mpSecret = ''b'', miniAppId = ''m'', miniAppSecret = ''s'', baseUrl = ''u'',
     node_env = ''production'', apiV3Key = []\<rparr>"

theorem login_token_identifies_its_user_witness:
  "\<exists>u tok. u \<in> set (rows_of (snd (mini_login sample_config sample_wx (\<lambda>_. Inr (VObj [(''openid'', VStr ''o'')]))
        (sample_env 1000) (order_request\<lparr>body := VObj [(''code'', VStr ''c'')]\<rparr>) (store_with (\<lambda>_. [])))) Users) \<and>
      require_user_auth sample_config (sample_env 604000) (token_request tok) = Inr (fld u ''id'')"
proof -
  let ?req = "order_request\<lparr>body := VObj [(''code'', VStr ''c'')]\<rparr>"
  let ?g = "\<lambda>_::string. Inr (VObj [(''openid'', VStr ''o'')]) :: js_error + val"
  have 1: "users_inv (store_with (\<lambda>_. []))"
    by (simp add: users_inv_def ids_ok_def)
  have 2: "code_req (sample_env 1000) (body ?req) = Inr (VStr ''c'')"
    by (simp add: code_req_def)
  have 3: "code2session sample_wx ?g (js_to_string (VStr ''c'')) = Inr (VObj [(''openid'', VStr ''o'')])"
    by (simp add: code2session_def sample_wx_def)
  have 4: "fld [(''openid'', VStr ''o'')] ''openid'' = VStr ''o''"
    by simp
  have 5: "hmac_base64 (sample_env 604000) = hmac_base64 (sample_env 1000)"
    "now_sec (sample_env 604000) \<le> now_sec (sample_env 1000) + 604800" "0 < now_sec (sample_env 1000)"
    by (simp_all add: sample_env_def)
  show ?thesis
    using login_token_identifies_its_user [OF 1 2 3 4 sample_digest_ok 5, of sample_config] by blast
qed

section \<open>The access token is reused until shortly before it expires\<close>

definition token_answer :: "http_client \<Rightarrow> wechat_config \<Rightarrow> string \<Rightarrow> rat \<Rightarrow> bool" where
  "token_answer g w t x \<longleftrightarrow> (\<exists>r. g (''https://api.weixin.qq.com/cgi-bin/token?grant_type=client_credential&appid='' @
      uri_encode (appId w) @ ''&secret='' @ uri_encode (mpSecret w)) = Inr (VObj r) \<and>
     fld r ''access_token'' = VStr t \<and> fld r ''expires_in'' = VNum x \<and> x \<noteq> 0)"

text \<open>When no fresh token is cached and the service answers with a token valid for \<open>x\<close> seconds, the token
  is cached, and every later call answers it without asking the service, exactly until \<open>x - 120\<close>
  seconds after it was fetched; then it is fetched again.  A failing call leaves the cache alone.\<close>

theorem access_token_reused_until_expiry:
  assumes "appId w \<noteq> []" "mpSecret w \<noteq> []" "token_answer g w t x" "t \<noteq> []"
    and "fresh_entry e (access_token c) = None"
  shows "\<exists>c'. get_access_token w g e c = (Inr t, c') \<and>
    (\<forall>g' e'. get_access_token w g' e' c' =
       (if of_int (now_ms e') < of_int (now_ms e) + (x - 120) * 1000 then (Inr t, c')
        else fetch_access_token w g' e' c')) \<and>
    (\<forall>g' e' err. fst (get_access_token w g' e' c) = Inl err \<longrightarrow> snd (get_access_token w g' e' c) = c)"
proof -
  let ?c = "c\<lparr>access_token := Some (t, VNum (of_int (now_ms e) + (x - 120) * 1000))\<rparr>"
  obtain r where r: "g (''https://api.weixin.qq.com/cgi-bin/token?grant_type=client_credential&appid='' @
      uri_encode (appId w) @ ''&secret='' @ uri_encode (mpSecret w)) = Inr (VObj r)"
    "fld r ''access_token'' = VStr t" "fld r ''expires_in'' = VNum x" "x \<noteq> 0"
    using assms(3) by (auto simp: token_answer_def)
  have e: "expiry_of e (VNum x) = VNum (of_int (now_ms e) + (x - 120) * 1000)"
    using r(4) by (simp add: expiry_of_def js_or_def)
  have "get_access_token w g e c = (Inr t, ?c)"
    using assms(1,2,4,5) r(1-3) by (simp add: get_access_token_def fetch_access_token_def e)
  moreover have "get_access_token w g' e' ?c = (if of_int (now_ms e') < of_int (now_ms e) + (x - 120) * 1000
      then (Inr t, ?c) else fetch_access_token w g' e' ?c)" for g' e'
    by (simp add: get_access_token_def fresh_entry_def)
  moreover have "snd (get_access_token w g' e' c) = c" if "fst (get_access_token w g' e' c) = Inl err" for g' e' err
    using that by (auto simp: get_access_token_def fetch_access_token_def split: if_splits option.splits sum.splits)
  ultimately show ?thesis by blast
qed

theorem access_token_reused_until_expiry_witness:
  "\<exists>c'. get_access_token sample_wx (\<lambda>_. Inl TypeError) (sample_env 5000) c' = (Inr ''T'', c')"
proof -
  let ?g = "\<lambda>_::string. Inr (VObj [(''access_token'', VStr ''T''), (''expires_in'', VNum 7200)]) :: js_error + val"
  have "token_answer ?g sample_wx ''T'' 7200"
    by (simp add: token_answer_def)
  from access_token_reused_until_expiry [OF _ _ this, of "sample_env 0" "\<lparr>access_token = None, jsapi_ticket = None\<rparr>"]
  obtain c' where "get_access_token sample_wx (\<lambda>_. Inl TypeError) (sample_env 5000) c' =
      (if of_int (now_ms (sample_env 5000)) < of_int (now_ms (sample_env 0)) + (7200 - 120) * (1000::rat)
       then (Inr ''T'', c') else fetch_access_token sample_wx (\<lambda>_. Inl TypeError) (sample_env 5000) c')"
    by (auto simp: sample_wx_def fresh_entry_def)
  then show ?thesis by (auto simp: sample_env_def)
qed

section \<open>The page a login returns to\<close>

definition ascii :: "string \<Rightarrow> bool" where
  "ascii s \<longleftrightarrow> (\<forall>c\<in>set s. of_char c < (128::nat))"

lemma upper_hex_code: "n < 16 \<Longrightarrow> of_char (upper_hex n) = (if n < 10 then 48 + n else 55 + n :: nat)"
  by (simp add: upper_hex_def)

lemma hex_val_upper: "n < 16 \<Longrightarrow> hex_val (upper_hex n) = Some n"
  by (auto simp: hex_val_def radix_digit_def is_digit_def upper_hex_code Let_def)

lemma escape_char_ascii:
  assumes "of_char c < (128::nat)"
  shows "escape_char (CHR ''%'' # upper_hex (of_char c div 16) # upper_hex (of_char c mod 16) # s) = Some ([c], s)"
proof -
  have "16 * (of_char c div 16) + of_char c mod 16 = (of_char c :: nat)"
    by simp
  moreover have "(of_char c :: nat) div 16 < 16" "(of_char c :: nat) mod 16 < 16"
    using assms by simp_all
  ultimately have "escape_byte (CHR ''%'' # upper_hex (of_char c div 16) # upper_hex (of_char c mod 16) # s)
      = Some (of_char c, s)"
    by (simp add: escape_byte_def hex_val_upper)
  with assms show ?thesis
    by (simp add: escape_char_def utf8_tail_len_def)
qed

lemma not_plain: "\<not> uri_plain CHR ''%''" "\<not> uri_plain CHR '';''"
  by (simp_all add: uri_plain_def is_digit_def Let_def)

lemma uri_encode_simps:
  "uri_encode [] = []"
  "uri_encode (c # s) = (if uri_plain c then [c]
     else [CHR ''%'', upper_hex (of_char c div 16), upper_hex (of_char c mod 16)]) @ uri_encode s"
  by (simp_all add: uri_encode_def)

lemma uri_decode_encode: "ascii v \<Longrightarrow> length (uri_encode v) \<le> n \<Longrightarrow> uri_decode n (uri_encode v) = Some v"
proof (induction v arbitrary: n)
  case Nil
  then show ?case by (cases n) (simp_all add: uri_encode_simps)
next
  case (Cons c v)
  then obtain m where n: "n = Suc m"
    by (cases n) (auto simp: uri_encode_simps split: if_splits)
  have c: "of_char c < (128::nat)" "ascii v"
    using Cons.prems(1) by (simp_all add: ascii_def)
  have "length (uri_encode v) \<le> m"
    using Cons.prems(2) by (simp add: uri_encode_simps n split: if_splits)
  then have "uri_decode m (uri_encode v) = Some v"
    using c(2) by (intro Cons.IH)
  moreover have "c \<noteq> CHR ''%''" if "uri_plain c"
    using that not_plain by auto
  ultimately show ?case
    using escape_char_ascii [OF c(1)] by (simp add: uri_encode_simps n)
qed

lemma upper_hex_no_semicolon: "n < 16 \<Longrightarrow> upper_hex n \<noteq> CHR '';''"
  by (rule char_neq) (simp add: upper_hex_code)

lemma uri_encode_no_semicolon: "CHR '';'' \<notin> set (uri_encode v)"
proof (induction v)
  case (Cons c v)
  have "(of_char c :: nat) div 16 < 16" "(of_char c :: nat) mod 16 < 16"
    using bytes_less [of "[c]"] by (simp_all add: bytes_def less_mult_imp_div_less)
  then have "CHR '';'' \<noteq> upper_hex (of_char c div 16)" "CHR '';'' \<noteq> upper_hex (of_char c mod 16)"
    by (simp_all only: upper_hex_no_semicolon [THEN not_sym] not_False_eq_True)
  then show ?case
    using Cons not_plain by (auto simp: uri_encode_simps)
qed (simp add: uri_encode_simps)

lemma cookie_reads_back:
  assumes "ascii v" "v \<noteq> []" "rest = [] \<or> hd rest = CHR '';''"
  shows "cookie_value k (k @ ''='' @ uri_encode v @ rest) = Inr (Some v)"
proof -
  have "takeWhile (\<lambda>c. c \<noteq> CHR '';'') (uri_encode v @ rest) = uri_encode v"
    using uri_encode_no_semicolon [of v] assms(3)
    by (cases rest) (auto simp: takeWhile_append)
  moreover have "uri_encode v \<noteq> []"
    using assms(2) by (cases v) (auto simp: uri_encode_simps)
  ultimately have "cookie_match k (k @ ''='' @ uri_encode v @ rest) = Some (uri_encode v)"
    by (simp add: cookie_match_def cookie_at_def Let_def)
  then show ?thesis
    using uri_decode_encode [OF assms(1)] by (simp add: cookie_value_def)
qed

text \<open>The page given as \<open>redirect\<close> when an OAuth login starts (ASCII text, percent-encoded into a cookie) is
  the page the callback redirects to, when the browser sends the cookie back and the service names
  the user; the callback sets the token cookie.\<close>

theorem oauth_returns_to_the_start_page:
  assumes "query start ''redirect'' = Some p" "p \<noteq> []" "ascii p"
    and "headers req ''cookie'' = Some (''oauth_redirect='' @ uri_encode p @ rest)"
      "rest = [] \<or> hd rest = CHR '';''"
    and "str_truthy (query req ''code'')"
    and "\<And>url. g url = Inr (VObj r)" "truthy (fld r ''openid'')"
  shows "\<exists>attrs user. snd (oauth_start w start) = [''oauth_redirect='' @ uri_encode p @ attrs] \<and>
    fst (oauth_callback c w g e req st) =
      (Redirect p,
       [cookie_text w ''jwt'' (sign_jwt c e [(''sub'', VStr (js_to_string (fld user ''id''))),
          (''openid'', fld r ''openid'')] 3600) (7 * 24 * 3600),
        cookie_text w ''oauth_redirect'' [] (- 1)])"
proof -
  have "\<exists>attrs. cookie_text w ''oauth_redirect'' p 600 = ''oauth_redirect='' @ uri_encode p @ attrs"
    by (simp add: cookie_text_def)
  moreover have "cookie_value ''oauth_redirect'' (str_of (headers req ''cookie'')) = Inr (Some p)"
    using cookie_reads_back [OF assms(3,2,5), of "''oauth_redirect''"] assms(4) by (simp add: str_of_def)
  ultimately show ?thesis
    using assms(1,2,6-8)
    by (auto simp: oauth_start_def oauth_callback_def query_or_def str_truthy_def str_of_def Let_def
        split: prod.split)
qed

definition start_request :: request where
  "start_request = \<lparr>headers = (\<lambda>_. None), query = (\<lambda>_. Some ''/h5/pay''), params = (\<lambda>_. []), body = VUndef\<rparr>"
definition back_request :: request where
  "back_request = \<lparr>headers = (\<lambda>k. if k = ''cookie'' then Some (''oauth_redirect='' @ uri_encode ''/h5/pay'' @ []) else None),
     query = (\<lambda>_. Some ''c''), params = (\<lambda>_. []), body = VUndef\<rparr>"

theorem oauth_returns_to_the_start_page_witness:
  "\<exists>cs. fst (oauth_callback sample_config sample_wx (\<lambda>_. Inr (VObj [(''openid'', VStr ''o'')])) (sample_env 0)
      back_request (store_with (\<lambda>_. []))) = (Redirect ''/h5/pay'', cs)"
proof -
  have q: "query start_request ''redirect'' = Some ''/h5/pay''"
    by (simp add: start_request_def)
  have a: "ascii ''/h5/pay''"
    by (simp add: ascii_def)
  have c: "str_truthy (query back_request ''code'')"
    by (simp add: str_truthy_def back_request_def)
  have h: "headers back_request ''cookie'' = Some (''oauth_redirect='' @ uri_encode ''/h5/pay'' @ [])"
    by (simp add: back_request_def)
  have t: "truthy (fld [(''openid'', VStr ''o'')] ''openid'')"
    by simp
  show ?thesis
    using oauth_returns_to_the_start_page [OF q _ a h _ c _ t, where g = "\<lambda>_. Inr (VObj [(''openid'', VStr ''o'')])"
        and w = sample_wx and c = sample_config and e = "sample_env 0" and st = "store_with (\<lambda>_. [])"]
    by fastforce
qed

end
