(* ===== verification/FL_Store.thy ===== *)
theory FL_Store
  imports JS_Lists Messages
begin

text \<open>
  The welfare code service, a separate program (\<^verbatim>\<open>src/FLcode\<close>): its SQLite tables and the operations of
  \<^verbatim>\<open>src/FLcode/src/db.ts\<close>.  The state of the database is the table \<open>fl_codes\<close> in the order of its ids, the
  largest id that AUTOINCREMENT ever handed out, and the table \<open>fl_config\<close> as its keys and values in the
  order of their row ids, which is the order in which the table is read.
  Each prepared statement is translated from its SQL text; the constraint \<open>UNIQUE\<close> on \<open>phone\<close> is a branch of
  the statements that write it.  \<open>CURRENT_TIMESTAMP\<close> is the argument \<open>now\<close>.
\<close>

section \<open>Tables\<close>

record fl_code =
  fc_id :: nat
  fc_phone :: string
  fc_code :: string
  fc_note :: "string option"
  fc_created :: string
  fc_updated :: string

record fl_db =
  fl_codes :: "fl_code list"
  fl_seq :: nat
  fl_config :: "(string \<times> string) list"

definition default_configs :: "(string \<times> string) list" where
  "default_configs =
     [(''success_msg'', fl_success_msg), (''fail_msg'', fl_fail_msg), (''usage_tip'', fl_usage_tip),
      (''admin_password'', ''admin123''), (''page_title'', fl_page_title)]"

text \<open>\<open>INSERT OR IGNORE\<close>: an existing value stays.\<close>

definition insert_or_ignore :: "(string \<times> string) list \<Rightarrow> string \<times> string \<Rightarrow> (string \<times> string) list" where
  "insert_or_ignore cs kv = (case map_of cs (fst kv) of None \<Rightarrow> cs @ [kv] | Some _ \<Rightarrow> cs)"

text \<open>The state a file without tables has, and \<open>initDB\<close> on it or on what an earlier run left.\<close>

definition no_tables :: fl_db where
  "no_tables = \<lparr>fl_codes = [], fl_seq = 0, fl_config = []\<rparr>"

definition init_db :: "fl_db \<Rightarrow> fl_db" where
  "init_db db = db\<lparr>fl_config := foldl insert_or_ignore (fl_config db) default_configs\<rparr>"

section \<open>Reading codes\<close>

definition get_code_by_phone :: "string \<Rightarrow> fl_db \<Rightarrow> fl_code option" where
  "get_code_by_phone p db = find (\<lambda>r. fc_phone r = p) (fl_codes db)"

text \<open>\<open>LIMIT l OFFSET o\<close>: a negative limit is no limit, a negative offset is none.\<close>

definition sql_page :: "int \<Rightarrow> int \<Rightarrow> 'a list \<Rightarrow> 'a list" where
  "sql_page l off xs = (let ys = drop (nat off) xs in if l < 0 then ys else take (nat l) ys)"

definition get_all_codes :: "int \<Rightarrow> int \<Rightarrow> fl_db \<Rightarrow> fl_code list \<times> nat" where
  "get_all_codes page page_size db =
     (sql_page page_size ((page - 1) * page_size) (rev (fl_codes db)), length (fl_codes db))"

text \<open>\<open>LIKE\<close> without an escape: \<open>%\<close> is any text, \<open>_\<close> one character (a UTF-8 sequence), letters of ASCII
  match in either case.\<close>

definition utf8_tail :: "char \<Rightarrow> bool" where
  "utf8_tail c \<longleftrightarrow> of_char c div 64 = (2::nat)"

fun sql_like :: "string \<Rightarrow> string \<Rightarrow> bool" where
  "sql_like [] s = (s = [])"
| "sql_like (p # ps) [] = (p = CHR ''%'' \<and> sql_like ps [])"
| "sql_like (p # ps) (c # s) =
     (if p = CHR ''%'' then sql_like ps (c # s) \<or> sql_like (p # ps) s
      else if p = CHR ''_'' then sql_like ps (dropWhile utf8_tail s)
      else to_lower_char p = to_lower_char c \<and> sql_like ps s)"

definition code_like :: "string \<Rightarrow> fl_code \<Rightarrow> bool" where
  "code_like keyword r =
     (let l = ''%'' @ keyword @ ''%'' in
      sql_like l (fc_phone r) \<or> sql_like l (fc_code r) \<or> (case fc_note r of None \<Rightarrow> False | Some n \<Rightarrow> sql_like l n))"

definition search_codes :: "string \<Rightarrow> int \<Rightarrow> int \<Rightarrow> fl_db \<Rightarrow> fl_code list \<times> nat" where
  "search_codes keyword page page_size db =
     (let hits = filter (code_like keyword) (fl_codes db)
      in (sql_page page_size ((page - 1) * page_size) (rev hits), length hits))"

section \<open>Writing codes\<close>

datatype sql_error = UniqueViolation

definition null_if_empty :: "string option \<Rightarrow> string option" where
  "null_if_empty n = (case n of Some [] \<Rightarrow> None | _ \<Rightarrow> n)"

text \<open>\<open>INSERT INTO fl_codes (phone, code, note) VALUES (?, ?, ?)\<close>: the new id, or the violated constraint, in
  which case the statement has no effect.\<close>

definition insert_code ::
  "string \<Rightarrow> string \<Rightarrow> string \<Rightarrow> string option \<Rightarrow> fl_db \<Rightarrow> (sql_error + nat) \<times> fl_db" where
  "insert_code now p c n db =
     (if \<exists>r\<in>set (fl_codes db). fc_phone r = p then (Inl UniqueViolation, db)
      else (let i = Suc (fl_seq db)
            in (Inr i, db\<lparr>fl_codes := fl_codes db @ [\<lparr>fc_id = i, fc_phone = p, fc_code = c, fc_note = null_if_empty n,
                   fc_created = now, fc_updated = now\<rparr>], fl_seq := i\<rparr>)))"

text \<open>The answer of an operation: success or not, a message.\<close>

record fl_result =
  r_success :: bool
  r_message :: string
  new_id :: "nat option"

definition add_code ::
  "string \<Rightarrow> string \<Rightarrow> string \<Rightarrow> string option \<Rightarrow> fl_db \<Rightarrow> fl_result \<times> fl_db" where
  "add_code now p c n db =
     (case insert_code now p c n db of
        (Inr i, db1) \<Rightarrow> (\<lparr>r_success = True, r_message = fl_added, new_id = Some i\<rparr>, db1)
      | (Inl UniqueViolation, db1) \<Rightarrow> (\<lparr>r_success = False, r_message = fl_phone_exists, new_id = None\<rparr>, db1))"

record fl_batch =
  b_success :: nat
  b_failed :: nat
  b_errors :: "string list"

fun add_codes :: "string \<Rightarrow> (string \<times> string \<times> string option) list \<Rightarrow> fl_batch \<Rightarrow> fl_db \<Rightarrow> fl_batch \<times> fl_db" where
  "add_codes now [] b db = (b, db)"
| "add_codes now ((p, c, n) # cs) b db =
     (case insert_code now p c n db of
        (Inr i, db1) \<Rightarrow> add_codes now cs (b\<lparr>b_success := b_success b + 1\<rparr>) db1
      | (Inl UniqueViolation, db1) \<Rightarrow>
          add_codes now cs (b\<lparr>b_failed := b_failed b + 1,
            b_errors := b_errors b @ [fl_phone_pre @ p @ fl_exists_post]\<rparr>) db1)"

definition add_codes_batch :: "string \<Rightarrow> (string \<times> string \<times> string option) list \<Rightarrow> fl_db \<Rightarrow> fl_batch \<times> fl_db" where
  "add_codes_batch now cs db = add_codes now cs \<lparr>b_success = 0, b_failed = 0, b_errors = []\<rparr> db"

text \<open>\<open>UPDATE ... WHERE id = ?\<close>: the constraint is violated when another row has the phone; an id that no
  row has changes nothing and violates nothing.\<close>

definition update_code ::
  "string \<Rightarrow> nat \<Rightarrow> string \<Rightarrow> string \<Rightarrow> string option \<Rightarrow> fl_db \<Rightarrow> fl_result \<times> fl_db" where
  "update_code now i p c n db =
     (if \<forall>r\<in>set (fl_codes db). fc_id r \<noteq> i then (\<lparr>r_success = False, r_message = fl_no_record, new_id = None\<rparr>, db)
      else if \<exists>r\<in>set (fl_codes db). fc_id r \<noteq> i \<and> fc_phone r = p
      then (\<lparr>r_success = False, r_message = fl_phone_exists, new_id = None\<rparr>, db)
      else (\<lparr>r_success = True, r_message = fl_updated, new_id = None\<rparr>,
            db\<lparr>fl_codes := map (\<lambda>r. if fc_id r = i
                then r\<lparr>fc_phone := p, fc_code := c, fc_note := null_if_empty n, fc_updated := now\<rparr> else r) (fl_codes db)\<rparr>))"

definition delete_code :: "nat \<Rightarrow> fl_db \<Rightarrow> fl_result \<times> fl_db" where
  "delete_code i db =
     (if \<forall>r\<in>set (fl_codes db). fc_id r \<noteq> i then (\<lparr>r_success = False, r_message = fl_no_record, new_id = None\<rparr>, db)
      else (\<lparr>r_success = True, r_message = fl_deleted, new_id = None\<rparr>,
            db\<lparr>fl_codes := filter (\<lambda>r. fc_id r \<noteq> i) (fl_codes db)\<rparr>))"

definition clear_all_codes :: "fl_db \<Rightarrow> fl_result \<times> fl_db" where
  "clear_all_codes db = (\<lparr>r_success = True, r_message = fl_cleared, new_id = None\<rparr>, db\<lparr>fl_codes := []\<rparr>)"

section \<open>Configuration\<close>

definition get_config :: "string \<Rightarrow> fl_db \<Rightarrow> string option" where
  "get_config k db = map_of (fl_config db) k"

definition get_all_config :: "fl_db \<Rightarrow> row" where
  "get_all_config db = foldl (\<lambda>c kv. spread c [(fst kv, VStr (snd kv))]) [] (fl_config db)"

text \<open>\<open>INSERT OR REPLACE\<close>: a row with the key is deleted, the new row gets the next row id.\<close>

definition set_config :: "string \<Rightarrow> string \<Rightarrow> fl_db \<Rightarrow> fl_db" where
  "set_config k v db = db\<lparr>fl_config := filter (\<lambda>kv. fst kv \<noteq> k) (fl_config db) @ [(k, v)]\<rparr>"

definition set_configs :: "(string \<times> string) list \<Rightarrow> fl_db \<Rightarrow> fl_db" where
  "set_configs kvs db = foldl (\<lambda>d (k, v). set_config k v d) db kvs"

section \<open>The invariant of the table\<close>

text \<open>Phones are unique, ids ascend and never exceed the largest id handed out.\<close>

definition fl_inv :: "fl_db \<Rightarrow> bool" where
  "fl_inv db \<longleftrightarrow> distinct (map fc_phone (fl_codes db)) \<and> sorted_wrt (<) (map fc_id (fl_codes db)) \<and>
     (\<forall>r\<in>set (fl_codes db). 1 \<le> fc_id r \<and> fc_id r \<le> fl_seq db)"

lemma insert_code_inv: "fl_inv db \<Longrightarrow> fl_inv (snd (insert_code now p c n db))"
  by (fastforce simp: fl_inv_def insert_code_def Let_def sorted_wrt_append)

lemma add_code_snd: "snd (add_code now p c n db) = snd (insert_code now p c n db)"
  by (simp add: add_code_def split: prod.split sum.split sql_error.split)

lemma add_codes_inv: "fl_inv db \<Longrightarrow> fl_inv (snd (add_codes now cs b db))"
proof (induction now cs b db rule: add_codes.induct)
  case (2 now p c n cs b db)
  show ?case
  proof (cases "insert_code now p c n db")
    case (Pair x db1)
    then have "fl_inv db1" using insert_code_inv [OF 2(3), of now p c n] by simp
    with 2 Pair show ?thesis
      by (auto split: sum.split sql_error.split)
  qed
qed simp

lemma fc_ids_distinct: "fl_inv db \<Longrightarrow> distinct (map fc_id (fl_codes db))"
  unfolding fl_inv_def by (simp add: strict_sorted_iff)

lemma update_code_inv:
  assumes inv: "fl_inv db"
  shows "fl_inv (snd (update_code now i p c n db))"
proof (cases "(\<forall>r\<in>set (fl_codes db). fc_id r \<noteq> i) \<or> (\<exists>r\<in>set (fl_codes db). fc_id r \<noteq> i \<and> fc_phone r = p)")
  case True
  with inv show ?thesis by (auto simp: update_code_def)
next
  case False
  let ?f = "\<lambda>r. if fc_id r = i then r\<lparr>fc_phone := p, fc_code := c, fc_note := null_if_empty n, fc_updated := now\<rparr> else r"
  have ids: "map (fc_id \<circ> ?f) (fl_codes db) = map fc_id (fl_codes db)"
    by simp
  have bounds: "\<forall>r\<in>set (map ?f (fl_codes db)). 1 \<le> fc_id r \<and> fc_id r \<le> fl_seq db"
    using inv by (auto simp: fl_inv_def)
  have upd: "distinct (map fc_phone (map ?f rs))" if "distinct (map fc_id rs)" "distinct (map fc_phone rs)"
      "\<forall>r\<in>set rs. fc_id r \<noteq> i \<longrightarrow> fc_phone r \<noteq> p" for rs
    using that by (induction rs) (auto simp: image_iff split: if_splits)
  have "distinct (map fc_phone (map ?f (fl_codes db)))"
    by (rule upd) (use inv fc_ids_distinct [OF inv] False in \<open>auto simp: fl_inv_def\<close>)
  moreover have "snd (update_code now i p c n db) = db\<lparr>fl_codes := map ?f (fl_codes db)\<rparr>"
    using False by (auto simp: update_code_def)
  ultimately show ?thesis
    using inv bounds by (simp add: fl_inv_def ids del: list.set_map)
qed

lemma delete_code_inv: "fl_inv db \<Longrightarrow> fl_inv (snd (delete_code i db))"
  by (auto simp: fl_inv_def delete_code_def distinct_map_filter sorted_wrt_map sorted_wrt_filter)

lemma clear_all_inv: "fl_inv db \<Longrightarrow> fl_inv (snd (clear_all_codes db))"
  by (simp add: fl_inv_def clear_all_codes_def)

lemma config_inv [simp]: "fl_inv (set_config k v db) = fl_inv db" "fl_inv (init_db db) = fl_inv db"
  by (simp_all add: fl_inv_def set_config_def init_db_def)

lemma set_configs_codes [simp]: "fl_codes (set_configs kvs db) = fl_codes db \<and> fl_seq (set_configs kvs db) = fl_seq db"
  by (induction kvs arbitrary: db) (auto simp: set_configs_def set_config_def)

lemma set_configs_inv [simp]: "fl_inv (set_configs kvs db) = fl_inv db"
  by (simp add: fl_inv_def)

lemma get_set_config: "get_config k (set_config k' v db) = (if k = k' then Some v else get_config k db)"
proof -
  have "map_of (filter (\<lambda>kv. fst kv \<noteq> k') cs) k = (if k = k' then None else map_of cs k)" for cs :: "(string \<times> string) list"
    by (induction cs) auto
  then show ?thesis by (auto simp: get_config_def set_config_def map_add_def split: option.split)
qed

lemma get_set_configs: "get_config k (set_configs kvs db) = (case map_of (rev kvs) k of Some v \<Rightarrow> Some v | None \<Rightarrow> get_config k db)"
proof (induction kvs rule: rev_induct)
  case (snoc kv kvs)
  have "set_configs (kvs @ [kv]) db = set_config (fst kv) (snd kv) (set_configs kvs db)"
    by (simp add: set_configs_def case_prod_beta)
  with snoc show ?case by (auto simp: get_set_config)
qed (simp add: set_configs_def)

lemma no_tables_inv [simp]: "fl_inv no_tables"
  by (simp add: fl_inv_def no_tables_def)

section \<open>Adding codes\<close>

lemma insert_code_found:
  "get_code_by_phone q (snd (insert_code now p c n db)) =
     (case get_code_by_phone q db of
        Some r \<Rightarrow> Some r
      | None \<Rightarrow> if q = p then Some \<lparr>fc_id = Suc (fl_seq db), fc_phone = p, fc_code = c, fc_note = null_if_empty n,
                                    fc_created = now, fc_updated = now\<rparr> else None)"
proof -
  have f: "find P (xs @ [y]) = (case find P xs of Some r \<Rightarrow> Some r | None \<Rightarrow> if P y then Some y else None)"
    for P :: "fl_code \<Rightarrow> bool" and xs y
    by (induction xs) auto
  show ?thesis
  proof (cases "\<exists>r\<in>set (fl_codes db). fc_phone r = p")
    case True
    then have "find (\<lambda>r. fc_phone r = p) (fl_codes db) \<noteq> None"
      by (auto simp: find_None_iff)
    with True show ?thesis
      by (auto simp: get_code_by_phone_def insert_code_def split: option.split)
  next
    case False
    then show ?thesis
      by (auto simp: get_code_by_phone_def insert_code_def Let_def f split: option.split)
  qed
qed

text \<open>The code a phone has after a batch: the stored one, else the first of the batch.\<close>

lemma add_codes_found:
  "map_option (\<lambda>r. (fc_code r, fc_note r)) (get_code_by_phone q (snd (add_codes now cs b db))) =
     (case get_code_by_phone q db of
        Some r \<Rightarrow> Some (fc_code r, fc_note r)
      | None \<Rightarrow> map_option (\<lambda>(p, c, n). (c, null_if_empty n)) (find (\<lambda>(p, c, n). p = q) cs))"
proof (induction now cs b db rule: add_codes.induct)
  case (2 now p c n cs b db)
  obtain x db1 where i: "insert_code now p c n db = (x, db1)"
    by (cases "insert_code now p c n db")
  have "get_code_by_phone q db1 = (case get_code_by_phone q db of Some r \<Rightarrow> Some r
      | None \<Rightarrow> if q = p then Some \<lparr>fc_id = Suc (fl_seq db), fc_phone = p, fc_code = c, fc_note = null_if_empty n,
                                    fc_created = now, fc_updated = now\<rparr> else None)"
    using insert_code_found [of q now p c n db] by (simp add: i)
  then show ?case
    using 2 [OF i [symmetric]] by (auto simp: i split: sum.split sql_error.split option.splits)
qed (auto split: option.split)

lemma add_codes_counts:
  "b_success (fst (add_codes now cs b db)) + b_failed (fst (add_codes now cs b db)) = b_success b + b_failed b + length cs"
  "length (fl_codes (snd (add_codes now cs b db))) + b_success b
     = length (fl_codes db) + b_success (fst (add_codes now cs b db))"
  "length (b_errors (fst (add_codes now cs b db))) + b_failed b = length (b_errors b) + b_failed (fst (add_codes now cs b db))"
proof -
  have "b_success (fst (add_codes now cs b db)) + b_failed (fst (add_codes now cs b db)) = b_success b + b_failed b + length cs \<and>
    length (fl_codes (snd (add_codes now cs b db))) + b_success b
      = length (fl_codes db) + b_success (fst (add_codes now cs b db)) \<and>
    length (b_errors (fst (add_codes now cs b db))) + b_failed b = length (b_errors b) + b_failed (fst (add_codes now cs b db))"
  proof (induction cs arbitrary: b db)
    case (Cons x cs)
    obtain p c n where x: "x = (p, c, n)" by (cases x)
    show ?case
    proof (cases "\<exists>r\<in>set (fl_codes db). fc_phone r = p")
      case True
      then have "insert_code now p c n db = (Inl UniqueViolation, db)"
        by (simp add: insert_code_def)
      with Cons.IH [of "b\<lparr>b_failed := Suc (b_failed b), b_errors := b_errors b @ [fl_phone_pre @ p @ fl_exists_post]\<rparr>" db] x
      show ?thesis by simp
    next
      case False
      then obtain k db1 where "insert_code now p c n db = (Inr k, db1)"
        "length (fl_codes db1) = Suc (length (fl_codes db))"
        by (auto simp: insert_code_def Let_def)
      with Cons.IH [of "b\<lparr>b_success := Suc (b_success b)\<rparr>" db1] x show ?thesis by simp
    qed
  qed simp
  then show "b_success (fst (add_codes now cs b db)) + b_failed (fst (add_codes now cs b db)) = b_success b + b_failed b + length cs"
    "length (fl_codes (snd (add_codes now cs b db))) + b_success b
      = length (fl_codes db) + b_success (fst (add_codes now cs b db))"
    "length (b_errors (fst (add_codes now cs b db))) + b_failed b = length (b_errors b) + b_failed (fst (add_codes now cs b db))"
    by simp_all
qed

section \<open>Searching\<close>

text \<open>A keyword without wildcards is searched as a part of the text, letters of ASCII in either case.\<close>

definition plain :: "string \<Rightarrow> bool" where
  "plain kw \<longleftrightarrow> CHR ''%'' \<notin> set kw \<and> CHR ''_'' \<notin> set kw"

lemma sql_like_percent: "sql_like [CHR ''%''] s"
  by (induction s) auto

lemma sql_like_prefix:
  "plain kw \<Longrightarrow> sql_like (kw @ [CHR ''%'']) s \<longleftrightarrow> map to_lower_char kw = map to_lower_char (take (length kw) s)"
proof (induction kw arbitrary: s)
  case (Cons k kw)
  then show ?case by (cases s) (auto simp: plain_def)
qed (simp add: sql_like_percent)

lemma ex_le_Suc: "(\<exists>i\<le>Suc n. P i) \<longleftrightarrow> P 0 \<or> (\<exists>i\<le>n. P (Suc i))"
  by (metis Suc_le_mono le0 not0_implies_Suc)

lemma sql_like_substring:
  assumes "plain kw"
  shows "sql_like (CHR ''%'' # kw @ [CHR ''%'']) s \<longleftrightarrow>
     (\<exists>i\<le>length s. map to_lower_char (take (length kw) (drop i s)) = map to_lower_char kw)"
proof (induction s)
  case Nil
  then show ?case by (auto simp: sql_like_prefix [OF assms])
next
  case (Cons c s)
  have "sql_like (CHR ''%'' # kw @ [CHR ''%'']) (c # s) \<longleftrightarrow>
      sql_like (kw @ [CHR ''%'']) (c # s) \<or> sql_like (CHR ''%'' # kw @ [CHR ''%'']) s"
    by simp
  also have "\<dots> \<longleftrightarrow> (\<exists>i\<le>length (c # s). map to_lower_char (take (length kw) (drop i (c # s))) = map to_lower_char kw)"
    unfolding sql_like_prefix [OF assms] Cons.IH
    by (simp add: ex_le_Suc eq_commute)
  finally show ?case .
qed


section \<open>Properties of the store\<close>

text \<open>Searching for a keyword without the wildcards \<open>%\<close> and \<open>_\<close> is searching for it as a part of a
  text, without regard to the case of ASCII letters: a code is found exactly when its phone, its code or its note
  contains the keyword.\<close>

theorem plain_search_is_substring:
  assumes "plain kw"
  shows "code_like kw r \<longleftrightarrow>
    (\<exists>t \<in> {fc_phone r, fc_code r} \<union> set_option (fc_note r).
       \<exists>i\<le>length t. map to_lower_char (take (length kw) (drop i t)) = map to_lower_char kw)"
  using sql_like_substring [OF assms]
  by (cases "fc_note r") (auto simp: code_like_def Let_def)

theorem plain_search_is_substring_witness:
  "code_like ''ab'' \<lparr>fc_id = 1, fc_phone = ''13800138000'', fc_code = ''123456'', fc_note = Some ''xAb'',
     fc_created = [], fc_updated = []\<rparr>"
proof -
  have p: "plain ''ab''" by (simp add: plain_def)
  have "1 \<le> length ''xAb''" by simp
  moreover have "map to_lower_char (take (length ''ab'') (drop 1 ''xAb'')) = map to_lower_char ''ab''" by code_simp
  ultimately have e: "\<exists>i\<le>length ''xAb''. map to_lower_char (take (length ''ab'') (drop i ''xAb'')) = map to_lower_char ''ab''"
    by blast
  show ?thesis
    unfolding plain_search_is_substring [OF p]
    by (rule bexI, rule e) simp
qed

text \<open>A wildcard in the keyword is one in the search.\<close>

lemma percent_finds_everything:
  "code_like ''%'' r \<and> code_like ''_'' r = (fc_phone r \<noteq> [] \<or> fc_code r \<noteq> [] \<or> (\<exists>n. fc_note r = Some n \<and> n \<noteq> []))"
proof -
  have p: "sql_like ''%%'' s" for s
    by (cases s) (auto simp: sql_like_percent)
  have q: "sql_like ''%_%'' s \<longleftrightarrow> s \<noteq> []" for s
    by (induction s) (auto simp: sql_like_percent)
  have "sql_like ''%%%'' s" for s
    by (induction s) (auto simp: p)
  with q show ?thesis
    by (cases "fc_note r") (auto simp: code_like_def Let_def)
qed

text \<open>The pages of the list, read one after the other at any page size, give every code exactly once, the newest
  first; a page never holds more than its size, and the total is the number of codes.\<close>

theorem code_pages_cover_the_table:
  "concat (map (\<lambda>k. fst (get_all_codes (int (Suc k)) (int s) db)) [0..<n]) = take (n * s) (rev (fl_codes db)) \<and>
   length (fst (get_all_codes page (int s) db)) \<le> s \<and> snd (get_all_codes page (int s) db) = length (fl_codes db)"
proof -
  have "fst (get_all_codes (int (Suc k)) (int s) db) = take s (drop (k * s) (rev (fl_codes db)))" for k
    by (simp add: get_all_codes_def sql_page_def Let_def nat_mult_distrib)
  then have "concat (map (\<lambda>k. fst (get_all_codes (int (Suc k)) (int s) db)) [0..<n]) = take (n * s) (rev (fl_codes db))"
    by (simp only: take_drop_chunks)
  then show ?thesis
    by (simp add: get_all_codes_def sql_page_def Let_def)
qed

text \<open>A batch never overwrites: the code and the note a phone has afterwards are those it had before, or else
  those of its first entry in the batch; every entry is counted as stored or as failed, the table grows by the stored
  ones, and each failure has its message.\<close>

theorem batch_keeps_first_code:
  "case add_codes_batch now cs db of (b, db1) \<Rightarrow>
     map_option (\<lambda>r. (fc_code r, fc_note r)) (get_code_by_phone q db1) =
       (case get_code_by_phone q db of
          Some r \<Rightarrow> Some (fc_code r, fc_note r)
        | None \<Rightarrow> map_option (\<lambda>(p, c, n). (c, null_if_empty n)) (find (\<lambda>(p, c, n). p = q) cs)) \<and>
     b_success b + b_failed b = length cs \<and> length (b_errors b) = b_failed b \<and>
     length (fl_codes db1) = length (fl_codes db) + b_success b"
  using add_codes_found [of q now cs _ db] add_codes_counts [where now = now and cs = cs and db = db
    and b = "\<lparr>b_success = 0, b_failed = 0, b_errors = []\<rparr>"]
  by (simp add: add_codes_batch_def case_prod_beta)

end
