(* ===== verification/FL_Routes.thy ===== *)
theory FL_Routes
  imports FL_Store Route_Effects
begin

text \<open>
  The routes of the welfare code service (\<^verbatim>\<open>src/FLcode/src/routes/user.ts\<close>, \<^verbatim>\<open>routes/admin.ts\<close>,
  \<^verbatim>\<open>server.ts\<close>) over its store.  The state is the database and the map of the sessions; the clock, the random text
  of a token and the messages of the schema library are fields of the environment.  An uploaded workbook is its
  cells, as for the import of properties.  The template workbook, the health answer and the static files are outside
  the table.
\<close>

section \<open>State and environment\<close>

record fl_state =
  fl_db :: fl_db
  sessions :: "string \<Rightarrow> int option"

text \<open>\<open>fl_now\<close> is \<open>Date.now()\<close>, \<open>sql_now\<close> is \<open>CURRENT_TIMESTAMP\<close>, \<open>random36\<close> is
  \<open>Math.random().toString(36).substring(2)\<close>, \<open>fl_zod\<close> the schema library's message for a field and its value.\<close>

record fl_env =
  fl_now :: nat
  sql_now :: string
  random36 :: string
  fl_zod :: "string \<Rightarrow> val \<Rightarrow> string"

definition fl_session_ms :: int where
  "fl_session_ms = 24 * 60 * 60 * 1000"

definition base36_char :: "nat \<Rightarrow> char" where
  "base36_char d = char_of (if d < 10 then 48 + d else 87 + d)"

function base36 :: "nat \<Rightarrow> string" where
  "base36 n = (if n < 36 then [base36_char n] else base36 (n div 36) @ [base36_char (n mod 36)])"
  by auto
termination by (relation "measure id") auto

declare base36.simps [simp del]

definition generate_token :: "fl_env \<Rightarrow> string" where
  "generate_token e = random36 e @ base36 (fl_now e)"

section \<open>Schemas\<close>

definition phone_ok :: "string \<Rightarrow> bool" where
  "phone_ok s \<longleftrightarrow> length s = 11 \<and> s ! 0 = CHR ''1'' \<and> is_digit (s ! 1) \<and> 3 \<le> digit_val (s ! 1) \<and>
     (\<forall>c\<in>set (drop 2 s). is_digit c)"

definition code_ok :: "string \<Rightarrow> bool" where
  "code_ok s \<longleftrightarrow> length s = 6 \<and> (\<forall>c\<in>set s. is_digit c)"

text \<open>\<open>z.string()\<close> with a check and its message, and \<open>z.string().optional()\<close>; \<open>Inl\<close> is the message of the first
  issue.\<close>

definition zod_string :: "fl_env \<Rightarrow> string \<Rightarrow> (string \<Rightarrow> bool) \<Rightarrow> string \<Rightarrow> val \<Rightarrow> string + string" where
  "zod_string e k ok m v =
     (case v of VStr s \<Rightarrow> if ok s then Inr s else Inl m | _ \<Rightarrow> Inl (fl_zod e k v))"

definition zod_opt_string :: "fl_env \<Rightarrow> string \<Rightarrow> (string \<Rightarrow> bool) \<Rightarrow> val \<Rightarrow> string + string option" where
  "zod_opt_string e k ok v =
     (case v of
        VUndef \<Rightarrow> Inr None
      | VStr s \<Rightarrow> if ok s then Inr (Some s) else Inl (fl_zod e k v)
      | _ \<Rightarrow> Inl (fl_zod e k v))"

definition zod_object :: "fl_env \<Rightarrow> val \<Rightarrow> (row \<Rightarrow> string + 'a) \<Rightarrow> string + 'a" where
  "zod_object e v f = (case v of VObj r \<Rightarrow> f r | _ \<Rightarrow> Inl (fl_zod e [] v))"

definition phone_schema :: "fl_env \<Rightarrow> val \<Rightarrow> string + string" where
  "phone_schema e v =
     zod_object e v (\<lambda>r. zod_string e ''phone'' phone_ok fl_bad_phone (fld r ''phone''))"

definition login_schema :: "fl_env \<Rightarrow> val \<Rightarrow> string + string" where
  "login_schema e v =
     zod_object e v (\<lambda>r. zod_string e ''password'' (\<lambda>s. s \<noteq> []) fl_need_password (fld r ''password''))"

definition code_fields :: "fl_env \<Rightarrow> row \<Rightarrow> string + string \<times> string \<times> string option" where
  "code_fields e r =
     (case zod_string e ''phone'' phone_ok fl_bad_phone (fld r ''phone'') of
        Inl m \<Rightarrow> Inl m
      | Inr p \<Rightarrow>
          (case zod_string e ''code'' code_ok fl_bad_code (fld r ''code'') of
             Inl m \<Rightarrow> Inl m
           | Inr c \<Rightarrow>
               (case zod_opt_string e ''note'' (\<lambda>_. True) (fld r ''note'') of
                  Inl m \<Rightarrow> Inl m
                | Inr n \<Rightarrow> Inr (p, c, n))))"

definition code_schema :: "fl_env \<Rightarrow> val \<Rightarrow> string + string \<times> string \<times> string option" where
  "code_schema e v = zod_object e v (code_fields e)"

text \<open>\<open>z.coerce.number().int().positive()\<close>\<close>

definition zod_id :: "fl_env \<Rightarrow> val \<Rightarrow> string + nat" where
  "zod_id e v =
     (case to_num v of
        VNum x \<Rightarrow> if x = of_int \<lfloor>x\<rfloor> \<and> 0 < x then Inr (nat \<lfloor>x\<rfloor>) else Inl (fl_zod e ''id'' v)
      | _ \<Rightarrow> Inl (fl_zod e ''id'' v))"

definition update_code_schema :: "fl_env \<Rightarrow> row \<Rightarrow> string + nat \<times> string \<times> string \<times> string option" where
  "update_code_schema e r =
     (case zod_id e (fld r ''id'') of
        Inl m \<Rightarrow> Inl m
      | Inr i \<Rightarrow> (case code_fields e r of Inl m \<Rightarrow> Inl m | Inr (p, c, n) \<Rightarrow> Inr (i, p, c, n)))"

text \<open>The fields of \<open>ConfigSchema\<close> in the order of the schema; an absent one is left out.\<close>

fun config_fields :: "fl_env \<Rightarrow> (string \<times> (string \<Rightarrow> bool)) list \<Rightarrow> row \<Rightarrow> string + (string \<times> string) list" where
  "config_fields e [] r = Inr []"
| "config_fields e ((k, ok) # ks) r =
     (case zod_opt_string e k ok (fld r k) of
        Inl m \<Rightarrow> Inl m
      | Inr s \<Rightarrow>
          (case config_fields e ks r of
             Inl m \<Rightarrow> Inl m
           | Inr kvs \<Rightarrow> Inr (case s of None \<Rightarrow> kvs | Some t \<Rightarrow> (k, t) # kvs)))"

definition config_schema :: "fl_env \<Rightarrow> val \<Rightarrow> string + (string \<times> string) list" where
  "config_schema e v =
     zod_object e v (config_fields e
       [(''success_msg'', \<lambda>_. True), (''fail_msg'', \<lambda>_. True), (''usage_tip'', \<lambda>_. True),
        (''admin_password'', \<lambda>s. s \<noteq> []), (''page_title'', \<lambda>_. True)])"

section \<open>Answers\<close>

definition fl_fail :: "nat \<Rightarrow> string \<Rightarrow> response" where
  "fl_fail s m = json_res s [(''ok'', VBool False), (''message'', VStr m)]"

definition fl_ok :: "row \<Rightarrow> response" where
  "fl_ok kvs = json_res 200 ((''ok'', VBool True) # kvs)"

text \<open>\<open>if (result.success) res.json(...) else res.status(400).json(...)\<close>\<close>

definition fl_answer :: "fl_result \<Rightarrow> response" where
  "fl_answer r = (if r_success r then fl_ok [(''message'', VStr (r_message r))] else fl_fail 400 (r_message r))"

definition code_row :: "fl_code \<Rightarrow> row" where
  "code_row r =
     [(''id'', VNat (fc_id r)), (''phone'', VStr (fc_phone r)), (''code'', VStr (fc_code r)),
      (''note'', case fc_note r of None \<Rightarrow> VNull | Some n \<Rightarrow> VStr n),
      (''created_at'', VStr (fc_created r)), (''updated_at'', VStr (fc_updated r))]"

text \<open>\<open>getConfig(k) || d\<close>\<close>

definition config_or :: "fl_db \<Rightarrow> string \<Rightarrow> string \<Rightarrow> string" where
  "config_or db k d = (case get_config k db of None \<Rightarrow> d | Some v \<Rightarrow> if v = [] then d else v)"

section \<open>Customers\<close>

definition user_config :: "fl_env \<Rightarrow> request \<Rightarrow> fl_state \<Rightarrow> response \<times> fl_state" where
  "user_config e req st =
     (let c = get_all_config (fl_db st)
      in (fl_ok [(''data'', VObj
            [(''page_title'', js_or (fld c ''page_title'') (VStr fl_page_title)),
             (''success_msg'', js_or (fld c ''success_msg'') (VStr fl_success_msg)),
             (''fail_msg'', js_or (fld c ''fail_msg'') (VStr fl_fail_short)),
             (''usage_tip'', js_or (fld c ''usage_tip'') (VStr fl_usage_short))])], st))"

definition user_claim :: "fl_env \<Rightarrow> request \<Rightarrow> fl_state \<Rightarrow> response \<times> fl_state" where
  "user_claim e req st =
     (case phone_schema e (body req) of
        Inl m \<Rightarrow> (fl_fail 400 (if m = [] then msg_bad_params else m), st)
      | Inr phone \<Rightarrow>
          (case get_code_by_phone phone (fl_db st) of
             Some r \<Rightarrow>
               (fl_ok [(''found'', VBool True), (''code'', VStr (fc_code r)),
                  (''note'', case fc_note r of None \<Rightarrow> VNull | Some n \<Rightarrow> VStr n),
                  (''message'', VStr (config_or (fl_db st) ''success_msg'' fl_success_msg)),
                  (''usage_tip'', VStr (config_or (fl_db st) ''usage_tip'' fl_usage_short))], st)
           | None \<Rightarrow>
               (fl_ok [(''found'', VBool False),
                  (''message'', VStr (config_or (fl_db st) ''fail_msg'' fl_fail_msg))], st)))"

section \<open>Sessions\<close>

definition session_token :: "request \<Rightarrow> string" where
  "session_token req = str_of (headers req ''x-admin-token'')"

definition live :: "fl_env \<Rightarrow> string \<Rightarrow> fl_state \<Rightarrow> bool" where
  "live e t st \<longleftrightarrow> t \<noteq> [] \<and> (case sessions st t of None \<Rightarrow> False | Some x \<Rightarrow> int (fl_now e) \<le> x)"

definition with_session ::
  "(fl_env \<Rightarrow> request \<Rightarrow> fl_state \<Rightarrow> response \<times> fl_state) \<Rightarrow> fl_env \<Rightarrow> request \<Rightarrow> fl_state \<Rightarrow> response \<times> fl_state" where
  "with_session h e req st =
     (let t = session_token req in
      if t = [] then (fl_fail 401 fl_login_first, st)
      else if \<not> live e t st
      then (fl_fail 401 fl_expired, st\<lparr>sessions := (sessions st)(t := None)\<rparr>)
      else h e req (st\<lparr>sessions := (sessions st)(t \<mapsto> int (fl_now e) + fl_session_ms)\<rparr>))"

definition admin_password :: "fl_db \<Rightarrow> string" where
  "admin_password db = config_or db ''admin_password'' ''admin123''"

definition fl_login :: "fl_env \<Rightarrow> request \<Rightarrow> fl_state \<Rightarrow> response \<times> fl_state" where
  "fl_login e req st =
     (case login_schema e (body req) of
        Inl m \<Rightarrow> (fl_fail 400 m, st)
      | Inr pw \<Rightarrow>
          if pw \<noteq> admin_password (fl_db st) then (fl_fail 401 fl_bad_password, st)
          else (let t = generate_token e
                in (fl_ok [(''token'', VStr t), (''message'', VStr fl_logged_in)],
                    st\<lparr>sessions := (sessions st)(t \<mapsto> int (fl_now e) + fl_session_ms)\<rparr>)))"

definition fl_logout :: "fl_env \<Rightarrow> request \<Rightarrow> fl_state \<Rightarrow> response \<times> fl_state" where
  "fl_logout e req st =
     (let t = session_token req
      in (fl_ok [(''message'', VStr fl_logged_out)],
          if t \<noteq> [] then st\<lparr>sessions := (sessions st)(t := None)\<rparr> else st))"

definition fl_verify :: "fl_env \<Rightarrow> request \<Rightarrow> fl_state \<Rightarrow> response \<times> fl_state" where
  "fl_verify e req st = (fl_ok [(''message'', VStr fl_token_ok)], st)"

section \<open>Administration\<close>

definition fl_get_config :: "fl_env \<Rightarrow> request \<Rightarrow> fl_state \<Rightarrow> response \<times> fl_state" where
  "fl_get_config e req st = (fl_ok [(''data'', VObj (get_all_config (fl_db st)))], st)"

definition fl_post_config :: "fl_env \<Rightarrow> request \<Rightarrow> fl_state \<Rightarrow> response \<times> fl_state" where
  "fl_post_config e req st =
     (case config_schema e (body req) of
        Inl m \<Rightarrow> (fl_fail 400 m, st)
      | Inr kvs \<Rightarrow>
          (fl_ok [(''message'', VStr fl_config_saved)],
           if kvs \<noteq> [] then st\<lparr>fl_db := set_configs kvs (fl_db st)\<rparr> else st))"

text \<open>\<open>Math.max(1, parseInt(page) || 1)\<close> and the page size, between 1 and 100.\<close>

definition fl_page :: "request \<Rightarrow> int" where
  "fl_page req = max 1 (int_or (parse_int (str_of (query req ''page''))) 1)"

definition fl_page_size :: "request \<Rightarrow> int" where
  "fl_page_size req = min 100 (max 1 (int_or (parse_int (str_of (query req ''pageSize''))) 20))"

definition fl_list_codes :: "fl_env \<Rightarrow> request \<Rightarrow> fl_state \<Rightarrow> response \<times> fl_state" where
  "fl_list_codes e req st =
     (let page = fl_page req; ps = fl_page_size req; keyword = str_of (query req ''keyword'');
          (rs, total) = (if keyword \<noteq> [] then search_codes keyword page ps (fl_db st)
                         else get_all_codes page ps (fl_db st))
      in (fl_ok [(''data'', VArr (map (\<lambda>r. VObj (code_row r)) rs)),
            (''pagination'', VObj [(''page'', VInt page), (''pageSize'', VInt ps), (''total'', VNat total),
               (''totalPages'', VInt ((int total + ps - 1) div ps))])], st))"

definition fl_post_code :: "fl_env \<Rightarrow> request \<Rightarrow> fl_state \<Rightarrow> response \<times> fl_state" where
  "fl_post_code e req st =
     (case code_schema e (body req) of
        Inl m \<Rightarrow> (fl_fail 400 m, st)
      | Inr (p, c, n) \<Rightarrow>
          (let (r, db1) = add_code (sql_now e) p c n (fl_db st)
           in (if r_success r
               then fl_ok [(''message'', VStr (r_message r)),
                      (''id'', case new_id r of Some i \<Rightarrow> VNat i | None \<Rightarrow> VUndef)]
               else fl_fail 400 (r_message r), st\<lparr>fl_db := db1\<rparr>)))"

text \<open>\<open>{ ...req.body, id: req.params.id }\<close>\<close>

definition fl_put_code :: "fl_env \<Rightarrow> request \<Rightarrow> fl_state \<Rightarrow> response \<times> fl_state" where
  "fl_put_code e req st =
     (case update_code_schema e (spread (body_row req) [(''id'', VStr (params req ''id''))]) of
        Inl m \<Rightarrow> (fl_fail 400 m, st)
      | Inr (i, p, c, n) \<Rightarrow>
          (let (r, db1) = update_code (sql_now e) i p c n (fl_db st)
           in (fl_answer r, st\<lparr>fl_db := db1\<rparr>)))"

definition fl_delete_code :: "fl_env \<Rightarrow> request \<Rightarrow> fl_state \<Rightarrow> response \<times> fl_state" where
  "fl_delete_code e req st =
     (case parse_int (params req ''id'') of
        None \<Rightarrow> (fl_fail 400 fl_bad_id, st)
      | Some i \<Rightarrow>
          if i \<le> 0 then (fl_fail 400 fl_bad_id, st)
          else (let (r, db1) = delete_code (nat i) (fl_db st)
                in (fl_answer r, st\<lparr>fl_db := db1\<rparr>)))"

definition fl_clear_codes :: "fl_env \<Rightarrow> request \<Rightarrow> fl_state \<Rightarrow> response \<times> fl_state" where
  "fl_clear_codes e req st =
     (let (r, db1) = clear_all_codes (fl_db st)
      in (fl_ok [(''message'', VStr (r_message r))], st\<lparr>fl_db := db1\<rparr>))"

section \<open>The upload of a workbook\<close>

text \<open>What the upload middleware hands on: no file, its own error, or a file with its media type, its name and
  what the workbook reader makes of it: an error, no sheet, or the rows with their numbers and their cells.\<close>

datatype fl_upload =
    No_fl_file
  | Multer_error string
  | Fl_file string string "string + (nat \<times> (nat \<Rightarrow> cell_value)) list option"

definition excel_file :: "string \<Rightarrow> string \<Rightarrow> bool" where
  "excel_file mimetype name \<longleftrightarrow>
     mimetype \<in> {''application/vnd.openxmlformats-officedocument.spreadsheetml.sheet'', ''application/vnd.ms-excel''} \<or>
     suffix ''.xlsx'' name \<or> suffix ''.xls'' name"

text \<open>\<open>String(cell.value || '').trim()\<close>\<close>

definition fl_cell :: "cell_value \<Rightarrow> string" where
  "fl_cell v = (if cell_truthy v then trim (case cell_text v of Some t \<Rightarrow> t | None \<Rightarrow> []) else [])"

fun read_rows ::
  "(nat \<times> (nat \<Rightarrow> cell_value)) list \<Rightarrow> (string \<times> string \<times> string option) list \<times> string list" where
  "read_rows [] = ([], [])"
| "read_rows ((k, cs) # rs) =
     (let (codes, errs) = read_rows rs; p = fl_cell (cs 1); c = fl_cell (cs 2); n = fl_cell (cs 3) in
      if k = 1 then (codes, errs)
      else if \<not> phone_ok p
      then (codes, (fl_row_pre @ nat_to_string k @ fl_row_phone @ p @ '')'') # errs)
      else if \<not> code_ok c
      then (codes, (fl_row_pre @ nat_to_string k @ fl_row_code @ c @ '')'') # errs)
      else ((p, c, if n = [] then None else Some n) # codes, errs))"

definition fl_upload_codes :: "fl_upload \<Rightarrow> fl_env \<Rightarrow> request \<Rightarrow> fl_state \<Rightarrow> response \<times> fl_state" where
  "fl_upload_codes u e req st =
     (let failed = (\<lambda>m d. (fl_fail 500 (if m = [] then d else m), st)) in
      case u of
        No_fl_file \<Rightarrow> (fl_fail 400 fl_choose_file, st)
      | Multer_error m \<Rightarrow> failed m fl_server_error
      | Fl_file mt name book \<Rightarrow>
          if \<not> excel_file mt name then failed fl_only_excel fl_server_error
          else (case book of
                  Inl m \<Rightarrow> failed m fl_file_failed
                | Inr None \<Rightarrow> (fl_fail 400 fl_empty_excel, st)
                | Inr (Some rs) \<Rightarrow>
                    (let (codes, errs) = read_rows rs in
                     if codes = []
                     then (json_res 400 [(''ok'', VBool False), (''message'', VStr fl_no_rows),
                             (''errors'', VArr (map VStr errs))], st)
                     else (let (b, db1) = add_codes_batch (sql_now e) codes (fl_db st)
                           in (fl_ok [(''message'', VStr (fl_done_pre @ nat_to_string (b_success b) @ fl_done_mid @
                                        nat_to_string (b_failed b) @ fl_done_post)),
                                 (''success'', VNat (b_success b)), (''failed'', VNat (b_failed b)),
                                 (''errors'', VArr (map VStr (take 50 (errs @ b_errors b))))],
                               st\<lparr>fl_db := db1\<rparr>)))))"

section \<open>The application\<close>

type_synonym fl_handler = "fl_upload \<Rightarrow> fl_env \<Rightarrow> request \<Rightarrow> fl_state \<Rightarrow> response \<times> fl_state"

definition fl_routes :: "(http_method \<times> string list \<times> fl_handler) list" where
  "fl_routes =
     (let user = (\<lambda>h u. h); admin = (\<lambda>h u. with_session h) in
      map (\<lambda>(m, p, h). (m, ''api'' # p, h))
        [(GET, [''config''], user user_config),
         (POST, [''claim''], user user_claim)] @
      map (\<lambda>(m, p, h). (m, [''api'', ''admin''] @ p, h))
        [(POST, [''login''], user fl_login),
         (POST, [''logout''], user fl_logout),
         (GET, [''verify''], admin fl_verify),
         (GET, [''config''], admin fl_get_config),
         (POST, [''config''], admin fl_post_config),
         (GET, [''codes''], admin fl_list_codes),
         (POST, [''codes''], admin fl_post_code),
         (PUT, [''codes'', '':id''], admin fl_put_code),
         (DELETE, [''codes'', '':id''], admin fl_delete_code),
         (DELETE, [''codes''], admin fl_clear_codes),
         (POST, [''upload''], \<lambda>u. with_session (fl_upload_codes u))])"

text \<open>A path outside the table is none of the modelled answers and touches no state.\<close>

definition fl_serve ::
  "fl_upload \<Rightarrow> fl_env \<Rightarrow> http_method \<Rightarrow> string list \<Rightarrow> request \<Rightarrow> fl_state \<Rightarrow> response option \<times> fl_state" where
  "fl_serve u e m ss req st =
     (case first_route fl_routes m ss of
        None \<Rightarrow> (None, st)
      | Some (ps, h) \<Rightarrow> (let (r, st1) = h u e (with_params ps req) st in (Some r, st1)))"

end
