(* ===== verification/FL_Safety.thy ===== *)
theory FL_Safety
  imports FL_Routes
begin

text \<open>
  Safety of the welfare code service: what any sequence of requests keeps of its table, who can change it, and
  what a customer gets to see.
\<close>

section \<open>The stored codes stay well formed\<close>

definition codes_ok :: "fl_db \<Rightarrow> bool" where
  "codes_ok db \<longleftrightarrow> (\<forall>r\<in>set (fl_codes db). phone_ok (fc_phone r) \<and> code_ok (fc_code r))"

lemma code_fields_ok: "code_fields e r = Inr (p, c, n) \<Longrightarrow> phone_ok p \<and> code_ok c"
  by (auto simp: code_fields_def zod_string_def split: sum.splits val.splits if_splits)

lemma code_schema_ok: "code_schema e v = Inr (p, c, n) \<Longrightarrow> phone_ok p \<and> code_ok c"
  by (auto simp: code_schema_def zod_object_def split: val.splits dest: code_fields_ok)

lemma update_schema_ok: "update_code_schema e r = Inr (i, p, c, n) \<Longrightarrow> phone_ok p \<and> code_ok c"
  by (auto simp: update_code_schema_def split: sum.splits dest: code_fields_ok)

lemma read_rows_ok: "(p, c, n) \<in> set (fst (read_rows rs)) \<Longrightarrow> phone_ok p \<and> code_ok c"
  by (induction rs rule: read_rows.induct) (auto simp: Let_def split: prod.splits if_splits)

lemma insert_code_ok:
  "codes_ok db \<Longrightarrow> phone_ok p \<Longrightarrow> code_ok c \<Longrightarrow> codes_ok (snd (insert_code now p c n db))"
  by (auto simp: codes_ok_def insert_code_def Let_def)

lemma add_codes_ok:
  "codes_ok db \<Longrightarrow> \<forall>(p, c, n)\<in>set cs. phone_ok p \<and> code_ok c \<Longrightarrow> codes_ok (snd (add_codes now cs b db))"
proof (induction now cs b db rule: add_codes.induct)
  case (2 now p c n cs b db)
  show ?case
  proof (cases "insert_code now p c n db")
    case (Pair x db1)
    then have "codes_ok db1" using insert_code_ok [OF 2(3), of p c now n] 2(4) by simp
    with 2 Pair show ?thesis
      by (auto split: sum.split sql_error.split)
  qed
qed simp

lemma update_code_ok:
  "codes_ok db \<Longrightarrow> phone_ok p \<Longrightarrow> code_ok c \<Longrightarrow> codes_ok (snd (update_code now i p c n db))"
  by (auto simp: codes_ok_def update_code_def)

lemma init_ok [simp]: "codes_ok (init_db db) = codes_ok db" "codes_ok no_tables"
  by (simp_all add: codes_ok_def init_db_def no_tables_def)

lemma other_writes_ok [simp]:
  "codes_ok db \<Longrightarrow> codes_ok (snd (delete_code i db))" "codes_ok (snd (clear_all_codes db))"
  "codes_ok (set_configs kvs db) = codes_ok db"
  by (auto simp: codes_ok_def delete_code_def clear_all_codes_def)

section \<open>Handlers\<close>

text \<open>The database after a handler: a property the handler keeps is kept by the request.\<close>

definition keeps :: "(fl_db \<Rightarrow> bool) \<Rightarrow> (fl_env \<Rightarrow> request \<Rightarrow> fl_state \<Rightarrow> response \<times> fl_state) \<Rightarrow> bool" where
  "keeps I h \<longleftrightarrow> (\<forall>e req st. I (fl_db st) \<longrightarrow> I (fl_db (snd (h e req st))))"

lemma keeps_session: "keeps I h \<Longrightarrow> keeps I (with_session h)"
  by (auto simp: keeps_def with_session_def Let_def)

lemma reads_keep [simp]:
  "keeps I user_config" "keeps I user_claim" "keeps I fl_login" "keeps I fl_logout" "keeps I fl_verify"
  "keeps I fl_get_config" "keeps I fl_list_codes"
  by (auto simp: keeps_def user_config_def user_claim_def fl_login_def fl_logout_def fl_verify_def
      fl_get_config_def fl_list_codes_def Let_def split: sum.splits option.splits prod.splits)

definition table_ok :: "fl_db \<Rightarrow> bool" where
  "table_ok db \<longleftrightarrow> fl_inv db \<and> codes_ok db"

lemma writes_keep [simp]:
  "keeps table_ok fl_post_config" "keeps table_ok fl_post_code" "keeps table_ok fl_put_code"
  "keeps table_ok fl_delete_code" "keeps table_ok fl_clear_codes" "keeps table_ok (fl_upload_codes u)"
proof -
  show "keeps table_ok fl_post_config"
    by (auto simp: keeps_def table_ok_def fl_post_config_def split: sum.splits)
  show "keeps table_ok fl_post_code"
    by (auto simp: keeps_def table_ok_def fl_post_code_def add_code_snd case_prod_beta
        intro: insert_code_inv insert_code_ok split: sum.splits dest: code_schema_ok)
  show "keeps table_ok fl_put_code"
    by (auto simp: keeps_def table_ok_def fl_put_code_def case_prod_beta
        intro: update_code_inv update_code_ok split: sum.splits dest: update_schema_ok)
  show "keeps table_ok fl_delete_code"
    by (auto simp: keeps_def table_ok_def fl_delete_code_def case_prod_beta
        intro: delete_code_inv split: option.splits)
  show "keeps table_ok fl_clear_codes"
    by (auto simp: keeps_def table_ok_def fl_clear_codes_def case_prod_beta intro: clear_all_inv)
  show "keeps table_ok (fl_upload_codes u)"
    by (auto simp: keeps_def table_ok_def fl_upload_codes_def Let_def case_prod_beta add_codes_batch_def
        intro: add_codes_inv add_codes_ok
        dest: read_rows_ok split: fl_upload.splits sum.splits option.splits)
qed

text \<open>A request keeps what all handlers keep.\<close>

lemma fl_serve_keeps:
  assumes "\<forall>(m, p, h)\<in>set fl_routes. keeps I (h u)" "I (fl_db st)"
  shows "I (fl_db (snd (fl_serve u e m ss req st)))"
proof (cases "first_route fl_routes m ss")
  case (Some x)
  then obtain ps h where x: "first_route fl_routes m ss = Some (ps, h)" by (cases x) auto
  obtain q where "(m, q, h) \<in> set fl_routes"
    using first_route_in [OF x] by blast
  with assms have "I (fl_db (snd (h u e (with_params ps req) st)))"
    by (auto simp: keeps_def)
  with x show ?thesis by (simp add: fl_serve_def case_prod_beta)
qed (simp add: fl_serve_def assms(2))

lemma routes_keep: "\<forall>(m, p, h)\<in>set fl_routes. keeps table_ok (h u)"
  by (auto simp: fl_routes_def Let_def keeps_session)

section \<open>Sequences of requests\<close>

type_synonym fl_call = "fl_upload \<times> fl_env \<times> http_method \<times> string list \<times> request"

fun fl_serve_all :: "fl_call list \<Rightarrow> fl_state \<Rightarrow> fl_state" where
  "fl_serve_all [] st = st"
| "fl_serve_all ((u, e, m, ss, req) # cs) st = fl_serve_all cs (snd (fl_serve u e m ss req st))"

text \<open>The state after the start of the service over a database file.\<close>

definition fl_start :: "fl_db \<Rightarrow> fl_state" where
  "fl_start db = \<lparr>fl_db = init_db db, sessions = (\<lambda>_. None)\<rparr>"

text \<open>C39. Whatever requests the service has answered since it was started on an empty file, no two codes have the
  same phone, ids ascend in the order of creation and never exceed the counter, and every stored phone and code has the
  form the schemas demand, also those that came from a workbook.\<close>

theorem stored_codes_stay_valid:
  "case fl_db (fl_serve_all cs (fl_start no_tables)) of db \<Rightarrow>
     distinct (map fc_phone (fl_codes db)) \<and> sorted_wrt (<) (map fc_id (fl_codes db)) \<and>
     list_all (\<lambda>r. fc_id r \<le> fl_seq db \<and> phone_ok (fc_phone r) \<and> code_ok (fc_code r)) (fl_codes db)"
proof -
  have "table_ok (fl_db st) \<Longrightarrow> table_ok (fl_db (fl_serve_all cs st))" for st
  proof (induction cs st rule: fl_serve_all.induct)
    case (2 u e m ss req cs st)
    have "table_ok (fl_db (snd (fl_serve u e m ss req st)))"
      by (rule fl_serve_keeps [OF routes_keep 2(2)])
    from 2(1) [OF this] show ?case by simp
  qed simp
  moreover have "table_ok (fl_db (fl_start no_tables))"
    by (simp add: table_ok_def fl_start_def)
  ultimately have "table_ok (fl_db (fl_serve_all cs (fl_start no_tables)))" by blast
  then show ?thesis
    by (simp add: table_ok_def fl_inv_def codes_ok_def list_all_iff)
qed


section \<open>Who can change anything\<close>

text \<open>A request that changes the database, its codes or its configuration, carried the token of a session that had
  not expired; every other request leaves the database as it was.\<close>

theorem changes_need_live_session:
  "live e (session_token req) st \<or> fl_db (snd (fl_serve u e m ss req st)) = fl_db st"
proof -
  have gate: "\<not> live e (session_token req) st \<Longrightarrow> fl_db (snd (with_session h e req st)) = fl_db st" for h req
    by (simp add: with_session_def Let_def)
  have "\<not> live e (session_token req) st \<Longrightarrow> fl_db (snd (h u e (with_params ps req) st)) = fl_db st"
    if "(m, q, h) \<in> set fl_routes" for q h ps
    using that by (auto simp: fl_routes_def Let_def gate with_params_def session_token_def user_config_def user_claim_def
        fl_login_def fl_logout_def split: sum.splits option.splits)
  then have h: "\<not> live e (session_token req) st \<Longrightarrow> first_route fl_routes m ss = Some (ps, h) \<Longrightarrow>
      fl_db (snd (h u e (with_params ps req) st)) = fl_db st" for ps h
    using first_route_in [of fl_routes m ss ps h] by blast
  show ?thesis
    by (cases "live e (session_token req) st"; cases "first_route fl_routes m ss")
      (auto simp: fl_serve_def case_prod_beta h)
qed


text \<open>Without sessions, a request that does not carry the administrator's password changes nothing at all.\<close>

lemma login_refused:
  "body_fld req ''password'' \<noteq> VStr (admin_password (fl_db st)) \<Longrightarrow> snd (fl_login e req st) = st"
  by (auto simp: fl_login_def login_schema_def zod_object_def zod_string_def body_fld_def
      split: sum.splits val.splits if_splits)

lemma no_session_no_effect:
  assumes "sessions st = (\<lambda>_. None)" "body_fld req ''password'' \<noteq> VStr (admin_password (fl_db st))"
  shows "snd (fl_serve u e m ss req st) = st"
proof -
  have same: "st\<lparr>sessions := (sessions st)(t := None)\<rparr> = st" for t
    using assms(1) by (simp add: fun_upd_idem)
  have gate: "snd (with_session h e r st) = st" for h r
    using assms(1) by (simp add: with_session_def Let_def live_def same)
  have login: "snd (fl_login e (with_params ps req) st) = st" for ps
    by (rule login_refused) (use assms(2) in \<open>simp add: with_params_def body_fld_def\<close>)
  have "snd (h u e (with_params ps req) st) = st" if "(m, q, h) \<in> set fl_routes" for q h ps
    using that by (auto simp: fl_routes_def Let_def gate login same user_config_def user_claim_def fl_logout_def
        split: sum.splits option.splits)
  then have "first_route fl_routes m ss = Some (ps, h) \<Longrightarrow> snd (h u e (with_params ps req) st) = st" for ps h
    using first_route_in [of fl_routes m ss ps h] by blast
  then show ?thesis
    by (cases "first_route fl_routes m ss") (auto simp: fl_serve_def case_prod_beta)
qed

text \<open>C38. As long as nobody has sent the administrator's password since the service started, no sequence of requests,
  with any tokens, bodies and files, has any effect: codes, configuration and sessions are those of the start.\<close>

theorem nothing_changes_without_password:
  assumes "\<forall>(u, e, m, ss, req)\<in>set cs. body_fld req ''password'' \<noteq> VStr (admin_password (fl_db (fl_start db)))"
  shows "fl_serve_all cs (fl_start db) = fl_start db"
  using assms
proof (induction cs)
  case (Cons c cs)
  obtain u e m ss req where c: "c = (u, e, m, ss, req)" by (cases c)
  have "snd (fl_serve u e m ss req (fl_start db)) = fl_start db"
    by (rule no_session_no_effect) (use Cons.prems c in \<open>auto simp: fl_start_def\<close>)
  with Cons c show ?case by simp
qed simp

definition fl_request :: "string option \<Rightarrow> val \<Rightarrow> request" where
  "fl_request token b = \<lparr>headers = (\<lambda>k. if k = ''x-admin-token'' then token else None), query = (\<lambda>_. None),
     params = (\<lambda>_. []), body = b\<rparr>"

definition fl_sample_env :: fl_env where
  "fl_sample_env = \<lparr>fl_now = 1000, sql_now = ''t'', random36 = ''r'', fl_zod = (\<lambda>k v. k)\<rparr>"

theorem nothing_changes_without_password_witness:
  "fl_serve_all
     [(No_fl_file, fl_sample_env, POST, [''api'', ''admin'', ''login''],
         fl_request None (VObj [(''password'', VStr ''guess'')])),
      (No_fl_file, fl_sample_env, DELETE, [''api'', ''admin'', ''codes''], fl_request (Some ''forged'') (VObj []))]
     (fl_start no_tables) = fl_start no_tables"
proof (rule nothing_changes_without_password)
  have "admin_password (fl_db (fl_start no_tables)) = ''admin123''"
    by code_simp
  then show "\<forall>(u, e, m, ss, req)\<in>set
     [(No_fl_file, fl_sample_env, POST, [''api'', ''admin'', ''login''],
         fl_request None (VObj [(''password'', VStr ''guess'')])),
      (No_fl_file, fl_sample_env, DELETE, [''api'', ''admin'', ''codes''], fl_request (Some ''forged'') (VObj []))].
     body_fld req ''password'' \<noteq> VStr (admin_password (fl_db (fl_start no_tables)))"
    by (simp add: fl_request_def body_fld_def fld_def)
qed

section \<open>What customers see\<close>

lemma fld_all_config:
  "fld (get_all_config db) k = (case map_of (rev (fl_config db)) k of None \<Rightarrow> VUndef | Some v \<Rightarrow> VStr v)"
proof -
  have "map_of (foldl (\<lambda>c kv. spread c [(fst kv, VStr (snd kv))]) r cs) k =
      (case map_of (rev cs) k of None \<Rightarrow> map_of r k | Some v \<Rightarrow> Some (VStr v))" for r cs
    by (induction cs rule: rev_induct) (auto simp: update_conv split: option.splits)
  then show ?thesis
    by (simp add: get_all_config_def fld_def split: option.split)
qed

text \<open>The public answers reveal nothing of the administrator's password: whatever it is set to, the page
  configuration and the answer to a claim are the same.\<close>

theorem public_answers_ignore_password:
  "fst (user_config e req (st\<lparr>fl_db := set_config ''admin_password'' pw (fl_db st)\<rparr>)) = fst (user_config e req st) \<and>
   fst (user_claim e req (st\<lparr>fl_db := set_config ''admin_password'' pw (fl_db st)\<rparr>)) = fst (user_claim e req st)"
proof -
  have "map_of (rev (filter (\<lambda>kv. fst kv \<noteq> k') cs)) k = (if k = k' then None else map_of (rev cs) k)" for k k' :: string and cs :: "(string \<times> string) list"
    by (induction cs rule: rev_induct) auto
  then have other: "k \<noteq> k' \<Longrightarrow> fld (get_all_config (set_config k' v db)) k = fld (get_all_config db) k" for k k' v db
    by (simp add: fld_all_config set_config_def split: option.split)
  have "k \<noteq> ''admin_password'' \<Longrightarrow> config_or (set_config ''admin_password'' pw (fl_db st)) k d = config_or (fl_db st) k d" for k d
    by (simp add: config_or_def get_set_config)
  moreover have "get_code_by_phone p (set_config k v db) = get_code_by_phone p db" for p k v db
    by (simp add: get_code_by_phone_def set_config_def)
  ultimately show ?thesis
    by (simp add: user_config_def user_claim_def Let_def other split: sum.split option.split)
qed


lemma code_schema_fields:
  "code_schema e (body req) = Inr (p, c, n) \<Longrightarrow>
     body_fld req ''phone'' = VStr p \<and> body_fld req ''code'' = VStr c \<and> phone_ok p \<and>
     body_fld req ''note'' = (case n of None \<Rightarrow> VUndef | Some t \<Rightarrow> VStr t)"
  by (auto simp: code_schema_def zod_object_def code_fields_def zod_string_def zod_opt_string_def body_fld_def
      split: val.splits sum.splits if_splits)

lemma phone_schema_body:
  "body_fld req ''phone'' = VStr p \<Longrightarrow> phone_ok p \<Longrightarrow> phone_schema e (body req) = Inr p"
  by (auto simp: phone_schema_def zod_object_def zod_string_def body_fld_def split: val.splits)

text \<open>When the administrator's form answers that a code was added, a customer who then claims with that phone is
  given that very code, with its note and the configured texts.\<close>

theorem added_code_is_claimed:
  assumes "status (fst (fl_post_code e req st)) = 200"
    and "body_fld claim ''phone'' = body_fld req ''phone''"
  shows "fst (user_claim e2 claim (snd (fl_post_code e req st))) =
    fl_ok [(''found'', VBool True), (''code'', body_fld req ''code''),
      (''note'', case body_fld req ''note'' of VStr n \<Rightarrow> if n = [] then VNull else VStr n | _ \<Rightarrow> VNull),
      (''message'', VStr (config_or (fl_db st) ''success_msg'' fl_success_msg)),
      (''usage_tip'', VStr (config_or (fl_db st) ''usage_tip'' fl_usage_short))]"
proof -
  obtain p c n where s: "code_schema e (body req) = Inr (p, c, n)"
    using assms(1) by (auto simp: fl_post_code_def fl_fail_def split: sum.splits)
  note f = code_schema_fields [OF s]
  have fresh: "\<not> (\<exists>r\<in>set (fl_codes (fl_db st)). fc_phone r = p)"
  proof
    assume "\<exists>r\<in>set (fl_codes (fl_db st)). fc_phone r = p"
    then have "insert_code (sql_now e) p c n (fl_db st) = (Inl UniqueViolation, fl_db st)"
      by (simp add: insert_code_def)
    with assms(1) s show False by (simp add: fl_post_code_def fl_fail_def add_code_def)
  qed
  then have none: "get_code_by_phone p (fl_db st) = None"
    by (auto simp: get_code_by_phone_def find_None_iff)
  let ?db = "snd (insert_code (sql_now e) p c n (fl_db st))"
  have st1: "fl_db (snd (fl_post_code e req st)) = ?db"
    using s by (simp add: fl_post_code_def case_prod_beta add_code_snd)
  have config: "config_or ?db k d = config_or (fl_db st) k d" for k d
    by (simp add: config_or_def get_config_def insert_code_def Let_def)
  have found: "get_code_by_phone p ?db = Some \<lparr>fc_id = Suc (fl_seq (fl_db st)), fc_phone = p, fc_code = c,
      fc_note = null_if_empty n, fc_created = sql_now e, fc_updated = sql_now e\<rparr>"
    using insert_code_found [of p "sql_now e" p c n "fl_db st"] none by simp
  have "phone_schema e2 (body claim) = Inr p"
    by (rule phone_schema_body) (use f assms(2) in auto)
  with found f show ?thesis
    by (auto simp: user_claim_def st1 config null_if_empty_def split: option.splits list.splits)
qed

theorem added_code_is_claimed_witness:
  "let req = fl_request None (VObj [(''phone'', VStr ''13800138000''), (''code'', VStr ''123456'')]);
       claim = fl_request None (VObj [(''phone'', VStr ''13800138000'')]) in
   fst (user_claim fl_sample_env claim (snd (fl_post_code fl_sample_env req (fl_start no_tables)))) =
    fl_ok [(''found'', VBool True), (''code'', VStr ''123456''), (''note'', VNull),
      (''message'', VStr fl_success_msg), (''usage_tip'', VStr fl_usage_tip)]"
proof -
  let ?req = "fl_request None (VObj [(''phone'', VStr ''13800138000''), (''code'', VStr ''123456'')])"
  let ?claim = "fl_request None (VObj [(''phone'', VStr ''13800138000'')])"
  have f: "body_fld ?req ''phone'' = VStr ''13800138000''" "body_fld ?claim ''phone'' = VStr ''13800138000''"
    "body_fld ?req ''code'' = VStr ''123456''" "body_fld ?req ''note'' = VUndef"
    by (simp_all add: fl_request_def body_fld_def fld_def)
  have ok: "phone_ok ''13800138000'' \<and> code_ok ''123456''"
    by code_simp
  have "code_schema fl_sample_env (body ?req) = Inr (''13800138000'', ''123456'', None)"
    using ok by (simp add: code_schema_def zod_object_def fl_request_def code_fields_def zod_string_def
        zod_opt_string_def fld_def)
  then have "status (fst (fl_post_code fl_sample_env ?req (fl_start no_tables))) = 200"
    by (simp add: fl_post_code_def add_code_def insert_code_def fl_ok_def Let_def fl_start_def init_db_def no_tables_def)
  moreover have "config_or (fl_db (fl_start no_tables)) ''success_msg'' fl_success_msg = fl_success_msg \<and>
      config_or (fl_db (fl_start no_tables)) ''usage_tip'' fl_usage_short = fl_usage_tip"
    by code_simp
  ultimately show ?thesis
    using added_code_is_claimed [of fl_sample_env ?req "fl_start no_tables" ?claim fl_sample_env] f
    by (simp add: Let_def)
qed

end
