(* ===== verification/Config.thy ===== *)
theory Config
  imports Server_Safety
begin

text \<open>
  The configuration (\<^verbatim>\<open>src/src/config/index.ts\<close>) as a function of the environment variables, and the choice of
  the storage driver (\<^verbatim>\<open>storage/driver.ts\<close>).  The serial number of the certificate in a file is the argument
  \<open>serial_of\<close>, none when the file is absent or is no certificate.  Texts are bytes, so decoding the bytes of a
  certificate as UTF-8 leaves them as they are.  The parts of the configuration that the other theories use are
  \<open>server_config_of\<close> and \<open>wechat_config_of\<close>.
\<close>

section \<open>Environment variables\<close>

type_synonym environment = "string \<Rightarrow> string option"

text \<open>\<open>env.a ?? env.b ?? d\<close> and \<open>env.a || env.b || d\<close>\<close>

fun env_first :: "environment \<Rightarrow> string list \<Rightarrow> string \<Rightarrow> string" where
  "env_first env [] d = d"
| "env_first env (k # ks) d = (case env k of Some v \<Rightarrow> v | None \<Rightarrow> env_first env ks d)"

fun env_nonempty :: "environment \<Rightarrow> string list \<Rightarrow> string \<Rightarrow> string" where
  "env_nonempty env [] d = d"
| "env_nonempty env (k # ks) d = (if str_truthy (env k) then str_of (env k) else env_nonempty env ks d)"

definition env_required :: "environment \<Rightarrow> string \<Rightarrow> string option \<Rightarrow> js_error + string" where
  "env_required env name d =
     (case env name of
        Some v \<Rightarrow> Inr v
      | None \<Rightarrow> (case d of Some v \<Rightarrow> Inr v | None \<Rightarrow> Inl (PlainError (''Missing env '' @ name))))"

section \<open>Derived values\<close>

text \<open>The host and the port of the database; \<open>None\<close> is NaN.\<close>

definition parse_mysql_address :: "environment \<Rightarrow> string \<times> int option" where
  "parse_mysql_address env =
     (if str_truthy (env ''MYSQL_ADDRESS'')
      then (let parts = split_on (CHR '':'') (str_of (env ''MYSQL_ADDRESS''));
                port = (if length parts < 2 \<or> parts ! 1 = [] then ''3306'' else parts ! 1)
            in (hd parts, parse_int port))
      else (env_nonempty env [''DB_HOST''] ''127.0.0.1'', parse_int (env_first env [''DB_PORT''] ''3306'')))"

definition is_wx_cloud_run :: "environment \<Rightarrow> bool" where
  "is_wx_cloud_run env \<longleftrightarrow> str_truthy (env ''MYSQL_ADDRESS'') \<or> str_truthy (env ''WX_CLOUDRUN_ENV'')"

definition mch_dir :: string where
  "mch_dir = ''/www/wwwroot/H5/secrets/wechat/mch/''"

definition private_key_path_of :: "environment \<Rightarrow> string" where
  "private_key_path_of env =
     env_first env [''WX_PRIVATE_KEY_PATH'', ''WECHAT_MCH_PRIVATE_KEY_PATH''] (mch_dir @ ''apiclient_key.pem'')"

text \<open>\<open>keyPath.replace(/_key\.pem$/i, '_cert.pem')\<close>\<close>

definition cert_path_of :: "string \<Rightarrow> string" where
  "cert_path_of p =
     (let n = length p - 8
      in if 8 \<le> length p \<and> to_lower (drop n p) = ''_key.pem'' then take n p @ ''_cert.pem'' else p)"

fun first_serial :: "(string \<Rightarrow> string option) \<Rightarrow> string list \<Rightarrow> string" where
  "first_serial serial_of [] = []"
| "first_serial serial_of (p # ps) =
     (let s = filter (\<lambda>c. c \<noteq> CHR '':'') (str_of (serial_of p))
      in if s \<noteq> [] then s else first_serial serial_of ps)"

definition cert_serial :: "environment \<Rightarrow> (string \<Rightarrow> string option) \<Rightarrow> string" where
  "cert_serial env serial_of =
     (let s = env_first env [''WX_CERT_SERIAL_NO'', ''WECHAT_MCH_SERIAL_NO''] []
      in if s \<noteq> [] then s
         else first_serial serial_of
           [mch_dir @ ''apiclient_cert.pem'', mch_dir @ ''apiclient_cert.crt'',
            cert_path_of (private_key_path_of env)])"

definition content_of :: "environment \<Rightarrow> string \<Rightarrow> string" where
  "content_of env k = (if str_truthy (env k) then base64_decode (str_of (env k)) else [])"

section \<open>The configuration\<close>

record wechat_settings =
  enabled :: bool
  w_appId :: string
  w_mpSecret :: string
  w_miniAppId :: string
  w_miniAppSecret :: string
  mchId :: string
  certSerialNo :: string
  w_apiV3Key :: string
  privateKeyPath :: string
  platformCertPath :: string
  privateKeyContent :: string
  platformCertContent :: string
  notifyPath :: string
  jsSdkCacheTtl :: "int option"
  w_payAuthDir :: string

record app_config =
  c_env :: string
  c_port :: "int option"
  c_baseUrl :: string
  c_isWxCloudRun :: bool
  c_db_host :: string
  c_db_port :: "int option"
  c_db_user :: string
  c_db_password :: string
  c_db_database :: string
  c_redisUrl :: string
  c_jwtSecret :: string
  c_adminToken :: string
  c_orderUnpaidTtlMin :: "int option"
  c_wechat :: wechat_settings

definition load_wechat :: "environment \<Rightarrow> (string \<Rightarrow> string option) \<Rightarrow> wechat_settings" where
  "load_wechat env serial_of =
     \<lparr>enabled = to_lower (env_first env [''WECHAT_PAY_ENABLED''] ''true'') \<in> {''1'', ''true'', ''yes''},
      w_appId = env_first env [''WECHAT_MP_APPID'', ''WX_APP_ID''] [],
      w_mpSecret = env_first env [''WECHAT_MP_SECRET'', ''WX_MP_SECRET'', ''WX_APP_SECRET''] [],
      w_miniAppId = env_first env [''WECHAT_MINI_APPID''] [],
      w_miniAppSecret = env_first env [''WECHAT_MINI_SECRET''] [],
      mchId = env_first env [''WX_MCH_ID'', ''WECHAT_MCH_ID''] [],
      certSerialNo = cert_serial env serial_of,
      w_apiV3Key = env_first env [''WX_API_V3_KEY'', ''WECHAT_API_V3_KEY''] [],
      privateKeyPath = private_key_path_of env,
      platformCertPath = env_first env [''WX_PLATFORM_CERT_PATH'', ''WECHAT_PLATFORM_CERT_PATH'']
        ''/www/wwwroot/H5/secrets/wechat/platform/pub_key_wechatpay202512.pem'',
      privateKeyContent = content_of env ''WX_PRIVATE_KEY_CONTENT'',
      platformCertContent = content_of env ''WX_PLATFORM_CERT_CONTENT'',
      notifyPath = env_first env [''WECHAT_NOTIFY_PATH''] ''/api/v1/pay/wechat/notify'',
      jsSdkCacheTtl = parse_int (env_first env [''JS_SDK_CACHE_TTL''] ''5400''),
      w_payAuthDir = env_first env [''PAY_AUTH_DIR''] ''/h5/pay/''\<rparr>"

definition load_config :: "environment \<Rightarrow> (string \<Rightarrow> string option) \<Rightarrow> app_config" where
  "load_config env serial_of =
     \<lparr>c_env = env_first env [''NODE_ENV''] ''development'',
      c_port = parse_int (env_first env [''PORT''] ''3000''),
      c_baseUrl = env_first env [''BASE_URL''] ''https://www.jintai.cloud/h5/api'',
      c_isWxCloudRun = is_wx_cloud_run env,
      c_db_host = fst (parse_mysql_address env),
      c_db_port = snd (parse_mysql_address env),
      c_db_user = env_nonempty env [''MYSQL_USERNAME'', ''DB_USER''] ''root'',
      c_db_password = env_nonempty env [''MYSQL_PASSWORD'', ''DB_PASSWORD''] [],
      c_db_database = env_nonempty env [''DB_NAME''] ''jtfp_property'',
      c_redisUrl = env_first env [''REDIS_URL''] ''redis://127.0.0.1:6379'',
      c_jwtSecret = env_first env [''JWT_SECRET''] ''change_me'',
      c_adminToken = env_first env [''ADMIN_TOKEN''] [],
      c_orderUnpaidTtlMin = parse_int (env_first env [''ORDER_UNPAID_TTL_MIN''] ''10''),
      c_wechat = load_wechat env serial_of\<rparr>"

definition ttl_ms :: "app_config \<Rightarrow> int option" where
  "ttl_ms c = map_option (\<lambda>m. m * 60 * 1000) (c_orderUnpaidTtlMin c)"

definition server_config_of :: "app_config \<Rightarrow> server_config" where
  "server_config_of c =
     \<lparr>adminToken = c_adminToken c, jwtSecret = c_jwtSecret c, wechat_enabled = enabled (c_wechat c),
      payAuthDir = w_payAuthDir (c_wechat c)\<rparr>"

definition wechat_config_of :: "app_config \<Rightarrow> wechat_config" where
  "wechat_config_of c =
     \<lparr>appId = w_appId (c_wechat c), mpSecret = w_mpSecret (c_wechat c), miniAppId = w_miniAppId (c_wechat c),
      miniAppSecret = w_miniAppSecret (c_wechat c), baseUrl = c_baseUrl c, node_env = c_env c,
      apiV3Key = w_apiV3Key (c_wechat c)\<rparr>"

section \<open>The storage driver\<close>

definition current_driver :: "environment \<Rightarrow> string" where
  "current_driver env = env_nonempty env [''STORAGE_DRIVER''] ''file''"

definition use_file_store :: "environment \<Rightarrow> bool" where
  "use_file_store env \<longleftrightarrow> current_driver env = ''file''"

definition use_mysql :: "environment \<Rightarrow> bool" where
  "use_mysql env \<longleftrightarrow> current_driver env = ''mysql''"

definition init_storage :: "environment \<Rightarrow> string \<Rightarrow> fs_state \<Rightarrow> fs_state" where
  "init_storage env now st = (if use_file_store env then init_default_data now st else st)"

section \<open>The check of the table at the start\<close>

text \<open>
  \<open>checkDatabaseSchema\<close> of \<^verbatim>\<open>src/src/index.ts\<close>.  The database is the list of the columns of \<open>properties\<close>;
  \<open>column_query\<close> is the outcome of reading them and \<open>alter_ok\<close> says for which fields
  \<open>ALTER TABLE properties ADD COLUMN IF NOT EXISTS\<close> succeeds.  The result is the columns afterwards and the counts of
  the repair, none when there was none.
\<close>

definition required_fields :: "string list" where
  "required_fields =
     [''holding_years'', ''price_cent'', ''cover_url'', ''description'', ''status'', ''is_featured'', ''sort_order'',
      ''stock'', ''images'', ''module_config'', ''category_id'']"

definition defined_fields :: "string list" where
  "defined_fields =
     [''holding_years'', ''price_cent'', ''cover_url'', ''images'', ''description'', ''status'', ''is_featured'',
      ''sort_order'', ''stock'', ''module_config'', ''category_id'']"

definition missing_fields :: "string list \<Rightarrow> string list" where
  "missing_fields cols = filter (\<lambda>f. f \<notin> set cols) required_fields"

definition add_column :: "string \<Rightarrow> string list \<Rightarrow> string list" where
  "add_column f cols = (if f \<in> set cols then cols else cols @ [f])"

fun repair_fields :: "(string \<Rightarrow> bool) \<Rightarrow> string list \<Rightarrow> string list \<Rightarrow> nat \<times> nat \<times> string list" where
  "repair_fields alter_ok [] cols = (0, 0, cols)"
| "repair_fields alter_ok (f # fs) cols =
     (if f \<in> set defined_fields \<and> alter_ok f
      then (let (s, x, cols1) = repair_fields alter_ok fs (add_column f cols) in (Suc s, x, cols1))
      else (let (s, x, cols1) = repair_fields alter_ok fs cols in (s, Suc x, cols1)))"

definition check_database_schema ::
  "environment \<Rightarrow> bool \<Rightarrow> (string \<Rightarrow> bool) \<Rightarrow> string list \<Rightarrow> (nat \<times> nat) option \<times> string list" where
  "check_database_schema env query_ok alter_ok cols =
     (if use_file_store env \<or> \<not> query_ok then (None, cols)
      else (let missing = missing_fields cols in
            if missing \<noteq> [] \<and> is_wx_cloud_run env
            then (let (s, x, cols1) = repair_fields alter_ok missing cols in (Some (s, x), cols1))
            else (None, cols)))"

text \<open>\<open>start\<close> up to the server listening: the store of files or the check of the table.\<close>

definition start_server ::
  "environment \<Rightarrow> string \<Rightarrow> bool \<Rightarrow> (string \<Rightarrow> bool) \<Rightarrow> fs_state \<times> string list \<Rightarrow> fs_state \<times> string list" where
  "start_server env now query_ok alter_ok sc =
     (if use_file_store env then (init_storage env now (fst sc), snd sc)
      else (fst sc, snd (check_database_schema env query_ok alter_ok (snd sc))))"

lemma repair_fields_columns:
  "set (snd (snd (repair_fields alter_ok fs cols))) =
     set cols \<union> {f \<in> set fs. f \<in> set defined_fields \<and> alter_ok f}"
proof (induction fs arbitrary: cols)
  case (Cons f fs)
  from Cons [of "add_column f cols"] Cons [of cols] show ?case
    by (auto simp: add_column_def Let_def case_prod_beta)
qed simp

lemma repair_fields_counts:
  "case repair_fields alter_ok fs cols of (s, x, _) \<Rightarrow> s + x = length fs \<and>
     s = length (filter (\<lambda>f. f \<in> set defined_fields \<and> alter_ok f) fs)"
proof (induction fs arbitrary: cols)
  case (Cons f fs)
  from Cons [of "add_column f cols"] Cons [of cols] show ?case
    by (simp add: Let_def case_prod_beta)
qed simp

lemma required_fields_defined: "set required_fields \<subseteq> set defined_fields"
  by (simp add: required_fields_def defined_fields_def)

text \<open>In the cloud environment, with the database driver, one start repairs the table: when every statement
  succeeds all required columns are there afterwards and none was lost, the number of repaired columns is reported
  without failures, and a second start finds nothing to do.\<close>

theorem schema_repair_is_complete_and_idempotent:
  assumes "current_driver env \<noteq> ''file''" "is_wx_cloud_run env" "\<forall>f\<in>set required_fields. alter_ok f"
  shows "case check_database_schema env True alter_ok cols of (r, cols1) \<Rightarrow>
     set cols1 = set cols \<union> set required_fields \<and>
     r = (if missing_fields cols = [] then None else Some (length (missing_fields cols), 0)) \<and>
     check_database_schema env True alter_ok cols1 = (None, cols1)"
proof -
  have all: "f \<in> set defined_fields \<and> alter_ok f" if "f \<in> set (missing_fields cols)" for f
    using that assms(3) required_fields_defined by (auto simp: missing_fields_def)
  have miss: "set (missing_fields cols) = set required_fields - set cols"
    by (auto simp: missing_fields_def)
  obtain s x cols1 where r: "repair_fields alter_ok (missing_fields cols) cols = (s, x, cols1)"
    by (cases "repair_fields alter_ok (missing_fields cols) cols")
  have cols1: "set cols1 = set cols \<union> set required_fields"
    using repair_fields_columns [where alter_ok = alter_ok and fs = "missing_fields cols" and cols = cols] all miss r by auto
  then have none: "missing_fields cols1 = []"
    by (auto simp: missing_fields_def filter_empty_conv)
  have "s = length (missing_fields cols)" "x = 0"
    using repair_fields_counts [where alter_ok = alter_ok and fs = "missing_fields cols" and cols = cols] r all by auto
  then have check: "check_database_schema env True alter_ok cols =
      (if missing_fields cols = [] then None else Some (length (missing_fields cols), 0), cols1)"
    using assms(1,2) r by (cases "missing_fields cols") (simp_all add: check_database_schema_def use_file_store_def)
  have "check_database_schema env True alter_ok cols1 = (None, cols1)"
    using none by (simp add: check_database_schema_def)
  with check cols1 show ?thesis by simp
qed

definition cloud_env :: environment where
  "cloud_env = [''STORAGE_DRIVER'' \<mapsto> ''mysql'', ''WX_CLOUDRUN_ENV'' \<mapsto> ''prod'']"

theorem schema_repair_is_complete_and_idempotent_witness:
  "case check_database_schema cloud_env True (\<lambda>_. True) [''id'', ''status''] of (r, cols1) \<Rightarrow>
     set cols1 = set [''id'', ''status''] \<union> set required_fields \<and>
     r = (if missing_fields [''id'', ''status''] = [] then None else Some (length (missing_fields [''id'', ''status'']), 0)) \<and>
     check_database_schema cloud_env True (\<lambda>_. True) cols1 = (None, cols1)"
proof (rule schema_repair_is_complete_and_idempotent)
  show "current_driver cloud_env \<noteq> ''file''" "is_wx_cloud_run cloud_env"
    by (simp_all add: cloud_env_def current_driver_def is_wx_cloud_run_def str_truthy_def str_of_def)
qed simp

section \<open>Defaults\<close>

text \<open>An installation without the environment variable ADMIN_TOKEN, or with an empty one, has no administration:
  every request below an administration mount is answered 401 and leaves the store alone, whatever token it
  carries.\<close>

theorem unset_admin_token_closes_administration:
  assumes "\<not> str_truthy (env ''ADMIN_TOKEN'')" "cfg w = server_config_of (load_config env serial_of)"
    and "a \<in> set admin_paths" "prefix a (map to_lower ss)"
  shows "\<exists>r. serve w e m ss req st = (r, st) \<and> status r = 401"
proof (rule admin_path_refused [OF assms(3,4)])
  have "c_adminToken (load_config env serial_of) = []"
    using assms(1) by (auto simp: load_config_def str_truthy_def split: option.splits)
  then show "adminToken (cfg w) = [] \<or> headers req ''authorization'' \<noteq> Some (''Bearer '' @ adminToken (cfg w))"
    by (simp add: assms(2) server_config_of_def)
qed

theorem unset_admin_token_closes_administration_witness:
  "\<exists>r. serve (sample_world\<lparr>cfg := server_config_of (load_config (\<lambda>_. None) (\<lambda>_. None))\<rparr>) (sample_env 0) DELETE
        [''api'', ''v1'', ''admin'', ''orders'', ''A1''] (sample_request (Some ''Bearer '') VUndef) (store_with (\<lambda>_. [])) =
      (r, store_with (\<lambda>_. [])) \<and> status r = 401"
proof (rule unset_admin_token_closes_administration)
  show "\<not> str_truthy ((\<lambda>_. None) ''ADMIN_TOKEN'')" by (simp add: str_truthy_def)
  show "cfg (sample_world\<lparr>cfg := server_config_of (load_config (\<lambda>_. None) (\<lambda>_. None))\<rparr>) =
      server_config_of (load_config (\<lambda>_. None) (\<lambda>_. None))" by simp
  show "[''api'', ''v1'', ''admin'', ''orders''] \<in> set admin_paths" by code_simp
  show "prefix [''api'', ''v1'', ''admin'', ''orders''] (map to_lower [''api'', ''v1'', ''admin'', ''orders'', ''A1''])"
    by code_simp
qed

text \<open>The secret of the tokens, in contrast, has a public default: without JWT_SECRET, a token anybody signs with
  \<open>change_me\<close> is valid.\<close>

lemma default_secret_forges_tokens:
  assumes "env ''JWT_SECRET'' = None" "jwtSecret forger = ''change_me''"
    and "digest_ok e" "json_plain (VObj (jwt_body e payload ttl))" "hmac_base64 e' = hmac_base64 e"
    and "fld (jwt_body e payload ttl) ''exp'' = VInt x" "now_sec e' \<le> x"
  shows "verify_jwt (server_config_of (load_config env serial_of)) e' (sign_jwt forger e payload ttl) =
    Some (VObj (jwt_body e payload ttl))"
proof -
  let ?cfg = "server_config_of (load_config env serial_of)"
  have "jwtSecret ?cfg = jwtSecret forger"
    using assms(1,2) by (simp add: server_config_of_def load_config_def)
  then have "sign_jwt forger e payload ttl = sign_jwt ?cfg e payload ttl"
    by (simp add: sign_jwt_def jwt_signature_def)
  with jwt_reads_back [OF assms(3,4,5), of ?cfg] assms(6,7) show ?thesis
    by (simp add: Let_def)
qed

section \<open>Health and debugging\<close>

text \<open>The answers of \<open>GET /health\<close>, \<open>/h5/api/health\<close>, \<open>/debug/config\<close> and \<open>/debug/db\<close>, which no guard
  protects.  \<open>db_query\<close> is the outcome of a query on the pool: the rows, or message, code and number of the error.\<close>

definition health :: "app_config \<Rightarrow> response" where
  "health c = json_res 200 [(''ok'', VBool True), (''env'', VStr (c_env c))]"

definition health_h5 :: "app_config \<Rightarrow> response" where
  "health_h5 c = json_res 200 [(''ok'', VBool True), (''env'', VStr (c_env c)), (''prefix'', VStr ''/h5/api'')]"

definition debug_config :: "environment \<Rightarrow> app_config \<Rightarrow> response" where
  "debug_config env c =
     json_res 200
       [(''env'', VStr (c_env c)), (''hasAdminToken'', VBool (c_adminToken c \<noteq> [])),
        (''adminTokenLength'', VNat (length (c_adminToken c))),
        (''ADMIN_TOKEN_ENV'', VStr (if str_truthy (env ''ADMIN_TOKEN'') then ''set'' else ''not set''))]"

definition address_part :: "environment \<Rightarrow> nat \<Rightarrow> string \<Rightarrow> string" where
  "address_part env i k =
     (let parts = (case env ''MYSQL_ADDRESS'' of None \<Rightarrow> [] | Some a \<Rightarrow> split_on (CHR '':'') a)
      in if i < length parts \<and> parts ! i \<noteq> [] then parts ! i else env_nonempty env [k] ''not set'')"

definition debug_db :: "environment \<Rightarrow> (val \<times> val \<times> val) + val \<Rightarrow> response" where
  "debug_db env db_query =
     (let conf = VObj
            [(''host'', VStr (address_part env 0 ''DB_HOST'')), (''port'', VStr (address_part env 1 ''DB_PORT'')),
             (''user'', VStr (env_nonempty env [''MYSQL_USERNAME'', ''DB_USER''] ''not set'')),
             (''database'', VStr (env_nonempty env [''DB_NAME''] ''not set'')),
             (''hasPassword'', VBool (env_nonempty env [''MYSQL_PASSWORD'', ''DB_PASSWORD''] [] \<noteq> [])),
             (''MYSQL_ADDRESS'', VStr (env_nonempty env [''MYSQL_ADDRESS''] ''not set''))]
      in case db_query of
           Inr rows \<Rightarrow> json_res 200 [(''ok'', VBool True), (''config'', conf), (''queryResult'', rows)]
         | Inl (m, code, errno) \<Rightarrow>
             json_res 500 [(''ok'', VBool False), (''error'', m), (''code'', code), (''errno'', errno), (''config'', conf)])"

text \<open>Anybody can read the length of the administrator's token.\<close>

lemma debug_config_tells_token_length:
  "fld (case answer (debug_config env c) of VObj r \<Rightarrow> r | _ \<Rightarrow> []) ''adminTokenLength'' = VNat (length (c_adminToken c))"
  by (simp add: debug_config_def json_res_def fld_def)

end
