(* ===== verification/Payment.thy ===== *)
theory Payment
  imports Config
begin

text \<open>
  The client of the payment service (\<^verbatim>\<open>services/wxpay.ts\<close>, \<^verbatim>\<open>services/wxpay_mini.ts\<close>), the check of its
  notifications (\<^verbatim>\<open>services/wxpay_verify.ts\<close>), the identifiers of orders and payments (\<^verbatim>\<open>utils/id.ts\<close>), the
  signature for the JS SDK (\<^verbatim>\<open>services/wechat_mp.ts\<close>, \<^verbatim>\<open>routes/api_v1/wechat.ts\<close>) and the diagnostic and
  disabled routes around them.  The files, the RSA and hash functions, the random nonces and the HTTP calls are
  fields of \<open>pay_env\<close>; the calls get the same payload whose text was signed.
\<close>

section \<open>Environment\<close>

record pay_env =
  p_sec :: nat
  p_nonce :: "nat \<Rightarrow> string"
  p_read :: "string \<Rightarrow> js_error + string"
  p_sign :: "string \<Rightarrow> string \<Rightarrow> js_error + string"
  p_verify :: "string \<Rightarrow> string \<Rightarrow> string \<Rightarrow> js_error + bool"
  p_post :: "string \<Rightarrow> string \<Rightarrow> val \<Rightarrow> js_error + val"
  p_get :: "string \<Rightarrow> string \<Rightarrow> js_error + val"

section \<open>Identifiers\<close>

text \<open>\<open>rand\<close> is \<open>Math.floor(Math.random() * 100000)\<close> and \<open>Math.floor(Math.random() * 1000000)\<close>.\<close>

definition gen_order_no :: "string \<Rightarrow> nat \<Rightarrow> nat \<Rightarrow> string" where
  "gen_order_no pre ts rand = pre @ nat_to_string ts @ pad0 5 (nat_to_string rand)"

definition gen_out_trade_no :: "string \<Rightarrow> nat \<Rightarrow> nat \<Rightarrow> string" where
  "gen_out_trade_no pre ts rand = pre @ nat_to_string ts @ pad0 6 (nat_to_string rand)"

section \<open>Signed requests\<close>

definition newline :: char where
  "newline = CHR 0x0A"

text \<open>The signed text: its parts, each followed by a line feed.\<close>

definition sign_lines :: "string list \<Rightarrow> string" where
  "sign_lines ls = concat (map (\<lambda>l. l @ [newline]) ls)"

definition required_value :: "string \<Rightarrow> string \<Rightarrow> js_error + string" where
  "required_value v name = (if v = [] then Inl (PlainError (name @ '' is required'')) else Inr v)"

definition is_wx_configured :: "wechat_settings \<Rightarrow> bool" where
  "is_wx_configured w \<longleftrightarrow> mchId w \<noteq> [] \<and> w_apiV3Key w \<noteq> [] \<and> certSerialNo w \<noteq> [] \<and> privateKeyPath w \<noteq> []"

definition is_mini_pay_configured :: "wechat_settings \<Rightarrow> bool" where
  "is_mini_pay_configured w \<longleftrightarrow>
     w_miniAppId w \<noteq> [] \<and> mchId w \<noteq> [] \<and> w_apiV3Key w \<noteq> [] \<and> certSerialNo w \<noteq> [] \<and> privateKeyPath w \<noteq> []"

definition merchant_private_key :: "pay_env \<Rightarrow> wechat_settings \<Rightarrow> js_error + string" where
  "merchant_private_key e w = bindE (required_value (privateKeyPath w) ''WX_PRIVATE_KEY_PATH'') (p_read e)"

definition quoted :: "string \<Rightarrow> string \<Rightarrow> string" where
  "quoted k v = k @ ''=\"'' @ v @ ''\"''"

text \<open>The nonce is the \<open>i\<close>-th that the operation draws.\<close>

definition build_auth_token ::
  "pay_env \<Rightarrow> wechat_settings \<Rightarrow> nat \<Rightarrow> string \<Rightarrow> string \<Rightarrow> string \<Rightarrow> js_error + string" where
  "build_auth_token e w i m path text =
     bindE (required_value (mchId w) ''WX_MCH_ID'') (\<lambda>mchid.
     bindE (required_value (certSerialNo w) ''WX_CERT_SERIAL_NO'') (\<lambda>serial.
     let nonce = p_nonce e i; ts = nat_to_string (p_sec e) in
     bindE (merchant_private_key e w) (\<lambda>key.
     bindE (p_sign e key (sign_lines [m, path, ts, nonce, text])) (\<lambda>sign.
     Inr (''WECHATPAY2-SHA256-RSA2048 '' @
       join '','' [quoted ''mchid'' mchid, quoted ''nonce_str'' nonce, quoted ''timestamp'' ts,
         quoted ''serial_no'' serial, quoted ''signature'' sign])))))"

section \<open>Prepayment\<close>

definition sign_pay :: "pay_env \<Rightarrow> wechat_settings \<Rightarrow> string \<Rightarrow> val \<Rightarrow> js_error + row" where
  "sign_pay e w appid prepay_id =
     (let ts = nat_to_string (p_sec e); nonce = p_nonce e 1; pkg = ''prepay_id='' @ js_to_string prepay_id in
      bindE (merchant_private_key e w) (\<lambda>key.
      bindE (p_sign e key (sign_lines [appid, ts, nonce, pkg])) (\<lambda>sign.
      Inr [(''timeStamp'', VStr ts), (''nonceStr'', VStr nonce), (''package'', VStr pkg),
           (''signType'', VStr ''RSA''), (''paySign'', VStr sign)])))"

definition sign_jsapi :: "pay_env \<Rightarrow> wechat_settings \<Rightarrow> string \<Rightarrow> val \<Rightarrow> js_error + row" where
  "sign_jsapi e w appid prepay_id =
     bindE (sign_pay e w appid prepay_id) (\<lambda>r. Inr ((''appId'', VStr appid) # r))"

definition sign_jsapi_for_mini :: "pay_env \<Rightarrow> wechat_settings \<Rightarrow> string \<Rightarrow> val \<Rightarrow> js_error + row" where
  "sign_jsapi_for_mini = sign_pay"

definition pay_payload ::
  "app_config \<Rightarrow> string \<Rightarrow> string \<Rightarrow> string \<Rightarrow> string \<Rightarrow> val \<Rightarrow> row \<Rightarrow> val" where
  "pay_payload c appid mchid trade_no description amount rest =
     VObj ([(''appid'', VStr appid), (''mchid'', VStr mchid), (''description'', VStr description),
        (''out_trade_no'', VStr trade_no), (''notify_url'', VStr (c_baseUrl c @ notifyPath (c_wechat c))),
        (''amount'', VObj [(''total'', amount), (''currency'', VStr ''CNY'')])] @ rest)"

definition jsapi_path :: string where
  "jsapi_path = ''/v3/pay/transactions/jsapi''"

definition h5_path :: string where
  "h5_path = ''/v3/pay/transactions/h5''"

text \<open>The signed call with a payload.\<close>

definition post_signed :: "pay_env \<Rightarrow> wechat_settings \<Rightarrow> string \<Rightarrow> val \<Rightarrow> js_error + val" where
  "post_signed e w path payload =
     bindE (build_auth_token e w 0 ''POST'' path (json_text payload)) (\<lambda>auth. p_post e path auth payload)"

definition jsapi_prepay ::
  "pay_env \<Rightarrow> app_config \<Rightarrow> string \<Rightarrow> string \<Rightarrow> val \<Rightarrow> string \<Rightarrow> js_error + row" where
  "jsapi_prepay e c trade_no description amount openid =
     (let w = c_wechat c in
      bindE (required_value (w_appId w) ''WX_APP_ID'') (\<lambda>appid.
      bindE (required_value (mchId w) ''WX_MCH_ID'') (\<lambda>mchid.
      bindE (post_signed e w jsapi_path (pay_payload c appid mchid trade_no description amount
               [(''payer'', VObj [(''openid'', VStr openid)])])) (\<lambda>data.
      bindE (prop_of data ''prepay_id'') (\<lambda>prepay_id. sign_jsapi e w appid prepay_id)))))"

definition mini_jsapi_prepay ::
  "pay_env \<Rightarrow> app_config \<Rightarrow> string \<Rightarrow> string \<Rightarrow> val \<Rightarrow> string \<Rightarrow> js_error + row" where
  "mini_jsapi_prepay e c trade_no description amount openid =
     (let w = c_wechat c in
      bindE (required_value (w_miniAppId w) ''WECHAT_MINI_APPID'') (\<lambda>appid.
      bindE (required_value (mchId w) ''WX_MCH_ID'') (\<lambda>mchid.
      bindE (post_signed e w jsapi_path (pay_payload c appid mchid trade_no description amount
               [(''payer'', VObj [(''openid'', VStr openid)])])) (\<lambda>data.
      bindE (prop_of data ''prepay_id'') (\<lambda>prepay_id. sign_jsapi_for_mini e w appid prepay_id)))))"

definition h5_prepay ::
  "pay_env \<Rightarrow> app_config \<Rightarrow> string \<Rightarrow> string \<Rightarrow> val \<Rightarrow> string \<Rightarrow> js_error + val" where
  "h5_prepay e c trade_no description amount client_ip =
     (let w = c_wechat c in
      bindE (required_value (w_appId w) ''WX_APP_ID'') (\<lambda>appid.
      bindE (required_value (mchId w) ''WX_MCH_ID'') (\<lambda>mchid.
      post_signed e w h5_path (pay_payload c appid mchid trade_no description amount
        [(''scene_info'', VObj [(''payer_client_ip'', VStr client_ip),
            (''h5_info'', VObj [(''type'', VStr ''Wap'')])])]))))"

definition trade_path :: "string \<Rightarrow> string" where
  "trade_path trade_no = ''/v3/pay/transactions/out-trade-no/'' @ uri_encode trade_no"

definition query_order :: "pay_env \<Rightarrow> wechat_settings \<Rightarrow> string \<Rightarrow> js_error + val" where
  "query_order e w trade_no =
     bindE (required_value (mchId w) ''WX_MCH_ID'') (\<lambda>mchid.
     let path = trade_path trade_no @ ''?mchid='' @ uri_encode mchid in
     bindE (build_auth_token e w 0 ''GET'' path []) (\<lambda>auth. p_get e path auth))"

definition close_order :: "pay_env \<Rightarrow> wechat_settings \<Rightarrow> string \<Rightarrow> js_error + val" where
  "close_order e w trade_no =
     bindE (required_value (mchId w) ''WX_MCH_ID'') (\<lambda>mchid.
     post_signed e w (trade_path trade_no @ ''/close'') (VObj [(''mchid'', VStr mchid)]))"

text \<open>\<open>urlPath\<close>, which no code calls: the text from the first slash after \<open>://\<close>, behind another slash.\<close>

fun after_scheme :: "string \<Rightarrow> string option" where
  "after_scheme [] = None"
| "after_scheme (c # s) =
     (if prefix ''://'' (c # s) then Some (drop 3 (c # s)) else after_scheme s)"

definition url_path_of :: "string \<Rightarrow> string" where
  "url_path_of u =
     (case after_scheme u of
        None \<Rightarrow> u
      | Some p \<Rightarrow> if CHR ''/'' \<in> set p then CHR ''/'' # dropWhile (\<lambda>c. c \<noteq> CHR ''/'') p else ''/'')"

section \<open>Notifications\<close>

definition load_platform_public_key :: "pay_env \<Rightarrow> wechat_settings \<Rightarrow> string option" where
  "load_platform_public_key e w =
     (if platformCertPath w = [] then None
      else case p_read e (platformCertPath w) of Inr k \<Rightarrow> Some k | Inl _ \<Rightarrow> None)"

definition verify_signature :: "pay_env \<Rightarrow> string \<Rightarrow> string \<Rightarrow> string \<Rightarrow> string \<Rightarrow> string \<Rightarrow> bool" where
  "verify_signature e ts nonce text sign pem =
     (case p_verify e pem (sign_lines [ts, nonce, text]) sign of Inr ok \<Rightarrow> ok | Inl _ \<Rightarrow> False)"

text \<open>The signature check that the notification handler makes with this configuration.\<close>

definition notify_check :: "pay_env \<Rightarrow> wechat_settings \<Rightarrow> (string \<Rightarrow> string \<Rightarrow> string \<Rightarrow> string \<Rightarrow> bool) option" where
  "notify_check e w =
     map_option (\<lambda>pem ts nonce text sign. verify_signature e ts nonce text sign pem) (load_platform_public_key e w)"

definition configured_notify ::
  "pay_env \<Rightarrow> app_config \<Rightarrow> (string \<Rightarrow> string \<Rightarrow> string option \<Rightarrow> string \<Rightarrow> string \<Rightarrow> js_error + string) \<Rightarrow>
   call_env \<Rightarrow> request \<Rightarrow> string \<Rightarrow> fs_state \<Rightarrow> response \<times> fs_state" where
  "configured_notify pe c gcm_open e req raw st =
     notify_route e (notify_check pe (c_wechat c))
       (\<lambda>r. decrypt_resource gcm_open r (w_apiV3Key (c_wechat c))) req raw st"

section \<open>Diagnostic and disabled routes\<close>

text \<open>\<open>POST /wechat/jsapi/prepay\<close> of \<^verbatim>\<open>pay.ts\<close> behind its two guards and of \<^verbatim>\<open>pay_mini.ts\<close> behind a login.\<close>

definition payment_disabled :: response where
  "payment_disabled = json_res 400 [(''code'', VStr ''PAYMENT_DISABLED''), (''message'', VStr msg_pay_disabled)]"

definition prepay_route ::
  "(string \<Rightarrow> string option) \<Rightarrow> server_config \<Rightarrow> request \<Rightarrow> 's \<Rightarrow> response \<times> 's" where
  "prepay_route url_path sc req =
     guarded (require_wechat_ua sc req)
       (guarded (require_pay_auth_dir url_path sc req) (\<lambda>st. (payment_disabled, st)))"

definition mini_prepay_route :: "server_config \<Rightarrow> call_env \<Rightarrow> request \<Rightarrow> fs_state \<Rightarrow> response \<times> fs_state" where
  "mini_prepay_route sc e req = user_only sc e req (\<lambda>uid st. (payment_disabled, st))"

definition pay_diag :: "(string \<Rightarrow> bool) \<Rightarrow> wechat_settings \<Rightarrow> response" where
  "pay_diag file_exists w =
     json_res 200
       [(''mchIdPresent'', VBool (mchId w \<noteq> [])), (''certSerialNoPresent'', VBool (certSerialNo w \<noteq> [])),
        (''apiV3KeyLen'', VNat (length (w_apiV3Key w))), (''privateKeyPath'', VStr (privateKeyPath w)),
        (''privateKeyExists'', VBool (privateKeyPath w \<noteq> [] \<and> file_exists (privateKeyPath w))),
        (''enabled'', VBool (enabled w)), (''payAuthDir'', VStr (w_payAuthDir w))]"

definition mask_secret :: "string \<Rightarrow> string" where
  "mask_secret s =
     (if s = [] then []
      else if length s \<le> 6 then [hd s] @ ''***'' @ [last s]
      else take 2 s @ ''***'' @ drop (length s - 2) s)"

definition wechat_diag ::
  "wechat_config \<Rightarrow> http_client \<Rightarrow> call_env \<Rightarrow> token_cache \<Rightarrow> response \<times> token_cache" where
  "wechat_diag w http_get e c =
     (let ip = (case http_get ''https://api.ipify.org?format=json'' of
                  Inl _ \<Rightarrow> VUndef
                | Inr data \<Rightarrow> (case prop_of data ''ip'' of Inr v \<Rightarrow> v | Inl _ \<Rightarrow> VUndef));
          (t, c1) = get_access_token w http_get e c
      in (json_res 200
            [(''appId'', VStr (appId w)), (''mpSecretMasked'', VStr (mask_secret (mpSecret w))),
             (''secretLength'', VNat (length (mpSecret w))), (''egressIp'', ip),
             (''accessTokenOk'', VBool (case t of Inr s \<Rightarrow> s \<noteq> [] | Inl _ \<Rightarrow> False)),
             (''accessTokenError'', case t of Inr _ \<Rightarrow> VUndef | Inl err \<Rightarrow> VStr (err_message e err)),
             (''notes'', VStr ''This endpoint is temporary for diagnostics; remove after debugging.'')], c1))"

section \<open>The signed text determines its parts\<close>

lemma lines_cons_inject:
  "newline \<notin> set a \<Longrightarrow> newline \<notin> set b \<Longrightarrow> a @ newline # r = b @ newline # s \<longleftrightarrow> a = b \<and> r = s"
proof (induction a arbitrary: b)
  case Nil
  then show ?case by (cases b) auto
next
  case (Cons x a)
  then show ?case by (cases b) auto
qed

lemma sign_lines_inject:
  assumes "length ls = length ks" "\<forall>l\<in>set (butlast ls) \<union> set (butlast ks). newline \<notin> set l"
  shows "sign_lines ls = sign_lines ks \<longleftrightarrow> ls = ks"
  using assms
proof (induction ls ks rule: list_induct2)
  case (Cons l ls k ks)
  show ?case
  proof (cases ls)
    case Nil
    with Cons show ?thesis by (simp add: sign_lines_def)
  next
    case (Cons l' ls')
    then obtain k' ks' where ks: "ks = k' # ks'"
      using Cons.hyps by (cases ks) auto
    with Cons Cons.prems have "newline \<notin> set l" "newline \<notin> set k" by auto
    moreover have "sign_lines ls = sign_lines ks \<longleftrightarrow> ls = ks"
      using Cons.IH Cons.prems Cons ks by auto
    ultimately show ?thesis
      using lines_cons_inject [of l k "sign_lines ls" "sign_lines ks"] by (simp add: sign_lines_def)
  qed
qed simp

lemma bindE_Inr: "bindE x f = Inr y \<longleftrightarrow> (\<exists>a. x = Inr a \<and> f a = Inr y)"
  by (cases x) (auto simp: bindE_def)

lemma join_last_inject: "join d (xs @ [x]) = join d (xs @ [y]) \<longleftrightarrow> x = y"
proof (induction xs)
  case (Cons a xs)
  then show ?case by (cases xs) auto
qed simp

text \<open>The authorization of a signed call binds it: when a signature belongs to one text only, two calls of one
  configuration that have the same authorization (at the same clock reading and nonce) have the same method, the
  same path and the same payload, so an amount cannot be exchanged under a given authorization.\<close>

theorem authorization_binds_payload:
  assumes "\<And>k t t' s. p_sign e k t = Inr s \<Longrightarrow> p_sign e k t' = Inr s \<Longrightarrow> t = t'"
    and "build_auth_token e w i m path (json_text v) = Inr a" "build_auth_token e w i m' path' (json_text v') = Inr a"
    and "newline \<notin> set m \<union> set m' \<union> set path \<union> set path' \<union> set (p_nonce e i)"
    and "json_plain v" "json_plain v'"
  shows "m = m' \<and> path = path' \<and> v = v'"
proof -
  let ?ts = "nat_to_string (p_sec e)"
  from assms(2) obtain key s where key: "merchant_private_key e w = Inr key"
    and s: "p_sign e key (sign_lines [m, path, ?ts, p_nonce e i, json_text v]) = Inr s"
    and a: "a = ''WECHATPAY2-SHA256-RSA2048 '' @ join '','' [quoted ''mchid'' (mchId w), quoted ''nonce_str'' (p_nonce e i),
      quoted ''timestamp'' ?ts, quoted ''serial_no'' (certSerialNo w), quoted ''signature'' s]"
    by (auto simp: build_auth_token_def bindE_Inr required_value_def Let_def split: if_splits)
  from assms(3) key obtain s' where s': "p_sign e key (sign_lines [m', path', ?ts, p_nonce e i, json_text v']) = Inr s'"
    and a': "a = ''WECHATPAY2-SHA256-RSA2048 '' @ join '','' [quoted ''mchid'' (mchId w), quoted ''nonce_str'' (p_nonce e i),
      quoted ''timestamp'' ?ts, quoted ''serial_no'' (certSerialNo w), quoted ''signature'' s']"
    by (auto simp: build_auth_token_def bindE_Inr required_value_def Let_def split: if_splits)
  have "quoted ''signature'' s = quoted ''signature'' s'"
    using trans [OF a [symmetric] a'] unfolding same_append_eq
    by (rule iffD1 [OF join_last_inject [of _ "[x1, x2, x3, x4]" for x1 x2 x3 x4, unfolded append_Cons append_Nil]])
  then have "s = s'" by (simp add: quoted_def)
  with s s' have eq: "sign_lines [m, path, ?ts, p_nonce e i, json_text v] = sign_lines [m', path', ?ts, p_nonce e i, json_text v']"
    using assms(1) by blast
  have ts: "newline \<notin> set ?ts"
    using nat_to_string_digits [of "p_sec e"] by (auto simp: newline_def is_digit_def list_all_iff)
  have "[m, path, ?ts, p_nonce e i, json_text v] = [m', path', ?ts, p_nonce e i, json_text v']"
    by (rule iffD1 [OF sign_lines_inject eq]) (simp, use ts assms(4) in \<open>simp del: One_nat_def\<close>)
  then have "m = m' \<and> path = path' \<and> json_text v = json_text v'" by simp
  moreover from this have "json_parse (json_text v) = json_parse (json_text v')" by simp
  then have "v = v'"
    unfolding json_roundtrip [OF assms(5)] json_roundtrip [OF assms(6)] by simp
  ultimately show ?thesis by simp
qed

text \<open>An environment whose signature of a text is the text.\<close>

definition sample_pay_env :: pay_env where
  "sample_pay_env = \<lparr>p_sec = 5, p_nonce = (\<lambda>_. ''n''), p_read = (\<lambda>_. Inr ''key''), p_sign = (\<lambda>k t. Inr t),
     p_verify = (\<lambda>k t s. Inr (t = s)), p_post = (\<lambda>_ _ _. Inl TypeError), p_get = (\<lambda>_ _. Inl TypeError)\<rparr>"

definition sample_settings :: wechat_settings where
  "sample_settings = (load_wechat (\<lambda>_. None) (\<lambda>_. None))\<lparr>mchId := ''1'', certSerialNo := ''2'', w_apiV3Key := ''3''\<rparr>"

theorem authorization_binds_payload_witness:
  "build_auth_token sample_pay_env sample_settings 0 ''POST'' jsapi_path (json_text (VObj [(''total'', VNum 1)])) \<noteq>
   build_auth_token sample_pay_env sample_settings 0 ''POST'' jsapi_path (json_text (VObj [(''total'', VNum 100)]))"
proof
  let ?t = "\<lambda>x. build_auth_token sample_pay_env sample_settings 0 ''POST'' jsapi_path (json_text (VObj [(''total'', VNum x)]))"
  assume eq: "?t 1 = ?t 100"
  have "\<exists>a. ?t 1 = Inr a"
    by (simp add: build_auth_token_def sample_pay_env_def sample_settings_def load_wechat_def required_value_def
        merchant_private_key_def private_key_path_of_def mch_dir_def Let_def bindE_def)
  then obtain a where a: "?t 1 = Inr a" ..
  with eq have b: "?t 100 = Inr a" by simp
  have "''POST'' = ''POST'' \<and> jsapi_path = jsapi_path \<and> VObj [(''total'', VNum 1)] = VObj [(''total'', VNum 100)]"
    by (rule authorization_binds_payload [OF _ a b])
      (simp_all add: sample_pay_env_def newline_def jsapi_path_def is_int_rat_def)
  then show False by simp
qed

section \<open>Notifications\<close>

text \<open>When the platform key cannot be read, no signature is checked at all: the handler is that with a check that
  every signature passes.\<close>

lemma missing_platform_key_skips_check:
  "load_platform_public_key pe (c_wechat c) = None \<Longrightarrow>
   configured_notify pe c gcm_open e req raw st =
     notify_route e (Some (\<lambda>_ _ _ _. True)) (\<lambda>r. decrypt_resource gcm_open r (w_apiV3Key (c_wechat c))) req raw st"
  by (simp add: configured_notify_def notify_check_def notify_route_def wx_notify_def Let_def)

lemma rejected_signature:
  "sign_ok = Some f \<Longrightarrow>
   \<not> f (str_of (headers req ''wechatpay-timestamp'')) (str_of (headers req ''wechatpay-nonce'')) raw
      (str_of (headers req ''wechatpay-signature'')) \<Longrightarrow>
   status (fst (notify_route e sign_ok decrypt req raw st)) = 401"
  by (simp add: notify_route_def wx_notify_def Let_def res_status_def)

lemma accepted_signature:
  assumes "load_platform_public_key pe (c_wechat c) = Some pem"
    and "status (fst (configured_notify pe c gcm_open e req raw st)) \<noteq> 401"
  shows "p_verify pe pem (sign_lines [str_of (headers req ''wechatpay-timestamp''),
      str_of (headers req ''wechatpay-nonce''), raw]) (str_of (headers req ''wechatpay-signature'')) = Inr True"
proof -
  have check: "notify_check pe (c_wechat c) = Some (\<lambda>ts nonce text sign. verify_signature pe ts nonce text sign pem)"
    using assms(1) by (simp add: notify_check_def)
  have "verify_signature pe (str_of (headers req ''wechatpay-timestamp'')) (str_of (headers req ''wechatpay-nonce''))
      raw (str_of (headers req ''wechatpay-signature'')) pem"
    using assms(2) rejected_signature [OF check] unfolding configured_notify_def by blast
  then show ?thesis
    by (auto simp: verify_signature_def split: sum.splits)
qed

text \<open>The signature of a notification covers its time stamp, its nonce and its body: when the platform key is
  there and a signature verifies for one text only, two notifications with the same signature header that are not
  refused as unsigned have the same body, time stamp and nonce.\<close>

theorem notification_signature_binds_body:
  assumes "\<And>t t' s. p_verify pe pem t s = Inr True \<Longrightarrow> p_verify pe pem t' s = Inr True \<Longrightarrow> t = t'"
    and "load_platform_public_key pe (c_wechat c) = Some pem"
    and "headers req ''wechatpay-signature'' = headers req' ''wechatpay-signature''"
    and "\<forall>h\<in>{''wechatpay-timestamp'', ''wechatpay-nonce''}.
           newline \<notin> set (str_of (headers req h)) \<union> set (str_of (headers req' h))"
    and "status (fst (configured_notify pe c gcm_open e req raw st)) \<noteq> 401"
    and "status (fst (configured_notify pe c gcm_open e' req' raw' st')) \<noteq> 401"
  shows "raw = raw' \<and> str_of (headers req ''wechatpay-timestamp'') = str_of (headers req' ''wechatpay-timestamp'') \<and>
     str_of (headers req ''wechatpay-nonce'') = str_of (headers req' ''wechatpay-nonce'')"
proof -
  let ?h = "\<lambda>r k. str_of (headers r k)"
  have eq: "sign_lines [?h req ''wechatpay-timestamp'', ?h req ''wechatpay-nonce'', raw] =
      sign_lines [?h req' ''wechatpay-timestamp'', ?h req' ''wechatpay-nonce'', raw']"
    using accepted_signature [OF assms(2,5)] accepted_signature [OF assms(2,6)] assms(1,3) by simp
  have "[?h req ''wechatpay-timestamp'', ?h req ''wechatpay-nonce'', raw] =
      [?h req' ''wechatpay-timestamp'', ?h req' ''wechatpay-nonce'', raw']"
    by (rule iffD1 [OF sign_lines_inject eq]) (simp, use assms(4) in simp)
  then show ?thesis by simp
qed

definition sample_notification :: request where
  "sample_notification = \<lparr>headers = [''wechatpay-timestamp'' \<mapsto> ''1'', ''wechatpay-nonce'' \<mapsto> ''n'',
     ''wechatpay-signature'' \<mapsto> sign_lines [''1'', ''n'', ''x'']], query = (\<lambda>_. None), params = (\<lambda>_. []), body = VUndef\<rparr>"

theorem notification_signature_binds_body_witness:
  "status (fst (configured_notify sample_pay_env (load_config (\<lambda>_. None) (\<lambda>_. None)) (\<lambda>_ _ _ _ _. Inl TypeError)
     (sample_env 0) sample_notification ''y'' (store_with (\<lambda>_. [])))) = 401"
proof (rule ccontr)
  let ?c = "load_config (\<lambda>_. None) (\<lambda>_. None)"
  let ?run = "\<lambda>raw. configured_notify sample_pay_env ?c (\<lambda>_ _ _ _ _. Inl TypeError)
     (sample_env 0) sample_notification raw (store_with (\<lambda>_. []))"
  assume y: "status (fst (?run ''y'')) \<noteq> 401"
  have key: "load_platform_public_key sample_pay_env (c_wechat ?c) = Some ''key''"
    by (simp add: load_platform_public_key_def sample_pay_env_def load_config_def load_wechat_def)
  have "json_parse ''x'' = None" by code_simp
  moreover have "verify_signature sample_pay_env ''1'' ''n'' ''x'' (sign_lines [''1'', ''n'', ''x'']) ''key''"
    by (simp add: verify_signature_def sample_pay_env_def)
  ultimately have x: "status (fst (?run ''x'')) \<noteq> 401"
    by (simp add: configured_notify_def notify_check_def key notify_route_def wx_notify_def Let_def sample_notification_def str_of_def)
  have "''x'' = ''y'' \<and> str_of (headers sample_notification ''wechatpay-timestamp'') =
      str_of (headers sample_notification ''wechatpay-timestamp'') \<and>
      str_of (headers sample_notification ''wechatpay-nonce'') = str_of (headers sample_notification ''wechatpay-nonce'')"
    by (rule notification_signature_binds_body [OF _ key refl _ x y])
      (simp_all add: sample_pay_env_def sample_notification_def newline_def str_of_def)
  then show False by simp
qed

section \<open>Identifiers and small functions\<close>

lemma out_trade_no_injective:
  assumes "rand < 1000000" "rand' < 1000000"
  shows "gen_out_trade_no pre ts rand = gen_out_trade_no pre ts' rand' \<longleftrightarrow> ts = ts' \<and> rand = rand'"
proof -
  have "length (pad0 6 (nat_to_string n)) = 6" if "n < 1000000" for n
    using nat_to_string_length [of n 5] that by simp
  with assms show ?thesis
    by (simp add: gen_out_trade_no_def pad0_inj nat_to_string_inj)
qed

text \<open>A path behind a host keeps its slash and gets a second one.\<close>

lemma url_path_doubles_the_slash:
  assumes "CHR '':'' \<notin> set scheme" "CHR ''/'' \<notin> set host"
  shows "url_path_of (scheme @ ''://'' @ host @ ''/'' @ path) = ''//'' @ path"
proof -
  have "after_scheme (scheme @ ''://'' @ host @ ''/'' @ path) = Some (host @ ''/'' @ path)"
    using assms(1) by (induction scheme) (auto simp: prefix_def)
  moreover have "dropWhile (\<lambda>c. c \<noteq> CHR ''/'') (host @ ''/'' @ path) = ''/'' @ path"
    using assms(2) by (induction host) auto
  ultimately show ?thesis
    by (simp add: url_path_of_def)
qed

text \<open>Of a secret of more than six characters, the masked text depends on the first two and the last two only.\<close>

lemma masked_secret_shows_four:
  "length s = length t \<Longrightarrow> 6 < length s \<Longrightarrow> take 2 s = take 2 t \<Longrightarrow> drop (length s - 2) s = drop (length t - 2) t \<Longrightarrow>
   mask_secret s = mask_secret t \<and> length (mask_secret s) = 7"
  by (auto simp: mask_secret_def)

text \<open>Being configured does not suffice for a prepayment: \<open>isWxConfigured\<close> does not ask for the app id that
  \<open>jsapiPrepay\<close> requires.\<close>

lemma configured_without_app_id_fails:
  "is_wx_configured (c_wechat c) \<Longrightarrow> w_appId (c_wechat c) = [] \<Longrightarrow>
   jsapi_prepay e c trade_no description amount openid = Inl (PlainError ''WX_APP_ID is required'')"
  by (simp add: jsapi_prepay_def required_value_def bindE_def Let_def)

end
