(* ===== verification/Services.thy ===== *)
theory Services
  imports Users_Repo Orders_Repo
begin

text \<open>
  The services between routes and repositories: the change log of orders
  (\<^verbatim>\<open>services/order_change_log_service.ts\<close>) and the users (\<^verbatim>\<open>services/user_service.ts\<close>), which turn the two
  time stamps of a user into dates.  \<open>date_of\<close> is \<open>new Date(text)\<close>.
\<close>

section \<open>Change log\<close>

definition log_order_change ::
  "string \<Rightarrow> val \<Rightarrow> string \<Rightarrow> val \<Rightarrow> val \<Rightarrow> string option \<Rightarrow> fs_state \<Rightarrow> fs_state" where
  "log_order_change now n change_type oldv newv op st =
     log_change now n change_type (js_or oldv (VStr [])) (js_or newv (VStr []))
       (Some (case op of None \<Rightarrow> ''system'' | Some x \<Rightarrow> x)) st"

definition get_order_change_logs :: "string \<Rightarrow> val \<Rightarrow> fs_state \<Rightarrow> row list \<times> fs_state" where
  "get_order_change_logs now n st = get_change_logs now n st"

section \<open>Users\<close>

definition user_with_dates :: "(val \<Rightarrow> val) \<Rightarrow> row \<Rightarrow> row" where
  "user_with_dates date_of user =
     spread user [(''created_at'', date_of (fld user ''created_at'')), (''updated_at'', date_of (fld user ''updated_at''))]"

definition service_find_or_create_user ::
  "(val \<Rightarrow> val) \<Rightarrow> string \<Rightarrow> row \<Rightarrow> fs_state \<Rightarrow> row \<times> fs_state" where
  "service_find_or_create_user date_of now params st =
     (let (user, st1) = find_or_create_user now params st in (user_with_dates date_of user, st1))"

definition service_user_by_id ::
  "(val \<Rightarrow> val) \<Rightarrow> string \<Rightarrow> val \<Rightarrow> fs_state \<Rightarrow> row option \<times> fs_state" where
  "service_user_by_id date_of now i st =
     (let (user, st1) = get_user_by_id now i st in (map_option (user_with_dates date_of) user, st1))"

definition service_user_by_openid ::
  "(val \<Rightarrow> val) \<Rightarrow> string \<Rightarrow> val \<Rightarrow> fs_state \<Rightarrow> row option \<times> fs_state" where
  "service_user_by_openid date_of now v st =
     (let (user, st1) = get_user_by_openid now v st in (map_option (user_with_dates date_of) user, st1))"

definition service_user_by_identity ::
  "(val \<Rightarrow> val) \<Rightarrow> string \<Rightarrow> row \<Rightarrow> fs_state \<Rightarrow> (js_error + row) \<times> fs_state" where
  "service_user_by_identity date_of now params st =
     (case find_or_create_by_identity now params st of
        (Inl err, st1) \<Rightarrow> (Inl err, st1)
      | (Inr user, st1) \<Rightarrow> (Inr (user_with_dates date_of user), st1))"

definition service_mini_identity :: "string \<Rightarrow> val \<Rightarrow> fs_state \<Rightarrow> row option \<times> fs_state" where
  "service_mini_identity now uid st = get_mini_identity now uid st"

text \<open>Every other field of a user, and the effect on the store, are those of the repository.\<close>

lemma service_user_fields:
  "k \<noteq> ''created_at'' \<Longrightarrow> k \<noteq> ''updated_at'' \<Longrightarrow>
   fld (fst (service_find_or_create_user date_of now params st)) k = fld (fst (find_or_create_user now params st)) k \<and>
   snd (service_find_or_create_user date_of now params st) = snd (find_or_create_user now params st)"
  by (simp add: service_find_or_create_user_def user_with_dates_def case_prod_beta fld_spread)

end
