(* ===== verification/Mini_Cart.thy ===== *)
theory Mini_Cart
  imports Row_Store Listing
begin

text \<open>
  The shopping cart of the mini program: the local storage and \<^verbatim>\<open>miniapp/utils/cart.js\<close>, the normalisation of
  image addresses (\<^verbatim>\<open>utils/url.js\<close>) and the cart page (\<^verbatim>\<open>pages/cart/index.js\<close>).  The storage maps a key to
  a value; a missing key reads as the empty string.  Of a page its data are modelled and the page it opens; toasts
  and dialogs are not, the answer to a dialog is an argument.
\<close>

section \<open>Storage\<close>

type_synonym storage = "string \<Rightarrow> val option"

definition get_storage :: "storage \<Rightarrow> string \<Rightarrow> val" where
  "get_storage s k = (case s k of None \<Rightarrow> VStr [] | Some v \<Rightarrow> v)"

section \<open>The cart\<close>

definition get_cart :: "storage \<Rightarrow> val list" where
  "get_cart s = (case get_storage s ''cart'' of VArr vs \<Rightarrow> vs | _ \<Rightarrow> [])"

definition set_cart :: "val list \<Rightarrow> storage \<Rightarrow> storage" where
  "set_cart items s = s(''cart'' \<mapsto> VArr items)"

definition make_key :: "val \<Rightarrow> val \<Rightarrow> string" where
  "make_key product_id sku_id =
     js_to_string (to_num product_id) @ '':'' @ js_to_string (to_num (js_or sku_id (VNum 0)))"

text \<open>\<open>x && x.key === key\<close>, \<open>{...x}\<close> and \<open>Math.max(1, n)\<close>.\<close>

definition has_key :: "string \<Rightarrow> val \<Rightarrow> bool" where
  "has_key k x \<longleftrightarrow> (case x of VObj r \<Rightarrow> strict_eq (fld r ''key'') (VStr k) | _ \<Rightarrow> False)"

definition row_of :: "val \<Rightarrow> row" where
  "row_of x = (case x of VObj r \<Rightarrow> r | _ \<Rightarrow> [])"

fun at_least_1 :: "val \<Rightarrow> val" where
  "at_least_1 (VNum x) = VNum (max 1 x)"
| "at_least_1 (VInf p) = (if p then VInf p else VNum 1)"
| "at_least_1 _ = VNaN"

text \<open>\<open>Number(v || d)\<close>\<close>

definition num_or :: "val \<Rightarrow> rat \<Rightarrow> val" where
  "num_or v d = to_num (js_or v (VNum d))"

definition is_one :: "val \<Rightarrow> bool" where
  "is_one v \<longleftrightarrow> strict_eq (num_or v 0) (VNum 1)"

definition cart_item :: "row \<Rightarrow> row" where
  "cart_item p =
     (let pid = to_num (fld p ''productId'');
          sku = (if truthy (fld p ''skuId'') then to_num (fld p ''skuId'') else VNum 0)
      in [(''key'', VStr (make_key pid sku)), (''productId'', pid), (''skuId'', js_or sku VNull),
          (''qty'', at_least_1 (num_or (fld p ''qty'') 1)), (''title'', js_or (fld p ''title'') (VStr [])),
          (''skuTitle'', js_or (fld p ''skuTitle'') (VStr [])), (''cover_url'', js_or (fld p ''cover_url'') (VStr [])),
          (''price_cent'', num_or (fld p ''price_cent'') 0), (''is_welfare'', VNum 0)])"

definition item_key :: "row \<Rightarrow> string" where
  "item_key p = js_to_string (fld (cart_item p) ''key'')"

definition merge_item :: "row \<Rightarrow> val \<Rightarrow> val" where
  "merge_item item old =
     (let q = at_least_1 (num_add (num_or (fld (row_of old) ''qty'') 0) (fld item ''qty''))
      in VObj (spread (spread (row_of old) item) [(''qty'', q)]))"

definition add_to_cart :: "row \<Rightarrow> storage \<Rightarrow> val list \<times> storage" where
  "add_to_cart p s =
     (if is_one (fld p ''is_welfare'') then (get_cart s, s)
      else
        (let cart = get_cart s; item = cart_item p;
             cart1 = (case find_index (has_key (item_key p)) cart of
                        Some i \<Rightarrow> cart[i := merge_item item (cart ! i)]
                      | None \<Rightarrow> cart @ [VObj item])
         in (cart1, set_cart cart1 s)))"

definition update_qty :: "string \<Rightarrow> val \<Rightarrow> storage \<Rightarrow> val list \<times> storage" where
  "update_qty k qty s =
     (let cart = get_cart s in
      case find_index (has_key k) cart of
        None \<Rightarrow> (cart, s)
      | Some i \<Rightarrow>
          (let old = row_of (cart ! i);
               q = (if is_one (fld old ''is_welfare'') then VNum 1 else at_least_1 (num_or qty 1));
               cart1 = cart[i := VObj (spread old [(''qty'', q)])]
           in (cart1, set_cart cart1 s)))"

text \<open>\<open>filter((x) => x && x.key !== key)\<close>\<close>

definition remove_item :: "string \<Rightarrow> storage \<Rightarrow> val list \<times> storage" where
  "remove_item k s =
     (let cart1 = filter (\<lambda>x. truthy x \<and> \<not> has_key k x) (get_cart s) in (cart1, set_cart cart1 s))"

definition clear_cart :: "storage \<Rightarrow> storage" where
  "clear_cart s = set_cart [] s"

section \<open>Image addresses\<close>

definition api_origin :: string where
  "api_origin = ''https://www.jintai.cloud''"

definition normalize_image_url :: "val \<Rightarrow> string" where
  "normalize_image_url v =
     (let url = trim (js_to_string v) in
      if nullish v \<or> url = [] then ''/assets/images/tab-home.png''
      else if prefix ''http://'' (to_lower url) \<or> prefix ''https://'' (to_lower url) then url
      else if prefix ''//'' url then ''https:'' @ url
      else if prefix ''/'' url then api_origin @ url
      else api_origin @ ''/'' @ url)"

lemma placeholder_not_kept:
  "normalize_image_url (VStr (normalize_image_url VUndef)) = api_origin @ normalize_image_url VUndef"
  by code_simp

definition with_cover :: "val \<Rightarrow> js_error + row" where
  "with_cover it =
     bindE (prop_of it ''cover_url'') (\<lambda>c.
     Inr (spread (row_of it) [(''cover_url'', VStr (normalize_image_url c))]))"

section \<open>The cart page\<close>

record cart_page =
  cp_items :: "row list"
  cp_total :: val

fun num_mul :: "val \<Rightarrow> val \<Rightarrow> val" where
  "num_mul (VNum x) (VNum y) = VNum (x * y)"
| "num_mul (VNum x) (VInf p) = (if x = 0 then VNaN else VInf (p = (0 < x)))"
| "num_mul (VInf p) (VNum x) = (if x = 0 then VNaN else VInf (p = (0 < x)))"
| "num_mul (VInf p) (VInf q) = VInf (p = q)"
| "num_mul _ _ = VNaN"

text \<open>\<open>items.reduce((sum, it) => sum + Number(it.price_cent || 0) * Number(it.qty || 0), 0)\<close>\<close>

definition item_total :: "row \<Rightarrow> val" where
  "item_total it = num_mul (num_or (fld it ''price_cent'') 0) (num_or (fld it ''qty'') 0)"

definition total_cent :: "row list \<Rightarrow> val" where
  "total_cent items = foldl (\<lambda>sum it. num_add sum (item_total it)) (VNum 0) items"

definition load_cart :: "storage \<Rightarrow> js_error + cart_page" where
  "load_cart s =
     bindE (mapE with_cover (get_cart s)) (\<lambda>items. Inr \<lparr>cp_items = items, cp_total = total_cent items\<rparr>)"

text \<open>A handler: the storage and the page afterwards; when \<open>loadCart\<close> throws, the page keeps its data.\<close>

definition reload_cart :: "cart_page \<Rightarrow> storage \<Rightarrow> storage \<times> cart_page" where
  "reload_cart pg s = (s, case load_cart s of Inr pg1 \<Rightarrow> pg1 | Inl _ \<Rightarrow> pg)"

definition page_item :: "cart_page \<Rightarrow> string \<Rightarrow> row option" where
  "page_item pg k = find (\<lambda>x. strict_eq (fld x ''key'') (VStr k)) (cp_items pg)"

text \<open>\<open>v == 1\<close>\<close>

fun loosely_one :: "val \<Rightarrow> bool" where
  "loosely_one (VNum x) = (x = 1)"
| "loosely_one (VBool b) = b"
| "loosely_one (VStr t) = (str_to_num t = VNum 1)"
| "loosely_one (VArr vs) = (str_to_num (js_to_string (VArr vs)) = VNum 1)"
| "loosely_one _ = False"

text \<open>\<open>confirmed\<close> is the answer to the dialog that asks whether to remove the item.\<close>

definition cart_dec :: "string \<Rightarrow> bool \<Rightarrow> storage \<times> cart_page \<Rightarrow> storage \<times> cart_page" where
  "cart_dec k confirmed sp =
     (case sp of (s, pg) \<Rightarrow>
        case page_item pg k of
          None \<Rightarrow> sp
        | Some item \<Rightarrow>
            if loosely_one (fld item ''is_welfare'') then sp
            else (let q = num_add (num_or (fld item ''qty'') 1) (VNum (- 1)) in
                  if num_less q (VNum 1)
                  then (if confirmed then reload_cart pg (snd (remove_item k s)) else sp)
                  else reload_cart pg (snd (update_qty k q s))))"

definition cart_inc :: "string \<Rightarrow> storage \<times> cart_page \<Rightarrow> storage \<times> cart_page" where
  "cart_inc k sp =
     (case sp of (s, pg) \<Rightarrow>
        case page_item pg k of
          None \<Rightarrow> sp
        | Some item \<Rightarrow>
            if loosely_one (fld item ''is_welfare'') then sp
            else (let q = num_add (num_or (fld item ''qty'') 1) (VNum 1) in
                  if num_less (VNum 99) q then sp
                  else reload_cart pg (snd (update_qty k q s))))"

definition cart_remove :: "string \<Rightarrow> bool \<Rightarrow> storage \<times> cart_page \<Rightarrow> storage \<times> cart_page" where
  "cart_remove k confirmed sp =
     (if confirmed then reload_cart (snd sp) (snd (remove_item k (fst sp))) else sp)"

text \<open>\<open>goCheckout\<close>: the page that is opened.\<close>

definition go_checkout :: "cart_page \<Rightarrow> string option" where
  "go_checkout pg = (if cp_items pg = [] then None else Some ''/pages/checkout/index'')"

section \<open>Well-formed carts and their quantities\<close>

definition item_ok :: "val \<Rightarrow> bool" where
  "item_ok x \<longleftrightarrow> (case x of
     VObj r \<Rightarrow>
       (case (fld r ''key'', fld r ''qty'', fld r ''price_cent'', fld r ''is_welfare'') of
          (VStr _, VNum q, VNum p, VNum w) \<Rightarrow> 1 \<le> q \<and> 0 \<le> p \<and> w = 0
        | _ \<Rightarrow> False)
   | _ \<Rightarrow> False)"

definition key_of :: "val \<Rightarrow> string" where
  "key_of x = js_to_string (fld (row_of x) ''key'')"

definition qty_of :: "val \<Rightarrow> rat" where
  "qty_of x = (case fld (row_of x) ''qty'' of VNum q \<Rightarrow> q | _ \<Rightarrow> 0)"

definition cart_ok :: "val list \<Rightarrow> bool" where
  "cart_ok vs \<longleftrightarrow> distinct (map key_of vs) \<and> (\<forall>x\<in>set vs. item_ok x)"

text \<open>The abstract cart: how many of each key it holds.\<close>

definition quantities :: "val list \<Rightarrow> string \<Rightarrow> rat" where
  "quantities vs k = (case find (has_key k) vs of None \<Rightarrow> 0 | Some x \<Rightarrow> qty_of x)"

datatype cart_op = Add row | Set_qty string val | Remove string | Clear

fun cart_step :: "cart_op \<Rightarrow> storage \<Rightarrow> storage" where
  "cart_step (Add p) s = snd (add_to_cart p s)"
| "cart_step (Set_qty k v) s = snd (update_qty k v s)"
| "cart_step (Remove k) s = snd (remove_item k s)"
| "cart_step Clear s = clear_cart s"

text \<open>What a client passes: a quantity that is a number (minus infinity counts as one), a price that is a number and
  not negative.\<close>

fun op_ok :: "cart_op \<Rightarrow> bool" where
  "op_ok (Add p) \<longleftrightarrow>
     (case (num_or (fld p ''qty'') 1, num_or (fld p ''price_cent'') 0) of (VNum _, VNum c) \<Rightarrow> 0 \<le> c | _ \<Rightarrow> False)"
| "op_ok (Set_qty k v) \<longleftrightarrow> (case num_or v 1 of VNum _ \<Rightarrow> True | VInf p \<Rightarrow> \<not> p | _ \<Rightarrow> False)"
| "op_ok _ \<longleftrightarrow> True"

definition abs_qty :: "val \<Rightarrow> rat" where
  "abs_qty v = (case num_or v 1 of VNum q \<Rightarrow> max 1 q | _ \<Rightarrow> 1)"

fun abs_step :: "cart_op \<Rightarrow> (string \<Rightarrow> rat) \<Rightarrow> string \<Rightarrow> rat" where
  "abs_step (Add p) f =
     (if is_one (fld p ''is_welfare'') then f else f(item_key p := f (item_key p) + abs_qty (fld p ''qty'')))"
| "abs_step (Set_qty k v) f = (if f k = 0 then f else f(k := abs_qty v))"
| "abs_step (Remove k) f = f(k := 0)"
| "abs_step Clear f = (\<lambda>_. 0)"

lemma item_okE:
  assumes "item_ok x"
  obtains r k q p where "x = VObj r" "fld r ''key'' = VStr k" "fld r ''qty'' = VNum q" "fld r ''price_cent'' = VNum p"
    "fld r ''is_welfare'' = VNum 0" "1 \<le> q" "0 \<le> p"
  using assms by (auto simp: item_ok_def split: val.splits)

lemma has_key_iff: "item_ok x \<Longrightarrow> has_key k x \<longleftrightarrow> key_of x = k"
  by (erule item_okE) (auto simp: has_key_def key_of_def row_of_def)

lemma qty_of_ge: "item_ok x \<Longrightarrow> 1 \<le> qty_of x"
  by (erule item_okE) (simp add: qty_of_def row_of_def)

lemma get_set_cart [simp]: "get_cart (set_cart vs s) = vs"
  by (simp add: get_cart_def set_cart_def get_storage_def)

lemma fld_cart_item [simp]:
  "fld (cart_item p) ''key'' = VStr (item_key p)"
  "fld (cart_item p) ''qty'' = at_least_1 (num_or (fld p ''qty'') 1)"
  "fld (cart_item p) ''price_cent'' = num_or (fld p ''price_cent'') 0"
  "fld (cart_item p) ''is_welfare'' = VNum 0"
  by (simp_all add: cart_item_def Let_def fld_def item_key_def)

lemma cart_item_ok:
  assumes "op_ok (Add p)"
  shows "item_ok (VObj (cart_item p))" "key_of (VObj (cart_item p)) = item_key p"
    "qty_of (VObj (cart_item p)) = abs_qty (fld p ''qty'')"
  using assms by (auto simp: item_ok_def key_of_def qty_of_def row_of_def abs_qty_def split: val.splits)

lemma merge_item_ok:
  assumes "op_ok (Add p)" "item_ok x" "key_of x = item_key p"
  shows "item_ok (merge_item (cart_item p) x)" "key_of (merge_item (cart_item p) x) = item_key p"
    "qty_of (merge_item (cart_item p) x) = qty_of x + abs_qty (fld p ''qty'')"
proof -
  obtain r q c where x: "x = VObj r" "fld r ''key'' = VStr (item_key p)" "fld r ''qty'' = VNum q" "1 \<le> q"
    using assms(2,3) by (auto elim!: item_okE simp: key_of_def row_of_def)
  obtain n c where n: "num_or (fld p ''qty'') 1 = VNum n" "num_or (fld p ''price_cent'') 0 = VNum c" "0 \<le> c"
    using assms(1) by (auto split: val.splits)
  have old: "num_or (VNum q) 0 = VNum q"
    by (simp add: num_or_def js_or_def)
  let ?m = "spread (spread r (cart_item p)) [(''qty'', VNum (max 1 (q + max 1 n)))]"
  have m: "merge_item (cart_item p) x = VObj ?m"
    using x n old by (simp add: merge_item_def row_of_def)
  have f: "fld ?m ''key'' = VStr (item_key p)" "fld ?m ''qty'' = VNum (max 1 (q + max 1 n))"
    "fld ?m ''price_cent'' = VNum c" "fld ?m ''is_welfare'' = VNum 0"
    using n by (simp_all add: fld_def update_conv map_of_spread cart_item_def Let_def item_key_def)
  show "item_ok (merge_item (cart_item p) x)" "key_of (merge_item (cart_item p) x) = item_key p"
    "qty_of (merge_item (cart_item p) x) = qty_of x + abs_qty (fld p ''qty'')"
    unfolding m using f n x by (simp_all add: item_ok_def key_of_def qty_of_def row_of_def abs_qty_def)
qed

lemma find_upd_first:
  assumes "\<forall>x\<in>set vs. item_ok x" "\<And>x. x \<in> set vs \<Longrightarrow> key_of x = k \<Longrightarrow> item_ok (f x) \<and> key_of (f x) = k"
  shows "find (has_key k') (upd_first (has_key k) f vs) =
    (if k' = k then map_option f (find (has_key k) vs) else find (has_key k') vs)"
  using assms
proof (induction vs)
  case (Cons x vs)
  have IH: "find (has_key k') (upd_first (has_key k) f vs) =
      (if k' = k then map_option f (find (has_key k) vs) else find (has_key k') vs)"
    by (rule Cons.IH) (use Cons.prems in auto)
  have hx: "has_key j x \<longleftrightarrow> key_of x = j" for j
    using Cons.prems(1) has_key_iff by simp
  show ?case
  proof (cases "key_of x = k")
    case True
    then have "has_key j (f x) \<longleftrightarrow> k = j" for j
      using Cons.prems(2) [of x] has_key_iff [of "f x"] by simp
    with True hx show ?thesis by simp
  next
    case False
    with hx IH show ?thesis by (cases "k' = k") simp_all
  qed
qed simp

lemma upd_first_ok:
  assumes "cart_ok vs" "\<And>x. x \<in> set vs \<Longrightarrow> key_of x = k \<Longrightarrow> item_ok (f x) \<and> key_of (f x) = k"
  shows "cart_ok (upd_first (has_key k) f vs)"
proof -
  have ok: "\<forall>x\<in>set vs. item_ok x" and dist: "distinct (map key_of vs)"
    using assms(1) by (simp_all add: cart_ok_def)
  have f: "item_ok (f x) \<and> key_of (f x) = key_of x" if "x \<in> set vs" "has_key k x" for x
    using assms(2) [of x] has_key_iff [of x k] that ok by auto
  have "map key_of (upd_first (has_key k) f vs) = map key_of vs"
    by (rule map_upd_first_same) (simp add: f)
  moreover have "item_ok y" if "y \<in> set (upd_first (has_key k) f vs)" for y
    using subsetD [OF set_upd_first that] f ok by auto
  ultimately show ?thesis
    using dist by (simp add: cart_ok_def)
qed

lemma find_snoc: "find P (xs @ [x]) = (case find P xs of Some y \<Rightarrow> Some y | None \<Rightarrow> if P x then Some x else None)"
  by (induction xs) auto

lemma find_key_Some:
  "cart_ok vs \<Longrightarrow> find (has_key k) vs = Some x \<Longrightarrow> x \<in> set vs \<and> item_ok x \<and> key_of x = k"
  by (auto simp: find_Some_iff cart_ok_def has_key_iff)

lemma find_index_find: "find_index P vs = Some i \<Longrightarrow> find P vs = Some (vs ! i)"
  by (induction vs arbitrary: i) (auto split: if_splits)

lemma find_index_find_None: "find_index P vs = None \<longleftrightarrow> find P vs = None"
  by (auto simp: find_index_None find_None_iff)

lemma quantities_0: "cart_ok vs \<Longrightarrow> quantities vs k = 0 \<longleftrightarrow> find (has_key k) vs = None"
  using find_key_Some [of vs k] qty_of_ge by (fastforce simp: quantities_def split: option.splits)

text \<open>Adding, setting and removing on a well-formed cart.\<close>

lemma add_step:
  assumes "cart_ok (get_cart s)" "op_ok (Add p)"
  shows "cart_ok (get_cart (cart_step (Add p) s)) \<and>
    quantities (get_cart (cart_step (Add p) s)) = abs_step (Add p) (quantities (get_cart s))"
proof (cases "is_one (fld p ''is_welfare'')")
  case True
  then show ?thesis using assms by (simp add: add_to_cart_def)
next
  case False
  let ?k = "item_key p" and ?vs = "get_cart s"
  show ?thesis
  proof (cases "find_index (has_key ?k) ?vs")
    case None
    then have none: "find (has_key ?k) ?vs = None" and no: "\<forall>x\<in>set ?vs. \<not> has_key ?k x"
      by (simp_all only: find_index_find_None [symmetric] find_index_None [symmetric])
    have none_qty: "quantities ?vs ?k = 0"
      using none by (simp add: quantities_def)
    have cart: "get_cart (cart_step (Add p) s) = ?vs @ [VObj (cart_item p)]"
      using False None by (simp add: add_to_cart_def Let_def)
    note item = cart_item_ok [OF assms(2)]
    have "cart_ok (?vs @ [VObj (cart_item p)])"
      using assms(1) no item has_key_iff by (auto simp: cart_ok_def)
    moreover have "quantities (?vs @ [VObj (cart_item p)]) k =
        (if k = ?k then abs_qty (fld p ''qty'') else quantities ?vs k)" for k
      using none item has_key_iff [OF item(1)] by (auto simp: quantities_def find_snoc split: option.splits)
    ultimately show ?thesis
      unfolding cart using False none_qty by (simp add: fun_eq_iff)
  next
    case (Some i)
    then have cart: "get_cart (cart_step (Add p) s) = upd_first (has_key ?k) (merge_item (cart_item p)) ?vs"
      using False find_index_upd [OF Some, of "merge_item (cart_item p)"] by (simp add: add_to_cart_def Let_def)
    have f: "item_ok (merge_item (cart_item p) x) \<and> key_of (merge_item (cart_item p) x) = ?k"
      if "x \<in> set ?vs" "key_of x = ?k" for x
      using merge_item_ok [OF assms(2)] that assms(1) by (simp add: cart_ok_def)
    have found: "find (has_key ?k) ?vs = Some (?vs ! i)"
      by (rule find_index_find [OF Some])
    have "qty_of (merge_item (cart_item p) (?vs ! i)) = qty_of (?vs ! i) + abs_qty (fld p ''qty'')"
      using merge_item_ok(3) [OF assms(2)] find_key_Some [OF assms(1) found] by blast
    then have "quantities (upd_first (has_key ?k) (merge_item (cart_item p)) ?vs) k =
        (if k = ?k then quantities ?vs ?k + abs_qty (fld p ''qty'') else quantities ?vs k)" for k
      using find_upd_first [where vs = ?vs and k = ?k and f = "merge_item (cart_item p)" and k' = k] f assms(1) found
      by (simp add: quantities_def cart_ok_def)
    with upd_first_ok [OF assms(1) f] False show ?thesis
      unfolding cart by (simp add: fun_eq_iff)
  qed
qed

lemma set_qty_step:
  assumes "cart_ok (get_cart s)" "op_ok (Set_qty k v)"
  shows "cart_ok (get_cart (cart_step (Set_qty k v) s)) \<and>
    quantities (get_cart (cart_step (Set_qty k v) s)) = abs_step (Set_qty k v) (quantities (get_cart s))"
proof (cases "find_index (has_key k) (get_cart s)")
  case None
  then have "quantities (get_cart s) k = 0"
    using quantities_0 [OF assms(1)] by (simp add: find_index_find_None)
  with None assms(1) show ?thesis by (simp add: update_qty_def)
next
  case (Some i)
  let ?vs = "get_cart s"
  let ?f = "\<lambda>x. VObj (spread (row_of x) [(''qty'', VNum (abs_qty v))])"
  have found: "find (has_key k) ?vs = Some (?vs ! i)"
    by (rule find_index_find [OF Some])
  have ge: "1 \<le> abs_qty v"
    by (auto simp: abs_qty_def split: val.split)
  have ok: "item_ok (?f x)" "key_of (?f x) = key_of x" "qty_of (?f x) = abs_qty v" if x: "item_ok x" for x
  proof -
    from x obtain r k q p where r: "x = VObj r" "fld r ''key'' = VStr k" "fld r ''price_cent'' = VNum p"
      "fld r ''is_welfare'' = VNum 0" "0 \<le> p" by (rule item_okE)
    let ?r = "spread r [(''qty'', VNum (abs_qty v))]"
    have "fld ?r ''key'' = VStr k" "fld ?r ''qty'' = VNum (abs_qty v)" "fld ?r ''price_cent'' = VNum p"
      "fld ?r ''is_welfare'' = VNum 0"
      using r by (simp_all add: fld_def update_conv)
    with r ge show "item_ok (?f x)" "key_of (?f x) = key_of x" "qty_of (?f x) = abs_qty v"
      by (simp_all add: item_ok_def key_of_def qty_of_def row_of_def)
  qed
  have q: "at_least_1 (num_or v 1) = VNum (abs_qty v)"
    using assms(2) by (auto simp: abs_qty_def split: val.splits)
  have "item_ok (?vs ! i)"
    using find_key_Some [OF assms(1) found] by simp
  then have "\<not> is_one (fld (row_of (?vs ! i)) ''is_welfare'')"
    by (auto elim!: item_okE simp: row_of_def is_one_def num_or_def js_or_def)
  then have cart: "get_cart (cart_step (Set_qty k v) s) = upd_first (has_key k) ?f ?vs"
    using Some find_index_upd [OF Some, of ?f] q by (simp add: update_qty_def Let_def)
  have f: "item_ok (?f x) \<and> key_of (?f x) = k" if "x \<in> set ?vs" "key_of x = k" for x
    using ok that assms(1) by (simp add: cart_ok_def)
  have "quantities ?vs k \<noteq> 0"
    using quantities_0 [OF assms(1)] found by simp
  moreover have "quantities (upd_first (has_key k) ?f ?vs) j = (if j = k then abs_qty v else quantities ?vs j)" for j
    using find_upd_first [where vs = ?vs and k = k and f = ?f and k' = j] f assms(1) found ok(3)
      find_key_Some [OF assms(1) found] by (simp add: quantities_def cart_ok_def)
  ultimately show ?thesis
    unfolding cart using upd_first_ok [OF assms(1) f] by (simp add: fun_eq_iff)
qed

lemma remove_step:
  assumes "cart_ok (get_cart s)"
  shows "cart_ok (get_cart (cart_step (Remove k) s)) \<and>
    quantities (get_cart (cart_step (Remove k) s)) = abs_step (Remove k) (quantities (get_cart s))"
proof -
  let ?P = "\<lambda>x. truthy x \<and> \<not> has_key k x"
  have P: "?P x \<longleftrightarrow> key_of x \<noteq> k" if "item_ok x" for x
  proof -
    have "truthy x" using that by (rule item_okE) simp
    then show ?thesis using has_key_iff [OF that] by simp
  qed
  have q: "quantities (filter ?P vs) j = (if j = k then 0 else quantities vs j)"
    if "\<forall>x\<in>set vs. item_ok x" for vs j
    using that
  proof (induction vs)
    case (Cons x vs)
    then have "?P x \<longleftrightarrow> key_of x \<noteq> k" "has_key j x \<longleftrightarrow> key_of x = j"
      using P [of x] has_key_iff [of x j] by auto
    with Cons show ?case
      by (cases "key_of x = k"; cases "j = k") (simp_all add: quantities_def)
  qed (simp add: quantities_def)
  have "get_cart (cart_step (Remove k) s) = filter ?P (get_cart s)"
    by (simp add: remove_item_def Let_def)
  with q [of "get_cart s"] assms show ?thesis
    by (auto simp: cart_ok_def distinct_map_filter fun_eq_iff)
qed

text \<open>C29. The cart is what a table of quantities would be: starting from any well-formed cart, every sequence of
  additions, changes and removals keeps it well formed (distinct keys, at least one of each, no welfare goods) and
  acts on the quantities as the abstract operations do, so an addition adds to the same variant of the same product
  and never makes a second line of it.\<close>

theorem cart_refines_quantities:
  assumes "cart_ok (get_cart s)" "list_all op_ok ops"
  shows "cart_ok (get_cart (fold cart_step ops s)) \<and>
    quantities (get_cart (fold cart_step ops s)) = fold abs_step ops (quantities (get_cart s))"
  using assms
proof (induction ops arbitrary: s)
  case (Cons a ops)
  have "cart_ok (get_cart (cart_step a s)) \<and> quantities (get_cart (cart_step a s)) = abs_step a (quantities (get_cart s))"
  proof (cases a)
    case (Add p)
    with Cons.prems add_step show ?thesis by simp
  next
    case (Set_qty k v)
    with Cons.prems set_qty_step show ?thesis by simp
  next
    case (Remove k)
    with Cons.prems remove_step show ?thesis by simp
  next
    case Clear
    then show ?thesis by (simp add: clear_cart_def cart_ok_def quantities_def fun_eq_iff)
  qed
  with Cons.IH [of "cart_step a s"] Cons.prems(2) show ?case by simp
qed simp

definition sample_payload :: "nat \<Rightarrow> row" where
  "sample_payload n = [(''productId'', VNum 7), (''skuId'', VNull), (''qty'', VNat n), (''price_cent'', VNum 250)]"

lemma sample_payload_ok:
  "op_ok (Add (sample_payload (Suc n)))" "\<not> is_one (fld (sample_payload n) ''is_welfare'')"
  "abs_qty (fld (sample_payload (Suc n)) ''qty'') = rat_of_nat (Suc n)"
  by (simp_all add: sample_payload_def fld_def num_or_def js_or_def is_one_def abs_qty_def)

lemma sample_key: "item_key (sample_payload n) = item_key (sample_payload 0)"
  by (simp add: item_key_def cart_item_def sample_payload_def fld_def Let_def)

lemma empty_cart_ok: "cart_ok (get_cart (\<lambda>_. None))" "quantities (get_cart (\<lambda>_. None)) k = 0"
  by (simp_all add: get_cart_def get_storage_def cart_ok_def quantities_def)

theorem cart_refines_quantities_witness:
  "quantities (get_cart (fold cart_step [Add (sample_payload 2), Add (sample_payload 3)] (\<lambda>_. None)))
     (item_key (sample_payload 0)) = 5"
proof -
  have ok: "list_all op_ok [Add (sample_payload 2), Add (sample_payload 3)]"
    using sample_payload_ok(1) [of 1] sample_payload_ok(1) [of 2] by (simp add: numeral_2_eq_2 numeral_3_eq_3)
  have "abs_qty (fld (sample_payload 2) ''qty'') = 2" "abs_qty (fld (sample_payload 3) ''qty'') = 3"
    using sample_payload_ok(3) [of 1] sample_payload_ok(3) [of 2] by (simp_all add: numeral_2_eq_2 numeral_3_eq_3)
  then have "fold abs_step [Add (sample_payload 2), Add (sample_payload 3)] (quantities (get_cart (\<lambda>_. None)))
      (item_key (sample_payload 0)) = 5"
    using sample_payload_ok(2) sample_key [of 2] sample_key [of 3] empty_cart_ok(2) by simp
  with cart_refines_quantities [OF empty_cart_ok(1) ok] show ?thesis
    by (simp del: fold.simps)
qed

section \<open>The total of the page\<close>

definition price_of :: "val \<Rightarrow> rat" where
  "price_of x = (case fld (row_of x) ''price_cent'' of VNum p \<Rightarrow> p | _ \<Rightarrow> 0)"

lemma item_total_ok:
  assumes "item_ok x"
  shows "\<exists>it. with_cover x = Inr it \<and> item_total it = VNum (price_of x * qty_of x)"
proof -
  from assms obtain r k q p where r: "x = VObj r" "fld r ''qty'' = VNum q" "fld r ''price_cent'' = VNum p"
    by (rule item_okE)
  have "num_or (VNum n) 0 = VNum n" for n
    by (simp add: num_or_def js_or_def)
  moreover have "fld (AList.update ''cover_url'' v r) ''qty'' = VNum q"
    "fld (AList.update ''cover_url'' v r) ''price_cent'' = VNum p" for v
    using r by (simp_all add: fld_def update_conv)
  ultimately show ?thesis
    using r by (simp add: with_cover_def item_total_def price_of_def qty_of_def row_of_def bindE_def)
qed

lemma load_cart_total:
  assumes "cart_ok (get_cart s)"
  shows "\<exists>pg. load_cart s = Inr pg \<and> cp_total pg = VNum (sum_list (map (\<lambda>x. price_of x * qty_of x) (get_cart s)))"
proof -
  have fold: "\<exists>its. mapE with_cover vs = Inr its \<and>
      foldl (\<lambda>sum it. num_add sum (item_total it)) (VNum a) its = VNum (a + sum_list (map (\<lambda>x. price_of x * qty_of x) vs))"
    if "\<forall>x\<in>set vs. item_ok x" for vs a
    using that
  proof (induction vs arbitrary: a)
    case (Cons x vs)
    then obtain it where it: "with_cover x = Inr it" "item_total it = VNum (price_of x * qty_of x)"
      using item_total_ok [of x] by auto
    have "\<forall>x\<in>set vs. item_ok x" using Cons.prems by simp
    from Cons.IH [OF this, of "a + price_of x * qty_of x"] it show ?case
      by (auto simp: add.assoc)
  qed simp
  from fold [of "get_cart s" 0] assms show ?thesis
    by (auto simp: load_cart_def total_cent_def cart_ok_def bindE_def)
qed

text \<open>The cart page shows a well-formed cart without an exception, and its total is the sum of price times
  quantity over the lines of the cart, in cents and exactly.\<close>

theorem cart_total_is_the_sum:
  assumes "cart_ok (get_cart s)"
  shows "cp_total (snd (reload_cart pg s)) = VNum (sum_list (map (\<lambda>x. price_of x * qty_of x) (get_cart s)))"
  using load_cart_total [OF assms] by (auto simp: reload_cart_def)

theorem cart_total_is_the_sum_witness:
  "cp_total (snd (reload_cart \<lparr>cp_items = [], cp_total = VNum 0\<rparr> (cart_step (Add (sample_payload 2)) (\<lambda>_. None)))) =
     VNum 500"
proof -
  have "op_ok (Add (sample_payload 2))"
    using sample_payload_ok(1) [of 1] by (simp add: numeral_2_eq_2)
  then have ok: "cart_ok (get_cart (cart_step (Add (sample_payload 2)) (\<lambda>_. None)))"
    using add_step [OF empty_cart_ok(1)] by blast
  have "get_cart (cart_step (Add (sample_payload 2)) (\<lambda>_. None)) = [VObj (cart_item (sample_payload 2))]"
    using sample_payload_ok(2) [of 2] by (simp add: add_to_cart_def get_cart_def get_storage_def set_cart_def Let_def)
  moreover have "price_of (VObj (cart_item (sample_payload 2))) * qty_of (VObj (cart_item (sample_payload 2))) = 500"
    by (simp add: price_of_def qty_of_def row_of_def) (simp add: sample_payload_def fld_def num_or_def js_or_def)
  ultimately show ?thesis
    using cart_total_is_the_sum [OF ok] by simp
qed

section \<open>The limit of ninety-nine\<close>

text \<open>The plus button of the page never makes more than ninety-nine of a product; but adding from the product
  page is not limited: adding sixty twice gives one line of a hundred and twenty.\<close>

theorem cart_limit_on_page_only:
  assumes "cart_ok (get_cart s)" "\<forall>j. quantities (get_cart s) j \<le> 99"
  shows "quantities (get_cart (fst (cart_inc k (s, pg)))) j \<le> 99 \<and>
    quantities (get_cart (fold cart_step [Add (sample_payload 60), Add (sample_payload 60)] (\<lambda>_. None)))
      (item_key (sample_payload 0)) = 120"
proof
  show "quantities (get_cart (fst (cart_inc k (s, pg)))) j \<le> 99"
  proof (cases "fst (cart_inc k (s, pg)) = s")
    case True
    with assms(2) show ?thesis by simp
  next
    case False
    then obtain q v where q: "\<not> num_less (VNum 99) q" "fst (cart_inc k (s, pg)) = cart_step (Set_qty k q) s"
      and n: "q = num_add v (VNum 1)"
      by (auto simp: cart_inc_def reload_cart_def Let_def split: option.splits if_splits)
    have "op_ok (Set_qty k q)" "abs_qty q \<le> 99"
      using q(1) n by (cases v; auto simp: abs_qty_def num_or_def js_or_def)+
    with set_qty_step [OF assms(1)] assms(2) show ?thesis
      unfolding q(2) by simp
  qed
  have "op_ok (Add (sample_payload 60))" "abs_qty (fld (sample_payload 60) ''qty'') = 60"
    using sample_payload_ok(1,3) [of 59] by simp_all
  then show "quantities (get_cart (fold cart_step [Add (sample_payload 60), Add (sample_payload 60)] (\<lambda>_. None)))
      (item_key (sample_payload 0)) = 120"
    using add_step sample_payload_ok(2) [of 60] sample_key [of 60] empty_cart_ok by (simp del: cart_step.simps)
qed

theorem cart_limit_on_page_only_witness:
  "quantities (get_cart (fst (cart_inc ''7:0''
       (cart_step (Add (sample_payload 2)) (\<lambda>_. None), \<lparr>cp_items = [cart_item (sample_payload 2)], cp_total = VNum 500\<rparr>))))
     ''7:0'' \<le> 99 \<and>
   quantities (get_cart (fold cart_step [Add (sample_payload 60), Add (sample_payload 60)] (\<lambda>_. None)))
      (item_key (sample_payload 0)) = 120"
proof (rule cart_limit_on_page_only)
  have ok: "op_ok (Add (sample_payload 2))" and two: "abs_qty (fld (sample_payload 2) ''qty'') = 2"
    using sample_payload_ok(1,3) [of 1] by (simp_all add: numeral_2_eq_2)
  from add_step [OF empty_cart_ok(1) ok]
  show "cart_ok (get_cart (cart_step (Add (sample_payload 2)) (\<lambda>_. None)))" by blast
  have "quantities (get_cart (cart_step (Add (sample_payload 2)) (\<lambda>_. None))) =
      abs_step (Add (sample_payload 2)) (quantities (get_cart (\<lambda>_. None)))"
    using add_step [OF empty_cart_ok(1) ok] by blast
  then show "\<forall>j. quantities (get_cart (cart_step (Add (sample_payload 2)) (\<lambda>_. None))) j \<le> 99"
    using two empty_cart_ok(2) by simp
qed

end
