(* ===== verification/Client_Messages.thy ===== *)
theory Client_Messages
  imports JS_Prelude
begin

text \<open>
  The texts of the mini program (\<^verbatim>\<open>src/miniapp\<close>), as the UTF-8 bytes of its string literals.
\<close>

text \<open>the login has expired, please log in again\<close>

definition mp_unauthorized :: string where
  "mp_unauthorized =
     [CHR 0xE7, CHR 0x99, CHR 0xBB, CHR 0xE5, CHR 0xBD, CHR 0x95, CHR 0xE5, CHR 0xB7,
      CHR 0xB2, CHR 0xE8, CHR 0xBF, CHR 0x87, CHR 0xE6, CHR 0x9C, CHR 0x9F, CHR 0xEF,
      CHR 0xBC, CHR 0x8C, CHR 0xE8, CHR 0xAF, CHR 0xB7, CHR 0xE9, CHR 0x87, CHR 0x8D,
      CHR 0xE6, CHR 0x96, CHR 0xB0, CHR 0xE7, CHR 0x99, CHR 0xBB, CHR 0xE5, CHR 0xBD,
      CHR 0x95]"

text \<open>the request failed\<close>

definition mp_request_failed :: string where
  "mp_request_failed =
     [CHR 0xE8, CHR 0xAF, CHR 0xB7, CHR 0xE6, CHR 0xB1, CHR 0x82, CHR 0xE5, CHR 0xA4,
      CHR 0xB1, CHR 0xE8, CHR 0xB4, CHR 0xA5]"

text \<open>network error\<close>

definition mp_network :: string where
  "mp_network =
     [CHR 0xE7, CHR 0xBD, CHR 0x91, CHR 0xE7, CHR 0xBB, CHR 0x9C, CHR 0xE9, CHR 0x94,
      CHR 0x99, CHR 0xE8, CHR 0xAF, CHR 0xAF]"

text \<open>wx.login failed\<close>

definition mp_login_failed :: string where
  "mp_login_failed =
     ''wx.login '' @
     [CHR 0xE5, CHR 0xA4, CHR 0xB1, CHR 0xE8, CHR 0xB4, CHR 0xA5]"

text \<open>creating the order failed: no order number\<close>

definition mp_no_order_no :: string where
  "mp_no_order_no =
     [CHR 0xE5, CHR 0x88, CHR 0x9B, CHR 0xE5, CHR 0xBB, CHR 0xBA, CHR 0xE8, CHR 0xAE,
      CHR 0xA2, CHR 0xE5, CHR 0x8D, CHR 0x95, CHR 0xE5, CHR 0xA4, CHR 0xB1, CHR 0xE8,
      CHR 0xB4, CHR 0xA5, CHR 0xEF, CHR 0xBC, CHR 0x9A, CHR 0xE7, CHR 0xBC, CHR 0xBA,
      CHR 0xE5, CHR 0xB0, CHR 0x91, CHR 0xE8, CHR 0xAE, CHR 0xA2, CHR 0xE5, CHR 0x8D,
      CHR 0x95, CHR 0xE5, CHR 0x8F, CHR 0xB7]"

text \<open>loading failed\<close>

definition mp_load_failed :: string where
  "mp_load_failed =
     [CHR 0xE5, CHR 0x8A, CHR 0xA0, CHR 0xE8, CHR 0xBD, CHR 0xBD, CHR 0xE5, CHR 0xA4,
      CHR 0xB1, CHR 0xE8, CHR 0xB4, CHR 0xA5]"

text \<open>no such product\<close>

definition mp_no_product :: string where
  "mp_no_product =
     [CHR 0xE5, CHR 0x95, CHR 0x86, CHR 0xE5, CHR 0x93, CHR 0x81, CHR 0xE4, CHR 0xB8,
      CHR 0x8D, CHR 0xE5, CHR 0xAD, CHR 0x98, CHR 0xE5, CHR 0x9C, CHR 0xA8]"

text \<open>wrong parameter: no product id\<close>

definition mp_bad_id :: string where
  "mp_bad_id =
     [CHR 0xE5, CHR 0x8F, CHR 0x82, CHR 0xE6, CHR 0x95, CHR 0xB0, CHR 0xE9, CHR 0x94,
      CHR 0x99, CHR 0xE8, CHR 0xAF, CHR 0xAF, CHR 0xEF, CHR 0xBC, CHR 0x9A, CHR 0xE7,
      CHR 0xBC, CHR 0xBA, CHR 0xE5, CHR 0xB0, CHR 0x91, CHR 0xE5, CHR 0x95, CHR 0x86,
      CHR 0xE5, CHR 0x93, CHR 0x81] @
     ''ID''"

text \<open>no order number\<close>

definition mp_no_order :: string where
  "mp_no_order =
     [CHR 0xE7, CHR 0xBC, CHR 0xBA, CHR 0xE5, CHR 0xB0, CHR 0x91, CHR 0xE8, CHR 0xAE,
      CHR 0xA2, CHR 0xE5, CHR 0x8D, CHR 0x95, CHR 0xE5, CHR 0x8F, CHR 0xB7]"

text \<open>the welfare code is wrong\<close>

definition mp_bad_welfare :: string where
  "mp_bad_welfare =
     [CHR 0xE6, CHR 0x82, CHR 0xA8, CHR 0xE8, CHR 0xBE, CHR 0x93, CHR 0xE5, CHR 0x85,
      CHR 0xA5, CHR 0xE7, CHR 0x9A, CHR 0x84, CHR 0xE7, CHR 0xA6, CHR 0x8F, CHR 0xE5,
      CHR 0x88, CHR 0xA9, CHR 0xE7, CHR 0xA0, CHR 0x81, CHR 0xE9, CHR 0x94, CHR 0x99,
      CHR 0xE8, CHR 0xAF, CHR 0xAF, CHR 0xEF, CHR 0xBC, CHR 0x8C, CHR 0xE8, CHR 0xAF,
      CHR 0xB7, CHR 0xE8, CHR 0xBE, CHR 0x93, CHR 0xE5, CHR 0x85, CHR 0xA5, CHR 0xE6,
      CHR 0xAD, CHR 0xA3, CHR 0xE7, CHR 0xA1, CHR 0xAE, CHR 0xE7, CHR 0xA0, CHR 0x81,
      CHR 0xEF, CHR 0xBC, CHR 0x8C, CHR 0xE5, CHR 0x90, CHR 0xA6, CHR 0xE5, CHR 0x88,
      CHR 0x99, CHR 0xE6, CHR 0x97, CHR 0xA0, CHR 0xE6, CHR 0xB3, CHR 0x95, CHR 0xE9,
      CHR 0x80, CHR 0x9A, CHR 0xE8, CHR 0xBF, CHR 0x87, CHR 0xE7, CHR 0xA6, CHR 0x8F,
      CHR 0xE5, CHR 0x88, CHR 0xA9, CHR 0xE9, CHR 0x80, CHR 0x9A, CHR 0xE9, CHR 0x81,
      CHR 0x93, CHR 0xE4, CHR 0xB8, CHR 0x8B, CHR 0xE5, CHR 0x8D, CHR 0x95, CHR 0xE3,
      CHR 0x80, CHR 0x82]"

text \<open>not logged in\<close>

definition mp_not_logged_in :: string where
  "mp_not_logged_in =
     [CHR 0xE6, CHR 0x9C, CHR 0xAA, CHR 0xE7, CHR 0x99, CHR 0xBB, CHR 0xE5, CHR 0xBD,
      CHR 0x95]"

text \<open>logged in\<close>

definition mp_is_logged_in :: string where
  "mp_is_logged_in =
     [CHR 0xE5, CHR 0xB7, CHR 0xB2, CHR 0xE7, CHR 0x99, CHR 0xBB, CHR 0xE5, CHR 0xBD,
      CHR 0x95]"

text \<open>user no.\<close>

definition mp_user_no :: string where
  "mp_user_no =
     [CHR 0xE7, CHR 0x94, CHR 0xA8, CHR 0xE6, CHR 0x88, CHR 0xB7] @
     ''#''"

text \<open>welfare code\<close>

definition mp_welfare_code :: string where
  "mp_welfare_code =
     [CHR 0xE7, CHR 0xA6, CHR 0x8F, CHR 0xE5, CHR 0x88, CHR 0xA9, CHR 0xE7, CHR 0xA0,
      CHR 0x81] @
     '' ''"

text \<open>ordering or paying failed\<close>

definition mp_pay_failed :: string where
  "mp_pay_failed =
     [CHR 0xE4, CHR 0xB8, CHR 0x8B, CHR 0xE5, CHR 0x8D, CHR 0x95] @
     ''/'' @
     [CHR 0xE6, CHR 0x94, CHR 0xAF, CHR 0xE4, CHR 0xBB, CHR 0x98, CHR 0xE5, CHR 0xA4,
      CHR 0xB1, CHR 0xE8, CHR 0xB4, CHR 0xA5]"

text \<open>paying failed\<close>

definition mp_pay_only :: string where
  "mp_pay_only =
     [CHR 0xE6, CHR 0x94, CHR 0xAF, CHR 0xE4, CHR 0xBB, CHR 0x98, CHR 0xE5, CHR 0xA4,
      CHR 0xB1, CHR 0xE8, CHR 0xB4, CHR 0xA5]"

lemmas client_msg_defs =
  mp_unauthorized_def mp_request_failed_def mp_network_def mp_login_failed_def
  mp_no_order_no_def mp_load_failed_def mp_no_product_def mp_bad_id_def
  mp_no_order_def mp_bad_welfare_def mp_not_logged_in_def mp_is_logged_in_def
  mp_user_no_def mp_welfare_code_def mp_pay_failed_def mp_pay_only_def

end
