(* ===== verification/Mini_App.thy ===== *)
theory Mini_App
  imports Mini_Cart Client_Messages Server_Safety Login_Flow
begin

text \<open>
  The mini program around its pages: the client's state (\<^verbatim>\<open>miniapp/app.js\<close>), its requests
  (\<^verbatim>\<open>utils/request.js\<close>, \<^verbatim>\<open>services/api.js\<close>), its login (\<^verbatim>\<open>services/auth.js\<close>) and the address and
  profile pages.  A network takes method, path below the base address, data and authorization to a result; it has a
  state of its own, so that the server of this repository can be put behind it (\<open>server_network\<close>).
\<close>

section \<open>The client\<close>

record client =
  g_token :: val
  g_user :: val
  g_logged_in :: bool
  stored :: storage

datatype net_result = Net_fail | Net_ok nat val

type_synonym 's network = "http_method \<Rightarrow> string \<Rightarrow> val \<Rightarrow> string option \<Rightarrow> 's \<Rightarrow> net_result \<times> 's"

text \<open>What a page catches: \<open>e.code\<close> and \<open>e.message\<close>.\<close>

datatype client_error = Client_error val val

fun message_of :: "client_error \<Rightarrow> val" where
  "message_of (Client_error c m) = m"

text \<open>The code that \<open>wx.login\<close> yields, none when it fails, the text of a \<open>TypeError\<close>, and whether
  \<open>wx.requestPayment\<close> succeeds for the given parameters.\<close>

record client_env =
  wx_code :: "string option"
  type_text :: string
  pay_ok :: "row \<Rightarrow> bool"

definition launch :: "storage \<Rightarrow> client" where
  "launch s =
     (if truthy (get_storage s ''token'') \<and> truthy (get_storage s ''userInfo'')
      then \<lparr>g_token = get_storage s ''token'', g_user = get_storage s ''userInfo'', g_logged_in = True, stored = s\<rparr>
      else \<lparr>g_token = VNull, g_user = VNull, g_logged_in = False, stored = s\<rparr>)"

definition client_logout :: "client \<Rightarrow> client" where
  "client_logout c =
     \<lparr>g_token = VNull, g_user = VNull, g_logged_in = False, stored = (stored c)(''token'' := None, ''userInfo'' := None)\<rparr>"

section \<open>Requests\<close>

text \<open>\<open>x && x.k\<close> of a value that is not null, and \<open>x.k\<close> that throws on null.\<close>

definition prop_or_undef :: "val \<Rightarrow> string \<Rightarrow> val" where
  "prop_or_undef v k = (case prop_of v k of Inr x \<Rightarrow> x | Inl _ \<Rightarrow> VUndef)"

definition prop_or_throw :: "client_env \<Rightarrow> val \<Rightarrow> string \<Rightarrow> client_error + val" where
  "prop_or_throw ce v k =
     (case prop_of v k of Inr x \<Rightarrow> Inr x | Inl _ \<Rightarrow> Inl (Client_error VUndef (VStr (type_text ce))))"

definition request_result :: "net_result \<Rightarrow> client \<Rightarrow> (client_error + val) \<times> client" where
  "request_result r c =
     (case r of
        Net_fail \<Rightarrow> (Inl (Client_error (VStr ''NETWORK_ERROR'') (VStr mp_network)), c)
      | Net_ok st d \<Rightarrow>
          if 200 \<le> st \<and> st < 300 then (Inr d, c)
          else if st = 401
          then (Inl (Client_error (VStr ''UNAUTHORIZED'') (VStr mp_unauthorized)), client_logout c)
          else (Inl (Client_error (js_or (prop_or_undef d ''code'') (VStr ''REQUEST_ERROR''))
                       (js_or (prop_or_undef d ''message'') (VStr mp_request_failed))), c))"

definition client_request ::
  "'s network \<Rightarrow> http_method \<Rightarrow> string \<Rightarrow> val \<Rightarrow> bool \<Rightarrow> client \<times> 's \<Rightarrow> (client_error + val) \<times> client \<times> 's" where
  "client_request net m url data need_auth cs =
     (case cs of (c, s) \<Rightarrow>
        (let auth = (if need_auth \<and> truthy (g_token c) then Some (''Bearer '' @ js_to_string (g_token c)) else None);
             (r, s1) = net m url data auth s; (x, c1) = request_result r c
         in (x, c1, s1)))"

lemma request_ok:
  "net m url data (Some (''Bearer '' @ js_to_string (g_token c))) s = (Net_ok 200 v, s1) \<Longrightarrow> truthy (g_token c) \<Longrightarrow>
   client_request net m url data True (c, s) = (Inr v, c, s1)"
  by (simp add: client_request_def request_result_def)

definition api_products :: "'s network \<Rightarrow> row \<Rightarrow> client \<times> 's \<Rightarrow> (client_error + val) \<times> client \<times> 's" where
  "api_products net ps = client_request net GET ''/products'' (VObj ps) False"

definition api_product_detail :: "'s network \<Rightarrow> val \<Rightarrow> client \<times> 's \<Rightarrow> (client_error + val) \<times> client \<times> 's" where
  "api_product_detail net i = client_request net GET (''/products/'' @ js_to_string i) VUndef False"

definition api_create_order :: "'s network \<Rightarrow> row \<Rightarrow> client \<times> 's \<Rightarrow> (client_error + val) \<times> client \<times> 's" where
  "api_create_order net d = client_request net POST ''/orders'' (VObj d) True"

definition api_my_orders :: "'s network \<Rightarrow> row \<Rightarrow> client \<times> 's \<Rightarrow> (client_error + val) \<times> client \<times> 's" where
  "api_my_orders net ps = client_request net GET ''/me/orders'' (VObj ps) True"

definition api_order_detail :: "'s network \<Rightarrow> string \<Rightarrow> client \<times> 's \<Rightarrow> (client_error + val) \<times> client \<times> 's" where
  "api_order_detail net no = client_request net GET (''/me/orders/'' @ no) (VObj []) True"

definition api_mini_prepay :: "'s network \<Rightarrow> string \<Rightarrow> client \<times> 's \<Rightarrow> (client_error + val) \<times> client \<times> 's" where
  "api_mini_prepay net no = client_request net POST ''/pay/wechat/mini/prepay'' (VObj [(''orderNo'', VStr no)]) True"

definition api_welfare_quote :: "'s network \<Rightarrow> val \<Rightarrow> string \<Rightarrow> client \<times> 's \<Rightarrow> (client_error + val) \<times> client \<times> 's" where
  "api_welfare_quote net i code =
     client_request net GET ''/welfare/quote'' (VObj [(''productId'', i), (''code'', VStr code)]) False"

section \<open>Login\<close>

definition client_login :: "'s network \<Rightarrow> client_env \<Rightarrow> client \<times> 's \<Rightarrow> (client_error + val) \<times> client \<times> 's" where
  "client_login net ce cs =
     (if str_truthy (wx_code ce)
      then client_request net POST ''/auth/mini/login'' (VObj [(''code'', VStr (str_of (wx_code ce)))]) False cs
      else (Inl (Client_error (VStr ''WX_LOGIN_FAILED'') (VStr mp_login_failed)), cs))"

definition silent_login :: "'s network \<Rightarrow> client_env \<Rightarrow> client \<times> 's \<Rightarrow> (client_error + val) \<times> client \<times> 's" where
  "silent_login net ce cs =
     (case client_login net ce cs of
        (Inl err, cs1) \<Rightarrow> (Inl err, cs1)
      | (Inr res, c1, s1) \<Rightarrow>
          (case prop_or_throw ce res ''token'' of
             Inl err \<Rightarrow> (Inl err, c1, s1)
           | Inr t \<Rightarrow>
               (let u = prop_or_undef res ''user''
                in (Inr res,
                    \<lparr>g_token = t, g_user = u, g_logged_in = True,
                     stored = (stored c1)(''token'' \<mapsto> t, ''userInfo'' \<mapsto> u)\<rparr>, s1))))"

definition ensure_login :: "'s network \<Rightarrow> client_env \<Rightarrow> client \<times> 's \<Rightarrow> (client_error + val) \<times> client \<times> 's" where
  "ensure_login net ce cs =
     (if g_logged_in (fst cs) \<and> truthy (g_token (fst cs))
      then (Inr (VObj [(''token'', g_token (fst cs)), (''user'', g_user (fst cs))]), cs)
      else silent_login net ce cs)"

section \<open>The address page\<close>

text \<open>\<open>save\<close>: the address that is stored, or nothing when a field is missing.  The length of a phone counts UTF-16
  units; here it counts bytes, which agree for ASCII.\<close>

definition address_field :: "row \<Rightarrow> string \<Rightarrow> string" where
  "address_field form k = trim (js_to_string (js_or (fld form k) (VStr [])))"

definition save_address :: "row \<Rightarrow> storage \<Rightarrow> bool \<times> storage" where
  "save_address form s =
     (let f = address_field form; name = f ''name''; phone = f ''phone''; province = f ''province'';
          city = f ''city''; district = f ''district''; detail = f ''detail'' in
      if name = [] \<or> phone = [] \<or> length phone < 6 \<or> province = [] \<or> city = [] \<or> district = [] \<or> detail = []
      then (False, s)
      else (True, s(''address'' \<mapsto> VObj
              [(''name'', VStr name), (''phone'', VStr phone), (''province'', VStr province), (''city'', VStr city),
               (''district'', VStr district), (''detail'', VStr detail),
               (''region'', VStr (trim (province @ '' '' @ city @ '' '' @ district)))])))"

record address_page =
  ap_form :: row
  ap_region :: "string list"
  ap_text :: string

definition empty_form :: row where
  "empty_form = map (\<lambda>k. (k, VStr [])) [''name'', ''phone'', ''province'', ''city'', ''district'', ''detail'']"

definition empty_address :: address_page where
  "empty_address = \<lparr>ap_form = empty_form, ap_region = [], ap_text = []\<rparr>"

definition load_address :: "storage \<Rightarrow> address_page" where
  "load_address s =
     (case get_storage s ''address'' of
        VObj r \<Rightarrow>
          (let f = (\<lambda>k. js_or (fld r k) (VStr [])); p = f ''province''; c = f ''city''; d = f ''district'';
               all = truthy p \<and> truthy c \<and> truthy d; ts = map js_to_string [p, c, d]
           in \<lparr>ap_form = map (\<lambda>k. (k, f k)) [''name'', ''phone'', ''province'', ''city'', ''district'', ''detail''],
               ap_region = (if all then ts else []), ap_text = (if all then join '' '' ts else [])\<rparr>)
      | _ \<Rightarrow> empty_address)"

definition address_input :: "string \<Rightarrow> val \<Rightarrow> address_page \<Rightarrow> address_page" where
  "address_input field v pg =
     (if field = [] then pg else pg\<lparr>ap_form := spread (ap_form pg) [(field, v)]\<rparr>)"

definition region_at :: "string list \<Rightarrow> nat \<Rightarrow> string" where
  "region_at rs i = (if i < length rs then rs ! i else [])"

definition region_change :: "string list \<Rightarrow> address_page \<Rightarrow> address_page" where
  "region_change rs pg =
     pg\<lparr>ap_form := spread (ap_form pg) [(''province'', VStr (region_at rs 0)), (''city'', VStr (region_at rs 1)),
          (''district'', VStr (region_at rs 2))],
        ap_region := rs, ap_text := join '' '' (filter (\<lambda>r. r \<noteq> []) rs)\<rparr>"

text \<open>\<open>chooseWxAddress\<close> with the address the user picked.\<close>

definition choose_address :: "row \<Rightarrow> address_page \<Rightarrow> address_page" where
  "choose_address res pg =
     (let g = (\<lambda>k. js_or (fld res k) (VStr [])); p = g ''provinceName''; c = g ''cityName''; d = g ''countyName'';
          rs = filter (\<lambda>r. r \<noteq> []) (map js_to_string [p, c, d]); f = ap_form pg
      in \<lparr>ap_form = spread f [(''name'', js_or (fld res ''userName'') (fld f ''name'')),
             (''phone'', js_or (fld res ''telNumber'') (fld f ''phone'')), (''province'', p), (''city'', c),
             (''district'', d), (''detail'', js_or (fld res ''detailInfo'') (fld f ''detail''))],
          ap_region = rs, ap_text = join '' '' rs\<rparr>)"

definition clear_address :: "bool \<Rightarrow> address_page \<Rightarrow> storage \<Rightarrow> address_page \<times> storage" where
  "clear_address confirmed pg s =
     (if confirmed then (empty_address, s(''address'' := None)) else (pg, s))"

section \<open>The profile page\<close>

record profile_page =
  pp_logged_in :: bool
  pp_user :: val
  pp_name :: string
  pp_avatar :: string

text \<open>\<open>first_char\<close> is \<open>nickname.slice(0, 1)\<close>, the first UTF-16 unit of a text.\<close>

definition refresh_user ::
  "(string \<Rightarrow> string) \<Rightarrow> 's network \<Rightarrow> client_env \<Rightarrow> client \<times> 's \<Rightarrow> profile_page \<times> client \<times> 's" where
  "refresh_user first_char net ce cs =
     (case ensure_login net ce cs of
        (Inl _, cs1) \<Rightarrow>
          (\<lparr>pp_logged_in = False, pp_user = VNull, pp_name = mp_not_logged_in, pp_avatar = ''U''\<rparr>, cs1)
      | (Inr res, cs1) \<Rightarrow>
          (let user = js_or (prop_or_undef res ''user'') VNull;
               nick = (if truthy user \<and> truthy (prop_or_undef user ''nickname'') then js_to_string (prop_or_undef user ''nickname'') else [])
           in (\<lparr>pp_logged_in = True, pp_user = user,
                 pp_name = (if nick \<noteq> [] then nick
                            else if truthy user then mp_user_no @ js_to_string (prop_or_undef user ''id'') else mp_is_logged_in),
                 pp_avatar = (if nick \<noteq> [] then first_char nick else ''U'')\<rparr>, cs1)))"

definition profile_logout :: "profile_page \<Rightarrow> client \<Rightarrow> profile_page \<times> client" where
  "profile_logout pg c = (pg\<lparr>pp_logged_in := False, pp_user := VNull\<rparr>, client_logout c)"

definition clear_local :: "bool \<Rightarrow> storage \<Rightarrow> storage" where
  "clear_local confirmed s = (if confirmed then s(''cart'' := None, ''address'' := None) else s)"

section \<open>The server behind the network\<close>

text \<open>
  The address \<open>https://www.jintai.cloud/h5/api/api/v1\<close> reaches the mirror mounts of the server.  The body is sent as
  JSON; the data of a GET request become query parameters.
\<close>

definition server_request :: "http_method \<Rightarrow> val \<Rightarrow> string option \<Rightarrow> request" where
  "server_request m data auth =
     \<lparr>headers = (\<lambda>k. if k = ''authorization'' then auth else None),
      query = (\<lambda>k. if m = GET then map_option js_to_string (map_of (row_of data) k) else None),
      params = (\<lambda>_. []), body = (if m = GET then VObj [] else json_copy data)\<rparr>"

definition server_network :: "world \<Rightarrow> call_env \<Rightarrow> fs_state network" where
  "server_network w e m url data auth st =
     (let (r, st1) = serve w e m ([''h5'', ''api'', ''api'', ''v1''] @ tl (split_on (CHR ''/'') url))
                       (server_request m data auth) st
      in (Net_ok (status r) (answer r), st1))"


section \<open>The session of the client\<close>

text \<open>
  What can happen to the client: a request, \<open>ensureLogin\<close>, a logout, a page that writes its own key of the storage,
  and a restart of the app.
\<close>

definition page_keys :: "string set" where
  "page_keys = {''cart'', ''address''}"

inductive client_step :: "'s network \<Rightarrow> client_env \<Rightarrow> client \<times> 's \<Rightarrow> client \<times> 's \<Rightarrow> bool"
  for net :: "'s network" and ce :: client_env where
  requests: "client_request net m url d auth cs = (x, cs') \<Longrightarrow> client_step net ce cs cs'"
| logs_in: "ensure_login net ce cs = (x, cs') \<Longrightarrow> client_step net ce cs cs'"
| logs_out: "client_step net ce (c, s) (client_logout c, s)"
| writes: "\<forall>k. k \<notin> page_keys \<longrightarrow> st' k = stored c k \<Longrightarrow> client_step net ce (c, s) (c\<lparr>stored := st'\<rparr>, s)"
| restarts: "client_step net ce (c, s) (launch (stored c), s)"

text \<open>
  The session in memory is the one in the storage: of a client that is logged in, token and user are
  the stored ones; of one that is not, memory holds none and the storage does not hold one that the
  next start would take up.
\<close>

definition session_ok :: "client \<Rightarrow> bool" where
  "session_ok c \<longleftrightarrow>
     (if g_logged_in c
      then get_storage (stored c) ''token'' = g_token c \<and> get_storage (stored c) ''userInfo'' = g_user c
      else g_token c = VNull \<and> g_user c = VNull \<and>
        \<not> (truthy (get_storage (stored c) ''token'') \<and> truthy (get_storage (stored c) ''userInfo'')))"

lemma session_launch [simp]: "session_ok (launch s)"
  by (simp add: session_ok_def launch_def)

lemma session_logout [simp]: "session_ok (client_logout c)"
  by (simp add: session_ok_def client_logout_def get_storage_def)

lemma session_result: "session_ok c \<Longrightarrow> request_result r c = (x, c') \<Longrightarrow> session_ok c'"
  by (auto simp: request_result_def split: net_result.splits if_splits)

lemma session_request:
  "session_ok (fst cs) \<Longrightarrow> client_request net m url d auth cs = (x, cs') \<Longrightarrow> session_ok (fst cs')"
  by (cases cs) (auto simp: client_request_def Let_def split: prod.splits dest: session_result)

lemma session_login:
  "session_ok (fst cs) \<Longrightarrow> client_login net ce cs = (x, cs') \<Longrightarrow> session_ok (fst cs')"
  by (auto simp: client_login_def split: if_splits dest: session_request)

lemma session_silent:
  assumes "session_ok (fst cs)" "silent_login net ce cs = (x, cs')"
  shows "session_ok (fst cs')"
proof -
  obtain r c1 s1 where l: "client_login net ce cs = (r, c1, s1)"
    by (metis prod.collapse)
  with assms(1) have "session_ok c1"
    using session_login [of cs net ce r "(c1, s1)"] by simp
  with assms(2) l show ?thesis
    by (auto simp: silent_login_def Let_def session_ok_def get_storage_def split: sum.splits)
qed

lemma session_ensure:
  "session_ok (fst cs) \<Longrightarrow> ensure_login net ce cs = (x, cs') \<Longrightarrow> session_ok (fst cs')"
  by (auto simp: ensure_login_def split: if_splits dest: session_silent)

lemma session_writes: "\<forall>k. k \<notin> page_keys \<longrightarrow> st' k = stored c k \<Longrightarrow> session_ok (c\<lparr>stored := st'\<rparr>) = session_ok c"
  by (simp add: session_ok_def page_keys_def get_storage_def)

lemma session_step: "client_step net ce cs cs' \<Longrightarrow> session_ok (fst cs) \<Longrightarrow> session_ok (fst cs')"
proof (induction rule: client_step.induct)
  case (requests m url d auth cs x cs')
  then show ?case by (rule session_request [rotated])
next
  case (logs_in cs x cs')
  then show ?case by (rule session_ensure [rotated])
qed (simp_all add: session_writes)

lemma session_reachable: "(client_step net ce)\<^sup>*\<^sup>* cs cs' \<Longrightarrow> session_ok (fst cs) \<Longrightarrow> session_ok (fst cs')"
  by (induction rule: rtranclp_induct) (auto dest: session_step)

lemma launch_restores:
  assumes "session_ok c" "g_logged_in c \<Longrightarrow> truthy (g_token c) \<and> truthy (g_user c)"
  shows "launch (stored c) = c"
proof (cases "g_logged_in c")
  case True
  with assms show ?thesis by (simp add: session_ok_def launch_def)
next
  case False
  then have "\<not> (truthy (get_storage (stored c) ''token'') \<and> truthy (get_storage (stored c) ''userInfo''))"
    "g_token c = VNull" "g_user c = VNull"
    using assms(1) by (simp_all add: session_ok_def)
  then show ?thesis
    unfolding launch_def using False by (cases c) auto
qed

text \<open>C30. However the app is used after its start, ending it and starting it again gives the same client: one
  that is logged in (with a token and a user) finds them again, and one that is not, because it never logged in,
  logged out or was answered 401, is not logged in by the restart: its storage holds no session.\<close>

theorem session_survives_a_restart:
  assumes "(client_step net ce)\<^sup>*\<^sup>* (launch s0, st0) (c, st)"
  shows "(if g_logged_in c
     then get_storage (stored c) ''token'' = g_token c \<and> get_storage (stored c) ''userInfo'' = g_user c
     else g_token c = VNull \<and> g_user c = VNull \<and>
       \<not> (truthy (get_storage (stored c) ''token'') \<and> truthy (get_storage (stored c) ''userInfo''))) \<and>
    ((g_logged_in c \<longrightarrow> truthy (g_token c) \<and> truthy (g_user c)) \<longrightarrow> launch (stored c) = c)"
proof -
  have ok: "session_ok c"
    using session_reachable [OF assms] by simp
  then have "(g_logged_in c \<longrightarrow> truthy (g_token c) \<and> truthy (g_user c)) \<longrightarrow> launch (stored c) = c"
    by (blast intro: launch_restores)
  with ok show ?thesis
    unfolding session_ok_def by blast
qed

definition sample_client_env :: client_env where
  "sample_client_env = \<lparr>wx_code = Some ''c'', type_text = ''t'', pay_ok = (\<lambda>_. True)\<rparr>"

text \<open>A service that logs everyone in.\<close>

definition login_net :: "unit network" where
  "login_net m url data auth s =
     (Net_ok 200 (VObj [(''token'', VStr ''j''), (''user'', VObj [(''id'', VNum 1)])]), ())"

lemma sample_login:
  "ensure_login login_net sample_client_env (launch (\<lambda>_. None), ()) =
     (Inr (VObj [(''token'', VStr ''j''), (''user'', VObj [(''id'', VNum 1)])]),
      \<lparr>g_token = VStr ''j'', g_user = VObj [(''id'', VNum 1)], g_logged_in = True,
       stored = [''token'' \<mapsto> VStr ''j'', ''userInfo'' \<mapsto> VObj [(''id'', VNum 1)]]\<rparr>, ())"
  by (simp add: ensure_login_def silent_login_def client_login_def client_request_def login_net_def request_result_def
      sample_client_env_def launch_def get_storage_def prop_or_throw_def prop_or_undef_def str_truthy_def str_of_def Let_def)

definition logged_in_client :: client where
  "logged_in_client = \<lparr>g_token = VStr ''j'', g_user = VObj [(''id'', VNum 1)], g_logged_in = True,
     stored = [''token'' \<mapsto> VStr ''j'', ''userInfo'' \<mapsto> VObj [(''id'', VNum 1)]]\<rparr>"

lemma logged_in_reached:
  "(client_step login_net sample_client_env)\<^sup>*\<^sup>* (launch (\<lambda>_. None), ()) (logged_in_client, ())"
  unfolding logged_in_client_def by (intro r_into_rtranclp client_step.logs_in [OF sample_login])

theorem session_survives_a_restart_witness:
  "launch (stored logged_in_client) = logged_in_client \<and>
   launch (stored (client_logout logged_in_client)) = client_logout logged_in_client \<and>
   \<not> g_logged_in (launch (stored (client_logout logged_in_client)))"
proof -
  have "(client_step login_net sample_client_env)\<^sup>*\<^sup>* (launch (\<lambda>_. None), ()) (client_logout logged_in_client, ())"
    using logged_in_reached client_step.logs_out by (rule rtranclp.rtrancl_into_rtrancl)
  from session_survives_a_restart [OF logged_in_reached] session_survives_a_restart [OF this] show ?thesis
    by (simp add: logged_in_client_def) (simp add: client_logout_def)
qed

section \<open>The paths of the server that the client reaches\<close>

lemma mount_paths:
  "map fst mounts = [[''shipping''], [''redeem''], [''me''], [''redeem''], [''products''], [''orders''], [''reviews''],
     [''welfare'']] @ map fst (api_mounts [''api'']) @ map fst (admin_mounts [''h5'', ''api'']) @
     map fst (api_mounts [''h5'', ''api'', ''api''])"
  by (simp add: mounts_def)

lemma client_path:
  "serve w e m (''h5'' # ''api'' # ''api'' # ''v1'' # ss) req st =
   serve_mounts (api_mounts [''h5'', ''api'', ''api'']) w e m (''h5'' # ''api'' # ''api'' # ''v1'' # ss) req st"
proof -
  show ?thesis
    unfolding serve_def mounts_def append_assoc
    by (subst serve_skips; simp add: api_mounts_def admin_mounts_def lower_words)+
qed


lemma with_no_params [simp]: "with_params [] (server_request m data auth) = server_request m data auth"
  by (simp add: with_params_def server_request_def)

lemma serve_client_login:
  "serve w e POST [''h5'', ''api'', ''api'', ''v1'', ''auth'', ''mini'', ''login''] (server_request m data auth) st =
     mini_login (cfg w) (wx w) (http w) e (server_request m data auth) st"
  unfolding client_path
  by (simp add: api_mounts_def run_router_def auth_router_def auth_mini_router_def no_guard_def lower_words)

lemma login_url: "[''h5'', ''api'', ''api'', ''v1''] @ tl (split_on (CHR ''/'') ''/auth/mini/login'') =
    [''h5'', ''api'', ''api'', ''v1'', ''auth'', ''mini'', ''login'']"
  by code_simp

text \<open>C16. The mini program against this server: a client that is not logged in and whose code the WeChat service
  accepts is logged in by \<open>ensureLogin\<close>; until seven days later each of its authorized requests passes the
  user guard, which hands the routes the id of a stored user.\<close>

theorem ensure_login_opens_the_server:
  assumes "users_inv st" "\<not> g_logged_in c" "wx_code ce = Some code" "code \<noteq> []"
    and "code2session (wx w) (http w) code = Inr (VObj d)" "fld d ''openid'' = VStr oid"
    and "digest_ok e" "hmac_base64 e' = hmac_base64 e" "now_sec e' \<le> now_sec e + 604800" "0 < now_sec e"
  shows "\<exists>res c1 st1 u. ensure_login (server_network w e) ce (c, st) = (Inr res, c1, st1) \<and> g_logged_in c1 \<and>
    u \<in> set (rows_of st1 Users) \<and>
    require_user_auth (cfg w) e' (token_request (js_to_string (g_token c1))) = Inr (fld u ''id'')"
proof -
  let ?req = "server_request POST (VObj [(''code'', VStr code)]) None"
  have b: "code_req e (body ?req) = Inr (VStr code)"
    using assms(4) by (simp add: code_req_def server_request_def)
  have cs: "code2session (wx w) (http w) (js_to_string (VStr code)) = Inr (VObj d)"
    using assms(5) by simp
  obtain u n tok where r: "fst (mini_login (cfg w) (wx w) (http w) e ?req st) = json_res 200 [(''token'', VStr tok),
        (''user'', VObj (copy_fields [''id'', ''nickname'', ''avatar_url'', ''phone''] u))]"
    "tok = sign_jwt (cfg w) e [(''sub'', VStr (js_to_string (VNat n))), (''openid'', VStr oid),
        (''provider'', VStr ''wechat_mini'')] (7 * 24 * 3600)"
    "u \<in> set (rows_of (snd (mini_login (cfg w) (wx w) (http w) e ?req st)) Users)" "fld u ''id'' = VNat n" "0 < n"
    using mini_login_ok [OF assms(1) b cs assms(6)] by blast
  have ok: "require_user_auth (cfg w) e' (token_request tok) = Inr (VNat n)"
    unfolding r(2) using assms(7-10) r(5) by (intro token_opens_routes number_of_id_text) auto
  show ?thesis
    using assms(2,3,4) r(3,4) ok
    by (simp add: ensure_login_def silent_login_def client_login_def client_request_def server_network_def login_url
        serve_client_login r(1) json_res_def request_result_def prop_or_throw_def str_truthy_def str_of_def
        case_prod_beta Let_def) metis
qed

definition login_world :: world where
  "login_world = sample_world\<lparr>wx := sample_wx, http := (\<lambda>_. Inr (VObj [(''openid'', VStr ''o'')]))\<rparr>"

theorem ensure_login_opens_the_server_witness:
  "\<exists>c1 st1 u. snd (ensure_login (server_network login_world (sample_env 1000)) sample_client_env
        (launch (\<lambda>_. None), store_with (\<lambda>_. []))) = (c1, st1) \<and> u \<in> set (rows_of st1 Users) \<and>
      require_user_auth (cfg login_world) (sample_env 604000) (token_request (js_to_string (g_token c1))) =
        Inr (fld u ''id'')"
proof -
  have 1: "users_inv (store_with (\<lambda>_. []))"
    by (simp add: users_inv_def ids_ok_def)
  have 2: "\<not> g_logged_in (launch (\<lambda>_. None))" "wx_code sample_client_env = Some ''c''" "''c'' \<noteq> []"
    by (simp_all add: launch_def get_storage_def sample_client_env_def)
  have 3: "code2session (wx login_world) (http login_world) ''c'' = Inr (VObj [(''openid'', VStr ''o'')])"
    by (simp add: code2session_def login_world_def sample_wx_def)
  have 4: "fld [(''openid'', VStr ''o'')] ''openid'' = VStr ''o''"
    by simp
  have 5: "hmac_base64 (sample_env 604000) = hmac_base64 (sample_env 1000)"
    "now_sec (sample_env 604000) \<le> now_sec (sample_env 1000) + 604800" "0 < now_sec (sample_env 1000)"
    by (simp_all add: sample_env_def)
  show ?thesis
    using ensure_login_opens_the_server [OF 1 2 3 4 sample_digest_ok 5] by fastforce
qed

end
