(* ===== verification/Mini_Checkout.thy ===== *)
theory Mini_Checkout
  imports Mini_App
begin

text \<open>
  The checkout page of the mini program (\<^verbatim>\<open>miniapp/pages/checkout/index.js\<close>): its data from the cart or from a
  welfare offer in the address of the page, and the submission: create the order, ask for the payment parameters, pay.
  The last section puts the server of this repository behind it.
\<close>

section \<open>The page and its data\<close>

record checkout_page =
  ck_items :: "row list"
  ck_goods :: val
  ck_submitting :: bool
  ck_address :: val
  ck_welfare :: bool
  ck_invite :: string
  ck_note :: string

definition empty_checkout :: checkout_page where
  "empty_checkout = \<lparr>ck_items = [], ck_goods = VNum 0, ck_submitting = False, ck_address = VNull,
     ck_welfare = False, ck_invite = [], ck_note = []\<rparr>"

definition object_or_null :: "val \<Rightarrow> val" where
  "object_or_null v = (case v of VObj r \<Rightarrow> v | VArr vs \<Rightarrow> v | _ \<Rightarrow> VNull)"

text \<open>The parameters of the page's address are texts; a missing one is undefined.\<close>

type_synonym page_query = "string \<Rightarrow> string option"

definition param :: "page_query \<Rightarrow> string \<Rightarrow> val" where
  "param q k = (case q k of None \<Rightarrow> VUndef | Some s \<Rightarrow> VStr s)"

definition welfare_item :: "val \<Rightarrow> val \<Rightarrow> val \<Rightarrow> string \<Rightarrow> row" where
  "welfare_item product pid price code =
     [(''key'', VStr (''welfare:'' @ js_to_string pid @ '':'' @ code)),
      (''productId'', to_num (prop_or_undef product ''id'')), (''skuId'', VNull), (''qty'', VNum 1),
      (''title'', prop_or_undef product ''title''), (''skuTitle'', VStr (mp_welfare_code @ code)),
      (''cover_url'', VStr (normalize_image_url (prop_or_undef product ''cover_url''))),
      (''price_cent'', price), (''is_welfare'', VNum 1)]"

text \<open>What is thrown ends a handler's \<open>try\<close>.\<close>

definition and_then :: "client_error + 'a \<Rightarrow> ('a \<Rightarrow> client_error + 'b) \<Rightarrow> client_error + 'b" where
  "and_then r f = (case r of Inl err \<Rightarrow> Inl err | Inr x \<Rightarrow> f x)"

text \<open>\<open>res.data || res.product || res || null\<close>, which throws when \<open>res\<close> is null.\<close>

definition product_of :: "client_env \<Rightarrow> val \<Rightarrow> client_error + val" where
  "product_of ce res =
     and_then (prop_or_throw ce res ''data'')
       (\<lambda>d. Inr (js_or (js_or (js_or d (prop_or_undef res ''product'')) res) VNull))"

definition load_cart_data :: "val \<Rightarrow> checkout_page \<Rightarrow> storage \<Rightarrow> checkout_page" where
  "load_cart_data addr pg s =
     (case load_cart s of
        Inl _ \<Rightarrow> pg
      | Inr cp \<Rightarrow> pg\<lparr>ck_items := cp_items cp, ck_goods := cp_total cp, ck_address := addr, ck_welfare := False,
                      ck_invite := [], ck_note := []\<rparr>)"

text \<open>\<open>loadData\<close>; a note that cannot be decoded throws before anything is set.\<close>

definition load_data_page ::
  "'s network \<Rightarrow> client_env \<Rightarrow> page_query \<Rightarrow> checkout_page \<Rightarrow> client \<times> 's \<Rightarrow> checkout_page \<times> client \<times> 's" where
  "load_data_page net ce q pg cs =
     (let s = stored (fst cs);
          addr = object_or_null (get_storage s ''address'');
          code = trim (str_of (q ''inviteCode'')); pid = to_num (param q ''productId'');
          price = to_num (js_or (param q ''welfarePriceCent'') (VNum 0)); raw = str_of (q ''welfareNote'')
      in case uri_decode (length raw) raw of
           None \<Rightarrow> (pg, cs)
         | Some note \<Rightarrow>
             if code \<noteq> [] \<and> truthy pid \<and> num_less (VNum 0) price
             then (case api_product_detail net pid cs of (r, cs1) \<Rightarrow>
                     (case and_then r (product_of ce) of
                        Inr product \<Rightarrow>
                          if truthy product
                          then (pg\<lparr>ck_items := [welfare_item product pid price code], ck_goods := price,
                                   ck_address := addr, ck_welfare := True, ck_invite := code, ck_note := note\<rparr>, cs1)
                          else (load_cart_data addr pg (stored (fst cs1)), cs1)
                      | Inl _ \<Rightarrow> (load_cart_data addr pg (stored (fst cs1)), cs1)))
             else (load_cart_data addr pg s, cs))"

section \<open>Submitting\<close>

datatype checkout_end =
    Ignored | Empty_cart | No_address | Bad_code
  | Paid string
  | Failed val "string option"

definition six_digits :: "string \<Rightarrow> bool" where
  "six_digits s \<longleftrightarrow> length s = 6 \<and> list_all is_digit s"

text \<open>The checks before the first request.\<close>

definition submit_guard :: "checkout_page \<Rightarrow> checkout_end option" where
  "submit_guard pg =
     (if ck_submitting pg then Some Ignored
      else if ck_items pg = [] then Some Empty_cart
      else if \<not> truthy (ck_address pg) then Some No_address
      else if ck_welfare pg \<and> \<not> six_digits (trim (ck_invite pg)) then Some Bad_code
      else None)"

definition order_line :: "row \<Rightarrow> row" where
  "order_line it =
     [(''productId'', to_num (fld it ''productId'')),
      (''skuId'', if truthy (fld it ''skuId'') then to_num (fld it ''skuId'') else VUndef),
      (''qty'', num_or (fld it ''qty'') 1)]"

definition order_address :: "val \<Rightarrow> row" where
  "order_address a =
     (let g = prop_or_undef a in
      [(''name'', g ''name''), (''phone'', g ''phone''), (''region'', js_or (g ''region'') (VStr [])),
       (''province'', g ''province''), (''city'', g ''city''), (''district'', g ''district''), (''detail'', g ''detail'')])"

definition order_payload :: "checkout_page \<Rightarrow> row" where
  "order_payload pg =
     (let code = trim (ck_invite pg) in
      [(''items'', VArr (map (\<lambda>it. VObj (order_line it)) (ck_items pg))),
       (''address'', VObj (order_address (ck_address pg)))] @
      (if ck_welfare pg \<and> code \<noteq> [] then [(''inviteCode'', VStr code)] else []))"

text \<open>\<open>orderRes.orderNo || (orderRes.data && orderRes.data.orderNo)\<close>, and the error when there is none.\<close>

definition order_no_of :: "client_env \<Rightarrow> val \<Rightarrow> client_error + string" where
  "order_no_of ce res =
     and_then (prop_or_throw ce res ''orderNo'') (\<lambda>n.
       (let d = prop_or_undef res ''data'';
            no = js_or n (if truthy d then prop_or_undef d ''orderNo'' else d)
        in if truthy no then Inr (js_to_string no) else Inl (Client_error VUndef (VStr mp_no_order_no))))"

text \<open>The arguments of \<open>wx.requestPayment\<close>.\<close>

definition payment_args :: "client_env \<Rightarrow> val \<Rightarrow> client_error + row" where
  "payment_args ce res =
     and_then (prop_or_throw ce res ''timeStamp'') (\<lambda>ts.
       (let g = prop_or_undef res in
        Inr [(''timeStamp'', VStr (js_to_string (js_or (js_or ts (g ''timestamp'')) (VStr [])))),
             (''nonceStr'', g ''nonceStr''), (''package'', g ''package''),
             (''signType'', js_or (g ''signType'') (VStr ''RSA'')), (''paySign'', g ''paySign'')]))"

text \<open>\<open>miniPrepay\<close> and \<open>requestPayment\<close>, whose failure carries no \<open>message\<close>.\<close>

definition pay_order ::
  "'s network \<Rightarrow> client_env \<Rightarrow> string \<Rightarrow> client \<times> 's \<Rightarrow> (client_error + unit) \<times> client \<times> 's" where
  "pay_order net ce no cs =
     (case api_mini_prepay net no cs of (r, cs1) \<Rightarrow>
        (and_then (and_then r (payment_args ce))
           (\<lambda>args. if pay_ok ce args then Inr () else Inl (Client_error VUndef VUndef)), cs1))"

definition create_and_pay ::
  "'s network \<Rightarrow> client_env \<Rightarrow> checkout_page \<Rightarrow> client \<times> 's \<Rightarrow> checkout_end \<times> client \<times> 's" where
  "create_and_pay net ce pg cs =
     (let failed = (\<lambda>err no. Failed (js_or (message_of err) (VStr mp_pay_failed)) no) in
      case ensure_login net ce cs of
        (Inl err, cs1) \<Rightarrow> (failed err None, cs1)
      | (Inr _, cs1) \<Rightarrow>
          (case api_create_order net (order_payload pg) cs1 of (r, cs2) \<Rightarrow>
             (case and_then r (order_no_of ce) of
                Inl err \<Rightarrow> (failed err None, cs2)
              | Inr no \<Rightarrow>
                  (case pay_order net ce no cs2 of
                     (Inl err, cs3) \<Rightarrow> (failed err (Some no), cs3)
                   | (Inr _, c3, s3) \<Rightarrow>
                       (Paid no, c3\<lparr>stored := (if ck_welfare pg then stored c3 else clear_cart (stored c3))\<rparr>, s3)))))"

text \<open>The page after the checks, while the requests are under way, and after them (\<open>finally\<close>).\<close>

definition submit_order ::
  "'s network \<Rightarrow> client_env \<Rightarrow> checkout_page \<Rightarrow> client \<times> 's \<Rightarrow> checkout_end \<times> checkout_page \<times> client \<times> 's" where
  "submit_order net ce pg cs =
     (case submit_guard pg of
        Some x \<Rightarrow> (x, pg, cs)
      | None \<Rightarrow>
          (case create_and_pay net ce (pg\<lparr>ck_submitting := True\<rparr>) cs of
             (x, cs1) \<Rightarrow> (x, pg\<lparr>ck_submitting := False\<rparr>, cs1)))"

text \<open>The page that is opened afterwards.\<close>

definition next_page :: "checkout_end \<Rightarrow> string option" where
  "next_page x =
     (let detail = (\<lambda>no. ''/pages/order-detail/index?orderNo='' @ uri_encode no) in
      case x of
        Empty_cart \<Rightarrow> Some ''/pages/cart/index''
      | No_address \<Rightarrow> Some ''/pages/address/index''
      | Paid no \<Rightarrow> Some (detail no)
      | Failed m no \<Rightarrow> map_option detail no
      | _ \<Rightarrow> None)"


section \<open>The server behind the page\<close>

lemma user_auth_headers:
  "require_user_auth cf e (server_request m data (Some (''Bearer '' @ t))) = require_user_auth cf e (token_request t)"
proof -
  have h: "headers (server_request m data (Some (''Bearer '' @ t))) = headers (token_request t)"
    by (auto simp: server_request_def token_request_def fun_eq_iff)
  show ?thesis
    unfolding require_user_auth_def extract_jwt_def h ..
qed

lemma serve_client_order:
  "serve w e POST [''h5'', ''api'', ''api'', ''v1'', ''orders''] (server_request m data auth) st =
     user_only (cfg w) e (server_request m data auth)
       (\<lambda>uid. with_next (post_order e (server_request m data auth) uid)) st"
  unfolding client_path
  by (simp add: api_mounts_def run_router_def api_orders_router_def no_guard_def users_def lower_words)

lemma order_url: "[''h5'', ''api'', ''api'', ''v1''] @ tl (split_on (CHR ''/'') ''/orders'') =
    [''h5'', ''api'', ''api'', ''v1'', ''orders'']"
  by code_simp

lemma served_order:
  assumes "require_user_auth (cfg w) e (server_request POST data auth) = Inr uid"
    and "fst (post_order e (server_request POST data auth) uid st) = ok_res r"
  shows "server_network w e POST ''/orders'' data auth st =
    (Net_ok 200 (json_copy (VObj r)), snd (post_order e (server_request POST data auth) uid st))"
  using assms
  by (simp add: server_network_def order_url serve_client_order user_only_def with_next_def ok_res_def json_res_def
      case_prod_beta Let_def)

text \<open>What the server makes of the page's order: its fields are none that the server reads, the code apart.\<close>

lemma posted_order:
  "\<exists>b. create_order_req e (json_copy (VObj (order_payload pg))) = Inr b \<and> fld b ''propertyId'' = VUndef \<and>
     fld b ''addressSnapshot'' = VUndef \<and> fld b ''buyerNote'' = VUndef \<and>
     fld b ''inviteCode'' = (if ck_welfare pg \<and> trim (ck_invite pg) \<noteq> [] then VStr (trim (ck_invite pg)) else VUndef)"
  by (simp add: order_payload_def create_order_req_def sku_items_issue_def Let_def)

lemma posted_order_rows:
  "\<exists>orow. fst (post_order e (server_request POST (VObj (order_payload pg)) auth) uid st) = ok_res (order_brief orow) \<and>
     (\<forall>t. rows_of (snd (post_order e (server_request POST (VObj (order_payload pg)) auth) uid st)) t =
        (if t = Orders then rows_of st t @ [orow] else rows_of st t)) \<and>
     fld orow ''user_id'' = uid \<and> fld orow ''total_amount'' = VNum 0 \<and> fld orow ''property_id'' = VUndef \<and>
     fld orow ''address_snapshot'' = VUndef \<and>
     fld orow ''invite_code'' = (if ck_welfare pg \<and> trim (ck_invite pg) \<noteq> [] then VStr (trim (ck_invite pg)) else VUndef)"
proof -
  obtain b where b: "create_order_req e (json_copy (VObj (order_payload pg))) = Inr b" "fld b ''propertyId'' = VUndef"
     "fld b ''addressSnapshot'' = VUndef" "fld b ''buyerNote'' = VUndef"
     "fld b ''inviteCode'' = (if ck_welfare pg \<and> trim (ck_invite pg) \<noteq> [] then VStr (trim (ck_invite pg)) else VUndef)"
    using posted_order [of e pg] by blast
  have body: "body (server_request POST (VObj (order_payload pg)) auth) = json_copy (VObj (order_payload pg))"
    by (simp add: server_request_def)
  show ?thesis
    unfolding post_order_def body b(1)
    by (intro exI [of _ "fst (orders_create (order_env.truncate e)
          [(''user_id'', uid), (''property_id'', fld b ''propertyId''), (''status'', VStr ''PENDING_PAYMENT''),
           (''total_amount'', VNum 0), (''address_snapshot'', VUndef), (''buyer_note'', fld b ''buyerNote''),
           (''invite_code'', fld b ''inviteCode'')] st)"],
        simp add: b(2-5) Let_def case_prod_beta orders_create_def store_insert_result fld_new_row js_or_def, blast)
qed

text \<open>C17. On this server no checkout of a logged-in customer ever pays: every submission that passes the page's own
  checks stores one more order, of amount 0 and without items and address, and then stops with the message that there is
  no order number (the answer calls it \<open>order_no\<close>, the page reads \<open>orderNo\<close>); payment is never requested, no order
  page is opened, and the cart and the page are as before, so that the next tap stores another order.\<close>

theorem checkout_orders_but_never_pays:
  assumes "submit_guard pg = None" "g_logged_in c" "truthy (g_token c)"
    and "require_user_auth (cfg w) e (token_request (js_to_string (g_token c))) = Inr uid"
  shows "\<exists>orow st1. submit_order (server_network w e) ce pg (c, st) = (Failed (VStr mp_no_order_no) None, pg, c, st1) \<and>
    (\<forall>t. rows_of st1 t = (if t = Orders then rows_of st t @ [orow] else rows_of st t)) \<and>
    fld orow ''user_id'' = uid \<and> fld orow ''total_amount'' = VNum 0 \<and> fld orow ''address_snapshot'' = VUndef"
proof -
  let ?auth = "Some (''Bearer '' @ js_to_string (g_token c))"
  have again: "pg\<lparr>ck_submitting := False\<rparr> = pg"
    using assms(1) by (simp add: submit_guard_def split: if_splits)
  obtain orow where r: "fst (post_order e (server_request POST (VObj (order_payload pg)) ?auth) uid st) =
      ok_res (order_brief orow)"
    "\<forall>t. rows_of (snd (post_order e (server_request POST (VObj (order_payload pg)) ?auth) uid st)) t =
        (if t = Orders then rows_of st t @ [orow] else rows_of st t)"
    "fld orow ''user_id'' = uid" "fld orow ''total_amount'' = VNum 0" "fld orow ''address_snapshot'' = VUndef"
    using posted_order_rows [where e = e and pg = pg and auth = ?auth and uid = uid and st = st] by blast
  let ?st = "snd (post_order e (server_request POST (VObj (order_payload pg)) ?auth) uid st)"
  have auth: "require_user_auth (cfg w) e (server_request POST (VObj (order_payload pg)) ?auth) = Inr uid"
    unfolding user_auth_headers by (rule assms(4))
  have same: "order_payload (pg\<lparr>ck_submitting := True\<rparr>) = order_payload pg"
    by (simp add: order_payload_def)
  note served = served_order [OF auth r(1)]
  have "order_no_of ce (json_copy (VObj (order_brief orow))) = Inl (Client_error VUndef (VStr mp_no_order_no))"
    by (simp add: order_no_of_def and_then_def prop_or_throw_def prop_or_undef_def order_brief_def js_or_def
        Let_def)
  moreover have message: "mp_no_order_no \<noteq> []"
    by (simp add: mp_no_order_no_def)
  ultimately have "submit_order (server_network w e) ce pg (c, st) = (Failed (VStr mp_no_order_no) None, pg, c, ?st)"
    using assms(1-3) again
    by (simp add: submit_order_def create_and_pay_def ensure_login_def api_create_order_def request_ok [where net = "server_network w e" and m = POST and url = "''/orders''", OF served]
        and_then_def js_or_def Let_def same message)
  with r(2-5) show ?thesis by blast
qed


definition shopper :: client where
  "shopper = \<lparr>g_token = VStr (sign_jwt sample_config (sample_env 1000) [(''sub'', VStr ''7'')] 604800),
     g_user = VObj [(''id'', VNum 7)], g_logged_in = True, stored = (\<lambda>_. None)\<rparr>"

definition filled_page :: checkout_page where
  "filled_page = empty_checkout\<lparr>ck_items := [[(''productId'', VNum 1), (''qty'', VNum 2)]],
     ck_address := VObj [(''name'', VStr ''n'')]\<rparr>"

lemma shopper_accepted:
  "require_user_auth (cfg sample_world) (sample_env 2000) (token_request (js_to_string (g_token shopper))) = Inr (VNat 7)"
proof -
  have sub: "to_num (VStr ''7'') = VNat 7"
    by code_simp
  have hmac: "hmac_base64 (sample_env 2000) = hmac_base64 (sample_env 1000)"
    and t: "now_sec (sample_env 2000) \<le> now_sec (sample_env 1000) + 604800" "0 < now_sec (sample_env 1000) + 604800"
    by (simp_all add: sample_env_def)
  show ?thesis
    using token_opens_routes [OF sample_digest_ok hmac _ sub t, of "[]" sample_config]
    by (simp add: shopper_def sample_world_def)
qed

theorem checkout_orders_but_never_pays_witness:
  "fst (submit_order (server_network sample_world (sample_env 2000)) sample_client_env filled_page
     (shopper, store_with (\<lambda>_. []))) = Failed (VStr mp_no_order_no) None"
proof -
  have "submit_guard filled_page = None" "g_logged_in shopper" "truthy (g_token shopper)"
    by (simp_all add: submit_guard_def filled_page_def empty_checkout_def shopper_def sign_jwt_nonempty)
  from checkout_orders_but_never_pays [OF this shopper_accepted, of sample_client_env "store_with (\<lambda>_. [])"]
  show ?thesis by auto
qed

section \<open>The cart is emptied by a payment only\<close>

lemma request_keeps_cart:
  "client_request net m url d auth (c, s) = (x, c', s') \<Longrightarrow> stored c' ''cart'' = stored c ''cart''"
  by (auto simp: client_request_def request_result_def client_logout_def Let_def
      split: prod.splits net_result.splits if_splits)

lemma ensure_login_keeps_cart:
  "ensure_login net ce (c, s) = (x, c', s') \<Longrightarrow> stored c' ''cart'' = stored c ''cart''"
  by (auto simp: ensure_login_def silent_login_def client_login_def Let_def
      split: if_splits prod.splits sum.splits dest: request_keeps_cart)

lemma pay_keeps_cart:
  "pay_order net ce no (c, s) = (x, c', s') \<Longrightarrow> stored c' ''cart'' = stored c ''cart''"
  by (auto simp: pay_order_def api_mini_prepay_def split: prod.splits dest: request_keeps_cart)

text \<open>C28. Whatever the network answers, a submission changes the cart only if it ends with a payment of an order that is
  no welfare order, and then the cart is empty; the items of the page stay.\<close>

theorem cart_emptied_only_by_payment:
  assumes "submit_order net ce pg (c, s) = (x, pg', c', s')"
  shows "(case x of
      Paid no \<Rightarrow> (if ck_welfare pg then stored c' ''cart'' = stored c ''cart'' else get_cart (stored c') = [])
    | _ \<Rightarrow> stored c' ''cart'' = stored c ''cart'') \<and> ck_items pg' = ck_items pg"
proof (cases "submit_guard pg")
  case (Some y)
  with assms show ?thesis
    by (auto simp: submit_order_def submit_guard_def split: if_splits)
next
  case None
  then have run: "create_and_pay net ce (pg\<lparr>ck_submitting := True\<rparr>) (c, s) = (x, c', s')" and "pg' = pg\<lparr>ck_submitting := False\<rparr>"
    using assms by (auto simp: submit_order_def split: prod.splits)
  obtain r1 c1 s1 where 1: "ensure_login net ce (c, s) = (r1, c1, s1)"
    by (metis prod.collapse)
  obtain r2 c2 s2 where 2: "api_create_order net (order_payload (pg\<lparr>ck_submitting := True\<rparr>)) (c1, s1) = (r2, c2, s2)"
    by (metis prod.collapse)
  have k: "stored c1 ''cart'' = stored c ''cart''" "stored c2 ''cart'' = stored c ''cart''"
    using ensure_login_keeps_cart [OF 1] request_keeps_cart [OF 2 [unfolded api_create_order_def]] by simp_all
  have "(case x of
      Paid no \<Rightarrow> (if ck_welfare pg then stored c' ''cart'' = stored c ''cart'' else get_cart (stored c') = [])
    | _ \<Rightarrow> stored c' ''cart'' = stored c ''cart'')"
  proof (cases "and_then r2 (order_no_of ce)")
    case (Inl err)
    with run 1 2 k show ?thesis
      by (auto simp: create_and_pay_def Let_def split: sum.splits)
  next
    case (Inr no)
    obtain r3 c3 s3 where 3: "pay_order net ce no (c2, s2) = (r3, c3, s3)"
      by (metis prod.collapse)
    have "stored c3 ''cart'' = stored c ''cart''"
      using pay_keeps_cart [OF 3] k by simp
    with run 1 2 k Inr 3 show ?thesis
      by (auto simp: create_and_pay_def Let_def clear_cart_def split: sum.splits)
  qed
  with \<open>pg' = _\<close> show ?thesis by simp
qed


text \<open>A service that numbers orders and prepares payments.\<close>

definition paying_net :: "unit network" where
  "paying_net m url data auth s = (Net_ok 200 (VObj [(''orderNo'', VStr ''A1''), (''timeStamp'', VStr ''1'')]), ())"

lemma sample_paid:
  "submit_order paying_net sample_client_env filled_page (shopper\<lparr>stored := [''cart'' \<mapsto> VArr [VNum 1]]\<rparr>, ()) =
     (Paid ''A1'', filled_page, shopper\<lparr>stored := [''cart'' \<mapsto> VArr []]\<rparr>, ())"
  by (simp add: submit_order_def submit_guard_def filled_page_def empty_checkout_def create_and_pay_def ensure_login_def
      shopper_def sign_jwt_nonempty api_create_order_def client_request_def paying_net_def request_result_def
      and_then_def order_no_of_def prop_or_throw_def prop_or_undef_def js_or_def pay_order_def api_mini_prepay_def
      payment_args_def sample_client_env_def clear_cart_def set_cart_def Let_def)

text \<open>A service that takes orders and fails to prepare their payment.\<close>

definition unpaid_net :: "unit network" where
  "unpaid_net m url data auth s =
     (if url = ''/orders'' then (Net_ok 200 (VObj [(''orderNo'', VStr ''A1'')]), ()) else (Net_fail, ()))"

lemma sample_unpaid:
  "submit_order unpaid_net sample_client_env filled_page (shopper\<lparr>stored := [''cart'' \<mapsto> VArr [VNum 1]]\<rparr>, ()) =
     (Failed (VStr mp_network) (Some ''A1''), filled_page, shopper\<lparr>stored := [''cart'' \<mapsto> VArr [VNum 1]]\<rparr>, ())"
  by (simp add: submit_order_def submit_guard_def filled_page_def empty_checkout_def create_and_pay_def ensure_login_def
      shopper_def sign_jwt_nonempty api_create_order_def client_request_def unpaid_net_def request_result_def
      and_then_def order_no_of_def prop_or_throw_def prop_or_undef_def js_or_def pay_order_def api_mini_prepay_def
      sample_client_env_def mp_network_def Let_def)

text \<open>A cart with one item is empty after a payment and as it was after a failed one.\<close>

theorem cart_emptied_only_by_payment_witness:
  "\<exists>pg' c'. submit_order paying_net sample_client_env filled_page
       (shopper\<lparr>stored := [''cart'' \<mapsto> VArr [VNum 1]]\<rparr>, ()) = (Paid ''A1'', pg', c', ()) \<and>
     get_cart (stored c') = [] \<and> ck_items pg' = [[(''productId'', VNum 1), (''qty'', VNum 2)]] \<and>
   (\<exists>m pg' c'. submit_order unpaid_net sample_client_env filled_page
       (shopper\<lparr>stored := [''cart'' \<mapsto> VArr [VNum 1]]\<rparr>, ()) = (Failed m (Some ''A1''), pg', c', ()) \<and>
     stored c' ''cart'' = Some (VArr [VNum 1]))"
  using cart_emptied_only_by_payment [OF sample_paid] cart_emptied_only_by_payment [OF sample_unpaid]
  by (simp add: sample_paid sample_unpaid) (simp add: filled_page_def empty_checkout_def)

section \<open>A welfare offer whose product cannot be loaded\<close>

text \<open>When the product of the offer cannot be loaded, the page becomes a checkout of the cart, at the prices of the
  cart.\<close>

lemma failed_offer_checks_out_the_cart:
  assumes "api_product_detail net (to_num (param q ''productId'')) cs = (Inl err, cs1)"
    and "uri_decode (length (str_of (q ''welfareNote''))) (str_of (q ''welfareNote'')) = Some note"
    and "load_cart (stored (fst cs)) = Inr cp" "load_cart (stored (fst cs1)) = Inr cp"
  shows "ck_items (fst (load_data_page net ce q pg cs)) = cp_items cp \<and>
    \<not> ck_welfare (fst (load_data_page net ce q pg cs))"
  using assms by (simp_all add: load_data_page_def Let_def load_cart_data_def and_then_def)

end
