(* ===== verification/Mini_Product.thy ===== *)
theory Mini_Product
  imports Mini_Checkout
begin

text \<open>
  The product page of the mini program (\<^verbatim>\<open>miniapp/pages/product/index.js\<close>): the choice of a variant and a quantity,
  the welfare code with its timer and the check that is under way, the price shown, and the two ways to buy.  The
  HTML of the description, which no handler reads, is left out.
\<close>

section \<open>The page\<close>

record welfare_state =
  wf_checked :: bool
  wf_valid :: bool
  wf_price :: val
  wf_note :: string
  wf_error :: val
  wf_max :: val
  wf_used :: val
  wf_left :: val

text \<open>\<open>pd_timer\<close> holds the code that the running timer will check.\<close>

record product_page =
  pd_id :: val
  pd_loading :: bool
  pd_error :: val
  pd_product :: "row option"
  pd_skus :: "row list"
  pd_selected :: val
  pd_qty :: val
  pd_price :: val
  pd_code :: string
  pd_welfare :: welfare_state
  pd_timer :: "string option"

definition no_welfare :: welfare_state where
  "no_welfare = \<lparr>wf_checked = False, wf_valid = False, wf_price = VNum 0, wf_note = [], wf_error = VStr [],
     wf_max = VNum 1, wf_used = VNum 0, wf_left = VNum 0\<rparr>"

definition new_product_page :: product_page where
  "new_product_page = \<lparr>pd_id = VNull, pd_loading = True, pd_error = VNull, pd_product = None, pd_skus = [],
     pd_selected = VNull, pd_qty = VNum 1, pd_price = VNum 0, pd_code = [], pd_welfare = no_welfare, pd_timer = None\<rparr>"

text \<open>\<open>Number(x.is_welfare || 0) === 1\<close>\<close>

definition welfare_product :: "row \<Rightarrow> bool" where
  "welfare_product p \<longleftrightarrow> is_one (fld p ''is_welfare'')"

definition selected_sku :: "product_page \<Rightarrow> row option" where
  "selected_sku pg =
     (if truthy (pd_selected pg)
      then find (\<lambda>s. strict_eq (to_num (fld s ''id'')) (to_num (pd_selected pg))) (pd_skus pg) else None)"

definition shown_price :: "row \<Rightarrow> product_page \<Rightarrow> val" where
  "shown_price p pg =
     (if welfare_product p
      then (if wf_valid (pd_welfare pg) then num_or (wf_price (pd_welfare pg)) 0 else num_or (fld p ''price_cent'') 0)
      else (case selected_sku pg of
              Some s \<Rightarrow> num_or (fld s ''price_cent'') 0 | None \<Rightarrow> num_or (fld p ''price_cent'') 0))"

definition update_price :: "product_page \<Rightarrow> product_page" where
  "update_price pg = (case pd_product pg of None \<Rightarrow> pg | Some p \<Rightarrow> pg\<lparr>pd_price := shown_price p pg\<rparr>)"

section \<open>Loading\<close>

definition open_product :: "val \<Rightarrow> product_page \<Rightarrow> product_page" where
  "open_product query_id pg =
     (let i = to_num query_id in
      case i of
        VNum x \<Rightarrow> if x = 0 then pg\<lparr>pd_loading := False, pd_error := VStr mp_bad_id\<rparr> else pg\<lparr>pd_id := i\<rparr>
      | _ \<Rightarrow> pg\<lparr>pd_loading := False, pd_error := VStr mp_bad_id\<rparr>)"

definition load_begin :: "product_page \<Rightarrow> product_page" where
  "load_begin pg = pg\<lparr>pd_loading := True, pd_error := VNull\<rparr>"

definition sku_row :: "client_env \<Rightarrow> val \<Rightarrow> val \<Rightarrow> client_error + row" where
  "sku_row ce product s =
     and_then (prop_or_throw ce s ''cover_url'') (\<lambda>u.
       Inr (spread (row_of s)
         [(''cover_url'', VStr (normalize_image_url (js_or u (prop_or_undef product ''cover_url''))))]))"

fun sku_rows :: "client_env \<Rightarrow> val \<Rightarrow> val list \<Rightarrow> client_error + row list" where
  "sku_rows ce product [] = Inr []"
| "sku_rows ce product (s # ss) =
     and_then (sku_row ce product s) (\<lambda>r. and_then (sku_rows ce product ss) (\<lambda>rs. Inr (r # rs)))"

definition set_product :: "row \<Rightarrow> row list \<Rightarrow> product_page \<Rightarrow> product_page" where
  "set_product p skus pg =
     update_price (pg\<lparr>pd_product := Some p, pd_skus := skus,
       pd_selected := (if \<not> welfare_product p \<and> skus \<noteq> [] then to_num (fld (hd skus) ''id'') else VNull),
       pd_qty := VNum 1, pd_price := VNum 0, pd_loading := False\<rparr>)"

definition array_or_empty :: "val \<Rightarrow> val list" where
  "array_or_empty v = (case v of VArr vs \<Rightarrow> vs | _ \<Rightarrow> [])"

definition load_done :: "client_env \<Rightarrow> client_error + val \<Rightarrow> product_page \<Rightarrow> product_page" where
  "load_done ce r pg =
     (case and_then r (\<lambda>res. and_then (product_of ce res) (\<lambda>product.
             if \<not> truthy product then Inr None
             else and_then (sku_rows ce product (array_or_empty (prop_or_undef res ''skus''))) (\<lambda>skus.
                    Inr (Some (spread (row_of product)
                      [(''cover_url'', VStr (normalize_image_url (prop_or_undef product ''cover_url'')))], skus))))) of
        Inl err \<Rightarrow> pg\<lparr>pd_loading := False, pd_error := js_or (message_of err) (VStr mp_load_failed)\<rparr>
      | Inr None \<Rightarrow> pg\<lparr>pd_loading := False, pd_error := VStr mp_no_product\<rparr>
      | Inr (Some (p, skus)) \<Rightarrow> set_product p skus pg)"

section \<open>Variant and quantity\<close>

definition select_sku :: "val \<Rightarrow> product_page \<Rightarrow> product_page" where
  "select_sku v pg =
     (case to_num v of
        VNum x \<Rightarrow> if x = 0 then pg else update_price (pg\<lparr>pd_selected := VNum x\<rparr>)
      | _ \<Rightarrow> pg)"

definition step_qty :: "rat \<Rightarrow> product_page \<Rightarrow> product_page" where
  "step_qty d pg =
     (case pd_product pg of
        None \<Rightarrow> pg
      | Some p \<Rightarrow>
          if welfare_product p then pg
          else pg\<lparr>pd_qty := at_least_1 (num_add (num_or (pd_qty pg) 1) (VNum d))\<rparr>)"

definition dec_qty :: "product_page \<Rightarrow> product_page" where
  "dec_qty = step_qty (- 1)"

definition inc_qty :: "product_page \<Rightarrow> product_page" where
  "inc_qty = step_qty 1"

section \<open>Buying\<close>

definition cart_payload :: "row \<Rightarrow> product_page \<Rightarrow> row" where
  "cart_payload p pg =
     (let sku = selected_sku pg; g = (\<lambda>k. case sku of Some s \<Rightarrow> fld s k | None \<Rightarrow> VNull) in
      [(''productId'', to_num (fld p ''id'')),
       (''skuId'', case sku of Some s \<Rightarrow> to_num (fld s ''id'') | None \<Rightarrow> VNull),
       (''qty'', at_least_1 (num_or (pd_qty pg) 1)),
       (''title'', fld p ''title''),
       (''skuTitle'', case sku of Some s \<Rightarrow> fld s ''sku_title'' | None \<Rightarrow> VStr []),
       (''cover_url'', js_or (g ''cover_url'') (fld p ''cover_url'')),
       (''price_cent'', num_or (case sku of Some s \<Rightarrow> fld s ''price_cent'' | None \<Rightarrow> fld p ''price_cent'') 0),
       (''is_welfare'', VNum 0)])"

definition product_to_cart :: "product_page \<Rightarrow> storage \<Rightarrow> storage" where
  "product_to_cart pg s =
     (case pd_product pg of
        None \<Rightarrow> s
      | Some p \<Rightarrow> if welfare_product p then s else snd (add_to_cart (cart_payload p pg) s))"

definition query_text :: "(string \<times> val) list \<Rightarrow> string" where
  "query_text kvs = join ''&'' (map (\<lambda>(k, v). k @ ''='' @ uri_encode (js_to_string v)) kvs)"

definition offer_query :: "row \<Rightarrow> product_page \<Rightarrow> (string \<times> val) list" where
  "offer_query p pg =
     [(''productId'', fld p ''id''), (''qty'', VNum 1), (''inviteCode'', VStr (trim (pd_code pg))),
      (''welfarePriceCent'', wf_price (pd_welfare pg)), (''welfareNote'', VStr (wf_note (pd_welfare pg)))]"

text \<open>The storage afterwards and the page that is opened.\<close>

definition buy_now :: "product_page \<Rightarrow> storage \<Rightarrow> storage \<times> string option" where
  "buy_now pg s =
     (case pd_product pg of
        None \<Rightarrow> (s, None)
      | Some p \<Rightarrow>
          if welfare_product p
          then (s, if wf_valid (pd_welfare pg)
                   then Some (''/pages/checkout/index?'' @ query_text (offer_query p pg)) else None)
          else (product_to_cart pg s, Some ''/pages/checkout/index''))"

section \<open>The welfare code\<close>

definition type_code :: "string \<Rightarrow> product_page \<Rightarrow> product_page" where
  "type_code text pg =
     (let v = take 6 (filter is_digit text) in
      if length v = 6 then pg\<lparr>pd_code := v, pd_timer := Some v\<rparr>
      else update_price (pg\<lparr>pd_code := v, pd_timer := None, pd_welfare := no_welfare\<rparr>))"

text \<open>Whether \<open>checkWelfareCode\<close> asks the server, and for which product and code.\<close>

definition check_request :: "string \<Rightarrow> product_page \<Rightarrow> (val \<times> string) option" where
  "check_request code pg =
     (case pd_product pg of
        None \<Rightarrow> None
      | Some p \<Rightarrow>
          if welfare_product p \<and> six_digits (trim code) then Some (fld p ''id'', trim code) else None)"

definition check_done :: "client_error + val \<Rightarrow> product_page \<Rightarrow> product_page" where
  "check_done r pg =
     update_price (pg\<lparr>pd_welfare :=
       (case r of
          Inr d \<Rightarrow>
            (let g = prop_or_undef d in
             \<lparr>wf_checked = True, wf_valid = truthy (g ''ok''), wf_price = num_or (g ''priceCent'') 0,
              wf_note = js_to_string (js_or (g ''note'') (VStr [])), wf_error = VStr [],
              wf_max = num_or (g ''maxUsage'') 1, wf_used = num_or (g ''usedCount'') 0,
              wf_left = num_or (g ''remainingUsage'') 0\<rparr>)
        | Inl err \<Rightarrow>
            no_welfare\<lparr>wf_checked := True, wf_error := js_or (message_of err) (VStr mp_bad_welfare)\<rparr>)\<rparr>)"


section \<open>The page as a state machine\<close>

text \<open>
  Between two handlers the page waits for taps, for its timer and for answers, in any order.  A state is the page with
  the codes whose check is under way; \<open>answers\<close> are the results a check can have.
\<close>

inductive product_step ::
  "client_env \<Rightarrow> (client_error + val \<Rightarrow> bool) \<Rightarrow> product_page \<times> string list \<Rightarrow> product_page \<times> string list \<Rightarrow> bool"
  for ce :: client_env and answers :: "client_error + val \<Rightarrow> bool" where
  reloads: "product_step ce answers (pg, cs) (load_begin pg, cs)"
| loaded: "product_step ce answers (pg, cs) (load_done ce r pg, cs)"
| selects: "product_step ce answers (pg, cs) (select_sku v pg, cs)"
| decs: "product_step ce answers (pg, cs) (dec_qty pg, cs)"
| incs: "product_step ce answers (pg, cs) (inc_qty pg, cs)"
| types: "product_step ce answers (pg, cs) (type_code v pg, cs)"
| fires: "pd_timer pg = Some c \<Longrightarrow>
    product_step ce answers (pg, cs)
      (pg\<lparr>pd_timer := None\<rparr>, (case check_request c pg of None \<Rightarrow> cs | Some (i, c') \<Rightarrow> c' # cs))"
| answered: "c \<in> set cs \<Longrightarrow> answers r \<Longrightarrow> product_step ce answers (pg, cs) (check_done r pg, remove1 c cs)"

fun timer_ok :: "string option \<Rightarrow> string \<Rightarrow> bool" where
  "timer_ok None code = True"
| "timer_ok (Some c) code = (c = code \<and> six_digits c)"

fun qty_ok :: "row option \<Rightarrow> val \<Rightarrow> bool" where
  "qty_ok None q = True"
| "qty_ok (Some p) q = (welfare_product p \<longrightarrow> q = VNum 1)"

definition price_ok :: "product_page \<Rightarrow> bool" where
  "price_ok pg \<longleftrightarrow> (\<forall>p. pd_product pg = Some p \<longrightarrow> pd_price pg = shown_price p pg)"

definition product_ok :: "product_page \<Rightarrow> bool" where
  "product_ok pg \<longleftrightarrow> price_ok pg \<and> qty_ok (pd_product pg) (pd_qty pg) \<and> timer_ok (pd_timer pg) (pd_code pg) \<and>
     length (pd_code pg) \<le> 6 \<and> list_all is_digit (pd_code pg)"

lemma shown_price_updates [simp]:
  "shown_price p (pg\<lparr>pd_price := x\<rparr>) = shown_price p pg" "shown_price p (pg\<lparr>pd_qty := x\<rparr>) = shown_price p pg"
  "shown_price p (pg\<lparr>pd_loading := b\<rparr>) = shown_price p pg" "shown_price p (pg\<lparr>pd_error := x\<rparr>) = shown_price p pg"
  "shown_price p (pg\<lparr>pd_code := c\<rparr>) = shown_price p pg" "shown_price p (pg\<lparr>pd_timer := t\<rparr>) = shown_price p pg"
  by (simp_all add: shown_price_def selected_sku_def)

lemma update_price_fields [simp]:
  "pd_product (update_price pg) = pd_product pg" "pd_qty (update_price pg) = pd_qty pg"
  "pd_code (update_price pg) = pd_code pg" "pd_timer (update_price pg) = pd_timer pg"
  "pd_welfare (update_price pg) = pd_welfare pg"
  by (simp_all add: update_price_def split: option.split)

lemma price_ok_updates [simp]:
  "price_ok (update_price pg)" "price_ok (pg\<lparr>pd_qty := q\<rparr>) = price_ok pg" "price_ok (pg\<lparr>pd_loading := b\<rparr>) = price_ok pg"
  "price_ok (pg\<lparr>pd_error := x\<rparr>) = price_ok pg" "price_ok (pg\<lparr>pd_code := c\<rparr>) = price_ok pg"
  "price_ok (pg\<lparr>pd_timer := t\<rparr>) = price_ok pg"
  by (auto simp: price_ok_def update_price_def split: option.split)

lemma set_product_ok: "product_ok pg \<Longrightarrow> product_ok (set_product p skus pg)"
  by (simp add: set_product_def product_ok_def)

lemma load_done_result:
  "(\<exists>m. load_done ce r pg = pg\<lparr>pd_loading := False, pd_error := m\<rparr>) \<or> (\<exists>p skus. load_done ce r pg = set_product p skus pg)"
  by (auto simp: load_done_def split: sum.split option.split)

lemma load_done_ok:
  assumes "product_ok pg"
  shows "product_ok (load_done ce r pg)"
  using load_done_result [of ce r pg]
proof
  assume "\<exists>m. load_done ce r pg = pg\<lparr>pd_loading := False, pd_error := m\<rparr>"
  with assms show ?thesis by (auto simp: product_ok_def)
next
  assume "\<exists>p skus. load_done ce r pg = set_product p skus pg"
  with assms show ?thesis by (auto simp: set_product_ok)
qed

lemma select_sku_ok: "product_ok pg \<Longrightarrow> product_ok (select_sku v pg)"
  by (simp add: select_sku_def product_ok_def split: val.split)

lemma step_qty_ok: "product_ok pg \<Longrightarrow> product_ok (step_qty d pg)"
  by (auto simp: step_qty_def product_ok_def split: option.split)

lemma type_code_ok:
  assumes "product_ok pg"
  shows "product_ok (type_code v pg)"
proof -
  define u where "u = take 6 (filter is_digit v)"
  have u: "list_all is_digit u" "length u \<le> 6"
    by (auto simp: u_def list_all_iff dest: in_set_takeD)
  have "type_code v pg = (if length u = 6 then pg\<lparr>pd_code := u, pd_timer := Some u\<rparr>
      else update_price (pg\<lparr>pd_code := u, pd_timer := None, pd_welfare := no_welfare\<rparr>))"
    by (simp only: type_code_def u_def Let_def)
  with assms u show ?thesis
    by (simp add: product_ok_def six_digits_def)
qed

lemma check_done_ok: "product_ok pg \<Longrightarrow> product_ok (check_done r pg)"
  by (simp add: check_done_def product_ok_def)

lemma product_step_ok: "product_step ce answers x y \<Longrightarrow> product_ok (fst x) \<Longrightarrow> product_ok (fst y)"
proof (induction rule: product_step.induct)
  case (reloads pg cs)
  then show ?case by (simp add: load_begin_def product_ok_def)
next
  case (fires pg c cs)
  then show ?case by (simp add: product_ok_def)
qed (simp_all add: load_done_ok select_sku_ok dec_qty_def inc_qty_def step_qty_ok type_code_ok check_done_ok)

lemma product_reachable_ok:
  "(product_step ce answers)\<^sup>*\<^sup>* x y \<Longrightarrow> product_ok (fst x) \<Longrightarrow> product_ok (fst y)"
  by (induction rule: rtranclp_induct) (auto dest: product_step_ok)

lemma new_page_ok: "product_ok new_product_page"
  by (simp add: product_ok_def price_ok_def new_product_page_def)

text \<open>C26. In whatever order taps, the timer, reloads and answers arrive, the price shown is the one that the state asks
  for (the quoted price of a welfare product whose code counts as valid, the chosen variant's price, or the
  product's), a welfare product is bought once, the code has at most six characters, all digits, and a running timer
  will check the six digits that are shown.\<close>

theorem product_page_consistent:
  assumes "(product_step ce answers)\<^sup>*\<^sup>* (new_product_page, []) (pg, cs)"
  shows "(case pd_product pg of
        None \<Rightarrow> True
      | Some p \<Rightarrow> pd_price pg = shown_price p pg \<and> (welfare_product p \<longrightarrow> pd_qty pg = VNum 1)) \<and>
     (case pd_timer pg of None \<Rightarrow> True | Some c \<Rightarrow> c = pd_code pg \<and> length c = 6) \<and>
     length (pd_code pg) \<le> 6 \<and> list_all is_digit (pd_code pg)"
  using product_reachable_ok [OF assms] new_page_ok
  by (auto simp: product_ok_def price_ok_def six_digits_def split: option.split)


definition gift :: row where
  "gift = [(''id'', VNum 3), (''is_welfare'', VNum 1), (''price_cent'', VNum 900)]"

definition gift_answer :: "client_error + val" where
  "gift_answer = Inr (VObj [(''product'', VObj gift), (''skus'', VArr [])])"

definition quote_answer :: "rat \<Rightarrow> client_error + val" where
  "quote_answer price = Inr (VObj [(''ok'', VBool True), (''priceCent'', VNum price)])"

definition gift_page :: product_page where
  "gift_page = load_done sample_client_env gift_answer new_product_page"

lemma gift_page:
  "pd_product gift_page = Some (gift @ [(''cover_url'', VStr ''/assets/images/tab-home.png'')])" "pd_timer gift_page = None"
  by (simp_all add: gift_page_def load_done_def gift_answer_def and_then_def product_of_def prop_or_throw_def
      prop_or_undef_def js_or_def array_or_empty_def set_product_def gift_def row_of_def normalize_image_url_def
      new_product_page_def update_price_def Let_def)

theorem product_page_consistent_witness:
  "pd_price (check_done (quote_answer 100) (type_code ''123456'' gift_page)) = VNum 100"
proof -
  let ?step = "product_step sample_client_env (\<lambda>_. True)"
  let ?typed = "type_code ''123456'' gift_page"
  have t: "pd_timer ?typed = Some ''123456''" "pd_product ?typed = pd_product gift_page"
    by (simp_all add: type_code_def is_digit_def Let_def)
  have c: "check_request ''123456'' ?typed = Some (VNum 3, ''123456'')"
    unfolding check_request_def t(2) gift_page(1)
    by (simp add: welfare_product_def gift_def is_one_def num_or_def js_or_def) code_simp
  have s1: "?step (new_product_page, []) (gift_page, [])"
    unfolding gift_page_def by (rule product_step.loaded)
  have s2: "?step (gift_page, []) (?typed, [])"
    by (rule product_step.types)
  have s3: "?step (?typed, []) (?typed\<lparr>pd_timer := None\<rparr>, [''123456''])"
    using product_step.fires [OF t(1), where cs = "[]"] by (simp add: c)
  have s4: "?step (?typed\<lparr>pd_timer := None\<rparr>, [''123456''])
      (check_done (quote_answer 100) (?typed\<lparr>pd_timer := None\<rparr>), remove1 ''123456'' [''123456''])"
    by (rule product_step.answered) simp_all
  have "?step\<^sup>*\<^sup>* (new_product_page, [])
      (check_done (quote_answer 100) (?typed\<lparr>pd_timer := None\<rparr>), remove1 ''123456'' [''123456''])"
    using s1 s2 s3 s4
    by (blast intro: converse_rtranclp_into_rtranclp [where r = ?step] r_into_rtranclp [where r = ?step])
  from product_page_consistent [OF this] show ?thesis
    by (simp add: check_done_def t(2) gift_page(1) gift_def quote_answer_def shown_price_def welfare_product_def
        is_one_def num_or_def js_or_def prop_or_undef_def update_price_def)
qed


section \<open>A price quoted for another code\<close>

text \<open>A welfare product's page whose code has been accepted keeps the quoted price and counts as valid when six other
  digits are typed, until their own check is answered: in between it shows that price, and buying opens a checkout
  that sends the new code with the price of the old one.\<close>

theorem quoted_price_sold_with_another_code:
  assumes "pd_product pg = Some p" "welfare_product p" "truthy (prop_or_undef d ''ok'')"
    and "six_digits code"
  shows "let pg1 = type_code code (check_done (Inr d) pg) in
    pd_code pg1 = code \<and> pd_timer pg1 = Some code \<and> wf_valid (pd_welfare pg1) \<and>
    wf_price (pd_welfare pg1) = num_or (prop_or_undef d ''priceCent'') 0 \<and>
    snd (buy_now pg1 s) = Some (''/pages/checkout/index?'' @ query_text
      [(''productId'', fld p ''id''), (''qty'', VNum 1), (''inviteCode'', VStr code),
       (''welfarePriceCent'', num_or (prop_or_undef d ''priceCent'') 0),
       (''welfareNote'', VStr (js_to_string (js_or (prop_or_undef d ''note'') (VStr []))))])"
proof -
  have code: "take 6 (filter is_digit code) = code" "length code = 6"
    using assms(4) by (simp_all add: six_digits_def filter_id_conv list_all_iff)
  then have "code \<noteq> []" by auto
  then have "trim code = code"
    using assms(4) by (intro trim_digits) (simp_all add: six_digits_def)
  then show ?thesis
    using assms(1-3) unfolding type_code_def code(1) Let_def
    by (simp add: code(2) check_done_def buy_now_def offer_query_def Let_def)
qed

theorem quoted_price_sold_with_another_code_witness:
  "wf_price (pd_welfare (type_code ''654321'' (check_done (quote_answer 100) gift_page))) = VNum 100"
proof -
  have p: "welfare_product (gift @ [(''cover_url'', VStr ''/assets/images/tab-home.png'')])"
    by (simp add: welfare_product_def gift_def is_one_def num_or_def js_or_def)
  have d: "truthy (prop_or_undef (VObj [(''ok'', VBool True), (''priceCent'', VNum 100)]) ''ok'')"
    by (simp add: prop_or_undef_def)
  have c: "six_digits ''654321''"
    by (simp add: six_digits_def is_digit_def)
  show ?thesis
    using quoted_price_sold_with_another_code [OF gift_page(1) p d c]
    by (simp add: quote_answer_def Let_def prop_or_undef_def num_or_def js_or_def)
qed

section \<open>The offer reaches the checkout\<close>

text \<open>
  Taking the address of a page apart is the work of the mini program's runtime, which is not part of
  this code: it is the parameter \<open>parse\<close>.  What is used of it is what its documentation says of page
  parameters: an address ending in pairs \<open>key=value\<close> between \<open>&\<close> gives the page each value under its
  key, as it stands in the address.
\<close>

definition plain_text :: "string \<Rightarrow> bool" where
  "plain_text s \<longleftrightarrow> CHR ''&'' \<notin> set s \<and> CHR ''='' \<notin> set s"

definition pairs_text :: "(string \<times> string) list \<Rightarrow> string" where
  "pairs_text kvs = join ''&'' (map (\<lambda>(k, v). k @ ''='' @ v) kvs)"

definition runtime_reads_pairs :: "(string \<Rightarrow> page_query) \<Rightarrow> bool" where
  "runtime_reads_pairs parse \<longleftrightarrow>
     (\<forall>kvs. kvs \<noteq> [] \<longrightarrow> distinct (map fst kvs) \<longrightarrow> (\<forall>(k, v)\<in>set kvs. k \<noteq> [] \<and> plain_text k \<and> plain_text v) \<longrightarrow>
        parse (pairs_text kvs) = map_of kvs)"

lemma uri_encode_avoids:
  assumes "\<not> uri_plain x" "x \<noteq> CHR ''%''" "\<forall>n<16. upper_hex n \<noteq> x"
  shows "x \<notin> set (uri_encode v)"
proof (induction v)
  case (Cons c v)
  have "(of_char c :: nat) div 16 < 16" "(of_char c :: nat) mod 16 < 16"
    using bytes_less [of "[c]"] by (simp_all add: bytes_def less_mult_imp_div_less)
  then have "upper_hex (of_char c div 16) \<noteq> x" "upper_hex (of_char c mod 16) \<noteq> x"
    using assms(3) by blast+
  then show ?case
    using Cons assms(1,2) by (auto simp: uri_encode_simps)
qed (simp add: uri_encode_simps)

lemma uri_encode_no_separator: "CHR ''&'' \<notin> set (uri_encode v)" "CHR ''='' \<notin> set (uri_encode v)"
proof -
  have "\<forall>n<16. upper_hex n \<noteq> CHR ''&''" "\<forall>n<16. upper_hex n \<noteq> CHR ''=''"
    by (auto intro!: char_neq simp: upper_hex_code split: if_splits)
  moreover have "\<not> uri_plain CHR ''&''" "\<not> uri_plain CHR ''=''"
    by (simp_all add: uri_plain_def is_digit_def Let_def)
  ultimately show "CHR ''&'' \<notin> set (uri_encode v)" "CHR ''='' \<notin> set (uri_encode v)"
    by (simp_all add: uri_encode_avoids)
qed

lemma query_pairs: "query_text kvs = pairs_text (map (\<lambda>(k, v). (k, uri_encode (js_to_string v))) kvs)"
  by (simp add: query_text_def pairs_text_def comp_def split_def)

lemma runtime_reads_query:
  assumes "runtime_reads_pairs parse" "kvs \<noteq> []" "distinct (map fst kvs)" "\<forall>k\<in>fst ` set kvs. k \<noteq> [] \<and> plain_text k"
  shows "parse (query_text kvs) = map_of (map (\<lambda>(k, v). (k, uri_encode (js_to_string v))) kvs)"
proof -
  let ?kvs = "map (\<lambda>(k, v). (k, uri_encode (js_to_string v))) kvs"
  have "map fst ?kvs = map fst kvs"
    by (simp add: split_def comp_def)
  then have "distinct (map fst ?kvs)"
    using assms(3) by (simp only:)
  moreover have "\<forall>(k, v)\<in>set ?kvs. k \<noteq> [] \<and> plain_text k \<and> plain_text v"
    using assms(4) uri_encode_no_separator by (fastforce simp: plain_text_def)
  ultimately show ?thesis
    using assms(1,2) unfolding runtime_reads_pairs_def query_pairs by blast
qed

lemma uri_encode_digits: "list_all is_digit s \<Longrightarrow> uri_encode s = s"
  by (induction s) (auto simp: uri_encode_simps uri_plain_def Let_def)

lemma offer_parameters:
  assumes "runtime_reads_pairs parse"
    and "six_digits (pd_code pg)" "fld p ''id'' = VNat i" "wf_price (pd_welfare pg) = VNat n"
  shows "parse (query_text (offer_query p pg)) ''inviteCode'' = Some (pd_code pg)"
    "to_num (param (parse (query_text (offer_query p pg))) ''productId'') = VNat i"
    "parse (query_text (offer_query p pg)) ''welfarePriceCent'' = Some (js_to_string (VNat n))"
    "parse (query_text (offer_query p pg)) ''welfareNote'' = Some (uri_encode (wf_note (pd_welfare pg)))"
proof -
  have "pd_code pg \<noteq> []"
    using assms(2) by (auto simp: six_digits_def)
  then have t: "trim (pd_code pg) = pd_code pg"
    using assms(2) by (intro trim_digits) (simp_all add: six_digits_def)
  have num: "uri_encode (js_to_string (VNat m)) = js_to_string (VNat m)" for m
    by (rule uri_encode_digits) (simp add: num_text_def is_int_rat_def int_to_string_def nat_to_string_digits)
  have q: "parse (query_text (offer_query p pg)) =
      map_of (map (\<lambda>(k, v). (k, uri_encode (js_to_string v))) (offer_query p pg))"
    by (rule runtime_reads_query [OF assms(1)]) (simp_all add: offer_query_def plain_text_def)
  have d: "uri_encode (pd_code pg) = pd_code pg"
    using assms(2) by (intro uri_encode_digits) (simp add: six_digits_def)
  show "parse (query_text (offer_query p pg)) ''inviteCode'' = Some (pd_code pg)"
    unfolding q by (simp add: offer_query_def t d)
  have "parse (query_text (offer_query p pg)) ''productId'' = Some (js_to_string (VNat i))"
    unfolding q by (simp add: offer_query_def assms(3) num del: js_to_string.simps)
  then show "to_num (param (parse (query_text (offer_query p pg))) ''productId'') = VNat i"
    unfolding param_def using number_of_id_text [of i] by simp
  show "parse (query_text (offer_query p pg)) ''welfarePriceCent'' = Some (js_to_string (VNat n))"
    unfolding q by (simp add: offer_query_def assms(4) num del: js_to_string.simps)
  show "parse (query_text (offer_query p pg)) ''welfareNote'' = Some (uri_encode (wf_note (pd_welfare pg)))"
    unfolding q by (simp add: offer_query_def)
qed



definition offer_page :: product_page where
  "offer_page = new_product_page\<lparr>pd_product := Some gift, pd_code := ''123456'',
     pd_welfare := no_welfare\<lparr>wf_valid := True, wf_price := VNat 100, wf_note := ''a&b''\<rparr>\<rparr>"

definition gift_net :: "unit network" where
  "gift_net m url data auth s = (Net_ok 200 (VObj [(''product'', VObj gift)]), ())"

text \<open>A runtime as documented.\<close>

definition pair_of :: "string \<Rightarrow> string \<times> string" where
  "pair_of kv = (takeWhile (\<lambda>c. c \<noteq> CHR ''='') kv, tl (dropWhile (\<lambda>c. c \<noteq> CHR ''='') kv))"

definition query_of :: "string \<Rightarrow> page_query" where
  "query_of s = map_of (map pair_of (split_on (CHR ''&'') s))"

lemma pair_of_text: "CHR ''='' \<notin> set k \<Longrightarrow> pair_of (k @ CHR ''='' # v) = (k, v)"
  by (induction k) (auto simp: pair_of_def)

lemma split_pairs:
  "kvs \<noteq> [] \<Longrightarrow> \<forall>(k, v)\<in>set kvs. plain_text k \<and> plain_text v \<Longrightarrow>
   map pair_of (split_on (CHR ''&'') (pairs_text kvs)) = kvs"
proof (induction kvs rule: induct_list012)
  case (2 kv)
  obtain k v where kv: "kv = (k, v)" by (cases kv)
  with 2 have "CHR ''&'' \<notin> set (k @ CHR ''='' # v)" "CHR ''='' \<notin> set k"
    by (auto simp: plain_text_def)
  then show ?case
    by (simp add: pairs_text_def kv split_on_none pair_of_text)
next
  case (3 kv kw kvs)
  obtain k v where kv: "kv = (k, v)" by (cases kv)
  with 3 have n: "CHR ''&'' \<notin> set (k @ CHR ''='' # v)" and e: "CHR ''='' \<notin> set k"
    by (auto simp: plain_text_def)
  have "pairs_text (kv # kw # kvs) = (k @ CHR ''='' # v) @ CHR ''&'' # pairs_text (kw # kvs)"
    by (simp add: pairs_text_def kv)
  then show ?case
    using 3 e by (simp only: split_on_app [OF n]) (simp add: kv pair_of_text)
qed simp

lemma query_of_reads_pairs: "runtime_reads_pairs query_of"
  unfolding runtime_reads_pairs_def query_of_def by (auto intro!: arg_cong [where f = map_of] split_pairs)


section \<open>The server of this repository behind the page\<close>

lemma quote_url: "[''h5'', ''api'', ''api'', ''v1''] @ tl (split_on (CHR ''/'') ''/welfare/quote'') =
    [''h5'', ''api'', ''api'', ''v1'', ''welfare'', ''quote'']"
  by code_simp

lemma serve_no_quote:
  "serve w e GET [''h5'', ''api'', ''api'', ''v1'', ''welfare'', ''quote''] req st = (\<lparr>status = 404, answer = VUndef\<rparr>, st)"
  unfolding client_path
  by (simp add: api_mounts_def admin_mounts_def run_router_def welfare_router_def no_guard_def lower_words)

lemma no_quote:
  "api_welfare_quote (server_network w e) i c (cl, st) =
     (Inl (Client_error (VStr ''REQUEST_ERROR'') (VStr mp_request_failed)), cl, st)"
  by (simp add: api_welfare_quote_def client_request_def server_network_def quote_url serve_no_quote request_result_def
      prop_or_undef_def js_or_def)

text \<open>The results that a check can have against this server.\<close>

definition quoted_by_server :: "client_error + val \<Rightarrow> bool" where
  "quoted_by_server r \<longleftrightarrow>
     (\<exists>w e i c cl st. r = fst (api_welfare_quote (server_network w e) i c (cl, st)))"

lemma never_valid_step:
  "product_step ce quoted_by_server x y \<Longrightarrow> \<not> wf_valid (pd_welfare (fst x)) \<Longrightarrow> \<not> wf_valid (pd_welfare (fst y))"
proof (induction rule: product_step.induct)
  case (loaded pg cs r)
  then show ?case
    using load_done_result [of ce r pg] by (auto simp: set_product_def)
next
  case (answered c cs r pg)
  then show ?case
    by (auto simp: quoted_by_server_def no_quote check_done_def no_welfare_def)
qed (auto simp: load_begin_def select_sku_def dec_qty_def inc_qty_def step_qty_def type_code_def no_welfare_def Let_def
    split: option.split val.split)

text \<open>Against this server, which has no route for a quote, no code is ever accepted: however the product page is used
  and whatever products are loaded, the code does not count as valid and a welfare product cannot be bought.\<close>

theorem welfare_product_cannot_be_bought:
  assumes "(product_step ce quoted_by_server)\<^sup>*\<^sup>* (new_product_page, []) (pg, cs)"
  shows "\<not> wf_valid (pd_welfare pg) \<and>
    (case pd_product pg of Some p \<Rightarrow> \<not> welfare_product p \<or> buy_now pg s = (s, None) | None \<Rightarrow> True)"
proof -
  have "\<not> wf_valid (pd_welfare (fst y))"
    if "(product_step ce quoted_by_server)\<^sup>*\<^sup>* x y" "\<not> wf_valid (pd_welfare (fst x))" for x y
    using that by (induction rule: rtranclp_induct) (auto dest: never_valid_step)
  from this [OF assms] have "\<not> wf_valid (pd_welfare pg)"
    by (simp add: new_product_page_def no_welfare_def)
  then show ?thesis
    by (auto simp: buy_now_def split: option.split)
qed

theorem welfare_product_cannot_be_bought_witness:
  "buy_now (check_done (fst (api_welfare_quote (server_network sample_world (sample_env 0)) (VNum 3) ''123456''
      (shopper, store_with (\<lambda>_. [])))) (gift_page\<lparr>pd_code := ''123456''\<rparr>)) (\<lambda>_. None) = ((\<lambda>_. None), None)"
proof -
  let ?step = "product_step sample_client_env quoted_by_server"
  let ?typed = "type_code ''123456'' gift_page"
  let ?r = "fst (api_welfare_quote (server_network sample_world (sample_env 0)) (VNum 3) ''123456''
      (shopper, store_with (\<lambda>_. [])))"
  have t: "pd_timer ?typed = Some ''123456''" "pd_product ?typed = pd_product gift_page"
    and again: "?typed\<lparr>pd_timer := None\<rparr> = gift_page\<lparr>pd_code := ''123456''\<rparr>"
    using gift_page(2) by (simp_all add: type_code_def is_digit_def Let_def)
  have c: "check_request ''123456'' ?typed = Some (VNum 3, ''123456'')"
    unfolding check_request_def t(2) gift_page(1)
    by (simp add: welfare_product_def gift_def is_one_def num_or_def js_or_def) code_simp
  have s1: "?step (new_product_page, []) (gift_page, [])"
    unfolding gift_page_def by (rule product_step.loaded)
  have s2: "?step (gift_page, []) (?typed, [])"
    by (rule product_step.types)
  have s3: "?step (?typed, []) (?typed\<lparr>pd_timer := None\<rparr>, [''123456''])"
    using product_step.fires [OF t(1), where cs = "[]"] by (simp add: c)
  have r: "quoted_by_server ?r"
    unfolding quoted_by_server_def by blast
  have s4: "?step (?typed\<lparr>pd_timer := None\<rparr>, [''123456''])
      (check_done ?r (?typed\<lparr>pd_timer := None\<rparr>), remove1 ''123456'' [''123456''])"
    using r by (intro product_step.answered) simp_all
  have "?step\<^sup>*\<^sup>* (new_product_page, []) (check_done ?r (?typed\<lparr>pd_timer := None\<rparr>), remove1 ''123456'' [''123456''])"
    using s1 s2 s3 s4
    by (blast intro: converse_rtranclp_into_rtranclp [where r = ?step] r_into_rtranclp [where r = ?step])
  from welfare_product_cannot_be_bought [OF this, of "\<lambda>_. None"] show ?thesis
    unfolding again
    by (simp add: check_done_def gift_page(1) gift_def welfare_product_def is_one_def num_or_def js_or_def)
qed

end
