(* ===== verification/Mini_Orders.thy ===== *)
theory Mini_Orders
  imports Mini_Product
begin

text \<open>
  The list pages of the mini program: a customer's orders (\<^verbatim>\<open>miniapp/pages/order-list/index.js\<close>), one order
  (\<^verbatim>\<open>pages/order-detail/index.js\<close>), and the products of the start and the category page
  (\<^verbatim>\<open>pages/index/index.js\<close>, \<^verbatim>\<open>pages/category/index.js\<close>).  A handler runs from its first request to its last
  answer without another in between.
\<close>

section \<open>Rows with their pictures\<close>

definition covered :: "client_env \<Rightarrow> val \<Rightarrow> client_error + row list" where
  "covered ce v =
     (case v of
        VArr vs \<Rightarrow>
          (case mapE with_cover vs of
             Inl _ \<Rightarrow> Inl (Client_error VUndef (VStr (type_text ce))) | Inr rs \<Rightarrow> Inr rs)
      | _ \<Rightarrow> Inr [])"

definition load_error :: "client_error \<Rightarrow> val" where
  "load_error err = js_or (message_of err) (VStr mp_load_failed)"

section \<open>The list of orders\<close>

record order_list =
  ol_loading :: bool
  ol_error :: val
  ol_orders :: "row list"
  ol_page :: nat
  ol_total :: val

definition new_order_list :: order_list where
  "new_order_list = \<lparr>ol_loading = True, ol_error = VNull, ol_orders = [], ol_page = 1, ol_total = VNum 0\<rparr>"

definition orders_answer :: "client_env \<Rightarrow> val \<Rightarrow> client_error + row list \<times> val" where
  "orders_answer ce res =
     and_then (prop_or_throw ce res ''orders'') (\<lambda>l.
     and_then (covered ce (js_or (js_or l (prop_or_undef res ''data'')) (VArr []))) (\<lambda>rows.
     Inr (rows, num_or (prop_or_undef res ''total'') 0)))"

definition load_orders ::
  "'s network \<Rightarrow> client_env \<Rightarrow> bool \<Rightarrow> order_list \<Rightarrow> client \<times> 's \<Rightarrow> order_list \<times> client \<times> 's" where
  "load_orders net ce replace pg cs =
     (let pg1 = pg\<lparr>ol_loading := True, ol_error := VNull\<rparr>;
          failed = (\<lambda>err. pg1\<lparr>ol_loading := False, ol_error := load_error err\<rparr>) in
      case ensure_login net ce cs of
        (Inl err, cs1) \<Rightarrow> (failed err, cs1)
      | (Inr _, cs1) \<Rightarrow>
          (case api_my_orders net [(''page'', VNat (ol_page pg)), (''pageSize'', VNum 10)] cs1 of (r, cs2) \<Rightarrow>
             (case and_then r (orders_answer ce) of
                Inl err \<Rightarrow> (failed err, cs2)
              | Inr (rows, n) \<Rightarrow>
                  (pg1\<lparr>ol_orders := (if replace then rows else ol_orders pg @ rows), ol_total := n,
                       ol_loading := False\<rparr>, cs2))))"

definition reload_orders :: "'s network \<Rightarrow> client_env \<Rightarrow> order_list \<Rightarrow> client \<times> 's \<Rightarrow> order_list \<times> client \<times> 's" where
  "reload_orders net ce pg = load_orders net ce True (pg\<lparr>ol_page := 1, ol_orders := []\<rparr>)"

definition reach_bottom :: "'s network \<Rightarrow> client_env \<Rightarrow> order_list \<Rightarrow> client \<times> 's \<Rightarrow> order_list \<times> client \<times> 's" where
  "reach_bottom net ce pg cs =
     (if ol_loading pg \<or> num_leq (num_or (ol_total pg) 0) (VNat (length (ol_orders pg))) then (pg, cs)
      else load_orders net ce False (pg\<lparr>ol_page := ol_page pg + 1\<rparr>) cs)"

datatype pay_end = Not_payable | Order_paid | Pay_failed val

definition pay_now :: "'s network \<Rightarrow> client_env \<Rightarrow> string \<Rightarrow> client \<times> 's \<Rightarrow> pay_end \<times> client \<times> 's" where
  "pay_now net ce no cs =
     (let failed = (\<lambda>err. Pay_failed (js_or (message_of err) (VStr mp_pay_only))) in
      case ensure_login net ce cs of
        (Inl err, cs1) \<Rightarrow> (failed err, cs1)
      | (Inr _, cs1) \<Rightarrow>
          (case pay_order net ce no cs1 of
             (Inl err, cs2) \<Rightarrow> (failed err, cs2) | (Inr _, cs2) \<Rightarrow> (Order_paid, cs2)))"

definition pay_from_list ::
  "'s network \<Rightarrow> client_env \<Rightarrow> string \<Rightarrow> order_list \<Rightarrow> client \<times> 's \<Rightarrow> pay_end \<times> order_list \<times> client \<times> 's" where
  "pay_from_list net ce no pg cs =
     (if no = [] then (Not_payable, pg, cs)
      else case pay_now net ce no cs of
             (Order_paid, cs1) \<Rightarrow> (Order_paid, reload_orders net ce pg cs1)
           | (x, cs1) \<Rightarrow> (x, pg, cs1))"

section \<open>One order\<close>

record order_detail =
  od_no :: string
  od_loading :: bool
  od_error :: val
  od_order :: val
  od_items :: "row list"
  od_shipments :: "val list"
  od_address :: val

definition open_detail :: "page_query \<Rightarrow> order_detail \<Rightarrow> order_detail" where
  "open_detail q pg =
     (if str_truthy (q ''orderNo'') then pg\<lparr>od_no := str_of (q ''orderNo'')\<rparr>
      else pg\<lparr>od_loading := False, od_error := VStr mp_no_order\<rparr>)"

text \<open>The address in an order's snapshot: the text is parsed, a text that is no JSON gives none.\<close>

definition snapshot_address :: "val \<Rightarrow> val" where
  "snapshot_address order =
     (let raw = (if truthy order then prop_or_undef order ''address_snapshot'' else order) in
      if \<not> truthy raw then VNull
      else case raw of
             VStr t \<Rightarrow> (case json_parse t of Some v \<Rightarrow> v | None \<Rightarrow> VNull)
           | _ \<Rightarrow> object_or_null raw)"

definition detail_answer :: "client_env \<Rightarrow> val \<Rightarrow> client_error + val \<times> row list \<times> val list \<times> val" where
  "detail_answer ce res =
     and_then (prop_or_throw ce res ''order'') (\<lambda>d.
       (let order = js_or (js_or d (prop_or_undef res ''data'')) VNull
        in and_then (covered ce (VArr (array_or_empty (prop_or_undef res ''items'')))) (\<lambda>items.
           Inr (order, items, array_or_empty (prop_or_undef res ''shipments''), snapshot_address order))))"

definition load_detail ::
  "'s network \<Rightarrow> client_env \<Rightarrow> order_detail \<Rightarrow> client \<times> 's \<Rightarrow> order_detail \<times> client \<times> 's" where
  "load_detail net ce pg cs =
     (let pg1 = pg\<lparr>od_loading := True, od_error := VNull\<rparr>;
          failed = (\<lambda>err. pg1\<lparr>od_loading := False, od_error := load_error err\<rparr>) in
      case ensure_login net ce cs of
        (Inl err, cs1) \<Rightarrow> (failed err, cs1)
      | (Inr _, cs1) \<Rightarrow>
          (case api_order_detail net (od_no pg) cs1 of (r, cs2) \<Rightarrow>
             (case and_then r (detail_answer ce) of
                Inl err \<Rightarrow> (failed err, cs2)
              | Inr (order, items, shipments, addr) \<Rightarrow>
                  (pg1\<lparr>od_order := order, od_items := items, od_shipments := shipments, od_address := addr,
                       od_loading := False\<rparr>, cs2))))"

definition pay_from_detail ::
  "'s network \<Rightarrow> client_env \<Rightarrow> order_detail \<Rightarrow> client \<times> 's \<Rightarrow> pay_end \<times> order_detail \<times> client \<times> 's" where
  "pay_from_detail net ce pg cs =
     (if \<not> truthy (od_order pg) \<or> od_no pg = [] \<or>
         \<not> strict_eq (prop_or_undef (od_order pg) ''status'') (VStr ''PENDING_PAYMENT'')
      then (Not_payable, pg, cs)
      else case pay_now net ce (od_no pg) cs of
             (Order_paid, cs1) \<Rightarrow> (Order_paid, load_detail net ce pg cs1)
           | (x, cs1) \<Rightarrow> (x, pg, cs1))"

section \<open>Products\<close>

record shop_page =
  sp_products :: "row list"
  sp_filtered :: "row list"
  sp_tab :: string
  sp_loading :: bool
  sp_error :: val

definition products_answer :: "client_env \<Rightarrow> val \<Rightarrow> client_error + row list" where
  "products_answer ce res =
     and_then (prop_or_throw ce res ''data'') (\<lambda>d.
       (let g = prop_or_undef res
        in covered ce (js_or (js_or (js_or (js_or d (g ''products'')) (g ''list'')) res) (VArr []))))"

definition update_filtered :: "shop_page \<Rightarrow> shop_page" where
  "update_filtered pg =
     pg\<lparr>sp_filtered :=
       (if sp_tab pg = ''welfare'' then filter welfare_product (sp_products pg)
        else if sp_tab pg = ''normal'' then filter (\<lambda>p. \<not> welfare_product p) (sp_products pg)
        else sp_products pg)\<rparr>"

definition set_tab :: "string \<Rightarrow> shop_page \<Rightarrow> shop_page" where
  "set_tab t pg = (if t = [] then pg else update_filtered (pg\<lparr>sp_tab := t\<rparr>))"

text \<open>\<open>limit\<close> is 20 on the start page, which has no tabs, and 200 on the category page.\<close>

definition load_products ::
  "'s network \<Rightarrow> client_env \<Rightarrow> nat \<Rightarrow> shop_page \<Rightarrow> client \<times> 's \<Rightarrow> shop_page \<times> client \<times> 's" where
  "load_products net ce limit pg cs =
     (let pg1 = pg\<lparr>sp_loading := True, sp_error := VNull\<rparr> in
      case api_products net [(''status'', VNum 1), (''limit'', VNat limit)] cs of (r, cs1) \<Rightarrow>
        (case and_then r (products_answer ce) of
           Inl err \<Rightarrow> (pg1\<lparr>sp_loading := False, sp_error := load_error err\<rparr>, cs1)
         | Inr ps \<Rightarrow> (pg1\<lparr>sp_products := ps, sp_loading := False\<rparr>, cs1)))"

definition load_category ::
  "'s network \<Rightarrow> client_env \<Rightarrow> shop_page \<Rightarrow> client \<times> 's \<Rightarrow> shop_page \<times> client \<times> 's" where
  "load_category net ce pg cs =
     (case load_products net ce 200 pg cs of
        (pg1, cs1) \<Rightarrow> (if sp_error pg1 = VNull then update_filtered pg1 else pg1, cs1))"


section \<open>Scrolling through the orders\<close>

text \<open>An order as the page shows it, and the page after a reload and \<open>n\<close> arrivals at the bottom.\<close>

definition listed :: "row \<Rightarrow> row" where
  "listed r = spread r [(''cover_url'', VStr (normalize_image_url (fld r ''cover_url'')))]"

fun scroll ::
  "'s network \<Rightarrow> client_env \<Rightarrow> nat \<Rightarrow> order_list \<Rightarrow> client \<times> 's \<Rightarrow> order_list \<times> client \<times> 's" where
  "scroll net ce 0 pg cs = reload_orders net ce pg cs"
| "scroll net ce (Suc n) pg cs = (case scroll net ce n pg cs of (pg1, cs1) \<Rightarrow> reach_bottom net ce pg1 cs1)"

lemma covered_rows [simp]: "covered ce (VArr (map VObj rs)) = Inr (map listed rs)"
proof -
  have "mapE with_cover (map VObj rs) = Inr (map listed rs)"
    by (induction rs) (simp_all add: with_cover_def listed_def row_of_def)
  then show ?thesis by (simp add: covered_def)
qed

text \<open>
  A network that pages a fixed list of orders, ten at a time: what the page relies on.  \<open>inv\<close> is what the server
  keeps between requests, \<open>auth\<close> the authorization it accepts.
\<close>

locale order_pages =
  fixes net :: "'s network" and auth :: string and inv :: "'s \<Rightarrow> bool" and orders :: "row list"
  assumes page: "inv s \<Longrightarrow> 1 \<le> p \<Longrightarrow>
    \<exists>r s1. net GET ''/me/orders'' (VObj [(''page'', VNat p), (''pageSize'', VNum 10)]) (Some auth) s =
      (Net_ok 200 (VObj r), s1) \<and> inv s1 \<and> fld r ''total'' = VNat (length orders) \<and>
      fld r ''orders'' = VArr (map VObj (take 10 (drop (10 * (p - 1)) orders)))"
begin

definition accepted :: "client \<Rightarrow> bool" where
  "accepted c \<longleftrightarrow> g_logged_in c \<and> truthy (g_token c) \<and> ''Bearer '' @ js_to_string (g_token c) = auth"

lemma load_page:
  assumes "accepted c" "inv s" "1 \<le> ol_page pg"
  shows "\<exists>s1. load_orders net ce rep pg (c, s) =
     (pg\<lparr>ol_loading := False, ol_error := VNull,
         ol_orders := (if rep then [] else ol_orders pg) @ map listed (take 10 (drop (10 * (ol_page pg - 1)) orders)),
         ol_total := VNat (length orders)\<rparr>, c, s1) \<and> inv s1"
proof -
  obtain r s1 where r: "net GET ''/me/orders'' (VObj [(''page'', VNat (ol_page pg)), (''pageSize'', VNum 10)]) (Some auth) s =
      (Net_ok 200 (VObj r), s1)" "inv s1" "fld r ''total'' = VNat (length orders)"
      "fld r ''orders'' = VArr (map VObj (take 10 (drop (10 * (ol_page pg - 1)) orders)))"
    using page [OF assms(2,3)] by blast
  have a: "g_logged_in c" "truthy (g_token c)" "auth = ''Bearer '' @ js_to_string (g_token c)"
    using assms(1) by (simp_all add: accepted_def)
  have got: "api_my_orders net [(''page'', VNat (ol_page pg)), (''pageSize'', VNum 10)] (c, s) = (Inr (VObj r), c, s1)"
    unfolding api_my_orders_def using r(1) a(2) unfolding a(3) by (rule request_ok)
  have "orders_answer ce (VObj r) =
      Inr (map listed (take 10 (drop (10 * (ol_page pg - 1)) orders)), num_or (VNat (length orders)) 0)"
    using r(3,4) by (simp add: orders_answer_def and_then_def prop_or_throw_def prop_or_undef_def js_or_def)
  then show ?thesis
    using r(2) a(1,2) by (simp add: load_orders_def ensure_login_def got and_then_def num_or_def js_or_def Let_def)
qed

text \<open>What a scrolled page shows: whole pages from the start, and all orders once the bottom no longer loads.\<close>

definition shows_pages :: "nat \<Rightarrow> order_list \<Rightarrow> bool" where
  "shows_pages n pg \<longleftrightarrow> \<not> ol_loading pg \<and> ol_total pg = VNat (length orders) \<and> 1 \<le> ol_page pg \<and>
     ol_orders pg = map listed (take (10 * ol_page pg) orders) \<and>
     (ol_page pg = Suc n \<or> (ol_page pg \<le> Suc n \<and> length orders \<le> 10 * ol_page pg))"

lemma bottom_step:
  assumes "accepted c" "inv s" "shows_pages n pg"
  shows "\<exists>pg1 s1. reach_bottom net ce pg (c, s) = (pg1, c, s1) \<and> inv s1 \<and> shows_pages (Suc n) pg1"
proof (cases "length orders \<le> 10 * ol_page pg")
  case True
  then have "reach_bottom net ce pg (c, s) = (pg, c, s)"
    using assms(3) by (simp add: reach_bottom_def shows_pages_def num_or_def js_or_def)
  moreover have "shows_pages (Suc n) pg"
    using assms(3) True by (auto simp: shows_pages_def)
  ultimately show ?thesis
    using assms(2) by blast
next
  case False
  then have more: "\<not> ol_loading pg" "\<not> num_leq (num_or (ol_total pg) 0) (VNat (length (ol_orders pg)))"
    using assms(3) by (auto simp: shows_pages_def num_or_def js_or_def)
  have "1 \<le> ol_page (pg\<lparr>ol_page := ol_page pg + 1\<rparr>)" by simp
  from load_page [OF assms(1,2) this, of ce False] obtain s1 where
    "load_orders net ce False (pg\<lparr>ol_page := ol_page pg + 1\<rparr>) (c, s) =
      (pg\<lparr>ol_page := ol_page pg + 1, ol_loading := False, ol_error := VNull,
          ol_orders := ol_orders pg @ map listed (take 10 (drop (10 * ol_page pg) orders)),
          ol_total := VNat (length orders)\<rparr>, c, s1)" "inv s1"
    by auto
  moreover have "take (10 + 10 * ol_page pg) orders = take (10 * ol_page pg) orders @ take 10 (drop (10 * ol_page pg) orders)"
    by (metis add.commute take_add)
  ultimately show ?thesis
    using more assms(3) False by (auto simp: reach_bottom_def shows_pages_def)
qed

lemma scrolled:
  assumes "accepted c" "inv s"
  shows "\<exists>pg1 s1. scroll net ce n pg (c, s) = (pg1, c, s1) \<and> inv s1 \<and> shows_pages n pg1"
proof (induction n)
  case 0
  have "1 \<le> ol_page (pg\<lparr>ol_page := 1, ol_orders := []\<rparr>)" by simp
  from load_page [OF assms this, of ce True] show ?case
    by (auto simp: reload_orders_def shows_pages_def)
next
  case (Suc n)
  then obtain pg1 s1 where "scroll net ce n pg (c, s) = (pg1, c, s1)" "inv s1" "shows_pages n pg1"
    by blast
  with bottom_step [OF assms(1), of s1 n pg1 ce] show ?case by simp
qed

lemma scrolled_orders:
  assumes "accepted c" "inv s"
  shows "ol_orders (fst (scroll net ce n pg (c, s))) = map listed (take (10 * Suc n) orders)"
proof -
  obtain pg1 s1 where s: "scroll net ce n pg (c, s) = (pg1, c, s1)" "shows_pages n pg1"
    using scrolled [OF assms] by blast
  then have "take (10 * ol_page pg1) orders = take (10 * Suc n) orders"
    by (auto simp: shows_pages_def)
  with s show ?thesis
    by (simp add: shows_pages_def)
qed

lemma bottom_rests:
  assumes "accepted c" "inv s" "length orders \<le> 10 * Suc n" "scroll net ce n pg (c, s) = (pg1, cs1)"
  shows "reach_bottom net ce pg1 cs1 = (pg1, cs1)"
proof -
  have p: "shows_pages n pg1"
    using scrolled [OF assms(1,2), of ce n pg] assms(4) by auto
  then have "length orders \<le> 10 * ol_page pg1"
    using assms(3) by (auto simp: shows_pages_def)
  with p show ?thesis
    by (simp add: reach_bottom_def shows_pages_def num_or_def js_or_def)
qed

text \<open>A page whose request failed is skipped: the next arrival at the bottom asks for the one after it.\<close>

lemma failed_page_skipped:
  assumes "accepted c" "inv s" "shows_pages n pg" "10 * ol_page pg < length orders"
    and "\<And>m u d a t. net1 m u d a t = (Net_fail, t)"
  shows "\<exists>pg1. reach_bottom net1 ce pg (c, s) = (pg1, c, s) \<and>
    ol_orders (fst (reach_bottom net ce pg1 (c, s))) =
      map listed (take (10 * ol_page pg) orders @ take 10 (drop (10 * ol_page pg + 10) orders))"
proof -
  have more: "\<not> ol_loading pg" "\<not> num_leq (num_or (ol_total pg) 0) (VNat (length (ol_orders pg)))"
    using assms(3,4) by (auto simp: shows_pages_def num_or_def js_or_def)
  have a: "g_logged_in c" "truthy (g_token c)"
    using assms(1) by (simp_all add: accepted_def)
  let ?pg = "pg\<lparr>ol_page := ol_page pg + 1, ol_loading := False, ol_error := VStr mp_network\<rparr>"
  have n: "mp_network \<noteq> []" by (simp add: mp_network_def)
  have fail: "reach_bottom net1 ce pg (c, s) = (?pg, c, s)"
    using more a n by (simp add: reach_bottom_def load_orders_def ensure_login_def api_my_orders_def client_request_def
        assms(5) request_result_def and_then_def load_error_def js_or_def Let_def)
  have "1 \<le> ol_page (?pg\<lparr>ol_page := ol_page ?pg + 1\<rparr>)" by simp
  from load_page [OF assms(1,2) this, of ce False] obtain s1 where
    "load_orders net ce False (?pg\<lparr>ol_page := ol_page ?pg + 1\<rparr>) (c, s) =
      (?pg\<lparr>ol_page := ol_page ?pg + 1, ol_error := VNull,
          ol_orders := ol_orders pg @ map listed (take 10 (drop (10 * ol_page pg + 10) orders)),
          ol_total := VNat (length orders)\<rparr>, c, s1)"
    by (auto simp: add.commute)
  with fail more assms(3) show ?thesis
    by (auto simp: reach_bottom_def shows_pages_def)
qed

end


section \<open>The orders of this server\<close>

lemma parse_int_nat: "parse_int (js_to_string (VNat n)) = Some (int n)"
proof -
  have t: "js_to_string (VNat n) = nat_to_string n"
    by (simp add: num_text_def is_int_rat_def int_to_string_def)
  have d: "list_all is_digit (nat_to_string n)"
    by (rule nat_to_string_digits)
  obtain c ds where c: "nat_to_string n = c # ds"
    by (cases "nat_to_string n") (subst (asm) nat_to_string.simps, simp)
  then have h: "is_digit c" using d by simp
  then have "trim_start (nat_to_string n) = nat_to_string n"
    unfolding trim_start_def c by (intro drop_ws_id find_ws_None ws_not_digit)
  moreover have "c \<noteq> CHR ''-''" "c \<noteq> CHR ''+''"
    using h by (auto simp: is_digit_def)
  moreover have "takeWhile is_digit (nat_to_string n) = nat_to_string n"
    using d by (simp add: takeWhile_eq_all_conv list_all_iff)
  ultimately show ?thesis
    unfolding t by (simp add: parse_int_def c Let_def digits_val_nat_to_string [of n, unfolded c])
qed

definition own_query :: "val \<Rightarrow> order_query" where
  "own_query uid = no_order_query\<lparr>oq_userId := uid\<rparr>"

text \<open>The orders of a user as the server lists them, newest first, in their JSON form.\<close>

definition own_orders :: "val \<Rightarrow> row list \<Rightarrow> row list \<Rightarrow> row list" where
  "own_orders uid os us =
     map (\<lambda>r. json_row (shown_order us r)) (js_sort cmp_created_desc (filter (order_matches (own_query uid)) os))"

text \<open>A state in which the server answers the user's requests from fixed tables.\<close>

definition serves_orders :: "world \<Rightarrow> call_env \<Rightarrow> string \<Rightarrow> val \<Rightarrow> row list \<Rightarrow> row list \<Rightarrow> fs_state \<Rightarrow> bool" where
  "serves_orders w e auth uid os us st \<longleftrightarrow>
     require_user_auth (cfg w) e (server_request GET VUndef (Some auth)) = Inr uid \<and> truthy uid \<and>
     rows_of st Orders = os \<and> rows_of st Users = us \<and> all_conform order_iface os \<and>
     (\<forall>r\<in>set os. \<not> nullish (address_data r))"

lemma own_page:
  assumes "1 \<le> p"
  shows "paginate (Some (max 1 (int p))) (Some 10) xs = take 10 (drop (10 * (p - 1)) xs)"
proof -
  have "nat ((int p - 1) * 10) = 10 * (p - 1)"
    using assms by (simp add: nat_mult_distrib nat_diff_distrib)
  with assms show ?thesis
    using paginate_window [of "int p" 10 xs] by (simp add: max_def)
qed

lemma own_listing:
  assumes "serves_orders w e auth uid os us st" "1 \<le> p"
  shows "\<exists>st1. orders_list (iso e) ((own_query uid)\<lparr>oq_page := Some (max 1 (int p)), oq_pageSize := Some 10\<rparr>) st =
      (Inr (length (own_orders uid os us), map (shown_order us) (take 10 (drop (10 * (p - 1))
         (js_sort cmp_created_desc (filter (order_matches (own_query uid)) os))))), st1) \<and>
    serves_orders w e auth uid os us st1"
proof -
  let ?q = "(own_query uid)\<lparr>oq_page := Some (max 1 (int p)), oq_pageSize := Some 10\<rparr>"
  let ?rs = "js_sort cmp_created_desc (filter (order_matches (own_query uid)) os)"
  have m: "order_matches ?q = order_matches (own_query uid)"
    by (simp add: fun_eq_iff order_matches_def)
  have c: "all_conform order_iface (rows_of st Orders)"
    using assms(1) by (simp add: serves_orders_def)
  have ok: "\<forall>r\<in>set (take 10 (drop (10 * (p - 1)) ?rs)). \<not> nullish (address_data r)"
    using assms(1) by (auto simp: serves_orders_def dest!: in_set_takeD in_set_dropD)
  have "fst (orders_list (iso e) ?q st) = Inr (length (filter (order_matches (own_query uid)) os),
      map (shown_order us) (take 10 (drop (10 * (p - 1)) ?rs)))"
    using assms(1) ok unfolding orders_list_result(1) [OF c] m
    by (auto simp: serves_orders_def Let_def mapE_shown own_page [OF assms(2)])
  moreover have "rows_of (snd (orders_list (iso e) ?q st)) t = rows_of st t" for t
    using assms(1) orders_filter_matches [OF c, of ?q]
    by (auto simp: orders_list_def serves_orders_def orders_filtered_def own_query_def Let_def load_data_loaded
        split: sum.splits)
  ultimately show ?thesis
    using assms(1) by (cases "orders_list (iso e) ?q st") (auto simp: own_orders_def serves_orders_def)
qed


definition page_request :: "nat \<Rightarrow> row" where
  "page_request p = [(''page'', VNat p), (''pageSize'', VNum 10)]"

lemma page_arguments:
  "page_arg_min1 (server_request GET (VObj (page_request p)) a) = Some (max 1 (int p))"
  "page_size_arg (server_request GET (VObj (page_request p)) a) = Some 10"
  "query (server_request GET (VObj (page_request p)) a) ''status'' = None"
proof -
  have q: "query (server_request GET (VObj (page_request p)) a) ''page'' = Some (js_to_string (VNat p))"
    by (simp add: server_request_def row_of_def page_request_def)
  have ne: "js_to_string (VNat p) \<noteq> []"
    using parse_int_nat [of p] by (auto simp: parse_int_def trim_start_def)
  show "page_arg_min1 (server_request GET (VObj (page_request p)) a) = Some (max 1 (int p))"
    unfolding page_arg_min1_def page_arg_def query_or_def q str_of_def str_truthy_def
    using ne parse_int_nat [of p] by (simp del: js_to_string.simps)
  have n: "parse_int ''10'' = Some 10" "js_to_string (VNum 10) = ''10''"
    by code_simp+
  then show "page_size_arg (server_request GET (VObj (page_request p)) a) = Some 10"
    by (simp add: page_size_arg_def query_or_def server_request_def row_of_def page_request_def str_of_def str_truthy_def
        del: js_to_string.simps)
  show "query (server_request GET (VObj (page_request p)) a) ''status'' = None"
    by (simp add: server_request_def row_of_def page_request_def)
qed

lemma serve_my_orders:
  "serve w e GET [''h5'', ''api'', ''api'', ''v1'', ''me'', ''orders''] (server_request GET data auth) st =
     (case user_guard w e (server_request GET data auth) of
        Some res \<Rightarrow> (res, st) | None \<Rightarrow> users my_orders w e (server_request GET data auth) st)"
  unfolding client_path
  by (simp add: api_mounts_def run_router_def me_orders_router_def lower_words split: option.split)

lemma my_orders_url: "[''h5'', ''api'', ''api'', ''v1''] @ tl (split_on (CHR ''/'') ''/me/orders'') =
    [''h5'', ''api'', ''api'', ''v1'', ''me'', ''orders'']"
  by code_simp

lemma auth_ignores_data:
  "require_user_auth cf e (server_request m data auth) = require_user_auth cf e (server_request m' data' auth)"
proof -
  have h: "headers (server_request m data auth) = headers (server_request m' data' auth)"
    by (simp add: server_request_def)
  show ?thesis
    unfolding require_user_auth_def extract_jwt_def h ..
qed

lemma server_page:
  assumes "serves_orders w e auth uid os us st" "1 \<le> p"
  shows "\<exists>r st1. server_network w e GET ''/me/orders'' (VObj (page_request p)) (Some auth) st = (Net_ok 200 (VObj r), st1) \<and>
    serves_orders w e auth uid os us st1 \<and> fld r ''total'' = VNat (length (own_orders uid os us)) \<and>
    fld r ''orders'' = VArr (map VObj (take 10 (drop (10 * (p - 1)) (own_orders uid os us))))"
proof -
  let ?req = "server_request GET (VObj (page_request p)) (Some auth)"
  let ?rs = "map (shown_order us) (take 10 (drop (10 * (p - 1))
      (js_sort cmp_created_desc (filter (order_matches (own_query uid)) os))))"
  obtain st1 where l: "orders_list (iso e) ((own_query uid)\<lparr>oq_page := Some (max 1 (int p)), oq_pageSize := Some 10\<rparr>) st =
      (Inr (length (own_orders uid os us), ?rs), st1)" "serves_orders w e auth uid os us st1"
    using own_listing [OF assms] by blast
  have auth: "require_user_auth (cfg w) e ?req = Inr uid"
    using assms(1) auth_ignores_data [of "cfg w" e GET "VObj (page_request p)" "Some auth" GET VUndef]
    by (simp add: serves_orders_def)
  have q: "no_order_query\<lparr>oq_userId := uid, oq_status := None, oq_page := Some (max 1 (int p)), oq_pageSize := Some 10\<rparr> =
      (own_query uid)\<lparr>oq_page := Some (max 1 (int p)), oq_pageSize := Some 10\<rparr>"
    by (simp add: own_query_def no_order_query_def)
  have res: "my_orders e ?req uid st = (ok_res [(''total'', VNat (length (own_orders uid os us))),
      (''page'', num_of_parse (Some (max 1 (int p)))), (''pageSize'', num_of_parse (Some 10)),
      (''orders'', VArr (map VObj ?rs))], st1)"
    unfolding my_orders_def page_arguments Let_def q l(1) by simp
  have "json_copy (VArr (map VObj ?rs)) = VArr (map VObj (take 10 (drop (10 * (p - 1)) (own_orders uid os us))))"
    by (simp add: own_orders_def take_map drop_map json_row_def)
  then show ?thesis
    using l(2) by (simp add: server_network_def my_orders_url serve_my_orders user_guard_def auth users_def user_only_def
        with_next_def res ok_res_def json_res_def num_of_parse_def Let_def)
qed

interpretation server_pages: order_pages "server_network w e" auth "serves_orders w e auth uid os us" "own_orders uid os us"
  by unfold_locales (use server_page in \<open>simp add: page_request_def\<close>)

text \<open>C18. Against this server, a logged-in customer who opens the list of orders and scrolls to the bottom \<open>n\<close> times sees
  the first \<open>10 (n + 1)\<close> of his own orders, newest first, each once and in the server's order, hence all of them as
  soon as there are no more than that.\<close>

theorem scrolling_lists_own_orders:
  assumes "g_logged_in c" "truthy (g_token c)"
    and "serves_orders w e (''Bearer '' @ js_to_string (g_token c)) uid os us st"
  shows "ol_orders (fst (scroll (server_network w e) ce n pg (c, st))) =
    map listed (take (10 * Suc n) (own_orders uid os us))"
proof -
  have "server_pages.accepted (''Bearer '' @ js_to_string (g_token c)) c"
    using assms(1,2) unfolding server_pages.accepted_def by simp
  then show ?thesis
    by (rule server_pages.scrolled_orders) (rule assms(3))
qed


text \<open>C40. Scrolling ends: after \<open>n\<close> arrivals at the bottom, when \<open>10 (n + 1)\<close> is at least the number of the customer's
  orders, arriving there again asks the server for nothing and leaves page, client and store as they are.\<close>

theorem scrolling_ends:
  assumes "g_logged_in c" "truthy (g_token c)"
    and "serves_orders w e (''Bearer '' @ js_to_string (g_token c)) uid os us st"
    and "length (own_orders uid os us) \<le> 10 * Suc n"
    and "scroll (server_network w e) ce n pg (c, st) = (pg1, cs1)"
  shows "reach_bottom (server_network w e) ce pg1 cs1 = (pg1, cs1)"
proof -
  have "server_pages.accepted (''Bearer '' @ js_to_string (g_token c)) c"
    using assms(1,2) unfolding server_pages.accepted_def by simp
  then show ?thesis
    by (rule server_pages.bottom_rests) (rule assms(3-5))+
qed

text \<open>When one request for more orders fails, its page is lost: with the first \<open>10 (n + 1)\<close> orders shown and more to
  come, a failed arrival at the bottom followed by one that succeeds leaves out the ten orders in between, for the
  failed attempt has already moved the page number on.\<close>

theorem failed_page_is_lost:
  assumes "g_logged_in c" "truthy (g_token c)"
    and "serves_orders w e (''Bearer '' @ js_to_string (g_token c)) uid os us st"
    and "scroll (server_network w e) ce n pg (c, st) = (pg1, c, st1)"
    and "10 * Suc n < length (own_orders uid os us)" "\<forall>m u d a t. net1 m u d a t = (Net_fail, t)"
  shows "\<exists>pg2. reach_bottom net1 ce pg1 (c, st1) = (pg2, c, st1) \<and>
    ol_orders (fst (reach_bottom (server_network w e) ce pg2 (c, st1))) =
      map listed (take (10 * Suc n) (own_orders uid os us) @ take 10 (drop (10 * Suc n + 10) (own_orders uid os us)))"
proof -
  let ?auth = "''Bearer '' @ js_to_string (g_token c)"
  have a: "server_pages.accepted ?auth c"
    using assms(1,2) unfolding server_pages.accepted_def by simp
  have s: "serves_orders w e ?auth uid os us st1" "server_pages.shows_pages uid os us n pg1"
    using server_pages.scrolled [OF a assms(3), of ce n pg] assms(4) by auto
  then have p: "ol_page pg1 = Suc n"
    using assms(5) unfolding server_pages.shows_pages_def by auto
  show ?thesis
    using server_pages.failed_page_skipped [OF a s, of net1 ce] assms(5,6) unfolding p by simp
qed

definition many_orders :: "row list" where
  "many_orders = replicate 11 shop_order"

lemma many_served:
  "serves_orders sample_world (sample_env 2000) (''Bearer '' @ js_to_string (g_token shopper)) (VNum 7) many_orders []
     (store_with (\<lambda>t. if t = Orders then many_orders else []))"
  "length (own_orders (VNum 7) many_orders []) = 11"
proof -
  have "require_user_auth (cfg sample_world) (sample_env 2000)
      (server_request GET VUndef (Some (''Bearer '' @ js_to_string (g_token shopper)))) = Inr (VNum 7)"
    unfolding user_auth_headers using shopper_accepted by simp
  moreover have "\<not> nullish (address_data shop_order)"
    by (simp add: address_data_def shop_order_def)
  moreover have "all_conform order_iface many_orders"
    using one_order(4) by (simp add: many_orders_def all_conform_def)
  ultimately show "serves_orders sample_world (sample_env 2000) (''Bearer '' @ js_to_string (g_token shopper)) (VNum 7)
      many_orders [] (store_with (\<lambda>t. if t = Orders then many_orders else []))"
    unfolding serves_orders_def by (auto simp: many_orders_def)
  show "length (own_orders (VNum 7) many_orders []) = 11"
    by (simp add: own_orders_def many_orders_def order_matches_def own_query_def no_order_query_def str_truthy_def
        filter_replicate)
qed

theorem scrolling_lists_own_orders_witness:
  "length (ol_orders (fst (scroll (server_network sample_world (sample_env 2000)) sample_client_env 1 new_order_list
     (shopper, store_with (\<lambda>t. if t = Orders then many_orders else []))))) = 11"
proof -
  have l: "g_logged_in shopper" "truthy (g_token shopper)"
    by (simp_all add: shopper_def sign_jwt_nonempty)
  show ?thesis
    unfolding scrolling_lists_own_orders [OF l many_served(1)]
    using many_served(2) by simp
qed

theorem scrolling_ends_witness:
  "\<exists>pg1 cs1. scroll (server_network sample_world (sample_env 2000)) sample_client_env 1 new_order_list
      (shopper, store_with (\<lambda>t. if t = Orders then many_orders else [])) = (pg1, cs1) \<and>
    reach_bottom (server_network sample_world (sample_env 2000)) sample_client_env pg1 cs1 = (pg1, cs1)"
proof -
  have l: "g_logged_in shopper" "truthy (g_token shopper)"
    by (simp_all add: shopper_def sign_jwt_nonempty)
  have n: "length (own_orders (VNum 7) many_orders []) \<le> 10 * Suc 1"
    by (simp add: many_served(2))
  obtain pg1 cs1 where s: "scroll (server_network sample_world (sample_env 2000)) sample_client_env 1 new_order_list
      (shopper, store_with (\<lambda>t. if t = Orders then many_orders else [])) = (pg1, cs1)"
    by (metis prod.collapse)
  with scrolling_ends [OF l many_served(1) n s] show ?thesis by blast
qed

theorem failed_page_is_lost_witness:
  "\<exists>pg2. length (ol_orders (fst (reach_bottom (server_network sample_world (sample_env 2000)) sample_client_env pg2
     (shopper, snd (snd (scroll (server_network sample_world (sample_env 2000)) sample_client_env 0 new_order_list
       (shopper, store_with (\<lambda>t. if t = Orders then many_orders else [])))))))) = 10"
proof -
  let ?st = "store_with (\<lambda>t. if t = Orders then many_orders else [])"
  let ?auth = "''Bearer '' @ js_to_string (g_token shopper)"
  have l: "g_logged_in shopper" "truthy (g_token shopper)"
    by (simp_all add: shopper_def sign_jwt_nonempty)
  then have "server_pages.accepted ?auth shopper"
    unfolding server_pages.accepted_def by simp
  from server_pages.scrolled [OF this many_served(1), of sample_client_env 0 new_order_list]
  obtain pg1 st1 where s: "scroll (server_network sample_world (sample_env 2000)) sample_client_env 0 new_order_list
      (shopper, ?st) = (pg1, shopper, st1)"
    by blast
  have n: "10 * Suc 0 < length (own_orders (VNum 7) many_orders [])"
    by (simp add: many_served(2))
  obtain pg2 where "ol_orders (fst (reach_bottom (server_network sample_world (sample_env 2000)) sample_client_env pg2
      (shopper, st1))) = map listed (take (10 * Suc 0) (own_orders (VNum 7) many_orders []) @
        take 10 (drop (10 * Suc 0 + 10) (own_orders (VNum 7) many_orders [])))"
    using failed_page_is_lost [OF l many_served(1) s n, of "\<lambda>m u d a t. (Net_fail, t)"] by auto
  then show ?thesis
    unfolding s by (intro exI [of _ pg2]) (simp add: many_served(2))
qed

section \<open>Payments\<close>

lemma prepay_url: "[''h5'', ''api'', ''api'', ''v1''] @ tl (split_on (CHR ''/'') ''/pay/wechat/mini/prepay'') =
    [''h5'', ''api'', ''api'', ''v1'', ''pay'', ''wechat'', ''mini'', ''prepay'']"
  by code_simp

lemma serve_no_prepay:
  "serve w e POST [''h5'', ''api'', ''api'', ''v1'', ''pay'', ''wechat'', ''mini'', ''prepay''] req st =
     (\<lparr>status = 404, answer = VUndef\<rparr>, st)"
  unfolding client_path by (simp add: api_mounts_def admin_mounts_def lower_words)

lemma no_prepay: "\<exists>err. fst (pay_order (server_network w e) ce no cs) = Inl err"
  by (cases cs) (simp add: pay_order_def api_mini_prepay_def client_request_def server_network_def prepay_url
      serve_no_prepay request_result_def and_then_def)

lemma pay_now_fails: "fst (pay_now (server_network w e) ce no cs) \<noteq> Order_paid"
proof -
  obtain r cs1 where 1: "ensure_login (server_network w e) ce cs = (r, cs1)"
    by (cases "ensure_login (server_network w e) ce cs")
  obtain err cs2 where 2: "pay_order (server_network w e) ce no cs1 = (Inl err, cs2)"
    using no_prepay [of w e ce no cs1] by (cases "pay_order (server_network w e) ce no cs1") auto
  show ?thesis
    by (cases r) (simp_all add: pay_now_def 1 2 Let_def)
qed

text \<open>No page of the mini program completes a payment against this server, whose payment routes are not mounted:
  neither the list of orders nor the page of an order nor the checkout ever reports an order as paid, whatever the
  state of the client and of the store.\<close>

theorem nothing_can_be_paid:
  "fst (pay_from_list (server_network w e) ce no pg cs) \<noteq> Order_paid \<and>
   fst (pay_from_detail (server_network w e) ce dpg cs) \<noteq> Order_paid \<and>
   fst (submit_order (server_network w e) ce cpg cs) \<noteq> Paid no'"
proof (intro conjI)
  show "fst (pay_from_list (server_network w e) ce no pg cs) \<noteq> Order_paid"
    using pay_now_fails [of w e ce no cs]
    by (auto simp: pay_from_list_def split: prod.split pay_end.split)
  show "fst (pay_from_detail (server_network w e) ce dpg cs) \<noteq> Order_paid"
    using pay_now_fails [of w e ce "od_no dpg" cs]
    by (auto simp: pay_from_detail_def split: prod.split pay_end.split)
  have "fst (create_and_pay (server_network w e) ce cpg1 cs) \<noteq> Paid no'" for cpg1
    using no_prepay [of w e ce]
    by (auto simp: create_and_pay_def Let_def split: prod.split sum.split) (metis fst_conv sum.distinct(1))
  from this [of "cpg\<lparr>ck_submitting := True\<rparr>"] show "fst (submit_order (server_network w e) ce cpg cs) \<noteq> Paid no'"
    by (auto simp: submit_order_def submit_guard_def split: option.split prod.split if_splits)
qed


section \<open>The products of the category page\<close>

definition enabled_query :: product_query where
  "enabled_query = \<lparr>pq_page = Some 1, pq_pageSize = Some 20, pq_keyword = None, pq_categoryId = VUndef, pq_status = VNum 1\<rparr>"

definition shop_request :: "nat \<Rightarrow> row" where
  "shop_request limit = [(''status'', VNum 1), (''limit'', VNat limit)]"

lemma serve_products:
  "serve w e GET [''h5'', ''api'', ''api'', ''v1'', ''products''] (server_request GET data auth) st =
     with_next (get_products e (server_request GET data auth)) st"
  unfolding client_path
  by (simp add: api_mounts_def run_router_def api_products_router_def no_guard_def nexts_def lower_words)

lemma products_url: "[''h5'', ''api'', ''api'', ''v1''] @ tl (split_on (CHR ''/'') ''/products'') =
    [''h5'', ''api'', ''api'', ''v1'', ''products'']"
  by code_simp

lemma shop_arguments:
  "page_arg_min1 (server_request GET (VObj (shop_request limit)) a) = Some 1"
  "page_size_arg (server_request GET (VObj (shop_request limit)) a) = Some 20"
  "query (server_request GET (VObj (shop_request limit)) a) ''keyword'' = None"
  "positive_or_undef (parse_int (query_or (server_request GET (VObj (shop_request limit)) a) ''categoryId'' ''0'')) = VUndef"
proof -
  have n: "parse_int ''1'' = Some 1" "parse_int ''20'' = Some 20" "parse_int ''0'' = Some 0"
    by code_simp+
  show "page_arg_min1 (server_request GET (VObj (shop_request limit)) a) = Some 1"
    "page_size_arg (server_request GET (VObj (shop_request limit)) a) = Some 20"
    "query (server_request GET (VObj (shop_request limit)) a) ''keyword'' = None"
    "positive_or_undef (parse_int (query_or (server_request GET (VObj (shop_request limit)) a) ''categoryId'' ''0'')) = VUndef"
    by (simp_all add: page_arg_min1_def page_arg_def page_size_arg_def query_or_def server_request_def row_of_def
        shop_request_def str_truthy_def positive_or_undef_def n)
qed

lemma server_products:
  assumes "all_conform product_iface (rows_of st Products)"
  shows "\<exists>r st1. server_network w e GET ''/products'' (VObj (shop_request limit)) None st = (Net_ok 200 (VObj r), st1) \<and>
    fld r ''data'' = VUndef \<and> fld r ''products'' = VUndef \<and>
    fld r ''list'' = VArr (map VObj (map json_row (take 20
      (js_sort product_cmp (filter (product_matches enabled_query) (rows_of st Products))))))"
proof -
  let ?rs = "js_sort product_cmp (filter (product_matches enabled_query) (rows_of st Products))"
  have q: "products_list_enabled (iso e) \<lparr>pq_page = Some 1, pq_pageSize = Some 20, pq_keyword = None,
      pq_categoryId = VUndef, pq_status = VUndef\<rparr> st = products_list (iso e) enabled_query st"
    by (simp add: products_list_enabled_def enabled_query_def)
  have "paginate (Some 1) (Some 20) ?rs = take 20 ?rs"
    using paginate_window [of 1 20 ?rs] by simp
  then have "fst (products_list (iso e) enabled_query st) =
      Inr (length (filter (product_matches enabled_query) (rows_of st Products)), take 20 ?rs)"
    using product_filter_matches [OF assms, of enabled_query]
    by (simp add: products_list_def list_page_result) (simp add: enabled_query_def)
  then obtain n st1 where l: "products_list (iso e) enabled_query st = (Inr (n, take 20 ?rs), st1)"
    by (metis prod.collapse)
  have "get_products e (server_request GET (VObj (shop_request limit)) None) st =
      (ok_res [(''total'', VNat n), (''page'', num_of_parse (Some 1)), (''pageSize'', num_of_parse (Some 20)),
        (''list'', VArr (map VObj (take 20 ?rs)))], st1)"
    unfolding get_products_def shop_arguments Let_def q l by simp
  then show ?thesis
    by (simp add: server_network_def products_url serve_products with_next_def ok_res_def json_res_def num_of_parse_def
        json_row_def Let_def)
qed

text \<open>The category page asks this server for 200 products and gets the first 20 enabled ones in the shop's order: the
  server knows no \<open>limit\<close>, and the page asks for no second page, so that no other product can be found there.\<close>

theorem category_page_stops_at_twenty:
  assumes "all_conform product_iface (rows_of st Products)"
  shows "sp_products (fst (load_category (server_network w e) ce pg (c, st))) =
    map listed (map json_row (take 20 (js_sort product_cmp (filter (product_matches enabled_query) (rows_of st Products)))))"
proof -
  let ?ps = "map json_row (take 20 (js_sort product_cmp (filter (product_matches enabled_query) (rows_of st Products))))"
  obtain r st1 where r: "server_network w e GET ''/products'' (VObj (shop_request 200)) None st = (Net_ok 200 (VObj r), st1)"
    "fld r ''data'' = VUndef" "fld r ''products'' = VUndef" "fld r ''list'' = VArr (map VObj ?ps)"
    using server_products [OF assms] by blast
  have "api_products (server_network w e) [(''status'', VNum 1), (''limit'', VNat 200)] (c, st) = (Inr (VObj r), c, st1)"
    using r(1) by (simp add: api_products_def client_request_def request_result_def shop_request_def)
  moreover have "products_answer ce (VObj r) = Inr (map listed ?ps)"
    using r(2-4) by (simp add: products_answer_def and_then_def prop_or_throw_def prop_or_undef_def js_or_def
        del: map_map)
  ultimately show ?thesis
    by (simp add: load_category_def load_products_def and_then_def update_filtered_def Let_def del: map_map)
qed

definition many_products :: "row list" where
  "many_products = replicate 21 [(''id'', VNat 1), (''title'', VStr ''t''), (''price_cent'', VNum 5), (''status'', VNum 1),
     (''is_featured'', VNum 0), (''sort_order'', VNum 0), (''stock'', VNum 1), (''sales'', VNum 0)]"

theorem category_page_stops_at_twenty_witness:
  "length (sp_products (fst (load_category (server_network sample_world (sample_env 0)) sample_client_env
     \<lparr>sp_products = [], sp_filtered = [], sp_tab = ''all'', sp_loading = True, sp_error = VNull\<rparr>
     (shopper, store_with (\<lambda>t. if t = Products then many_products else []))))) = 20"
proof -
  have c: "all_conform product_iface (rows_of (store_with (\<lambda>t. if t = Products then many_products else [])) Products)"
    by (simp add: many_products_def all_conform_def conforms_def product_iface_def field_ok_def)
  show ?thesis
    unfolding category_page_stops_at_twenty [OF c]
    by (simp add: many_products_def product_matches_def enabled_query_def str_truthy_def positive_id_def filter_replicate)
qed

end
