(* ===== verification/Parser_Fuel.thy ===== *)
theory Parser_Fuel
  imports Jwt
begin

text \<open>
  The fuel of the parsers is enough: \<open>json_parse\<close> runs with twice the length of the text and two more, and
  \<open>decodeURIComponent\<close> with the length of the text; more fuel changes no result, an error included.
\<close>

section \<open>Every part reads something\<close>

lemma skip_ws_length: "length (skip_ws s) \<le> length s"
  by (rule length_dropWhile_le)

lemma skip_ws_Cons: "skip_ws s = c # t \<Longrightarrow> length t < length s"
  using skip_ws_length [of s] by simp

lemma map_option_pair: "map_option (\<lambda>(r, q). (f r, q)) m = Some (x, r) \<Longrightarrow> \<exists>x'. m = Some (x', r)"
  by (cases m) auto

lemma parse_str_step:
  assumes "parse_str (c # s) = Some (x, r)"
  shows "r = s \<or> (\<exists>u x'. parse_str u = Some (x', r) \<and> length u \<le> length s)"
  using assms unfolding parse_str.simps(2)
  by (auto simp del: parse_str.simps split: if_splits list.splits option.splits dest!: map_option_pair
      intro: le_trans [OF _ le_SucI])

lemma parse_str_length: "parse_str t = Some (x, r) \<Longrightarrow> length r < length t"
proof (induction "length t" arbitrary: t x r rule: less_induct)
  case less
  show ?case
  proof (cases t)
    case Nil
    with less.prems show ?thesis by simp
  next
    case (Cons c s)
    from less.prems have "r = s \<or> (\<exists>u x'. parse_str u = Some (x', r) \<and> length u \<le> length s)"
      unfolding Cons by (rule parse_str_step)
    then show ?thesis
    proof
      assume "\<exists>u x'. parse_str u = Some (x', r) \<and> length u \<le> length s"
      then obtain u x' where "parse_str u = Some (x', r)" "length u \<le> length s" by blast
      then have "length r < length u"
        using less.hyps [of u x' r] Cons by simp
      with \<open>length u \<le> length s\<close> Cons show ?thesis by simp
    qed (simp add: Cons)
  qed
qed

lemma parse_frac_length: "parse_frac s = Some (x, r) \<Longrightarrow> length r \<le> length s"
  by (auto simp: parse_frac_def split: list.splits if_splits intro: le_SucI length_dropWhile_le)

lemma parse_exp_length: "parse_exp s = Some (x, r) \<Longrightarrow> length r \<le> length s"
  by (auto simp: parse_exp_def Let_def split: list.splits if_splits intro: le_SucI le_trans [OF length_dropWhile_le])

lemma digits_dropped: "takeWhile is_digit s \<noteq> [] \<Longrightarrow> length (dropWhile is_digit s) < length s"
  by (cases s) (auto simp: less_Suc_eq_le length_dropWhile_le split: if_splits)

lemma parse_num_length:
  assumes "parse_num s = Some (x, r)"
  shows "length r < length s"
proof -
  define u where "u = snd (case s of [] \<Rightarrow> (False, []) | c # t \<Rightarrow> if c = CHR ''-'' then (True, t) else (False, s))"
  have u: "length u \<le> length s"
    by (auto simp: u_def split: list.split)
  obtain fp r' e where "takeWhile is_digit u \<noteq> []" "parse_frac (dropWhile is_digit u) = Some (fp, r')"
    "parse_exp r' = Some (e, r)"
    using assms unfolding parse_num_def u_def
    by (auto simp: case_prod_beta Let_def split: if_splits option.splits prod.splits)
  with u digits_dropped [of u] parse_frac_length [of "dropWhile is_digit u" fp r'] parse_exp_length [of r' e r]
  show ?thesis by simp
qed


lemma keyword_length: "prefix k s \<Longrightarrow> k \<noteq> [] \<Longrightarrow> length (drop (length k) s) < length s"
  by (auto simp: prefix_def)

lemma parse_value_step:
  assumes "parse_value (Suc n) s0 = Some (v, r)"
  shows "\<exists>c t. skip_ws s0 = c # t \<and> (length r \<le> length t \<or>
    (\<exists>d t' ms. skip_ws t = d # t' \<and> parse_members n (d # t') = Some (ms, r)) \<or>
    (\<exists>d t' vs. skip_ws t = d # t' \<and> parse_elems n (d # t') = Some (vs, r)))"
proof -
  obtain c t where s: "skip_ws s0 = c # t"
    using assms by (cases "skip_ws s0") auto
  show ?thesis
  proof (cases "c = CHR 0x7B \<or> c = CHR ''[''")
    case True
    then show ?thesis
      using assms s unfolding parse_value.simps(2) s Let_def
      by (auto simp del: parse_value.simps parse_elems.simps parse_members.simps split: list.splits if_splits
          dest!: map_option_pair dest: skip_ws_Cons less_imp_le)
  next
    case False
    then have "length r < length (c # t)"
      using assms unfolding parse_value.simps(2) s Let_def
      by (auto split: if_splits dest: keyword_length parse_str_length parse_num_length)
    with s show ?thesis by auto
  qed
qed

lemma parse_elems_step:
  assumes "parse_elems (Suc n) s = Some (vs, r)"
  shows "\<exists>v r1 c t. parse_value n s = Some (v, r1) \<and> skip_ws r1 = c # t \<and>
    (r = t \<or> (\<exists>ws. parse_elems n t = Some (ws, r)))"
  using assms by (auto split: option.splits list.splits if_splits prod.splits)

lemma parse_members_step:
  assumes "parse_members (Suc n) s = Some (ms, r)"
  shows "\<exists>q t k t1 c t2 v t3 e t4. skip_ws s = q # t \<and> parse_str t = Some (k, t1) \<and> skip_ws t1 = c # t2 \<and>
    parse_value n t2 = Some (v, t3) \<and> skip_ws t3 = e # t4 \<and>
    (r = t4 \<or> (\<exists>ns. parse_members n t4 = Some (ns, r)))"
  using assms by (auto split: option.splits list.splits if_splits prod.splits)

lemma parsed_lengths:
  "(\<forall>s v r. parse_value n s = Some (v, r) \<longrightarrow> length r < length s) \<and>
   (\<forall>s vs r. parse_elems n s = Some (vs, r) \<longrightarrow> length r < length s) \<and>
   (\<forall>s ms r. parse_members n s = Some (ms, r) \<longrightarrow> length r < length s)"
proof (induction n)
  case (Suc n)
  note ih = Suc.IH [THEN conjunct1, rule_format] Suc.IH [THEN conjunct2, THEN conjunct1, rule_format]
    Suc.IH [THEN conjunct2, THEN conjunct2, rule_format]
  have "length r < length s" if h: "parse_value (Suc n) s = Some (v, r)" for s v r
  proof -
    obtain c t where s: "skip_ws s = c # t" and r: "length r \<le> length t \<or>
        (\<exists>d t' ms. skip_ws t = d # t' \<and> parse_members n (d # t') = Some (ms, r)) \<or>
        (\<exists>d t' vs. skip_ws t = d # t' \<and> parse_elems n (d # t') = Some (vs, r))"
      using parse_value_step [OF h] by blast
    from r have "length r \<le> length t"
    proof (elim disjE exE conjE)
      fix d t' ms assume "skip_ws t = d # t'" "parse_members n (d # t') = Some (ms, r)"
      then show ?thesis
        using ih(3) [of "d # t'" ms r] skip_ws_length [of t] by simp
    next
      fix d t' vs assume "skip_ws t = d # t'" "parse_elems n (d # t') = Some (vs, r)"
      then show ?thesis
        using ih(2) [of "d # t'" vs r] skip_ws_length [of t] by simp
    qed
    with skip_ws_Cons [OF s] show ?thesis by simp
  qed
  moreover have "length r < length s" if h: "parse_elems (Suc n) s = Some (vs, r)" for s vs r
  proof -
    obtain v r1 c t where p: "parse_value n s = Some (v, r1)" "skip_ws r1 = c # t"
      and r: "r = t \<or> (\<exists>ws. parse_elems n t = Some (ws, r))"
      using parse_elems_step [OF h] by blast
    have "length r \<le> length t"
      using r ih(2) by (auto dest: less_imp_le)
    with ih(1) [OF p(1)] skip_ws_Cons [OF p(2)] show ?thesis by simp
  qed
  moreover have "length r < length s" if h: "parse_members (Suc n) s = Some (ms, r)" for s ms r
  proof -
    obtain q t k t1 c t2 v t3 e t4 where p: "skip_ws s = q # t" "parse_str t = Some (k, t1)" "skip_ws t1 = c # t2"
        "parse_value n t2 = Some (v, t3)" "skip_ws t3 = e # t4"
      and r: "r = t4 \<or> (\<exists>ns. parse_members n t4 = Some (ns, r))"
      using parse_members_step [OF h] by blast
    have "length r \<le> length t4"
      using r ih(3) by (auto dest: less_imp_le)
    with skip_ws_Cons [OF p(1)] parse_str_length [OF p(2)] skip_ws_Cons [OF p(3)] ih(1) [OF p(4)] skip_ws_Cons [OF p(5)]
    show ?thesis by simp
  qed
  ultimately show ?case by blast
qed simp


section \<open>More fuel changes nothing\<close>

lemma enough_fuel:
  "(\<forall>n m. 2 * length s + 1 \<le> n \<longrightarrow> n \<le> m \<longrightarrow> parse_value m s = parse_value n s) \<and>
   (\<forall>n m. 2 * length s + 2 \<le> n \<longrightarrow> n \<le> m \<longrightarrow> parse_elems m s = parse_elems n s) \<and>
   (\<forall>n m. 2 * length s + 2 \<le> n \<longrightarrow> n \<le> m \<longrightarrow> parse_members m s = parse_members n s)"
proof (induction "length s" arbitrary: s rule: less_induct)
  case less
  note ih = less [THEN conjunct1, rule_format] less [THEN conjunct2, THEN conjunct1, rule_format]
    less [THEN conjunct2, THEN conjunct2, rule_format]
  have value_eq: "parse_value m s = parse_value n s" if h: "2 * length s + 1 \<le> n" "n \<le> m" for n m
  proof -
    obtain n' m' where nm: "n = Suc n'" "m = Suc m'" "n' \<le> m'"
      using h by (cases n; cases m) auto
    have inner: "parse_elems m' (skip_ws t) = parse_elems n' (skip_ws t)"
      "parse_members m' (skip_ws t) = parse_members n' (skip_ws t)" if "skip_ws s = c # t" for c t
    proof -
      have l: "length (skip_ws t) < length s"
        using skip_ws_Cons [OF that] skip_ws_length [of t] by simp
      then have "2 * length (skip_ws t) + 2 \<le> n'"
        using h(1) nm(1) by simp
      then show "parse_elems m' (skip_ws t) = parse_elems n' (skip_ws t)"
        "parse_members m' (skip_ws t) = parse_members n' (skip_ws t)"
        using ih(2,3) [OF l _ nm(3)] by blast+
    qed
    show ?thesis
    proof (cases "skip_ws s")
      case (Cons c t)
      note in_t = inner [OF Cons]
      show ?thesis
      proof (cases "skip_ws t")
        case Nil
        show ?thesis
          unfolding nm(1,2) parse_value.simps(2) Let_def Cons list.case Nil by simp
      next
        case c2: (Cons d u)
        show ?thesis
          using in_t unfolding nm(1,2) parse_value.simps(2) Let_def Cons list.case c2 by auto
      qed
    next
      case Nil
      show ?thesis
        unfolding nm(1,2) parse_value.simps(2) Let_def Nil by simp
    qed
  qed
  moreover have "parse_elems m s = parse_elems n s" if h: "2 * length s + 2 \<le> n" "n \<le> m" for n m
  proof -
    obtain n' m' where nm: "n = Suc n'" "m = Suc m'" "n' \<le> m'"
      using h by (cases n; cases m) auto
    have v: "parse_value m' s = parse_value n' s"
      using h(1) nm by (intro value_eq) simp_all
    have inner: "parse_elems m' t = parse_elems n' t"
      if "parse_value n' s = Some (x, r)" "skip_ws r = c # t" for x r c t
    proof -
      have l: "length t < length s"
        using parsed_lengths [THEN conjunct1, rule_format, OF that(1)] skip_ws_Cons [OF that(2)] by simp
      then show ?thesis
        using h(1) nm(1) by (intro ih(2) [OF l _ nm(3)]) simp
    qed
    show ?thesis
      unfolding nm(1,2) parse_elems.simps(2) v
      by (auto simp del: dropWhile_eq_Nil_conv split: option.split list.split dest: inner)
  qed
  moreover have "parse_members m s = parse_members n s" if h: "2 * length s + 2 \<le> n" "n \<le> m" for n m
  proof -
    obtain n' m' where nm: "n = Suc n'" "m = Suc m'" "n' \<le> m'"
      using h by (cases n; cases m) auto
    have before: "length t2 < length s"
      if "skip_ws s = q # t" "parse_str t = Some (k, t1)" "skip_ws t1 = c # t2" for q t k t1 c t2
      using skip_ws_Cons [OF that(1)] parse_str_length [OF that(2)] skip_ws_Cons [OF that(3)] by simp
    have v: "parse_value m' t2 = parse_value n' t2"
      if "skip_ws s = q # t" "parse_str t = Some (k, t1)" "skip_ws t1 = c # t2" for q t k t1 c t2
      using before [OF that] h(1) nm by (intro ih(1) [OF before [OF that] _ nm(3)]) simp
    have rest: "parse_members m' t4 = parse_members n' t4"
      if "skip_ws s = q # t" "parse_str t = Some (k, t1)" "skip_ws t1 = c # t2" "parse_value n' t2 = Some (x, t3)"
        "skip_ws t3 = e # t4" for q t k t1 c t2 x t3 e t4
    proof -
      have l: "length t4 < length s"
        using before [OF that(1-3)] parsed_lengths [THEN conjunct1, rule_format, OF that(4)] skip_ws_Cons [OF that(5)]
        by simp
      then show ?thesis
        using h(1) nm(1) by (intro ih(3) [OF l _ nm(3)]) simp
    qed
    show ?thesis
    proof (cases "skip_ws s")
      case (Cons q t)
      show ?thesis
      proof (cases "parse_str t")
        case (Some kt)
        obtain k t1 where kt: "kt = (k, t1)" by (cases kt)
        show ?thesis
        proof (cases "skip_ws t1")
          case (Cons c t2)
          note here = \<open>skip_ws s = q # t\<close> Some [unfolded kt] Cons
          show ?thesis
            unfolding nm(1,2) parse_members.simps(2) here(1)
            using v [OF here] rest [OF here] here
            by (auto simp del: dropWhile_eq_Nil_conv split: option.split list.split)
        next
          case Nil
          show ?thesis
            unfolding nm(1,2) parse_members.simps(2) \<open>skip_ws s = q # t\<close> list.case Some kt option.case prod.case Nil
            by simp
        qed
      next
        case None
        show ?thesis
          unfolding nm(1,2) parse_members.simps(2) \<open>skip_ws s = q # t\<close> list.case None option.case by simp
      qed
    next
      case Nil
      show ?thesis
        unfolding nm(1,2) parse_members.simps(2) Nil by simp
    qed
  qed
  ultimately show ?case by blast
qed

lemma json_parse_any_fuel:
  assumes "2 * length s + 2 \<le> n"
  shows "json_parse s = (case parse_value n s of Some (v, r) \<Rightarrow> if skip_ws r = [] then Some v else None | None \<Rightarrow> None)"
proof -
  have "parse_value n s = parse_value (2 * length s + 2) s"
    using enough_fuel [of s, THEN conjunct1, rule_format, of "2 * length s + 2" n] assms by simp
  then show ?thesis
    by (simp add: json_parse_def)
qed


section \<open>Percent-encoded text\<close>

lemma escape_byte_length: "escape_byte s = Some (b, r) \<Longrightarrow> length r < length s"
  by (auto simp: escape_byte_def split: list.splits if_splits option.splits)

lemma escape_tail_length: "escape_tail n s = Some (t, r) \<Longrightarrow> length r \<le> length s"
proof (induction n arbitrary: s t)
  case (Suc n)
  then obtain c rest t' where "escape_byte s = Some (c, rest)" "escape_tail n rest = Some (t', r)"
    by (auto split: option.splits if_splits)
  with Suc.IH [of rest t'] escape_byte_length [of s c rest] show ?case by simp
qed simp

lemma escape_char_length: "escape_char s = Some (t, r) \<Longrightarrow> length r < length s"
  unfolding escape_char_def
  by (auto split: option.splits if_splits dest!: escape_byte_length escape_tail_length)

lemma uri_decode_more: "length s \<le> n \<Longrightarrow> uri_decode (Suc n) s = uri_decode n s"
proof (induction n arbitrary: s)
  case (Suc n)
  show ?case
  proof (cases s)
    case (Cons c t)
    have "uri_decode (Suc n) r = uri_decode n r" if "escape_char (c # t) = Some (u, r)" for u r
      using escape_char_length [OF that] Suc.prems by (intro Suc.IH) (simp add: Cons)
    moreover have "uri_decode (Suc n) t = uri_decode n t"
      using Suc.prems by (intro Suc.IH) (simp add: Cons)
    ultimately show ?thesis
      unfolding Cons uri_decode.simps(3) by (auto split: option.split)
  qed simp
qed simp

lemma uri_decode_any_fuel: "length s \<le> n \<Longrightarrow> uri_decode n s = uri_decode (length s) s"
proof (induction n)
  case (Suc n)
  then show ?case
    by (cases "length s = Suc n") (simp_all add: uri_decode_more)
qed simp

end
