(* ===== verification/Admin_Client.thy ===== *)
theory Admin_Client
  imports Mini_App
begin

text \<open>
  The administration's browser client (\<^verbatim>\<open>jintai-property/admin/src\<close>): the token in the local storage
  (\<^verbatim>\<open>stores/auth.ts\<close>), the interceptors around every request (\<^verbatim>\<open>utils/request.ts\<close>), the guard of the router
  (\<^verbatim>\<open>router/index.ts\<close>), the calls (\<^verbatim>\<open>api/category.ts\<close>, \<^verbatim>\<open>api/property.ts\<close>) and the scripts of the pages for login,
  categories and properties (\<^verbatim>\<open>views\<close>).  A network takes the path below \<^verbatim>\<open>/api/v1/admin\<close>; messages are not modelled.
\<close>

section \<open>The token\<close>

record admin_client =
  ad_token :: string
  ad_user :: string
  ad_local :: "string \<Rightarrow> string option"
  ad_path :: string

definition open_admin :: "(string \<Rightarrow> string option) \<Rightarrow> string \<Rightarrow> admin_client" where
  "open_admin local path = \<lparr>ad_token = str_of (local ''admin_token''), ad_user = str_of (local ''admin_username''),
     ad_local = local, ad_path = path\<rparr>"

definition set_token :: "string \<Rightarrow> string \<Rightarrow> admin_client \<Rightarrow> admin_client" where
  "set_token t u a = a\<lparr>ad_token := t, ad_user := u,
     ad_local := (ad_local a)(''admin_token'' \<mapsto> t, ''admin_username'' \<mapsto> u)\<rparr>"

definition clear_token :: "admin_client \<Rightarrow> admin_client" where
  "clear_token a = a\<lparr>ad_token := [], ad_user := [],
     ad_local := (ad_local a)(''admin_token'' := None, ''admin_username'' := None)\<rparr>"

section \<open>The router\<close>

datatype guard_result = Pass | Go_to string

text \<open>Only the login route is marked as open; the others, and a path that matches no route, ask for a token.\<close>

definition route_guard :: "string \<Rightarrow> string \<Rightarrow> guard_result" where
  "route_guard token path =
     (if path \<noteq> ''/login'' \<and> token = [] then Go_to ''/login''
      else if path = ''/login'' \<and> token \<noteq> [] then Go_to ''/'' else Pass)"

section \<open>Requests\<close>

datatype axios_result = Axios_ok val | Axios_error "(nat \<times> val) option"

definition login_page :: "string \<Rightarrow> string" where
  "login_page path = (if prefix ''/admin'' path then ''/admin'' else ''/JTFP/admin'') @ ''/login''"

definition axios_done :: "net_result \<Rightarrow> admin_client \<Rightarrow> axios_result \<times> admin_client" where
  "axios_done r a =
     (case r of
        Net_fail \<Rightarrow> (Axios_error None, a)
      | Net_ok st d \<Rightarrow>
          if 200 \<le> st \<and> st < 300 then (Axios_ok d, a)
          else (Axios_error (Some (st, d)),
                if st = 401 then (clear_token a)\<lparr>ad_path := login_page (ad_path a)\<rparr> else a))"

definition admin_request ::
  "'s network \<Rightarrow> http_method \<Rightarrow> string \<Rightarrow> val \<Rightarrow> admin_client \<times> 's \<Rightarrow> axios_result \<times> admin_client \<times> 's" where
  "admin_request net m url data as =
     (case as of (a, s) \<Rightarrow>
        (let auth = (if ad_token a = [] then None else Some (''Bearer '' @ ad_token a));
             (r, s1) = net m url data auth s; (x, a1) = axios_done r a
         in (x, a1, s1)))"

definition call_categories :: "'s network \<Rightarrow> admin_client \<times> 's \<Rightarrow> axios_result \<times> admin_client \<times> 's" where
  "call_categories net = admin_request net GET ''/categories'' VUndef"

definition call_create_category :: "'s network \<Rightarrow> row \<Rightarrow> admin_client \<times> 's \<Rightarrow> axios_result \<times> admin_client \<times> 's" where
  "call_create_category net d = admin_request net POST ''/categories'' (VObj d)"

definition call_update_category ::
  "'s network \<Rightarrow> val \<Rightarrow> row \<Rightarrow> admin_client \<times> 's \<Rightarrow> axios_result \<times> admin_client \<times> 's" where
  "call_update_category net i d = admin_request net PUT (''/categories/'' @ js_to_string i) (VObj d)"

definition call_delete_category :: "'s network \<Rightarrow> val \<Rightarrow> admin_client \<times> 's \<Rightarrow> axios_result \<times> admin_client \<times> 's" where
  "call_delete_category net i = admin_request net DELETE (''/categories/'' @ js_to_string i) VUndef"

definition call_properties :: "'s network \<Rightarrow> row \<Rightarrow> admin_client \<times> 's \<Rightarrow> axios_result \<times> admin_client \<times> 's" where
  "call_properties net q = admin_request net GET ''/properties'' (VObj q)"

definition call_property :: "'s network \<Rightarrow> val \<Rightarrow> admin_client \<times> 's \<Rightarrow> axios_result \<times> admin_client \<times> 's" where
  "call_property net i = admin_request net GET (''/properties/'' @ js_to_string i) VUndef"

definition call_create_property :: "'s network \<Rightarrow> row \<Rightarrow> admin_client \<times> 's \<Rightarrow> axios_result \<times> admin_client \<times> 's" where
  "call_create_property net d = admin_request net POST ''/properties'' (VObj d)"

definition call_update_property ::
  "'s network \<Rightarrow> val \<Rightarrow> row \<Rightarrow> admin_client \<times> 's \<Rightarrow> axios_result \<times> admin_client \<times> 's" where
  "call_update_property net i d = admin_request net PUT (''/properties/'' @ js_to_string i) (VObj d)"

definition call_delete_property :: "'s network \<Rightarrow> val \<Rightarrow> admin_client \<times> 's \<Rightarrow> axios_result \<times> admin_client \<times> 's" where
  "call_delete_property net i = admin_request net DELETE (''/properties/'' @ js_to_string i) VUndef"

definition call_batch_delete :: "'s network \<Rightarrow> val list \<Rightarrow> admin_client \<times> 's \<Rightarrow> axios_result \<times> admin_client \<times> 's" where
  "call_batch_delete net ids = admin_request net POST ''/properties/batch-delete'' (VObj [(''ids'', VArr ids)])"

text \<open>The body of an upload is a file, which the network has beside the call.\<close>

definition call_import :: "'s network \<Rightarrow> admin_client \<times> 's \<Rightarrow> axios_result \<times> admin_client \<times> 's" where
  "call_import net = admin_request net POST ''/properties/import'' VUndef"

definition call_export :: "'s network \<Rightarrow> val \<Rightarrow> admin_client \<times> 's \<Rightarrow> axios_result \<times> admin_client \<times> 's" where
  "call_export net ids = admin_request net POST ''/properties/export'' (VObj [(''ids'', ids)])"

definition call_upload_images :: "'s network \<Rightarrow> admin_client \<times> 's \<Rightarrow> axios_result \<times> admin_client \<times> 's" where
  "call_upload_images net = admin_request net POST ''/upload/images'' VUndef"

definition call_delete_image :: "'s network \<Rightarrow> string \<Rightarrow> admin_client \<times> 's \<Rightarrow> axios_result \<times> admin_client \<times> 's" where
  "call_delete_image net url = admin_request net DELETE ''/upload/image'' (VObj [(''url'', VStr url)])"

section \<open>Login\<close>

text \<open>The token is a text of the client; the server is not asked.\<close>

definition shipped_token :: string where
  "shipped_token = ''LLJKLJAFJKLK87987289739skjkwhhh''"

definition handle_login :: "string \<Rightarrow> string \<Rightarrow> admin_client \<Rightarrow> admin_client" where
  "handle_login user pass a =
     (if user = ''admin'' \<and> pass = ''admin123'' then (set_token shipped_token user a)\<lparr>ad_path := ''/JTFP/admin/properties''\<rparr> else a)"

definition handle_logout :: "bool \<Rightarrow> admin_client \<Rightarrow> admin_client" where
  "handle_logout confirmed a = (if confirmed then (clear_token a)\<lparr>ad_path := ''/JTFP/admin/login''\<rparr> else a)"

section \<open>Categories\<close>

record category_page =
  cg_rows :: val
  cg_loading :: bool
  cg_dialog :: bool
  cg_edit :: bool
  cg_submitting :: bool
  cg_form :: row

definition new_category_page :: category_page where
  "new_category_page = \<lparr>cg_rows = VArr [], cg_loading = False, cg_dialog = False, cg_edit = False,
     cg_submitting = False, cg_form = [(''name'', VStr []), (''sort_order'', VNum 0), (''status'', VNum 1)]\<rparr>"

definition fetch_categories ::
  "'s network \<Rightarrow> category_page \<Rightarrow> admin_client \<times> 's \<Rightarrow> category_page \<times> admin_client \<times> 's" where
  "fetch_categories net pg as =
     (case call_categories net as of (r, as1) \<Rightarrow>
        (case r of
           Axios_ok res \<Rightarrow>
             (case prop_of res ''categories'' of
                Inr cs \<Rightarrow> (pg\<lparr>cg_rows := js_or cs (VArr []), cg_loading := False\<rparr>, as1)
              | Inl _ \<Rightarrow> (pg\<lparr>cg_loading := False\<rparr>, as1))
         | Axios_error _ \<Rightarrow> (pg\<lparr>cg_loading := False\<rparr>, as1)))"

definition handle_add :: "category_page \<Rightarrow> category_page" where
  "handle_add pg = pg\<lparr>cg_edit := False, cg_dialog := True,
     cg_form := spread (cg_form pg)
       [(''id'', VUndef), (''name'', VStr []), (''sort_order'', VNum 0), (''status'', VNum 1)]\<rparr>"

definition handle_edit :: "row \<Rightarrow> category_page \<Rightarrow> category_page" where
  "handle_edit r pg = pg\<lparr>cg_edit := True, cg_form := spread (cg_form pg) r, cg_dialog := True\<rparr>"

definition delete_category_row ::
  "'s network \<Rightarrow> row \<Rightarrow> bool \<Rightarrow> category_page \<Rightarrow> admin_client \<times> 's \<Rightarrow> category_page \<times> admin_client \<times> 's" where
  "delete_category_row net r confirmed pg as =
     (if confirmed
      then (case call_delete_category net (fld r ''id'') as of
              (Axios_ok _, as1) \<Rightarrow> fetch_categories net pg as1
            | (Axios_error _, as1) \<Rightarrow> (pg, as1))
      else (pg, as))"

definition submit_category ::
  "'s network \<Rightarrow> category_page \<Rightarrow> admin_client \<times> 's \<Rightarrow> category_page \<times> admin_client \<times> 's" where
  "submit_category net pg as =
     (if \<not> truthy (fld (cg_form pg) ''name'') then (pg, as)
      else (case (if cg_edit pg then call_update_category net (fld (cg_form pg) ''id'') (cg_form pg) as
                  else call_create_category net (cg_form pg) as) of
              (Axios_ok _, as1) \<Rightarrow> fetch_categories net (pg\<lparr>cg_dialog := False, cg_submitting := False\<rparr>) as1
            | (Axios_error _, as1) \<Rightarrow> (pg\<lparr>cg_submitting := False\<rparr>, as1)))"

section \<open>Properties\<close>

record property_list =
  pl_rows :: val
  pl_total :: val
  pl_loading :: bool
  pl_selected :: "val list"
  pl_import_open :: bool
  pl_importing :: bool
  pl_file :: bool
  pl_page :: nat
  pl_size :: nat
  pl_keyword :: string
  pl_status :: val

definition list_query :: "property_list \<Rightarrow> row" where
  "list_query pg = [(''page'', VNat (pl_page pg)), (''pageSize'', VNat (pl_size pg)), (''keyword'', VStr (pl_keyword pg)),
     (''status'', pl_status pg)]"

definition fetch_properties ::
  "'s network \<Rightarrow> property_list \<Rightarrow> admin_client \<times> 's \<Rightarrow> property_list \<times> admin_client \<times> 's" where
  "fetch_properties net pg as =
     (case call_properties net (list_query pg) as of (r, as1) \<Rightarrow>
        (case r of
           Axios_ok res \<Rightarrow>
             (case prop_of res ''list'' of
                Inr l \<Rightarrow> (pg\<lparr>pl_rows := js_or (js_or l (prop_or_undef res ''properties'')) (VArr []),
                             pl_total := js_or (prop_or_undef res ''total'') (VNum 0), pl_loading := False\<rparr>, as1)
              | Inl _ \<Rightarrow> (pg\<lparr>pl_loading := False\<rparr>, as1))
         | Axios_error _ \<Rightarrow> (pg\<lparr>pl_loading := False\<rparr>, as1)))"

definition selection_change :: "row list \<Rightarrow> property_list \<Rightarrow> property_list" where
  "selection_change sel pg = pg\<lparr>pl_selected := filter (\<lambda>i. i \<noteq> VUndef) (map (\<lambda>r. fld r ''id'') sel)\<rparr>"

definition delete_property_row ::
  "'s network \<Rightarrow> row \<Rightarrow> bool \<Rightarrow> property_list \<Rightarrow> admin_client \<times> 's \<Rightarrow> property_list \<times> admin_client \<times> 's" where
  "delete_property_row net r confirmed pg as =
     (if confirmed
      then (case call_delete_property net (fld r ''id'') as of
              (Axios_ok _, as1) \<Rightarrow> fetch_properties net pg as1
            | (Axios_error _, as1) \<Rightarrow> (pg, as1))
      else (pg, as))"

definition batch_delete ::
  "'s network \<Rightarrow> bool \<Rightarrow> property_list \<Rightarrow> admin_client \<times> 's \<Rightarrow> property_list \<times> admin_client \<times> 's" where
  "batch_delete net confirmed pg as =
     (if confirmed
      then (case call_batch_delete net (pl_selected pg) as of
              (Axios_ok _, as1) \<Rightarrow> fetch_properties net (pg\<lparr>pl_selected := []\<rparr>) as1
            | (Axios_error _, as1) \<Rightarrow> (pg, as1))
      else (pg, as))"

definition handle_import ::
  "'s network \<Rightarrow> property_list \<Rightarrow> admin_client \<times> 's \<Rightarrow> property_list \<times> admin_client \<times> 's" where
  "handle_import net pg as =
     (if \<not> pl_file pg then (pg, as)
      else (case call_import net as of
              (Axios_ok _, as1) \<Rightarrow>
                fetch_properties net (pg\<lparr>pl_import_open := False, pl_file := False, pl_importing := False\<rparr>) as1
            | (Axios_error _, as1) \<Rightarrow> (pg\<lparr>pl_importing := False\<rparr>, as1)))"

text \<open>\<open>handleExport\<close>: whether a file was offered.\<close>

definition handle_export :: "'s network \<Rightarrow> property_list \<Rightarrow> admin_client \<times> 's \<Rightarrow> bool \<times> admin_client \<times> 's" where
  "handle_export net pg as =
     (case call_export net (if pl_selected pg = [] then VUndef else VArr (pl_selected pg)) as of
        (Axios_ok _, as1) \<Rightarrow> (True, as1) | (Axios_error _, as1) \<Rightarrow> (False, as1))"


section \<open>The token in memory is the stored one\<close>

inductive admin_step :: "'s network \<Rightarrow> admin_client \<times> 's \<Rightarrow> admin_client \<times> 's \<Rightarrow> bool" for net :: "'s network" where
  calls: "admin_request net m url d as = (x, as') \<Longrightarrow> admin_step net as as'"
| enters: "admin_step net (a, s) (handle_login user pass a, s)"
| leaves: "admin_step net (a, s) (handle_logout confirmed a, s)"
| reopens: "admin_step net (a, s) (open_admin (ad_local a) path, s)"

definition token_stored :: "admin_client \<Rightarrow> bool" where
  "token_stored a \<longleftrightarrow> ad_token a = str_of (ad_local a ''admin_token'') \<and> ad_user a = str_of (ad_local a ''admin_username'') \<and>
     (ad_token a = [] \<or> ad_token a = shipped_token)"

lemma str_of_simps [simp]: "str_of None = []" "str_of (Some t) = t"
  by (simp_all add: str_of_def)

lemma token_stored_cleared [simp]: "token_stored (clear_token a)" "token_stored (a\<lparr>ad_path := p\<rparr>) = token_stored a"
  by (simp_all add: token_stored_def clear_token_def)

lemma token_stored_step: "admin_step net as as' \<Longrightarrow> token_stored (fst as) \<Longrightarrow> token_stored (fst as')"
proof (induction rule: admin_step.induct)
  case (calls m url d as x as')
  then show ?case
    by (cases as) (auto simp: admin_request_def axios_done_def Let_def split: prod.splits net_result.splits if_splits)
next
  case (enters a s user pass)
  then show ?case
    by (simp add: handle_login_def) (simp add: token_stored_def set_token_def)
next
  case (leaves a s confirmed)
  then show ?case by (simp add: handle_logout_def)
next
  case (reopens a s path)
  then show ?case by (auto simp: open_admin_def token_stored_def)
qed

lemma token_stored_reachable: "(admin_step net)\<^sup>*\<^sup>* as as' \<Longrightarrow> token_stored (fst as) \<Longrightarrow> token_stored (fst as')"
  by (induction rule: rtranclp_induct) (auto dest: token_stored_step)

section \<open>The server behind the client\<close>

definition admin_network :: "world \<Rightarrow> call_env \<Rightarrow> fs_state network" where
  "admin_network w e m url data auth st =
     (let (r, st1) = serve w e m ([''api'', ''v1'', ''admin''] @ tl (split_on (CHR ''/'') url))
                       (server_request m data auth) st
      in (Net_ok (status r) (answer r), st1))"

definition auth_of :: "admin_client \<Rightarrow> string option" where
  "auth_of a = (if ad_token a = [] then None else Some (''Bearer '' @ ad_token a))"

lemma admin_request_refused:
  assumes "p \<in> set admin_paths" "prefix p (map to_lower ([''api'', ''v1'', ''admin''] @ tl (split_on (CHR ''/'') url)))"
    and "adminToken (cfg w) = [] \<or> adminToken (cfg w) \<noteq> ad_token a"
  shows "\<exists>d. admin_request (admin_network w e) m url data (a, st) =
    (Axios_error (Some (401, d)), (clear_token a)\<lparr>ad_path := login_page (ad_path a)\<rparr>, st)"
proof -
  let ?req = "server_request m data (auth_of a)"
  have "adminToken (cfg w) = [] \<or> headers ?req ''authorization'' \<noteq> Some (''Bearer '' @ adminToken (cfg w))"
    using assms(3) by (auto simp: server_request_def auth_of_def)
  from admin_path_refused [OF assms(1,2) this, of e m st] obtain r where
    "serve w e m ([''api'', ''v1'', ''admin''] @ tl (split_on (CHR ''/'') url)) ?req st = (r, st)" "status r = 401"
    by blast
  then have "admin_network w e m url data (auth_of a) st = (Net_ok 401 (answer r), st)"
    by (simp add: admin_network_def)
  then have "admin_request (admin_network w e) m url data (a, st) =
      (Axios_error (Some (401, answer r)), (clear_token a)\<lparr>ad_path := login_page (ad_path a)\<rparr>, st)"
    unfolding admin_request_def auth_of_def by (simp add: axios_done_def split del: if_split)
  then show ?thesis ..
qed

lemma admin_token_passes:
  "adminToken (cfg w) \<noteq> [] \<Longrightarrow> adminToken (cfg w) = ad_token a \<Longrightarrow>
   require_admin_token (cfg w) (server_request m data (auth_of a)) = None"
  by (simp add: require_admin_token_None) (simp add: auth_of_def server_request_def)

text \<open>C25. Whoever enters the user name and the password that the client itself compares is let in by the server exactly
  when the server's administrator token is the one that the client ships: then its requests pass the guard; otherwise
  the first request below an administration mount is refused, changes nothing in the store, forgets the token and
  leads back to the login page.\<close>

theorem login_decided_by_the_shipped_token:
  assumes "p \<in> set admin_paths" "prefix p (map to_lower ([''api'', ''v1'', ''admin''] @ tl (split_on (CHR ''/'') url)))"
  shows "let a1 = handle_login ''admin'' ''admin123'' a in
    (if adminToken (cfg w) = shipped_token
     then require_admin_token (cfg w) (server_request m data (auth_of a1)) = None
     else \<exists>d a2. admin_request (admin_network w e) m url data (a1, st) = (Axios_error (Some (401, d)), a2, st) \<and>
       ad_token a2 = [] \<and> ad_local a2 ''admin_token'' = None \<and> route_guard (ad_token a2) ''/properties'' = Go_to ''/login'')"
proof -
  define a1 where "a1 = handle_login ''admin'' ''admin123'' a"
  have t: "ad_token a1 = shipped_token" "shipped_token \<noteq> []"
    by (simp_all add: a1_def handle_login_def set_token_def shipped_token_def)
  show ?thesis
  proof (cases "adminToken (cfg w) = shipped_token")
    case True
    with t admin_token_passes [of w a1 m data] show ?thesis
      unfolding a1_def [symmetric] Let_def by simp
  next
    case False
    with t(1) have "adminToken (cfg w) = [] \<or> adminToken (cfg w) \<noteq> ad_token a1" by simp
    from admin_request_refused [OF assms this, of e m data st] obtain d where
      "admin_request (admin_network w e) m url data (a1, st) =
        (Axios_error (Some (401, d)), (clear_token a1)\<lparr>ad_path := login_page (ad_path a1)\<rparr>, st)" ..
    with False show ?thesis
      unfolding a1_def [symmetric] Let_def by (simp add: clear_token_def route_guard_def)
  qed
qed

theorem login_decided_by_the_shipped_token_witness:
  "\<exists>d a2. admin_request (admin_network sample_world (sample_env 0)) DELETE ''/properties/1'' VUndef
      (handle_login ''admin'' ''admin123'' (open_admin (\<lambda>_. None) ''/admin''), store_with (\<lambda>_. [])) =
      (Axios_error (Some (401, d)), a2, store_with (\<lambda>_. [])) \<and> ad_token a2 = []"
proof -
  have p: "[''api'', ''v1'', ''admin'', ''properties''] \<in> set admin_paths"
    by code_simp
  have q: "prefix [''api'', ''v1'', ''admin'', ''properties'']
      (map to_lower ([''api'', ''v1'', ''admin''] @ tl (split_on (CHR ''/'') ''/properties/1'')))"
    by code_simp
  have "adminToken (cfg sample_world) \<noteq> shipped_token"
    by (simp add: sample_world_def sample_config_def shipped_token_def)
  with login_decided_by_the_shipped_token [OF p q, of "open_admin (\<lambda>_. None) ''/admin''" sample_world DELETE VUndef
      "sample_env 0" "store_with (\<lambda>_. [])"] show ?thesis
    unfolding Let_def by auto
qed


text \<open>Without the shipped token on the server, no use of this client ever gets past a guard.\<close>

lemma other_token_locks_out:
  assumes "(admin_step (admin_network w e))\<^sup>*\<^sup>* (open_admin (\<lambda>_. None) path, st) (a, st1)"
    and "adminToken (cfg w) \<noteq> shipped_token"
    and "p \<in> set admin_paths" "prefix p (map to_lower ([''api'', ''v1'', ''admin''] @ tl (split_on (CHR ''/'') url)))"
  shows "\<exists>d a2. admin_request (admin_network w e) m url data (a, st1) = (Axios_error (Some (401, d)), a2, st1)"
proof -
  have "token_stored (open_admin (\<lambda>_. None) path)" by (simp add: token_stored_def open_admin_def)
  then have "token_stored a" using token_stored_reachable [OF assms(1)] by simp
  with assms(2) have "adminToken (cfg w) = [] \<or> adminToken (cfg w) \<noteq> ad_token a"
    by (auto simp: token_stored_def)
  from admin_request_refused [OF assms(3,4) this] show ?thesis by blast
qed

section \<open>Calls that no route answers\<close>

lemma admin_urls:
  "[''api'', ''v1'', ''admin''] @ tl (split_on (CHR ''/'') ''/properties/batch-delete'') =
     [''api'', ''v1'', ''admin'', ''properties'', ''batch-delete'']"
  "[''api'', ''v1'', ''admin''] @ tl (split_on (CHR ''/'') ''/properties/export'') =
     [''api'', ''v1'', ''admin'', ''properties'', ''export'']"
  "[''api'', ''v1'', ''admin''] @ tl (split_on (CHR ''/'') ''/upload/images'') = [''api'', ''v1'', ''admin'', ''upload'', ''images'']"
  "[''api'', ''v1'', ''admin''] @ tl (split_on (CHR ''/'') ''/upload/image'') = [''api'', ''v1'', ''admin'', ''upload'', ''image'']"
  "[''api'', ''v1'', ''admin''] @ tl (split_on (CHR ''/'') ''/properties'') = [''api'', ''v1'', ''admin'', ''properties'']"
  by code_simp+

definition refused :: "(response \<times> fs_state) \<Rightarrow> fs_state \<Rightarrow> bool" where
  "refused x st \<longleftrightarrow> snd x = st \<and> 400 \<le> status (fst x)"

lemma serve_stops:
  "list_all (\<lambda>(p, r). match_prefix p ss = None) ms' \<Longrightarrow>
   serve_mounts (ms @ ms') w e m ss req st = serve_mounts ms w e m ss req st"
proof (induction ms)
  case Nil
  then show ?case by (induction ms') auto
qed (auto split: option.split)

text \<open>A path below \<open>/api/v1/admin\<close> meets the mounts of the administration only.\<close>

lemma admin_path:
  "serve w e m (''api'' # ''v1'' # ''admin'' # ss) req st =
   serve_mounts (admin_mounts [''api'']) w e m (''api'' # ''v1'' # ''admin'' # ss) req st"
  unfolding serve_def mounts_def api_mounts_def append_assoc
  by (subst serve_skips; simp add: lower_words)+ (subst serve_stops; simp add: admin_mounts_def lower_words)

lemma unrouted:
  "refused (serve w e POST [''api'', ''v1'', ''admin'', ''properties'', ''batch-delete''] req st) st"
  "refused (serve w e POST [''api'', ''v1'', ''admin'', ''properties'', ''export''] req st) st"
  "refused (serve w e POST [''api'', ''v1'', ''admin'', ''upload'', ''images''] req st) st"
  "refused (serve w e DELETE [''api'', ''v1'', ''admin'', ''upload'', ''image''] req st) st"
  unfolding admin_path
  by (simp_all add: refused_def admin_mounts_def lower_words admin_words run_router_def
      admin_properties_router_def admin_upload_router_def admin_guard_def require_admin_token_def Let_def split: option.split)

lemma refused_request:
  assumes "refused (serve w e m ([''api'', ''v1'', ''admin''] @ tl (split_on (CHR ''/'') url)) (server_request m data (auth_of a)) st) st"
  shows "\<exists>x a1. admin_request (admin_network w e) m url data (a, st) = (Axios_error x, a1, st)"
  using assms unfolding admin_request_def admin_network_def auth_of_def [symmetric] refused_def
  by (auto simp: axios_done_def Let_def case_prod_beta)

text \<open>The batch buttons of the administration's list of properties, the upload of several pictures and the deletion of a
  picture do nothing: no route answers their calls, so that whatever the token is each fails, the store stays as it is,
  the page keeps its rows and its selection, and no file is exported.\<close>

theorem batch_actions_never_served:
  "(\<exists>a1. batch_delete (admin_network w e) confirmed pg (a, st) = (pg, a1, st)) \<and>
   (\<exists>a1. handle_export (admin_network w e) pg (a, st) = (False, a1, st)) \<and>
   (\<exists>x a1. call_upload_images (admin_network w e) (a, st) = (Axios_error x, a1, st)) \<and>
   (\<exists>x a1. call_delete_image (admin_network w e) url (a, st) = (Axios_error x, a1, st))"
proof (intro conjI)
  obtain x a1 where "call_batch_delete (admin_network w e) (pl_selected pg) (a, st) = (Axios_error x, a1, st)"
    unfolding call_batch_delete_def using refused_request [unfolded admin_urls, OF _, of w e POST "''/properties/batch-delete''"]
      unrouted(1) admin_urls(1) by metis
  then show "\<exists>a1. batch_delete (admin_network w e) confirmed pg (a, st) = (pg, a1, st)"
    by (simp add: batch_delete_def)
  obtain y a2 where "call_export (admin_network w e) (if pl_selected pg = [] then VUndef else VArr (pl_selected pg)) (a, st) =
      (Axios_error y, a2, st)"
    unfolding call_export_def using refused_request unrouted(2) admin_urls(2) by metis
  then show "\<exists>a1. handle_export (admin_network w e) pg (a, st) = (False, a1, st)"
    by (simp add: handle_export_def)
  show "\<exists>x a1. call_upload_images (admin_network w e) (a, st) = (Axios_error x, a1, st)"
    unfolding call_upload_images_def using refused_request unrouted(3) admin_urls(3) by metis
  show "\<exists>x a1. call_delete_image (admin_network w e) url (a, st) = (Axios_error x, a1, st)"
    unfolding call_delete_image_def using refused_request unrouted(4) admin_urls(4) by metis
qed

section \<open>The search box\<close>

lemma serve_admin_properties:
  "serve w e GET [''api'', ''v1'', ''admin'', ''properties''] (server_request GET data auth) st =
     (case require_admin_token (cfg w) (server_request GET data auth) of
        Some res \<Rightarrow> (res, st) | None \<Rightarrow> with_500 e (admin_list_properties e (server_request GET data auth)) st)"
  unfolding admin_path
  by (simp add: admin_mounts_def lower_words admin_words run_router_def
      admin_properties_router_def admin_guard_def catches_def split: option.split)

lemma search_ignored:
  "admin_network w e GET ''/properties'' (VObj (list_query (pg\<lparr>pl_keyword := k, pl_status := v\<rparr>))) auth st =
   admin_network w e GET ''/properties'' (VObj (list_query pg)) auth st"
proof -
  have h: "headers (server_request GET d1 auth) = headers (server_request GET d2 auth)" for d1 d2
    by (simp add: server_request_def)
  have g: "require_admin_token (cfg w) (server_request GET d1 auth) = require_admin_token (cfg w) (server_request GET d2 auth)"
    for d1 d2
    unfolding require_admin_token_def h [of d1 d2] ..
  have l: "admin_list_properties e (server_request GET (VObj (list_query (pg\<lparr>pl_keyword := k, pl_status := v\<rparr>))) auth) st =
      admin_list_properties e (server_request GET (VObj (list_query pg)) auth) st"
    by (simp add: admin_list_properties_def page_arg_def page_size_arg_def query_or_def server_request_def row_of_def
        list_query_def del: js_to_string.simps)
  show ?thesis
    unfolding admin_network_def admin_urls serve_admin_properties with_500_def l
      g [of "VObj (list_query (pg\<lparr>pl_keyword := k, pl_status := v\<rparr>))" "VObj (list_query pg)"] ..
qed

text \<open>The search box and the status filter of the administration's list of properties have no effect: with any keyword
  and any status the page shows the same rows and the same total, for the server reads neither parameter.\<close>

theorem admin_search_has_no_effect:
  "pl_rows (fst (fetch_properties (admin_network w e) (pg\<lparr>pl_keyword := k, pl_status := v\<rparr>) (a, st))) =
     pl_rows (fst (fetch_properties (admin_network w e) pg (a, st))) \<and>
   pl_total (fst (fetch_properties (admin_network w e) (pg\<lparr>pl_keyword := k, pl_status := v\<rparr>) (a, st))) =
     pl_total (fst (fetch_properties (admin_network w e) pg (a, st)))"
proof -
  have same: "call_properties (admin_network w e) (list_query (pg\<lparr>pl_keyword := k, pl_status := v\<rparr>)) (a, st) =
      call_properties (admin_network w e) (list_query pg) (a, st)"
    unfolding call_properties_def admin_request_def search_ignored ..
  obtain r as1 where r: "call_properties (admin_network w e) (list_query pg) (a, st) = (r, as1)"
    by (metis prod.collapse)
  show ?thesis
    unfolding fetch_properties_def same r
    by (cases r) (auto split: sum.split)
qed

text \<open>A category that is added after another was edited gets that one's icon: the form keeps the fields that \<open>handleAdd\<close>
  does not reset.\<close>

lemma new_category_inherits_icon:
  "''icon'' \<in> fst ` set r \<Longrightarrow> distinct (map fst r) \<Longrightarrow> fld (cg_form (handle_add (handle_edit r pg))) ''icon'' = fld r ''icon''"
  by (simp add: handle_add_def handle_edit_def fld_spread_None fld_spread)

end
