(* ===== verification/Mall_Messages.thy ===== *)
theory Mall_Messages
  imports JS_Prelude
begin

text \<open>
  The texts of the mall's browser client (\<^verbatim>\<open>jintai-property/h5\<close>), as the UTF-8 bytes of its string literals.
\<close>

text \<open>announced\<close>

definition h5_upcoming :: string where
  "h5_upcoming =
     [CHR 0xE9, CHR 0xA2, CHR 0x84, CHR 0xE5, CHR 0x91, CHR 0x8A, CHR 0xE4, CHR 0xB8,
      CHR 0xAD]"

text \<open>in progress\<close>

definition h5_ongoing :: string where
  "h5_ongoing =
     [CHR 0xE8, CHR 0xBF, CHR 0x9B, CHR 0xE8, CHR 0xA1, CHR 0x8C, CHR 0xE4, CHR 0xB8,
      CHR 0xAD]"

text \<open>auction soon\<close>

definition h5_soon :: string where
  "h5_soon =
     [CHR 0xE5, CHR 0x8D, CHR 0xB3, CHR 0xE5, CHR 0xB0, CHR 0x86, CHR 0xE5, CHR 0xBC,
      CHR 0x80, CHR 0xE6, CHR 0x8B, CHR 0x8D]"

text \<open>residence\<close>

definition h5_residence :: string where
  "h5_residence =
     [CHR 0xE4, CHR 0xBD, CHR 0x8F, CHR 0xE5, CHR 0xAE, CHR 0x85]"

text \<open>commerce\<close>

definition h5_commerce :: string where
  "h5_commerce =
     [CHR 0xE5, CHR 0x95, CHR 0x86, CHR 0xE4, CHR 0xB8, CHR 0x9A]"

text \<open>school district\<close>

definition h5_school :: string where
  "h5_school =
     [CHR 0xE5, CHR 0xAD, CHR 0xA6, CHR 0xE5, CHR 0x8C, CHR 0xBA]"

text \<open>bargain\<close>

definition h5_bargain :: string where
  "h5_bargain =
     [CHR 0xE6, CHR 0x8D, CHR 0xA1, CHR 0xE6, CHR 0xBC, CHR 0x8F]"

text \<open>south and north\<close>

definition h5_orientation :: string where
  "h5_orientation =
     [CHR 0xE5, CHR 0x8D, CHR 0x97, CHR 0xE5, CHR 0x8C, CHR 0x97]"

lemmas mall_msg_defs =
  h5_upcoming_def h5_ongoing_def h5_soon_def h5_residence_def
  h5_commerce_def h5_school_def h5_bargain_def h5_orientation_def

end
