(* ===== verification/H5_Home.thy ===== *)
theory H5_Home
  imports Admin_Client Mall_Messages
begin

text \<open>
  The start page of the mall's browser client (\<^verbatim>\<open>jintai-property/h5/src/views/Home.vue\<close>) and its calls
  (\<^verbatim>\<open>h5/src/api/property.ts\<close>): a list of homes with a search, categories and pictures that load.  The state holds, beside
  the page's references, the requests that are not answered yet, each with the argument of its \<open>fetchData\<close>, and the
  timers that run, so that answers, timers, pictures and clicks come in any order.
\<close>

section \<open>Calls\<close>

definition axios_of :: "net_result \<Rightarrow> axios_result" where
  "axios_of r = (case r of Net_fail \<Rightarrow> Axios_error None
     | Net_ok st d \<Rightarrow> if 200 \<le> st \<and> st < 300 then Axios_ok d else Axios_error (Some (st, d)))"

text \<open>Parameters that are null or undefined are not sent.\<close>

definition sent_params :: "row \<Rightarrow> row" where
  "sent_params ps = filter (\<lambda>(k, v). \<not> nullish v) ps"

definition mall_call :: "'s network \<Rightarrow> string \<Rightarrow> row \<Rightarrow> 's \<Rightarrow> axios_result \<times> 's" where
  "mall_call net url ps s = (case net GET url (VObj (sent_params ps)) None s of (r, s1) \<Rightarrow> (axios_of r, s1))"

definition get_property_list :: "'s network \<Rightarrow> row \<Rightarrow> 's \<Rightarrow> axios_result \<times> 's" where
  "get_property_list net ps = mall_call net ''/'' ps"

definition get_categories :: "'s network \<Rightarrow> 's \<Rightarrow> axios_result \<times> 's" where
  "get_categories net = mall_call net ''/categories'' []"

definition get_property_detail :: "'s network \<Rightarrow> val \<Rightarrow> 's \<Rightarrow> axios_result \<times> 's" where
  "get_property_detail net i = mall_call net (CHR ''/'' # js_to_string i) []"

section \<open>Pictures\<close>

definition home_fallback :: string where
  "home_fallback =
     ''data:image/svg+xml;charset=UTF-8,%3Csvg%20xmlns%3D'http%3A%2F%2Fwww.w3.org%2F2000%2Fsv'' @
     ''g'%20width%3D'600'%20height%3D'400'%3E%3Crect%20width%3D'100%25'%20height%3D'100%25'%20f'' @
     ''ill%3D'%23f5f5f5'/%3E%3Ctext%20x%3D'50%25'%20y%3D'50%25'%20dominant-baseline%3D'middle'%'' @
     ''20text-anchor%3D'middle'%20fill%3D'%23999'%20font-size%3D'24'%3E%E6%9A%82%E6%97%A0%E5%9B'' @
     ''%BE%E7%89%87%3C%2Ftext%3E%3C%2Fsvg%3E''"

definition home_image_url :: "string \<Rightarrow> string \<Rightarrow> string" where
  "home_image_url origin url =
     (let t = trim url in
      if t = [] then home_fallback
      else if prefix ''http://'' (to_lower t) \<or> prefix ''https://'' (to_lower t) then t
      else if prefix ''data:'' (to_lower t) then t
      else if hd t = CHR ''/'' then origin @ t
      else origin @ ''/h5/images/uploads/'' @ t)"

text \<open>\<open>cover?.trim()\<close>: only texts have the method.\<close>

definition trimmed_cover :: "val \<Rightarrow> js_error + string" where
  "trimmed_cover v = (if nullish v then Inr [] else case v of VStr t \<Rightarrow> Inr (trim t) | _ \<Rightarrow> Inl TypeError)"

definition get_image_url :: "string \<Rightarrow> row \<Rightarrow> js_error + string" where
  "get_image_url origin item =
     (let c = fld item ''cover_url'' in
      if \<not> truthy c then Inr home_fallback
      else bindE (trimmed_cover c) (\<lambda>t.
        Inr (if t = [] then home_fallback else home_image_url origin (js_to_string c))))"

section \<open>Texts of a card\<close>

text \<open>\<open>date\<close> is the engine's reading of a written date, NaN for what it cannot read.\<close>

definition status_text :: "(val \<Rightarrow> val) \<Rightarrow> val \<Rightarrow> row \<Rightarrow> string" where
  "status_text date clock item =
     (let t = fld item ''auction_time'' in
      if truthy t then (if js_less clock (date t) then h5_upcoming else h5_ongoing) else h5_soon)"

definition status_class :: "(val \<Rightarrow> val) \<Rightarrow> val \<Rightarrow> row \<Rightarrow> string" where
  "status_class date clock item =
     (let t = fld item ''auction_time'' in
      if truthy t then (if js_less clock (date t) then ''status-upcoming'' else ''status-ongoing'') else ''status-upcoming'')"

definition category_icon_class :: "string \<Rightarrow> string" where
  "category_icon_class name =
     (if str_includes name h5_residence then ''residential''
      else if str_includes name h5_commerce then ''commercial''
      else if str_includes name h5_school then ''school''
      else if str_includes name h5_bargain then ''bargain''
      else ''residential'')"

section \<open>The page\<close>

record home =
  hm_list :: "val list"
  hm_cats :: val
  hm_active :: val
  hm_keyword :: string
  hm_loading :: bool
  hm_refreshing :: bool
  hm_finished :: bool
  hm_page :: nat
  hm_states :: "string \<Rightarrow> bool option"
  hm_timers :: "string \<Rightarrow> nat option"
  hm_running :: "(nat \<times> string) list"
  hm_next :: nat
  hm_sent :: "(row \<times> bool) list"

definition home_query :: "home \<Rightarrow> row" where
  "home_query pg = [(''page'', VNat (hm_page pg)), (''pageSize'', VNum 20), (''keyword'', VStr (hm_keyword pg)),
     (''categoryId'', hm_active pg)]"

text \<open>\<open>fetchData\<close> up to its request.\<close>

definition send_fetch :: "bool \<Rightarrow> home \<Rightarrow> home" where
  "send_fetch add pg = pg\<lparr>hm_loading := True, hm_sent := hm_sent pg @ [(home_query pg, add)]\<rparr>"

definition start_timer :: "string \<Rightarrow> home \<Rightarrow> home" where
  "start_timer k pg = pg\<lparr>hm_timers := (hm_timers pg)(k \<mapsto> hm_next pg),
     hm_running := hm_running pg @ [(hm_next pg, k)], hm_next := hm_next pg + 1\<rparr>"

definition clear_timer :: "string \<Rightarrow> home \<Rightarrow> home" where
  "clear_timer k pg =
     (case hm_timers pg k of
        None \<Rightarrow> pg
      | Some n \<Rightarrow> pg\<lparr>hm_timers := (hm_timers pg)(k := None), hm_running := filter (\<lambda>r. fst r \<noteq> n) (hm_running pg)\<rparr>)"

definition clear_images :: "home \<Rightarrow> home" where
  "clear_images pg = pg\<lparr>hm_running := filter (\<lambda>(n, k). hm_timers pg k \<noteq> Some n) (hm_running pg),
     hm_states := (\<lambda>_. None), hm_timers := (\<lambda>_. None)\<rparr>"

text \<open>The callback of a timer that runs.\<close>

definition timer_ends :: "nat \<Rightarrow> string \<Rightarrow> home \<Rightarrow> home" where
  "timer_ends n k pg = pg\<lparr>hm_running := filter (\<lambda>r. r \<noteq> (n, k)) (hm_running pg),
     hm_states := (if hm_states pg k = Some True then (hm_states pg)(k \<mapsto> False) else hm_states pg)\<rparr>"

text \<open>The loop over the new homes; it stops where a cover is neither a text nor missing.\<close>

fun mark_images :: "val list \<Rightarrow> home \<Rightarrow> bool \<times> home" where
  "mark_images [] pg = (True, pg)"
| "mark_images (v # vs) pg =
     (case bindE (prop_of v ''cover_url'') trimmed_cover of
        Inl _ \<Rightarrow> (False, pg)
      | Inr url \<Rightarrow>
          (let k = js_to_string (prop_or_undef v ''id'') in
           mark_images vs
             (if url \<noteq> [] \<and> url \<noteq> home_fallback
              then start_timer k (pg\<lparr>hm_states := (hm_states pg)(k \<mapsto> True)\<rparr>)
              else pg\<lparr>hm_states := (hm_states pg)(k \<mapsto> False)\<rparr>)))"

text \<open>\<open>fetchData\<close> from its answer.  The list of an answer is an array; anything else counts as a failed answer.\<close>

definition receive_fetch :: "bool \<Rightarrow> axios_result \<Rightarrow> home \<Rightarrow> home" where
  "receive_fetch add r pg =
     (let end = (\<lambda>pg. pg\<lparr>hm_loading := False, hm_refreshing := False\<rparr>) in
      case r of
        Axios_error _ \<Rightarrow> end pg
      | Axios_ok res \<Rightarrow>
          (case prop_of res ''list'' of
             Inl _ \<Rightarrow> end pg
           | Inr l \<Rightarrow>
               (case js_or l (VArr []) of
                  VArr new \<Rightarrow>
                    (case mark_images new
                            (if add then pg\<lparr>hm_list := hm_list pg @ new\<rparr> else (clear_images pg)\<lparr>hm_list := new\<rparr>) of
                       (False, pg1) \<Rightarrow> end pg1
                     | (True, pg1) \<Rightarrow>
                         end (pg1\<lparr>hm_finished := js_leq (prop_or_undef res ''total'') (VNat (length (hm_list pg1))) \<or>
                                                 length new < 20\<rparr>))
                | _ \<Rightarrow> end pg)))"

definition receive_categories :: "axios_result \<Rightarrow> home \<Rightarrow> home" where
  "receive_categories r pg =
     (case r of
        Axios_error _ \<Rightarrow> pg
      | Axios_ok res \<Rightarrow>
          (case prop_of res ''categories'' of Inl _ \<Rightarrow> pg | Inr cs \<Rightarrow> pg\<lparr>hm_cats := js_or cs (VArr [])\<rparr>))"

definition home_load :: "home \<Rightarrow> home" where
  "home_load pg = (if hm_finished pg \<or> hm_loading pg then pg else send_fetch True (pg\<lparr>hm_page := hm_page pg + 1\<rparr>))"

definition home_search :: "home \<Rightarrow> home" where
  "home_search pg = send_fetch False (pg\<lparr>hm_page := 1, hm_finished := False, hm_list := []\<rparr>)"

definition home_refresh :: "home \<Rightarrow> home" where
  "home_refresh pg = send_fetch False (pg\<lparr>hm_page := 1, hm_finished := False, hm_list := []\<rparr>)"

definition select_category :: "val \<Rightarrow> home \<Rightarrow> home" where
  "select_category i pg = home_search (pg\<lparr>hm_active := (if strict_eq (hm_active pg) i then VUndef else i)\<rparr>)"

definition image_loaded :: "string \<Rightarrow> home \<Rightarrow> home" where
  "image_loaded k pg = (clear_timer k pg)\<lparr>hm_states := (hm_states pg)(k \<mapsto> False)\<rparr>"

text \<open>\<open>onImgError\<close>, with the source that the picture has afterwards.\<close>

definition image_failed :: "string \<Rightarrow> string \<Rightarrow> home \<Rightarrow> string \<times> home" where
  "image_failed src k pg =
     (if src = home_fallback \<or> str_includes src ''data:image'' then src else home_fallback, image_loaded k pg)"

definition open_home :: home where
  "open_home = send_fetch False
     \<lparr>hm_list = [], hm_cats = VArr [], hm_active = VUndef, hm_keyword = [], hm_loading = False, hm_refreshing = False,
      hm_finished = False, hm_page = 1, hm_states = (\<lambda>_. None), hm_timers = (\<lambda>_. None), hm_running = [], hm_next = 1,
      hm_sent = []\<rparr>"

section \<open>The events\<close>

text \<open>
  \<open>wants\<close> is what the list component does to the page's flag (bound with \<open>v-model:loading\<close>) before it emits \<open>load\<close>.
  An answer may be for any of the open requests.
\<close>

inductive home_step :: "'s network \<Rightarrow> (bool \<Rightarrow> bool) \<Rightarrow> home \<times> 's \<Rightarrow> home \<times> 's \<Rightarrow> bool"
  for net :: "'s network" and wants :: "bool \<Rightarrow> bool" where
  types: "home_step net wants (pg, s) (pg\<lparr>hm_keyword := k\<rparr>, s)"
| searches: "home_step net wants (pg, s) (home_search pg, s)"
| pulls: "home_step net wants (pg, s) (home_refresh (pg\<lparr>hm_refreshing := True\<rparr>), s)"
| selects: "home_step net wants (pg, s) (select_category i pg, s)"
| bottom: "home_step net wants (pg, s) (home_load (pg\<lparr>hm_loading := wants (hm_loading pg)\<rparr>), s)"
| answers: "i < length (hm_sent pg) \<Longrightarrow> hm_sent pg ! i = (q, add) \<Longrightarrow> get_property_list net q s = (r, s1) \<Longrightarrow>
    home_step net wants (pg, s)
      (receive_fetch add r (pg\<lparr>hm_sent := take i (hm_sent pg) @ drop (Suc i) (hm_sent pg)\<rparr>), s1)"
| categorised: "get_categories net s = (r, s1) \<Longrightarrow> home_step net wants (pg, s) (receive_categories r pg, s1)"
| loads: "home_step net wants (pg, s) (image_loaded k pg, s)"
| breaks: "home_step net wants (pg, s) (snd (image_failed src k pg), s)"
| timeouts: "(n, k) \<in> set (hm_running pg) \<Longrightarrow> home_step net wants (pg, s) (timer_ends n k pg, s)"

section \<open>Every spinner has a timer\<close>

definition spinners_end :: "home \<Rightarrow> bool" where
  "spinners_end pg \<longleftrightarrow> (\<forall>k. hm_states pg k = Some True \<longrightarrow> (\<exists>n. (n, k) \<in> set (hm_running pg))) \<and>
     (\<forall>k n. hm_timers pg k = Some n \<longrightarrow> (\<forall>k'. (n, k') \<in> set (hm_running pg) \<longrightarrow> k' = k)) \<and>
     (\<forall>(n, k)\<in>set (hm_running pg). n < hm_next pg) \<and> (\<forall>k n. hm_timers pg k = Some n \<longrightarrow> n < hm_next pg)"

lemma spinners_end_cong:
  "hm_states pg' = hm_states pg \<Longrightarrow> hm_timers pg' = hm_timers pg \<Longrightarrow> hm_running pg' = hm_running pg \<Longrightarrow>
   hm_next pg' = hm_next pg \<Longrightarrow> spinners_end pg' = spinners_end pg"
  by (simp add: spinners_end_def)

lemma spinners_end_fields [simp]:
  "spinners_end (pg\<lparr>hm_list := l\<rparr>) = spinners_end pg" "spinners_end (pg\<lparr>hm_cats := v\<rparr>) = spinners_end pg"
  "spinners_end (pg\<lparr>hm_active := v\<rparr>) = spinners_end pg" "spinners_end (pg\<lparr>hm_keyword := t\<rparr>) = spinners_end pg"
  "spinners_end (pg\<lparr>hm_loading := b\<rparr>) = spinners_end pg" "spinners_end (pg\<lparr>hm_refreshing := b\<rparr>) = spinners_end pg"
  "spinners_end (pg\<lparr>hm_finished := b\<rparr>) = spinners_end pg" "spinners_end (pg\<lparr>hm_page := n\<rparr>) = spinners_end pg"
  "spinners_end (pg\<lparr>hm_sent := q\<rparr>) = spinners_end pg"
  by (rule spinners_end_cong; simp)+

lemma spinners_end_image_loaded: "spinners_end pg \<Longrightarrow> spinners_end (image_loaded k pg)"
  by (auto simp: spinners_end_def image_loaded_def clear_timer_def split: option.splits if_splits) blast

lemma spinners_end_timer: "spinners_end pg \<Longrightarrow> spinners_end (timer_ends n k pg)"
  by (fastforce simp: spinners_end_def timer_ends_def)

lemma spinners_end_clear: "spinners_end pg \<Longrightarrow> spinners_end (clear_images pg)"
  by (auto simp: spinners_end_def clear_images_def)

lemma spinners_end_stops: "spinners_end pg \<Longrightarrow> spinners_end (pg\<lparr>hm_states := (hm_states pg)(k \<mapsto> False)\<rparr>)"
  by (simp add: spinners_end_def)

lemma spinners_end_starts: "spinners_end pg \<Longrightarrow> spinners_end (start_timer k (pg\<lparr>hm_states := (hm_states pg)(k \<mapsto> True)\<rparr>))"
  unfolding spinners_end_def start_timer_def by (auto; fastforce)

lemma spinners_end_mark: "spinners_end pg \<Longrightarrow> spinners_end (snd (mark_images vs pg))"
  by (induction vs pg rule: mark_images.induct)
    (simp_all add: spinners_end_stops spinners_end_starts Let_def split: sum.split)

lemma spinners_end_receive:
  assumes "spinners_end pg"
  shows "spinners_end (receive_fetch add r pg)"
proof -
  have "spinners_end (snd (mark_images vs
      (if add then pg\<lparr>hm_list := hm_list pg @ vs\<rparr> else (clear_images pg)\<lparr>hm_list := vs\<rparr>)))" for vs
    using assms by (intro spinners_end_mark) (simp add: spinners_end_clear)
  then show ?thesis
    using assms unfolding receive_fetch_def
    by (auto simp: Let_def split: axios_result.split sum.split val.split prod.split bool.split) (metis snd_conv)+
qed

lemma spinners_end_step: "home_step net wants hs hs' \<Longrightarrow> spinners_end (fst hs) \<Longrightarrow> spinners_end (fst hs')"
  by (induction rule: home_step.induct)
    (simp_all add: home_search_def home_refresh_def select_category_def home_load_def send_fetch_def image_failed_def
      receive_categories_def spinners_end_receive spinners_end_image_loaded spinners_end_timer
      split: axios_result.split sum.split)

text \<open>C23. A picture that shows its spinner has a timer that runs and that takes the spinner away, in every order of
  searches, answers, pictures and timers.\<close>

theorem spinner_is_taken_away:
  assumes "(home_step net wants)\<^sup>*\<^sup>* (open_home, s0) (pg, s)" "hm_states pg k = Some True"
  shows "\<exists>n. home_step net wants (pg, s) (timer_ends n k pg, s) \<and> hm_states (timer_ends n k pg) k = Some False"
proof -
  have "spinners_end (fst (pg, s))"
    using assms(1)
  proof (induction rule: rtranclp_induct)
    case base
    show ?case by (simp add: open_home_def send_fetch_def spinners_end_def)
  next
    case (step hs hs')
    then show ?case by (blast intro: spinners_end_step)
  qed
  with assms(2) obtain n where n: "(n, k) \<in> set (hm_running pg)"
    by (auto simp: spinners_end_def)
  from home_step.timeouts [OF this] have "home_step net wants (pg, s) (timer_ends n k pg, s)" .
  then show ?thesis
    using assms(2) by (auto simp: timer_ends_def)
qed

definition one_picture :: "unit network" where
  "one_picture m url d auth s =
     (Net_ok 200 (VObj [(''list'', VArr [VObj [(''id'', VNum 7), (''cover_url'', VStr ''/x.png'')]]), (''total'', VNum 1)]), s)"

theorem spinner_is_taken_away_witness:
  "\<exists>pg n. (home_step one_picture (\<lambda>_. True))\<^sup>*\<^sup>* (open_home, ()) (pg, ()) \<and> hm_states pg ''7'' = Some True \<and>
    hm_states (timer_ends n ''7'' pg) ''7'' = Some False"
proof -
  define r where "r = fst (get_property_list one_picture (home_query open_home) ())"
  define pg where "pg = receive_fetch False r (open_home\<lparr>hm_sent := []\<rparr>)"
  have sent: "hm_sent open_home = [(home_query open_home, False)]"
    by (simp add: open_home_def send_fetch_def home_query_def)
  have got: "get_property_list one_picture (home_query open_home) () = (r, ())"
    by (simp add: r_def one_picture_def get_property_list_def mall_call_def)
  have "home_step one_picture (\<lambda>_. True) (open_home, ()) (pg, ())"
    using home_step.answers [of 0 open_home "home_query open_home" False one_picture "()" r "()" "\<lambda>_. True"]
      sent got by (simp add: pg_def)
  then have s: "(home_step one_picture (\<lambda>_. True))\<^sup>*\<^sup>* (open_home, ()) (pg, ())" by simp
  have k: "hm_states pg ''7'' = Some True"
    unfolding pg_def r_def by code_simp
  from spinner_is_taken_away [OF s k] s k show ?thesis by blast
qed

section \<open>What the page needs of the server\<close>

definition new_homes :: "val \<Rightarrow> val list" where
  "new_homes res =
     (case prop_of res ''list'' of
        Inl _ \<Rightarrow> [] | Inr l \<Rightarrow> (case js_or l (VArr []) of VArr vs \<Rightarrow> vs | _ \<Rightarrow> []))"

lemma mark_images_keeps [simp]:
  "hm_list (snd (mark_images vs pg)) = hm_list pg" "hm_page (snd (mark_images vs pg)) = hm_page pg"
  "hm_sent (snd (mark_images vs pg)) = hm_sent pg" "hm_active (snd (mark_images vs pg)) = hm_active pg"
  "hm_keyword (snd (mark_images vs pg)) = hm_keyword pg"
  by (induction vs pg rule: mark_images.induct) (simp_all add: start_timer_def Let_def split: sum.split)

lemma clear_images_keeps [simp]:
  "hm_list (clear_images pg) = hm_list pg" "hm_page (clear_images pg) = hm_page pg"
  "hm_sent (clear_images pg) = hm_sent pg" "hm_active (clear_images pg) = hm_active pg"
  "hm_keyword (clear_images pg) = hm_keyword pg"
  by (simp_all add: clear_images_def)

lemma receive_list:
  "hm_list (receive_fetch False r pg) =
     (case r of
        Axios_ok res \<Rightarrow>
          (case prop_of res ''list'' of
             Inr l \<Rightarrow> (case js_or l (VArr []) of VArr _ \<Rightarrow> new_homes res | _ \<Rightarrow> hm_list pg) | Inl _ \<Rightarrow> hm_list pg)
      | Axios_error _ \<Rightarrow> hm_list pg)"
  unfolding receive_fetch_def
  by (auto simp: new_homes_def Let_def split: axios_result.split sum.split val.split prod.split bool.split)
    (metis mark_images_keeps(1) home.select_convs(1) home.surjective home.update_convs(1) snd_conv)+

lemma receive_keeps [simp]:
  "hm_page (receive_fetch add r pg) = hm_page pg" "hm_sent (receive_fetch add r pg) = hm_sent pg"
  "hm_active (receive_fetch add r pg) = hm_active pg" "\<not> hm_loading (receive_fetch add r pg)"
  unfolding receive_fetch_def
  by (auto simp: Let_def split: axios_result.split sum.split val.split prod.split bool.split)
    (metis mark_images_keeps clear_images_keeps home.ext_inject home.surjective home.update_convs(1) snd_conv)+

text \<open>
  The contract of the listing: \<open>cards q s\<close> are the number of homes and the cards that a request with the parameters
  \<open>q\<close> answers in state \<open>s\<close>, if it succeeds, and a page that asks for twenty homes never gets more.
\<close>

locale mall_lists =
  fixes net :: "'s network" and cards :: "row \<Rightarrow> 's \<Rightarrow> (nat \<times> row list) option"
  assumes answered: "cards q s = Some (n, cs) \<Longrightarrow> fld q ''pageSize'' = VNum 20 \<Longrightarrow>
      \<exists>r s1. get_property_list net q s = (Axios_ok (VObj r), s1) \<and> fld r ''list'' = VArr (map VObj cs) \<and>
        fld r ''total'' = VNat n"
    and short: "get_property_list net q s = (Axios_ok res, s1) \<Longrightarrow> fld q ''pageSize'' = VNum 20 \<Longrightarrow>
      length (new_homes res) \<le> 20"
    and calm: "get_property_list net q s = (r, s1) \<Longrightarrow> cards q' s1 = cards q' s"
begin

definition first_page :: "home \<Rightarrow> bool" where
  "first_page pg \<longleftrightarrow> hm_page pg = 1 \<and> length (hm_list pg) \<le> 20 \<and>
     (\<forall>(q, add)\<in>set (hm_sent pg). \<not> add \<and> fld q ''pageSize'' = VNum 20)"

lemma first_page_receive:
  assumes "first_page pg" "(q, add) \<in> set (hm_sent pg)" "get_property_list net q s = (r, s1)"
  shows "first_page (receive_fetch add r (pg\<lparr>hm_sent := take i (hm_sent pg) @ drop (Suc i) (hm_sent pg)\<rparr>))"
proof -
  have a: "\<not> add" "fld q ''pageSize'' = VNum 20"
    using assms(1,2) by (auto simp: first_page_def)
  have "length (new_homes res) \<le> 20" if "r = Axios_ok res" for res
    using short assms(3) a(2) that by blast
  then have "length (hm_list (receive_fetch False r (pg\<lparr>hm_sent := take i (hm_sent pg) @ drop (Suc i) (hm_sent pg)\<rparr>))) \<le> 20"
    using assms(1) by (auto simp: receive_list first_page_def split: axios_result.split sum.split val.split)
  with a assms(1) show ?thesis
    by (auto simp: first_page_def dest: in_set_takeD in_set_dropD)
qed

lemma first_page_step:
  assumes "home_step net wants hs hs'" "\<And>b. wants b" "first_page (fst hs)"
  shows "first_page (fst hs')"
  using assms
proof (induction rule: home_step.induct)
  case (answers i pg q add s r s1)
  then have "(q, add) \<in> set (hm_sent pg)" by (metis nth_mem)
  with answers first_page_receive show ?case by simp
qed (auto simp: first_page_def home_search_def home_refresh_def select_category_def home_load_def send_fetch_def
    image_failed_def image_loaded_def clear_timer_def timer_ends_def receive_categories_def home_query_def
    split: axios_result.split sum.split option.split)

lemma first_page_only:
  assumes "(home_step net wants)\<^sup>*\<^sup>* (open_home, s0) (pg, s)" "\<And>b. wants b"
  shows "first_page pg"
proof -
  have "first_page (fst (pg, s))"
    using assms(1)
  proof (induction rule: rtranclp_induct)
    case base
    show ?case by (simp add: open_home_def send_fetch_def first_page_def home_query_def)
  next
    case (step hs hs')
    then show ?case using first_page_step assms(2) by blast
  qed
  then show ?thesis by simp
qed

lemma searched:
  assumes "hm_sent pg = []" "cards (home_query (pg\<lparr>hm_page := 1\<rparr>)) s = Some (n, cs)"
  shows "\<exists>pg1 s1. (home_step net wants)\<^sup>*\<^sup>* (home_search pg, s) (pg1, s1) \<and> hm_sent pg1 = [] \<and> \<not> hm_loading pg1 \<and>
    hm_list pg1 = map VObj cs \<and> hm_page pg1 = 1 \<and> hm_active pg1 = hm_active pg"
proof -
  let ?q = "home_query (pg\<lparr>hm_page := 1\<rparr>)"
  have "fld ?q ''pageSize'' = VNum 20" by (simp add: home_query_def)
  from answered [OF assms(2) this] obtain r s1 where
    r: "get_property_list net ?q s = (Axios_ok (VObj r), s1)" "fld r ''list'' = VArr (map VObj cs)" by blast
  have q: "hm_sent (home_search pg) = [(?q, False)]"
    using assms(1) by (simp add: home_search_def send_fetch_def home_query_def)
  have "home_step net wants (home_search pg, s)
      (receive_fetch False (Axios_ok (VObj r)) ((home_search pg)\<lparr>hm_sent := []\<rparr>), s1)"
    using home_step.answers [of 0 "home_search pg" ?q False net s "Axios_ok (VObj r)" s1 wants] q r(1) by simp
  then show ?thesis
    using r(2) by (intro exI [of _ "receive_fetch False (Axios_ok (VObj r)) ((home_search pg)\<lparr>hm_sent := []\<rparr>)"] exI [of _ s1])
      (auto simp: receive_list new_homes_def js_or_def home_search_def send_fetch_def)
qed

text \<open>Two searches under way, answered in the other order: the page shows the homes of the first.\<close>

lemma overtaken:
  assumes "hm_sent pg = [(q1, False), (q2, False)]" "cards q1 s = Some (n, cs)" "cards q2 s = Some (m, es)"
    "fld q1 ''pageSize'' = VNum 20" "fld q2 ''pageSize'' = VNum 20"
  shows "\<exists>pg1 s1. (home_step net wants)\<^sup>*\<^sup>* (pg, s) (pg1, s1) \<and> hm_sent pg1 = [] \<and> \<not> hm_loading pg1 \<and>
    hm_list pg1 = map VObj cs \<and> hm_active pg1 = hm_active pg"
proof -
  from answered [OF assms(3,5)] obtain r2 s2 where
    r2: "get_property_list net q2 s = (Axios_ok (VObj r2), s2)" by blast
  have "cards q1 s2 = Some (n, cs)"
    using calm [OF r2] assms(2) by simp
  from answered [OF this assms(4)] obtain r1 s1 where
    r1: "get_property_list net q1 s2 = (Axios_ok (VObj r1), s1)" "fld r1 ''list'' = VArr (map VObj cs)" by blast
  define pg2 where "pg2 = receive_fetch False (Axios_ok (VObj r2)) (pg\<lparr>hm_sent := [(q1, False)]\<rparr>)"
  define pg1 where "pg1 = receive_fetch False (Axios_ok (VObj r1)) (pg2\<lparr>hm_sent := []\<rparr>)"
  have "home_step net wants (pg, s) (pg2, s2)"
    using home_step.answers [of 1 pg q2 False net s "Axios_ok (VObj r2)" s2 wants] assms(1) r2 by (simp add: pg2_def)
  moreover have "home_step net wants (pg2, s2) (pg1, s1)"
    using home_step.answers [of 0 pg2 q1 False net s2 "Axios_ok (VObj r1)" s1 wants] r1(1) by (simp add: pg1_def pg2_def)
  moreover have "hm_sent pg1 = [] \<and> \<not> hm_loading pg1 \<and> hm_list pg1 = map VObj cs \<and> hm_active pg1 = hm_active pg"
    using r1(2) by (simp add: pg1_def pg2_def receive_list new_homes_def js_or_def)
  ultimately show ?thesis by (meson converse_rtranclp_into_rtranclp rtranclp.rtrancl_refl)
qed

end

section \<open>The server behind the page\<close>

definition h5_network :: "world \<Rightarrow> call_env \<Rightarrow> fs_state network" where
  "h5_network w e m url data auth st =
     (let (r, st1) = serve w e m ([''api'', ''v1'', ''properties'', ''mall''] @ filter (\<lambda>x. x \<noteq> []) (tl (split_on (CHR ''/'') url)))
                       (server_request m data auth) st
      in (Net_ok (status r) (answer r), st1))"

text \<open>The query that the server makes of the parameters.\<close>

definition mall_query :: "row \<Rightarrow> property_query" where
  "mall_query q =
     (let req = server_request GET (VObj (sent_params q)) None; kw = trim (str_of (query req ''keyword''));
          cid = to_int (query req ''categoryId'') 0
      in no_property_query\<lparr>yq_page := Some (max (to_int (query req ''page'') 1) 1),
           yq_pageSize := Some (min (max (to_int (query req ''pageSize'') 20) 1) 100),
           yq_keyword := (if kw = [] then None else Some kw), yq_categoryId := (if cid > 0 then VInt cid else VUndef)\<rparr>)"

definition mall_cards :: "call_env \<Rightarrow> row \<Rightarrow> fs_state \<Rightarrow> (nat \<times> row list) option" where
  "mall_cards e q st =
     (case fst (list_mall (iso e) (mall_query q) st) of Inl _ \<Rightarrow> None | Inr (n, cs) \<Rightarrow> Some (n, map json_row cs))"

lemma h5_words: "to_lower ''categories'' = ''categories''" "to_lower ''communities'' = ''communities''"
  by code_simp+

lemma h5_root: "[''api'', ''v1'', ''properties'', ''mall''] @ filter (\<lambda>x. x \<noteq> []) (tl (split_on (CHR ''/'') ''/'')) =
    [''api'', ''v1'', ''properties'', ''mall'']"
  by code_simp

lemma serve_mall:
  "serve w e GET [''api'', ''v1'', ''properties'', ''mall''] (server_request GET data auth) st =
     with_next (get_mall e (server_request GET data auth)) st"
  by (simp add: serve_def mounts_def api_mounts_def admin_mounts_def lower_words h5_words run_router_def mall_router_def
      no_guard_def nexts_def)

lemma get_mall_query:
  "get_mall e (server_request GET (VObj (sent_params q)) None) st =
     (case list_mall (iso e) (mall_query q) st of
        (Inl err, st1) \<Rightarrow> (Inl err, st1)
      | (Inr (n, cs), st1) \<Rightarrow>
          (let l = VArr (map VObj cs)
           in (ok_res [(''total'', VNat n), (''page'', VInt (the (yq_page (mall_query q)))),
                       (''pageSize'', VInt (the (yq_pageSize (mall_query q)))), (''list'', l),
                       (''data'', l), (''properties'', l)], st1)))"
  unfolding get_mall_def mall_query_def Let_def by (simp split: prod.split sum.split)

lemma sent_params_get: "map_of q k = Some v \<Longrightarrow> \<not> nullish v \<Longrightarrow> map_of (sent_params q) k = Some v"
  by (induction q) (auto simp: sent_params_def split: if_splits)

lemma mall_query_size:
  assumes "fld q ''pageSize'' = VNum 20"
  shows "yq_pageSize (mall_query q) = Some 20" "\<exists>p\<ge>1. yq_page (mall_query q) = Some p" "yq_status (mall_query q) = VUndef"
proof -
  have "map_of q ''pageSize'' = Some (VNum 20)"
    using assms by (auto simp: fld_def split: option.splits)
  then have "query (server_request GET (VObj (sent_params q)) None) ''pageSize'' = Some (js_to_string (VNum 20))"
    by (simp add: server_request_def row_of_def sent_params_get)
  moreover have "to_int (Some (js_to_string (VNum 20))) 20 = 20"
    by code_simp
  ultimately show "yq_pageSize (mall_query q) = Some 20"
    by (simp add: mall_query_def Let_def del: js_to_string.simps)
  show "\<exists>p\<ge>1. yq_page (mall_query q) = Some p" "yq_status (mall_query q) = VUndef"
    by (simp_all add: mall_query_def Let_def no_property_query_def)
qed

lemma list_mall_rows:
  "fst (list_mall now q st) =
     (case property_filter (q\<lparr>yq_status := VNum 1\<rparr>) (rows_of st Properties) of
        Inl err \<Rightarrow> Inl err
      | Inr rs \<Rightarrow> Inr (length rs, map mall_card (paginate (yq_page q) (yq_pageSize q) (js_sort property_cmp rs))))"
proof -
  let ?q = "q\<lparr>yq_status := VNum 1\<rparr>"
  have pq: "yq_page ?q = yq_page q" "yq_pageSize ?q = yq_pageSize q" by simp_all
  obtain x st1 where l: "list_page now Properties (property_filtered ?q) (property_filter ?q) property_cmp
      (yq_page q) (yq_pageSize q) st = (x, st1)"
    by (metis prod.collapse)
  have "x = (case property_filter ?q (rows_of st Properties) of
      Inl err \<Rightarrow> Inl err | Inr rs \<Rightarrow> Inr (length rs, paginate (yq_page q) (yq_pageSize q) (js_sort property_cmp rs)))"
    using list_page_result(1) [of now Properties "property_filtered ?q" "property_filter ?q" property_cmp
      "yq_page q" "yq_pageSize q" st] unfolding l by simp
  then show ?thesis
    unfolding list_mall_def properties_list_def pq l by (simp split: sum.split)
qed

lemma list_mall_keeps_rows: "rows_of (snd (list_mall now q st)) t = rows_of st t"
  by (auto simp: list_mall_def properties_list_def list_page_def property_filtered_def Let_def load_data_loaded
      split: prod.splits sum.splits)

lemma mall_cards_cong: "rows_of st Properties = rows_of st' Properties \<Longrightarrow> mall_cards e q st = mall_cards e q st'"
  by (simp add: mall_cards_def list_mall_rows)

lemma get_list_of_server:
  "get_property_list (h5_network w e) q st =
     (case get_mall e (server_request GET (VObj (sent_params q)) None) st of
        (Inr r, st1) \<Rightarrow> (axios_of (Net_ok (status r) (answer r)), st1)
      | (Inl err, st1) \<Rightarrow> (axios_of (Net_ok (status (error_middleware err)) (answer (error_middleware err))), st1))"
  unfolding get_property_list_def mall_call_def h5_network_def h5_root serve_mall with_next_def
  by (simp split: prod.split sum.split)

lemma error_has_no_list: "\<exists>r. answer (error_middleware err) = VObj r \<and> fld r ''list'' = VUndef"
  by (cases err) (auto simp: error_middleware_def json_res_def)

lemma mall_list_answer:
  assumes "fst (list_mall (iso e) (mall_query q) st) = Inr (n, cs)"
  shows "\<exists>r st1. get_property_list (h5_network w e) q st = (Axios_ok (VObj r), st1) \<and>
    fld r ''list'' = VArr (map (VObj \<circ> json_row) cs) \<and> fld r ''total'' = VNat n"
proof -
  obtain st1 where l: "list_mall (iso e) (mall_query q) st = (Inr (n, cs), st1)"
    using assms by (metis prod.collapse)
  show ?thesis
    unfolding get_list_of_server get_mall_query l
    by (simp add: ok_res_def json_res_def axios_of_def Let_def comp_def json_row_def)
qed

lemma mall_list_short:
  assumes "get_property_list (h5_network w e) q st = (Axios_ok res, st1)" "fld q ''pageSize'' = VNum 20"
  shows "length (new_homes res) \<le> 20"
proof (cases "fst (list_mall (iso e) (mall_query q) st)")
  case (Inl err)
  then obtain st2 where l: "list_mall (iso e) (mall_query q) st = (Inl err, st2)"
    by (metis prod.collapse)
  obtain r where r: "answer (error_middleware err) = VObj r" "fld r ''list'' = VUndef"
    using error_has_no_list by blast
  have "res = VObj r"
    using assms(1) unfolding get_list_of_server get_mall_query l by (simp add: axios_of_def r(1) split: if_splits)
  with r(2) show ?thesis
    by (simp add: new_homes_def js_or_def)
next
  case (Inr x)
  then obtain n cs where x: "fst (list_mall (iso e) (mall_query q) st) = Inr (n, cs)"
    by (cases x) simp
  from mall_list_answer [OF x, of w] obtain r st2 where
    "get_property_list (h5_network w e) q st = (Axios_ok (VObj r), st2)" "fld r ''list'' = VArr (map (VObj \<circ> json_row) cs)"
    by blast
  then have l: "new_homes res = map (VObj \<circ> json_row) cs"
    using assms(1) by (simp add: new_homes_def js_or_def)
  obtain p where p: "1 \<le> p" "yq_page (mall_query q) = Some p"
    using mall_query_size(2) [OF assms(2)] by blast
  obtain rs where "cs = map mall_card (paginate (Some p) (Some 20) (js_sort property_cmp rs))"
    using x unfolding list_mall_rows p(2) mall_query_size(1) [OF assms(2)] by (auto split: sum.splits)
  with l p(1) show ?thesis
    by (simp add: paginate_window)
qed

lemma mall_list_calm: "get_property_list (h5_network w e) q st = (r, st1) \<Longrightarrow> mall_cards e q' st1 = mall_cards e q' st"
  unfolding get_list_of_server get_mall_query
  using list_mall_keeps_rows [of "iso e" "mall_query q" st Properties]
  by (intro mall_cards_cong) (auto simp: Let_def ok_res_def split: prod.splits sum.splits)

interpretation h5_lists: mall_lists "h5_network w e" "mall_cards e"
proof unfold_locales
  fix q st n cs
  assume "mall_cards e q st = Some (n, cs)" "fld q ''pageSize'' = VNum 20"
  then obtain cs0 where "fst (list_mall (iso e) (mall_query q) st) = Inr (n, cs0)" "cs = map json_row cs0"
    by (auto simp: mall_cards_def split: sum.splits)
  with mall_list_answer [of e q st n cs0 w] show "\<exists>r s1. get_property_list (h5_network w e) q st = (Axios_ok (VObj r), s1) \<and>
      fld r ''list'' = VArr (map VObj cs) \<and> fld r ''total'' = VNat n"
    by simp
qed (rule mall_list_short mall_list_calm; assumption)+

text \<open>C21. Against this server the start page never shows more than the first twenty homes.  The list component sets the
  page's loading flag before it emits \<open>load\<close>, as its documentation says; \<open>onLoad\<close> returns when the flag is set, so
  that no second page is ever asked for, whatever the visitor does.\<close>

theorem home_never_loads_more:
  assumes "\<And>b. wants b"
    and "(home_step (h5_network w e) wants)\<^sup>*\<^sup>* (open_home, st) (pg, st1)"
  shows "hm_page pg = 1 \<and> length (hm_list pg) \<le> 20 \<and> (\<forall>(q, add)\<in>set (hm_sent pg). \<not> add)"
  using h5_lists.first_page_only [OF assms(2,1)] unfolding h5_lists.first_page_def by blast

theorem home_never_loads_more_witness:
  "\<exists>pg st1. (home_step (h5_network sample_world (sample_env 0)) (\<lambda>_. True))\<^sup>*\<^sup>* (open_home, store_with (\<lambda>_. [])) (pg, st1) \<and>
    hm_loading pg \<and> hm_page pg = 1"
proof -
  have "home_step (h5_network sample_world (sample_env 0)) (\<lambda>_. True) (open_home, store_with (\<lambda>_. []))
      (home_load (open_home\<lparr>hm_loading := True\<rparr>), store_with (\<lambda>_. []))"
    using home_step.bottom [of "h5_network sample_world (sample_env 0)" "\<lambda>_. True" open_home] by simp
  then have r: "(home_step (h5_network sample_world (sample_env 0)) (\<lambda>_. True))\<^sup>*\<^sup>* (open_home, store_with (\<lambda>_. []))
      (home_load (open_home\<lparr>hm_loading := True\<rparr>), store_with (\<lambda>_. []))" by simp
  have "hm_loading (home_load (open_home\<lparr>hm_loading := True\<rparr>))"
    by (simp add: home_load_def)
  with r home_never_loads_more [OF _ r] show ?thesis by blast
qed


text \<open>A visitor who chooses one category and then another can end with the homes of the first under the second: the page
  takes every answer for the current one, so that the answer that comes last decides.\<close>

theorem slow_answer_wins:
  assumes "hm_sent pg = []" "hm_active pg \<noteq> VInt a" "a \<noteq> b"
    and "mall_cards e (home_query (pg\<lparr>hm_page := 1, hm_active := VInt a\<rparr>)) st = Some (n, cs)"
    and "mall_cards e (home_query (pg\<lparr>hm_page := 1, hm_active := VInt b\<rparr>)) st = Some (m, es)"
  shows "\<exists>pg1 st1. (home_step (h5_network w e) wants)\<^sup>*\<^sup>* (pg, st) (pg1, st1) \<and> hm_active pg1 = VInt b \<and>
    hm_sent pg1 = [] \<and> \<not> hm_loading pg1 \<and> hm_list pg1 = map VObj cs"
proof -
  define pg2 where "pg2 = select_category (VInt b) (select_category (VInt a) pg)"
  have "\<not> strict_eq (hm_active pg) (VInt a)" "\<not> strict_eq (VInt a) (VInt b)"
    using assms(2,3) by (auto dest: strict_eqD)
  then have p: "hm_active pg2 = VInt b"
    "hm_sent pg2 = [(home_query (pg\<lparr>hm_page := 1, hm_active := VInt a\<rparr>), False),
       (home_query (pg\<lparr>hm_page := 1, hm_active := VInt b\<rparr>), False)]"
    using assms(1) by (simp_all add: pg2_def select_category_def home_search_def send_fetch_def home_query_def)
  have "home_step (h5_network w e) wants (pg, st) (select_category (VInt a) pg, st)"
    "home_step (h5_network w e) wants (select_category (VInt a) pg, st) (pg2, st)"
    unfolding pg2_def by (rule home_step.selects)+
  moreover have "fld (home_query pg') ''pageSize'' = VNum 20" for pg'
    by (simp add: home_query_def)
  from h5_lists.overtaken [OF p(2) assms(4,5) this this, of w wants] obtain pg1 st1 where
    "(home_step (h5_network w e) wants)\<^sup>*\<^sup>* (pg2, st) (pg1, st1)" "hm_sent pg1 = []" "\<not> hm_loading pg1"
    "hm_list pg1 = map VObj cs" "hm_active pg1 = VInt b"
    using p(1) by auto
  ultimately show ?thesis
    by (meson converse_rtranclp_into_rtranclp)
qed

section \<open>Two homes\<close>

definition home_in :: "nat \<Rightarrow> nat \<Rightarrow> row" where
  "home_in i c = [(''id'', VNat i), (''community_name'', VStr ''H''), (''status'', VNat 1), (''category_id'', VNat c)]"

definition two_homes :: fs_state where
  "two_homes = store_with (\<lambda>t. if t = Properties then [home_in 1 1, home_in 2 2] else [])"

definition idle_home :: home where
  "idle_home = open_home\<lparr>hm_sent := [], hm_loading := False\<rparr>"

lemma idle_query:
  "mall_query (home_query (idle_home\<lparr>hm_page := 1, hm_active := VInt 1\<rparr>)) =
     no_property_query\<lparr>yq_page := Some 1, yq_pageSize := Some 20, yq_categoryId := VInt 1\<rparr>"
  "mall_query (home_query (idle_home\<lparr>hm_page := 1, hm_active := VInt 2\<rparr>)) =
     no_property_query\<lparr>yq_page := Some 1, yq_pageSize := Some 20, yq_categoryId := VInt 2\<rparr>"
  by code_simp+

lemma two_homes_listing:
  "fst (list_mall now (no_property_query\<lparr>yq_page := Some 1, yq_pageSize := Some 20, yq_categoryId := VInt 1\<rparr>) two_homes) =
     Inr (1, [mall_card (home_in 1 1)])"
  "fst (list_mall now (no_property_query\<lparr>yq_page := Some 1, yq_pageSize := Some 20, yq_categoryId := VInt 2\<rparr>) two_homes) =
     Inr (1, [mall_card (home_in 2 2)])"
  by (simp_all add: list_mall_rows two_homes_def property_filter_def filter_if_def no_property_query_def str_truthy_def
      wants_category_def home_in_def paginate_window)

theorem slow_answer_wins_witness:
  "\<exists>pg1 st1. (home_step (h5_network sample_world (sample_env 0)) (\<lambda>_. True))\<^sup>*\<^sup>* (idle_home, two_homes) (pg1, st1) \<and>
    hm_active pg1 = VInt 2 \<and> hm_sent pg1 = [] \<and> map (\<lambda>v. prop_or_undef v ''id'') (hm_list pg1) = [VNat 1]"
proof -
  have i: "hm_sent idle_home = []" "hm_active idle_home \<noteq> VInt 1" "(1::int) \<noteq> 2"
    by (simp_all add: idle_home_def open_home_def send_fetch_def)
  have c: "mall_cards (sample_env 0) (home_query (idle_home\<lparr>hm_page := 1, hm_active := VInt 1\<rparr>)) two_homes =
      Some (1, [json_row (mall_card (home_in 1 1))])"
    "mall_cards (sample_env 0) (home_query (idle_home\<lparr>hm_page := 1, hm_active := VInt 2\<rparr>)) two_homes =
      Some (1, [json_row (mall_card (home_in 2 2))])"
    unfolding mall_cards_def idle_query two_homes_listing by simp_all
  have "prop_or_undef (VObj (json_row (mall_card (home_in 1 1)))) ''id'' = VNat 1"
    by code_simp
  with slow_answer_wins [OF i c, of sample_world "\<lambda>_. True"] show ?thesis
    by auto
qed


end
