(* ===== verification/H5_Detail.thy ===== *)
theory H5_Detail
  imports H5_Home
begin

text \<open>
  The detail page of the mall's browser client (\<^verbatim>\<open>jintai-property/h5/src/views/PropertyDetail.vue\<close>): its tabs and
  modules, its pictures, the loading of a home, and what its template shows of the loaded home.  A computed value that
  throws is an error.  Scrolling, the viewer of pictures and the telephone link are not modelled.
\<close>

section \<open>Tabs\<close>

definition h5_default_tabs :: "val list" where
  "h5_default_tabs = [module_tab ''property'' title_property 1, module_tab ''auction'' title_auction 2,
     module_tab ''loan'' title_loan 3, module_tab ''tax'' title_tax 4]"

text \<open>\<open>p?.module_config?.tabs\<close>\<close>

definition tabs_of :: "val \<Rightarrow> val" where
  "tabs_of p =
     (if nullish p then VUndef
      else let mc = prop_or_undef p ''module_config'' in if nullish mc then VUndef else prop_or_undef mc ''tabs'')"

definition tab_order :: "val \<Rightarrow> val \<Rightarrow> rat" where
  "tab_order a b = num_diff (to_num (prop_or_undef a ''order'')) (to_num (prop_or_undef b ''order''))"

definition shown_tab :: "val \<Rightarrow> js_error + bool" where
  "shown_tab t = bindE (prop_of t ''visible'') (\<lambda>v. Inr (truthy v))"

definition visible_tabs :: "val \<Rightarrow> js_error + val list" where
  "visible_tabs p =
     (let ts = tabs_of p in
      if \<not> truthy ts then filterE shown_tab h5_default_tabs
      else case ts of
             VArr vs \<Rightarrow> bindE (filterE shown_tab vs) (\<lambda>ts. Inr (js_sort tab_order ts))
           | _ \<Rightarrow> Inl TypeError)"

fun find_tab :: "string \<Rightarrow> val list \<Rightarrow> js_error + val" where
  "find_tab k [] = Inr VUndef"
| "find_tab k (t # ts) = bindE (prop_of t ''key'') (\<lambda>v. if strict_eq v (VStr k) then Inr t else find_tab k ts)"

definition tab_visible :: "val \<Rightarrow> bool \<Rightarrow> val" where
  "tab_visible t d = js_coalesce (if nullish t then VUndef else prop_or_undef t ''visible'') (VBool d)"

definition is_module_visible :: "string \<Rightarrow> val \<Rightarrow> js_error + val" where
  "is_module_visible k p =
     (let ts = tabs_of p in
      if \<not> truthy ts then bindE (find_tab k h5_default_tabs) (\<lambda>t. Inr (tab_visible t True))
      else case ts of
             VArr vs \<Rightarrow> bindE (find_tab k vs) (\<lambda>t. Inr (tab_visible t False))
           | _ \<Rightarrow> Inl TypeError)"

section \<open>Pictures\<close>

definition detail_fallback :: string where
  "detail_fallback =
     ''data:image/svg+xml;charset=UTF-8,%3Csvg%20xmlns%3D'http%3A%2F%2Fwww.w3.org%2F2000%2Fsv'' @
     ''g'%20width%3D'750'%20height%3D'500'%3E%3Crect%20width%3D'100%25'%20height%3D'100%25'%20f'' @
     ''ill%3D'%23f5f5f5'/%3E%3Ctext%20x%3D'50%25'%20y%3D'50%25'%20dominant-baseline%3D'middle'%'' @
     ''20text-anchor%3D'middle'%20fill%3D'%23999'%20font-size%3D'28'%3E%E6%9A%82%E6%97%A0%E5%9B'' @
     ''%BE%E7%89%87%3C%2Ftext%3E%3C%2Fsvg%3E''"

definition detail_image_url :: "string \<Rightarrow> string" where
  "detail_image_url url =
     (if url = [] then []
      else if prefix ''http://'' url \<or> prefix ''https://'' url then url
      else if prefix ''data:'' url then url
      else if prefix ''/'' url then url else CHR ''/'' # url)"

text \<open>\<open>v.length === 0\<close>\<close>

definition zero_length :: "val \<Rightarrow> js_error + bool" where
  "zero_length v =
     (case v of
        VArr vs \<Rightarrow> Inr (vs = [])
      | VStr s \<Rightarrow> Inr (s = [])
      | _ \<Rightarrow> bindE (prop_of v ''length'') (\<lambda>n. Inr (strict_eq n (VNum 0))))"

definition images_field :: "val \<Rightarrow> val" where
  "images_field p =
     (case prop_or_undef p ''images'' of
        VArr vs \<Rightarrow> VArr vs
      | VStr s \<Rightarrow> (if s = [] then VArr [] else case json_parse s of Some v \<Rightarrow> v | None \<Rightarrow> VArr [])
      | _ \<Rightarrow> VArr [])"

definition kept_image :: "val \<Rightarrow> js_error + bool" where
  "kept_image v = (if truthy v then case v of VStr s \<Rightarrow> Inr (trim s \<noteq> []) | _ \<Rightarrow> Inl TypeError else Inr False)"

definition all_images :: "val \<Rightarrow> js_error + string list" where
  "all_images p =
     (if \<not> truthy p then Inr []
      else bindE (zero_length (images_field p)) (\<lambda>none.
        (let cover = prop_or_undef p ''cover_url'';
             imgs = (if none \<and> truthy cover then VArr [cover] else images_field p) in
         case imgs of
           VArr vs \<Rightarrow> bindE (filterE kept_image vs) (\<lambda>vs. Inr (map (\<lambda>v. detail_image_url (js_to_string v)) vs))
         | _ \<Rightarrow> Inl TypeError)))"

definition carousel_images :: "val \<Rightarrow> js_error + string list" where
  "carousel_images p = bindE (all_images p) (\<lambda>imgs. Inr (take 5 imgs))"

definition broken_image :: "string \<Rightarrow> string" where
  "broken_image src = (if src = detail_fallback then src else detail_fallback)"

section \<open>The page\<close>

record detail =
  dt_loading :: bool
  dt_property :: val
  dt_tab :: string
  dt_swipe :: nat
  dt_favorite :: bool

definition new_detail :: detail where
  "new_detail = \<lparr>dt_loading = False, dt_property = VNull, dt_tab = ''property-info'', dt_swipe = 0, dt_favorite = False\<rparr>"

definition fetch_detail :: "'s network \<Rightarrow> string \<Rightarrow> detail \<times> 's \<Rightarrow> detail \<times> 's" where
  "fetch_detail net i ps =
     (case ps of (pg, s) \<Rightarrow>
      (case get_property_detail net (to_num (VStr i)) s of (r, s1) \<Rightarrow>
        (case r of
           Axios_error _ \<Rightarrow> (pg\<lparr>dt_loading := False\<rparr>, s1)
         | Axios_ok res \<Rightarrow>
             (case prop_of res ''data'' of
                Inl _ \<Rightarrow> (pg\<lparr>dt_loading := False\<rparr>, s1)
              | Inr d \<Rightarrow>
                  (let pg1 = pg\<lparr>dt_property := js_or d (prop_or_undef res ''property''), dt_loading := False\<rparr> in
                   case visible_tabs (dt_property pg1) of
                     Inr (t # _) \<Rightarrow> (pg1\<lparr>dt_tab := js_to_string (prop_or_undef t ''key'') @ ''-info''\<rparr>, s1)
                   | _ \<Rightarrow> (pg1, s1))))))"

definition swipe_to :: "nat \<Rightarrow> detail \<Rightarrow> detail" where
  "swipe_to i pg = pg\<lparr>dt_swipe := i\<rparr>"

definition toggle_favorite :: "detail \<Rightarrow> detail" where
  "toggle_favorite pg = pg\<lparr>dt_favorite := \<not> dt_favorite pg\<rparr>"

text \<open>\<open>x.toFixed(2)\<close> of an exact number.\<close>

definition to_fixed2 :: "rat \<Rightarrow> string" where
  "to_fixed2 x =
     (if \<bar>x\<bar> \<ge> 10 ^ 21 then num_text x
      else let n = nat \<lfloor>\<bar>x\<bar> * 100 + 1 / 2\<rfloor>
           in (if x < 0 then ''-'' else []) @ nat_to_string (n div 100) @ ''.'' @ pad0 2 (nat_to_string (n mod 100)))"

definition fixed2_text :: "val \<Rightarrow> string" where
  "fixed2_text v = (case v of VNum x \<Rightarrow> to_fixed2 x | _ \<Rightarrow> js_to_string v)"

definition num_or_zero :: "val \<Rightarrow> val" where
  "num_or_zero v = js_or (to_num v) (VNum 0)"

definition total_tax :: "val \<Rightarrow> string" where
  "total_tax p =
     (if \<not> truthy p then ''0''
      else fixed2_text (num_add (num_add (num_or_zero (prop_or_undef p ''deed_tax_amount''))
             (num_or_zero (prop_or_undef p ''vat_amount''))) (num_or_zero (prop_or_undef p ''income_tax_amount''))))"

section \<open>What the template shows\<close>

text \<open>\<open>p.k || '-'\<close> and other placeholders, the values of each block from top to bottom.\<close>

definition shown_or :: "string \<Rightarrow> val \<Rightarrow> string \<Rightarrow> val" where
  "shown_or d p k = js_or (prop_or_undef p k) (VStr d)"

definition price_header :: "val \<Rightarrow> val list" where
  "price_header p = map (shown_or ''-'' p) [''starting_price'', ''evaluation_total_price'', ''market_total_price'']"

definition quick_tags :: "val \<Rightarrow> val list" where
  "quick_tags p = map (shown_or ''-'' p) [''building_area'', ''house_type''] @ [shown_or h5_orientation p ''orientation'']"

definition property_grid :: "val \<Rightarrow> val list" where
  "property_grid p = shown_or ''-'' p ''floor_info'' # shown_or h5_orientation p ''orientation'' #
     map (shown_or ''-'' p) [''building_year'', ''property_type'', ''property_status'', ''school_district'']"

definition auction_rows :: "val \<Rightarrow> val list" where
  "auction_rows p = map (shown_or ''-'' p)
     [''auction_time'', ''bidding_phase'', ''auction_platform'', ''auction_deposit'', ''price_increment'']"

definition loan_amounts :: "val \<Rightarrow> val list" where
  "loan_amounts p = map (shown_or ''-'' p) [''loan_70_percent'', ''loan_80_percent'', ''loan_90_percent'']"

definition tax_rows :: "val \<Rightarrow> (val \<times> val) list" where
  "tax_rows p =
     [(shown_or ''1.5%'' p ''deed_tax_rate'', shown_or ''-'' p ''deed_tax_amount''),
      (shown_or ''5.3%'' p ''vat_rate'', shown_or ''-'' p ''vat_amount''),
      (shown_or ''1%'' p ''income_tax_rate'', shown_or ''-'' p ''income_tax_amount'')]"

definition featured_tag :: "val \<Rightarrow> bool" where
  "featured_tag p = strict_eq (prop_or_undef p ''is_featured'') (VNum 1)"

section \<open>Tabs and modules agree\<close>

interpretation tabs: js_comparator tab_order "\<lambda>t. \<exists>x. prop_or_undef t ''order'' = VNum x"
  by unfold_locales (auto simp: tab_order_def)

lemma filter_shown: "filterE shown_tab (map VObj rs) = Inr (map VObj (filter (\<lambda>r. truthy (fld r ''visible'')) rs))"
  by (induction rs) (simp_all add: shown_tab_def)

lemma find_tab_objects:
  "find_tab k (map VObj rs) = Inr (case find (\<lambda>r. fld r ''key'' = VStr k) rs of Some r \<Rightarrow> VObj r | None \<Rightarrow> VUndef)"
  by (induction rs) (auto dest: strict_eqD simp: strict_eq_VStr)

lemma truthy_tab_visible: "truthy (tab_visible (VObj r) False) = truthy (fld r ''visible'')"
  by (cases "fld r ''visible''") (simp_all add: tab_visible_def prop_or_undef_def js_coalesce_def)

lemma visible_of_find:
  "truthy (tab_visible (case find q rs of Some r \<Rightarrow> VObj r | None \<Rightarrow> VUndef) False) =
     (case find q rs of Some r \<Rightarrow> truthy (fld r ''visible'') | None \<Rightarrow> False)"
  by (cases "find q rs") (simp_all add: truthy_tab_visible, simp add: tab_visible_def js_coalesce_def)

lemma find_distinct:
  assumes "distinct (map f rs)"
  shows "(case find (\<lambda>r. f r = v) rs of Some r \<Rightarrow> P r | None \<Rightarrow> False) = (\<exists>r\<in>set rs. f r = v \<and> P r)"
  using assms by (induction rs) (auto; metis image_eqI)+

text \<open>The numbers in a field of the tabs do not descend.\<close>

definition ascending :: "string \<Rightarrow> val list \<Rightarrow> bool" where
  "ascending k ts \<longleftrightarrow> sorted_wrt (\<lambda>a b. \<forall>x y. prop_or_undef a k = VNum x \<longrightarrow> prop_or_undef b k = VNum y \<longrightarrow> x \<le> y) ts"

lemma sorted_tabs_ascend:
  assumes "\<forall>t\<in>set vs. \<exists>x. prop_or_undef t ''order'' = VNum x"
  shows "ascending ''order'' (js_sort tab_order vs)"
proof -
  have "sorted_wrt (\<lambda>a b. tab_order a b \<le> 0) (js_sort tab_order vs)"
    using assms by (rule tabs.sort_in_order)
  then show ?thesis
    unfolding ascending_def by (rule sorted_wrt_mono_rel [rotated]) (auto simp: tab_order_def)
qed

lemma configured_tabs:
  assumes "tabs_of p = VArr (map VObj rs)" "distinct (map (\<lambda>r. fld r ''key'') rs)"
  shows "\<exists>ts. visible_tabs p = Inr ts \<and>
    (\<forall>k. \<exists>v. is_module_visible k p = Inr v \<and> truthy v = (\<exists>t\<in>set ts. prop_or_undef t ''key'' = VStr k)) \<and>
    ((\<forall>r\<in>set rs. \<exists>x. fld r ''order'' = VNum x) \<longrightarrow> ascending ''order'' ts)"
proof -
  define ts where "ts = js_sort tab_order (map VObj (filter (\<lambda>r. truthy (fld r ''visible'')) rs))"
  have v: "visible_tabs p = Inr ts"
    by (simp add: visible_tabs_def assms(1) filter_shown ts_def)
  have m: "is_module_visible k p = Inr (tab_visible (case find (\<lambda>r. fld r ''key'' = VStr k) rs of
      Some r \<Rightarrow> VObj r | None \<Rightarrow> VUndef) False)" for k
    by (simp add: is_module_visible_def assms(1) find_tab_objects)
  have "truthy (tab_visible (case find (\<lambda>r. fld r ''key'' = VStr k) rs of Some r \<Rightarrow> VObj r | None \<Rightarrow> VUndef) False) =
      (\<exists>t\<in>set ts. prop_or_undef t ''key'' = VStr k)" for k
    unfolding visible_of_find find_distinct [OF assms(2)] by (auto simp: ts_def prop_or_undef_def)
  then have "\<forall>k. \<exists>v. is_module_visible k p = Inr v \<and> truthy v = (\<exists>t\<in>set ts. prop_or_undef t ''key'' = VStr k)"
    using m by blast
  moreover have "ascending ''order'' ts" if "\<forall>r\<in>set rs. \<exists>x. fld r ''order'' = VNum x"
    unfolding ts_def using that by (intro sorted_tabs_ascend) (auto simp: prop_or_undef_def)
  ultimately show ?thesis
    using v by blast
qed

lemma default_tabs:
  assumes "\<not> truthy (tabs_of p)"
  shows "visible_tabs p = Inr h5_default_tabs" "is_module_visible k p = Inr (VBool True)"
proof -
  let ?tab = "\<lambda>k n i. [(''key'', VStr k), (''name'', VStr n), (''visible'', VBool True), (''order'', VNat i)]"
  have d: "h5_default_tabs = map VObj [?tab ''property'' title_property 1, ?tab ''auction'' title_auction 2,
      ?tab ''loan'' title_loan 3, ?tab ''tax'' title_tax 4]"
    by (simp add: h5_default_tabs_def module_tab_def)
  show "visible_tabs p = Inr h5_default_tabs"
    using assms unfolding visible_tabs_def d filter_shown by (simp add: Let_def)
  show "is_module_visible k p = Inr (VBool True)"
    using assms unfolding is_module_visible_def d find_tab_objects
    by (simp add: Let_def tab_visible_def js_coalesce_def prop_or_undef_def)
qed

text \<open>C24. The tabs of the detail page and its modules agree.  For a home whose configuration has tabs with distinct
  keys, a module is shown exactly when one of the visible tabs leads to it, and when every tab has a number for its
  order the visible tabs stand in ascending order of these numbers.  For a home without configured tabs the four
  default tabs are shown, in ascending order too, and every module is.\<close>

theorem tabs_match_modules:
  "(\<forall>rs. tabs_of p = VArr (map VObj rs) \<longrightarrow> distinct (map (\<lambda>r. fld r ''key'') rs) \<longrightarrow>
     (\<exists>ts. visible_tabs p = Inr ts \<and>
       (\<forall>k. \<exists>v. is_module_visible k p = Inr v \<and> truthy v = (\<exists>t\<in>set ts. prop_or_undef t ''key'' = VStr k)) \<and>
       ((\<forall>r\<in>set rs. \<exists>x. fld r ''order'' = VNum x) \<longrightarrow>
         sorted_wrt (\<lambda>a b. \<forall>x y. prop_or_undef a ''order'' = VNum x \<longrightarrow> prop_or_undef b ''order'' = VNum y \<longrightarrow> x \<le> y) ts))) \<and>
   (\<not> truthy (tabs_of p) \<longrightarrow>
     (\<exists>ts. visible_tabs p = Inr ts \<and>
       map (\<lambda>t. prop_or_undef t ''key'') ts = map VStr [''property'', ''auction'', ''loan'', ''tax''] \<and>
       map (\<lambda>t. prop_or_undef t ''order'') ts = map VNat [1, 2, 3, 4]) \<and>
     (\<forall>k. is_module_visible k p = Inr (VBool True)))"
proof -
  have "map (\<lambda>t. prop_or_undef t ''key'') h5_default_tabs = map VStr [''property'', ''auction'', ''loan'', ''tax'']"
    "map (\<lambda>t. prop_or_undef t ''order'') h5_default_tabs = map VNat [1, 2, 3, 4]"
    by (simp_all add: h5_default_tabs_def module_tab_def prop_or_undef_def)
  then show ?thesis
    using configured_tabs [of p, unfolded ascending_def] default_tabs [of p] by blast
qed

section \<open>A home of this server\<close>

lemma h5_detail_url:
  assumes "list_all is_digit d" "d \<noteq> []"
  shows "[''api'', ''v1'', ''properties'', ''mall''] @ filter (\<lambda>x. x \<noteq> []) (tl (split_on (CHR ''/'') (CHR ''/'' # d))) =
    [''api'', ''v1'', ''properties'', ''mall'', d]"
proof -
  have "split_on (CHR ''/'') d = [d]"
    using assms(1) by (induction d) (auto simp: is_digit_def)
  with assms(2) show ?thesis by simp
qed

lemma digits_no_word: "list_all is_digit d \<Longrightarrow> w \<noteq> [] \<Longrightarrow> list_all (\<lambda>c. \<not> is_digit c) w \<Longrightarrow> to_lower d \<noteq> w"
  by (cases d; cases w) (auto simp: to_lower_def to_lower_digit)

lemma serve_mall_property:
  assumes "list_all is_digit d" "d \<noteq> []"
  shows "serve w e GET [''api'', ''v1'', ''properties'', ''mall'', d] (server_request GET data auth) st =
     with_next (get_mall_property e (with_params [(''id'', d)] (server_request GET data auth))) st"
proof -
  have "to_lower d \<noteq> ''categories''" "to_lower d \<noteq> ''status''" "to_lower d \<noteq> ''import''"
    by (rule digits_no_word [OF assms(1)]; simp add: is_digit_def)+
  then show ?thesis
    using assms(2) by (simp add: serve_def mounts_def api_mounts_def admin_mounts_def lower_words h5_words run_router_def
        mall_router_def no_guard_def nexts_def)
qed

lemma get_detail_of_server:
  "get_property_detail (h5_network w e) (VNat n) st =
     (case find_mall_by_id (iso e) (VNat n) st of
        (None, st1) \<Rightarrow>
          (Axios_error (Some (404, VObj [(''code'', VStr ''NOT_FOUND''), (''message'', VStr msg_property_hidden)])), st1)
      | (Some r, st1) \<Rightarrow> (Axios_ok (VObj (json_row [(''data'', VObj r), (''property'', VObj r), (''skus'', VArr [])])), st1))"
proof -
  have t: "js_to_string (VNat n) = nat_to_string n"
    by (simp add: num_text_def is_int_rat_def int_to_string_def)
  have d: "list_all is_digit (nat_to_string n)" "nat_to_string n \<noteq> []"
    by (simp_all add: nat_to_string_digits)
  have i: "str_to_num (nat_to_string n) = VNat n"
    using number_of_id_text [of n] unfolding t by simp
  obtain x st1 where f: "find_mall_by_id (iso e) (VNat n) st = (x, st1)"
    by (metis prod.collapse)
  show ?thesis
    unfolding get_property_detail_def mall_call_def h5_network_def t h5_detail_url [OF d] serve_mall_property [OF d]
    by (cases x) (simp_all add: with_next_def get_mall_property_def with_params_def i f res_status_def ok_res_def json_res_def
        axios_of_def json_row_def)
qed

lemma mall_detail_json_absent: "k \<notin> fst ` set (mall_detail r) \<Longrightarrow> fld (json_row (mall_detail r)) k = VUndef"
  using json_row_keys [of "mall_detail r"] by (intro fld_absent) blast

lemma detail_without:
  "k \<in> {''price_increment'', ''is_featured'', ''orientation''} \<Longrightarrow>
   fld (json_row (mall_detail r)) k = VUndef"
  by (rule mall_detail_json_absent) (auto simp: mall_detail_def copy_fields_def)

lemma fetch_detail_of_server:
  assumes "fst (find_mall_by_id (iso e) (VNat n) st) = Some r"
  shows "dt_property (fst (fetch_detail (h5_network w e) (js_to_string (VNat n)) (pg, st))) = VObj (json_row r)"
proof -
  obtain st1 where f: "find_mall_by_id (iso e) (VNat n) st = (Some r, st1)"
    using assms by (metis prod.collapse)
  have n: "to_num (VStr (js_to_string (VNat n))) = VNat n"
    by (rule number_of_id_text)
  show ?thesis
    unfolding fetch_detail_def n get_detail_of_server
    using f by (simp add: json_row_def js_or_def Let_def del: to_num.simps split: sum.split list.split)
qed

text \<open>The detail page of a home that is on sale shows the fields that are stored for it, but never its price
  step, its orientation or that it is featured: the page reads these fields and the server does not send
  them, so that placeholders are shown whatever is stored.\<close>

theorem detail_hides_the_price_step:
  assumes "fst (find_mall_by_id (iso e) (VNat n) st) = Some shown"
  shows "let p = dt_property (fst (fetch_detail (h5_network w e) (js_to_string (VNat n)) (pg, st))) in
    p = VObj (json_row shown) \<and> last (auction_rows p) = VStr ''-'' \<and> \<not> featured_tag p \<and>
    last (quick_tags p) = VStr h5_orientation"
proof -
  obtain r where "shown = mall_detail r"
    using assms by (auto simp: find_mall_by_id_def split: prod.splits option.splits)
  with fetch_detail_of_server [OF assms, of w pg] detail_without [of _ r] show ?thesis
    by (simp add: Let_def auction_rows_def featured_tag_def quick_tags_def shown_or_def prop_or_undef_def js_or_def)
qed

theorem detail_hides_the_price_step_witness:
  "last (auction_rows (dt_property (fst (fetch_detail (h5_network sample_world (sample_env 0)) (js_to_string (VNat 1))
      (new_detail, store_with (\<lambda>t. if t = Properties
        then [spread (home_in 1 1) [(''price_increment'', VStr ''1'')]] else []))))))
    = VStr ''-''"
proof -
  let ?r = "spread (home_in 1 1) [(''price_increment'', VStr ''1'')]"
  let ?st = "store_with (\<lambda>t. if t = Properties then [?r] else [])"
  have "fst (find_mall_by_id (iso (sample_env 0)) (VNat 1) ?st) = Some (mall_detail ?r)"
    by (simp add: find_mall_by_id_def on_sale_def home_in_def)
  from detail_hides_the_price_step [OF this, of sample_world new_detail] show ?thesis
    unfolding Let_def by blast
qed

text \<open>Three configured tabs, out of order and one of them hidden, and a home without a configuration.\<close>

definition mixed_tabs :: "row list" where
  "mixed_tabs =
     [[(''key'', VStr ''loan''), (''visible'', VBool True), (''order'', VNum 3)],
      [(''key'', VStr ''tax''), (''visible'', VBool False), (''order'', VNum 2)],
      [(''key'', VStr ''auction''), (''visible'', VBool True), (''order'', VNum 1)]]"

definition mixed_home :: val where
  "mixed_home = VObj [(''module_config'', VObj [(''tabs'', VArr (map VObj mixed_tabs))])]"

theorem tabs_match_modules_witness:
  "visible_tabs mixed_home = Inr [VObj (mixed_tabs ! 2), VObj (mixed_tabs ! 0)] \<and>
   (\<exists>v. is_module_visible ''loan'' mixed_home = Inr v \<and> truthy v) \<and>
   (\<exists>v. is_module_visible ''tax'' mixed_home = Inr v \<and> \<not> truthy v) \<and>
   is_module_visible ''tax'' (VObj []) = Inr (VBool True)"
proof -
  have v: "visible_tabs mixed_home = Inr [VObj (mixed_tabs ! 2), VObj (mixed_tabs ! 0)]"
    by code_simp
  have t: "tabs_of mixed_home = VArr (map VObj mixed_tabs)" "distinct (map (\<lambda>r. fld r ''key'') mixed_tabs)"
    by (simp_all add: mixed_home_def tabs_of_def prop_or_undef_def) (simp add: mixed_tabs_def)
  have n: "\<not> truthy (tabs_of (VObj []))"
    by (simp add: tabs_of_def prop_or_undef_def)
  from tabs_match_modules [of mixed_home] t v
  have "\<forall>k. \<exists>v. is_module_visible k mixed_home = Inr v \<and>
      truthy v = (\<exists>t\<in>set [VObj (mixed_tabs ! 2), VObj (mixed_tabs ! 0)]. prop_or_undef t ''key'' = VStr k)"
    by auto
  from this [rule_format, of "''loan''"] this [rule_format, of "''tax''"] show ?thesis
    using v tabs_match_modules [of "VObj []"] n by (simp add: mixed_tabs_def prop_or_undef_def)
qed

text \<open>A cover that is a bare file name is looked for under two different addresses by the two pages.\<close>

lemma cover_address_differs:
  "home_image_url ''https://m.example'' ''a.png'' = ''https://m.example/h5/images/uploads/a.png''"
  "detail_image_url ''a.png'' = ''/a.png''"
  by code_simp+

end
