(* ===== verification/Property_Form.thy ===== *)
theory Property_Form
  imports H5_Detail
begin

text \<open>
  The form for a home in the administration's client (\<^verbatim>\<open>jintai-property/admin/src/views/PropertyForm.vue\<close>): the values
  that are derived while typing, the pictures, the modules of the detail page, loading and saving.  Messages, the
  preview's dialog and the reordering that the drag library does to the page's elements are not modelled; numbers are
  exact where the program has doubles.
\<close>

section \<open>Numbers in texts\<close>

text \<open>\<open>parseFloat(s)\<close>: the longest beginning of the text that is a decimal number.\<close>

definition float_exponent :: "string \<Rightarrow> int" where
  "float_exponent s =
     (case s of
        [] \<Rightarrow> 0
      | c # t \<Rightarrow>
          if c = CHR ''e'' \<or> c = CHR ''E''
          then (let (neg, u) = (case t of [] \<Rightarrow> (False, [])
                                | d # t' \<Rightarrow> if d = CHR ''-'' then (True, t')
                                          else if d = CHR ''+'' then (False, t') else (False, t));
                    n = int (digits_val (takeWhile is_digit u))
                in if neg then - n else n)
          else 0)"

definition parse_float :: "string \<Rightarrow> val" where
  "parse_float s0 =
     (let s = trim_start s0;
          (neg, u) = (if prefix ''-'' s then (True, tl s) else if prefix ''+'' s then (False, tl s) else (False, s));
          ip = takeWhile is_digit u; r = dropWhile is_digit u;
          (fp, r') = (if prefix ''.'' r then (takeWhile is_digit (tl r), dropWhile is_digit (tl r)) else ([], r))
      in if prefix ''Infinity'' u then VInf (\<not> neg)
         else if ip = [] \<and> fp = [] then VNaN
         else (let x = dec_value ip fp (float_exponent r') in VNum (if neg then - x else x)))"

fun num_div :: "val \<Rightarrow> val \<Rightarrow> val" where
  "num_div (VNum x) (VNum y) = (if y = 0 then if x = 0 then VNaN else VInf (0 < x) else VNum (x / y))"
| "num_div (VInf p) (VNum y) = VInf (p = (0 \<le> y))"
| "num_div (VNum x) (VInf q) = VNum 0"
| "num_div _ _ = VNaN"

definition parse_price :: "val \<Rightarrow> val" where
  "parse_price v =
     (if \<not> truthy v then VNum 0
      else let n = parse_float (js_to_string v) in if n = VNaN then VNum 0 else n)"

text \<open>The first percent sign is removed; only texts have \<open>replace\<close>.\<close>

fun drop_first :: "char \<Rightarrow> string \<Rightarrow> string" where
  "drop_first c [] = []"
| "drop_first c (x # xs) = (if x = c then xs else x # drop_first c xs)"

definition parse_percent :: "val \<Rightarrow> js_error + val" where
  "parse_percent v =
     (if \<not> truthy v then Inr (VNum 0)
      else case v of
             VStr s \<Rightarrow> (let n = parse_float (drop_first (CHR ''%'') s) in Inr (if n = VNaN then VNum 0 else num_div n (VNum 100)))
           | _ \<Rightarrow> Inl TypeError)"

definition format_result :: "val \<Rightarrow> string" where
  "format_result v = (if v = VNum 0 then [] else js_to_string (parse_float (fixed2_text v)))"

section \<open>Derived values\<close>

definition num_pos :: "val \<Rightarrow> bool" where
  "num_pos v = num_less (VNum 0) v"

definition put_field :: "string \<Rightarrow> val \<Rightarrow> row \<Rightarrow> row" where
  "put_field k v r = spread r [(k, VStr (format_result v))]"

text \<open>The quotient of two fields, and the share of the starting price that a rate gives.\<close>

definition derive_unit_price :: "string \<Rightarrow> string \<Rightarrow> row \<Rightarrow> row" where
  "derive_unit_price whole unit r =
     (let price = parse_price (fld r whole); area = parse_price (fld r ''building_area'')
      in if num_pos price \<and> num_pos area then put_field unit (num_div price area) r else r)"

definition derive_loans :: "row \<Rightarrow> row" where
  "derive_loans r =
     (let price = parse_price (fld r ''evaluation_total_price'') in
      if num_pos price
      then put_field ''loan_90_percent'' (num_mul price (VNum (9 / 10)))
            (put_field ''loan_80_percent'' (num_mul price (VNum (8 / 10)))
              (put_field ''loan_70_percent'' (num_mul price (VNum (7 / 10))) r))
      else r)"

definition derive_tax :: "string \<Rightarrow> string \<Rightarrow> row \<Rightarrow> row" where
  "derive_tax rate amount r =
     (let price = parse_price (fld r ''starting_price'') in
      case parse_percent (fld r rate) of
        Inl _ \<Rightarrow> r
      | Inr p \<Rightarrow> if num_pos price \<and> num_pos p then put_field amount (num_mul price p) r else r)"

definition derive_profit :: "row \<Rightarrow> row" where
  "derive_profit r =
     (let market = parse_price (fld r ''market_total_price''); starting = parse_price (fld r ''starting_price'')
      in if num_pos market \<and> num_pos starting
         then put_field ''profit_space'' (num_add market (num_neg starting)) r else r)"

text \<open>The watchers in the order of the file: what each watches and what it does.\<close>

definition form_watchers :: "(string list \<times> (row \<Rightarrow> row)) list" where
  "form_watchers =
     [([''starting_price'', ''building_area''], derive_unit_price ''starting_price'' ''starting_unit_price''),
      ([''evaluation_total_price'', ''building_area''],
        \<lambda>r. derive_loans (derive_unit_price ''evaluation_total_price'' ''evaluation_unit_price'' r)),
      ([''market_total_price'', ''building_area''], derive_unit_price ''market_total_price'' ''market_unit_price''),
      ([''starting_price'', ''deed_tax_rate''], derive_tax ''deed_tax_rate'' ''deed_tax_amount''),
      ([''starting_price'', ''vat_rate''], derive_tax ''vat_rate'' ''vat_amount''),
      ([''starting_price'', ''income_tax_rate''], derive_tax ''income_tax_rate'' ''income_tax_amount''),
      ([''market_total_price'', ''starting_price''], derive_profit)]"

text \<open>After a change of the form from \<open>old\<close> to \<open>r\<close> the watchers of the changed fields run.\<close>

fun run_watchers :: "(string list \<times> (row \<Rightarrow> row)) list \<Rightarrow> row \<Rightarrow> row \<Rightarrow> row" where
  "run_watchers [] old r = r"
| "run_watchers ((ks, f) # ws) old r =
     run_watchers ws old (if list_ex (\<lambda>k. fld old k \<noteq> fld r k) ks then f r else r)"

section \<open>The form\<close>

record form_page =
  pf_form :: row
  pf_images :: val
  pf_files :: "(string \<times> val \<times> int) list"
  pf_tabs :: "val list"
  pf_id :: "string option"
  pf_cats :: val
  pf_loading :: bool
  pf_submitting :: bool
  pf_preview :: "string option"

definition empty_home :: row where
  "empty_home =
     map (\<lambda>k. (k, VStr []))
       [''community_name'', ''detail_address'', ''building_area'', ''house_type'', ''floor_info'',
        ''building_year'', ''decoration_status'', ''property_status'', ''holding_years'',
        ''property_type'', ''auction_time'', ''bidding_phase'', ''auction_platform'', ''auction_deposit'',
        ''price_increment'', ''starting_price'', ''starting_unit_price'', ''evaluation_total_price'',
        ''evaluation_unit_price'', ''loan_70_percent'', ''loan_80_percent'', ''loan_90_percent'',
        ''market_total_price'', ''market_unit_price'', ''school_district'', ''business_circle'',
        ''profit_space'', ''auth_code'', ''deed_tax_rate'', ''deed_tax_amount'', ''vat_rate'',
        ''vat_amount'', ''income_tax_rate'', ''income_tax_amount'', ''customer_name'', ''customer_phone'',
        ''customer_survey_brief'', ''assigned_salesman'', ''unionID'', ''openID''] @
     [(''status'', VNum 0), (''is_featured'', VNum 0), (''category_id'', VNull), (''cover_url'', VStr []), (''images'', VArr []), (''sort_order'', VNum 0)]"

definition open_form :: "string option \<Rightarrow> form_page" where
  "open_form i = \<lparr>pf_form = empty_home, pf_images = VArr [], pf_files = [], pf_tabs = h5_default_tabs, pf_id = i,
     pf_cats = VArr [], pf_loading = False, pf_submitting = False, pf_preview = None\<rparr>"

definition is_edit :: "form_page \<Rightarrow> bool" where
  "is_edit pg = str_truthy (pf_id pg)"

definition change_form :: "row \<Rightarrow> form_page \<Rightarrow> form_page" where
  "change_form r pg = pg\<lparr>pf_form := run_watchers form_watchers (pf_form pg) r\<rparr>"

definition type_field :: "string \<Rightarrow> val \<Rightarrow> form_page \<Rightarrow> form_page" where
  "type_field k v pg = change_form (spread (pf_form pg) [(k, v)]) pg"

section \<open>Pictures\<close>

definition before_upload :: "string \<Rightarrow> nat \<Rightarrow> bool" where
  "before_upload mime octets \<longleftrightarrow>
     mime \<in> set [''image/png'', ''image/jpeg'', ''image/jpg'', ''image/gif'', ''image/webp''] \<and>
     rat_of_nat octets / 1024 / 1024 < 5"

text \<open>\<open>updateFormImages\<close>: the pictures and the first of them as cover.\<close>

definition update_form_images :: "val list \<Rightarrow> form_page \<Rightarrow> form_page" where
  "update_form_images imgs pg =
     change_form (spread (pf_form pg) [(''images'', VArr imgs), (''cover_url'', case imgs of v # _ \<Rightarrow> v | [] \<Rightarrow> VStr [])])
       (pg\<lparr>pf_images := VArr imgs\<rparr>)"

definition upload_success :: "val \<Rightarrow> form_page \<Rightarrow> form_page" where
  "upload_success response pg =
     (case pf_images pg of
        VArr imgs \<Rightarrow>
          (if truthy (prop_or_undef response ''success'') \<and> truthy (prop_or_undef response ''url'')
           then update_form_images (imgs @ [prop_or_undef response ''url'']) pg else pg)
      | _ \<Rightarrow> pg)"

text \<open>\<open>file.url || file.response?.url\<close>\<close>

definition file_url :: "row \<Rightarrow> val" where
  "file_url file = js_or (fld file ''url'')
     (if nullish (fld file ''response'') then VUndef else prop_or_undef (fld file ''response'') ''url'')"

fun remove_first :: "val \<Rightarrow> val list \<Rightarrow> val list option" where
  "remove_first v [] = None"
| "remove_first v (x # xs) = (if strict_eq x v then Some xs else map_option (Cons x) (remove_first v xs))"

definition remove_image :: "row \<Rightarrow> form_page \<Rightarrow> form_page" where
  "remove_image file pg =
     (if truthy (file_url file)
      then (case pf_images pg of
              VArr imgs \<Rightarrow> (case remove_first (file_url file) imgs of Some rest \<Rightarrow> update_form_images rest pg | None \<Rightarrow> pg)
            | _ \<Rightarrow> pg)
      else pg)"

definition preview_image :: "row \<Rightarrow> form_page \<Rightarrow> form_page" where
  "preview_image file pg = pg\<lparr>pf_preview := Some (js_to_string (js_or (file_url file) (VStr [])))\<rparr>"

definition stored_images :: "val \<Rightarrow> val \<Rightarrow> js_error + val" where
  "stored_images imgs cover =
     (let urls = (if \<not> truthy imgs then VArr []
                  else case imgs of
                         VStr s \<Rightarrow> (case json_parse s of Some v \<Rightarrow> v | None \<Rightarrow> VArr [VStr s])
                       | VArr vs \<Rightarrow> VArr vs
                       | _ \<Rightarrow> VArr [])
      in bindE (zero_length urls) (\<lambda>none. Inr (if none \<and> truthy cover then VArr [cover] else urls)))"

definition shown_files :: "int \<Rightarrow> val list \<Rightarrow> (string \<times> val \<times> int) list" where
  "shown_files now imgs =
     map (\<lambda>(i, v). (''image-'' @ nat_to_string i, v, now + int i)) (zip [0..<length imgs] imgs)"

text \<open>\<open>initImageList\<close>, and whether it came to its end.\<close>

definition init_image_list :: "int \<Rightarrow> val \<Rightarrow> val \<Rightarrow> form_page \<Rightarrow> bool \<times> form_page" where
  "init_image_list now imgs cover pg =
     (case stored_images imgs cover of
        Inl _ \<Rightarrow> (False, pg)
      | Inr v \<Rightarrow>
          (case v of
             VArr vs \<Rightarrow> (True, pg\<lparr>pf_images := v, pf_files := shown_files now vs\<rparr>)
           | _ \<Rightarrow> (False, pg\<lparr>pf_images := v\<rparr>)))"

section \<open>Modules\<close>

definition read_tab :: "val \<Rightarrow> js_error + val" where
  "read_tab t =
     bindE (prop_of t ''key'') (\<lambda>k.
       Inr (VObj [(''key'', k), (''name'', prop_or_undef t ''name''),
                  (''visible'', VBool (prop_or_undef t ''visible'' \<noteq> VBool False)),
                  (''order'', js_or (prop_or_undef t ''order'') (VNum 0))]))"

definition read_modules :: "val \<Rightarrow> js_error + val list" where
  "read_modules mc =
     (let config = (case mc of VStr s \<Rightarrow> (case json_parse s of Some v \<Rightarrow> v | None \<Rightarrow> VNull) | _ \<Rightarrow> mc);
          ts = (if truthy config then prop_or_undef config ''tabs'' else VUndef) in
      case ts of
        VArr vs \<Rightarrow> bindE (mapE read_tab vs) (\<lambda>ts. Inr (js_sort tab_order ts))
      | _ \<Rightarrow> Inr h5_default_tabs)"

definition set_tab_field :: "string \<Rightarrow> val \<Rightarrow> val \<Rightarrow> val" where
  "set_tab_field k v t = (case t of VObj r \<Rightarrow> VObj (spread r [(k, v)]) | _ \<Rightarrow> t)"

text \<open>The end of a drag: the positions in the page's own list, which the drag did not rearrange.\<close>

definition drag_end :: "val list \<Rightarrow> val list" where
  "drag_end ts = map (\<lambda>(i, t). set_tab_field ''order'' (VNat (i + 1)) t) (zip [0..<length ts] ts)"

definition keep_one_visible :: "val list \<Rightarrow> val list" where
  "keep_one_visible ts =
     (if filter (\<lambda>t. truthy (prop_or_undef t ''visible'')) ts = [] \<and> ts \<noteq> []
      then butlast ts @ [set_tab_field ''visible'' (VBool True) (last ts)] else ts)"

definition switch_module :: "nat \<Rightarrow> bool \<Rightarrow> form_page \<Rightarrow> form_page" where
  "switch_module i b pg =
     (if i < length (pf_tabs pg)
      then pg\<lparr>pf_tabs := keep_one_visible ((pf_tabs pg)[i := set_tab_field ''visible'' (VBool b) (pf_tabs pg ! i)])\<rparr>
      else pg)"

section \<open>Loading and saving\<close>

definition form_categories :: "'s network \<Rightarrow> form_page \<Rightarrow> admin_client \<times> 's \<Rightarrow> form_page \<times> admin_client \<times> 's" where
  "form_categories net pg as =
     (case call_categories net as of (r, as1) \<Rightarrow>
        (case r of
           Axios_ok res \<Rightarrow>
             (case prop_of res ''categories'' of
                Inr cs \<Rightarrow> (pg\<lparr>pf_cats := js_or cs (VArr [])\<rparr>, as1) | Inl _ \<Rightarrow> (pg, as1))
         | Axios_error _ \<Rightarrow> (pg, as1)))"

text \<open>A home that arrives is an object; otherwise reading its pictures throws.\<close>

definition load_home :: "int \<Rightarrow> val \<Rightarrow> form_page \<Rightarrow> form_page" where
  "load_home now data pg =
     (case data of
        VObj r \<Rightarrow>
          (case init_image_list now (fld r ''images'') (fld r ''cover_url'') (change_form (spread (pf_form pg) r) pg) of
             (False, pg1) \<Rightarrow> pg1
           | (True, pg1) \<Rightarrow>
               (case read_modules (fld r ''module_config'') of
                  Inl _ \<Rightarrow> pg1 | Inr ts \<Rightarrow> pg1\<lparr>pf_tabs := ts\<rparr>))
      | _ \<Rightarrow> pg)"

definition form_detail ::
  "'s network \<Rightarrow> int \<Rightarrow> form_page \<Rightarrow> admin_client \<times> 's \<Rightarrow> form_page \<times> admin_client \<times> 's" where
  "form_detail net now pg as =
     (if \<not> is_edit pg then (pg, as)
      else (case call_property net (to_num (VStr (str_of (pf_id pg)))) as of (r, as1) \<Rightarrow>
        (case r of
           Axios_ok res \<Rightarrow>
             (case prop_of res ''data'' of
                Inr d \<Rightarrow> (load_home now (js_or d (prop_or_undef res ''property'')) (pg\<lparr>pf_loading := False\<rparr>), as1)
              | Inl _ \<Rightarrow> (pg\<lparr>pf_loading := False\<rparr>, as1))
         | Axios_error _ \<Rightarrow> (pg\<lparr>pf_loading := False\<rparr>, as1))))"

definition cover_of :: "val \<Rightarrow> row \<Rightarrow> val" where
  "cover_of imgs r =
     (case imgs of VArr (v # _) \<Rightarrow> v | VStr (c # _) \<Rightarrow> VStr [c] | _ \<Rightarrow> fld r ''cover_url'')"

definition sent_tab :: "val \<Rightarrow> val" where
  "sent_tab t = VObj [(''key'', prop_or_undef t ''key''), (''name'', prop_or_undef t ''name''),
     (''visible'', prop_or_undef t ''visible''), (''order'', prop_or_undef t ''order'')]"

definition submit_data :: "form_page \<Rightarrow> row" where
  "submit_data pg = spread (pf_form pg)
     [(''images'', VStr (json_text (pf_images pg))), (''cover_url'', cover_of (pf_images pg) (pf_form pg)),
      (''module_config'', VObj [(''tabs'', VArr (map sent_tab (pf_tabs pg)))])]"

text \<open>\<open>valid\<close> is the form component's check of the rules; the result says whether the page is left for the list.\<close>

definition submit_form ::
  "'s network \<Rightarrow> (row \<Rightarrow> bool) \<Rightarrow> form_page \<Rightarrow> admin_client \<times> 's \<Rightarrow> bool \<times> form_page \<times> admin_client \<times> 's" where
  "submit_form net valid pg as =
     (if \<not> valid (pf_form pg) then (False, pg, as)
      else (case (if is_edit pg then call_update_property net (to_num (VStr (str_of (pf_id pg)))) (submit_data pg) as
                  else call_create_property net (submit_data pg) as) of
              (Axios_ok _, as1) \<Rightarrow> (True, pg\<lparr>pf_submitting := False\<rparr>, as1)
            | (Axios_error _, as1) \<Rightarrow> (False, pg\<lparr>pf_submitting := False\<rparr>, as1)))"

section \<open>Derived fields\<close>

definition unit_prices :: "string list" where
  "unit_prices = [''starting_unit_price'', ''evaluation_unit_price'', ''market_unit_price'']"

definition derived_fields :: "string list" where
  "derived_fields = unit_prices @ [''loan_70_percent'', ''loan_80_percent'', ''loan_90_percent'', ''deed_tax_amount'',
     ''vat_amount'', ''income_tax_amount'', ''profit_space'']"

lemma put_field_get: "fld (put_field k v r) k' = (if k' = k then VStr (format_result v) else fld r k')"
  by (simp add: put_field_def)

lemma derive_keeps:
  "k \<noteq> unit \<Longrightarrow> fld (derive_unit_price whole unit r) k = fld r k"
  "k \<noteq> amount \<Longrightarrow> fld (derive_tax rate amount r) k = fld r k"
  "k \<noteq> ''profit_space'' \<Longrightarrow> fld (derive_profit r) k = fld r k"
  "k \<notin> {''loan_70_percent'', ''loan_80_percent'', ''loan_90_percent''} \<Longrightarrow> fld (derive_loans r) k = fld r k"
  by (auto simp: derive_unit_price_def derive_tax_def derive_profit_def derive_loans_def put_field_get Let_def
      split: sum.split)

lemma if_field: "fld (if c then r else r') k = (if c then fld r k else fld r' k)"
  by simp

lemma watchers_keep:
  "\<forall>f\<in>snd ` set ws. \<forall>r. fld (f r) k = fld r k \<Longrightarrow> fld (run_watchers ws old r) k = fld r k"
  by (induction ws old r rule: run_watchers.induct) simp_all

lemma run_watchers_append: "run_watchers (ws @ vs) old r = run_watchers vs old (run_watchers ws old r)"
  by (induction ws old r rule: run_watchers.induct) simp_all

text \<open>Every watcher leaves all fields but derived ones alone.\<close>

lemma typed_fields_kept:
  assumes "k \<notin> set derived_fields"
  shows "fld (run_watchers form_watchers old r) k = fld r k"
  using assms by (intro watchers_keep)
    (simp add: form_watchers_def derived_fields_def unit_prices_def derive_keeps)

text \<open>The watcher at one place decides a field that the others leave alone.\<close>

definition touched_any :: "string list \<Rightarrow> row \<Rightarrow> row \<Rightarrow> bool" where
  "touched_any ks old r \<longleftrightarrow> (\<exists>k\<in>set ks. fld old k \<noteq> fld r k)"

lemma watcher_decides:
  assumes "\<forall>g\<in>snd ` set us. \<forall>r. \<forall>j\<in>insert k (set ks). fld (g r) j = fld r j"
    and "\<forall>g\<in>snd ` set vs. \<forall>r. fld (g r) k = fld r k"
    and "\<And>r1 r2. \<forall>j\<in>insert k (set ks). fld r1 j = fld r2 j \<Longrightarrow> fld (f r1) k = fld (f r2) k"
  shows "fld (run_watchers (us @ (ks, f) # vs) old r) k = (if touched_any ks old r then fld (f r) k else fld r k)"
proof -
  have keep: "fld (run_watchers us old r) j = fld r j" if "j \<in> insert k (set ks)" for j
    using assms(1) that by (intro watchers_keep) blast
  have "list_ex (\<lambda>k. fld old k \<noteq> fld (run_watchers us old r) k) ks = touched_any ks old r"
    using keep by (auto simp: list_ex_iff touched_any_def)
  moreover have "fld (f (run_watchers us old r)) k = fld (f r) k"
    using keep by (intro assms(3)) blast
  ultimately show ?thesis
    using watchers_keep [OF assms(2)] keep by (simp add: run_watchers_append)
qed

text \<open>The formula of each derived field: what it reads, and the step that computes it.\<close>

definition derived_by :: "string \<Rightarrow> string list \<times> (row \<Rightarrow> row)" where
  "derived_by k =
     (if k = ''starting_unit_price'' then ([''starting_price'', ''building_area''], derive_unit_price ''starting_price'' k)
      else if k = ''evaluation_unit_price''
      then ([''evaluation_total_price'', ''building_area''], derive_unit_price ''evaluation_total_price'' k)
      else if k \<in> {''loan_70_percent'', ''loan_80_percent'', ''loan_90_percent''}
      then ([''evaluation_total_price'', ''building_area''], derive_loans)
      else if k = ''market_unit_price'' then ([''market_total_price'', ''building_area''], derive_unit_price ''market_total_price'' k)
      else if k = ''deed_tax_amount'' then ([''starting_price'', ''deed_tax_rate''], derive_tax ''deed_tax_rate'' k)
      else if k = ''vat_amount'' then ([''starting_price'', ''vat_rate''], derive_tax ''vat_rate'' k)
      else if k = ''income_tax_amount'' then ([''starting_price'', ''income_tax_rate''], derive_tax ''income_tax_rate'' k)
      else ([''market_total_price'', ''starting_price''], derive_profit))"

lemma derive_cong:
  "fld r1 whole = fld r2 whole \<Longrightarrow> fld r1 ''building_area'' = fld r2 ''building_area'' \<Longrightarrow> fld r1 k = fld r2 k \<Longrightarrow>
   fld (derive_unit_price whole unit r1) k = fld (derive_unit_price whole unit r2) k"
  "fld r1 ''starting_price'' = fld r2 ''starting_price'' \<Longrightarrow> fld r1 rate = fld r2 rate \<Longrightarrow> fld r1 k = fld r2 k \<Longrightarrow>
   fld (derive_tax rate amount r1) k = fld (derive_tax rate amount r2) k"
  "fld r1 ''market_total_price'' = fld r2 ''market_total_price'' \<Longrightarrow> fld r1 ''starting_price'' = fld r2 ''starting_price'' \<Longrightarrow>
   fld r1 k = fld r2 k \<Longrightarrow> fld (derive_profit r1) k = fld (derive_profit r2) k"
  "fld r1 ''evaluation_total_price'' = fld r2 ''evaluation_total_price'' \<Longrightarrow> fld r1 k = fld r2 k \<Longrightarrow>
   fld (derive_loans r1) k = fld (derive_loans r2) k"
  by (auto simp: derive_unit_price_def derive_tax_def derive_profit_def derive_loans_def put_field_get Let_def
      split: sum.split)

lemma watcher_at:
  assumes "form_watchers = us @ (ks, f) # vs"
    and "\<forall>g\<in>snd ` set us. \<forall>r. \<forall>j\<in>insert k (set ks). fld (g r) j = fld r j"
    and "\<forall>g\<in>snd ` set vs. \<forall>r. fld (g r) k = fld r k"
    and "\<And>r1 r2. \<forall>j\<in>insert k (set ks). fld r1 j = fld r2 j \<Longrightarrow> fld (f r1) k = fld (f r2) k"
    and "derived_by k = (ks, f') " "\<And>r. fld (f r) k = fld (f' r) k"
  shows "fld (run_watchers form_watchers old r) k =
    (if touched_any (fst (derived_by k)) old r then fld (snd (derived_by k) r) k else fld r k)"
  unfolding assms(1) using watcher_decides [OF assms(2-4)] assms(5,6) by simp

lemma loans_and_unit:
  "k \<in> {''loan_70_percent'', ''loan_80_percent'', ''loan_90_percent''} \<Longrightarrow>
     fld (derive_loans (derive_unit_price ''evaluation_total_price'' ''evaluation_unit_price'' r)) k = fld (derive_loans r) k"
  "fld (derive_loans (derive_unit_price ''evaluation_total_price'' ''evaluation_unit_price'' r)) ''evaluation_unit_price'' =
     fld (derive_unit_price ''evaluation_total_price'' ''evaluation_unit_price'' r) ''evaluation_unit_price''"
  by (rule derive_cong; auto simp: derive_keeps) (simp add: derive_keeps)

lemmas watcher_facts = form_watchers_def derived_by_def derive_keeps loans_and_unit

lemma derived_1:
  assumes "k \<in> {''starting_unit_price''}"
  shows "fld (run_watchers form_watchers old r) k =
    (if touched_any (fst (derived_by k)) old r then fld (snd (derived_by k) r) k else fld r k)"
proof (rule watcher_at [where us = "take 0 form_watchers" and vs = "drop 1 form_watchers" and
      ks = "[''starting_price'', ''building_area'']" and f = "derive_unit_price ''starting_price'' ''starting_unit_price''"])
  show "derived_by k = ([''starting_price'', ''building_area''], snd (derived_by k))"
    using assms by (auto simp: derived_by_def)
qed (use assms in \<open>auto simp: watcher_facts intro: derive_cong\<close>)

lemma derived_3:
  assumes "k \<in> {''market_unit_price''}"
  shows "fld (run_watchers form_watchers old r) k =
    (if touched_any (fst (derived_by k)) old r then fld (snd (derived_by k) r) k else fld r k)"
proof (rule watcher_at [where us = "take 2 form_watchers" and vs = "drop 3 form_watchers" and
      ks = "[''market_total_price'', ''building_area'']" and f = "derive_unit_price ''market_total_price'' ''market_unit_price''"])
  show "derived_by k = ([''market_total_price'', ''building_area''], snd (derived_by k))"
    using assms by (auto simp: derived_by_def)
qed (use assms in \<open>auto simp: watcher_facts intro: derive_cong\<close>)

lemma derived_4:
  assumes "k \<in> {''deed_tax_amount''}"
  shows "fld (run_watchers form_watchers old r) k =
    (if touched_any (fst (derived_by k)) old r then fld (snd (derived_by k) r) k else fld r k)"
proof (rule watcher_at [where us = "take 3 form_watchers" and vs = "drop 4 form_watchers" and
      ks = "[''starting_price'', ''deed_tax_rate'']" and f = "derive_tax ''deed_tax_rate'' ''deed_tax_amount''"])
  show "derived_by k = ([''starting_price'', ''deed_tax_rate''], snd (derived_by k))"
    using assms by (auto simp: derived_by_def)
qed (use assms in \<open>auto simp: watcher_facts intro: derive_cong\<close>)

lemma derived_5:
  assumes "k \<in> {''vat_amount''}"
  shows "fld (run_watchers form_watchers old r) k =
    (if touched_any (fst (derived_by k)) old r then fld (snd (derived_by k) r) k else fld r k)"
proof (rule watcher_at [where us = "take 4 form_watchers" and vs = "drop 5 form_watchers" and
      ks = "[''starting_price'', ''vat_rate'']" and f = "derive_tax ''vat_rate'' ''vat_amount''"])
  show "derived_by k = ([''starting_price'', ''vat_rate''], snd (derived_by k))"
    using assms by (auto simp: derived_by_def)
qed (use assms in \<open>auto simp: watcher_facts intro: derive_cong\<close>)

lemma derived_6:
  assumes "k \<in> {''income_tax_amount''}"
  shows "fld (run_watchers form_watchers old r) k =
    (if touched_any (fst (derived_by k)) old r then fld (snd (derived_by k) r) k else fld r k)"
proof (rule watcher_at [where us = "take 5 form_watchers" and vs = "drop 6 form_watchers" and
      ks = "[''starting_price'', ''income_tax_rate'']" and f = "derive_tax ''income_tax_rate'' ''income_tax_amount''"])
  show "derived_by k = ([''starting_price'', ''income_tax_rate''], snd (derived_by k))"
    using assms by (auto simp: derived_by_def)
qed (use assms in \<open>auto simp: watcher_facts intro: derive_cong\<close>)

lemma derived_7:
  assumes "k \<in> {''profit_space''}"
  shows "fld (run_watchers form_watchers old r) k =
    (if touched_any (fst (derived_by k)) old r then fld (snd (derived_by k) r) k else fld r k)"
proof (rule watcher_at [where us = "take 6 form_watchers" and vs = "drop 7 form_watchers" and
      ks = "[''market_total_price'', ''starting_price'']" and f = "derive_profit"])
  show "derived_by k = ([''market_total_price'', ''starting_price''], snd (derived_by k))"
    using assms by (auto simp: derived_by_def)
qed (use assms in \<open>auto simp: watcher_facts intro: derive_cong\<close>)

lemma derived_2:
  assumes "k \<in> {''evaluation_unit_price'', ''loan_70_percent'', ''loan_80_percent'', ''loan_90_percent''}"
  shows "fld (run_watchers form_watchers old r) k =
    (if touched_any (fst (derived_by k)) old r then fld (snd (derived_by k) r) k else fld r k)"
proof (rule watcher_at [where us = "take 1 form_watchers" and vs = "drop 2 form_watchers" and
      ks = "[''evaluation_total_price'', ''building_area'']" and
      f = "\<lambda>r. derive_loans (derive_unit_price ''evaluation_total_price'' ''evaluation_unit_price'' r)"])
  show "derived_by k = ([''evaluation_total_price'', ''building_area''], snd (derived_by k))"
    using assms by (auto simp: derived_by_def)
  show "fld (derive_loans (derive_unit_price ''evaluation_total_price'' ''evaluation_unit_price'' r)) k =
      fld (snd (derived_by k) r) k" for r
    using assms by (auto simp: derived_by_def loans_and_unit)
  show "fld (derive_loans (derive_unit_price ''evaluation_total_price'' ''evaluation_unit_price'' r1)) k =
      fld (derive_loans (derive_unit_price ''evaluation_total_price'' ''evaluation_unit_price'' r2)) k"
    if "\<forall>j\<in>insert k (set [''evaluation_total_price'', ''building_area'']). fld r1 j = fld r2 j" for r1 r2
    using that by (intro derive_cong) (auto simp: derive_keeps intro: derive_cong)
qed (use assms in \<open>auto simp: watcher_facts\<close>)

text \<open>The field \<open>k\<close> follows the fields \<open>ks\<close>: when one of them has changed and the condition holds, it
  becomes the text of the given number; otherwise it keeps what it had.\<close>

definition follows :: "row \<Rightarrow> row \<Rightarrow> string \<Rightarrow> string list \<Rightarrow> bool \<Rightarrow> val \<Rightarrow> bool" where
  "follows old r k ks cond x \<longleftrightarrow>
     fld (run_watchers form_watchers old r) k =
       (if (\<exists>j\<in>set ks. fld old j \<noteq> fld r j) \<and> cond then VStr (format_result x) else fld r k)"

definition percent :: "val \<Rightarrow> val" where
  "percent v = (case parse_percent v of Inr q \<Rightarrow> q | Inl _ \<Rightarrow> VNum 0)"

lemma not_pos_zero: "\<not> num_pos (VNum 0)"
  by (simp add: num_pos_def)

lemmas derived_all = derived_1 derived_2 derived_3 derived_4 derived_5 derived_6 derived_7

lemmas formula_defs = follows_def touched_any_def derive_unit_price_def derive_loans_def
  derive_tax_def derive_profit_def put_field_get percent_def

lemma unit_follows:
  assumes "fld (run_watchers form_watchers old r) k =
    (if touched_any [whole, ''building_area''] old r then fld (derive_unit_price whole k r) k else fld r k)"
  shows "follows old r k [whole, ''building_area'']
    (num_pos (parse_price (fld r whole)) \<and> num_pos (parse_price (fld r ''building_area'')))
    (num_div (parse_price (fld r whole)) (parse_price (fld r ''building_area'')))"
  using assms by (auto simp: formula_defs Let_def)

lemma tax_follows:
  assumes "fld (run_watchers form_watchers old r) k =
    (if touched_any [''starting_price'', rate] old r then fld (derive_tax rate k r) k else fld r k)"
  shows "follows old r k [''starting_price'', rate]
    (num_pos (parse_price (fld r ''starting_price'')) \<and> num_pos (percent (fld r rate)))
    (num_mul (parse_price (fld r ''starting_price'')) (percent (fld r rate)))"
  using assms by (auto simp: formula_defs not_pos_zero Let_def split: sum.split)

lemma loan_follows:
  assumes "k = ''loan_70_percent'' \<and> x = 7 / 10 \<or> k = ''loan_80_percent'' \<and> x = 8 / 10 \<or> k = ''loan_90_percent'' \<and> x = 9 / 10"
  shows "follows old r k [''evaluation_total_price'', ''building_area'']
    (num_pos (parse_price (fld r ''evaluation_total_price''))) (num_mul (parse_price (fld r ''evaluation_total_price'')) (VNum x))"
proof -
  have "derived_by k = ([''evaluation_total_price'', ''building_area''], derive_loans)"
    using assms by (auto simp: derived_by_def)
  then have "fld (run_watchers form_watchers old r) k =
      (if touched_any [''evaluation_total_price'', ''building_area''] old r then fld (derive_loans r) k else fld r k)"
    using derived_2 [of k old r] assms by auto
  with assms show ?thesis
    by (elim disjE conjE; hypsubst) (auto simp: formula_defs Let_def)
qed

lemma profit_follows:
  "follows old r ''profit_space'' [''market_total_price'', ''starting_price'']
    (num_pos (parse_price (fld r ''market_total_price'')) \<and> num_pos (parse_price (fld r ''starting_price'')))
    (num_add (parse_price (fld r ''market_total_price'')) (num_neg (parse_price (fld r ''starting_price''))))"
proof -
  have "derived_by ''profit_space'' = ([''market_total_price'', ''starting_price''], derive_profit)"
    by (simp add: derived_by_def)
  then show ?thesis
    using derived_7 [of "''profit_space''" old r] by (auto simp: formula_defs Let_def)
qed

lemma unit_fields:
  "derived_by ''starting_unit_price'' =
     ([''starting_price'', ''building_area''], derive_unit_price ''starting_price'' ''starting_unit_price'')"
  "derived_by ''evaluation_unit_price'' =
     ([''evaluation_total_price'', ''building_area''], derive_unit_price ''evaluation_total_price'' ''evaluation_unit_price'')"
  "derived_by ''market_unit_price'' =
     ([''market_total_price'', ''building_area''], derive_unit_price ''market_total_price'' ''market_unit_price'')"
  by (simp_all add: derived_by_def)

lemma tax_fields:
  "derived_by ''deed_tax_amount'' = ([''starting_price'', ''deed_tax_rate''], derive_tax ''deed_tax_rate'' ''deed_tax_amount'')"
  "derived_by ''vat_amount'' = ([''starting_price'', ''vat_rate''], derive_tax ''vat_rate'' ''vat_amount'')"
  "derived_by ''income_tax_amount'' =
     ([''starting_price'', ''income_tax_rate''], derive_tax ''income_tax_rate'' ''income_tax_amount'')"
  by (simp_all add: derived_by_def)

lemmas units_follow =
  unit_follows [OF derived_1 [of "''starting_unit_price''", simplified unit_fields fst_conv snd_conv, simplified]]
  unit_follows [OF derived_2 [of "''evaluation_unit_price''", simplified unit_fields fst_conv snd_conv, simplified]]
  unit_follows [OF derived_3 [of "''market_unit_price''", simplified unit_fields fst_conv snd_conv, simplified]]

lemmas taxes_follow =
  tax_follows [OF derived_4 [of "''deed_tax_amount''", simplified tax_fields fst_conv snd_conv, simplified]]
  tax_follows [OF derived_5 [of "''vat_amount''", simplified tax_fields fst_conv snd_conv, simplified]]
  tax_follows [OF derived_6 [of "''income_tax_amount''", simplified tax_fields fst_conv snd_conv, simplified]]

text \<open>C20. While a home is typed, the seven watchers together compute from the typed values: the three prices per
  square metre are the total price divided by the area (both positive), the loans 70, 80 and 90 percent of the
  evaluation price (when positive), the three taxes the starting price times the rate (both positive), the
  profit the market price less the starting price (both positive); each becomes the text of that number with at most
  two decimals when a field it is computed from has changed, and stays as it is otherwise; no other field changes.\<close>

theorem derived_fields_follow:
  "let p = (\<lambda>k. parse_price (fld r k)); area = p ''building_area''; start = p ''starting_price'';
       evaluation = p ''evaluation_total_price''; market = p ''market_total_price'';
       rate = (\<lambda>k. percent (fld r k)); share = (\<lambda>x. num_mul evaluation (VNum x))
   in follows old r ''starting_unit_price'' [''starting_price'', ''building_area'']
        (num_pos start \<and> num_pos area) (num_div start area) \<and>
      follows old r ''evaluation_unit_price'' [''evaluation_total_price'', ''building_area'']
        (num_pos evaluation \<and> num_pos area) (num_div evaluation area) \<and>
      follows old r ''market_unit_price'' [''market_total_price'', ''building_area'']
        (num_pos market \<and> num_pos area) (num_div market area) \<and>
      follows old r ''loan_70_percent'' [''evaluation_total_price'', ''building_area''] (num_pos evaluation) (share (70 / 100)) \<and>
      follows old r ''loan_80_percent'' [''evaluation_total_price'', ''building_area''] (num_pos evaluation) (share (80 / 100)) \<and>
      follows old r ''loan_90_percent'' [''evaluation_total_price'', ''building_area''] (num_pos evaluation) (share (90 / 100)) \<and>
      follows old r ''deed_tax_amount'' [''starting_price'', ''deed_tax_rate'']
        (num_pos start \<and> num_pos (rate ''deed_tax_rate'')) (num_mul start (rate ''deed_tax_rate'')) \<and>
      follows old r ''vat_amount'' [''starting_price'', ''vat_rate'']
        (num_pos start \<and> num_pos (rate ''vat_rate'')) (num_mul start (rate ''vat_rate'')) \<and>
      follows old r ''income_tax_amount'' [''starting_price'', ''income_tax_rate'']
        (num_pos start \<and> num_pos (rate ''income_tax_rate'')) (num_mul start (rate ''income_tax_rate'')) \<and>
      follows old r ''profit_space'' [''market_total_price'', ''starting_price'']
        (num_pos market \<and> num_pos start) (num_add market (num_neg start)) \<and>
      (\<forall>k. k \<notin> set derived_fields \<longrightarrow> fld (run_watchers form_watchers old r) k = fld r k)"
  unfolding Let_def
  by (intro conjI units_follow taxes_follow profit_follows loan_follows allI impI typed_fields_kept) simp_all

text \<open>A home of 80 square metres is typed over the empty form.\<close>

definition typed_home :: row where
  "typed_home = spread empty_home
     [(''starting_price'', VStr ''160''), (''building_area'', VStr ''80''), (''evaluation_total_price'', VStr ''200''),
      (''market_total_price'', VStr ''210''), (''deed_tax_rate'', VStr ''1.5%''), (''vat_amount'', VStr ''7'')]"

lemma typed_numbers:
  "parse_price (fld typed_home ''starting_price'') = VNum 160" "parse_price (fld typed_home ''building_area'') = VNum 80"
  "parse_price (fld typed_home ''evaluation_total_price'') = VNum 200"
  "parse_price (fld typed_home ''market_total_price'') = VNum 210"
  "percent (fld typed_home ''deed_tax_rate'') = VNum (15 / 1000)" "percent (fld typed_home ''vat_rate'') = VNum 0"
  "fld typed_home ''vat_amount'' = VStr ''7''"
  by code_simp+

lemma typed_changed:
  "fld empty_home ''starting_price'' \<noteq> fld typed_home ''starting_price''"
  "fld empty_home ''evaluation_total_price'' \<noteq> fld typed_home ''evaluation_total_price''"
  by code_simp+

theorem derived_fields_follow_witness:
  "let new = run_watchers form_watchers empty_home typed_home
   in fld new ''starting_unit_price'' = VStr (format_result (VNum 2)) \<and>
      fld new ''loan_70_percent'' = VStr (format_result (VNum 140)) \<and>
      fld new ''deed_tax_amount'' = VStr (format_result (VNum (24 / 10))) \<and> fld new ''vat_amount'' = VStr ''7'' \<and>
      fld new ''profit_space'' = VStr (format_result (VNum 50)) \<and> fld new ''building_area'' = VStr ''80''"
proof -
  have pos: "num_pos (VNum x) = (0 < x)" for x
    by (simp add: num_pos_def)
  have k: "''building_area'' \<notin> set derived_fields" "fld typed_home ''building_area'' = VStr ''80''"
    by code_simp+
  show ?thesis
    using derived_fields_follow [where old = empty_home and r = typed_home] typed_changed k
    by (simp add: Let_def follows_def typed_numbers typed_numbers(2) [unfolded k(2)] pos)
qed

text \<open>A home that is opened for editing has its prices computed again: a stored price per square metre that does not
  come from the formula is replaced before anything is typed.\<close>

lemma editing_recomputes:
  assumes "distinct (map fst r)" "num_pos (parse_price (fld r ''starting_price''))" "num_pos (parse_price (fld r ''building_area''))"
  shows "fld (run_watchers form_watchers empty_home (spread empty_home r)) ''starting_unit_price'' =
    VStr (format_result (num_div (parse_price (fld r ''starting_price'')) (parse_price (fld r ''building_area''))))"
proof -
  have z: "\<not> num_pos (parse_price VUndef)" "\<not> num_pos (parse_price (VStr []))"
    by (simp_all add: parse_price_def num_pos_def)
  have k: "''starting_price'' \<in> fst ` set r" "''building_area'' \<in> fst ` set r"
    using assms(2,3) fld_absent z(1) by metis+
  have f: "fld (spread empty_home r) ''starting_price'' = fld r ''starting_price''"
    "fld (spread empty_home r) ''building_area'' = fld r ''building_area''"
    using k by (simp_all add: fld_spread [OF assms(1)])
  have "fld empty_home ''starting_price'' = VStr []"
    by (simp add: empty_home_def)
  then have "fld empty_home ''starting_price'' \<noteq> fld r ''starting_price''"
    using assms(2) z(2) by metis
  then have t: "touched_any [''starting_price'', ''building_area''] empty_home (spread empty_home r)"
    by (simp add: touched_any_def f)
  have d: "derived_by ''starting_unit_price'' = ([''starting_price'', ''building_area''],
      derive_unit_price ''starting_price'' ''starting_unit_price'')" "''starting_unit_price'' \<in> {''starting_unit_price''}"
    by (simp_all add: derived_by_def)
  show ?thesis
    using derived_1 [OF d(2)] t assms(2,3) by (simp add: d(1) derive_unit_price_def put_field_get f)
qed

section \<open>Modules stay visible\<close>

lemma set_tab_get: "prop_or_undef (set_tab_field k v (VObj r)) k' = (if k' = k then v else fld r k')"
  by (simp add: set_tab_field_def prop_or_undef_def)

lemma one_visible:
  assumes "ts \<noteq> []" "\<forall>t\<in>set ts. \<exists>r. t = VObj r"
  shows "\<exists>t\<in>set (keep_one_visible ts). truthy (prop_or_undef t ''visible'')"
proof (cases "filter (\<lambda>t. truthy (prop_or_undef t ''visible'')) ts = []")
  case True
  obtain r where "last ts = VObj r"
    using assms last_in_set by blast
  then have "truthy (prop_or_undef (set_tab_field ''visible'' (VBool True) (last ts)) ''visible'')"
    by (simp add: set_tab_get)
  with True assms(1) show ?thesis by (simp add: keep_one_visible_def)
next
  case False
  then show ?thesis by (auto simp: keep_one_visible_def filter_empty_conv)
qed

text \<open>Whatever the order of the switches, the handler opens the last module again, not the one that was closed.\<close>

lemma last_module_reopened:
  assumes "\<forall>t\<in>set (butlast ts). \<not> truthy (prop_or_undef t ''visible'')" "ts = xs @ [VObj r]" "\<not> truthy (fld r ''visible'')"
  shows "keep_one_visible ts = xs @ [VObj (spread r [(''visible'', VBool True)])]"
  using assms by (auto simp: keep_one_visible_def set_tab_field_def filter_empty_conv prop_or_undef_def)

text \<open>The end of a drag numbers the modules in the order that they already have.\<close>

lemma drag_keeps_order:
  assumes "\<forall>t\<in>set ts. \<exists>r. t = VObj r"
  shows "map (\<lambda>t. prop_or_undef t ''key'') (drag_end ts) = map (\<lambda>t. prop_or_undef t ''key'') ts"
proof (rule nth_equalityI)
  fix i assume "i < length (map (\<lambda>t. prop_or_undef t ''key'') (drag_end ts))"
  then have i: "i < length ts" by (simp add: drag_end_def)
  then obtain r where "ts ! i = VObj r"
    using assms nth_mem by blast
  with i show "map (\<lambda>t. prop_or_undef t ''key'') (drag_end ts) ! i = map (\<lambda>t. prop_or_undef t ''key'') ts ! i"
    by (simp add: drag_end_def set_tab_get) (simp add: prop_or_undef_def)
qed (simp add: drag_end_def)

text \<open>A picture that was just uploaded is shown under an address of the browser: taking it away again leaves it in the form.\<close>

lemma preview_address_keeps_picture:
  "truthy (fld file ''url'') \<Longrightarrow> pf_images pg = VArr imgs \<Longrightarrow> \<forall>v\<in>set imgs. \<not> strict_eq v (fld file ''url'') \<Longrightarrow>
   remove_image file pg = pg"
proof -
  assume a: "truthy (fld file ''url'')" "pf_images pg = VArr imgs" "\<forall>v\<in>set imgs. \<not> strict_eq v (fld file ''url'')"
  have "remove_first (fld file ''url'') imgs = None"
    using a(3) by (induction imgs) simp_all
  with a show ?thesis by (simp add: remove_image_def file_url_def js_or_def)
qed

end
