(* ===== verification/Form_To_Mall.thy ===== *)
theory Form_To_Mall
  imports Property_Form
begin

text \<open>
  Administration and mall together: a home that is entered in the form (\<open>Property_Form\<close>), stored by the server and shown
  on the mall's detail page (\<open>H5_Detail\<close>).
\<close>

section \<open>From the form to the mall\<close>

lemma json_copy_plain: "json_plain v \<Longrightarrow> json_copy v = v"
proof (induction v rule: json_plain.induct)
  case (5 vs)
  then show ?case by (simp add: map_idI)
next
  case (6 kvs)
  have "p \<in> set kvs \<Longrightarrow> snd p \<noteq> VUndef" for p
    using 6(2) by (cases "snd p") auto
  then have "filter (\<lambda>(k, v). v \<noteq> VUndef) kvs = kvs"
    unfolding filter_id_conv by fastforce
  moreover have "map (\<lambda>(k, v). (k, json_copy v)) kvs = kvs"
    using 6 by (intro map_idI) auto
  ultimately show ?case by simp
qed simp_all

lemma serve_create_property:
  "serve w e POST [''api'', ''v1'', ''admin'', ''properties''] (server_request POST data auth) st =
     (case require_admin_token (cfg w) (server_request POST data auth) of
        Some res \<Rightarrow> (res, st) | None \<Rightarrow> with_500 e (admin_create_property e (server_request POST data auth)) st)"
  unfolding admin_path
  by (simp add: admin_mounts_def lower_words admin_words run_router_def
      admin_properties_router_def admin_guard_def catches_def split: option.split)

lemma created_over_the_network:
  assumes "adminToken (cfg w) \<noteq> []" "ad_token a = adminToken (cfg w)"
    and "truthy (body_fld (server_request POST (VObj d) (auth_of a)) ''community_name'')"
  shows "\<exists>res. call_create_property (admin_network w e) d (a, st) =
    (Axios_ok res, a, snd (properties_create (iso e) (property_form (server_request POST (VObj d) (auth_of a))) st))"
proof -
  let ?req = "server_request POST (VObj d) (auth_of a)"
  have g: "require_admin_token (cfg w) ?req = None"
    by (rule admin_token_passes) (simp_all add: assms)
  obtain p st1 where p: "properties_create (iso e) (property_form ?req) st = (p, st1)"
    by (metis prod.collapse)
  have h: "with_500 e (admin_create_property e ?req) st =
      (json_res 200 [(''success'', VBool True), (''message'', VStr msg_property_created), (''id'', fld p ''id'')], st1)"
    using assms(3) by (simp add: with_500_def admin_create_property_def p ok_res_def)
  show ?thesis
    unfolding call_create_property_def admin_request_def admin_network_def admin_urls auth_of_def [symmetric]
      serve_create_property Let_def prod.case g option.case h
    by (simp add: p axios_done_def json_res_def)
qed

lemma set_if_get: "fld (set_if v j x r) k = (if v \<noteq> VUndef \<and> k = j then x else fld r k)"
  by (simp add: set_if_def)

text \<open>The fields of a home that decide what the mall shows, after the server has stored it.\<close>

lemma stored_home:
  assumes "fld r ''images'' = VStr (json_text (VArr (map VStr urls)))" "fld r ''module_config'' = VStr (json_text mc)"
    "json_plain mc" "truthy mc"
  shows "fld (json_row (mall_detail r)) ''images'' = VArr (map VStr urls)"
    "fld (json_row (mall_detail r)) ''module_config'' = mc"
proof -
  have keys: "keys_ok (mall_detail r)"
    by (simp add: keys_ok_def mall_detail_def copy_fields_def)
  have p: "json_plain (VArr (map VStr urls))" by simp
  have ne: "json_text (VArr (map VStr urls)) \<noteq> []" by simp
  have i: "fld (mall_detail r) ''images'' = VArr (map VStr urls)"
    using json_roundtrip [OF p] ne by (simp add: mall_detail_def images_of_def assms(1))
  have "json_text mc \<noteq> []"
    using json_roundtrip [OF assms(3)] by (cases "json_text mc") (auto simp: json_parse_def)
  then have m: "fld (mall_detail r) ''module_config'' = mc"
    using json_roundtrip [OF assms(3)] by (simp add: mall_detail_def copy_fields_def module_config_of_def assms(2) Let_def)
  show "fld (json_row (mall_detail r)) ''images'' = VArr (map VStr urls)"
    using json_copy_plain [OF p] by (simp add: fld_json_row [OF keys] i)
  show "fld (json_row (mall_detail r)) ''module_config'' = mc"
    using json_copy_plain [OF assms(3)] assms(4) by (auto simp: fld_json_row [OF keys] m)
qed

lemma shown_home:
  assumes "fld r ''images'' = VArr (map VStr urls)" "urls \<noteq> []" "\<forall>u\<in>set urls. trim u \<noteq> []"
    and "fld r ''module_config'' = VObj [(''tabs'', VArr (map sent_tab ts))]"
  shows "all_images (VObj r) = Inr (map detail_image_url urls)"
    "visible_tabs (VObj r) = Inr (js_sort tab_order (map sent_tab (filter (\<lambda>t. truthy (prop_or_undef t ''visible'')) ts)))"
proof -
  have "u \<noteq> []" if "trim u \<noteq> []" for u
    using that by (auto simp: trim_def trim_start_def trim_end_def)
  then have "filterE kept_image (map VStr urls) = Inr (map VStr urls)"
    using assms(3) by (induction urls) (auto simp: kept_image_def)
  then show "all_images (VObj r) = Inr (map detail_image_url urls)"
    using assms(2) by (simp add: all_images_def images_field_def prop_or_undef_def assms(1) zero_length_def Let_def comp_def)
  have "filterE shown_tab (map sent_tab ts) = Inr (map sent_tab (filter (\<lambda>t. truthy (prop_or_undef t ''visible'')) ts))"
    by (induction ts) (simp_all add: shown_tab_def sent_tab_def)
  then show "visible_tabs (VObj r) =
      Inr (js_sort tab_order (map sent_tab (filter (\<lambda>t. truthy (prop_or_undef t ''visible'')) ts)))"
    by (simp add: visible_tabs_def tabs_of_def prop_or_undef_def assms(4) Let_def)
qed

definition saved_modules :: "form_page \<Rightarrow> val" where
  "saved_modules pg = VObj [(''tabs'', VArr (map sent_tab (pf_tabs pg)))]"

lemma submitted_fields:
  assumes "distinct (map fst (pf_form pg))" "json_plain (saved_modules pg)"
  shows "fld (json_row (submit_data pg)) ''images'' = VStr (json_text (pf_images pg))"
    "fld (json_row (submit_data pg)) ''module_config'' = saved_modules pg"
    "k \<notin> {''images'', ''cover_url'', ''module_config''} \<Longrightarrow>
       fld (json_row (submit_data pg)) k = (if fld (pf_form pg) k = VUndef then VUndef else json_copy (fld (pf_form pg) k))"
proof -
  have keys: "keys_ok (submit_data pg)"
    unfolding submit_data_def using assms(1) by (intro keys_ok_spread) (simp add: keys_ok_def)
  have "fld (submit_data pg) ''images'' = VStr (json_text (pf_images pg))"
    "fld (submit_data pg) ''module_config'' = saved_modules pg"
    "k \<notin> {''images'', ''cover_url'', ''module_config''} \<Longrightarrow> fld (submit_data pg) k = fld (pf_form pg) k"
    by (auto simp: submit_data_def saved_modules_def)
  note f = this
  show "fld (json_row (submit_data pg)) ''images'' = VStr (json_text (pf_images pg))"
    by (simp add: fld_json_row [OF keys] f(1))
  have "saved_modules pg \<noteq> VUndef" by (simp add: saved_modules_def)
  then show "fld (json_row (submit_data pg)) ''module_config'' = saved_modules pg"
    by (simp add: fld_json_row [OF keys] f(2) json_copy_plain [OF assms(2)])
  show "k \<notin> {''images'', ''cover_url'', ''module_config''} \<Longrightarrow>
       fld (json_row (submit_data pg)) k = (if fld (pf_form pg) k = VUndef then VUndef else json_copy (fld (pf_form pg) k))"
    using f(3) by (simp add: fld_json_row [OF keys])
qed

lemma property_form_fields:
  assumes "body req = VObj b" "fld b ''images'' = VStr s" "fld b ''module_config'' = VObj mc"
  shows "fld (property_form req) ''images'' = VStr s" "fld (property_form req) ''module_config'' = VStr (json_text (VObj mc))"
    "fld (property_form req) ''status'' = fld b ''status''"
  using assms by (simp_all add: property_form_def Let_def set_if_get body_fld_def body_row_def text_or_json_def)

lemma find_created:
  assumes "ids_ok (rows_of st Properties) (next_of st Properties)" "js_coalesce (fld data ''status'') (VNum 0) = VNum 1"
  shows "fst (find_mall_by_id now (VNat (next_of st Properties)) (snd (properties_create now' data st))) =
    Some (mall_detail (new_row now' (next_of st Properties) (property_row data)))"
proof -
  have "\<not> on_sale (VNat (next_of st Properties)) r" if "r \<in> set (rows_of st Properties)" for r
    using assms(1) that by (auto simp: ids_ok_def on_sale_def)
  then have none: "find (on_sale (VNat (next_of st Properties))) (rows_of st Properties) = None"
    by (simp add: find_None_iff)
  have "on_sale (VNat (next_of st Properties)) (new_row now' (next_of st Properties) (property_row data))"
    by (simp add: on_sale_def fld_new_row property_row_def assms(2))
  with none have "find (on_sale (VNat (next_of st Properties)))
      (rows_of st Properties @ [new_row now' (next_of st Properties) (property_row data)]) =
      Some (new_row now' (next_of st Properties) (property_row data))"
    by (simp add: find_app)
  then show ?thesis
    by (simp add: find_mall_by_id_def properties_create_def store_insert_result split: prod.split option.split)
qed


definition sample_form :: form_page where
  "sample_form = (open_form None)\<lparr>
     pf_form := spread empty_home [(''community_name'', VStr ''H''), (''status'', VNum 1)], pf_images := VArr [VStr ''/a.png'']\<rparr>"


end
