(* ===== verification/Note_Migration.thy ===== *)
theory Note_Migration
  imports Config
begin

text \<open>
  The migration of notes (\<^verbatim>\<open>scripts/migrate_welfare_note_to_buyer_note.ts\<close>): a script that copies the notes of
  consumed welfare codes into the orders and afterwards compares the tables with what it read before.  A table is the
  list of its rows; texts compare by \<open>coll\<close>, the sort key of the database's collation.  The snapshots that the script
  writes to files are the rows that it compares; \<open>ORDER BY\<close>, which only orders these files, is not represented.
\<close>

section \<open>Tables\<close>

record sql_db =
  sq_orders :: "row list"
  sq_items :: "row list"
  sq_codes :: "row list"

fun sql_key :: "(string \<Rightarrow> string) \<Rightarrow> val \<Rightarrow> val" where
  "sql_key coll (VStr s) = VStr (coll s)"
| "sql_key coll v = v"

text \<open>\<open>a = b\<close>, which NULL never satisfies.\<close>

definition sql_eq :: "(string \<Rightarrow> string) \<Rightarrow> val \<Rightarrow> val \<Rightarrow> bool" where
  "sql_eq coll a b \<longleftrightarrow> \<not> nullish a \<and> \<not> nullish b \<and> sql_key coll a = sql_key coll b"

definition consumed_code :: "(string \<Rightarrow> string) \<Rightarrow> row \<Rightarrow> bool" where
  "consumed_code coll w \<longleftrightarrow> sql_eq coll (fld w ''product_id'') (VNum 1) \<and> sql_eq coll (fld w ''status'') (VNum 2) \<and>
     \<not> nullish (fld w ''consumed_order_no'') \<and> \<not> sql_eq coll (fld w ''consumed_order_no'') (VStr [])"

definition code_of_order :: "(string \<Rightarrow> string) \<Rightarrow> row \<Rightarrow> row \<Rightarrow> bool" where
  "code_of_order coll w r \<longleftrightarrow> consumed_code coll w \<and> sql_eq coll (fld r ''order_no'') (fld w ''consumed_order_no'')"

definition code_matches :: "(string \<Rightarrow> string) \<Rightarrow> row \<Rightarrow> row \<Rightarrow> bool" where
  "code_matches coll w r \<longleftrightarrow> code_of_order coll w r \<and> sql_eq coll (fld r ''invite_code'') (fld w ''code'')"

text \<open>The joins of the statements.\<close>

definition note_targets :: "(string \<Rightarrow> string) \<Rightarrow> sql_db \<Rightarrow> (row \<times> row) list" where
  "note_targets coll db = filter (\<lambda>(w, r). code_of_order coll w r) (List.product (sq_codes db) (sq_orders db))"

definition target_items :: "(string \<Rightarrow> string) \<Rightarrow> sql_db \<Rightarrow> ((row \<times> row) \<times> row) list" where
  "target_items coll db =
     filter (\<lambda>((w, r), it). sql_eq coll (fld it ''order_no'') (fld r ''order_no''))
       (List.product (note_targets coll db) (sq_items db))"

section \<open>Before the change\<close>

definition text_or_empty :: "val \<Rightarrow> string" where
  "text_or_empty v = js_to_string (js_or v (VStr []))"

definition note_mismatches :: "(row \<times> row) list \<Rightarrow> (row \<times> row) list" where
  "note_mismatches ts = filter (\<lambda>(w, r). text_or_empty (fld r ''invite_code'') \<noteq> text_or_empty (fld w ''code'')) ts"

definition count_orders :: "(string \<Rightarrow> string) \<Rightarrow> sql_db \<Rightarrow> nat" where
  "count_orders coll db = length (filter (\<lambda>(w, r). code_matches coll w r) (note_targets coll db))"

definition count_items :: "(string \<Rightarrow> string) \<Rightarrow> sql_db \<Rightarrow> nat" where
  "count_items coll db = length (filter (\<lambda>((w, r), it). code_matches coll w r \<and> sql_eq coll (fld it ''sku_id'') (VNum 1))
     (target_items coll db))"

definition order_shot :: "row \<times> row \<Rightarrow> row" where
  "order_shot wr = (case wr of (w, r) \<Rightarrow>
     [(''order_no'', fld r ''order_no''), (''invite_code'', fld r ''invite_code''), (''buyer_note'', fld r ''buyer_note''),
      (''welfare_note'', fld w ''note''), (''welfare_consumed_order_no'', fld w ''consumed_order_no''),
      (''welfare_status'', fld w ''status''), (''welfare_product_id'', fld w ''product_id'')])"

definition item_shot :: "(row \<times> row) \<times> row \<Rightarrow> row" where
  "item_shot x = map (\<lambda>k. (k, fld (snd x) k))
     [''id'', ''order_no'', ''sku_id'', ''sku_title'', ''quantity'', ''sale_price'', ''total_price'', ''sku_attrs'']"

text \<open>\<open>rowsToMap\<close>: a later row with the same key replaces an earlier one.\<close>

definition rows_to_map :: "string \<Rightarrow> row list \<Rightarrow> string \<Rightarrow> row option" where
  "rows_to_map k rs = map_of (rev (map (\<lambda>r. (js_to_string (fld r k), r)) rs))"

section \<open>The change\<close>

text \<open>Each row that the join reaches is updated once.\<close>

definition copy_note :: "(string \<Rightarrow> string) \<Rightarrow> row list \<Rightarrow> row \<Rightarrow> row" where
  "copy_note coll codes r =
     (case find (\<lambda>w. code_matches coll w r) codes of
        Some w \<Rightarrow> spread r [(''buyer_note'', fld w ''note'')] | None \<Rightarrow> r)"

definition clear_attrs :: "(string \<Rightarrow> string) \<Rightarrow> row list \<Rightarrow> row list \<Rightarrow> row \<Rightarrow> row" where
  "clear_attrs coll orders codes it =
     (if sql_eq coll (fld it ''sku_id'') (VNum 1) \<and>
         list_ex (\<lambda>r. sql_eq coll (fld r ''order_no'') (fld it ''order_no'') \<and> list_ex (\<lambda>w. code_matches coll w r) codes) orders
      then spread it [(''sku_attrs'', VNull)] else it)"

definition copy_notes :: "(string \<Rightarrow> string) \<Rightarrow> sql_db \<Rightarrow> sql_db" where
  "copy_notes coll db = db\<lparr>sq_orders := map (copy_note coll (sq_codes db)) (sq_orders db)\<rparr>"

definition clear_item_attrs :: "(string \<Rightarrow> string) \<Rightarrow> sql_db \<Rightarrow> sql_db" where
  "clear_item_attrs coll db = db\<lparr>sq_items := map (clear_attrs coll (sq_orders db) (sq_codes db)) (sq_items db)\<rparr>"

text \<open>The transaction.\<close>

definition notes_written :: "(string \<Rightarrow> string) \<Rightarrow> sql_db \<Rightarrow> sql_db" where
  "notes_written coll db = clear_item_attrs coll (copy_notes coll db)"

section \<open>The check after the change\<close>

datatype check_error =
    No_before string
  | Wrong_note string
  | Code_changed string
  | No_item_before string
  | Field_changed string string
  | Attrs_left string
  | Attrs_changed string

definition text_or_null :: "val \<Rightarrow> string option" where
  "text_or_null v = (if nullish v then None else Some (js_to_string v))"

definition check_order :: "(string \<Rightarrow> row option) \<Rightarrow> row \<Rightarrow> check_error list" where
  "check_order before sh =
     (let no = js_to_string (fld sh ''order_no'') in
      case before no of
        None \<Rightarrow> [No_before no]
      | Some b \<Rightarrow>
          (if text_or_null (fld sh ''buyer_note'') \<noteq> text_or_null (fld sh ''welfare_note'') then [Wrong_note no] else []) @
          (if text_or_empty (fld b ''invite_code'') \<noteq> text_or_empty (fld sh ''invite_code'') then [Code_changed no] else []))"

definition check_item :: "(string \<Rightarrow> row option) \<Rightarrow> row \<Rightarrow> check_error list" where
  "check_item before sh =
     (let i = js_to_string (fld sh ''id'') in
      case before i of
        None \<Rightarrow> [No_item_before i]
      | Some b \<Rightarrow>
          map (Field_changed i) (filter (\<lambda>k. js_to_string (fld b k) \<noteq> js_to_string (fld sh k))
            [''order_no'', ''sku_id'', ''sku_title'', ''quantity'', ''sale_price'', ''total_price'']) @
          (if to_num (fld sh ''sku_id'') = VNum 1
           then (if fld sh ''sku_attrs'' \<noteq> VNull then [Attrs_left i] else [])
           else (if js_to_string (js_coalesce (fld b ''sku_attrs'') (VStr [])) \<noteq>
                    js_to_string (js_coalesce (fld sh ''sku_attrs'') (VStr [])) then [Attrs_changed i] else [])))"

section \<open>The script\<close>

record note_args =
  arg_apply :: bool
  arg_dry :: bool
  arg_out :: string
  arg_help :: bool

fun arg_value :: "string \<Rightarrow> string list \<Rightarrow> string option" where
  "arg_value k [] = None"
| "arg_value k (a # as) = (if a = k then (case as of [] \<Rightarrow> None | v # _ \<Rightarrow> Some v) else arg_value k as)"

definition parse_args :: "string list \<Rightarrow> note_args" where
  "parse_args argv =
     \<lparr>arg_apply = ''--apply'' \<in> set argv, arg_dry = ''--dry-run'' \<in> set argv \<or> ''--apply'' \<notin> set argv,
      arg_out = str_of (arg_value ''--out'' argv), arg_help = ''--help'' \<in> set argv \<or> ''-h'' \<in> set argv\<rparr>"

datatype note_end =
    Shows_usage
  | Inconsistent "(row \<times> row) list"
  | Dry_report nat nat nat
  | Rolled_back
  | Migrated "check_error list"

text \<open>\<open>broken\<close>: a statement of the transaction fails.\<close>

definition migrate_notes :: "(string \<Rightarrow> string) \<Rightarrow> string list \<Rightarrow> bool \<Rightarrow> sql_db \<Rightarrow> note_end \<times> sql_db" where
  "migrate_notes coll argv broken db =
     (let args = parse_args argv; ts = note_targets coll db in
      if arg_help args \<or> arg_out args = [] then (Shows_usage, db)
      else if note_mismatches ts \<noteq> [] then (Inconsistent (note_mismatches ts), db)
      else if arg_dry args then (Dry_report (length ts) (count_orders coll db) (count_items coll db), db)
      else if broken then (Rolled_back, db)
      else (let before = rows_to_map ''order_no'' (map order_shot ts);
                before_items = rows_to_map ''id'' (map item_shot (target_items coll db));
                db1 = notes_written coll db
            in (Migrated (concat (map (check_order before \<circ> order_shot) (note_targets coll db1)) @
                          concat (map (check_item before_items \<circ> item_shot) (target_items coll db1))), db1)))"

section \<open>What the script changes\<close>

text \<open>Without \<open>--apply\<close>, with \<open>--dry-run\<close> beside it, on an inconsistency and when a statement fails, the migration of
  notes leaves the tables as they are; when it applies, only the notes of orders and the attributes of items change.\<close>

theorem note_migration_is_guarded:
  "(''--apply'' \<notin> set argv \<or> ''--dry-run'' \<in> set argv \<or> broken \<or> note_mismatches (note_targets coll db) \<noteq> [] \<longrightarrow>
     snd (migrate_notes coll argv broken db) = db) \<and>
   sq_codes (snd (migrate_notes coll argv broken db)) = sq_codes db \<and>
   (\<forall>k. k \<noteq> ''buyer_note'' \<longrightarrow>
     map (\<lambda>r. fld r k) (sq_orders (snd (migrate_notes coll argv broken db))) = map (\<lambda>r. fld r k) (sq_orders db)) \<and>
   (\<forall>k. k \<noteq> ''sku_attrs'' \<longrightarrow>
     map (\<lambda>r. fld r k) (sq_items (snd (migrate_notes coll argv broken db))) = map (\<lambda>r. fld r k) (sq_items db))"
  by (auto simp: migrate_notes_def parse_args_def Let_def notes_written_def clear_item_attrs_def copy_notes_def copy_note_def clear_attrs_def
      split: option.split)

section \<open>The check passes\<close>

lemma concat_none: "concat xs = [] \<longleftrightarrow> (\<forall>x\<in>set xs. x = [])"
  by auto

lemma set_note_targets:
  "(w, r) \<in> set (note_targets coll db) \<longleftrightarrow> w \<in> set (sq_codes db) \<and> r \<in> set (sq_orders db) \<and> code_of_order coll w r"
  by (auto simp: note_targets_def)

lemma set_target_items:
  "((w, r), it) \<in> set (target_items coll db) \<longleftrightarrow>
     (w, r) \<in> set (note_targets coll db) \<and> it \<in> set (sq_items db) \<and> sql_eq coll (fld it ''order_no'') (fld r ''order_no'')"
  by (auto simp: target_items_def)

lemma fld_copy_note: "k \<noteq> ''buyer_note'' \<Longrightarrow> fld (copy_note coll codes r) k = fld r k"
  by (simp add: copy_note_def split: option.split)

lemma fld_clear_attrs: "k \<noteq> ''sku_attrs'' \<Longrightarrow> fld (clear_attrs coll orders codes it) k = fld it k"
  by (simp add: clear_attrs_def)

lemma code_of_order_copy_note [simp]: "code_of_order coll w (copy_note coll codes r) = code_of_order coll w r"
  by (simp add: code_of_order_def fld_copy_note)

lemma code_matches_copy_note [simp]: "code_matches coll w (copy_note coll codes r) = code_matches coll w r"
  by (simp add: code_matches_def fld_copy_note)

lemma rows_to_map_found:
  assumes "r \<in> set rs" and "js_to_string (fld r k) = x"
  obtains b where "rows_to_map k rs x = Some b" and "b \<in> set rs" and "js_to_string (fld b k) = x"
proof -
  have "map_of (rev (map (\<lambda>r. (js_to_string (fld r k), r)) rs)) x \<noteq> None"
    using assms by (auto simp: map_of_eq_None_iff image_iff)
  then obtain b where b: "map_of (rev (map (\<lambda>r. (js_to_string (fld r k), r)) rs)) x = Some b"
    by blast
  then have "b \<in> set rs \<and> js_to_string (fld b k) = x"
    by (auto dest: map_of_SomeD)
  with b that show thesis
    by (simp add: rows_to_map_def)
qed

lemma matched_without_mismatch:
  assumes "(w, r) \<in> set (note_targets coll db)" and "note_mismatches (note_targets coll db) = []"
    and "fld w ''code'' = VStr c" and "c \<noteq> []" and "fld r ''invite_code'' = VNull \<or> (\<exists>s. fld r ''invite_code'' = VStr s)"
  shows "code_matches coll w r"
proof -
  have "text_or_empty (fld r ''invite_code'') = text_or_empty (fld w ''code'')"
    using assms(1,2) by (force simp: note_mismatches_def filter_empty_conv)
  then have "fld r ''invite_code'' = VStr c"
    using assms(3-5) by (auto simp: text_or_empty_def js_or_def split: if_splits)
  then show ?thesis
    using assms(1,3) by (simp add: code_matches_def set_note_targets sql_eq_def)
qed

fun is_text_or_null :: "val \<Rightarrow> bool" where
  "is_text_or_null (VStr s) = True"
| "is_text_or_null VNull = True"
| "is_text_or_null _ = False"

fun is_num_or_null :: "val \<Rightarrow> bool" where
  "is_num_or_null (VNum n) = True"
| "is_num_or_null VNull = True"
| "is_num_or_null _ = False"

fun is_code :: "val \<Rightarrow> bool" where
  "is_code (VStr s) = (s \<noteq> [])"
| "is_code _ = False"

text \<open>What the tables hold: unique numbers of orders and items, one note for each order, texts where the columns are texts.\<close>

definition note_tables :: "(string \<Rightarrow> string) \<Rightarrow> sql_db \<Rightarrow> bool" where
  "note_tables coll db \<longleftrightarrow>
     distinct (map (\<lambda>r. js_to_string (fld r ''order_no'')) (sq_orders db)) \<and>
     distinct (map (\<lambda>it. js_to_string (fld it ''id'')) (sq_items db)) \<and>
     list_all (\<lambda>r. is_text_or_null (fld r ''invite_code'')) (sq_orders db) \<and>
     list_all (\<lambda>it. is_num_or_null (fld it ''sku_id'')) (sq_items db) \<and>
     list_all (\<lambda>w. is_code (fld w ''code'')) (sq_codes db) \<and>
     list_all (\<lambda>r. list_all (\<lambda>w. list_all (\<lambda>w'. code_of_order coll w r \<and> code_of_order coll w' r \<longrightarrow>
        fld w ''note'' = fld w' ''note'') (sq_codes db)) (sq_codes db)) (sq_orders db)"

lemma matched_in_tables:
  assumes tables: "note_tables coll db" and sure: "note_mismatches (note_targets coll db) = []"
    and wr: "(w, r) \<in> set (note_targets coll db)"
  shows "code_matches coll w r"
proof -
  have w: "w \<in> set (sq_codes db)" and r: "r \<in> set (sq_orders db)"
    using wr by (simp_all add: set_note_targets)
  obtain c where c: "fld w ''code'' = VStr c" "c \<noteq> []"
    using tables w by (cases "fld w ''code''") (auto simp: note_tables_def list_all_iff dest: bspec)
  have invite: "fld r ''invite_code'' = VNull \<or> (\<exists>s. fld r ''invite_code'' = VStr s)"
    using tables r by (cases "fld r ''invite_code''") (auto simp: note_tables_def list_all_iff dest: bspec)
  show ?thesis
    by (rule matched_without_mismatch [OF wr sure c invite])
qed

lemma buyer_note_written:
  assumes tables: "note_tables coll db" and sure: "note_mismatches (note_targets coll db) = []"
    and wr: "(w, r) \<in> set (note_targets coll db)"
  shows "fld (copy_note coll (sq_codes db) r) ''buyer_note'' = fld w ''note''"
proof -
  have w: "w \<in> set (sq_codes db)" and r: "r \<in> set (sq_orders db)" and of_r: "code_of_order coll w r"
    using wr by (simp_all add: set_note_targets)
  have "code_matches coll w r"
    by (rule matched_in_tables [OF tables sure wr])
  then obtain w0 where w0: "find (\<lambda>w. code_matches coll w r) (sq_codes db) = Some w0"
    using w by (cases "find (\<lambda>w. code_matches coll w r) (sq_codes db)") (auto simp: find_None_iff)
  then have "w0 \<in> set (sq_codes db)" "code_of_order coll w0 r"
    by (auto simp: find_Some_iff code_matches_def)
  then have "fld w0 ''note'' = fld w ''note''"
    using tables w r of_r unfolding note_tables_def list_all_iff by blast
  then show ?thesis
    by (simp add: copy_note_def w0)
qed

lemma check_order_after_copy:
  assumes tables: "note_tables coll db" and sure: "note_mismatches (note_targets coll db) = []"
    and wr: "(w, r) \<in> set (note_targets coll db)"
  shows "check_order (rows_to_map ''order_no'' (map order_shot (note_targets coll db)))
    (order_shot (w, copy_note coll (sq_codes db) r)) = []"
proof -
  have r: "r \<in> set (sq_orders db)"
    using wr by (simp add: set_note_targets)
  have buyer: "fld (copy_note coll (sq_codes db) r) ''buyer_note'' = fld w ''note''"
    by (rule buyer_note_written [OF tables sure wr])
  have shot: "order_shot (w, r) \<in> set (map order_shot (note_targets coll db))"
    using wr by (metis (no_types) image_eqI set_map)
  have key: "js_to_string (fld (order_shot (w, r)) ''order_no'') = js_to_string (fld r ''order_no'')"
    by (simp add: order_shot_def)
  obtain b where b: "rows_to_map ''order_no'' (map order_shot (note_targets coll db)) (js_to_string (fld r ''order_no'')) = Some b"
      "b \<in> set (map order_shot (note_targets coll db))" "js_to_string (fld b ''order_no'') = js_to_string (fld r ''order_no'')"
    by (rule rows_to_map_found [OF shot key])
  then obtain w2 r2 where b2: "b = order_shot (w2, r2)" "r2 \<in> set (sq_orders db)"
    by (auto simp: set_note_targets)
  then have "r2 = r"
    using b(3) r tables by (simp add: note_tables_def distinct_map inj_on_def order_shot_def)
  then show ?thesis
    using b(1) b2(1) buyer by (simp add: check_order_def order_shot_def fld_copy_note)
qed

lemma check_item_after_copy:
  assumes tables: "note_tables coll db" and sure: "note_mismatches (note_targets coll db) = []"
    and it: "((w, r), it) \<in> set (target_items coll db)"
  shows "check_item (rows_to_map ''id'' (map item_shot (target_items coll db)))
    (item_shot (x, clear_attrs coll (sq_orders db) (sq_codes db) it)) = []"
proof -
  let ?it' = "clear_attrs coll (sq_orders db) (sq_codes db) it"
  have wr: "(w, r) \<in> set (note_targets coll db)" and item: "it \<in> set (sq_items db)"
    and of_r: "sql_eq coll (fld it ''order_no'') (fld r ''order_no'')"
    using it by (simp_all add: set_target_items)
  have w: "w \<in> set (sq_codes db)" and r: "r \<in> set (sq_orders db)"
    using wr by (simp_all add: set_note_targets)
  have matches: "code_matches coll w r"
    by (rule matched_in_tables [OF tables sure wr])
  have sku: "to_num (fld it ''sku_id'') = VNum 1 \<longleftrightarrow> sql_eq coll (fld it ''sku_id'') (VNum 1)"
    using tables item by (cases "fld it ''sku_id''") (auto simp: note_tables_def list_all_iff sql_eq_def dest: bspec)
  have reached: "list_ex (\<lambda>r. sql_eq coll (fld r ''order_no'') (fld it ''order_no'') \<and> list_ex (\<lambda>w. code_matches coll w r) (sq_codes db))
      (sq_orders db)"
    using matches w r of_r by (auto simp: list_ex_iff sql_eq_def)
  have attrs: "fld ?it' ''sku_attrs'' = (if to_num (fld it ''sku_id'') = VNum 1 then VNull else fld it ''sku_attrs'')"
    using reached by (simp add: clear_attrs_def sku)
  have shot: "item_shot ((w, r), it) \<in> set (map item_shot (target_items coll db))"
    using it by (metis (no_types) image_eqI set_map)
  have key: "js_to_string (fld (item_shot ((w, r), it)) ''id'') = js_to_string (fld it ''id'')"
    by (simp add: item_shot_def)
  obtain b where b: "rows_to_map ''id'' (map item_shot (target_items coll db)) (js_to_string (fld it ''id'')) = Some b"
      "b \<in> set (map item_shot (target_items coll db))" "js_to_string (fld b ''id'') = js_to_string (fld it ''id'')"
    by (rule rows_to_map_found [OF shot key])
  then obtain y it2 where b2: "b = item_shot (y, it2)" "it2 \<in> set (sq_items db)"
    by (auto simp: set_target_items)
  then have "it2 = it"
    using b(3) item tables by (simp add: note_tables_def distinct_map inj_on_def item_shot_def)
  then show ?thesis
    using b(1) b2(1) attrs by (simp add: check_item_def item_shot_def fld_clear_attrs)
qed

lemma parts_of_notes_written:
  "sq_codes (notes_written coll db) = sq_codes db"
  "sq_orders (notes_written coll db) = map (copy_note coll (sq_codes db)) (sq_orders db)"
  "sq_items (notes_written coll db) = map (clear_attrs coll (map (copy_note coll (sq_codes db)) (sq_orders db)) (sq_codes db)) (sq_items db)"
  by (simp_all add: notes_written_def clear_item_attrs_def copy_notes_def)

lemma clear_attrs_after_copy [simp]:
  "clear_attrs coll (map (copy_note coll codes) orders) codes = clear_attrs coll orders codes"
  by (rule ext) (simp add: clear_attrs_def list_ex_iff fld_copy_note)

lemma product_map: "List.product ws (map f rs) = map (\<lambda>(w, r). (w, f r)) (List.product ws rs)"
  by (induction ws) auto

lemma filter_second:
  assumes "\<And>w r. P w (f r) = P w r"
  shows "filter (\<lambda>(w, r). P w r) (map (\<lambda>(w, r). (w, f r)) ts) = map (\<lambda>(w, r). (w, f r)) (filter (\<lambda>(w, r). P w r) ts)"
proof (induction ts)
  case (Cons t ts)
  then show ?case
    by (cases t) (simp add: assms)
qed simp

lemma targets_of_notes_written:
  "note_targets coll (notes_written coll db) = map (\<lambda>(w, r). (w, copy_note coll (sq_codes db) r)) (note_targets coll db)"
  unfolding note_targets_def parts_of_notes_written product_map by (rule filter_second) simp

lemma mismatches_of_notes_written:
  assumes "note_mismatches (note_targets coll db) = []"
  shows "note_mismatches (note_targets coll (notes_written coll db)) = []"
proof -
  have "note_mismatches (note_targets coll (notes_written coll db)) =
      map (\<lambda>(w, r). (w, copy_note coll (sq_codes db) r)) (note_mismatches (note_targets coll db))"
    unfolding targets_of_notes_written note_mismatches_def by (rule filter_second) (simp add: fld_copy_note)
  with assms show ?thesis
    by simp
qed

lemma note_tables_written [simp]: "note_tables coll (notes_written coll db) = note_tables coll db"
  by (simp add: note_tables_def parts_of_notes_written list.pred_map comp_def fld_copy_note fld_clear_attrs)

lemma find_copy_note:
  "find (\<lambda>w. code_matches coll w (copy_note coll codes r)) codes = find (\<lambda>w. code_matches coll w r) codes"
  by simp

lemma copy_note_twice: "copy_note coll codes (copy_note coll codes r) = copy_note coll codes r"
proof (cases "find (\<lambda>w. code_matches coll w r) codes")
  case None
  then show ?thesis
    by (simp add: copy_note_def)
next
  case (Some w)
  then have "copy_note coll codes r = spread r [(''buyer_note'', fld w ''note'')]"
    by (simp add: copy_note_def)
  moreover have "copy_note coll codes (copy_note coll codes r) = spread (copy_note coll codes r) [(''buyer_note'', fld w ''note'')]"
    using find_copy_note [of coll codes r] Some by (simp add: copy_note_def [of coll codes "copy_note coll codes r"])
  ultimately show ?thesis
    by simp
qed

lemma clear_attrs_twice: "clear_attrs coll orders codes (clear_attrs coll orders codes it) = clear_attrs coll orders codes it"
  by (simp add: clear_attrs_def)

lemma notes_written_twice: "notes_written coll (notes_written coll db) = notes_written coll db"
  by (rule sql_db.equality) (simp_all add: parts_of_notes_written copy_note_twice clear_attrs_twice comp_def)

lemma applied_migration:
  assumes tables: "note_tables coll db" and sure: "note_mismatches (note_targets coll db) = []"
    and args: "''--apply'' \<in> set argv" "''--dry-run'' \<notin> set argv" "\<not> arg_help (parse_args argv)" "arg_out (parse_args argv) \<noteq> []"
  shows "migrate_notes coll argv False db = (Migrated [], notes_written coll db)"
proof -
  have "\<forall>x\<in>set (note_targets coll (notes_written coll db)).
      check_order (rows_to_map ''order_no'' (map order_shot (note_targets coll db))) (order_shot x) = []"
    using check_order_after_copy [OF tables sure] by (auto simp: targets_of_notes_written)
  moreover have "\<forall>x\<in>set (target_items coll (notes_written coll db)).
      check_item (rows_to_map ''id'' (map item_shot (target_items coll db))) (item_shot x) = []"
  proof clarify
    fix w r' it'
    assume "((w, r'), it') \<in> set (target_items coll (notes_written coll db))"
    then obtain r it where "((w, r), it) \<in> set (target_items coll db)"
        and "it' = clear_attrs coll (sq_orders db) (sq_codes db) it"
      by (auto simp: set_target_items targets_of_notes_written parts_of_notes_written fld_copy_note fld_clear_attrs)
    then show "check_item (rows_to_map ''id'' (map item_shot (target_items coll db))) (item_shot ((w, r'), it')) = []"
      using check_item_after_copy [OF tables sure] by simp
  qed
  moreover have "\<not> arg_dry (parse_args argv)"
    using args(1,2) by (simp add: parse_args_def str_of_def)
  ultimately show ?thesis
    using args(3,4) sure by (simp add: migrate_notes_def Let_def concat_none)
qed

text \<open>C36. Over tables with unique numbers and one note for each order, the applied migration reports no error in its own
  check, writes the note of its welfare code into every order of a consumed code, and a second run changes nothing.\<close>

theorem note_migration_passes_its_check:
  assumes "note_tables coll db" and "note_mismatches (note_targets coll db) = []"
    and "''--apply'' \<in> set argv" and "''--dry-run'' \<notin> set argv"
    and "\<not> arg_help (parse_args argv)" and "arg_out (parse_args argv) \<noteq> []"
  shows "fst (migrate_notes coll argv False db) = Migrated [] \<and>
    (\<forall>x\<in>set (note_targets coll (snd (migrate_notes coll argv False db))).
       fld (snd x) ''buyer_note'' = fld (fst x) ''note'') \<and>
    migrate_notes coll argv False (snd (migrate_notes coll argv False db)) =
      (Migrated [], snd (migrate_notes coll argv False db))"
  using applied_migration [OF assms] applied_migration [OF _ mismatches_of_notes_written [OF assms(2)] assms(3-6)]
    buyer_note_written [OF assms(1,2)] assms(1)
  by (auto simp: targets_of_notes_written notes_written_twice)

definition note_db :: sql_db where
  "note_db = \<lparr>sq_orders = [[(''order_no'', VStr ''A1''), (''invite_code'', VStr ''WF1''), (''buyer_note'', VNull)],
      [(''order_no'', VStr ''A2''), (''invite_code'', VNull), (''buyer_note'', VStr ''x'')]],
    sq_items = [[(''id'', VNum 1), (''order_no'', VStr ''A1''), (''sku_id'', VNum 1), (''sku_attrs'', VStr ''n'')],
      [(''id'', VNum 2), (''order_no'', VStr ''A2''), (''sku_id'', VNum 1), (''sku_attrs'', VStr ''m'')]],
    sq_codes = [[(''code'', VStr ''WF1''), (''product_id'', VNum 1), (''status'', VNum 2), (''consumed_order_no'', VStr ''A1''),
      (''note'', VStr ''n'')]]\<rparr>"

lemma note_migration_passes_its_check_witness:
  "fst (migrate_notes id [''--apply'', ''--out'', ''o''] False note_db) = Migrated [] \<and>
   length (note_targets id note_db) = 1"
proof -
  have "note_tables id note_db" "note_mismatches (note_targets id note_db) = []" "length (note_targets id note_db) = 1"
    by code_simp+
  then show ?thesis
    using note_migration_passes_its_check [of id note_db "[''--apply'', ''--out'', ''o'']"] by (simp add: parse_args_def str_of_def)
qed

end
