(* ===== verification/Code_Migration.thy ===== *)
theory Code_Migration
  imports Note_Migration
begin

text \<open>
  The migration of the welfare codes to codes with several SKUs (\<^verbatim>\<open>scripts/migrate_welfare_codes_to_multi_sku.ts\<close>):
  one item with the default SKU for each code that has none.  The statement that fails, if one does, is an argument:
  \<open>fails n\<close> for the \<open>n\<close>-th statement.  The next automatic keys are kept when a transaction is rolled back.
\<close>

section \<open>Tables\<close>

record code_db =
  cd_skus :: "row list"
  cd_codes :: "row list"
  cd_items :: "row list"
  cd_next_sku :: nat
  cd_next_item :: nat

definition default_sku_code :: string where
  "default_sku_code = ''WELFARE_DEFAULT''"

definition default_sku_title :: string where
  "default_sku_title =
     [CHR 0xE7, CHR 0xA6, CHR 0x8F, CHR 0xE5, CHR 0x88, CHR 0xA9, CHR 0xE5, CHR 0x95,
      CHR 0x86, CHR 0xE5, CHR 0x93, CHR 0x81, CHR 0xEF, CHR 0xBC, CHR 0x88, CHR 0xE9,
      CHR 0xBB, CHR 0x98, CHR 0xE8, CHR 0xAE, CHR 0xA4, CHR 0xEF, CHR 0xBC, CHR 0x89]"

definition default_sku_attrs :: string where
  "default_sku_attrs =
     [CHR 0xE7, CHR 0xA6, CHR 0x8F, CHR 0xE5, CHR 0x88, CHR 0xA9, CHR 0xE7, CHR 0xA0,
      CHR 0x81, CHR 0xE9, CHR 0xBB, CHR 0x98, CHR 0xE8, CHR 0xAE, CHR 0xA4, CHR 0xE5,
      CHR 0x95, CHR 0x86, CHR 0xE5, CHR 0x93, CHR 0x81]"

definition default_sku_row :: "nat \<Rightarrow> row" where
  "default_sku_row i = [(''id'', VNum (of_nat i)), (''sku_code'', VStr default_sku_code), (''sku_title'', VStr default_sku_title),
     (''attrs_text'', VStr default_sku_attrs), (''price_cent'', VNum 0), (''status'', VNum 1), (''cover_url'', VNull)]"

section \<open>The steps\<close>

text \<open>The default SKU, found or created; this happens before the transaction.\<close>

definition default_sku :: "(string \<Rightarrow> string) \<Rightarrow> code_db \<Rightarrow> val \<times> code_db" where
  "default_sku coll db =
     (case find (\<lambda>s. sql_eq coll (fld s ''sku_code'') (VStr default_sku_code)) (cd_skus db) of
        Some s \<Rightarrow> (fld s ''id'', db)
      | None \<Rightarrow> (VNum (of_nat (cd_next_sku db)),
          db\<lparr>cd_skus := cd_skus db @ [default_sku_row (cd_next_sku db)], cd_next_sku := cd_next_sku db + 1\<rparr>))"

definition has_item :: "(string \<Rightarrow> string) \<Rightarrow> row list \<Rightarrow> row \<Rightarrow> bool" where
  "has_item coll items w \<longleftrightarrow> list_ex (\<lambda>it. sql_eq coll (fld it ''welfare_code_id'') (fld w ''id'')) items"

definition old_codes :: "(string \<Rightarrow> string) \<Rightarrow> code_db \<Rightarrow> row list" where
  "old_codes coll db = filter (\<lambda>w. \<not> has_item coll (cd_items db) w) (cd_codes db)"

definition column_number :: "val \<Rightarrow> val" where
  "column_number v = to_num (js_or v (VNum 0))"

definition add_code_item :: "val \<Rightarrow> row \<Rightarrow> code_db \<Rightarrow> code_db" where
  "add_code_item sku w db = db\<lparr>cd_items := cd_items db @
       [[(''id'', VNum (of_nat (cd_next_item db))), (''welfare_code_id'', fld w ''id''), (''sku_library_id'', sku),
         (''sku_code'', VStr default_sku_code), (''sku_title'', VStr default_sku_title), (''quantity'', VNum 1),
         (''price_cent'', column_number (fld w ''price_cent''))]],
     cd_next_item := cd_next_item db + 1\<rparr>"

definition set_original_price :: "(string \<Rightarrow> string) \<Rightarrow> row \<Rightarrow> code_db \<Rightarrow> code_db" where
  "set_original_price coll w db = db\<lparr>cd_codes :=
     map (\<lambda>c. if sql_eq coll (fld c ''id'') (fld w ''id'')
              then spread c [(''original_price_cent'', column_number (fld w ''price_cent''))] else c) (cd_codes db)\<rparr>"

record code_run =
  cr_ok :: bool
  cr_items :: nat
  cr_prices :: nat
  cr_db :: code_db

text \<open>The loop over the codes; \<open>n\<close> counts the statements.\<close>

fun migrate_codes :: "(string \<Rightarrow> string) \<Rightarrow> (nat \<Rightarrow> bool) \<Rightarrow> nat \<Rightarrow> val \<Rightarrow> row list \<Rightarrow> code_run \<Rightarrow> code_run" where
  "migrate_codes coll fails n sku [] run = run"
| "migrate_codes coll fails n sku (w # ws) run =
     (if fails n then run\<lparr>cr_ok := False\<rparr>
      else (let run1 = run\<lparr>cr_items := cr_items run + 1, cr_db := add_code_item sku w (cr_db run)\<rparr> in
        if column_number (fld w ''original_price_cent'') = VNum 0
        then (if fails (n + 1) then run1\<lparr>cr_ok := False\<rparr>
              else migrate_codes coll fails (n + 2) sku ws
                (run1\<lparr>cr_prices := cr_prices run1 + 1, cr_db := set_original_price coll w (cr_db run1)\<rparr>))
        else migrate_codes coll fails (n + 1) sku ws run1))"

datatype code_end = Nothing_to_migrate | Codes_migrated nat nat | Migration_failed

definition migrate_multi_sku :: "(string \<Rightarrow> string) \<Rightarrow> bool \<Rightarrow> (nat \<Rightarrow> bool) \<Rightarrow> code_db \<Rightarrow> code_end \<times> code_db" where
  "migrate_multi_sku coll unreachable fails db =
     (if unreachable then (Migration_failed, db)
      else (let (sku, db1) = default_sku coll db; ws = old_codes coll db1 in
        if ws = [] then (Nothing_to_migrate, db1)
        else (let run = migrate_codes coll fails 0 sku ws \<lparr>cr_ok = True, cr_items = 0, cr_prices = 0, cr_db = db1\<rparr> in
          if cr_ok run then (Codes_migrated (cr_items run) (cr_prices run), cr_db run)
          else (Migration_failed, db1\<lparr>cd_next_item := cd_next_item (cr_db run)\<rparr>))))"

section \<open>What the loop keeps\<close>

lemma sql_eq_refl [simp]: "sql_eq coll v v \<longleftrightarrow> \<not> nullish v"
  by (simp add: sql_eq_def)

lemma parts_of_default_sku [simp]:
  "cd_codes (snd (default_sku coll db)) = cd_codes db" "cd_items (snd (default_sku coll db)) = cd_items db"
  by (simp_all add: default_sku_def split: option.split)

lemma loop_keeps_skus:
  "cd_skus (cr_db (migrate_codes coll fails n sku ws run)) = cd_skus (cr_db run)"
  by (induction coll fails n sku ws run rule: migrate_codes.induct)
    (simp_all add: Let_def add_code_item_def set_original_price_def)

text \<open>The item that serves a code: one piece of the default SKU at the price of the code.\<close>

definition serves :: "val \<Rightarrow> row \<Rightarrow> row \<Rightarrow> bool" where
  "serves sku it w \<longleftrightarrow> fld it ''welfare_code_id'' = fld w ''id'' \<and> fld it ''sku_library_id'' = sku \<and>
     fld it ''sku_code'' = VStr default_sku_code \<and> fld it ''quantity'' = VNum 1 \<and>
     fld it ''price_cent'' = to_num (js_or (fld w ''price_cent'') (VNum 0))"

lemma served_ids: "list_all2 (serves sku) new ws \<Longrightarrow> map (\<lambda>it. fld it ''welfare_code_id'') new = map (\<lambda>w. fld w ''id'') ws"
  by (induction rule: list_all2_induct) (simp_all add: serves_def)

text \<open>Without a failing statement there is one new item for each code, in their order.\<close>

lemma items_of_set_original_price [simp]: "cd_items (set_original_price coll w db) = cd_items db"
  by (simp add: set_original_price_def)

lemma loop_adds_items:
  "cr_ok (migrate_codes coll (\<lambda>_. False) n sku ws run) = cr_ok run \<and>
   (\<exists>new. cd_items (cr_db (migrate_codes coll (\<lambda>_. False) n sku ws run)) = cd_items (cr_db run) @ new \<and>
      list_all2 (serves sku) new ws)"
proof (induction ws arbitrary: n run)
  case (Cons w ws)
  define it where "it = last (cd_items (add_code_item sku w (cr_db run)))"
  have it: "cd_items (add_code_item sku w (cr_db run)) = cd_items (cr_db run) @ [it]" "serves sku it w"
    by (simp_all add: add_code_item_def it_def fld_def serves_def column_number_def)
  obtain n' run' where next_step: "migrate_codes coll (\<lambda>_. False) n sku (w # ws) run = migrate_codes coll (\<lambda>_. False) n' sku ws run'"
      and run': "cd_items (cr_db run') = cd_items (cr_db run) @ [it]" "cr_ok run' = cr_ok run"
  proof (cases "column_number (fld w ''original_price_cent'') = VNum 0")
    case True
    then show thesis
      by (intro that [of "n + 2" "run\<lparr>cr_items := cr_items run + 1, cr_prices := cr_prices run + 1,
            cr_db := set_original_price coll w (add_code_item sku w (cr_db run))\<rparr>"]) (simp_all add: Let_def it)
  next
    case False
    then show thesis
      by (intro that [of "n + 1" "run\<lparr>cr_items := cr_items run + 1, cr_db := add_code_item sku w (cr_db run)\<rparr>"])
        (simp_all add: Let_def it)
  qed
  from Cons.IH [of n' run'] obtain new where
    "cd_items (cr_db (migrate_codes coll (\<lambda>_. False) n' sku ws run')) = cd_items (cr_db run) @ it # new"
    "list_all2 (serves sku) new ws"
    by (auto simp: run')
  with it(2) Cons.IH [of n' run'] show ?case
    unfolding next_step by (intro conjI exI [of _ "it # new"]) (simp_all add: run')
qed simp

text \<open>The original price is set for the codes whose own row is in the loop and has none.\<close>

definition no_original :: "row \<Rightarrow> bool" where
  "no_original w \<longleftrightarrow> to_num (js_or (fld w ''original_price_cent'') (VNum 0)) = VNum 0"

definition with_original :: "row \<Rightarrow> row" where
  "with_original w = spread w [(''original_price_cent'', to_num (js_or (fld w ''price_cent'') (VNum 0)))]"

definition price_step :: "(string \<Rightarrow> string) \<Rightarrow> row \<Rightarrow> row \<Rightarrow> row" where
  "price_step coll c w =
     (if no_original w \<and> sql_eq coll (fld c ''id'') (fld w ''id'')
      then spread c [(''original_price_cent'', column_number (fld w ''price_cent''))] else c)"

lemma loop_codes:
  "cd_codes (cr_db (migrate_codes coll (\<lambda>_. False) n sku ws run)) =
     map (\<lambda>c. foldl (price_step coll) c ws) (cd_codes (cr_db run))"
proof (induction ws arbitrary: n run)
  case (Cons w ws)
  show ?case
    by (simp add: Let_def Cons.IH add_code_item_def set_original_price_def price_step_def no_original_def
        column_number_def)
qed simp

lemma with_original_again: "spread (with_original c) [(''original_price_cent'', column_number (fld c ''price_cent''))] = with_original c"
  by (simp add: with_original_def column_number_def) 

lemma price_steps:
  assumes "\<forall>w\<in>set ws. sql_eq coll (fld c ''id'') (fld w ''id'') \<longrightarrow> w = c" "\<not> nullish (fld c ''id'')"
  shows "foldl (price_step coll) (with_original c) ws = with_original c"
    "foldl (price_step coll) c ws = (if c \<in> set ws \<and> no_original c then with_original c else c)"
proof -
  have i: "fld (with_original c) ''id'' = fld c ''id''"
    by (simp add: with_original_def)
  have a: "foldl (price_step coll) (with_original c) ws = with_original c"
    if "\<forall>w\<in>set ws. sql_eq coll (fld c ''id'') (fld w ''id'') \<longrightarrow> w = c" for ws
    using that by (induction ws) (auto simp: price_step_def i with_original_again [simplified])
  then show "foldl (price_step coll) (with_original c) ws = with_original c"
    using assms(1) by blast
  show "foldl (price_step coll) c ws = (if c \<in> set ws \<and> no_original c then with_original c else c)"
    using assms(1)
  proof (induction ws)
    case (Cons w ws)
    show ?case
    proof (cases "w = c")
      case True
      have "price_step coll c c = (if no_original c then with_original c else c)"
        using assms(2) by (simp add: price_step_def with_original_def column_number_def)
      then show ?thesis
        using Cons True a [of ws] by auto
    next
      case False
      then have "price_step coll c w = c"
        using Cons.prems by (auto simp: price_step_def)
      then show ?thesis
        using Cons False by auto
    qed
  qed simp
qed

section \<open>The whole script\<close>

lemma default_sku_row_code: "fld (default_sku_row i) ''sku_code'' = VStr default_sku_code"
  by (simp add: default_sku_row_def fld_def)

lemma skus_of_default_sku:
  "prefix (cd_skus db) (cd_skus (snd (default_sku coll db)))"
  "find (\<lambda>s. sql_eq coll (fld s ''sku_code'') (VStr default_sku_code)) (cd_skus (snd (default_sku coll db))) \<noteq> None"
proof -
  show "prefix (cd_skus db) (cd_skus (snd (default_sku coll db)))"
    by (simp add: default_sku_def split: option.split)
  show "find (\<lambda>s. sql_eq coll (fld s ''sku_code'') (VStr default_sku_code)) (cd_skus (snd (default_sku coll db))) \<noteq> None"
  proof (cases "find (\<lambda>s. sql_eq coll (fld s ''sku_code'') (VStr default_sku_code)) (cd_skus db)")
    case None
    then have "cd_skus (snd (default_sku coll db)) = cd_skus db @ [default_sku_row (cd_next_sku db)]"
      by (simp add: default_sku_def)
    then show ?thesis
      by (simp add: find_None_iff default_sku_row_code)
  qed (simp add: default_sku_def)
qed

lemma default_sku_again:
  "cd_skus db' = cd_skus (snd (default_sku coll db)) \<Longrightarrow> snd (default_sku coll db') = db'"
  using skus_of_default_sku(2) [of coll db] by (auto simp: default_sku_def split: option.splits)

lemma no_old_codes: "old_codes coll db = [] \<longleftrightarrow> list_all (has_item coll (cd_items db)) (cd_codes db)"
  by (simp add: old_codes_def filter_empty_conv list_all_iff)

lemma nothing_to_migrate:
  assumes "snd (default_sku coll db) = db" and "list_all (has_item coll (cd_items db)) (cd_codes db)"
  shows "migrate_multi_sku coll False fails db = (Nothing_to_migrate, db)"
  using assms by (simp add: migrate_multi_sku_def case_prod_beta no_old_codes)

text \<open>The new items serve the codes that had none.\<close>

lemma items_for_all_codes:
  assumes ids: "list_all (\<lambda>w. \<not> nullish (fld w ''id'')) codes"
    and new: "map (\<lambda>it. fld it ''welfare_code_id'') new = map (\<lambda>w. fld w ''id'') (filter (\<lambda>w. \<not> has_item coll items w) codes)"
    and kept: "map (\<lambda>w. fld w ''id'') codes' = map (\<lambda>w. fld w ''id'') codes"
  shows "list_all (has_item coll (items @ new)) codes'"
  unfolding list_all_iff
proof
  fix c assume "c \<in> set codes'"
  then have "fld c ''id'' \<in> set (map (\<lambda>w. fld w ''id'') codes)"
    unfolding kept [symmetric] by simp
  then obtain w where w: "w \<in> set codes" "fld c ''id'' = fld w ''id''"
    by auto
  show "has_item coll (items @ new) c"
  proof (cases "has_item coll items w")
    case True
    with w(2) show ?thesis
      by (simp add: has_item_def)
  next
    case False
    then have "fld w ''id'' \<in> set (map (\<lambda>it. fld it ''welfare_code_id'') new)"
      unfolding new using w(1) by simp
    then obtain it where "it \<in> set new" "fld it ''welfare_code_id'' = fld w ''id''"
      by (metis (no_types, lifting) imageE set_map)
    moreover have "\<not> nullish (fld w ''id'')"
      using ids w(1) by (simp add: list_all_iff)
    ultimately show ?thesis
      using w(2) by (auto simp: has_item_def list_ex_iff intro!: bexI [of _ it])
  qed
qed

section \<open>The whole script\<close>

text \<open>C37. A migration of welfare codes in which no statement fails (over codes with unique ids) does not fail: the items
  that were there stay in front, and behind them every code that had none, in their order, has one piece of the default
  SKU at its own price; the original price of those of them that had none becomes that price, and no other code or field
  changes; then every code has an item, and a second run finds nothing to do.\<close>

theorem multi_sku_migration_is_complete:
  assumes ids: "\<forall>w\<in>set (cd_codes db). \<not> nullish (fld w ''id'')"
    and unique: "\<forall>c\<in>set (cd_codes db). \<forall>w\<in>set (cd_codes db). sql_eq coll (fld c ''id'') (fld w ''id'') \<longrightarrow> w = c"
    and run: "migrate_multi_sku coll False (\<lambda>_. False) db = (e, db')"
  shows "e \<noteq> Migration_failed \<and>
    (\<exists>new. cd_items db' = cd_items db @ new \<and>
      list_all2 (serves (fst (default_sku coll db))) new (filter (\<lambda>w. \<not> has_item coll (cd_items db) w) (cd_codes db))) \<and>
    cd_codes db' = map (\<lambda>w. if \<not> has_item coll (cd_items db) w \<and> no_original w then with_original w else w) (cd_codes db) \<and>
    list_all (has_item coll (cd_items db')) (cd_codes db') \<and>
    migrate_multi_sku coll False (\<lambda>_. False) db' = (Nothing_to_migrate, db')"
proof -
  obtain sku db1 where sku: "default_sku coll db = (sku, db1)"
    by fastforce
  then have db1: "cd_codes db1 = cd_codes db" "cd_items db1 = cd_items db" "db1 = snd (default_sku coll db)"
    using parts_of_default_sku [of coll db] by simp_all
  define ws where "ws = old_codes coll db1"
  have ws: "ws = filter (\<lambda>w. \<not> has_item coll (cd_items db) w) (cd_codes db)"
    by (simp add: ws_def old_codes_def db1)
  define res where "res = migrate_codes coll (\<lambda>_. False) 0 sku ws
      \<lparr>cr_ok = True, cr_items = 0, cr_prices = 0, cr_db = db1\<rparr>"
  obtain new where res: "cr_ok res" "cd_items (cr_db res) = cd_items db @ new" "list_all2 (serves sku) new ws"
    using loop_adds_items [of coll 0 sku ws "\<lparr>cr_ok = True, cr_items = 0, cr_prices = 0, cr_db = db1\<rparr>"]
    by (auto simp: res_def db1(2))
  have run': "e \<noteq> Migration_failed \<and> db' = cr_db res"
    using run res(1) by (auto simp: migrate_multi_sku_def sku Let_def ws_def [symmetric] res_def split: if_splits)
  have "foldl (price_step coll) c ws = (if \<not> has_item coll (cd_items db) c \<and> no_original c then with_original c else c)"
    if "c \<in> set (cd_codes db)" for c
    using that ids unique price_steps(2) [of ws coll c] by (auto simp: ws)
  then have codes: "cd_codes (cr_db res) =
      map (\<lambda>w. if \<not> has_item coll (cd_items db) w \<and> no_original w then with_original w else w) (cd_codes db)"
    by (simp add: res_def loop_codes db1)
  then have "map (\<lambda>w. fld w ''id'') (cd_codes (cr_db res)) = map (\<lambda>w. fld w ''id'') (cd_codes db)"
    by (simp add: with_original_def)
  then have all: "list_all (has_item coll (cd_items db @ new)) (cd_codes (cr_db res))"
    using ids served_ids [OF res(3)] unfolding ws by (intro items_for_all_codes) (simp_all add: list_all_iff)
  have "cd_skus db' = cd_skus (snd (default_sku coll db))"
    using run' by (simp add: res_def loop_keeps_skus db1)
  from nothing_to_migrate [OF default_sku_again [OF this]] have "migrate_multi_sku coll False (\<lambda>_. False) db' = (Nothing_to_migrate, db')"
    using all run' res(2) by simp
  with run' res codes all show ?thesis
    by (auto simp: sku ws)
qed

definition multi_sku_db :: code_db where
  "multi_sku_db = \<lparr>cd_skus = [],
     cd_codes = [[(''id'', VNum 1), (''code'', VStr ''WF1''), (''price_cent'', VNum 100), (''original_price_cent'', VNum 100)],
       [(''id'', VNum 2), (''code'', VStr ''WF2''), (''price_cent'', VNum 300), (''original_price_cent'', VNull)]],
     cd_items = [[(''id'', VNum 1), (''welfare_code_id'', VNum 1)]], cd_next_sku = 5, cd_next_item = 2\<rparr>"

theorem multi_sku_migration_is_complete_witness:
  "let (e, db') = migrate_multi_sku id False (\<lambda>_. False) multi_sku_db
   in e = Codes_migrated 1 1 \<and> map (\<lambda>w. fld w ''original_price_cent'') (cd_codes db') = [VNum 100, VNum 300] \<and>
     list_all (has_item id (cd_items db')) (cd_codes db')"
proof -
  have "\<forall>w\<in>set (cd_codes multi_sku_db). \<not> nullish (fld w ''id'')"
    "\<forall>c\<in>set (cd_codes multi_sku_db). \<forall>w\<in>set (cd_codes multi_sku_db). sql_eq id (fld c ''id'') (fld w ''id'') \<longrightarrow> w = c"
    by (simp_all add: multi_sku_db_def sql_eq_def)
  moreover have e: "fst (migrate_multi_sku id False (\<lambda>_. False) multi_sku_db) = Codes_migrated 1 1"
    by code_simp
  moreover obtain db' where m: "migrate_multi_sku id False (\<lambda>_. False) multi_sku_db = (Codes_migrated 1 1, db')"
    using e by (metis prod.collapse)
  ultimately have all: "list_all (has_item id (cd_items db')) (cd_codes db')" and codes: "cd_codes db' =
      map (\<lambda>w. if \<not> has_item id (cd_items multi_sku_db) w \<and> no_original w then with_original w else w) (cd_codes multi_sku_db)"
    using multi_sku_migration_is_complete [of multi_sku_db id "Codes_migrated 1 1" db'] by blast+
  have "map (\<lambda>w. fld w ''original_price_cent'') (cd_codes db') = [VNum 100, VNum 300]"
    unfolding codes by code_simp
  with m all show ?thesis
    by simp
qed

text \<open>A migration in which a statement fails leaves the codes and the items as they were, but the default SKU, created
  before the transaction begins, stays.\<close>

theorem failed_multi_sku_migration_is_undone:
  assumes "migrate_multi_sku coll unreachable fails db = (Migration_failed, db')"
  shows "cd_codes db' = cd_codes db \<and> cd_items db' = cd_items db \<and> prefix (cd_skus db) (cd_skus db') \<and>
    (unreachable \<or> find (\<lambda>s. sql_eq coll (fld s ''sku_code'') (VStr default_sku_code)) (cd_skus db') \<noteq> None)"
  using assms skus_of_default_sku(1) [of db coll] skus_of_default_sku(2) [of coll db]
  by (auto simp: migrate_multi_sku_def Let_def case_prod_beta split: if_splits)

lemma failed_multi_sku_migration_is_undone_witness:
  "cd_items (snd (migrate_multi_sku id False (\<lambda>n. n = 1) multi_sku_db)) = cd_items multi_sku_db \<and>
   length (cd_skus (snd (migrate_multi_sku id False (\<lambda>n. n = 1) multi_sku_db))) = 1"
proof -
  have "fst (migrate_multi_sku id False (\<lambda>n. n = 1) multi_sku_db) = Migration_failed"
      "length (cd_skus (snd (migrate_multi_sku id False (\<lambda>n. n = 1) multi_sku_db))) = 1"
    by code_simp+
  then show ?thesis
    using failed_multi_sku_migration_is_undone [of id False "\<lambda>n. n = 1" multi_sku_db] by (metis prod.collapse)
qed

end
