(* ===== verification/Upgrade_Checks.thy ===== *)
theory Upgrade_Checks
  imports Code_Migration
begin

text \<open>
  The comparison of the orders with a backup (\<^verbatim>\<open>scripts/verify_orders_after_upgrade.ts\<close>).  A database is the
  list of its tables by name; \<open>same\<close> folds the characters that \<open>LIKE\<close> does not tell apart and \<open>coll\<close> is the sort key of
  the collation.  A name of a backup is assumed to need no quotes in a statement.  Moments are texts of one format or
  numbers.  A statement on a table that does not exist fails.
\<close>

section \<open>Statements\<close>

fun show_like :: "(char \<Rightarrow> char) \<Rightarrow> string \<Rightarrow> string \<Rightarrow> bool" where
  "show_like same [] s = (s = [])"
| "show_like same [p] s =
     (if p = CHR ''%'' then True else length s = 1 \<and> (p = CHR ''_'' \<or> same (hd s) = same p))"
| "show_like same (p # q # ps) s =
     (if p = CHR ''%'' then list_ex (show_like same (q # ps)) (suffixes s)
      else if p = CHR 0x5C then s \<noteq> [] \<and> same (hd s) = same q \<and> show_like same ps (tl s)
      else s \<noteq> [] \<and> (p = CHR ''_'' \<or> same (hd s) = same p) \<and> show_like same (q # ps) (tl s))"

text \<open>\<open>s.replace(t, u)\<close>: the first occurrence of \<open>t\<close>.\<close>

fun replace_first :: "string \<Rightarrow> string \<Rightarrow> string \<Rightarrow> string" where
  "replace_first t u [] = (if t = [] then u else [])"
| "replace_first t u (c # s) = (if prefix t (c # s) then u @ drop (length t) (c # s) else c # replace_first t u s)"

definition text_order :: "string \<Rightarrow> string \<Rightarrow> rat" where
  "text_order a b = (if js_less (VStr a) (VStr b) then - 1 else if js_less (VStr b) (VStr a) then 1 else 0)"

text \<open>\<open>MAX\<close> and \<open><=\<close>, which pass over NULL.\<close>

definition sql_max :: "val list \<Rightarrow> val" where
  "sql_max vs = foldl (\<lambda>m v. if nullish v then m else if nullish m \<or> js_less m v then v else m) VNull vs"

definition sql_leq :: "val \<Rightarrow> val \<Rightarrow> bool" where
  "sql_leq a b \<longleftrightarrow> \<not> nullish a \<and> \<not> nullish b \<and> js_leq a b"

fun sql_distinct :: "(string \<Rightarrow> string) \<Rightarrow> val list \<Rightarrow> val list" where
  "sql_distinct coll [] = []"
| "sql_distinct coll (v # vs) = v # filter (\<lambda>u. sql_key coll u \<noteq> sql_key coll v) (sql_distinct coll vs)"

definition order_by_id :: "row list \<Rightarrow> row list" where
  "order_by_id rs = js_sort (\<lambda>a b. num_diff (fld a ''id'') (fld b ''id'')) rs"

section \<open>The comparison\<close>

definition joined :: "(string \<Rightarrow> string) \<Rightarrow> row list \<Rightarrow> row \<Rightarrow> bool" where
  "joined coll rs r \<longleftrightarrow> list_ex (\<lambda>x. sql_eq coll (fld x ''order_no'') (fld r ''order_no'')) rs"

text \<open>Orders of the backup that are gone, and orders that are not in the backup but not younger than it.\<close>

definition order_diffs :: "(string \<Rightarrow> string) \<Rightarrow> row list \<Rightarrow> row list \<Rightarrow> (string \<times> row) list" where
  "order_diffs coll backup current =
     map (Pair ''backup'') (filter (\<lambda>b. \<not> joined coll current b) backup) @
     map (Pair ''current'') (filter (\<lambda>c. \<not> joined coll backup c \<and>
        sql_leq (fld c ''created_at'') (sql_max (map (\<lambda>b. fld b ''created_at'') backup))) current)"

definition item_changed :: "row \<Rightarrow> row \<Rightarrow> bool" where
  "item_changed b c \<longleftrightarrow>
     \<not> strict_eq (fld b ''sku_id'') (fld c ''sku_id'') \<or> \<not> strict_eq (fld b ''sku_title'') (fld c ''sku_title'') \<or>
     list_ex (\<lambda>k. \<not> strict_eq (to_num (fld b k)) (to_num (fld c k))) [''quantity'', ''sale_price'', ''total_price'']"

datatype item_diff = Deleted val val | Modified val val

text \<open>The items of one order: those that are gone, then those that changed.\<close>

definition group_diffs :: "(string \<Rightarrow> string) \<Rightarrow> row list \<Rightarrow> row list \<Rightarrow> val \<Rightarrow> item_diff list" where
  "group_diffs coll backup current no =
     (let bs = order_by_id (filter (\<lambda>b. sql_eq coll (fld b ''order_no'') no) backup);
          cs = order_by_id (filter (\<lambda>c. list_ex (\<lambda>b. sql_eq coll (fld c ''id'') (fld b ''id'')) bs) current)
      in if bs = [] then []
         else map (\<lambda>b. Deleted no (fld b ''id'')) (filter (\<lambda>b. \<not> list_ex (\<lambda>c. strict_eq (fld c ''id'') (fld b ''id'')) cs) bs) @
           map (\<lambda>c. Modified no (fld c ''id'')) (filter (\<lambda>c.
             case find (\<lambda>b. strict_eq (fld b ''id'') (fld c ''id'')) bs of None \<Rightarrow> False | Some b \<Rightarrow> item_changed b c) cs))"

definition item_diffs :: "(string \<Rightarrow> string) \<Rightarrow> row list \<Rightarrow> row list \<Rightarrow> item_diff list" where
  "item_diffs coll backup current =
     concat (map (group_diffs coll backup current) (sql_distinct coll (map (\<lambda>b. fld b ''order_no'') backup)))"

fun is_deleted :: "item_diff \<Rightarrow> bool" where
  "is_deleted (Deleted _ _) = True"
| "is_deleted (Modified _ _) = False"

section \<open>The report\<close>

record upgrade_report =
  ur_backup :: "string \<times> string"
  ur_counts :: "nat \<times> nat \<times> nat \<times> nat"
  ur_new_items :: nat
  ur_orders_ok :: bool
  ur_modified :: nat
  ur_deleted :: nat
  ur_valid :: bool
  ur_differences :: "item_diff list"

datatype upgrade_end = No_backup | No_item_backup | Check_failed | Reported upgrade_report

definition latest_backup :: "(char \<Rightarrow> char) \<Rightarrow> string list \<Rightarrow> string option" where
  "latest_backup same names =
     (case rev (js_sort text_order (filter (show_like same ''orders_backup_%'') names)) of [] \<Rightarrow> None | n # _ \<Rightarrow> Some n)"

definition upgrade_report_of :: "(string \<Rightarrow> string) \<Rightarrow> string \<times> string \<Rightarrow> row list \<Rightarrow> row list \<Rightarrow> row list \<Rightarrow> row list \<Rightarrow> upgrade_report" where
  "upgrade_report_of coll names b_orders orders b_items items =
     (let od = order_diffs coll b_orders orders; ds = item_diffs coll b_items items;
          deleted = length (filter is_deleted ds); modified = length (filter (\<lambda>d. \<not> is_deleted d) ds)
      in \<lparr>ur_backup = names, ur_counts = (length b_orders, length orders, length b_items, length items),
          ur_new_items = length (filter (\<lambda>r. js_less (js_coalesce (sql_max (map (\<lambda>b. fld b ''id'') b_items)) (VNum 0))
            (fld r ''id'')) items),
          ur_orders_ok = (od = []), ur_modified = modified, ur_deleted = deleted,
          ur_valid = (od = [] \<and> modified = 0 \<and> deleted = 0), ur_differences = take 50 ds\<rparr>)"

definition verify_upgrade :: "(char \<Rightarrow> char) \<Rightarrow> (string \<Rightarrow> string) \<Rightarrow> (string \<times> row list) list \<Rightarrow> upgrade_end" where
  "verify_upgrade same coll tables =
     (case latest_backup same (map fst tables) of
        None \<Rightarrow> No_backup
      | Some b \<Rightarrow>
          (let i = ''order_items_backup_'' @ replace_first ''orders_backup_'' [] b in
           if \<not> list_ex (show_like same i) (map fst tables) then No_item_backup
           else (case (map_of tables b, map_of tables ''orders'', map_of tables i, map_of tables ''order_items'') of
               (Some bo, Some o', Some bi, Some it) \<Rightarrow> Reported (upgrade_report_of coll (b, i) bo o' bi it)
             | _ \<Rightarrow> Check_failed)))"

section \<open>What a valid report means\<close>

lemma set_order_by_id [simp]: "set (order_by_id rs) = set rs"
  by (simp add: order_by_id_def)

lemma order_by_id_none [simp]: "order_by_id rs = [] \<longleftrightarrow> rs = []"
  by (metis set_empty set_order_by_id)

lemma distinct_covers:
  "(\<exists>u\<in>set (sql_distinct coll vs). P (sql_key coll u)) \<longleftrightarrow> (\<exists>v\<in>set vs. P (sql_key coll v))"
proof (induction vs)
  case (Cons v vs)
  then show ?case by auto
qed simp

lemma same_id:
  assumes "fld b ''id'' = VNum n"
  shows "sql_eq coll (fld c ''id'') (fld b ''id'') \<longleftrightarrow> fld c ''id'' = fld b ''id''"
    "strict_eq (fld c ''id'') (fld b ''id'') \<longleftrightarrow> fld c ''id'' = fld b ''id''"
  using assms by (cases "fld c ''id''"; auto simp: sql_eq_def)+

text \<open>An item of the backup is kept: it is still there, with the same values.\<close>

definition item_kept :: "row list \<Rightarrow> row \<Rightarrow> bool" where
  "item_kept current b \<longleftrightarrow> list_ex (\<lambda>c. fld c ''id'' = fld b ''id'') current \<and>
     list_all (\<lambda>c. fld c ''id'' = fld b ''id'' \<longrightarrow>
       strict_eq (fld b ''sku_id'') (fld c ''sku_id'') \<and> strict_eq (fld b ''sku_title'') (fld c ''sku_title'') \<and>
       strict_eq (to_num (fld b ''quantity'')) (to_num (fld c ''quantity'')) \<and>
       strict_eq (to_num (fld b ''sale_price'')) (to_num (fld c ''sale_price'')) \<and>
       strict_eq (to_num (fld b ''total_price'')) (to_num (fld c ''total_price''))) current"

fun is_id :: "val \<Rightarrow> bool" where
  "is_id (VNum n) = True"
| "is_id _ = False"

definition numbered :: "row list \<Rightarrow> bool" where
  "numbered rs \<longleftrightarrow> list_all (\<lambda>r. is_id (fld r ''id'')) rs \<and> distinct (map (\<lambda>r. fld r ''id'') rs)"

lemma numberedD: "numbered rs \<Longrightarrow> r \<in> set rs \<Longrightarrow> \<exists>n. fld r ''id'' = VNum n"
  by (cases "fld r ''id''") (auto simp: numbered_def list_all_iff dest: bspec)

lemma group_without_diffs:
  assumes ids: "numbered backup"
  shows "group_diffs coll backup current no = [] \<longleftrightarrow>
    (\<forall>b\<in>set backup. sql_eq coll (fld b ''order_no'') no \<longrightarrow> item_kept current b)"
proof -
  define bs where "bs = order_by_id (filter (\<lambda>b. sql_eq coll (fld b ''order_no'') no) backup)"
  define cs where "cs = order_by_id (filter (\<lambda>c. list_ex (\<lambda>b. sql_eq coll (fld c ''id'') (fld b ''id'')) bs) current)"
  have set_bs: "set bs = {b \<in> set backup. sql_eq coll (fld b ''order_no'') no}"
    by (auto simp: bs_def)
  have num: "\<exists>n. fld b ''id'' = VNum n" if "b \<in> set bs" for b
    using that ids by (auto simp: set_bs dest: numberedD)
  have eqs: "sql_eq coll (fld c ''id'') (fld b ''id'') \<longleftrightarrow> fld c ''id'' = fld b ''id''"
      "strict_eq (fld c ''id'') (fld b ''id'') \<longleftrightarrow> fld c ''id'' = fld b ''id''" if "b \<in> set bs" for b c
    using num [OF that] same_id by blast+
  have set_cs: "set cs = {c \<in> set current. \<exists>b\<in>set bs. fld c ''id'' = fld b ''id''}"
    by (auto simp: cs_def list_ex_iff eqs)
  have one: "b = b'" if "b \<in> set bs" "b' \<in> set bs" "fld b ''id'' = fld b' ''id''" for b b'
    using that ids by (auto simp: set_bs numbered_def distinct_map dest: inj_onD)
  have found: "find (\<lambda>b'. strict_eq (fld b' ''id'') (fld c ''id'')) bs = Some b"
    if "b \<in> set bs" "fld c ''id'' = fld b ''id''" for b c
  proof (cases "find (\<lambda>b'. strict_eq (fld b' ''id'') (fld c ''id'')) bs")
    case None
    then show ?thesis
      using that num [OF that(1)] by (auto simp: find_None_iff)
  next
    case (Some b')
    then have "b' \<in> set bs" "fld b' ''id'' = fld c ''id''"
      by (auto simp: find_Some_iff dest: strict_eqD)
    with one that Some show ?thesis
      by metis
  qed
  have gone: "(\<forall>b\<in>set bs. list_ex (\<lambda>c. strict_eq (fld c ''id'') (fld b ''id'')) cs) \<longleftrightarrow>
      (\<forall>b\<in>set bs. list_ex (\<lambda>c. fld c ''id'' = fld b ''id'') current)"
    by (auto simp: list_ex_iff set_cs eqs)
  have changed: "(\<forall>c\<in>set cs. \<not> (case find (\<lambda>b. strict_eq (fld b ''id'') (fld c ''id'')) bs of None \<Rightarrow> False | Some b \<Rightarrow> item_changed b c)) \<longleftrightarrow>
      (\<forall>b\<in>set bs. \<forall>c\<in>set current. fld c ''id'' = fld b ''id'' \<longrightarrow> \<not> item_changed b c)"
    using found by (auto simp: set_cs)
  have "group_diffs coll backup current no = [] \<longleftrightarrow>
      (\<forall>b\<in>set bs. list_ex (\<lambda>c. strict_eq (fld c ''id'') (fld b ''id'')) cs) \<and>
      (\<forall>c\<in>set cs. \<not> (case find (\<lambda>b. strict_eq (fld b ''id'') (fld c ''id'')) bs of None \<Rightarrow> False | Some b \<Rightarrow> item_changed b c))"
    by (simp add: group_diffs_def Let_def bs_def [symmetric] cs_def [symmetric] filter_empty_conv)
  also have "\<dots> \<longleftrightarrow> (\<forall>b\<in>set bs. item_kept current b)"
    unfolding gone changed by (simp add: item_kept_def item_changed_def list_all_iff) blast
  finally show ?thesis
    by (auto simp: set_bs)
qed

lemma no_item_diffs:
  assumes ids: "numbered backup"
  shows "item_diffs coll backup current = [] \<longleftrightarrow> (\<forall>b\<in>set backup. \<not> nullish (fld b ''order_no'') \<longrightarrow> item_kept current b)"
proof -
  have "item_diffs coll backup current = [] \<longleftrightarrow>
      (\<forall>no\<in>set (sql_distinct coll (map (\<lambda>b. fld b ''order_no'') backup)).
         \<forall>b\<in>set backup. sql_eq coll (fld b ''order_no'') no \<longrightarrow> item_kept current b)"
    by (simp add: item_diffs_def group_without_diffs [OF ids])
  also have "\<dots> \<longleftrightarrow> (\<forall>b\<in>set backup. (\<exists>no\<in>set (sql_distinct coll (map (\<lambda>b. fld b ''order_no'') backup)).
      sql_eq coll (fld b ''order_no'') no) \<longrightarrow> item_kept current b)"
    by blast
  also have "\<dots> \<longleftrightarrow> (\<forall>b\<in>set backup. \<not> nullish (fld b ''order_no'') \<longrightarrow> item_kept current b)"
  proof -
    have key: "sql_eq coll v no \<longleftrightarrow> \<not> nullish v \<and> sql_key coll no = sql_key coll v" for v no
      by (cases v; cases no) (auto simp: sql_eq_def)
    have "(\<exists>no\<in>set (sql_distinct coll (map (\<lambda>b. fld b ''order_no'') backup)). sql_eq coll (fld b ''order_no'') no) \<longleftrightarrow>
        \<not> nullish (fld b ''order_no'')" if "b \<in> set backup" for b
      using that distinct_covers [of coll "map (\<lambda>b. fld b ''order_no'') backup" "\<lambda>k. k = sql_key coll (fld b ''order_no'')"]
      by (auto simp: key)
    then show ?thesis by blast
  qed
  finally show ?thesis .
qed

text \<open>C31. The comparison after the upgrade is valid exactly when every order of the backup is still there by its number, no
  order that is not in the backup is as old as it, and every item of the backup that belongs to an order is still there
  with its SKU, title, quantity and prices.\<close>

theorem upgrade_check_is_exact:
  assumes "numbered b_items" and "verify_upgrade same coll tables = Reported r"
    and "map_of tables (fst (ur_backup r)) = Some b_orders" and "map_of tables ''orders'' = Some orders"
    and "map_of tables (snd (ur_backup r)) = Some b_items" and "map_of tables ''order_items'' = Some items"
  shows "ur_valid r \<longleftrightarrow> list_all (joined coll orders) b_orders \<and>
    list_all (\<lambda>c. joined coll b_orders c \<or>
      \<not> sql_leq (fld c ''created_at'') (sql_max (map (\<lambda>b. fld b ''created_at'') b_orders))) orders \<and>
    list_all (\<lambda>b. nullish (fld b ''order_no'') \<or> item_kept items b) b_items"
proof -
  have r: "r = upgrade_report_of coll (ur_backup r) b_orders orders b_items items"
    using assms(2-) by (auto simp: verify_upgrade_def Let_def upgrade_report_of_def split: option.splits if_splits)
  have counts: "length (filter (\<lambda>d. \<not> is_deleted d) ds) = 0 \<and> length (filter is_deleted ds) = 0 \<longleftrightarrow> ds = []" for ds
    by (induction ds) auto
  have "ur_valid r \<longleftrightarrow> order_diffs coll b_orders orders = [] \<and> item_diffs coll b_items items = []"
    by (subst r) (simp only: upgrade_report_of_def Let_def upgrade_report.simps counts)
  then show ?thesis
    unfolding no_item_diffs [OF assms(1)] by (auto simp: order_diffs_def filter_empty_conv list_all_iff)
qed

definition upgraded_tables :: "rat \<Rightarrow> rat \<Rightarrow> (string \<times> row list) list" where
  "upgraded_tables amount quantity =
     [(''orders_backup_2'', [[(''order_no'', VStr ''A1''), (''total_amount'', VNum 100), (''created_at'', VNum 5)]]),
      (''orders_backup_1'', []),
      (''orders'', [[(''order_no'', VStr ''A1''), (''total_amount'', VNum amount), (''created_at'', VNum 5)],
        [(''order_no'', VStr ''A2''), (''created_at'', VNum 9)]]),
      (''order_items_backup_2'', [[(''id'', VNum 1), (''order_no'', VStr ''A1''), (''sku_id'', VNum 1), (''sku_title'', VStr ''t''),
        (''quantity'', VNum 2), (''sale_price'', VStr ''50''), (''total_price'', VNum 100)]]),
      (''order_items'', [[(''id'', VNum 1), (''order_no'', VStr ''A1''), (''sku_id'', VNum 1), (''sku_title'', VStr ''t''),
        (''quantity'', VNum quantity), (''sale_price'', VNum 50), (''total_price'', VNum 100)]])]"

definition upgrade_valid :: "upgrade_end \<Rightarrow> bool" where
  "upgrade_valid e \<longleftrightarrow> (case e of Reported r \<Rightarrow> ur_valid r | _ \<Rightarrow> False)"

text \<open>A changed total of an order is not noticed, though the script then reports that the orders were not changed.\<close>

lemma order_amounts_not_compared:
  "upgrade_valid (verify_upgrade id id (upgraded_tables 1 2)) \<and> upgrade_valid (verify_upgrade id id (upgraded_tables 100 2))"
  by code_simp

lemma upgrade_check_is_exact_witness:
  "(\<exists>r. verify_upgrade id id (upgraded_tables 100 3) = Reported r \<and> \<not> ur_valid r)"
proof -
  have ids: "numbered (the (map_of (upgraded_tables 100 3) ''order_items_backup_2''))"
    and kept: "\<not> list_all (\<lambda>b. nullish (fld b ''order_no'') \<or> item_kept (the (map_of (upgraded_tables 100 3) ''order_items'')) b)
        (the (map_of (upgraded_tables 100 3) ''order_items_backup_2''))"
    and names: "(case verify_upgrade id id (upgraded_tables 100 3) of
        Reported r \<Rightarrow> ur_backup r = (''orders_backup_2'', ''order_items_backup_2'') | _ \<Rightarrow> False)"
    by code_simp+
  from names obtain r where r: "verify_upgrade id id (upgraded_tables 100 3) = Reported r"
      "ur_backup r = (''orders_backup_2'', ''order_items_backup_2'')"
    by (auto split: upgrade_end.splits)
  have "\<not> ur_valid r"
    using upgrade_check_is_exact [OF _ r(1), of
      "the (map_of (upgraded_tables 100 3) ''order_items_backup_2'')" "the (map_of (upgraded_tables 100 3) ''orders_backup_2'')"
      "the (map_of (upgraded_tables 100 3) ''orders'')" "the (map_of (upgraded_tables 100 3) ''order_items'')"] ids kept r(2)
    by (auto simp: upgraded_tables_def)
  with r(1) show ?thesis by blast
qed

end
