(* ===== verification/Backup_Checks.thy ===== *)
theory Backup_Checks
  imports Upgrade_Checks
begin

text \<open>
  The comparisons of the tables with backups in files (\<^verbatim>\<open>scripts/verify_order_items_migration.ts\<close>,
  \<^verbatim>\<open>scripts/verify_changelog_migration.ts\<close>), and the tool that runs the repair of the tables
  (\<^verbatim>\<open>scripts/migrate_production_db.ts\<close>).
\<close>

section \<open>Items of orders\<close>

definition is_item_backup :: "string \<Rightarrow> bool" where
  "is_item_backup f \<longleftrightarrow> prefix ''order_items_sku_backup_'' f \<and> suffix ''.json'' f"

definition latest_item_backup :: "string list \<Rightarrow> string option" where
  "latest_item_backup files =
     (case rev (js_sort text_order (filter is_item_backup files)) of [] \<Rightarrow> None | f # _ \<Rightarrow> Some f)"

definition compared_fields :: "string list" where
  "compared_fields = [''id'', ''order_no'', ''sku_id'', ''sku_title'', ''quantity'', ''sale_price'', ''total_price'']"

definition same_field :: "val \<Rightarrow> val \<Rightarrow> bool" where
  "same_field a b \<longleftrightarrow>
     (if is_num a \<or> is_num b then strict_eq (to_num a) (to_num b)
      else js_to_string (js_or a (VStr [])) = js_to_string (js_or b (VStr [])))"

text \<open>A text as it is, anything else as JSON, where \<open>undefined\<close> stays.\<close>

definition attrs_of :: "val \<Rightarrow> val" where
  "attrs_of v = (case v of VStr s \<Rightarrow> v | VUndef \<Rightarrow> VUndef | _ \<Rightarrow> VStr (json_text v))"

text \<open>The names of the fields of one record that differ; reading a record that is no object throws.\<close>

definition item_mismatches :: "val \<Rightarrow> row \<Rightarrow> js_error + string list" where
  "item_mismatches b c =
     bindE (filterE (\<lambda>k. bindE (prop_of b k) (\<lambda>v. Inr (\<not> same_field v (fld c k)))) compared_fields) (\<lambda>ks.
     bindE (prop_of b ''sku_attrs'') (\<lambda>v.
       Inr (ks @ (if strict_eq (attrs_of v) (attrs_of (fld c ''sku_attrs'')) then [] else [''sku_attrs'']))))"

record items_report =
  ir_file :: string
  ir_records :: nat
  ir_with_code :: nat
  ir_without_code :: nat
  ir_target_ok :: bool
  ir_success :: bool

datatype items_end = No_backup_file | Unreadable_backup | Count_differs | Check_throws | Fields_differ "string list" | Items_verified items_report

definition target_order_no :: string where
  "target_order_no = ''O176595870590157928''"

text \<open>The items of the one order that the script looks at, with the rows of orders that they join.\<close>

definition target_order_items :: "(string \<Rightarrow> string) \<Rightarrow> sql_db \<Rightarrow> row list" where
  "target_order_items coll db = map fst (filter (\<lambda>(it, r). sql_eq coll (fld r ''order_no'') (fld it ''order_no'') \<and>
     sql_eq coll (fld r ''order_no'') (VStr target_order_no)) (List.product (sq_items db) (sq_orders db)))"

definition verify_items :: "(string \<Rightarrow> string) \<Rightarrow> (string \<times> string) list \<Rightarrow> sql_db \<Rightarrow> items_end" where
  "verify_items coll files db =
     (case latest_item_backup (map fst files) of
        None \<Rightarrow> No_backup_file
      | Some f \<Rightarrow>
          (case json_parse (str_of (map_of files f)) of
             Some (VObj r) \<Rightarrow>
               (case fld r ''records'' of
                  VArr bs \<Rightarrow>
                    (let cs = order_by_id (sq_items db) in
                     if length bs \<noteq> length cs then Count_differs
                     else (case mapE (\<lambda>(b, c). item_mismatches b c) (zip bs cs) of
                         Inl _ \<Rightarrow> Check_throws
                       | Inr es \<Rightarrow>
                           if concat es \<noteq> [] then Fields_differ (concat es)
                           else (let target = target_order_items coll db in Items_verified
                             \<lparr>ir_file = f, ir_records = length cs,
                              ir_with_code = length (filter (\<lambda>c. truthy (fld c ''sku_code'')) cs),
                              ir_without_code = length (filter (\<lambda>c. \<not> truthy (fld c ''sku_code'')) cs),
                              ir_target_ok = (case target of [] \<Rightarrow> False | t # _ \<Rightarrow> truthy (fld t ''sku_code'')),
                              ir_success = (concat es = [])\<rparr>)))
                | _ \<Rightarrow> Unreadable_backup)
           | _ \<Rightarrow> Unreadable_backup))"

section \<open>The change log\<close>

record log_db =
  lg_tables :: "string list"
  lg_item_columns :: "string list"
  lg_orders :: nat
  lg_items :: "row list"

datatype log_end = Needs_file | Bad_file | No_log_table | No_updated_at | Orders_differ | Items_differ | Sample_differs nat | Log_verified

definition sample_differs :: "row \<times> row \<Rightarrow> bool" where
  "sample_differs cb \<longleftrightarrow> list_ex (\<lambda>k. \<not> strict_eq (fld (fst cb) k) (fld (snd cb) k)) [''id'', ''order_no'', ''sku_id'']"

text \<open>\<open>counts\<close> and \<open>items\<close> of the backup, none when the file cannot be read.\<close>

record log_backup =
  lb_orders :: val
  lb_item_count :: val
  lb_items :: "row list"

definition verify_log :: "string option \<Rightarrow> (string \<Rightarrow> log_backup option) \<Rightarrow> log_db \<Rightarrow> log_end" where
  "verify_log arg read db =
     (if \<not> str_truthy arg then Needs_file
      else (case read (str_of arg) of
          None \<Rightarrow> Bad_file
        | Some b \<Rightarrow>
            if ''order_change_log'' \<notin> set (lg_tables db) then No_log_table
            else if ''updated_at'' \<notin> set (lg_item_columns db) then No_updated_at
            else if lb_orders b \<noteq> VNum (of_nat (lg_orders db)) then Orders_differ
            else if lb_item_count b \<noteq> VNum (of_nat (length (lg_items db))) then Items_differ
            else (let bad = filter sample_differs (zip (take 100 (order_by_id (lg_items db))) (take 100 (lb_items b)))
                  in if bad \<noteq> [] then Sample_differs (length bad) else Log_verified)))"

section \<open>Repair of the tables\<close>

record db_access =
  da_host :: string
  da_port :: "int option"
  da_user :: string
  da_password :: string
  da_database :: string

definition get_db_config :: "environment \<Rightarrow> db_access" where
  "get_db_config env =
     (if str_truthy (env ''MYSQL_ADDRESS'')
      then (let parts = split_on (CHR '':'') (str_of (env ''MYSQL_ADDRESS'')) in
        \<lparr>da_host = hd parts, da_port = parse_int (if length parts < 2 \<or> parts ! 1 = [] then ''3306'' else parts ! 1),
         da_user = env_nonempty env [''MYSQL_USERNAME''] ''root'', da_password = env_nonempty env [''MYSQL_PASSWORD''] [],
         da_database = env_nonempty env [''DB_NAME''] ''jtfp_property''\<rparr>)
      else \<lparr>da_host = env_nonempty env [''DB_HOST''] ''127.0.0.1'', da_port = parse_int (env_nonempty env [''DB_PORT''] ''3306''),
         da_user = env_nonempty env [''DB_USER''] ''root'', da_password = env_nonempty env [''DB_PASSWORD''] [],
         da_database = env_nonempty env [''DB_NAME''] ''jtfp_property''\<rparr>)"

datatype tool_end = Done | Failed_exit | Refused | Shows_help

text \<open>\<open>read\<close> reads a script, \<open>reach\<close> connects, \<open>run\<close> runs the statements of a script: whether all succeed, and the database
  afterwards.\<close>

definition execute_sql_file ::
  "environment \<Rightarrow> (string \<Rightarrow> string option) \<Rightarrow> (db_access \<Rightarrow> bool) \<Rightarrow> (string \<Rightarrow> 'db \<Rightarrow> bool \<times> 'db) \<Rightarrow> string \<Rightarrow> 'db \<Rightarrow> tool_end \<times> 'db" where
  "execute_sql_file env read reach run path db =
     (case read path of
        None \<Rightarrow> (Failed_exit, db)
      | Some sql \<Rightarrow> if \<not> reach (get_db_config env) then (Failed_exit, db)
          else (let (ok, db1) = run sql db in (if ok then Done else Failed_exit, db1)))"

definition diagnose_path :: string where "diagnose_path = ''../sql/diagnose_missing_fields.sql''"
definition fix_path :: string where "fix_path = ''../sql/fix_missing_fields.sql''"

definition fix_tables ::
  "environment \<Rightarrow> (string \<Rightarrow> string option) \<Rightarrow> (db_access \<Rightarrow> bool) \<Rightarrow> (string \<Rightarrow> 'db \<Rightarrow> bool \<times> 'db) \<Rightarrow> 'db \<Rightarrow> tool_end \<times> 'db" where
  "fix_tables env read reach run db =
     (if env ''NODE_ENV'' = Some ''production'' \<and> \<not> str_truthy (env ''FORCE_MIGRATE'') then (Refused, db)
      else execute_sql_file env read reach run fix_path db)"

definition test_connection :: "environment \<Rightarrow> (db_access \<Rightarrow> bool) \<Rightarrow> tool_end" where
  "test_connection env reach = (if reach (get_db_config env) then Done else Failed_exit)"

definition migration_tool ::
  "environment \<Rightarrow> (string \<Rightarrow> string option) \<Rightarrow> (db_access \<Rightarrow> bool) \<Rightarrow> (string \<Rightarrow> 'db \<Rightarrow> bool \<times> 'db) \<Rightarrow> string option \<Rightarrow> 'db \<Rightarrow>
     tool_end \<times> 'db" where
  "migration_tool env read reach run cmd db =
     (if cmd = Some ''diagnose'' \<or> cmd = Some ''check'' then execute_sql_file env read reach run diagnose_path db
      else if cmd = Some ''fix'' \<or> cmd = Some ''migrate'' then fix_tables env read reach run db
      else if cmd = Some ''test'' \<or> cmd = Some ''test-connection'' then (test_connection env reach, db)
      else (Shows_help, db))"

section \<open>What the checks promise\<close>

lemma filterE_none:
  "filterE p xs = Inr [] \<Longrightarrow> x \<in> set xs \<Longrightarrow> p x = Inr False"
  by (induction xs) (auto split: sum.splits if_splits)

lemma mapE_nth: "mapE f xs = Inr ys \<Longrightarrow> i < length xs \<Longrightarrow> f (xs ! i) = Inr (ys ! i)"
proof (induction xs arbitrary: ys i)
  case (Cons x xs)
  then show ?case
    by (cases i) (auto split: sum.splits)
qed simp

lemma no_item_mismatches:
  assumes "item_mismatches (VObj b) c = Inr []" and "k \<in> set compared_fields"
  shows "same_field (fld b k) (fld c k)"
proof -
  have "filterE (\<lambda>k. bindE (prop_of (VObj b) k) (\<lambda>v. Inr (\<not> same_field v (fld c k)))) compared_fields = Inr []"
    using assms(1) by (auto simp: item_mismatches_def bindE_def split: sum.splits if_splits)
  from filterE_none [OF this assms(2)] show ?thesis
    by (simp add: bindE_def)
qed

text \<open>When the items are verified, the backup is a list of as many records, record by record in the order of the ids every
  compared field agrees, and the counts of rows with and without a SKU code add up.\<close>

theorem verified_items_agree:
  assumes "verify_items coll files db = Items_verified r"
  shows "ir_success r \<and> ir_with_code r + ir_without_code r = length (sq_items db) \<and>
    (\<exists>b bs. json_parse (str_of (map_of files (ir_file r))) = Some (VObj b) \<and> fld b ''records'' = VArr bs \<and>
       length bs = length (sq_items db) \<and>
       (\<forall>i<length bs. item_mismatches (bs ! i) (order_by_id (sq_items db) ! i) = Inr []))"
proof -
  obtain f where f: "latest_item_backup (map fst files) = Some f"
    using assms by (auto simp: verify_items_def split: option.splits)
  obtain b bs where b: "json_parse (str_of (map_of files f)) = Some (VObj b)" "fld b ''records'' = VArr bs"
    using assms f by (auto simp: verify_items_def Let_def split: option.splits val.splits)
  let ?cs = "order_by_id (sq_items db)"
  have len: "length bs = length ?cs"
    using assms f b by (auto simp: verify_items_def Let_def split: if_splits)
  obtain es where es: "mapE (\<lambda>(b, c). item_mismatches b c) (zip bs ?cs) = Inr es" "concat es = []"
    using assms f b len by (auto simp: verify_items_def Let_def split: if_splits sum.splits)
  have r: "ir_file r = f" "ir_success r" "ir_with_code r = length (filter (\<lambda>c. truthy (fld c ''sku_code'')) ?cs)"
      "ir_without_code r = length (filter (\<lambda>c. \<not> truthy (fld c ''sku_code'')) ?cs)"
    using assms f b len es by (auto simp: verify_items_def Let_def)
  have "item_mismatches (bs ! i) (?cs ! i) = Inr []" if "i < length bs" for i
  proof -
    have "es ! i = []"
      using es mapE_length [OF es(1)] that len by (auto simp: set_conv_nth)
    with mapE_nth [OF es(1), of i] that len show ?thesis by simp
  qed
  moreover have "length ?cs = length (sq_items db)"
    by (simp add: order_by_id_def)
  ultimately show ?thesis
    using r b len sum_length_filter_compl [of "\<lambda>c. truthy (fld c ''sku_code'')" ?cs] by auto
qed

text \<open>The check of the change log looks at three fields of the first hundred items only.\<close>

definition log_state :: "rat \<Rightarrow> log_db" where
  "log_state q = \<lparr>lg_tables = [''orders'', ''order_items'', ''order_change_log''], lg_item_columns = [''id'', ''updated_at''], lg_orders = 1,
     lg_items = [[(''id'', VNum 1), (''order_no'', VStr ''A1''), (''sku_id'', VNum 1), (''quantity'', VNum q)]]\<rparr>"

definition log_saved :: "string \<Rightarrow> log_backup option" where
  "log_saved f = Some \<lparr>lb_orders = VNum 1, lb_item_count = VNum 1, lb_items = lg_items (log_state 1)\<rparr>"

lemma log_check_passes_changed_quantity:
  "verify_log (Some ''b.json'') log_saved (log_state 1) = Log_verified \<and>
   verify_log (Some ''b.json'') log_saved (log_state 7) = Log_verified"
  by code_simp

lemma log_verified_counts:
  assumes "verify_log arg read db = Log_verified"
  shows "''order_change_log'' \<in> set (lg_tables db) \<and>
    (\<exists>b. read (str_of arg) = Some b \<and> lb_orders b = VNum (of_nat (lg_orders db)) \<and>
       lb_item_count b = VNum (of_nat (length (lg_items db))))"
  using assms by (auto simp: verify_log_def Let_def split: if_splits option.splits)

text \<open>In production the repair runs only with \<open>FORCE_MIGRATE\<close>, and only the repair and the diagnosis run statements.\<close>

theorem repair_is_guarded:
  assumes "snd (migration_tool env read reach run cmd db) \<noteq> db"
  shows "reach (get_db_config env) \<and>
    (cmd \<in> {Some ''fix'', Some ''migrate''} \<and> (env ''NODE_ENV'' = Some ''production'' \<longrightarrow> str_truthy (env ''FORCE_MIGRATE'')) \<or>
     cmd \<in> {Some ''diagnose'', Some ''check''})"
  using assms by (auto simp: migration_tool_def fix_tables_def execute_sql_file_def split: option.splits if_splits)

text \<open>An empty \<open>DB_PORT\<close> is no port for the server and the default port for the tool.\<close>

lemma empty_port_differs:
  "snd (parse_mysql_address [''DB_PORT'' \<mapsto> []]) = None \<and> da_port (get_db_config [''DB_PORT'' \<mapsto> []]) = Some 3306"
  by code_simp

end
