(* ===== verification/Import_Template.thy ===== *)
theory Import_Template
  imports Admin_Rules
begin

text \<open>
  The template of the import sheet (\<^verbatim>\<open>scripts/generate_property_template.ts\<close>, read back by
  \<^verbatim>\<open>scripts/verify_template.ts\<close>): a row of headers, from its own copy of \<^verbatim>\<open>HEADER_MAP\<close>, and a row with an
  example.  The file is the list of its rows of texts; widths and styles are left out.
\<close>

section \<open>The template\<close>

definition template_map :: "(string \<times> string) list" where
  "template_map =
    [([CHR 0xE5, CHR 0xBC, CHR 0x80, CHR 0xE6, CHR 0x8B, CHR 0x8D, CHR 0xE6, CHR 0x97,
       CHR 0xB6, CHR 0xE9, CHR 0x97, CHR 0xB4],
      ''auction_time''),
     ([CHR 0xE7, CHR 0xAB, CHR 0x9E, CHR 0xE4, CHR 0xBB, CHR 0xB7, CHR 0xE9, CHR 0x98,
       CHR 0xB6, CHR 0xE6, CHR 0xAE, CHR 0xB5],
      ''bidding_phase''),
     ([CHR 0xE5, CHR 0xB0, CHR 0x8F, CHR 0xE5, CHR 0x8C, CHR 0xBA, CHR 0xE5, CHR 0x90,
       CHR 0x8D, CHR 0xE7, CHR 0xA7, CHR 0xB0],
      ''community_name''),
     ([CHR 0xE8, CHR 0xAF, CHR 0xA6, CHR 0xE7, CHR 0xBB, CHR 0x86, CHR 0xE5, CHR 0x9C,
       CHR 0xB0, CHR 0xE5, CHR 0x9D, CHR 0x80],
      ''detail_address''),
     ([CHR 0xE5, CHR 0xBB, CHR 0xBA, CHR 0xE7, CHR 0xAD, CHR 0x91, CHR 0xE9, CHR 0x9D,
       CHR 0xA2, CHR 0xE7, CHR 0xA7, CHR 0xAF] @
      ''/'' @
      [CHR 0xE3, CHR 0x8E, CHR 0xA1],
      ''building_area''),
     ([CHR 0xE6, CHR 0x88, CHR 0xBF, CHR 0xE5, CHR 0xB1, CHR 0x8B, CHR 0xE6, CHR 0x88,
       CHR 0xB7, CHR 0xE5, CHR 0x9E, CHR 0x8B],
      ''house_type''),
     ([CHR 0xE6, CHR 0xA5, CHR 0xBC, CHR 0xE5, CHR 0xB1, CHR 0x82],
      ''floor_info''),
     ([CHR 0xE5, CHR 0xBB, CHR 0xBA, CHR 0xE7, CHR 0xAD, CHR 0x91, CHR 0xE5, CHR 0xB9,
       CHR 0xB4, CHR 0xE4, CHR 0xBB, CHR 0xBD],
      ''building_year''),
     ([CHR 0xE8, CHR 0xA3, CHR 0x85, CHR 0xE4, CHR 0xBF, CHR 0xAE, CHR 0xE6, CHR 0x83,
       CHR 0x85, CHR 0xE5, CHR 0x86, CHR 0xB5],
      ''decoration_status''),
     ([CHR 0xE7, CHR 0x89, CHR 0xA9, CHR 0xE4, CHR 0xB8, CHR 0x9A, CHR 0xE7, CHR 0x8E,
       CHR 0xB0, CHR 0xE7, CHR 0x8A, CHR 0xB6],
      ''property_status''),
     ([CHR 0xE6, CHR 0x8C, CHR 0x81, CHR 0xE6, CHR 0x9C, CHR 0x89, CHR 0xE5, CHR 0xB9,
       CHR 0xB4, CHR 0xE6, CHR 0x95, CHR 0xB0],
      ''holding_years''),
     ([CHR 0xE7, CHR 0x89, CHR 0xA9, CHR 0xE4, CHR 0xB8, CHR 0x9A, CHR 0xE7, CHR 0xB1,
       CHR 0xBB, CHR 0xE5, CHR 0x9E, CHR 0x8B],
      ''property_type''),
     ([CHR 0xE8, CHR 0xB5, CHR 0xB7, CHR 0xE6, CHR 0x8B, CHR 0x8D, CHR 0xE4, CHR 0xBB,
       CHR 0xB7],
      ''starting_price''),
     ([CHR 0xE8, CHR 0xB5, CHR 0xB7, CHR 0xE6, CHR 0x8B, CHR 0x8D, CHR 0xE5, CHR 0x8D,
       CHR 0x95, CHR 0xE4, CHR 0xBB, CHR 0xB7],
      ''starting_unit_price''),
     ([CHR 0xE7, CHR 0xAB, CHR 0x9E, CHR 0xE6, CHR 0x8B, CHR 0x8D, CHR 0xE5, CHR 0xB9,
       CHR 0xB3, CHR 0xE5, CHR 0x8F, CHR 0xB0],
      ''auction_platform''),
     ([CHR 0xE7, CHR 0xAB, CHR 0x9E, CHR 0xE6, CHR 0x8B, CHR 0x8D, CHR 0xE4, CHR 0xBF,
       CHR 0x9D, CHR 0xE8, CHR 0xAF, CHR 0x81, CHR 0xE9, CHR 0x87, CHR 0x91],
      ''auction_deposit''),
     ([CHR 0xE5, CHR 0x8A, CHR 0xA0, CHR 0xE4, CHR 0xBB, CHR 0xB7, CHR 0xE5, CHR 0xB9,
       CHR 0x85, CHR 0xE5, CHR 0xBA, CHR 0xA6],
      ''price_increment''),
     ([CHR 0xE8, CHR 0xAF, CHR 0x84, CHR 0xE4, CHR 0xBC, CHR 0xB0, CHR 0xE6, CHR 0x80,
       CHR 0xBB, CHR 0xE4, CHR 0xBB, CHR 0xB7],
      ''evaluation_total_price''),
     ([CHR 0xE8, CHR 0xAF, CHR 0x84, CHR 0xE4, CHR 0xBC, CHR 0xB0, CHR 0xE5, CHR 0x8D,
       CHR 0x95, CHR 0xE4, CHR 0xBB, CHR 0xB7],
      ''evaluation_unit_price''),
     (''7'' @
      [CHR 0xE6, CHR 0x88, CHR 0x90, CHR 0xE5, CHR 0x8F, CHR 0xAF, CHR 0xE8, CHR 0xB4,
       CHR 0xB7, CHR 0xE9, CHR 0x87, CHR 0x91, CHR 0xE9, CHR 0xA2, CHR 0x9D],
      ''loan_70_percent''),
     (''8'' @
      [CHR 0xE6, CHR 0x88, CHR 0x90, CHR 0xE5, CHR 0x8F, CHR 0xAF, CHR 0xE8, CHR 0xB4,
       CHR 0xB7, CHR 0xE9, CHR 0x87, CHR 0x91, CHR 0xE9, CHR 0xA2, CHR 0x9D],
      ''loan_80_percent''),
     (''9'' @
      [CHR 0xE6, CHR 0x88, CHR 0x90, CHR 0xE5, CHR 0x8F, CHR 0xAF, CHR 0xE8, CHR 0xB4,
       CHR 0xB7, CHR 0xE9, CHR 0x87, CHR 0x91, CHR 0xE9, CHR 0xA2, CHR 0x9D],
      ''loan_90_percent''),
     ([CHR 0xE5, CHR 0xB8, CHR 0x82, CHR 0xE5, CHR 0x9C, CHR 0xBA, CHR 0xE5, CHR 0x8F,
       CHR 0x82, CHR 0xE8, CHR 0x80, CHR 0x83, CHR 0xE6, CHR 0x80, CHR 0xBB, CHR 0xE4,
       CHR 0xBB, CHR 0xB7],
      ''market_total_price''),
     ([CHR 0xE5, CHR 0xB8, CHR 0x82, CHR 0xE5, CHR 0x9C, CHR 0xBA, CHR 0xE5, CHR 0x8F,
       CHR 0x82, CHR 0xE8, CHR 0x80, CHR 0x83, CHR 0xE5, CHR 0x8D, CHR 0x95, CHR 0xE4,
       CHR 0xBB, CHR 0xB7],
      ''market_unit_price''),
     ([CHR 0xE5, CHR 0xAD, CHR 0xA6, CHR 0xE5, CHR 0x8C, CHR 0xBA],
      ''school_district''),
     ([CHR 0xE5, CHR 0x95, CHR 0x86, CHR 0xE5, CHR 0x9C, CHR 0x88],
      ''business_circle''),
     ([CHR 0xE6, CHR 0x8D, CHR 0xA1, CHR 0xE6, CHR 0xBC, CHR 0x8F, CHR 0xE7, CHR 0xA9,
       CHR 0xBA, CHR 0xE9, CHR 0x97, CHR 0xB4],
      ''profit_space''),
     ([CHR 0xE6, CHR 0x8E, CHR 0x88, CHR 0xE6, CHR 0x9D, CHR 0x83, CHR 0xE7, CHR 0xA0,
       CHR 0x81],
      ''auth_code''),
     ([CHR 0xE5, CHR 0xA5, CHR 0x91, CHR 0xE7, CHR 0xA8, CHR 0x8E, CHR 0xE7, CHR 0x8E,
       CHR 0x87],
      ''deed_tax_rate''),
     ([CHR 0xE5, CHR 0xA5, CHR 0x91, CHR 0xE7, CHR 0xA8, CHR 0x8E, CHR 0xE9, CHR 0x87,
       CHR 0x91, CHR 0xE9, CHR 0xA2, CHR 0x9D],
      ''deed_tax_amount''),
     ([CHR 0xE5, CHR 0xA2, CHR 0x9E, CHR 0xE5, CHR 0x80, CHR 0xBC, CHR 0xE7, CHR 0xA8,
       CHR 0x8E, CHR 0xE7, CHR 0x8E, CHR 0x87],
      ''vat_rate''),
     ([CHR 0xE5, CHR 0xA2, CHR 0x9E, CHR 0xE5, CHR 0x80, CHR 0xBC, CHR 0xE7, CHR 0xA8,
       CHR 0x8E, CHR 0xE9, CHR 0x87, CHR 0x91, CHR 0xE9, CHR 0xA2, CHR 0x9D],
      ''vat_amount''),
     ([CHR 0xE4, CHR 0xB8, CHR 0xAA, CHR 0xE7, CHR 0xA8, CHR 0x8E, CHR 0xE7, CHR 0x8E,
       CHR 0x87],
      ''income_tax_rate''),
     ([CHR 0xE4, CHR 0xB8, CHR 0xAA, CHR 0xE7, CHR 0xA8, CHR 0x8E, CHR 0xE9, CHR 0x87,
       CHR 0x91, CHR 0xE9, CHR 0xA2, CHR 0x9D],
      ''income_tax_amount''),
     ([CHR 0xE5, CHR 0xAE, CHR 0xA2, CHR 0xE6, CHR 0x88, CHR 0xB7, CHR 0xE5, CHR 0xA7,
       CHR 0x93, CHR 0xE5, CHR 0x90, CHR 0x8D],
      ''customer_name''),
     ([CHR 0xE5, CHR 0xAE, CHR 0xA2, CHR 0xE6, CHR 0x88, CHR 0xB7, CHR 0xE8, CHR 0x81,
       CHR 0x94, CHR 0xE7, CHR 0xB3, CHR 0xBB, CHR 0xE5, CHR 0x8F, CHR 0xB7, CHR 0xE7,
       CHR 0xA0, CHR 0x81],
      ''customer_phone''),
     ([CHR 0xE5, CHR 0xAE, CHR 0xA2, CHR 0xE6, CHR 0x88, CHR 0xB7, CHR 0xE5, CHR 0xB0,
       CHR 0xBD, CHR 0xE8, CHR 0xB0, CHR 0x83, CHR 0xE7, CHR 0xAE, CHR 0x80, CHR 0xE4,
       CHR 0xBB, CHR 0x8B],
      ''customer_survey_brief''),
     ([CHR 0xE5, CHR 0xBD, CHR 0x92, CHR 0xE5, CHR 0xB1, CHR 0x9E, CHR 0xE4, CHR 0xB8,
       CHR 0x9A, CHR 0xE5, CHR 0x8A, CHR 0xA1, CHR 0xE5, CHR 0x91, CHR 0x98],
      ''assigned_salesman''),
     (''unionID'',
      ''unionID''),
     (''OpenID'',
      ''openID'')]"

definition template_headers :: "string list" where
  "template_headers = map fst template_map"

definition template_example :: "string list" where
  "template_example =
    [''2026-02-01 10:00'',
     [CHR 0xE4, CHR 0xB8, CHR 0x80, CHR 0xE6, CHR 0x8B, CHR 0x8D],
     [CHR 0xE7, CHR 0xA4, CHR 0xBA, CHR 0xE4, CHR 0xBE, CHR 0x8B, CHR 0xE5, CHR 0xB0,
      CHR 0x8F, CHR 0xE5, CHR 0x8C, CHR 0xBA],
     ''XX'' @
     [CHR 0xE5, CHR 0xB8, CHR 0x82] @
     ''XX'' @
     [CHR 0xE5, CHR 0x8C, CHR 0xBA] @
     ''XX'' @
     [CHR 0xE8, CHR 0xB7, CHR 0xAF] @
     ''XX'' @
     [CHR 0xE5, CHR 0x8F, CHR 0xB7],
     ''89.5'',
     ''3'' @
     [CHR 0xE5, CHR 0xAE, CHR 0xA4] @
     ''2'' @
     [CHR 0xE5, CHR 0x8E, CHR 0x85],
     ''12/26'',
     ''2010'',
     [CHR 0xE7, CHR 0xB2, CHR 0xBE, CHR 0xE8, CHR 0xA3, CHR 0x85],
     [CHR 0xE7, CHR 0xA9, CHR 0xBA, CHR 0xE7, CHR 0xBD, CHR 0xAE],
     ''5'' @
     [CHR 0xE5, CHR 0xB9, CHR 0xB4],
     [CHR 0xE4, CHR 0xBD, CHR 0x8F, CHR 0xE5, CHR 0xAE, CHR 0x85],
     ''200'',
     ''2.2'',
     [CHR 0xE4, CHR 0xBA, CHR 0xAC, CHR 0xE4, CHR 0xB8, CHR 0x9C, CHR 0xE5, CHR 0x8F,
      CHR 0xB8, CHR 0xE6, CHR 0xB3, CHR 0x95, CHR 0xE6, CHR 0x8B, CHR 0x8D, CHR 0xE5,
      CHR 0x8D, CHR 0x96],
     ''20'',
     ''1'',
     ''300'',
     ''3.3'',
     ''210'',
     ''240'',
     ''270'',
     ''320'',
     ''3.5'',
     ''XX'' @
     [CHR 0xE5, CHR 0xB0, CHR 0x8F, CHR 0xE5, CHR 0xAD, CHR 0xA6],
     [CHR 0xE5, CHR 0xB8, CHR 0x82, CHR 0xE4, CHR 0xB8, CHR 0xAD, CHR 0xE5, CHR 0xBF,
      CHR 0x83],
     ''20'',
     ''AUTH123'',
     ''1%'',
     ''3'',
     ''5%'',
     ''15'',
     ''1%'',
     ''3'',
     [CHR 0xE5, CHR 0xBC, CHR 0xA0, CHR 0xE4, CHR 0xB8, CHR 0x89],
     ''13800138000'',
     [CHR 0xE5, CHR 0xAE, CHR 0xA2, CHR 0xE6, CHR 0x88, CHR 0xB7, CHR 0xE8, CHR 0xAF,
      CHR 0x9A, CHR 0xE6, CHR 0x84, CHR 0x8F, CHR 0xE5, CHR 0xBA, CHR 0xA6, CHR 0xE9,
      CHR 0xAB, CHR 0x98],
     [CHR 0xE4, CHR 0xB8, CHR 0x9A, CHR 0xE5, CHR 0x8A, CHR 0xA1, CHR 0xE5, CHR 0x91,
      CHR 0x98] @
     ''A'',
     ''UID123'',
     ''OID123'']"

definition generate_template :: "string list list" where
  "generate_template = [template_headers, template_example]"

text \<open>What the second script reads back: the headers, and how many cells the example has.\<close>

definition verify_template :: "string list list option \<Rightarrow> (string list \<times> nat) option" where
  "verify_template file = (case file of None \<Rightarrow> None | Some rows \<Rightarrow>
     Some (case rows of h # _ \<Rightarrow> h | [] \<Rightarrow> [], case rows of _ # e # _ \<Rightarrow> length e | _ \<Rightarrow> 0))"

text \<open>A row of texts as the server's reader gives it.\<close>

definition text_cells :: "string list \<Rightarrow> (nat \<times> cell) list" where
  "text_cells ts = zip [1..<Suc (length ts)] (map (\<lambda>t. \<lparr>cv = Plain (VStr t), numFmt = []\<rparr>) ts)"

definition uploaded :: "string list list \<Rightarrow> upload" where
  "uploaded rows = (case rows of [] \<Rightarrow> No_sheet | h # rs \<Rightarrow> Sheet (text_cells h) (map text_cells rs))"

section \<open>The template and the import agree\<close>

lemma template_map_is_header_map: "template_map = header_map"
  by (simp add: template_map_def header_map_def)

lemma header_facts:
  "distinct (map fst header_map)" "distinct (map snd header_map)" "list_all (\<lambda>h. h \<noteq> [] \<and> trim h = h) (map fst header_map)"
  "length header_map = 40" "snd (header_map ! 2) = ''community_name''"
  by code_simp+

definition filled :: "string list \<Rightarrow> bool" where
  "filled ts \<longleftrightarrow> length ts = 40 \<and> list_all (\<lambda>t. t \<noteq> [] \<and> trim t = t) ts"

definition fields_of_texts :: "string list \<Rightarrow> row" where
  "fields_of_texts ts = zip (map snd header_map) (map VStr ts)"

definition template_columns :: "(nat \<times> string) list" where
  "template_columns = zip [1..<41] (map fst header_map)"

lemma columns_of_template: "map (\<lambda>(k, c). (k, header_text c)) (text_cells template_headers) = template_columns"
proof -
  have "map (\<lambda>t. header_text \<lparr>cv = Plain (VStr t), numFmt = []\<rparr>) template_headers = template_headers"
    using header_facts(3) by (intro map_idI) (auto simp: template_headers_def template_map_is_header_map header_text_def list_all_iff)
  moreover have "length template_headers = 40"
    by (simp add: template_headers_def template_map_is_header_map header_facts(4))
  ultimately show ?thesis
    by (auto simp: text_cells_def template_columns_def zip_map2 comp_def case_prod_beta template_headers_def
        template_map_is_header_map simp del: upt_Suc upt_rec_numeral dest!: set_zip_rightD)
qed

lemma import_template_cell:
  assumes "i < 40" and "t \<noteq> []" and "trim t = t"
  shows "import_cell template_columns (Suc i, \<lparr>cv = Plain (VStr t), numFmt = []\<rparr>) r = spread r [(snd (header_map ! i), VStr t)]"
proof -
  have "map_of template_columns (Suc i) = Some (fst (header_map ! i))"
    using assms(1) header_facts(4) unfolding template_columns_def
    by (intro map_of_is_SomeI) (auto simp: in_set_zip simp del: upt_rec_numeral intro!: exI [of _ i])
  moreover have "map_of header_map (fst (header_map ! i)) = Some (snd (header_map ! i))"
    using assms(1) header_facts(1,4) by (intro map_of_is_SomeI) auto
  moreover have "fst (header_map ! i) \<noteq> []"
    using assms(1) header_facts(3,4) by (auto simp: list_all_iff)
  ultimately show ?thesis
    using assms(2,3) by (simp add: import_cell_def auction_time_value_def field_value_def js_or_def)
qed

lemma import_template_row:
  assumes "filled ts"
  shows "import_row template_columns (text_cells ts) = fields_of_texts ts"
proof -
  have len: "length ts = 40"
    using assms by (simp add: filled_def)
  have "foldl (\<lambda>r kc. import_cell template_columns kc r) [] (take n (text_cells ts)) = take n (fields_of_texts ts)"
    if "n \<le> 40" for n
    using that
  proof (induction n)
    case (Suc n)
    let ?t = "ts ! n"
    have t: "?t \<noteq> []" "trim ?t = ?t"
      using assms Suc.prems len by (simp_all add: filled_def list_all_length)
    have cell: "take (Suc n) (text_cells ts) = take n (text_cells ts) @ [(Suc n, \<lparr>cv = Plain (VStr ?t), numFmt = []\<rparr>)]"
      using Suc.prems len by (simp add: take_Suc_conv_app_nth text_cells_def del: upt_Suc)
    have field: "take (Suc n) (fields_of_texts ts) = take n (fields_of_texts ts) @ [(snd (header_map ! n), VStr ?t)]"
      using Suc.prems len header_facts(4) by (simp add: take_Suc_conv_app_nth fields_of_texts_def)
    have "distinct (map fst (take (Suc n) (fields_of_texts ts)))"
      using header_facts(2,4) len by (simp add: fields_of_texts_def take_map [symmetric])
    then have "spread (take n (fields_of_texts ts)) [(snd (header_map ! n), VStr ?t)] = take (Suc n) (fields_of_texts ts)"
      unfolding field by (rule spread_Nil_id)
    then show ?case
      using Suc t by (simp add: cell import_template_cell)
  qed simp
  from this [of 40] show ?thesis
    using len header_facts(4) by (simp add: import_row_def text_cells_def fields_of_texts_def del: upt_Suc)
qed

lemma community_of_texts:
  assumes "filled ts"
  shows "truthy (fld (fields_of_texts ts) ''community_name'')"
proof -
  have "map_of (fields_of_texts ts) ''community_name'' = Some (VStr (ts ! 2))"
    using assms header_facts(2,4,5)
    by (intro map_of_is_SomeI) (auto simp: fields_of_texts_def filled_def in_set_zip intro!: exI [of _ 2])
  moreover have "ts ! 2 \<noteq> []"
    using assms by (simp add: filled_def list_all_length)
  ultimately show ?thesis
    by (simp add: fld_def)
qed

text \<open>C32. A sheet made from the template, with any rows whose forty cells are filled, is imported as one home for each row,
  each text in the field that its column stands for.\<close>

theorem template_rows_are_imported:
  assumes "list_all filled rows" and "rows \<noteq> []" and "uploaded (template_headers # rows) = u"
  shows "admin_import e u st =
    (let (n, st1) = bulk_insert (iso e) (map fields_of_texts rows) st
     in (ok_res [(''success'', VBool True), (''message'', VStr (msg_imported_pre @ nat_to_string n @ msg_imported_post)),
          (''count'', VNat n)], st1))"
proof -
  have "import_rows (text_cells template_headers) (map text_cells rows) = map fields_of_texts rows"
    unfolding import_rows_def Let_def columns_of_template
    using assms(1) by (induction rows) (simp_all add: import_template_row community_of_texts)
  then show ?thesis
    using assms(2,3) by (auto simp: uploaded_def admin_import_def Let_def)
qed

lemma example_is_filled: "filled template_example"
  by code_simp

lemma template_rows_are_imported_witness:
  "(\<forall>e st. snd (admin_import e (uploaded generate_template) st) =
      snd (bulk_insert (iso e) [fields_of_texts template_example] st)) \<and>
   fld (fields_of_texts template_example) ''auth_code'' = VStr ''AUTH123''"
proof -
  have "fld (fields_of_texts template_example) ''auth_code'' = VStr ''AUTH123''"
    by code_simp
  then show ?thesis
    using template_rows_are_imported [of "[template_example]"] example_is_filled
    by (simp add: generate_template_def case_prod_beta Let_def)
qed

end
