(* ===== verification/Html_Images.thy ===== *)
theory Html_Images
  imports Mini_Cart
begin

text \<open>
  The pictures in the HTML of a product's description (\<^verbatim>\<open>normalizeHtmlImageSrc\<close> of
  \<^verbatim>\<open>miniapp/utils/url.js\<close>).  Each of its three expressions becomes a matcher: the text that replaces a match at the
  front of the argument, and what follows the match.  Lazy and greedy choices are resolved in the order in which the
  language tries them.
\<close>

section \<open>Characters\<close>

definition word_char :: "char \<Rightarrow> bool" where
  "word_char c \<longleftrightarrow> (let n = of_char c :: nat in 48 \<le> n \<and> n \<le> 57 \<or> 65 \<le> n \<and> n \<le> 90 \<or> 97 \<le> n \<and> n \<le> 122 \<or> n = 95)"

definition quote_char :: "char \<Rightarrow> bool" where
  "quote_char c \<longleftrightarrow> c = CHR 0x22 \<or> c = CHR 0x27"

definition ws_ahead :: "string \<Rightarrow> bool" where
  "ws_ahead s \<longleftrightarrow> list_ex (\<lambda>w. prefix w s) js_ws"

text \<open>A literal of an expression with the flag \<open>i\<close>.\<close>

definition ci_ahead :: "string \<Rightarrow> string \<Rightarrow> bool" where
  "ci_ahead p s \<longleftrightarrow> to_lower (take (length p) s) = p"

section \<open>Parts of the expressions\<close>

text \<open>\<open><img\b\<close>\<close>

definition img_ahead :: "string \<Rightarrow> bool" where
  "img_ahead s \<longleftrightarrow> ci_ahead ''<img'' s \<and> (case drop 4 s of [] \<Rightarrow> True | c # _ \<Rightarrow> \<not> word_char c)"

text \<open>\<open>[^>]*?\bname=\<close> before something that \<open>k\<close> matches; \<open>prev\<close> is the character before the text.\<close>

fun lazy_attr :: "string \<Rightarrow> (string \<Rightarrow> 'a option) \<Rightarrow> char \<Rightarrow> string \<Rightarrow> (string \<times> 'a) option" where
  "lazy_attr nm k prev [] = (if \<not> word_char prev \<and> ci_ahead nm [] then map_option (Pair []) (k []) else None)"
| "lazy_attr nm k prev (c # s) =
     (case (if \<not> word_char prev \<and> ci_ahead nm (c # s) then k (drop (length nm) (c # s)) else None) of
        Some x \<Rightarrow> Some (take (length nm) (c # s), x)
      | None \<Rightarrow> if c = CHR ''>'' then None else map_option (\<lambda>(p, x). (c # p, x)) (lazy_attr nm k c s))"

text \<open>\<open>[^>]*\bname=\<close> in a lookahead.\<close>

fun has_attr :: "string \<Rightarrow> char \<Rightarrow> string \<Rightarrow> bool" where
  "has_attr nm prev [] = (\<not> word_char prev \<and> ci_ahead nm [])"
| "has_attr nm prev (c # s) = (\<not> word_char prev \<and> ci_ahead nm (c # s) \<or> c \<noteq> CHR ''>'' \<and> has_attr nm c s)"

fun src_run :: "string \<Rightarrow> string \<times> string" where
  "src_run [] = ([], [])"
| "src_run (c # s) =
     (if quote_char c \<or> c = CHR ''>'' \<or> ws_ahead (c # s) then ([], c # s) else (let (u, r) = src_run s in (c # u, r)))"

text \<open>An optional quote, an address, the same quote.\<close>

fun src_value :: "string \<Rightarrow> (string \<times> string \<times> string) option" where
  "src_value [] = None"
| "src_value (c # s) =
     (if quote_char c
      then (let (u, r) = src_run s in if u \<noteq> [] \<and> r \<noteq> [] \<and> hd r = c then Some ([c], u, tl r) else None)
      else (let (u, r) = src_run (c # s) in if u \<noteq> [] then Some ([], u, r) else None))"

text \<open>A quote, the shortest text before the same quote, that quote.\<close>

fun style_value :: "string \<Rightarrow> (string \<times> string \<times> string) option" where
  "style_value [] = None"
| "style_value (q # s) =
     (if quote_char q \<and> q \<in> set s then Some ([q], takeWhile (\<lambda>c. c \<noteq> q) s, tl (dropWhile (\<lambda>c. c \<noteq> q) s)) else None)"

section \<open>The three replacements\<close>

type_synonym matcher = "string \<Rightarrow> (string \<times> string) option"

function replace_all :: "matcher \<Rightarrow> string \<Rightarrow> string" where
  "replace_all m [] = []"
| "replace_all m (c # s) =
     (case m (c # s) of
        None \<Rightarrow> c # replace_all m s
      | Some (out, r) \<Rightarrow> if length r \<le> length s then out @ replace_all m r else c # replace_all m s)"
  by pat_completeness auto
termination
  by (relation "measure (\<lambda>(m, s). length s)") auto

definition inject :: string where
  "inject = ''max-width:100%;height:auto;display:block;''"

definition new_src :: "string \<Rightarrow> string" where
  "new_src u = (let raw = trim u in if raw = [] \<or> ci_ahead ''data:'' raw then raw else normalize_image_url (VStr raw))"

definition src_tag :: matcher where
  "src_tag s =
     (if img_ahead s
      then (case lazy_attr ''src='' src_value (s ! 3) (drop 4 s) of
          None \<Rightarrow> None
        | Some (p, q, u, r) \<Rightarrow>
            (let q' = (if q = [] then [CHR 0x22] else q) in Some (take 4 s @ p @ q' @ new_src u @ q', r)))
      else None)"

fun collapse_ws :: "nat \<Rightarrow> string \<Rightarrow> string" where
  "collapse_ws 0 s = s"
| "collapse_ws (Suc n) s =
     (case s of [] \<Rightarrow> []
      | c # t \<Rightarrow> if ws_ahead s then CHR 0x20 # collapse_ws n (drop_ws js_ws (length s) s) else c # collapse_ws n t)"

definition merged_style :: "string \<Rightarrow> string" where
  "merged_style style =
     (let t = trim style; s = (if suffix '';'' t then t else t @ '';'') @ inject in collapse_ws (length s) s)"

definition style_tag :: matcher where
  "style_tag s =
     (if img_ahead s
      then (case lazy_attr ''style='' style_value (s ! 3) (drop 4 s) of
          None \<Rightarrow> None
        | Some (p, q, st, r) \<Rightarrow>
            Some (take 4 s @ p @ q @ (if str_includes st ''max-width'' \<or> str_includes st ''height:auto'' then st else merged_style st) @ q, r))
      else None)"

definition add_style :: matcher where
  "add_style s =
     (if img_ahead s \<and> \<not> has_attr ''style='' (s ! 3) (drop 4 s)
      then Some (''<img style='' @ [CHR 0x22] @ inject @ [CHR 0x22], drop 4 s) else None)"

definition normalize_html :: "val \<Rightarrow> string" where
  "normalize_html v =
     (if nullish v then []
      else (let s = js_to_string v in
        if trim s = [] then [] else replace_all add_style (replace_all style_tag (replace_all src_tag s))))"

lemma style_gets_the_limits:
  "normalize_html (VStr (''<p><IMG class=a src=/x.png style='' @ [CHR 0x27] @ ''color: red'' @ [CHR 0x27] @ ''></p>'')) =
   ''<p><IMG class=a src='' @ [CHR 0x22] @ ''https://www.jintai.cloud/x.png'' @ [CHR 0x22] @
   '' style='' @ [CHR 0x27] @ ''color: red;max-width:100%;height:auto;display:block;'' @ [CHR 0x27] @ ''></p>''"
  by code_simp

text \<open>An address with \<open>style=\<close> at its end is taken for the start of a style.\<close>

lemma address_taken_for_style:
  "normalize_html (VStr (''<img src='' @ [CHR 0x22] @ ''/a?style='' @ [CHR 0x22] @ ''><b id='' @ [CHR 0x22] @ ''x'' @ [CHR 0x22] @ ''>'')) =
   ''<img src='' @ [CHR 0x22] @ ''https://www.jintai.cloud/a?style='' @ [CHR 0x22] @
   ''><b id=;max-width:100%;height:auto;display:block;'' @ [CHR 0x22] @ ''x'' @ [CHR 0x22] @ ''>''"
  by code_simp

section \<open>A picture among text\<close>

lemma lower_keeps_signs: "to_lower_char c = d \<Longrightarrow> of_char d < (65::nat) \<Longrightarrow> c = d"
  by (auto simp: to_lower_char_def Let_def of_char_of split: if_splits)

lemma img_ahead_hd: "img_ahead (c # s) \<Longrightarrow> c = CHR ''<''"
  by (auto simp: img_ahead_def ci_ahead_def to_lower_def intro: lower_keeps_signs)

definition needs_img :: "matcher \<Rightarrow> bool" where
  "needs_img m \<longleftrightarrow> (\<forall>s. \<not> img_ahead s \<longrightarrow> m s = None)"

lemma matchers_need_img [simp]: "needs_img src_tag" "needs_img style_tag" "needs_img add_style"
  by (simp_all add: needs_img_def src_tag_def style_tag_def add_style_def)

lemma replace_all_text:
  assumes "needs_img m" and "CHR ''<'' \<notin> set a"
  shows "replace_all m (a @ s) = a @ replace_all m s"
  using assms(2)
proof (induction a)
  case (Cons c a)
  then have "m (c # a @ s) = None"
    using assms(1) img_ahead_hd [of c "a @ s"] by (auto simp: needs_img_def)
  with Cons show ?case
    by simp
qed simp

lemma replace_all_plain: "needs_img m \<Longrightarrow> CHR ''<'' \<notin> set a \<Longrightarrow> replace_all m a = a"
  using replace_all_text [of m a "[]"] by simp

text \<open>HTML without a tag is not changed, unless it is blank.\<close>

lemma html_without_tags: "CHR ''<'' \<notin> set s \<Longrightarrow> trim s \<noteq> [] \<Longrightarrow> normalize_html (VStr s) = s"
  by (simp add: normalize_html_def replace_all_plain)

text \<open>An attribute with an equals sign cannot be found where there is none before the end of the tag.\<close>

lemma ci_ahead_in_text:
  assumes "ci_ahead nm (a @ CHR ''>'' # r)" and "CHR ''>'' \<notin> set nm" and "CHR ''='' \<in> set nm" and "\<forall>c\<in>set a. c \<noteq> CHR ''=''"
  shows False
proof (cases "length nm \<le> length a")
  case True
  then have "to_lower (take (length nm) a) = nm"
    using assms(1) by (simp add: ci_ahead_def)
  then obtain c where "c \<in> set (take (length nm) a)" "to_lower_char c = CHR ''=''"
    using assms(3) unfolding to_lower_def by (metis imageE set_map)
  then show False
    using assms(4) lower_keeps_signs [of c "CHR ''=''"] by (auto dest: in_set_takeD)
next
  case False
  then obtain n where "length nm - length a = Suc n"
    by (cases "length nm - length a") auto
  then have "to_lower_char CHR ''>'' \<in> set (to_lower (take (length nm) (a @ CHR ''>'' # r)))"
    by (simp add: to_lower_def)
  then show False
    using assms(1,2) by (simp add: ci_ahead_def to_lower_char_def)
qed

lemma no_attr:
  assumes "CHR ''>'' \<notin> set nm" and "CHR ''='' \<in> set nm" and "CHR ''='' \<notin> set a"
  shows "\<not> has_attr nm prev (a @ CHR ''>'' # r)"
  using assms(3)
proof (induction a arbitrary: prev)
  case Nil
  then show ?case
    using ci_ahead_in_text [of nm "[]" r] assms(1,2) by auto
next
  case (Cons c a)
  then show ?case
    using ci_ahead_in_text [of nm "c # a" r] assms(1,2) by auto
qed

lemma lazy_attr_none: "\<not> has_attr nm prev s \<Longrightarrow> lazy_attr nm k prev s = None"
  by (induction nm prev s rule: has_attr.induct) auto

text \<open>An address that needs no quotes: visible characters of ASCII but quotes, angle brackets and the equals sign.\<close>

definition plain_url :: "string \<Rightarrow> bool" where
  "plain_url u \<longleftrightarrow> u \<noteq> [] \<and> list_all (\<lambda>c. 33 \<le> (of_char c :: nat) \<and> (of_char c :: nat) \<le> 126 \<and> \<not> quote_char c \<and>
     c \<noteq> CHR ''<'' \<and> c \<noteq> CHR ''>'' \<and> c \<noteq> CHR ''='') u"

lemma no_ws_ahead: "33 \<le> (of_char c :: nat) \<Longrightarrow> (of_char c :: nat) \<le> 126 \<Longrightarrow> \<not> ws_ahead (c # s)"
  by (auto simp: ws_ahead_def js_ws_def)

lemma src_run_plain:
  assumes "list_all (\<lambda>c. 33 \<le> (of_char c :: nat) \<and> (of_char c :: nat) \<le> 126 \<and> \<not> quote_char c \<and>
     c \<noteq> CHR ''<'' \<and> c \<noteq> CHR ''>'' \<and> c \<noteq> CHR ''='') u"
  shows "src_run (u @ CHR 0x22 # s) = (u, CHR 0x22 # s)"
  using assms by (induction u) (auto simp: no_ws_ahead, simp add: quote_char_def)

lemma trim_plain:
  assumes "plain_url u"
  shows "trim u = u"
proof -
  obtain c v where u: "u = c # v" and c: "33 \<le> (of_char c :: nat)" "(of_char c :: nat) \<le> 126"
    using assms by (cases u) (auto simp: plain_url_def)
  obtain d w where r: "rev u = d # w"
    using u by (cases "rev u") auto
  then have "d \<in> set u"
    by (metis list.set_intros(1) set_rev)
  then have d: "33 \<le> (of_char d :: nat)" "(of_char d :: nat) \<le> 126"
    using assms by (auto simp: plain_url_def list_all_iff)
  have "drop_ws js_ws (length u) u = u"
    using no_ws_ahead [OF c, of v] by (intro drop_ws_id) (simp add: u ws_ahead_def list_ex_iff)
  moreover have "drop_ws (map rev js_ws) (length u) (rev u) = rev u"
    using d unfolding r by (intro drop_ws_id) (auto simp: js_ws_def)
  ultimately show ?thesis
    by (simp add: trim_def trim_start_def trim_end_def)
qed

lemma drop_ws_keeps: "(\<forall>w\<in>set ws. x \<notin> set w) \<Longrightarrow> x \<in> set s \<Longrightarrow> x \<in> set (drop_ws ws n s)"
proof (induction ws n s rule: drop_ws.induct)
  case (2 ws n s)
  show ?case
  proof (cases "find (\<lambda>w. prefix w s) ws")
    case (Some w)
    then have "w \<in> set ws" "prefix w s"
      by (auto simp: find_Some_iff)
    then have "x \<in> set (drop (length w) s)"
      using 2(2,3) by (auto simp: prefix_def)
    then show ?thesis
      using 2(1) [OF Some 2(2)] Some by simp
  qed (use 2 in simp)
qed simp

lemma trim_keeps: "\<forall>w\<in>set js_ws. x \<notin> set w \<Longrightarrow> x \<in> set s \<Longrightarrow> x \<in> set (trim s)"
  by (simp add: trim_def trim_start_def trim_end_def drop_ws_keeps)

lemma new_src_plain:
  assumes "plain_url u"
  shows "CHR ''<'' \<notin> set (new_src u) \<and> CHR ''='' \<notin> set (new_src u) \<and> CHR ''>'' \<notin> set (new_src u)"
proof -
  have "CHR ''<'' \<notin> set u" "CHR ''='' \<notin> set u" "CHR ''>'' \<notin> set u"
    using assms by (auto simp: plain_url_def list_all_iff)
  then show ?thesis
    using trim_plain [OF assms] by (auto simp: new_src_def normalize_image_url_def Let_def api_origin_def)
qed

lemma src_tag_plain:
  assumes "plain_url u"
  shows "src_tag (''<img src='' @ [CHR 0x22] @ u @ CHR 0x22 # s) = Some (''<img src='' @ [CHR 0x22] @ new_src u @ [CHR 0x22], s)"
proof -
  have "src_value (CHR 0x22 # u @ CHR 0x22 # s) = Some ([CHR 0x22], u, s)"
    using assms src_run_plain [of u s] by (simp add: plain_url_def quote_char_def)
  then show ?thesis
    by (simp add: src_tag_def img_ahead_def ci_ahead_def to_lower_def to_lower_char_def word_char_def)
qed

lemma no_style_tag: "\<not> has_attr ''style='' (CHR ''g'') t \<Longrightarrow> style_tag (''<img'' @ t) = None"
  by (simp add: style_tag_def lazy_attr_none)

lemma new_style:
  "img_ahead (''<img'' @ t) \<Longrightarrow> \<not> has_attr ''style='' (CHR ''g'') t \<Longrightarrow>
    add_style (''<img'' @ t) = Some (''<img style='' @ [CHR 0x22] @ inject @ [CHR 0x22], t)"
  by (simp add: add_style_def)

text \<open>A picture among text without tags: its address becomes the address that the images of the page get, and the tag
  gets the style that keeps it inside the page; everything else stays.\<close>

theorem picture_in_text:
  assumes "plain_url u" and "CHR ''<'' \<notin> set a" and "CHR ''<'' \<notin> set b"
  shows "normalize_html (VStr (a @ ''<img src='' @ [CHR 0x22] @ u @ [CHR 0x22] @ ''>'' @ b)) =
    a @ ''<img style='' @ [CHR 0x22] @ inject @ [CHR 0x22] @ '' src='' @ [CHR 0x22] @ new_src u @ [CHR 0x22] @ ''>'' @ b"
proof -
  let ?s = "a @ ''<img src='' @ [CHR 0x22] @ u @ [CHR 0x22] @ ''>'' @ b"
  have "\<forall>w\<in>set js_ws. CHR ''<'' \<notin> set w"
    by (simp add: js_ws_def)
  then have "CHR ''<'' \<in> set (trim ?s)"
    by (rule trim_keeps) simp
  then have some: "trim ?s \<noteq> []"
    by auto
  let ?t = "'' src='' @ [CHR 0x22] @ new_src u @ [CHR 0x22]"
  have tag: "CHR ''<'' \<notin> set (?t @ ''>'' @ b)" and eq: "CHR ''='' \<notin> set (new_src u @ [CHR 0x22])"
    using new_src_plain [OF assms(1)] assms(3) by auto
  have no_style: "\<not> has_attr ''style='' (CHR ''g'') (?t @ ''>'' @ b)"
    using no_attr [of "''style=''" "new_src u @ [CHR 0x22]" "CHR 0x22" b] eq
    by (simp add: ci_ahead_def to_lower_def to_lower_char_def)
  have img: "img_ahead (''<img'' @ ?t @ ''>'' @ b)"
    by (simp add: img_ahead_def ci_ahead_def to_lower_def to_lower_char_def word_char_def)
  have "src_tag (''<img src='' @ [CHR 0x22] @ u @ [CHR 0x22] @ ''>'' @ b) = Some (''<img'' @ ?t, ''>'' @ b)"
    using src_tag_plain [OF assms(1), of "''>'' @ b"] by simp
  then have first: "replace_all src_tag ?s = a @ ''<img'' @ ?t @ ''>'' @ b"
    using replace_all_plain [of src_tag "CHR ''>'' # b"] assms(2,3) by (simp add: replace_all_text)
  have "style_tag (''<img'' @ ?t @ ''>'' @ b) = None"
    by (rule no_style_tag [OF no_style])
  then have second: "replace_all style_tag (a @ ''<img'' @ ?t @ ''>'' @ b) = a @ ''<img'' @ ?t @ ''>'' @ b"
    using replace_all_plain [of style_tag "''img'' @ ?t @ ''>'' @ b"] assms(2) tag by (simp add: replace_all_text)
  have "add_style (''<img'' @ ?t @ ''>'' @ b) = Some (''<img style='' @ [CHR 0x22] @ inject @ [CHR 0x22], ?t @ ''>'' @ b)"
    by (rule new_style [OF img no_style])
  then have third: "replace_all add_style (a @ ''<img'' @ ?t @ ''>'' @ b) = a @ ''<img style='' @ [CHR 0x22] @ inject @ [CHR 0x22] @ ?t @ ''>'' @ b"
    using replace_all_plain [of add_style "?t @ ''>'' @ b"] assms(2) tag by (simp add: replace_all_text)
  show ?thesis
    using some by (simp add: normalize_html_def first [simplified] second [simplified] third [simplified])
qed

lemma picture_in_text_witness:
  "normalize_html (VStr (''a'' @ ''<img src='' @ [CHR 0x22] @ ''/x.png'' @ [CHR 0x22] @ ''>'' @ ''b'')) =
    ''a'' @ ''<img style='' @ [CHR 0x22] @ inject @ [CHR 0x22] @ '' src='' @ [CHR 0x22] @ new_src ''/x.png'' @ [CHR 0x22] @ ''>'' @ ''b''"
proof -
  have "plain_url ''/x.png''"
    by code_simp
  then show ?thesis
    by (rule picture_in_text) simp_all
qed

end
