(* ===== verification/Home_View.thy ===== *)
theory Home_View
  imports H5_Home
begin

text \<open>
  What the template of the mall's start page shows (\<^verbatim>\<open>jintai-property/h5/src/views/Home.vue\<close>): the categories, the
  skeletons, a card for each home, the note that the list is empty.  A home of the list is an object and a category's
  name a text, as the server sends them; anything else throws while the page is drawn.  \<open>pretty\<close> prints an object or an
  array as the framework does.
\<close>

section \<open>Texts\<close>

text \<open>A value between double braces.\<close>

definition display :: "(val \<Rightarrow> string) \<Rightarrow> val \<Rightarrow> string" where
  "display pretty v = (case v of VUndef \<Rightarrow> [] | VNull \<Rightarrow> [] | VArr _ \<Rightarrow> pretty v | VObj _ \<Rightarrow> pretty v | _ \<Rightarrow> js_to_string v)"

text \<open>An element with \<open>v-if\<close> on the value that it shows.\<close>

definition shown_if :: "(val \<Rightarrow> string) \<Rightarrow> val \<Rightarrow> string option" where
  "shown_if pretty v = (if truthy v then Some (display pretty v) else None)"

definition square_metres :: string where
  "square_metres = [CHR 0xE3, CHR 0x8E, CHR 0xA1]"

definition starts_text :: string where
  "starts_text = '' '' @ [CHR 0xE5, CHR 0xBC, CHR 0x80, CHR 0xE5, CHR 0xA7, CHR 0x8B]"

section \<open>A card\<close>

record card_view =
  cw_id :: string
  cw_src :: string
  cw_spinner :: bool
  cw_featured :: bool
  cw_status :: "string \<times> string"
  cw_phase :: "string option"
  cw_time :: "string option"
  cw_title :: string
  cw_tags :: "string list"
  cw_price :: string
  cw_profit :: "string option"

definition card_tags :: "(val \<Rightarrow> string) \<Rightarrow> row \<Rightarrow> string list" where
  "card_tags pretty item = concat (map (\<lambda>(k, post). if truthy (fld item k) then [display pretty (fld item k) @ post] else [])
     [(''building_area'', square_metres), (''house_type'', []), (''floor_info'', []), (''school_district'', [])])"

definition card_view_of ::
  "string \<Rightarrow> (val \<Rightarrow> val) \<Rightarrow> val \<Rightarrow> (val \<Rightarrow> string) \<Rightarrow> home \<Rightarrow> row \<Rightarrow> js_error + card_view" where
  "card_view_of origin date clock pretty pg item =
     bindE (get_image_url origin item) (\<lambda>src.
       let i = js_to_string (fld item ''id'') in Inr
         \<lparr>cw_id = i, cw_src = src, cw_spinner = (hm_states pg i = Some True),
          cw_featured = strict_eq (fld item ''is_featured'') (VNum 1),
          cw_status = (status_class date clock item, status_text date clock item),
          cw_phase = shown_if pretty (fld item ''bidding_phase''),
          cw_time = map_option (\<lambda>t. t @ starts_text) (shown_if pretty (fld item ''auction_time'')),
          cw_title = display pretty (fld item ''community_name''), cw_tags = card_tags pretty item,
          cw_price = display pretty (js_or (fld item ''starting_price'') (VStr ''-'')),
          cw_profit = shown_if pretty (fld item ''profit_space'')\<rparr>)"

section \<open>The page\<close>

definition category_view :: "home \<Rightarrow> val \<Rightarrow> js_error + (string \<times> string \<times> bool)" where
  "category_view pg c =
     bindE (prop_of c ''name'') (\<lambda>n. case n of
       VStr t \<Rightarrow> Inr (t, category_icon_class t, strict_eq (hm_active pg) (prop_or_undef c ''id''))
     | _ \<Rightarrow> Inl TypeError)"

record home_view =
  vw_categories :: "(string \<times> string \<times> bool) list"
  vw_skeletons :: nat
  vw_cards :: "card_view list"
  vw_no_more :: bool
  vw_empty :: bool

definition home_card :: "string \<Rightarrow> (val \<Rightarrow> val) \<Rightarrow> val \<Rightarrow> (val \<Rightarrow> string) \<Rightarrow> home \<Rightarrow> val \<Rightarrow> js_error + card_view" where
  "home_card origin date clock pretty pg v =
     (case v of VObj r \<Rightarrow> card_view_of origin date clock pretty pg r | _ \<Rightarrow> Inl TypeError)"

definition view_home ::
  "string \<Rightarrow> (val \<Rightarrow> val) \<Rightarrow> val \<Rightarrow> (val \<Rightarrow> string) \<Rightarrow> home \<Rightarrow> js_error + home_view" where
  "view_home origin date clock pretty pg =
     bindE (mapE (category_view pg) (case hm_cats pg of VArr cs \<Rightarrow> cs | _ \<Rightarrow> [])) (\<lambda>cats.
     bindE (mapE (home_card origin date clock pretty pg) (hm_list pg)) (\<lambda>cards. Inr
       \<lparr>vw_categories = cats, vw_skeletons = (if hm_loading pg \<and> hm_list pg = [] then 3 else 0), vw_cards = cards,
        vw_no_more = hm_finished pg, vw_empty = (\<not> hm_loading pg \<and> \<not> hm_refreshing pg \<and> hm_list pg = [])\<rparr>))"

section \<open>An answer is drawn\<close>

fun cover_text :: "val \<Rightarrow> bool" where
  "cover_text (VStr s) = True"
| "cover_text v = nullish v"

definition cover_url_of :: "row \<Rightarrow> string" where
  "cover_url_of r = (case fld r ''cover_url'' of VStr s \<Rightarrow> trim s | _ \<Rightarrow> [])"

definition row_key :: "row \<Rightarrow> string" where
  "row_key r = js_to_string (fld r ''id'')"

definition spins :: "row \<Rightarrow> bool" where
  "spins r \<longleftrightarrow> cover_url_of r \<noteq> [] \<and> cover_url_of r \<noteq> home_fallback"

lemma trim_empty [simp]: "trim [] = []"
  by (simp add: trim_def trim_start_def trim_end_def)

lemma trimmed_cover_text: "cover_text (fld r ''cover_url'') \<Longrightarrow> trimmed_cover (fld r ''cover_url'') = Inr (cover_url_of r)"
  by (cases "fld r ''cover_url''") (auto simp: trimmed_cover_def cover_url_of_def js_or_def)

lemma mark_row:
  assumes "cover_text (fld r ''cover_url'')"
  shows "mark_images (VObj r # vs) pg = mark_images vs
    (if spins r then start_timer (row_key r) (pg\<lparr>hm_states := (hm_states pg)(row_key r \<mapsto> True)\<rparr>)
     else pg\<lparr>hm_states := (hm_states pg)(row_key r \<mapsto> False)\<rparr>)"
  using trimmed_cover_text [OF assms] by (simp add: bindE_def spins_def row_key_def prop_or_undef_def Let_def)

text \<open>The loop passes every home, marks each picture and leaves the rest of the page.\<close>

lemma mark_rows:
  assumes "list_all (\<lambda>r. cover_text (fld r ''cover_url'')) rows"
  shows "\<exists>pg'. mark_images (map VObj rows) pg = (True, pg') \<and> hm_list pg' = hm_list pg \<and> hm_cats pg' = hm_cats pg \<and>
    hm_active pg' = hm_active pg \<and> hm_loading pg' = hm_loading pg \<and>
    (\<forall>k. k \<notin> row_key ` set rows \<longrightarrow> hm_states pg' k = hm_states pg k) \<and>
    (distinct (map row_key rows) \<longrightarrow> (\<forall>r\<in>set rows. hm_states pg' (row_key r) = Some (spins r)))"
  using assms
proof (induction rows arbitrary: pg)
  case (Cons r rows)
  define pg1 where "pg1 = (if spins r then start_timer (row_key r) (pg\<lparr>hm_states := (hm_states pg)(row_key r \<mapsto> True)\<rparr>)
     else pg\<lparr>hm_states := (hm_states pg)(row_key r \<mapsto> False)\<rparr>)"
  have pg1: "hm_list pg1 = hm_list pg" "hm_cats pg1 = hm_cats pg" "hm_active pg1 = hm_active pg" "hm_loading pg1 = hm_loading pg"
      "hm_states pg1 = (hm_states pg)(row_key r \<mapsto> spins r)"
    by (simp_all add: pg1_def start_timer_def)
  have step: "mark_images (map VObj (r # rows)) pg = mark_images (map VObj rows) pg1"
    using Cons.prems by (simp add: mark_row pg1_def del: mark_images.simps)
  from Cons.IH [of pg1] Cons.prems obtain pg' where pg': "mark_images (map VObj rows) pg1 = (True, pg')"
      "hm_list pg' = hm_list pg1" "hm_cats pg' = hm_cats pg1" "hm_active pg' = hm_active pg1" "hm_loading pg' = hm_loading pg1"
      "\<forall>k. k \<notin> row_key ` set rows \<longrightarrow> hm_states pg' k = hm_states pg1 k"
      "distinct (map row_key rows) \<longrightarrow> (\<forall>r\<in>set rows. hm_states pg' (row_key r) = Some (spins r))"
    by auto
  show ?case
    unfolding step by (intro exI [of _ pg']) (use pg' pg1 in auto)
qed simp

lemma mapE_all2: "(\<And>x. x \<in> set xs \<Longrightarrow> \<exists>y. f x = Inr y \<and> P x y) \<Longrightarrow> \<exists>ys. mapE f xs = Inr ys \<and> list_all2 P xs ys"
proof (induction xs)
  case (Cons x xs)
  then obtain y ys where "f x = Inr y" "P x y" "mapE f xs = Inr ys" "list_all2 P xs ys"
    by (metis list.set_intros)
  then show ?case
    by (intro exI [of _ "y # ys"]) simp
qed simp

lemma card_of_row:
  assumes "cover_text (fld r ''cover_url'')"
  shows "\<exists>c. home_card origin date clock pretty pg (VObj r) = Inr c \<and>
    cw_title c = display pretty (fld r ''community_name'') \<and> cw_spinner c = (hm_states pg (row_key r) = Some True)"
proof -
  have "\<exists>src. get_image_url origin r = Inr src"
    using trimmed_cover_text [OF assms] by (simp add: get_image_url_def bindE_def Let_def)
  then obtain src where "get_image_url origin r = Inr src"
    by blast
  then show ?thesis
    by (simp add: home_card_def card_view_of_def bindE_def Let_def row_key_def)
qed

lemma map_of_all2: "list_all2 (\<lambda>x y. f y = g x) xs ys \<Longrightarrow> map f ys = map g xs"
  by (induction rule: list_all2_induct) auto

definition home_answer :: "row list \<Rightarrow> nat \<Rightarrow> axios_result" where
  "home_answer rows n = Axios_ok (VObj [(''list'', VArr (map VObj rows)), (''total'', VNat n)])"

text \<open>The answer to a search is drawn: one card for each home in the order of the answer with its name, a spinner
  exactly on the cards that have a picture of their own to load, no skeletons, and the note that there are no homes
  exactly for an empty answer.\<close>

theorem answer_is_drawn:
  assumes rows: "list_all (\<lambda>r. cover_text (fld r ''cover_url'')) rows" "distinct (map row_key rows)"
    and cats: "hm_cats pg = VArr (map VObj cs)" "list_all (\<lambda>c. \<exists>t. fld c ''name'' = VStr t) cs"
  shows "\<exists>w. view_home origin date clock pretty (receive_fetch False (home_answer rows n) pg) = Inr w \<and>
    map cw_title (vw_cards w) = map (\<lambda>r. display pretty (fld r ''community_name'')) rows \<and>
    map cw_spinner (vw_cards w) = map spins rows \<and> vw_skeletons w = 0 \<and> vw_empty w = (rows = []) \<and>
    length (vw_categories w) = length cs"
proof -
  obtain pg1 where pg1: "mark_images (map VObj rows) ((clear_images pg)\<lparr>hm_list := map VObj rows\<rparr>) = (True, pg1)"
      "hm_list pg1 = map VObj rows" "hm_cats pg1 = hm_cats pg" "\<forall>r\<in>set rows. hm_states pg1 (row_key r) = Some (spins r)"
    using mark_rows [OF rows(1), of "(clear_images pg)\<lparr>hm_list := map VObj rows\<rparr>"] rows(2)
    by (auto simp: clear_images_def)
  define pg2 where "pg2 = receive_fetch False (home_answer rows n) pg"
  have pg2: "hm_list pg2 = map VObj rows" "hm_cats pg2 = hm_cats pg" "\<not> hm_loading pg2" "\<not> hm_refreshing pg2"
      "\<forall>r\<in>set rows. hm_states pg2 (row_key r) = Some (spins r)"
    using pg1 by (simp_all add: pg2_def receive_fetch_def home_answer_def Let_def fld_def js_or_def)
  have "\<exists>cards. mapE (home_card origin date clock pretty pg2) (map VObj rows) = Inr cards \<and>
      list_all2 (\<lambda>v c. \<exists>r\<in>set rows. v = VObj r \<and> cw_title c = display pretty (fld r ''community_name'') \<and> cw_spinner c = spins r)
        (map VObj rows) cards"
  proof (rule mapE_all2)
    fix v assume "v \<in> set (map VObj rows)"
    then obtain r where r: "r \<in> set rows" "v = VObj r"
      by auto
    then obtain c where "home_card origin date clock pretty pg2 v = Inr c"
        "cw_title c = display pretty (fld r ''community_name'')" "cw_spinner c = (hm_states pg2 (row_key r) = Some True)"
      using card_of_row [of r origin date clock pretty pg2] rows(1) by (auto simp: list_all_iff)
    with r pg2(5) show "\<exists>c. home_card origin date clock pretty pg2 v = Inr c \<and> (\<exists>r\<in>set rows. v = VObj r \<and>
        cw_title c = display pretty (fld r ''community_name'') \<and> cw_spinner c = spins r)"
      by auto
  qed
  then obtain cards where cards: "mapE (home_card origin date clock pretty pg2) (map VObj rows) = Inr cards"
      "list_all2 (\<lambda>v c. \<exists>r\<in>set rows. v = VObj r \<and> cw_title c = display pretty (fld r ''community_name'') \<and> cw_spinner c = spins r)
        (map VObj rows) cards"
    by blast
  from cards(2) have cards2: "list_all2 (\<lambda>r c. cw_title c = display pretty (fld r ''community_name'') \<and> cw_spinner c = spins r) rows cards"
    unfolding list.rel_map by (rule list_all2_mono) auto
  have "\<exists>shown. mapE (category_view pg2) (map VObj cs) = Inr shown \<and> list_all2 (\<lambda>_ _. True) (map VObj cs) shown"
    using cats(2) by (intro mapE_all2) (auto simp: category_view_def bindE_def list_all_iff)
  then obtain shown where shown: "mapE (category_view pg2) (map VObj cs) = Inr shown"
    by blast
  have "length shown = length cs"
    using mapE_length [OF shown] by simp
  moreover have "view_home origin date clock pretty pg2 = Inr
      \<lparr>vw_categories = shown, vw_skeletons = 0, vw_cards = cards, vw_no_more = hm_finished pg2, vw_empty = (rows = [])\<rparr>"
    using pg2 cats(1) shown cards(1) by (simp add: view_home_def bindE_def)
  moreover have "map cw_title cards = map (\<lambda>r. display pretty (fld r ''community_name'')) rows" "map cw_spinner cards = map spins rows"
    using cards2 by (auto intro!: map_of_all2 elim!: list_all2_mono)
  ultimately show ?thesis
    unfolding pg2_def [symmetric] by simp
qed

definition drawn_rows :: "row list" where
  "drawn_rows = [[(''id'', VNum 1), (''community_name'', VStr ''A''), (''cover_url'', VStr ''/a.png'')],
     [(''id'', VNum 2), (''community_name'', VStr ''B''), (''cover_url'', VNull)]]"

lemma answer_is_drawn_witness:
  "\<exists>w. view_home ''o'' id (VNum 0) json_text (receive_fetch False (home_answer drawn_rows 2) open_home) = Inr w \<and>
    map cw_title (vw_cards w) = [''A'', ''B''] \<and> map cw_spinner (vw_cards w) = [True, False]"
proof -
  have facts: "list_all (\<lambda>r. cover_text (fld r ''cover_url'')) drawn_rows" "distinct (map row_key drawn_rows)"
      "map spins drawn_rows = [True, False]" "map (\<lambda>r. display json_text (fld r ''community_name'')) drawn_rows = [''A'', ''B'']"
    by code_simp+
  have cats: "hm_cats open_home = VArr (map VObj [])"
    by (simp add: open_home_def send_fetch_def)
  show ?thesis
    using answer_is_drawn [OF facts(1,2) cats, of "''o''" id "VNum 0" json_text 2] facts(3,4) by auto
qed

end
