(* ===== verification/Spec2Isabelle.thy ===== *)
theory Spec2Isabelle
  imports JSON_Copy Server_Safety Admin_Rules Login_Flow FL_Safety Config Payment Services Mini_Orders Parser_Fuel Form_To_Mall
    Backup_Checks Import_Template Html_Images Home_View
begin

text \<open>
  A model of the programs of this repository: the mall server (\<^verbatim>\<open>src/src\<close>, Express and TypeScript) on its
  JSON file store, the service for welfare codes beside it (\<^verbatim>\<open>src/FLcode\<close>, Express and SQLite), and the server's
  clients: the WeChat mini program (\<^verbatim>\<open>src/miniapp\<close>), the administration and the mall for homes in the browser
  (\<^verbatim>\<open>src/jintai-property/admin\<close> and \<^verbatim>\<open>h5\<close>, Vue).

  \<^bold>\<open>The program.\<close>  Repositories (\<^verbatim>\<open>src/src/storage/repositories\<close>) keep rows in the tables of one file store
  (\<^verbatim>\<open>storage/file_store.ts\<close>): an object that is loaded once, changed in memory and written after a delay.  Routers
  (\<^verbatim>\<open>src/src/routes\<close>) parse a request, call repositories and services and answer JSON; guards
  (\<^verbatim>\<open>middlewares\<close>) admit administrators by a bearer token and customers by a signed token, and an error middleware
  turns what is thrown into an answer.  \<^verbatim>\<open>server.ts\<close> mounts the routers, each under up to three base paths.  The
  mini program keeps its session, cart and address in the phone's storage and talks to the third of these bases.
  The administration's client keeps a token and edits categories and homes, which the mall's client lists and shows;
  both talk to the first base.

  \<^bold>\<open>State.\<close>  The server's state is \<open>fs_state\<close> (theory \<open>File_Store\<close>): the cached object with its tables, id counters and
  time stamps, the dirty flag, the flush timer, the file and its temporary file, and whether the object shares an
  array with the default data.  A handler is a function from a request and this state to a response or an error and
  the new state (\<open>'s action\<close>, theory \<open>Http\<close>); \<open>serve\<close> (theory \<open>Server\<close>) dispatches a request through the mounts
  as Express does; the server is the one started without \<open>DIAG_ENABLED=true\<close>.  A login by OAuth answers a redirect or
  a text with cookies, which \<open>reply_res\<close> writes as the answer; the WeChat tokens that earlier requests cached are a field of
  the \<open>world\<close> a request finds.  The FLcode service has its own state (\<open>FL_Store\<close>) and \<open>fl_serve\<close>.  A handler of the mini
  program maps the page, the client and the state behind the network; \<open>server_network\<close> (theory \<open>Mini_App\<close>) puts
  \<open>serve\<close> behind it, so that client and server are composed as the code composes them; \<open>admin_network\<close> and
  \<open>h5_network\<close> do the same for the browser clients.  Where events of a page interleave (\<open>Mini_Product\<close>, \<open>H5_Home\<close>), the
  page is a step relation whose state holds its timers and its requests under way.

  \<^bold>\<open>Theories and what they model.\<close>
  \<^item> \<open>JS_Prelude\<close>, \<open>JS_Lists\<close>, \<open>JSON_Text\<close>: values (\<open>val\<close>) and rows of JavaScript, truthiness, \<open>===\<close>, spread, \<open>Number\<close>,
    \<open>parseInt\<close>, \<open>slice\<close>, the stable \<open>sort\<close>, \<open>JSON.stringify\<close> and \<open>JSON.parse\<close>; \<open>JSON_Roundtrip\<close>, \<open>JSON_Copy\<close> and
    \<open>Parser_Fuel\<close> have their lemmas.
  \<^item> \<open>File_Store\<close>, \<open>Store_Durability\<close>, \<open>Row_Store\<close>, \<open>Listing\<close>, \<open>Interfaces\<close>: the file store, the file operations of a save
    piece by piece, crashes, restarts and transactions, the laws that the repositories rely on, the shared body of the listings, and the row types.
  \<^item> \<open>Orders_Repo\<close>, \<open>Users_Repo\<close>, \<open>Welfare_Repo\<close>, \<open>Products_Repo\<close>, \<open>Catalog_Repo\<close>, \<open>Properties_Repo\<close>: one theory for
    each repository (the last but one for categories, reviews and administrators); \<open>Services\<close>: the two wrappers.
  \<^item> \<open>Http\<close>, \<open>Jwt\<close>: requests, errors, guards; Base64, tokens, cookies, \<open>decodeURIComponent\<close>.
  \<^item> \<open>Shop_Routes\<close>, \<open>Admin_Routes\<close>, \<open>Admin_Properties\<close>, \<open>Wechat\<close>, \<open>Server\<close>: the handlers and their mounting; \<open>Messages\<close>
    and \<open>Import_Headers\<close> hold the Chinese texts as UTF-8 bytes.
  \<^item> \<open>Config\<close>, \<open>Payment\<close>: the configuration read from the environment, the start of the process with the repair of the
    database schema, diagnostics; the client of the payment service, its signatures and the disabled payment routes.
  \<^item> \<open>FL_Store\<close>, \<open>FL_Routes\<close>: the FLcode service.
  \<^item> \<open>Mini_Cart\<close>, \<open>Mini_App\<close>, \<open>Mini_Checkout\<close>, \<open>Mini_Product\<close>, \<open>Mini_Orders\<close>, \<open>Client_Messages\<close>: the mini program;
    \<open>Html_Images\<close>: the pictures in the HTML of its product page.
  \<^item> \<open>Admin_Client\<close>, \<open>Property_Form\<close>: the administration's client, its form for a home with the values derived while
    typing; \<open>H5_Home\<close>, \<open>Home_View\<close>, \<open>H5_Detail\<close>, \<open>Mall_Messages\<close>: the mall's start page (and what it
    draws) and detail page.
  \<^item> \<open>Form_To_Mall\<close>: a home on its way from the form through the server to the mall.
  \<^item> \<open>Note_Migration\<close>, \<open>Code_Migration\<close>, \<open>Upgrade_Checks\<close>, \<open>Backup_Checks\<close>, \<open>Import_Template\<close>: the scripts (\<^verbatim>\<open>src/scripts\<close>)
    that migrate and compare the tables of the earlier database, and the template of the import sheet.  A database is
    the list of the rows of its tables; a script maps it to an outcome and the database afterwards.
  \<^item> \<open>Route_Effects\<close>, \<open>Route_Numbering\<close>, \<open>Server_Safety\<close>, \<open>Order_Flow\<close>, \<open>Login_Flow\<close>, \<open>Admin_Rules\<close>, \<open>FL_Safety\<close>: properties
    that span several of these.
\<close>

text \<open>
  \<^bold>\<open>What the lemmas show.\<close>  The store: every sequence of its operations acts as an abstract machine on tables and
  counters does, ids stay distinct, a save cut off anywhere leaves the old or the new file, and a failed transaction
  rolls back.  As long as no transaction fails over changes that are not yet written, every change that a restart would
  lose has a timer that writes it, and a flush makes the tables survive a restart; a transaction that fails over such
  changes strands them (\<open>rollback_strands_earlier_changes\<close>).  The repositories: each listing equals a reference definition (filter, stable sort, page), stock and code
  uses keep their balances, logins find the same user again.  The routes: nobody passes the administration without
  the token, a customer's route runs as the user of a signed token, orders of others are refused, GET requests change
  no row, except that the return from WeChat's login may add or refresh a user.  Payments: a notification changes rows
  only when it decrypts to a success and, if the platform's key can be read, verifies; the signatures cover what they should.  The
  FLcode service: without the password nothing changes, stored codes keep their form.  The mini program: the cart
  refines a function from keys to quantities, a restart gives back the session or none after a logout, the product page is consistent
  in every order of events, an offer survives its way through an address, the cart is lost by a payment only, scrolling
  shows a customer's orders once each and ends.  Client and server together: a login opens the routes as its user,
  while checkout, payment and welfare offers cannot succeed against this server, which is stated and proved as such.
  The browser clients: the administrator's login works exactly with the shipped token, the form's watchers amount to
  independent formulas, a spinner always has a timer, tabs and modules agree, the start page shows the server's
  listing but never more than twenty homes, and what is entered in the form is what the mall shows.  The scripts: the
  migrations pass their own checks, are complete and idempotent and undo what fails, the comparison with a backup is
  exact for items but blind to the amounts of orders, and a sheet made from the template is imported field by field.

  \<^bold>\<open>Interfaces.\<close>  \<open>row_store\<close> (what a repository needs of its table; interpreted on the file store), \<open>js_comparator\<close> (a
  total preorder to sort by; interpreted on the four comparators of the listings), \<open>guard\<close> (a check before a handler;
  interpreted on the administrator guard), \<open>request_effect\<close> (a relation that every handler keeps, lifted through
  routers and mounts; interpreted on reading, on reading but for the users, and on numbering), \<open>order_pages\<close> (a network that pages a list of
  orders; interpreted on the server behind the network), \<open>mall_lists\<close> (a network that answers searches for homes;
  interpreted likewise).

  \<^bold>\<open>Bounds and fuel.\<close>  \<open>json_parse\<close> runs with fuel twice the length of the text and two more, \<open>uri_decode\<close> with the length
  of the text; \<open>Parser_Fuel\<close> shows that more fuel changes no result.  The other recursions are structural or have a
  termination proof.  A page of a listing has at most 100 rows.  Theorems are for all inputs unless a hypothesis says
  otherwise.

  \<^bold>\<open>Idealised.\<close>  Numbers are exact rationals where the language has doubles; strings are their UTF-8 bytes, so that
  lengths agree for ASCII only, and case conversion is that of ASCII; a query parameter is one text; an operation reads
  the clock once.  Arguments of the definitions stand for what is not in the repository: the HTTP client, keyed hashes,
  RSA and decryption, random text, the texts of the schema library and of type errors, the reader of spreadsheets, the
  answers of \<open>wx\<close>, the reading of written dates, the collation of the database and the effect
  of a file of statements, the check of a form's rules, the mini program's runtime taking the address of a page apart (assumed
  to hand over each \<open>key=value\<close> pair as it stands), for the atomic save the text of the stored data (assumed to read back), and what the list component of the
  mall does to the loading flag before it emits \<open>load\<close> (by its documentation it sets it).

  \<^bold>\<open>Not modelled.\<close> Static files and template downloads; the routes that \<open>DIAG_ENABLED=true\<close> adds are modelled as handlers
  but not mounted; the MySQL pool, which nothing uses; of the
  scripts the reports on the console and in files, the choice of the connection, and the shell scripts; styles and the
  markup of the Vue clients, of which only the values shown by the mall's two pages are modelled; messages, dialogs (their
  answer is an argument), scrolling, dragging (but for the callback), sharing, and telephone links; of the mini
  program handlers that interleave on its list pages (on the product page they do).
\<close>

end
